(* ===== verification/Fuji_Prelude.thy ===== *)
theory Fuji_Prelude
  imports Main "HOL-Library.Word"
begin

text \<open>
  Shared vocabulary of the development: the machine types of the sources, the collections of
  rewrite rules the component theories extend, and the facts on lists and words that several
  components need.
\<close>

unbundle bit_operations_syntax

type_synonym byte = "8 word"
type_synonym u16 = "16 word"
type_synonym u32 = "32 word"
type_synonym size_t = "64 word"

text \<open>
  \<open>model_defs\<close> collects the definitions a component proof unfolds, \<open>frame_simps\<close> the equations
  saying which fields an operation leaves alone, \<open>wf_intros\<close> the preservation of invariants.
\<close>

named_theorems model_defs
named_theorems frame_simps
named_theorems wf_intros

section \<open>Lists\<close>

text \<open>The bytes of \<open>xs\<close> at the offsets \<open>from \<le> k < to\<close>.\<close>

definition slice :: "'a list \<Rightarrow> nat \<Rightarrow> nat \<Rightarrow> 'a list" where
  "slice xs from to = take (to - from) (drop from xs)"

lemma slice_empty [simp]: "slice xs n n = []"
  by (simp add: slice_def)

lemma slice_full [simp]: "slice xs 0 (length xs) = xs"
  by (simp add: slice_def)

lemma length_slice: "to \<le> length xs \<Longrightarrow> length (slice xs from to) = to - from"
  by (simp add: slice_def)

lemma slice_Suc: "from \<le> i \<Longrightarrow> i < length xs \<Longrightarrow> slice xs from (Suc i) = slice xs from i @ [xs ! i]"
  by (simp add: slice_def Suc_diff_le take_Suc_conv_app_nth)

lemma take_update_last: "n < length xs \<Longrightarrow> take (Suc n) (xs[n := x]) = take n xs @ [x]"
  by (simp add: take_Suc_conv_app_nth)

text \<open>A NUL-terminated string at offset \<open>p\<close> of a memory block.\<close>

definition cstr_at :: "byte list \<Rightarrow> nat \<Rightarrow> byte list" where
  "cstr_at mem p = takeWhile (\<lambda>b. b \<noteq> 0) (drop p mem)"

lemma takeWhile_append_stop: "\<forall>x\<in>set xs. P x \<Longrightarrow> \<not> P y \<Longrightarrow> takeWhile P (xs @ y # ys) = xs"
  by (induction xs) auto

lemma takeWhile_stop: "\<not> P y \<Longrightarrow> takeWhile P (xs @ y # ys) = takeWhile P xs"
  by (induction xs) auto

lemma takeWhile_full: "length (takeWhile P xs) = length xs \<Longrightarrow> takeWhile P xs = xs"
  by (induction xs) (auto split: if_splits)

lemma cstr_at_prefix:
  assumes "take (Suc (p + length s)) mem = pre @ s @ [0]" "length pre = p"
  shows "cstr_at mem p = takeWhile (\<lambda>b. b \<noteq> 0) s"
proof -
  have "mem = take (Suc (p + length s)) mem @ drop (Suc (p + length s)) mem" by simp
  then have "drop p mem = s @ 0 # drop (Suc (p + length s)) mem"
    using assms by (metis append.assoc append_Cons append_Nil append_eq_conv_conj)
  then show ?thesis by (simp add: cstr_at_def takeWhile_stop)
qed

section \<open>Bytes\<close>

text \<open>A statement about every byte is a statement about a list of 256 values.\<close>

lemma all_byte_enum: "(\<forall>x::byte. P x) \<longleftrightarrow> list_all P (map word_of_nat [0..<256])"
  using enum_UNIV [where 'a = byte] by (auto simp: enum_word_def list_all_iff)

lemma and_15: "(x::byte) AND 15 = take_bit 4 x"
  by (simp add: take_bit_eq_mask mask_eq_exp_minus_1)

lemma take4_id: "(x::byte) < 16 \<Longrightarrow> take_bit 4 x = x"
  by (rule unsigned_word_eqI [where ?'a = nat])
    (simp add: unsigned_take_bit_eq word_less_nat_alt take_bit_nat_eq_self)

lemma and_15_less: "(x::byte) AND 15 < 16"
  using word_and_le1 [of x 15] by (rule le_less_trans) simp

lemma le_5_less_16: "(x::byte) \<le> 5 \<Longrightarrow> x < 16"
  by (erule le_less_trans) simp

lemma drop4_and_240: "drop_bit 4 ((x::byte) AND 240) = drop_bit 4 x"
proof -
  have "\<forall>x::byte. drop_bit 4 (x AND 240) = drop_bit 4 x"
    unfolding all_byte_enum by code_simp
  then show ?thesis ..
qed

lemma drop4_less: "drop_bit 4 (x::byte) < 16"
proof -
  have "\<forall>x::byte. drop_bit 4 x < 16"
    unfolding all_byte_enum by code_simp
  then show ?thesis ..
qed

lemma bit_less_16: "(x::byte) < 16 \<Longrightarrow> bit x n \<Longrightarrow> n < 4"
  by (metis bit_take_bit_iff take4_id)

lemma bit_128: "bit (128::byte) n \<longleftrightarrow> n = 7"
proof -
  have "(128::byte) = push_bit 7 1" by (simp add: push_bit_eq_mult)
  then show ?thesis by (auto simp only: bit_push_bit_iff bit_1_iff) (simp_all add: bit_word_half_eq)
qed

lemma ucast_of_nat_byte: "(ucast (of_nat k :: u32) :: byte) = of_nat k"
  by (simp only: unsigned_of_nat word_of_nat_eq_iff take_bit_take_bit) simp

lemma low_nibble_or: "(x::byte) < 16 \<Longrightarrow> take_bit 4 (x OR push_bit 4 y) = x"
  by (rule bit_word_eqI) (auto simp: bit_simps dest: bit_less_16)

lemma high_nibble_or: "(x::byte) < 16 \<Longrightarrow> y < 16 \<Longrightarrow> drop_bit 4 (x OR push_bit 4 y) = y"
  by (rule bit_word_eqI) (auto simp: bit_simps dest: bit_less_16)

lemma bit_cases_8:
  fixes x y :: byte
  assumes "bit x 0 = bit y 0" "bit x 1 = bit y 1" "bit x 2 = bit y 2" "bit x 3 = bit y 3"
    "bit x 4 = bit y 4" "bit x 5 = bit y 5" "bit x 6 = bit y 6" "bit x 7 = bit y 7"
  shows "x = y"
proof (rule bit_word_eqI)
  fix n :: nat
  assume "n < LENGTH(8)"
  then have "n \<in> {0, 1, 2, 3, 4, 5, 6, 7}" by auto
  then show "bit x n = bit y n" using assms by auto
qed

lemma bit_byte_ge: "8 \<le> n \<Longrightarrow> \<not> bit (x::byte) n"
  using bit_imp_le_length [of x n] by auto

end
