(* ===== verification/Telnet_Types.thy ===== *)
theory Telnet_Types
  imports Fuji_Prelude
begin

text \<open>
  Data of the TELNET protocol library (\<open>src/lib/telnet/libtelnet.c\<close> and \<open>libtelnet.h\<close>): the
  protocol constants, the state tracker \<open>telnet_t\<close>, the events it reports, and the primitive
  operations every other routine is built from.

  The event handler \<open>telnet->eh\<close> is user code. The model appends every event to a log
  (\<open>t_evs\<close>), in the order the calls are made; \<open>Telnet_Adapter\<close> then runs FujiNet's own handler over
  the log. \<open>HAVE_ZLIB\<close> is defined by no build file of the repository, so the compression
  branches are not part of the program that is compiled and are left out.

  The outcome of \<open>malloc\<close>, \<open>calloc\<close> and \<open>realloc\<close> belongs to the environment. The tracker
  carries the outcomes of the coming requests (\<open>t_heap\<close>): \<open>False\<close> is a request that fails, and
  after the end of the list every request succeeds.
\<close>

section \<open>Protocol constants\<close>

abbreviation (input) TELNET_IAC :: byte where "TELNET_IAC \<equiv> 255"
abbreviation (input) TELNET_DONT :: byte where "TELNET_DONT \<equiv> 254"
abbreviation (input) TELNET_DO :: byte where "TELNET_DO \<equiv> 253"
abbreviation (input) TELNET_WONT :: byte where "TELNET_WONT \<equiv> 252"
abbreviation (input) TELNET_WILL :: byte where "TELNET_WILL \<equiv> 251"
abbreviation (input) TELNET_SB :: byte where "TELNET_SB \<equiv> 250"
abbreviation (input) TELNET_SE :: byte where "TELNET_SE \<equiv> 240"

abbreviation (input) TELNET_TELOPT_BINARY :: byte where "TELNET_TELOPT_BINARY \<equiv> 0"
abbreviation (input) TELNET_TELOPT_ECHO :: byte where "TELNET_TELOPT_ECHO \<equiv> 1"
abbreviation (input) TELNET_TELOPT_TTYPE :: byte where "TELNET_TELOPT_TTYPE \<equiv> 24"
abbreviation (input) TELNET_TELOPT_ENVIRON :: byte where "TELNET_TELOPT_ENVIRON \<equiv> 36"
abbreviation (input) TELNET_TELOPT_NEW_ENVIRON :: byte where "TELNET_TELOPT_NEW_ENVIRON \<equiv> 39"
abbreviation (input) TELNET_TELOPT_MSSP :: byte where "TELNET_TELOPT_MSSP \<equiv> 70"
abbreviation (input) TELNET_TELOPT_COMPRESS :: byte where "TELNET_TELOPT_COMPRESS \<equiv> 85"
abbreviation (input) TELNET_TELOPT_COMPRESS2 :: byte where "TELNET_TELOPT_COMPRESS2 \<equiv> 86"
abbreviation (input) TELNET_TELOPT_ZMP :: byte where "TELNET_TELOPT_ZMP \<equiv> 93"

abbreviation (input) TELNET_TTYPE_IS :: byte where "TELNET_TTYPE_IS \<equiv> 0"
abbreviation (input) TELNET_TTYPE_SEND :: byte where "TELNET_TTYPE_SEND \<equiv> 1"
abbreviation (input) TELNET_ENVIRON_IS :: byte where "TELNET_ENVIRON_IS \<equiv> 0"
abbreviation (input) TELNET_ENVIRON_SEND :: byte where "TELNET_ENVIRON_SEND \<equiv> 1"
abbreviation (input) TELNET_ENVIRON_INFO :: byte where "TELNET_ENVIRON_INFO \<equiv> 2"
abbreviation (input) TELNET_ENVIRON_VAR :: byte where "TELNET_ENVIRON_VAR \<equiv> 0"
abbreviation (input) TELNET_ENVIRON_VALUE :: byte where "TELNET_ENVIRON_VALUE \<equiv> 1"
abbreviation (input) TELNET_ENVIRON_ESC :: byte where "TELNET_ENVIRON_ESC \<equiv> 2"
abbreviation (input) TELNET_ENVIRON_USERVAR :: byte where "TELNET_ENVIRON_USERVAR \<equiv> 3"
abbreviation (input) TELNET_MSSP_VAR :: byte where "TELNET_MSSP_VAR \<equiv> 1"
abbreviation (input) TELNET_MSSP_VAL :: byte where "TELNET_MSSP_VAL \<equiv> 2"

text \<open>Bits of \<open>flags\<close>.\<close>

abbreviation (input) TELNET_FLAG_PROXY :: byte where "TELNET_FLAG_PROXY \<equiv> 1"
abbreviation (input) TELNET_FLAG_NVT_EOL :: byte where "TELNET_FLAG_NVT_EOL \<equiv> 2"
abbreviation (input) TELNET_FLAG_TRANSMIT_BINARY :: byte where "TELNET_FLAG_TRANSMIT_BINARY \<equiv> 32"
abbreviation (input) TELNET_FLAG_RECEIVE_BINARY :: byte where "TELNET_FLAG_RECEIVE_BINARY \<equiv> 64"

text \<open>RFC 1143 states of one side of an option.\<close>

abbreviation (input) Q_NO :: byte where "Q_NO \<equiv> 0"
abbreviation (input) Q_YES :: byte where "Q_YES \<equiv> 1"
abbreviation (input) Q_WANTNO :: byte where "Q_WANTNO \<equiv> 2"
abbreviation (input) Q_WANTYES :: byte where "Q_WANTYES \<equiv> 3"
abbreviation (input) Q_WANTNO_OP :: byte where "Q_WANTNO_OP \<equiv> 4"
abbreviation (input) Q_WANTYES_OP :: byte where "Q_WANTYES_OP \<equiv> 5"

section \<open>Data types\<close>

datatype telnet_state =
    TELNET_STATE_DATA
  | TELNET_STATE_EOL
  | TELNET_STATE_IAC
  | TELNET_STATE_WILL
  | TELNET_STATE_WONT
  | TELNET_STATE_DO
  | TELNET_STATE_DONT
  | TELNET_STATE_SB
  | TELNET_STATE_SB_DATA
  | TELNET_STATE_SB_DATA_IAC

datatype telnet_error =
    TELNET_EOK
  | TELNET_EBADVAL
  | TELNET_ENOMEM
  | TELNET_EOVERFLOW
  | TELNET_EPROTOCOL
  | TELNET_ECOMPRESS

text \<open>
  Events, with the data the handler can reach through them. A variable of an ENVIRON or MSSP event
  has its type and its two strings; \<open>None\<close> is a null pointer. \<open>EvWarning\<close> has the format
  of the message and the bytes it formats. The last two constructors are not events of the
  library: \<open>EvDataWild\<close> is a DATA event whose pointer and size do not lie inside the input (the
  offset and the wrapped \<open>size_t\<close>), \<open>EvOverread\<close> a read by the parser of an option at an offset
  past the end of an allocated block.
\<close>

type_synonym environ_var = "byte \<times> byte list option \<times> byte list option"

datatype telnet_event =
    EvData "byte list"
  | EvSend "byte list"
  | EvIac byte
  | EvWill byte
  | EvWont byte
  | EvDo byte
  | EvDont byte
  | EvSubnegotiation byte "byte list"
  | EvZmp "byte list list"
  | EvTtype byte "byte list option"
  | EvEnviron byte "environ_var list"
  | EvMssp "environ_var list"
  | EvWarning string "byte list"
  | EvError string "byte list"
  | EvDataWild nat size_t
  | EvOverread byte nat

text \<open>One row of the application's option table; \<open>opt_telopt\<close> is \<open>- 1\<close> in the end marker.\<close>

record telnet_telopt =
  opt_telopt :: int
  opt_us :: byte
  opt_him :: byte

record telnet_rfc1143 =
  q_telopt :: byte
  q_state :: byte

record telnet =
  t_telopts :: "telnet_telopt list option"
  t_q :: "telnet_rfc1143 list"
  t_buffer :: "byte list"
  t_buffer_size :: nat
  t_buffer_pos :: nat
  t_state :: telnet_state
  t_flags :: byte
  t_sb_telopt :: byte
  t_q_size :: nat
  t_q_cnt :: nat
  t_heap :: "bool list"
  t_evs :: "telnet_event list"

definition Q_US :: "telnet_rfc1143 \<Rightarrow> byte" where
  "Q_US q = q_state q AND 0x0F"

definition Q_HIM :: "telnet_rfc1143 \<Rightarrow> byte" where
  "Q_HIM q = drop_bit 4 (q_state q AND 0xF0)"

definition Q_MAKE :: "byte \<Rightarrow> byte \<Rightarrow> byte" where
  "Q_MAKE us him = us OR push_bit 4 him"

section \<open>Primitive operations\<close>

definition emit :: "telnet \<Rightarrow> telnet_event \<Rightarrow> telnet" where
  "emit t ev = t\<lparr>t_evs := t_evs t @ [ev]\<rparr>"

definition alloc :: "telnet \<Rightarrow> bool \<times> telnet" where
  "alloc t = (case t_heap t of [] \<Rightarrow> (True, t) | ok # rest \<Rightarrow> (ok, t\<lparr>t_heap := rest\<rparr>))"

text \<open>\<open>_error\<close>: reports an event of kind ERROR or WARNING and returns the code it was given.\<close>

definition error_ev :: "telnet \<Rightarrow> telnet_error \<Rightarrow> bool \<Rightarrow> string \<Rightarrow> byte list \<Rightarrow> telnet_error \<times> telnet"
where
  "error_ev t err fatal fmt args =
     (err, emit t (if fatal then EvError fmt args else EvWarning fmt args))"

definition flag_set :: "telnet \<Rightarrow> byte \<Rightarrow> bool" where
  "flag_set t f \<longleftrightarrow> t_flags t AND f \<noteq> 0"

definition send_t :: "telnet \<Rightarrow> byte list \<Rightarrow> telnet" where
  "send_t t bytes = emit t (EvSend bytes)"

definition telnet_init :: "telnet_telopt list option \<Rightarrow> byte \<Rightarrow> bool list \<Rightarrow> telnet option" where
  "telnet_init opts fl heap =
     (let t = \<lparr>t_telopts = opts, t_q = [], t_buffer = [], t_buffer_size = 0, t_buffer_pos = 0,
               t_state = TELNET_STATE_DATA, t_flags = fl, t_sb_telopt = 0, t_q_size = 0,
               t_q_cnt = 0, t_heap = heap, t_evs = []\<rparr>
      in case alloc t of (ok, t') \<Rightarrow> if ok then Some t' else None)"

text \<open>\<open>telnet_free\<close>: the pointers and sizes after both blocks are released; the structure itself goes too.\<close>

definition telnet_free :: "telnet \<Rightarrow> telnet" where
  "telnet_free t =
     t\<lparr>t_buffer := [], t_buffer_size := 0, t_buffer_pos := 0, t_q := [], t_q_size := 0, t_q_cnt := 0\<rparr>"

section \<open>Facts on the primitives\<close>

lemma emit_fields [simp]:
  "t_telopts (emit t e) = t_telopts t" "t_q (emit t e) = t_q t"
  "t_buffer (emit t e) = t_buffer t" "t_buffer_size (emit t e) = t_buffer_size t"
  "t_buffer_pos (emit t e) = t_buffer_pos t" "t_state (emit t e) = t_state t"
  "t_flags (emit t e) = t_flags t" "t_sb_telopt (emit t e) = t_sb_telopt t"
  "t_q_size (emit t e) = t_q_size t" "t_q_cnt (emit t e) = t_q_cnt t"
  "t_heap (emit t e) = t_heap t" "t_evs (emit t e) = t_evs t @ [e]"
  by (simp_all add: emit_def)

lemma alloc_empty [simp]: "t_heap t = [] \<Longrightarrow> alloc t = (True, t)"
  by (simp add: alloc_def)

lemma alloc_cases: "alloc t = (ok, t') \<Longrightarrow> \<exists>h. t' = t\<lparr>t_heap := h\<rparr>"
  by (auto simp: alloc_def split: list.splits intro: exI [of _ "t_heap t"])

lemma Q_US_make: "us < 16 \<Longrightarrow> Q_US \<lparr>q_telopt = opt, q_state = Q_MAKE us him\<rparr> = us"
  by (simp only: Q_US_def Q_MAKE_def telnet_rfc1143.select_convs and_15 low_nibble_or)

lemma Q_HIM_make:
  "us < 16 \<Longrightarrow> him < 16 \<Longrightarrow> Q_HIM \<lparr>q_telopt = opt, q_state = Q_MAKE us him\<rparr> = him"
  by (simp only: Q_HIM_def Q_MAKE_def telnet_rfc1143.select_convs drop4_and_240 high_nibble_or)

lemma Q_US_less: "Q_US q < 16" and Q_HIM_less: "Q_HIM q < 16"
  by (simp_all only: Q_US_def Q_HIM_def and_15_less drop4_and_240 drop4_less)

end
