(* ===== verification/Q_Method.thy ===== *)
theory Q_Method
  imports Fuji_Prelude
begin

text \<open>
  The abstract specification of option negotiation: the Q method of RFC 1143 on one side of one
  option, which \<open>Telnet_Opt\<close> shows the code to implement, and two endpoints running it over a pair
  of FIFO channels. Every interleaving of requests and deliveries is covered by the step relation.
  \<open>Telnet_Peers\<close> carries the result over to two trackers of the library.
\<close>

section \<open>The Q method, one side of one option\<close>

datatype qside = QNo | QYes | QWantNo | QWantYes | QWantNoOp | QWantYesOp

text \<open>
  RFC 1143, section 7: the new state of a side and the answer sent (\<open>Some True\<close> is WILL or DO,
  \<open>Some False\<close> is WONT or DONT) when the peer asks to enable the option, when it asks to disable
  it, and when the application asks for either. \<open>agree\<close> says whether the option is supported.
\<close>

fun recv_enable :: "bool \<Rightarrow> qside \<Rightarrow> qside \<times> bool option" where
  "recv_enable agree QNo = (if agree then (QYes, Some True) else (QNo, Some False))"
| "recv_enable agree QYes = (QYes, None)"
| "recv_enable agree QWantNo = (QNo, None)"
| "recv_enable agree QWantNoOp = (QYes, None)"
| "recv_enable agree QWantYes = (QYes, None)"
| "recv_enable agree QWantYesOp = (QWantNo, Some False)"

fun recv_disable :: "qside \<Rightarrow> qside \<times> bool option" where
  "recv_disable QNo = (QNo, None)"
| "recv_disable QYes = (QNo, Some False)"
| "recv_disable QWantNo = (QNo, None)"
| "recv_disable QWantNoOp = (QWantYes, Some True)"
| "recv_disable QWantYes = (QNo, None)"
| "recv_disable QWantYesOp = (QNo, None)"

fun ask :: "bool \<Rightarrow> qside \<Rightarrow> qside \<times> bool option" where
  "ask True QNo = (QWantYes, Some True)"
| "ask True QWantNo = (QWantNoOp, None)"
| "ask True QWantYesOp = (QWantYes, None)"
| "ask False QYes = (QWantNo, Some False)"
| "ask False QWantYes = (QWantYesOp, None)"
| "ask False QWantNoOp = (QWantNo, None)"
| "ask en s = (s, None)"

definition recv_side :: "bool \<Rightarrow> bool \<Rightarrow> qside \<Rightarrow> qside \<times> bool option" where
  "recv_side agree enable s = (if enable then recv_enable agree s else recv_disable s)"

section \<open>Two endpoints\<close>

text \<open>
  One end holds its own side of the option (\<open>us\<close>), the other end holds the same side seen from
  afar (\<open>him\<close>); commands travel in two FIFO channels, \<open>True\<close> for WILL and DO, \<open>False\<close> for WONT
  and DONT. Either application may ask for either setting at any time.
\<close>

type_synonym config = "qside \<times> qside \<times> bool list \<times> bool list"

definition put_answer :: "bool list \<Rightarrow> bool option \<Rightarrow> bool list" where
  "put_answer ch a = ch @ (case a of None \<Rightarrow> [] | Some b \<Rightarrow> [b])"

inductive q_deliver :: "bool \<Rightarrow> bool \<Rightarrow> config \<Rightarrow> config \<Rightarrow> bool" for agree_a agree_b where
  to_b: "recv_side agree_b m b = (b', r) \<Longrightarrow>
     q_deliver agree_a agree_b (a, b, m # ab, ba) (a, b', ab, put_answer ba r)"
| to_a: "recv_side agree_a m a = (a', r) \<Longrightarrow>
     q_deliver agree_a agree_b (a, b, ab, m # ba) (a', b, put_answer ab r, ba)"

inductive q_ask :: "config \<Rightarrow> config \<Rightarrow> bool" where
  ask_a: "ask en a = (a', r) \<Longrightarrow> q_ask (a, b, ab, ba) (a', b, put_answer ab r, ba)"
| ask_b: "ask en b = (b', r) \<Longrightarrow> q_ask (a, b, ab, ba) (a, b', ab, put_answer ba r)"

inductive q_reach :: "bool \<Rightarrow> bool \<Rightarrow> config \<Rightarrow> bool" for agree_a agree_b where
  start: "q_reach agree_a agree_b (QNo, QNo, [], [])"
| request: "q_reach agree_a agree_b c \<Longrightarrow> q_ask c c' \<Longrightarrow> q_reach agree_a agree_b c'"
| delivery: "q_reach agree_a agree_b c \<Longrightarrow> q_deliver agree_a agree_b c c' \<Longrightarrow> q_reach agree_a agree_b c'"

inductive_cases q_deliverE: "q_deliver agree_a agree_b (a, b, ab, ba) c'"
inductive_cases q_askE: "q_ask (a, b, ab, ba) c'"

text \<open>The successors of a configuration, computed.\<close>

definition ask_succs :: "config \<Rightarrow> config list" where
  "ask_succs c = (case c of (a, b, ab, ba) \<Rightarrow>
     map (\<lambda>en. case ask en a of (a', r) \<Rightarrow> (a', b, put_answer ab r, ba)) [False, True] @
     map (\<lambda>en. case ask en b of (b', r) \<Rightarrow> (a, b', ab, put_answer ba r)) [False, True])"

definition deliver_succs :: "bool \<Rightarrow> bool \<Rightarrow> config \<Rightarrow> config list" where
  "deliver_succs agree_a agree_b c = (case c of (a, b, ab, ba) \<Rightarrow>
     (case ab of [] \<Rightarrow> [] | m # ab' \<Rightarrow>
        (case recv_side agree_b m b of (b', r) \<Rightarrow> [(a, b', ab', put_answer ba r)])) @
     (case ba of [] \<Rightarrow> [] | m # ba' \<Rightarrow>
        (case recv_side agree_a m a of (a', r) \<Rightarrow> [(a', b, put_answer ab r, ba')])))"

lemma q_ask_succs:
  assumes "q_ask c c'"
  shows "c' \<in> set (ask_succs c)"
  using assms
proof cases
  case (ask_a en)
  then show ?thesis by (cases en) (simp_all add: ask_succs_def)
next
  case (ask_b en)
  then show ?thesis by (cases en) (simp_all add: ask_succs_def)
qed

lemma q_deliver_succs: "q_deliver agree_a agree_b c c' \<longleftrightarrow> c' \<in> set (deliver_succs agree_a agree_b c)"
proof
  assume "q_deliver agree_a agree_b c c'"
  then show "c' \<in> set (deliver_succs agree_a agree_b c)"
    by (cases rule: q_deliver.cases) (auto simp: deliver_succs_def)
next
  assume "c' \<in> set (deliver_succs agree_a agree_b c)"
  then show "q_deliver agree_a agree_b c c'"
    by (auto simp: deliver_succs_def split: prod.splits list.splits intro: q_deliver.intros)
qed

text \<open>The configurations found by exploring from the start.\<close>

fun explore :: "nat \<Rightarrow> bool \<Rightarrow> bool \<Rightarrow> config list \<Rightarrow> config list \<Rightarrow> config list" where
  "explore 0 agree_a agree_b seen todo = seen"
| "explore (Suc n) agree_a agree_b seen [] = seen"
| "explore (Suc n) agree_a agree_b seen (c # todo) =
     (if c \<in> set seen then explore n agree_a agree_b seen todo
      else explore n agree_a agree_b (c # seen)
        (ask_succs c @ deliver_succs agree_a agree_b c @ todo))"

definition q_configs :: "bool \<Rightarrow> bool \<Rightarrow> config list" where
  "q_configs agree_a agree_b = explore 1000 agree_a agree_b [] [(QNo, QNo, [], [])]"

definition closed_under :: "bool \<Rightarrow> bool \<Rightarrow> config list \<Rightarrow> bool" where
  "closed_under agree_a agree_b cs \<longleftrightarrow> (QNo, QNo, [], []) \<in> set cs \<and>
     list_all (\<lambda>c. list_all (\<lambda>d. d \<in> set cs) (ask_succs c @ deliver_succs agree_a agree_b c)) cs"

lemma closed_q_configs: "closed_under agree_a agree_b (q_configs agree_a agree_b)"
proof -
  have "closed_under False False (q_configs False False)" by code_simp
  moreover have "closed_under False True (q_configs False True)" by code_simp
  moreover have "closed_under True False (q_configs True False)" by code_simp
  moreover have "closed_under True True (q_configs True True)" by code_simp
  ultimately show ?thesis by (cases agree_a; cases agree_b) simp_all
qed

lemma reach_q_configs: "q_reach agree_a agree_b c \<Longrightarrow> c \<in> set (q_configs agree_a agree_b)"
proof (induction rule: q_reach.induct)
  case start
  then show ?case using closed_q_configs by (simp add: closed_under_def)
next
  case (request c c')
  then show ?case
    using closed_q_configs [of agree_a agree_b] q_ask_succs
    by (auto simp: closed_under_def list_all_iff)
next
  case (delivery c c')
  then show ?case
    using closed_q_configs [of agree_a agree_b] q_deliver_succs
    by (auto simp: closed_under_def list_all_iff)
qed

text \<open>
  What is read off the finite set: when nothing is in flight both ends hold the same settled
  state, at most two commands are in flight in each direction, and a request to enable never
  meets an end that has asked to disable (the case RFC 1143 calls an error).
\<close>

definition settled :: "config \<Rightarrow> bool" where
  "settled c = (case c of (a, b, ab, ba) \<Rightarrow> ab = [] \<and> ba = [])"

definition agreed :: "config \<Rightarrow> bool" where
  "agreed c = (case c of (a, b, ab, ba) \<Rightarrow> a = b \<and> (a = QNo \<or> a = QYes))"

definition no_conflict :: "config \<Rightarrow> bool" where
  "no_conflict c = (case c of (a, b, ab, ba) \<Rightarrow>
     (ab \<noteq> [] \<and> hd ab \<longrightarrow> b \<noteq> QWantNo \<and> b \<noteq> QWantNoOp) \<and>
     (ba \<noteq> [] \<and> hd ba \<longrightarrow> a \<noteq> QWantNo \<and> a \<noteq> QWantNoOp))"

definition config_ok :: "config \<Rightarrow> bool" where
  "config_ok c \<longleftrightarrow> (settled c \<longrightarrow> agreed c) \<and> no_conflict c \<and>
     length (fst (snd (snd c))) \<le> 2 \<and> length (snd (snd (snd c))) \<le> 2"

text \<open>All ways of delivering what is in flight come to an end within \<open>n\<close> deliveries.\<close>

fun drains :: "nat \<Rightarrow> bool \<Rightarrow> bool \<Rightarrow> config \<Rightarrow> bool" where
  "drains 0 agree_a agree_b c = (deliver_succs agree_a agree_b c = [])"
| "drains (Suc n) agree_a agree_b c =
     list_all (drains n agree_a agree_b) (deliver_succs agree_a agree_b c)"

lemma configs_ok: "list_all (\<lambda>c. config_ok c \<and> drains 5 agree_a agree_b c) (q_configs agree_a agree_b)"
proof -
  have "list_all (\<lambda>c. config_ok c \<and> drains 5 False False c) (q_configs False False)" by code_simp
  moreover have "list_all (\<lambda>c. config_ok c \<and> drains 5 False True c) (q_configs False True)" by code_simp
  moreover have "list_all (\<lambda>c. config_ok c \<and> drains 5 True False c) (q_configs True False)" by code_simp
  moreover have "list_all (\<lambda>c. config_ok c \<and> drains 5 True True c) (q_configs True True)" by code_simp
  ultimately show ?thesis by (cases agree_a; cases agree_b) simp_all
qed

lemma reach_ok: "q_reach agree_a agree_b c \<Longrightarrow> config_ok c \<and> drains 5 agree_a agree_b c"
  using reach_q_configs [of agree_a agree_b c] configs_ok [of agree_a agree_b]
  by (auto simp: list_all_iff)

lemma drains_bound: "drains n agree_a agree_b c \<Longrightarrow> (q_deliver agree_a agree_b ^^ k) c c' \<Longrightarrow> k \<le> n"
proof (induction n arbitrary: c k)
  case 0
  show ?case
  proof (cases k)
    case (Suc m)
    with "0.prems"(2) obtain d where "q_deliver agree_a agree_b c d" by (meson relpowp_Suc_D2)
    with "0.prems"(1) show ?thesis by (simp add: q_deliver_succs)
  qed simp
next
  case (Suc n)
  show ?case
  proof (cases k)
    case (Suc m)
    with Suc.prems obtain d where "q_deliver agree_a agree_b c d" "(q_deliver agree_a agree_b ^^ m) d c'"
      by (meson relpowp_Suc_D2)
    moreover from this Suc.prems(1) have "drains n agree_a agree_b d"
      by (simp add: q_deliver_succs list_all_iff)
    ultimately have "m \<le> n" by (intro Suc.IH [of d])
    with Suc show ?thesis by simp
  qed simp
qed

lemma deliver_reach:
  "(q_deliver agree_a agree_b ^^ k) c c' \<Longrightarrow> q_reach agree_a agree_b c \<Longrightarrow> q_reach agree_a agree_b c'"
proof (induction k arbitrary: c')
  case (Suc k)
  then obtain d where "(q_deliver agree_a agree_b ^^ k) c d" "q_deliver agree_a agree_b d c'" by auto
  with Suc show ?case by (meson q_reach.delivery)
qed simp

lemma stuck_settled: "deliver_succs agree_a agree_b c = [] \<longleftrightarrow> settled c"
  by (auto simp: deliver_succs_def settled_def split: prod.splits list.splits)

text \<open>
  Two endpoints that run the Q method never loop and never disagree: in every
  configuration they can reach by any interleaving of requests and deliveries, no request to
  enable meets an end that asked to disable, and however the commands in flight are delivered,
  after at most five deliveries nothing is in flight, and then both ends hold the same settled
  state.
\<close>

theorem q_converges:
  assumes "q_reach agree_a agree_b c" "(q_deliver agree_a agree_b ^^ k) c c'"
  shows "k \<le> 5 \<and> no_conflict c' \<and> ((\<exists>d. q_deliver agree_a agree_b c' d) \<or> agreed c')"
proof -
  have "q_reach agree_a agree_b c'" using assms deliver_reach by blast
  then have ok: "config_ok c'" by (simp add: reach_ok)
  have "k \<le> 5" using assms reach_ok drains_bound by blast
  moreover have "(\<exists>d. q_deliver agree_a agree_b c' d) \<or> settled c'"
    using stuck_settled [of agree_a agree_b c'] by (metis last_in_set q_deliver_succs)
  ultimately show ?thesis using ok by (auto simp: config_ok_def)
qed

end
