(* ===== verification/Telnet_Opt.thy ===== *)
theory Telnet_Opt
  imports Telnet_Types Q_Method
begin

text \<open>
  Option negotiation of \<open>libtelnet.c\<close>: the table of RFC 1143 states (\<open>_get_rfc1143\<close>,
  \<open>_set_rfc1143\<close>), the handling of a received WILL, WONT, DO or DONT (\<open>_negotiate\<close>) and the
  application's requests (\<open>telnet_negotiate\<close>). The abstract specification is the RFC's Q method
  on one side of one option; the concrete routines are shown to implement it.
\<close>

section \<open>The option tables\<close>

fun check_telopt_rows :: "telnet_telopt list \<Rightarrow> byte \<Rightarrow> bool \<Rightarrow> bool" where
  "check_telopt_rows [] opt us = False"
| "check_telopt_rows (row # rows) opt us =
     (if opt_telopt row = - 1 then False
      else if opt_telopt row = uint opt then
        (if us \<and> opt_us row = TELNET_WILL then True
         else if \<not> us \<and> opt_him row = TELNET_DO then True
         else False)
      else check_telopt_rows rows opt us)"

definition check_telopt :: "telnet \<Rightarrow> byte \<Rightarrow> bool \<Rightarrow> bool" where
  "check_telopt t opt us =
     (case t_telopts t of None \<Rightarrow> False | Some rows \<Rightarrow> check_telopt_rows rows opt us)"

text \<open>The search loop over the first \<open>q_cnt\<close> entries, as the index it stops at.\<close>

fun q_index :: "telnet_rfc1143 list \<Rightarrow> byte \<Rightarrow> nat option" where
  "q_index [] opt = None"
| "q_index (e # es) opt = (if q_telopt e = opt then Some 0 else map_option Suc (q_index es opt))"

definition get_rfc1143 :: "telnet \<Rightarrow> byte \<Rightarrow> telnet_rfc1143" where
  "get_rfc1143 t opt =
     (case q_index (take (t_q_cnt t) (t_q t)) opt of
        Some i \<Rightarrow> t_q t ! i
      | None \<Rightarrow> \<lparr>q_telopt = opt, q_state = 0\<rparr>)"

abbreviation (input) Q_BUFFER_GROWTH_QUANTUM :: nat where "Q_BUFFER_GROWTH_QUANTUM \<equiv> 4"

definition set_binary_flags :: "telnet \<Rightarrow> byte \<Rightarrow> byte \<Rightarrow> telnet" where
  "set_binary_flags t us him =
     (let fl = t_flags t AND NOT (TELNET_FLAG_TRANSMIT_BINARY OR TELNET_FLAG_RECEIVE_BINARY);
          fl = (if us = Q_YES then fl OR TELNET_FLAG_TRANSMIT_BINARY else fl);
          fl = (if him = Q_YES then fl OR TELNET_FLAG_RECEIVE_BINARY else fl)
      in t\<lparr>t_flags := fl\<rparr>)"

definition q_append :: "telnet \<Rightarrow> byte \<Rightarrow> byte \<Rightarrow> byte \<Rightarrow> telnet" where
  "q_append t opt us him =
     t\<lparr>t_q := (t_q t)[t_q_cnt t := \<lparr>q_telopt = opt, q_state = Q_MAKE us him\<rparr>],
       t_q_cnt := Suc (t_q_cnt t)\<rparr>"

definition set_rfc1143 :: "telnet \<Rightarrow> byte \<Rightarrow> byte \<Rightarrow> byte \<Rightarrow> telnet" where
  "set_rfc1143 t opt us him =
     (case q_index (take (t_q_cnt t) (t_q t)) opt of
        Some i \<Rightarrow>
          let t = t\<lparr>t_q := (t_q t)[i := (t_q t ! i)\<lparr>q_state := Q_MAKE us him\<rparr>]\<rparr>
          in if opt \<noteq> TELNET_TELOPT_BINARY then t else set_binary_flags t us him
      | None \<Rightarrow>
          if t_q_cnt t \<ge> t_q_size t then
            (case alloc t of (ok, t) \<Rightarrow>
               if \<not> ok then snd (error_ev t TELNET_ENOMEM False ''realloc() failed: %s'' [])
               else q_append
                 (t\<lparr>t_q := t_q t @ replicate Q_BUFFER_GROWTH_QUANTUM \<lparr>q_telopt = 0, q_state = 0\<rparr>,
                    t_q_size := t_q_size t + Q_BUFFER_GROWTH_QUANTUM\<rparr>) opt us him)
          else q_append t opt us him)"

definition send_negotiate :: "telnet \<Rightarrow> byte \<Rightarrow> byte \<Rightarrow> telnet" where
  "send_negotiate t cmd opt = send_t t [TELNET_IAC, cmd, opt]"

section \<open>Received negotiation\<close>

definition protocol_warning :: "telnet \<Rightarrow> string \<Rightarrow> telnet" where
  "protocol_warning t msg = snd (error_ev t TELNET_EPROTOCOL False msg [])"

text \<open>The four arms of the switch of \<open>_negotiate\<close>.\<close>

definition negotiate_will :: "telnet \<Rightarrow> byte \<Rightarrow> telnet" where
  "negotiate_will t opt =
     (let q = get_rfc1143 t opt; him = Q_HIM q in
      if him = Q_NO then
        if check_telopt t opt False then
          (let t = set_rfc1143 t opt (Q_US q) Q_YES;
               t = send_negotiate t TELNET_DO opt
           in emit t (EvWill opt))
        else send_negotiate t TELNET_DONT opt
      else if him = Q_WANTNO then
        (let t = set_rfc1143 t opt (Q_US q) Q_NO;
             t = emit t (EvWont opt)
         in protocol_warning t ''DONT answered by WILL'')
      else if him = Q_WANTNO_OP then
        (let t = set_rfc1143 t opt (Q_US q) Q_YES
         in protocol_warning t ''DONT answered by WILL'')
      else if him = Q_WANTYES then
        (let t = set_rfc1143 t opt (Q_US q) Q_YES
         in emit t (EvWill opt))
      else if him = Q_WANTYES_OP then
        (let t = set_rfc1143 t opt (Q_US q) Q_WANTNO;
             t = send_negotiate t TELNET_DONT opt
         in emit t (EvWill opt))
      else t)"

definition negotiate_wont :: "telnet \<Rightarrow> byte \<Rightarrow> telnet" where
  "negotiate_wont t opt =
     (let q = get_rfc1143 t opt; him = Q_HIM q in
      if him = Q_YES then
        (let t = set_rfc1143 t opt (Q_US q) Q_NO;
             t = send_negotiate t TELNET_DONT opt
         in emit t (EvWont opt))
      else if him = Q_WANTNO then
        (let t = set_rfc1143 t opt (Q_US q) Q_NO
         in emit t (EvWont opt))
      else if him = Q_WANTNO_OP then
        (let t = set_rfc1143 t opt (Q_US q) Q_WANTYES;
             t = send_negotiate t TELNET_DO opt
         in emit t (EvWont opt))
      else if him = Q_WANTYES \<or> him = Q_WANTYES_OP then
        set_rfc1143 t opt (Q_US q) Q_NO
      else t)"

definition negotiate_do :: "telnet \<Rightarrow> byte \<Rightarrow> telnet" where
  "negotiate_do t opt =
     (let q = get_rfc1143 t opt; us = Q_US q in
      if us = Q_NO then
        if check_telopt t opt True then
          (let t = set_rfc1143 t opt Q_YES (Q_HIM q);
               t = send_negotiate t TELNET_WILL opt
           in emit t (EvDo opt))
        else send_negotiate t TELNET_WONT opt
      else if us = Q_WANTNO then
        (let t = set_rfc1143 t opt Q_NO (Q_HIM q);
             t = emit t (EvDont opt)
         in protocol_warning t ''WONT answered by DO'')
      else if us = Q_WANTNO_OP then
        (let t = set_rfc1143 t opt Q_YES (Q_HIM q)
         in protocol_warning t ''WONT answered by DO'')
      else if us = Q_WANTYES then
        (let t = set_rfc1143 t opt Q_YES (Q_HIM q)
         in emit t (EvDo opt))
      else if us = Q_WANTYES_OP then
        (let t = set_rfc1143 t opt Q_WANTNO (Q_HIM q);
             t = send_negotiate t TELNET_WONT opt
         in emit t (EvDo opt))
      else t)"

definition negotiate_dont :: "telnet \<Rightarrow> byte \<Rightarrow> telnet" where
  "negotiate_dont t opt =
     (let q = get_rfc1143 t opt; us = Q_US q in
      if us = Q_YES then
        (let t = set_rfc1143 t opt Q_NO (Q_HIM q);
             t = send_negotiate t TELNET_WONT opt
         in emit t (EvDont opt))
      else if us = Q_WANTNO then
        (let t = set_rfc1143 t opt Q_NO (Q_HIM q)
         in emit t (EvDont opt))
      else if us = Q_WANTNO_OP then
        (let t = set_rfc1143 t opt Q_WANTYES (Q_HIM q);
             t = send_negotiate t TELNET_WILL opt
         in emit t (EvDont opt))
      else if us = Q_WANTYES \<or> us = Q_WANTYES_OP then
        set_rfc1143 t opt Q_NO (Q_HIM q)
      else t)"

definition negotiate :: "telnet \<Rightarrow> byte \<Rightarrow> telnet" where
  "negotiate t opt =
     (if flag_set t TELNET_FLAG_PROXY then
        (case t_state t of
           TELNET_STATE_WILL \<Rightarrow> emit t (EvWill opt)
         | TELNET_STATE_WONT \<Rightarrow> emit t (EvWont opt)
         | TELNET_STATE_DO \<Rightarrow> emit t (EvDo opt)
         | TELNET_STATE_DONT \<Rightarrow> emit t (EvDont opt)
         | _ \<Rightarrow> t)
      else
        (case t_state t of
           TELNET_STATE_WILL \<Rightarrow> negotiate_will t opt
         | TELNET_STATE_WONT \<Rightarrow> negotiate_wont t opt
         | TELNET_STATE_DO \<Rightarrow> negotiate_do t opt
         | TELNET_STATE_DONT \<Rightarrow> negotiate_dont t opt
         | _ \<Rightarrow> t))"

section \<open>Requests of the application\<close>

definition telnet_negotiate :: "telnet \<Rightarrow> byte \<Rightarrow> byte \<Rightarrow> telnet" where
  "telnet_negotiate t cmd opt =
     (if flag_set t TELNET_FLAG_PROXY then send_t t [TELNET_IAC, cmd, opt]
      else
        (let q = get_rfc1143 t opt; us = Q_US q; him = Q_HIM q in
         if cmd = TELNET_WILL then
           (if us = Q_NO then send_negotiate (set_rfc1143 t opt Q_WANTYES him) TELNET_WILL opt
            else if us = Q_WANTNO then set_rfc1143 t opt Q_WANTNO_OP him
            else if us = Q_WANTYES_OP then set_rfc1143 t opt Q_WANTYES him
            else t)
         else if cmd = TELNET_WONT then
           (if us = Q_YES then send_negotiate (set_rfc1143 t opt Q_WANTNO him) TELNET_WONT opt
            else if us = Q_WANTYES then set_rfc1143 t opt Q_WANTYES_OP him
            else if us = Q_WANTNO_OP then set_rfc1143 t opt Q_WANTNO him
            else t)
         else if cmd = TELNET_DO then
           (if him = Q_NO then send_negotiate (set_rfc1143 t opt us Q_WANTYES) TELNET_DO opt
            else if him = Q_WANTNO then set_rfc1143 t opt us Q_WANTNO_OP
            else if him = Q_WANTYES_OP then set_rfc1143 t opt us Q_WANTYES
            else t)
         else if cmd = TELNET_DONT then
           (if him = Q_YES then send_negotiate (set_rfc1143 t opt us Q_WANTNO) TELNET_DONT opt
            else if him = Q_WANTYES then set_rfc1143 t opt us Q_WANTYES_OP
            else if him = Q_WANTNO_OP then set_rfc1143 t opt us Q_WANTNO
            else t)
         else t))"

section \<open>Invariant of the option table\<close>

definition q_entries :: "telnet \<Rightarrow> telnet_rfc1143 list" where
  "q_entries t = take (t_q_cnt t) (t_q t)"

definition q_wf :: "telnet \<Rightarrow> bool" where
  "q_wf t \<longleftrightarrow> length (t_q t) = t_q_size t \<and> t_q_cnt t \<le> t_q_size t \<and> 4 dvd t_q_size t \<and>
     distinct (map q_telopt (q_entries t)) \<and>
     (\<forall>e\<in>set (q_entries t). Q_US e \<le> 5 \<and> Q_HIM e \<le> 5)"

definition no_oom :: "telnet \<Rightarrow> bool" where
  "no_oom t \<longleftrightarrow> False \<notin> set (t_heap t)"

text \<open>The pair of states the tracker holds for an option.\<close>

definition opt_view :: "telnet \<Rightarrow> byte \<Rightarrow> byte \<times> byte" where
  "opt_view t opt = (Q_US (get_rfc1143 t opt), Q_HIM (get_rfc1143 t opt))"

lemma q_index_SomeD:
  "q_index es opt = Some i \<Longrightarrow> i < length es \<and> q_telopt (es ! i) = opt"
  by (induction es arbitrary: i) (auto split: if_splits)

lemma q_index_None_iff: "q_index es opt = None \<longleftrightarrow> opt \<notin> q_telopt ` set es"
  by (induction es) auto

lemma q_index_cong: "map q_telopt es = map q_telopt es' \<Longrightarrow> q_index es opt = q_index es' opt"
proof (induction es arbitrary: es')
  case (Cons e es)
  then show ?case by (cases es') auto
qed simp

lemma q_index_snoc:
  "q_index (es @ [e]) opt =
     (case q_index es opt of Some i \<Rightarrow> Some i
      | None \<Rightarrow> if q_telopt e = opt then Some (length es) else None)"
  by (induction es) (auto split: option.splits)

lemma map_telopt_update:
  "map q_telopt (es[i := (es ! i)\<lparr>q_state := s\<rparr>]) = map q_telopt es"
  by (cases "i < length es") (auto simp: list_eq_iff_nth_eq nth_list_update)

lemma alloc_no_oom: "no_oom t \<Longrightarrow> alloc t = (ok, t') \<Longrightarrow> ok \<and> no_oom t'"
  by (auto simp: alloc_def no_oom_def split: list.splits)

lemma opt_view_emit [simp]: "opt_view (emit t e) = opt_view t"
  by (rule ext) (simp add: opt_view_def get_rfc1143_def cong: option.case_cong)

lemma q_wf_emit [simp]: "q_wf (emit t e) = q_wf t"
  by (simp add: q_wf_def q_entries_def)

lemma no_oom_emit [simp]: "no_oom (emit t e) = no_oom t"
  by (simp add: no_oom_def)

lemma check_telopt_emit [simp]: "check_telopt (emit t e) = check_telopt t"
  by (rule ext)+ (simp add: check_telopt_def)

lemma flag_set_emit [simp]: "flag_set (emit t e) = flag_set t"
  by (rule ext) (simp add: flag_set_def)

text \<open>What storing a state leaves alone.\<close>

lemma set_rfc1143_frame [simp]:
  "t_telopts (set_rfc1143 t opt us him) = t_telopts t"
  "t_state (set_rfc1143 t opt us him) = t_state t"
  "t_buffer (set_rfc1143 t opt us him) = t_buffer t"
  "t_buffer_size (set_rfc1143 t opt us him) = t_buffer_size t"
  "t_buffer_pos (set_rfc1143 t opt us him) = t_buffer_pos t"
  "t_sb_telopt (set_rfc1143 t opt us him) = t_sb_telopt t"
  by (auto simp: set_rfc1143_def q_append_def set_binary_flags_def error_ev_def Let_def
      split: option.splits prod.splits dest!: alloc_cases)

lemma set_rfc1143_evs: "no_oom t \<Longrightarrow> t_evs (set_rfc1143 t opt us him) = t_evs t"
  by (auto simp: set_rfc1143_def q_append_def set_binary_flags_def error_ev_def Let_def no_oom_def
      alloc_def split: option.splits prod.splits list.splits)

lemma set_rfc1143_no_oom: "no_oom t \<Longrightarrow> no_oom (set_rfc1143 t opt us him)"
  by (auto simp: set_rfc1143_def q_append_def set_binary_flags_def error_ev_def Let_def no_oom_def
      alloc_def split: option.splits prod.splits list.splits)

lemma set_rfc1143_flags:
  "opt \<noteq> TELNET_TELOPT_BINARY \<Longrightarrow> t_flags (set_rfc1143 t opt us him) = t_flags t"
  by (auto simp: set_rfc1143_def q_append_def error_ev_def Let_def
      split: option.splits prod.splits dest!: alloc_cases)

lemma get_rfc1143_entries:
  "get_rfc1143 t opt =
     (case q_index (q_entries t) opt of Some i \<Rightarrow> q_entries t ! i
      | None \<Rightarrow> \<lparr>q_telopt = opt, q_state = 0\<rparr>)"
  by (auto simp: get_rfc1143_def q_entries_def split: option.splits dest: q_index_SomeD)

text \<open>The live entries after a store: an update in place, or a new last entry.\<close>

definition entries_upd :: "telnet_rfc1143 list \<Rightarrow> byte \<Rightarrow> byte \<Rightarrow> telnet_rfc1143 list" where
  "entries_upd es opt s =
     (case q_index es opt of
        Some i \<Rightarrow> es[i := (es ! i)\<lparr>q_state := s\<rparr>]
      | None \<Rightarrow> es @ [\<lparr>q_telopt = opt, q_state = s\<rparr>])"

lemma take_grow_update:
  "n = length xs \<Longrightarrow> 0 < k \<Longrightarrow> take (Suc n) ((xs @ replicate k z)[n := x]) = take n xs @ [x]"
  by (cases k) (auto simp: list_update_append)

lemma q_entries_set_grow:
  assumes "length (t_q t) = t_q_size t" "t_q_cnt t \<le> t_q_size t" "\<not> (t_q_cnt t < t_q_size t)"
  shows "q_entries (q_append (t\<lparr>t_heap := h, t_q := t_q t @ replicate 4 z, t_q_size := n\<rparr>) opt us him)
    = q_entries t @ [\<lparr>q_telopt = opt, q_state = Q_MAKE us him\<rparr>]"
  using assms by (simp add: q_entries_def q_append_def take_grow_update)

lemma q_entries_set_append:
  assumes "length (t_q t) = t_q_size t" "t_q_cnt t < t_q_size t"
  shows "q_entries (q_append t opt us him) = q_entries t @ [\<lparr>q_telopt = opt, q_state = Q_MAKE us him\<rparr>]"
  using assms by (simp add: q_entries_def q_append_def take_update_last)

lemma q_entries_set_alloc:
  assumes "q_wf t" "fst (alloc t)"
  shows "q_entries (set_rfc1143 t opt us him) = entries_upd (q_entries t) opt (Q_MAKE us him)"
proof (cases "q_index (q_entries t) opt")
  case None
  obtain t1 where a: "alloc t = (True, t1)" using assms by (cases "alloc t") auto
  from alloc_cases [OF a] obtain h where t1: "t1 = t\<lparr>t_heap := h\<rparr>" ..
  show ?thesis
  proof (cases "t_q_cnt t < t_q_size t")
    case True
    with None assms show ?thesis
      by (simp add: set_rfc1143_def entries_upd_def q_entries_set_append q_wf_def flip: q_entries_def)
  next
    case False
    have "set_rfc1143 t opt us him = q_append (t1\<lparr>t_q := t_q t1 @ replicate 4 \<lparr>q_telopt = 0, q_state = 0\<rparr>,
        t_q_size := t_q_size t1 + 4\<rparr>) opt us him"
      using None [unfolded q_entries_def] False a by (simp add: set_rfc1143_def)
    with None False assms show ?thesis
      by (simp add: t1 entries_upd_def q_entries_set_grow q_wf_def)
  qed
next
  case (Some i)
  then have "i < length (q_entries t)" by (simp add: q_index_SomeD)
  then have i: "i < t_q_cnt t" "i < length (t_q t)" by (simp_all add: q_entries_def)
  have "q_entries (set_rfc1143 t opt us him)
      = take (t_q_cnt t) ((t_q t)[i := (t_q t ! i)\<lparr>q_state := Q_MAKE us him\<rparr>])"
    using Some by (simp add: set_rfc1143_def Let_def set_binary_flags_def q_entries_def)
  then show ?thesis using Some i by (simp add: entries_upd_def q_entries_def take_update_swap)
qed

lemma q_entries_set_oom:
  assumes "q_wf t" "\<not> fst (alloc t)"
  shows "q_entries (set_rfc1143 t opt us him) \<in>
    {q_entries t, entries_upd (q_entries t) opt (Q_MAKE us him)}"
proof -
  obtain t1 where a: "alloc t = (False, t1)" using assms by (cases "alloc t") auto
  from alloc_cases [OF a] obtain h where t1: "t1 = t\<lparr>t_heap := h\<rparr>" ..
  let ?t = "t\<lparr>t_heap := []\<rparr>"
  have e: "q_entries (x\<lparr>t_heap := []\<rparr>) = q_entries x" for x by (simp add: q_entries_def)
  have "q_entries (set_rfc1143 ?t opt us him) = entries_upd (q_entries t) opt (Q_MAKE us him)"
    using assms q_entries_set_alloc [of ?t] by (simp add: q_wf_def e)
  moreover have "q_entries (set_rfc1143 t opt us him) \<in> {q_entries t, q_entries (set_rfc1143 ?t opt us him)}"
    using a by (auto simp: set_rfc1143_def Let_def set_binary_flags_def q_entries_def q_append_def
        error_ev_def t1 split: option.splits)
  ultimately show ?thesis by simp
qed

lemma entries_upd_distinct:
  "distinct (map q_telopt es) \<Longrightarrow> distinct (map q_telopt (entries_upd es opt s))"
  by (auto simp: entries_upd_def q_index_None_iff map_telopt_update simp del: map_update
      split: option.splits)

lemma entries_upd_states:
  assumes "\<forall>e\<in>set es. Q_US e \<le> 5 \<and> Q_HIM e \<le> 5" "us \<le> 5" "him \<le> 5"
  shows "\<forall>e\<in>set (entries_upd es opt (Q_MAKE us him)). Q_US e \<le> 5 \<and> Q_HIM e \<le> 5"
proof -
  from assms(2,3) have "us < 16" "him < 16" by (simp_all add: le_5_less_16)
  then have new: "Q_US (q\<lparr>q_state := Q_MAKE us him\<rparr>) = us" "Q_HIM (q\<lparr>q_state := Q_MAKE us him\<rparr>) = him" for q
    using Q_US_make [of us "q_telopt q" him] Q_HIM_make [of us him "q_telopt q"]
    by (simp_all add: Q_US_def Q_HIM_def)
  show ?thesis
    using assms new new [of "\<lparr>q_telopt = opt, q_state = 0\<rparr>"] set_update_subset_insert
    by (fastforce simp: entries_upd_def split: option.splits)
qed

lemma set_rfc1143_sizes:
  assumes "q_wf t"
  shows "length (t_q (set_rfc1143 t opt us him)) = t_q_size (set_rfc1143 t opt us him)"
    and "t_q_cnt (set_rfc1143 t opt us him) \<le> t_q_size (set_rfc1143 t opt us him)"
    and "4 dvd t_q_size (set_rfc1143 t opt us him)"
  using assms
  by (auto simp: q_wf_def set_rfc1143_def q_append_def set_binary_flags_def error_ev_def Let_def
      split: option.splits prod.splits dest!: alloc_cases)

lemma q_wf_set [wf_intros]:
  assumes "q_wf t" "us \<le> 5" "him \<le> 5"
  shows "q_wf (set_rfc1143 t opt us him)"
proof -
  have "q_entries (set_rfc1143 t opt us him) \<in> {q_entries t, entries_upd (q_entries t) opt (Q_MAKE us him)}"
    using q_entries_set_alloc q_entries_set_oom assms(1) by (cases "fst (alloc t)") simp_all
  with assms set_rfc1143_sizes [OF assms(1), of opt us him] show ?thesis
    using entries_upd_distinct [of "q_entries t" opt "Q_MAKE us him"]
      entries_upd_states [of "q_entries t" us him opt]
    by (auto simp: q_wf_def)
qed

section \<open>The table as a store\<close>

text \<open>
  What the negotiation relies on: storing a state is seen by the next lookup of that option and by
  no other, as long as the store does not run out of memory.
\<close>

locale option_store =
  fixes get :: "'s \<Rightarrow> byte \<Rightarrow> byte \<times> byte"
    and put :: "'s \<Rightarrow> byte \<Rightarrow> byte \<Rightarrow> byte \<Rightarrow> 's"
    and inv :: "'s \<Rightarrow> bool"
  assumes get_put_same: "inv s \<Longrightarrow> us \<le> 5 \<Longrightarrow> him \<le> 5 \<Longrightarrow> get (put s opt us him) opt = (us, him)"
    and get_put_other: "inv s \<Longrightarrow> opt \<noteq> opt' \<Longrightarrow> get (put s opt us him) opt' = get s opt'"
    and inv_put: "inv s \<Longrightarrow> us \<le> 5 \<Longrightarrow> him \<le> 5 \<Longrightarrow> inv (put s opt us him)"
    and get_range: "inv s \<Longrightarrow> fst (get s opt) \<le> 5 \<and> snd (get s opt) \<le> 5"
begin

lemma get_put: "inv s \<Longrightarrow> us \<le> 5 \<Longrightarrow> him \<le> 5 \<Longrightarrow> get (put s opt us him) = (get s)(opt := (us, him))"
  by (rule ext) (auto simp: get_put_same get_put_other)

text \<open>Writing one side of an option keeps the other side.\<close>

lemma put_him: "inv s \<Longrightarrow> him \<le> 5 \<Longrightarrow> get (put s opt (fst (get s opt)) him) =
    (get s)(opt := (fst (get s opt), him))"
  by (simp add: get_put get_range)

lemma put_us: "inv s \<Longrightarrow> us \<le> 5 \<Longrightarrow> get (put s opt us (snd (get s opt))) =
    (get s)(opt := (us, snd (get s opt)))"
  by (simp add: get_put get_range)

lemma inv_put_him: "inv s \<Longrightarrow> him \<le> 5 \<Longrightarrow> inv (put s opt (fst (get s opt)) him)"
  by (simp add: inv_put get_range)

lemma inv_put_us: "inv s \<Longrightarrow> us \<le> 5 \<Longrightarrow> inv (put s opt us (snd (get s opt)))"
  by (simp add: inv_put get_range)

end

definition q_inv :: "telnet \<Rightarrow> bool" where
  "q_inv t \<longleftrightarrow> q_wf t \<and> no_oom t"

lemma q_index_upd:
  "q_index (entries_upd es opt s) opt' =
     (if opt' = opt then Some (case q_index es opt of Some i \<Rightarrow> i | None \<Rightarrow> length es)
      else q_index es opt')"
proof (cases "q_index es opt")
  case None
  then show ?thesis by (auto simp: entries_upd_def q_index_snoc split: option.splits)
next
  case (Some i)
  then have "q_index (es[i := (es ! i)\<lparr>q_state := s\<rparr>]) opt' = q_index es opt'"
    by (intro q_index_cong map_telopt_update)
  with Some show ?thesis by (simp add: entries_upd_def)
qed

lemma q_entries_put:
  assumes "q_inv t"
  shows "q_entries (set_rfc1143 t opt us him) = entries_upd (q_entries t) opt (Q_MAKE us him)"
proof -
  from assms have "fst (alloc t)" by (auto simp: q_inv_def no_oom_def alloc_def split: list.splits)
  with assms show ?thesis by (simp add: q_inv_def q_entries_set_alloc)
qed

lemma get_set_other:
  assumes "q_inv t" "opt \<noteq> opt'"
  shows "get_rfc1143 (set_rfc1143 t opt us him) opt' = get_rfc1143 t opt'"
proof -
  let ?es = "q_entries t"
  note es = q_entries_put [OF assms(1), of opt us him]
  have "entries_upd ?es opt s ! j = ?es ! j" if "q_index ?es opt' = Some j" for j s
    using that q_index_SomeD [OF that] assms(2)
    by (auto simp: entries_upd_def nth_append nth_list_update dest: q_index_SomeD split: option.splits)
  then show ?thesis
    using assms(2) by (auto simp: get_rfc1143_entries es q_index_upd split: option.splits)
qed

lemma get_set_same:
  assumes "q_inv t"
  shows "get_rfc1143 (set_rfc1143 t opt us him) opt = \<lparr>q_telopt = opt, q_state = Q_MAKE us him\<rparr>"
proof -
  let ?es = "q_entries t"
  note es = q_entries_put [OF assms(1), of opt us him]
  have "get_rfc1143 (set_rfc1143 t opt us him) opt = entries_upd ?es opt (Q_MAKE us him) !
      (case q_index ?es opt of Some i \<Rightarrow> i | None \<Rightarrow> length ?es)"
    by (simp add: get_rfc1143_entries es q_index_upd)
  also have "\<dots> = \<lparr>q_telopt = opt, q_state = Q_MAKE us him\<rparr>"
    by (cases "q_index ?es opt") (auto simp: entries_upd_def dest!: q_index_SomeD)
  finally show ?thesis .
qed

lemma opt_view_range: "q_wf t \<Longrightarrow> fst (opt_view t opt) \<le> 5 \<and> snd (opt_view t opt) \<le> 5"
  by (auto simp: opt_view_def get_rfc1143_entries q_wf_def Q_US_def Q_HIM_def
      split: option.splits dest: q_index_SomeD intro!: nth_mem)

interpretation table: option_store opt_view set_rfc1143 q_inv
proof unfold_locales
  fix t opt us him
  assume "q_inv t" "us \<le> (5::byte)" "him \<le> (5::byte)"
  then show "opt_view (set_rfc1143 t opt us him) opt = (us, him)"
    by (simp add: opt_view_def get_set_same Q_US_make Q_HIM_make le_5_less_16)
next
  show "opt_view (set_rfc1143 t opt us him) opt' = opt_view t opt'" if "q_inv t" "opt \<noteq> opt'"
    for t opt opt' us him
    using that by (simp add: opt_view_def get_set_other)
next
  show "q_inv (set_rfc1143 t opt us him)" if "q_inv t" "us \<le> 5" "him \<le> 5" for t opt us him
    using that by (simp add: q_inv_def q_wf_set set_rfc1143_no_oom)
next
  show "fst (opt_view t opt) \<le> 5 \<and> snd (opt_view t opt) \<le> 5" if "q_inv t" for t opt
    using that by (simp add: q_inv_def opt_view_range)
qed

section \<open>The concrete table against the Q method\<close>

fun qcode :: "qside \<Rightarrow> byte" where
  "qcode QNo = Q_NO" | "qcode QYes = Q_YES" | "qcode QWantNo = Q_WANTNO"
| "qcode QWantYes = Q_WANTYES" | "qcode QWantNoOp = Q_WANTNO_OP" | "qcode QWantYesOp = Q_WANTYES_OP"

text \<open>The bytes an answer puts on the wire; \<open>yes\<close> and \<open>no\<close> are the two commands of the side.\<close>

fun answer :: "byte \<Rightarrow> byte \<Rightarrow> byte \<Rightarrow> bool option \<Rightarrow> byte list" where
  "answer yes no opt None = []"
| "answer yes no opt (Some True) = [TELNET_IAC, yes, opt]"
| "answer yes no opt (Some False) = [TELNET_IAC, no, opt]"

definition sent :: "telnet \<Rightarrow> byte list" where
  "sent t = concat (map (\<lambda>e. case e of EvSend bs \<Rightarrow> bs | _ \<Rightarrow> []) (t_evs t))"

lemma sent_emit [simp]:
  "sent (emit t e) = sent t @ (case e of EvSend bs \<Rightarrow> bs | _ \<Rightarrow> [])"
  by (simp add: sent_def)

lemma sent_put: "q_inv t \<Longrightarrow> sent (set_rfc1143 t opt us him) = sent t"
  by (simp add: sent_def q_inv_def set_rfc1143_evs)

lemma qcode_surj: "x \<le> 5 \<Longrightarrow> \<exists>s. x = qcode s"
proof -
  have "\<forall>x::byte. x \<le> 5 \<longrightarrow> x \<in> set [0, 1, 2, 3, 4, 5]"
    unfolding all_byte_enum by code_simp
  moreover assume "x \<le> 5"
  ultimately have "x \<in> set [0, 1, 2, 3, 4, 5]" by blast
  then show ?thesis
    by (auto intro: exI [of _ QNo] exI [of _ QYes] exI [of _ QWantNo] exI [of _ QWantYes]
        exI [of _ QWantNoOp] exI [of _ QWantYesOp])
qed

lemma qcode_le [simp]: "qcode s \<le> 5"
  by (cases s) simp_all

lemma qcode_inj [simp]: "qcode s = qcode s' \<longleftrightarrow> s = s'"
  by (cases s; cases s'; simp)

text \<open>The tracker holds \<open>us\<close> and \<open>him\<close> for the option \<open>opt\<close>.\<close>

definition sides :: "telnet \<Rightarrow> byte \<Rightarrow> qside \<Rightarrow> qside \<Rightarrow> bool" where
  "sides t opt us him \<longleftrightarrow> opt_view t opt = (qcode us, qcode him)"

lemma sides_exist: "q_wf t \<Longrightarrow> \<exists>us him. sides t opt us him"
  using opt_view_range [of t opt] qcode_surj by (metis sides_def prod.collapse)

lemma sides_get: "sides t opt us him \<Longrightarrow> Q_US (get_rfc1143 t opt) = qcode us \<and> Q_HIM (get_rfc1143 t opt) = qcode him"
  by (simp add: sides_def opt_view_def)

lemmas negotiate_arms = negotiate_will_def negotiate_wont_def negotiate_do_def negotiate_dont_def

lemma opt_view_put_sides:
  assumes "q_inv t" "sides t opt us him"
  shows "x \<le> 5 \<Longrightarrow> opt_view (set_rfc1143 t opt (qcode us) x) = (opt_view t)(opt := (qcode us, x))"
    and "x \<le> 5 \<Longrightarrow> opt_view (set_rfc1143 t opt x (qcode him)) = (opt_view t)(opt := (x, qcode him))"
  using assms table.put_him [of t x opt] table.put_us [of t x opt] by (simp_all add: sides_def)

lemmas negotiate_unfold = negotiate_arms Let_def send_negotiate_def send_t_def protocol_warning_def
  error_ev_def

text \<open>
  Each arm of \<open>_negotiate\<close> is the Q method on the side it is about, and leaves the other side and
  every other option as they were.
\<close>

lemma negotiate_will_spec:
  assumes "q_inv t" "sides t opt us him" "recv_enable (check_telopt t opt False) him = (him', a)"
  shows "opt_view (negotiate_will t opt) = (opt_view t)(opt := (qcode us, qcode him'))"
    and "sent (negotiate_will t opt) = sent t @ answer TELNET_DO TELNET_DONT opt a"
  using assms sides_get [OF assms(2)] fun_upd_triv [of "opt_view t" opt] opt_view_put_sides [OF assms(1,2)]
  by (cases him; auto simp: negotiate_unfold sent_put sides_def split: if_splits)+

lemma negotiate_wont_spec:
  assumes "q_inv t" "sides t opt us him" "recv_disable him = (him', a)"
  shows "opt_view (negotiate_wont t opt) = (opt_view t)(opt := (qcode us, qcode him'))"
    and "sent (negotiate_wont t opt) = sent t @ answer TELNET_DO TELNET_DONT opt a"
  using assms sides_get [OF assms(2)] fun_upd_triv [of "opt_view t" opt] opt_view_put_sides [OF assms(1,2)]
  by (cases him; auto simp: negotiate_unfold sent_put sides_def split: if_splits)+

lemma negotiate_do_spec:
  assumes "q_inv t" "sides t opt us him" "recv_enable (check_telopt t opt True) us = (us', a)"
  shows "opt_view (negotiate_do t opt) = (opt_view t)(opt := (qcode us', qcode him))"
    and "sent (negotiate_do t opt) = sent t @ answer TELNET_WILL TELNET_WONT opt a"
  using assms sides_get [OF assms(2)] fun_upd_triv [of "opt_view t" opt] opt_view_put_sides [OF assms(1,2)]
  by (cases us; auto simp: negotiate_unfold sent_put sides_def split: if_splits)+

lemma negotiate_dont_spec:
  assumes "q_inv t" "sides t opt us him" "recv_disable us = (us', a)"
  shows "opt_view (negotiate_dont t opt) = (opt_view t)(opt := (qcode us', qcode him))"
    and "sent (negotiate_dont t opt) = sent t @ answer TELNET_WILL TELNET_WONT opt a"
  using assms sides_get [OF assms(2)] fun_upd_triv [of "opt_view t" opt] opt_view_put_sides [OF assms(1,2)]
  by (cases us; auto simp: negotiate_unfold sent_put sides_def split: if_splits)+

text \<open>Which side of the option a received command is about, and whether it enables it.\<close>

definition recv_state :: "bool \<Rightarrow> bool \<Rightarrow> telnet_state" where
  "recv_state remote enable =
     (if remote then if enable then TELNET_STATE_WILL else TELNET_STATE_WONT
      else if enable then TELNET_STATE_DO else TELNET_STATE_DONT)"

definition yes_cmd :: "bool \<Rightarrow> byte" where
  "yes_cmd remote = (if remote then TELNET_DO else TELNET_WILL)"

definition no_cmd :: "bool \<Rightarrow> byte" where
  "no_cmd remote = (if remote then TELNET_DONT else TELNET_WONT)"

definition put_side :: "bool \<Rightarrow> qside \<Rightarrow> qside \<times> qside \<Rightarrow> byte \<times> byte" where
  "put_side remote s p = (if remote then (qcode (fst p), qcode s) else (qcode s, qcode (snd p)))"

lemma negotiate_spec:
  assumes "q_inv t" "\<not> flag_set t TELNET_FLAG_PROXY" "sides t opt us him"
    and "t_state t = recv_state remote enable"
    and "recv_side (check_telopt t opt (\<not> remote)) enable (if remote then him else us) = (s, a)"
  shows "opt_view (negotiate t opt) = (opt_view t)(opt := put_side remote s (us, him))"
    and "sent (negotiate t opt) = sent t @ answer (yes_cmd remote) (no_cmd remote) opt a"
  using assms negotiate_will_spec [OF assms(1,3), of s a] negotiate_wont_spec [OF assms(1,3), of s a]
    negotiate_do_spec [OF assms(1,3), of s a] negotiate_dont_spec [OF assms(1,3), of s a]
  by (cases remote; cases enable;
      simp add: negotiate_def recv_state_def recv_side_def yes_cmd_def no_cmd_def put_side_def)+

lemma telnet_negotiate_spec:
  assumes "q_inv t" "\<not> flag_set t TELNET_FLAG_PROXY" "sides t opt us him"
    and "ask enable (if remote then him else us) = (s, a)"
  shows "opt_view (telnet_negotiate t (if enable then yes_cmd remote else no_cmd remote) opt)
      = (opt_view t)(opt := put_side remote s (us, him))"
    and "sent (telnet_negotiate t (if enable then yes_cmd remote else no_cmd remote) opt)
      = sent t @ answer (yes_cmd remote) (no_cmd remote) opt a"
  using assms sides_get [OF assms(3)] fun_upd_triv [of "opt_view t" opt] opt_view_put_sides [OF assms(1,3)]
  by (cases remote; cases enable; cases us; cases him;
      auto simp: telnet_negotiate_def Let_def send_negotiate_def send_t_def yes_cmd_def no_cmd_def
        put_side_def sent_put sides_def split: if_splits)+

section \<open>Preservation of the invariant\<close>

lemma opt_view_le [simp]:
  "q_wf t \<Longrightarrow> Q_US (get_rfc1143 t opt) \<le> 5" "q_wf t \<Longrightarrow> Q_HIM (get_rfc1143 t opt) \<le> 5"
  using opt_view_range [of t opt] by (simp_all add: opt_view_def)

lemma q_wf_negotiate [wf_intros]: "q_wf t \<Longrightarrow> q_wf (negotiate t opt)"
  by (simp add: negotiate_def negotiate_unfold q_wf_set split: telnet_state.split)

lemma no_oom_negotiate [wf_intros]: "no_oom t \<Longrightarrow> no_oom (negotiate t opt)"
  by (simp add: negotiate_def negotiate_unfold set_rfc1143_no_oom split: telnet_state.split)

lemma q_wf_telnet_negotiate [wf_intros]: "q_wf t \<Longrightarrow> q_wf (telnet_negotiate t cmd opt)"
  by (simp add: telnet_negotiate_def Let_def send_negotiate_def send_t_def q_wf_set)

lemma no_oom_telnet_negotiate [wf_intros]: "no_oom t \<Longrightarrow> no_oom (telnet_negotiate t cmd opt)"
  by (simp add: telnet_negotiate_def Let_def send_negotiate_def send_t_def set_rfc1143_no_oom)

lemma negotiate_frame [simp]:
  "t_telopts (negotiate t opt) = t_telopts t" "t_state (negotiate t opt) = t_state t"
  "t_buffer (negotiate t opt) = t_buffer t" "t_buffer_size (negotiate t opt) = t_buffer_size t"
  "t_buffer_pos (negotiate t opt) = t_buffer_pos t" "t_sb_telopt (negotiate t opt) = t_sb_telopt t"
  by (simp_all add: negotiate_def negotiate_unfold split: telnet_state.split)

lemma telnet_negotiate_frame [simp]:
  "t_telopts (telnet_negotiate t cmd opt) = t_telopts t"
  "t_state (telnet_negotiate t cmd opt) = t_state t"
  "t_buffer (telnet_negotiate t cmd opt) = t_buffer t"
  "t_buffer_size (telnet_negotiate t cmd opt) = t_buffer_size t"
  "t_buffer_pos (telnet_negotiate t cmd opt) = t_buffer_pos t"
  "t_sb_telopt (telnet_negotiate t cmd opt) = t_sb_telopt t"
  by (simp_all add: telnet_negotiate_def Let_def send_negotiate_def send_t_def)

section \<open>Properties\<close>

text \<open>
  Property (C2). A received WILL, WONT, DO or DONT is handled by the Q method of RFC 1143: with the states
  \<open>us\<close> and \<open>him\<close> held for the option, the side the command is about moves to the RFC's next state,
  exactly the RFC's answer goes on the wire, and the other side and all other options keep their states.
\<close>

theorem negotiate_q_method:
  assumes "q_inv t" "\<not> flag_set t TELNET_FLAG_PROXY" "sides t opt us him"
    and "t_state t = recv_state remote enable"
    and "recv_side (check_telopt t opt (\<not> remote)) enable (if remote then him else us) = (s, a)"
  shows "opt_view (negotiate t opt) = (opt_view t)(opt := put_side remote s (us, him)) \<and>
    sent (negotiate t opt) = sent t @ answer (yes_cmd remote) (no_cmd remote) opt a"
  using negotiate_spec [OF assms] by simp

definition opt_example :: telnet where
  "opt_example =
     \<lparr>t_telopts = Some [\<lparr>opt_telopt = 1, opt_us = TELNET_WONT, opt_him = TELNET_DO\<rparr>,
        \<lparr>opt_telopt = - 1, opt_us = 0, opt_him = 0\<rparr>],
      t_q = [], t_buffer = [], t_buffer_size = 0,
      t_buffer_pos = 0, t_state = TELNET_STATE_WILL, t_flags = 0, t_sb_telopt = 0, t_q_size = 0,
      t_q_cnt = 0, t_heap = [], t_evs = []\<rparr>"

lemma opt_example_ok: "q_inv opt_example" "\<not> flag_set opt_example TELNET_FLAG_PROXY" "sides opt_example opt QNo QNo"
  by (simp_all add: opt_example_def q_inv_def q_wf_def q_entries_def no_oom_def flag_set_def sides_def
      opt_view_def get_rfc1143_def Q_US_def Q_HIM_def)

theorem negotiate_q_method_witness:
  "opt_view (negotiate opt_example 1) = (opt_view opt_example)(1 := (Q_NO, Q_YES)) \<and>
   sent (negotiate opt_example 1) = [TELNET_IAC, TELNET_DO, 1]"
  using negotiate_q_method [OF opt_example_ok, of True True 1 QYes "Some True"]
  by (simp add: recv_state_def recv_side_def put_side_def yes_cmd_def opt_example_def check_telopt_def sent_def)

text \<open>
  A request of the application (\<open>telnet_negotiate\<close>) is handled by the Q method: the side moves to
  the state the RFC gives for wanting the option on or off, and a command is sent only where the
  RFC sends one, so that no two requests for a side are outstanding at once.
\<close>

theorem request_q_method:
  assumes "q_inv t" "\<not> flag_set t TELNET_FLAG_PROXY" "sides t opt us him"
    and "ask enable (if remote then him else us) = (s, a)"
  shows "opt_view (telnet_negotiate t (if enable then yes_cmd remote else no_cmd remote) opt)
      = (opt_view t)(opt := put_side remote s (us, him)) \<and>
    sent (telnet_negotiate t (if enable then yes_cmd remote else no_cmd remote) opt)
      = sent t @ answer (yes_cmd remote) (no_cmd remote) opt a"
  using telnet_negotiate_spec [OF assms] by simp

theorem request_q_method_witness:
  "opt_view (telnet_negotiate opt_example TELNET_WILL 24) = (opt_view opt_example)(24 := (Q_WANTYES, Q_NO)) \<and>
   sent (telnet_negotiate opt_example TELNET_WILL 24) = [TELNET_IAC, TELNET_WILL, 24]"
  using request_q_method [OF opt_example_ok, of True False QWantYes "Some True" 24]
  by (simp add: put_side_def yes_cmd_def opt_example_def sent_def)

end
