(* ===== verification/Telnet_Sub.thy ===== *)
theory Telnet_Sub
  imports Telnet_Types "HOL-Library.Monad_Syntax"
begin

text \<open>
  Sub-negotiation of \<open>libtelnet.c\<close>: the growing buffer (\<open>_buffer_byte\<close>) and the parsers of the
  collected bytes (\<open>_environ_telnet\<close>, \<open>_mssp_telnet\<close>, \<open>_zmp_telnet\<close>, \<open>_ttype_telnet\<close>,
  \<open>_subnegotiate\<close>). The ENVIRON and MSSP parsers rewrite the buffer in place while they read it;
  the model keeps the memory block and both indices, and an access outside the block is \<open>None\<close>.
  All parsers return 0 in the C code, so only the tracker is returned here.
\<close>

section \<open>The sub-negotiation buffer\<close>

definition buffer_sizes :: "nat list" where
  "buffer_sizes = [0, 512, 2048, 8192, 16384]"

text \<open>Index of the first element equal to \<open>n\<close>, or the length: the search loop of \<open>_buffer_byte\<close>.\<close>

fun size_index :: "nat list \<Rightarrow> nat \<Rightarrow> nat" where
  "size_index [] n = 0"
| "size_index (x # xs) n = (if x = n then 0 else Suc (size_index xs n))"

definition push_byte :: "telnet \<Rightarrow> byte \<Rightarrow> telnet" where
  "push_byte t b = t\<lparr>t_buffer := (t_buffer t)[t_buffer_pos t := b], t_buffer_pos := Suc (t_buffer_pos t)\<rparr>"

definition buffer_byte :: "telnet \<Rightarrow> byte \<Rightarrow> telnet_error \<times> telnet" where
  "buffer_byte t b =
     (if t_buffer_pos t = t_buffer_size t then
        (let i = size_index buffer_sizes (t_buffer_size t) in
         if i \<ge> length buffer_sizes - 1 then
           error_ev t TELNET_EOVERFLOW False ''subnegotiation buffer size limit reached'' []
         else
           (case alloc t of (ok, t) \<Rightarrow>
              if \<not> ok then error_ev t TELNET_ENOMEM False ''realloc() failed'' []
              else
                (let n = buffer_sizes ! Suc i in
                 (TELNET_EOK, push_byte (t\<lparr>t_buffer := t_buffer t @ replicate (n - t_buffer_size t) 0,
                                          t_buffer_size := n\<rparr>) b))))
      else (TELNET_EOK, push_byte t b))"

section \<open>Memory accesses\<close>

definition buf_rd :: "byte list \<Rightarrow> nat \<Rightarrow> byte option" where
  "buf_rd mem i = (if i < length mem then Some (mem ! i) else None)"

definition buf_wr :: "byte list \<Rightarrow> nat \<Rightarrow> byte \<Rightarrow> byte list option" where
  "buf_wr mem i b = (if i < length mem then Some (mem[i := b]) else None)"

definition warn :: "telnet \<Rightarrow> telnet_error \<Rightarrow> string \<Rightarrow> byte list \<Rightarrow> telnet" where
  "warn t err fmt args = snd (error_ev t err False fmt args)"

section \<open>ENVIRON and NEW-ENVIRON\<close>

text \<open>The loop that counts the arguments; an escaped byte is skipped.\<close>

fun env_count :: "byte list \<Rightarrow> nat" where
  "env_count [] = 0"
| "env_count (x # xs) =
     (if x = TELNET_ENVIRON_VAR \<or> x = TELNET_ENVIRON_USERVAR then Suc (env_count xs)
      else if x = TELNET_ENVIRON_ESC then (case xs of [] \<Rightarrow> 0 | _ # ys \<Rightarrow> env_count ys)
      else env_count xs)"

text \<open>
  The two copying loops: bytes from \<open>c\<close> on are moved down to \<open>out\<close> until one of \<open>stops\<close> or the end of
  the data; ESC takes the next byte as it is.
\<close>

function env_copy :: "byte list \<Rightarrow> nat \<Rightarrow> byte list \<Rightarrow> nat \<Rightarrow> nat \<Rightarrow> (byte list \<times> nat \<times> nat) option" where
  "env_copy stops sz mem c out =
     (if c < sz then
        (case buf_rd mem c of None \<Rightarrow> None | Some x \<Rightarrow>
           if x \<in> set stops then Some (mem, c, out)
           else
             (let c' = (if x = TELNET_ENVIRON_ESC then Suc c else c) in
              case buf_rd mem c' of None \<Rightarrow> None | Some y \<Rightarrow>
              (case buf_wr mem out y of None \<Rightarrow> None | Some mem' \<Rightarrow>
                 env_copy stops sz mem' (Suc c') (Suc out))))
      else Some (mem, c, out))"
  by pat_completeness auto
termination
  by (relation "measure (\<lambda>(stops, sz, mem, c, out). sz - c)") auto

declare env_copy.simps [simp del]

text \<open>One variable: its type, the offset of its name, the offset of its value if it has one.\<close>

type_synonym env_value = "byte \<times> nat \<times> nat option"

fun env_values :: "nat \<Rightarrow> nat \<Rightarrow> byte list \<Rightarrow> nat \<Rightarrow> nat \<Rightarrow> (byte list \<times> env_value list) option" where
  "env_values 0 sz mem c out = Some (mem, [])"
| "env_values (Suc k) sz mem c out =
     do {
       ty \<leftarrow> buf_rd mem c;
       (mem, c, out1) \<leftarrow> env_copy [TELNET_ENVIRON_VAR, TELNET_ENVIRON_VALUE, TELNET_ENVIRON_USERVAR] sz mem (Suc c) out;
       mem \<leftarrow> buf_wr mem out1 0;
       has_value \<leftarrow> (if c < sz then map_option (\<lambda>x. x = TELNET_ENVIRON_VALUE) (buf_rd mem c) else Some False);
       if has_value then do {
         (mem, c, out2) \<leftarrow> env_copy [TELNET_ENVIRON_VAR, TELNET_ENVIRON_USERVAR] sz mem (Suc c) (Suc out1);
         mem \<leftarrow> buf_wr mem out2 0;
         (mem, vs) \<leftarrow> env_values k sz mem c (Suc out2);
         Some (mem, (ty, out, Some (Suc out1)) # vs)
       } else do {
         (mem, vs) \<leftarrow> env_values k sz mem c (Suc out1);
         Some (mem, (ty, out, None) # vs)
       }
     }"

text \<open>What the handler reads through the two pointers; a missing value is the literal \<open>""\<close>.\<close>

definition env_string :: "byte list \<Rightarrow> env_value \<Rightarrow> environ_var" where
  "env_string mem v = (case v of (ty, name, val) \<Rightarrow>
     (ty, Some (cstr_at mem name), Some (case val of None \<Rightarrow> [] | Some p \<Rightarrow> cstr_at mem p)))"

definition environ_telnet :: "telnet \<Rightarrow> byte \<Rightarrow> telnet" where
  "environ_telnet t ty =
     (let sz = t_buffer_pos t; data = take sz (t_buffer t) in
      case data of [] \<Rightarrow> t | cmd # args \<Rightarrow>
        if cmd \<noteq> TELNET_ENVIRON_SEND \<and> cmd \<noteq> TELNET_ENVIRON_IS \<and> cmd \<noteq> TELNET_ENVIRON_INFO then
          warn t TELNET_EPROTOCOL ''telopt %d subneg has invalid command'' [ty]
        else if args = [] then emit t (EvEnviron cmd [])
        else if hd args \<noteq> TELNET_ENVIRON_VAR \<and> hd args \<noteq> TELNET_ENVIRON_USERVAR then
          warn t TELNET_EPROTOCOL ''telopt %d subneg missing variable type'' [ty]
        else if last data = TELNET_ENVIRON_ESC then
          warn t TELNET_EPROTOCOL ''telopt %d subneg ends with ESC'' [ty]
        else
          (case alloc t of (ok, t) \<Rightarrow>
             if \<not> ok then warn t TELNET_ENOMEM ''calloc() failed: %s'' []
             else
               (case env_values (env_count args) sz (t_buffer t) 1 0 of
                  None \<Rightarrow> emit t (EvOverread ty sz)
                | Some (mem, vs) \<Rightarrow> emit (t\<lparr>t_buffer := mem\<rparr>) (EvEnviron cmd (map (env_string mem) vs)))))"

section \<open>MSSP\<close>

function mssp_copy :: "nat \<Rightarrow> byte list \<Rightarrow> nat \<Rightarrow> nat \<Rightarrow> (byte list \<times> nat \<times> nat) option" where
  "mssp_copy sz mem c out =
     (if c < sz then
        (case buf_rd mem c of None \<Rightarrow> None | Some x \<Rightarrow>
           if x = TELNET_MSSP_VAR \<or> x = TELNET_MSSP_VAL then Some (mem, c, out)
           else (case buf_wr mem out x of None \<Rightarrow> None | Some mem' \<Rightarrow> mssp_copy sz mem' (Suc c) (Suc out)))
      else Some (mem, c, out))"
  by pat_completeness auto
termination
  by (relation "measure (\<lambda>(sz, mem, c, out). sz - c)") auto

declare mssp_copy.simps [simp del]

text \<open>
  How the main loop of \<open>_mssp_telnet\<close> ends: all data read, a data error, or an access outside an
  allocated block at the given offset. The loop reads \<open>*c\<close> once more when \<open>c\<close> has reached the end of the
  data; the byte is not used, so a read inside the block changes nothing.
\<close>

datatype mssp_result =
    MsspDone "byte list" "environ_var list"
  | MsspBad "byte list"
  | MsspOverread nat

type_synonym mssp_values = "(nat \<times> nat) option list"

definition mssp_strings :: "byte list \<Rightarrow> mssp_values \<Rightarrow> environ_var list" where
  "mssp_strings mem vs = map (\<lambda>v. case v of
       None \<Rightarrow> (0, None, None)
     | Some (var, val) \<Rightarrow> (0, Some (cstr_at mem var), Some (cstr_at mem val))) vs"

lemma mssp_copy_c: "mssp_copy sz mem c out = Some (mem', c', out') \<Longrightarrow> c \<le> c'"
proof (induction sz mem c out rule: mssp_copy.induct)
  case (1 sz mem c out)
  then show ?case
    by (subst (asm) (2) mssp_copy.simps) (fastforce split: if_splits option.splits)
qed

function mssp_loop :: "nat \<Rightarrow> byte list \<Rightarrow> nat \<Rightarrow> nat \<Rightarrow> nat \<Rightarrow> byte \<Rightarrow> nat option \<Rightarrow> nat \<Rightarrow> mssp_values \<Rightarrow> mssp_result" where
  "mssp_loop sz mem c out lst next_type var i vs =
     (if c < sz then
        (case mssp_copy sz mem c out of None \<Rightarrow> MsspOverread c | Some (mem1, c1, out1) \<Rightarrow>
          (case buf_wr mem1 out1 0 of None \<Rightarrow> MsspOverread out1 | Some mem2 \<Rightarrow>
            if next_type = TELNET_MSSP_VAR then
              (case buf_rd mem2 c1 of None \<Rightarrow> MsspOverread c1 | Some ty \<Rightarrow>
                 mssp_loop sz mem2 (Suc c1) (Suc out1) (Suc out1) ty (Some lst) i vs)
            else if next_type = TELNET_MSSP_VAL \<and> var \<noteq> None then
              if i < length vs then
                (case buf_rd mem2 c1 of None \<Rightarrow> MsspOverread c1 | Some ty \<Rightarrow>
                   mssp_loop sz mem2 (Suc c1) (Suc out1) (Suc out1) ty var (Suc i)
                     (vs[i := Some (the var, lst)]))
              else MsspOverread i
            else MsspBad mem2))
      else MsspDone mem (mssp_strings mem vs))"
  by pat_completeness auto
termination
  by (relation "measure (\<lambda>(sz, mem, c, out, lst, next_type, var, i, vs). sz - c)")
    (auto dest!: mssp_copy_c)

declare mssp_loop.simps [simp del]

definition mssp_telnet :: "telnet \<Rightarrow> telnet" where
  "mssp_telnet t =
     (let sz = t_buffer_pos t; data = take sz (t_buffer t) in
      case data of [] \<Rightarrow> t | first # _ \<Rightarrow>
        if first \<noteq> TELNET_MSSP_VAR then
          warn t TELNET_EPROTOCOL ''MSSP subnegotiation has invalid data'' []
        else
          (let count = count_list data TELNET_MSSP_VAL in
           case alloc t of (ok, t) \<Rightarrow>
             if \<not> ok then warn t TELNET_ENOMEM ''calloc() failed: %s'' []
             else
               (case mssp_loop sz (t_buffer t) 1 0 0 first None 0 (replicate count None) of
                  MsspDone mem vs \<Rightarrow> emit (t\<lparr>t_buffer := mem\<rparr>) (EvMssp vs)
                | MsspBad mem \<Rightarrow>
                    warn (t\<lparr>t_buffer := mem\<rparr>) TELNET_EPROTOCOL ''invalid MSSP subnegotiation data'' []
                | MsspOverread p \<Rightarrow> emit t (EvOverread TELNET_TELOPT_MSSP p))))"

section \<open>ZMP and TERMINAL-TYPE\<close>

text \<open>The argument strings: \<open>c += strlen(c) + 1\<close> until the end of the data.\<close>

function zmp_args :: "byte list \<Rightarrow> byte list list" where
  "zmp_args bs =
     (if bs = [] then []
      else takeWhile (\<lambda>b. b \<noteq> 0) bs # zmp_args (drop 1 (dropWhile (\<lambda>b. b \<noteq> 0) bs)))"
  by pat_completeness auto
termination
proof (relation "measure length")
  fix bs :: "byte list"
  assume "bs \<noteq> []"
  then have "0 < length bs" by simp
  then show "(drop 1 (dropWhile (\<lambda>b. b \<noteq> 0) bs), bs) \<in> measure length"
    using length_dropWhile_le [of "\<lambda>b. b \<noteq> 0" bs] by (simp only: in_measure length_drop)
qed simp

declare zmp_args.simps [simp del]

definition zmp_telnet :: "telnet \<Rightarrow> telnet" where
  "zmp_telnet t =
     (let data = take (t_buffer_pos t) (t_buffer t) in
      if data = [] \<or> last data \<noteq> 0 then warn t TELNET_EPROTOCOL ''incomplete ZMP frame'' []
      else
        (case alloc t of (ok, t) \<Rightarrow>
           if \<not> ok then warn t TELNET_ENOMEM ''calloc() failed: %s'' []
           else emit t (EvZmp (zmp_args data))))"

definition ttype_telnet :: "telnet \<Rightarrow> telnet" where
  "ttype_telnet t =
     (case take (t_buffer_pos t) (t_buffer t) of
        [] \<Rightarrow> warn t TELNET_EPROTOCOL ''incomplete TERMINAL-TYPE request'' []
      | cmd # name \<Rightarrow>
          if cmd \<noteq> TELNET_TTYPE_IS \<and> cmd \<noteq> TELNET_TTYPE_SEND then
            warn t TELNET_EPROTOCOL ''TERMINAL-TYPE request has invalid type'' []
          else if cmd = TELNET_TTYPE_IS then
            (case alloc t of (ok, t) \<Rightarrow>
               if \<not> ok then warn t TELNET_ENOMEM ''malloc() failed: %s'' []
               else emit t (EvTtype TELNET_TTYPE_IS (Some (takeWhile (\<lambda>b. b \<noteq> 0) name))))
          else emit t (EvTtype TELNET_TTYPE_SEND None))"

section \<open>Dispatch\<close>

definition subnegotiate :: "telnet \<Rightarrow> telnet" where
  "subnegotiate t =
     (let opt = t_sb_telopt t;
          t = emit t (EvSubnegotiation opt (take (t_buffer_pos t) (t_buffer t))) in
      if opt = TELNET_TELOPT_ZMP then zmp_telnet t
      else if opt = TELNET_TELOPT_TTYPE then ttype_telnet t
      else if opt = TELNET_TELOPT_ENVIRON \<or> opt = TELNET_TELOPT_NEW_ENVIRON then
        environ_telnet t opt
      else if opt = TELNET_TELOPT_MSSP then mssp_telnet t
      else t)"

section \<open>Facts on the buffer\<close>

definition buf_wf :: "telnet \<Rightarrow> bool" where
  "buf_wf t \<longleftrightarrow> t_buffer_size t \<in> set buffer_sizes \<and> length (t_buffer t) = t_buffer_size t \<and>
     t_buffer_pos t \<le> t_buffer_size t"

definition payload :: "telnet \<Rightarrow> byte list" where
  "payload t = take (t_buffer_pos t) (t_buffer t)"

lemma payload_emit [simp]: "payload (emit t e) = payload t"
  by (simp add: payload_def)

lemma buf_wf_emit [simp]: "buf_wf (emit t e) = buf_wf t"
  by (simp add: buf_wf_def)

lemma push_byte_payload:
  "t_buffer_pos t < length (t_buffer t) \<Longrightarrow> payload (push_byte t b) = payload t @ [b]"
  by (simp add: payload_def push_byte_def take_Suc_conv_app_nth)

lemma buffer_sizes_next:
  assumes "n \<in> set buffer_sizes" "size_index buffer_sizes n < 4"
  shows "buffer_sizes ! Suc (size_index buffer_sizes n) \<in> set buffer_sizes \<and>
    n < buffer_sizes ! Suc (size_index buffer_sizes n)"
  using assms by (auto simp: buffer_sizes_def split: if_splits)

lemma buffer_sizes_index: "n \<in> set buffer_sizes \<Longrightarrow> n < 16384 \<Longrightarrow> size_index buffer_sizes n < 4"
  by (auto simp: buffer_sizes_def)

lemma length_buffer_sizes [simp]: "length buffer_sizes = 5"
  by (simp add: buffer_sizes_def)

text \<open>The three outcomes of adding a byte.\<close>

lemma buffer_byte_cases:
  assumes "buf_wf t" "buffer_byte t b = (err, t')"
  shows "(err = TELNET_EOK \<and> buf_wf t' \<and> payload t' = payload t @ [b] \<and> t_evs t' = t_evs t) \<or>
    (err \<noteq> TELNET_EOK \<and> buf_wf t' \<and> (\<exists>m. t_evs t' = t_evs t @ [EvWarning m []]))"
proof (cases "t_buffer_pos t = t_buffer_size t")
  case False
  with assms show ?thesis
    by (auto simp: buffer_byte_def buf_wf_def push_byte_payload) (auto simp: push_byte_def)
next
  case True
  let ?i = "size_index buffer_sizes (t_buffer_size t)"
  obtain ok t1 where a: "alloc t = (ok, t1)" by (cases "alloc t")
  from alloc_cases [OF a] obtain h where t1: "t1 = t\<lparr>t_heap := h\<rparr>" ..
  show ?thesis
  proof (cases "?i < 4 \<and> ok")
    case ok: True
    then have "t_buffer_size t < buffer_sizes ! Suc ?i" "buffer_sizes ! Suc ?i \<in> set buffer_sizes"
      using assms buffer_sizes_next by (simp_all add: buf_wf_def)
    moreover have t': "err = TELNET_EOK \<and> t' = push_byte (t1\<lparr>t_buffer := t_buffer t1 @
        replicate (buffer_sizes ! Suc ?i - t_buffer_size t1) 0, t_buffer_size := buffer_sizes ! Suc ?i\<rparr>) b"
      using True ok assms(2) a by (simp add: buffer_byte_def Let_def)
    ultimately show ?thesis
      using True assms(1)
      by (simp add: t1 push_byte_payload buf_wf_def) (simp add: push_byte_def payload_def)
  next
    case False
    with True assms a show ?thesis
      by (auto simp: buffer_byte_def Let_def error_ev_def buf_wf_def t1 split: if_splits)
  qed
qed

lemma buffer_byte_frame:
  assumes "buffer_byte t b = (err, t')"
  shows "t_telopts t' = t_telopts t" "t_q t' = t_q t" "t_state t' = t_state t" "t_flags t' = t_flags t"
    "t_sb_telopt t' = t_sb_telopt t" "t_q_size t' = t_q_size t" "t_q_cnt t' = t_q_cnt t"
    "set (t_heap t') \<subseteq> set (t_heap t)"
  using assms by (auto simp: buffer_byte_def Let_def error_ev_def push_byte_def alloc_def
      split: if_splits list.splits)

text \<open>Without an allocation failure a byte is refused only when 16384 are held.\<close>

lemma buffer_byte_room:
  assumes "buf_wf t" "False \<notin> set (t_heap t)" "length (payload t) < 16384"
  shows "fst (buffer_byte t b) = TELNET_EOK"
proof -
  have "fst (alloc t)" using assms(2) by (auto simp: alloc_def split: list.splits)
  moreover have "t_buffer_pos t = t_buffer_size t \<Longrightarrow> size_index buffer_sizes (t_buffer_size t) < 4"
    using assms by (intro buffer_sizes_index) (auto simp: buf_wf_def payload_def)
  ultimately show ?thesis by (auto simp: buffer_byte_def Let_def split: prod.splits)
qed

section \<open>Facts on the ENVIRON parser\<close>

text \<open>
  The reference: variables as lists, without a shared buffer. \<open>unesc_until\<close> reads up to a stop byte
  and removes the escapes; a variable is a type byte, a name and perhaps a value.
\<close>

fun unesc_until :: "byte list \<Rightarrow> byte list \<Rightarrow> byte list \<times> byte list" where
  "unesc_until stops [] = ([], [])"
| "unesc_until stops (x # xs) =
     (if x \<in> set stops then ([], x # xs)
      else if x = TELNET_ENVIRON_ESC then
        (case xs of [] \<Rightarrow> ([], []) | y # ys \<Rightarrow>
           (case unesc_until stops ys of (nm, r) \<Rightarrow> (y # nm, r)))
      else (case unesc_until stops xs of (nm, r) \<Rightarrow> (x # nm, r)))"

abbreviation (input) name_stops :: "byte list" where
  "name_stops \<equiv> [TELNET_ENVIRON_VAR, TELNET_ENVIRON_VALUE, TELNET_ENVIRON_USERVAR]"

abbreviation (input) value_stops :: "byte list" where
  "value_stops \<equiv> [TELNET_ENVIRON_VAR, TELNET_ENVIRON_USERVAR]"

lemma unesc_until_length: "unesc_until stops bs = (nm, r) \<Longrightarrow> length nm + length r \<le> length bs"
  by (induction stops bs arbitrary: nm r rule: unesc_until.induct)
    (fastforce split: if_splits list.splits prod.splits)+

function ref_vars :: "byte list \<Rightarrow> (byte \<times> byte list \<times> byte list) list" where
  "ref_vars [] = []"
| "ref_vars (ty # xs) =
     (case unesc_until name_stops xs of (nm, r) \<Rightarrow>
        if r \<noteq> [] \<and> hd r = TELNET_ENVIRON_VALUE then
          (case unesc_until value_stops (tl r) of (v, r') \<Rightarrow> (ty, nm, v) # ref_vars r')
        else (ty, nm, []) # ref_vars r)"
  by pat_completeness auto
termination
  by (relation "measure length") (auto dest!: unesc_until_length [OF sym] simp: neq_Nil_conv)

declare ref_vars.simps(2) [simp del]

definition esc_ok :: "byte list \<Rightarrow> bool" where
  "esc_ok bs \<longleftrightarrow> bs = [] \<or> last bs \<noteq> TELNET_ENVIRON_ESC"

text \<open>The unread data from \<open>c\<close> on.\<close>

definition unread :: "nat \<Rightarrow> byte list \<Rightarrow> nat \<Rightarrow> byte list" where
  "unread sz mem c = drop c (take sz mem)"

lemma unread_Cons:
  "c < sz \<Longrightarrow> sz \<le> length mem \<Longrightarrow> unread sz mem c = mem ! c # unread sz mem (Suc c)"
  by (simp add: unread_def Cons_nth_drop_Suc [symmetric])

lemma unread_end: "sz \<le> c \<Longrightarrow> unread sz mem c = []"
  by (simp add: unread_def)

lemma unread_update: "p < c \<Longrightarrow> unread sz (mem[p := x]) c = unread sz mem c"
  by (simp add: unread_def drop_take drop_update_cancel)

lemma length_unread: "sz \<le> length mem \<Longrightarrow> length (unread sz mem c) = sz - c"
  by (simp add: unread_def)

lemma esc_ok_Cons: "esc_ok (x # xs) \<Longrightarrow> esc_ok xs"
  by (cases xs) (simp_all add: esc_ok_def)

text \<open>
  One copying loop writes the unescaped bytes where it said it would, leaves everything from its
  read position on untouched, and stays behind that position.
\<close>

lemma env_copy_spec:
  assumes "sz \<le> length mem" "out < c" "c \<le> sz" "esc_ok (unread sz mem c)"
    and "unesc_until stops (unread sz mem c) = (nm, r)"
  shows "env_copy stops sz mem c out =
      Some (take out mem @ nm @ drop (out + length nm) mem, sz - length r, out + length nm) \<and>
    out + length nm < sz - length r \<and> c \<le> sz - length r \<and> r = unread sz mem (sz - length r) \<and> esc_ok r"
  using assms
proof (induction stops sz mem c out arbitrary: nm r rule: env_copy.induct)
  case (1 stops sz mem c out)
  show ?case
  proof (cases "c < sz")
    case False
    with "1.prems" have "c = sz" by simp
    with "1.prems" show ?thesis by (simp add: env_copy.simps [of stops sz mem sz] unread_end esc_ok_def)
  next
    case c: True
    with "1.prems" have u: "unread sz mem c = mem ! c # unread sz mem (Suc c)" by (intro unread_Cons)
    show ?thesis
    proof (cases "mem ! c \<in> set stops")
      case True
      with "1.prems" c u have "nm = []" "r = unread sz mem c" by auto
      with True "1.prems" c show ?thesis
        by (simp add: env_copy.simps [of stops sz mem c] buf_rd_def length_unread)
    next
      case False
      define c' where "c' = (if mem ! c = TELNET_ENVIRON_ESC then Suc c else c)"
      have c'_lt: "c' < sz"
        using "1.prems"(4) c u unread_end [of sz "Suc c" mem]
        by (cases "Suc c < sz") (auto simp: c'_def esc_ok_def)
      define y where "y = mem ! c'"
      define mem' where "mem' = mem[out := y]"
      obtain nm' where nm: "nm = y # nm'" and u': "unesc_until stops (unread sz mem (Suc c')) = (nm', r)"
        using "1.prems"(1,5) u False c'_lt unread_Cons [of "Suc c" sz mem]
        by (auto simp: c'_def y_def split: if_splits prod.splits)
      have rec: "env_copy stops sz mem c out = env_copy stops sz mem' (Suc c') (Suc out)"
        using "1.prems" c False c'_lt
        by (simp add: env_copy.simps [of stops sz mem c] buf_rd_def buf_wr_def mem'_def y_def c'_def)
      have "out < Suc c'" "Suc c' \<le> sz" "Suc out < Suc c'"
        using "1.prems"(2) c'_lt by (auto simp: c'_def)
      then have un: "unread sz mem' (Suc c') = unread sz mem (Suc c')"
        by (simp add: mem'_def unread_update)
      have esc: "esc_ok (unread sz mem (Suc c'))"
        using "1.prems"(1,4) u c'_lt unread_Cons [of "Suc c" sz mem]
        by (auto simp: c'_def dest!: esc_ok_Cons split: if_splits)
      have IH: "env_copy stops sz mem' (Suc c') (Suc out) =
          Some (take (Suc out) mem' @ nm' @ drop (Suc out + length nm') mem', sz - length r, Suc out + length nm') \<and>
          Suc out + length nm' < sz - length r \<and> Suc c' \<le> sz - length r \<and> r = unread sz mem' (sz - length r) \<and> esc_ok r"
        using "1.prems"(1,2) \<open>Suc c' \<le> sz\<close> \<open>Suc out < Suc c'\<close> c False esc u' un c'_lt
        by (intro "1.IH" [of "mem ! c" c' y mem']) (auto simp: buf_rd_def buf_wr_def c'_def y_def mem'_def)
      have "take (Suc out) mem' = take out mem @ [y]"
        using "1.prems"(1-3) by (simp add: mem'_def take_update_last)
      moreover have "drop (Suc out + length nm') mem' = drop (out + length nm) mem"
        by (simp add: mem'_def nm drop_update_cancel)
      moreover have "unread sz mem' (sz - length r) = unread sz mem (sz - length r)"
        unfolding mem'_def by (rule unread_update) (use IH in simp)
      ultimately show ?thesis
        using IH rec nm by (simp add: c'_def split: if_splits)
    qed
  qed
qed

text \<open>
  Copying one string and terminating it: the string lies at \<open>out\<close>, what was before \<open>out\<close> and what is
  unread are as before, and the write position is still behind the read position.
\<close>

definition copied :: "byte list \<Rightarrow> nat \<Rightarrow> byte list \<Rightarrow> byte list" where
  "copied mem out nm = take out mem @ nm @ 0 # drop (Suc (out + length nm)) mem"

lemma copied_facts:
  assumes "out + length nm < length mem"
  shows length_copied: "length (copied mem out nm) = length mem"
    and wr_copied: "buf_wr (take out mem @ nm @ drop (out + length nm) mem) (out + length nm) 0 = Some (copied mem out nm)"
    and drop_copied: "out + length nm < k \<Longrightarrow> drop k (copied mem out nm) = drop k mem"
    and unread_copied: "out + length nm < k \<Longrightarrow> unread sz (copied mem out nm) k = unread sz mem k"
proof -
  show "length (copied mem out nm) = length mem" using assms by (simp add: copied_def)
  have "(take out mem @ nm @ drop (out + length nm) mem)[out + length nm := 0] = copied mem out nm"
    using assms by (simp add: copied_def list_update_append Cons_nth_drop_Suc [symmetric])
  then show "buf_wr (take out mem @ nm @ drop (out + length nm) mem) (out + length nm) 0 = Some (copied mem out nm)"
    using assms by (simp add: buf_wr_def)
  assume "out + length nm < k"
  then show "drop k (copied mem out nm) = drop k mem"
    using assms by (simp add: copied_def drop_Cons')
  then show "unread sz (copied mem out nm) k = unread sz mem k" by (simp add: unread_def drop_take)
qed

lemma copy_string:
  assumes "sz \<le> length mem" "Suc out < c" "c \<le> sz" "esc_ok (unread sz mem c)"
    and "unesc_until stops (unread sz mem c) = (nm, r)"
  defines "c' \<equiv> sz - length r" and "out' \<equiv> out + length nm"
  shows "env_copy stops sz mem c out = Some (take out mem @ nm @ drop out' mem, c', out') \<and>
    buf_wr (take out mem @ nm @ drop out' mem) out' 0 = Some (copied mem out nm) \<and>
    length (copied mem out nm) = length mem \<and> Suc out' < c' \<and> c' \<le> sz \<and>
    unread sz (copied mem out nm) c' = r \<and> esc_ok r"
proof -
  note spec = env_copy_spec [OF assms(1) Suc_lessD [OF assms(2)] assms(3-5)]
  have gap: "c + length nm \<le> c'"
    using unesc_until_length [OF assms(5)] assms(1,3) by (simp add: length_unread c'_def)
  have c': "c' \<le> sz" by (simp add: c'_def)
  have out': "out' < length mem" "out \<le> length mem" using gap c' assms(1,2) by (simp_all add: out'_def)
  have "unread sz (copied mem out nm) c' = r"
    using spec gap assms(2) out' unread_copied [of out nm mem c' sz] by (simp add: c'_def out'_def)
  with spec gap c' assms(2) out' show ?thesis
    by (simp add: c'_def out'_def length_copied wr_copied)
qed

text \<open>The number of arguments counted is the number of variables there are.\<close>

lemma env_count_name:
  "unesc_until name_stops bs = (nm, r) \<Longrightarrow> env_count bs = env_count r"
  by (induction name_stops bs arbitrary: nm r rule: unesc_until.induct)
    (auto split: if_splits list.splits prod.splits)

lemma env_count_value:
  "unesc_until value_stops bs = (v, r) \<Longrightarrow> env_count bs = env_count r"
  by (induction value_stops bs arbitrary: v r rule: unesc_until.induct)
    (auto split: if_splits list.splits prod.splits)

lemma unesc_until_stops:
  "unesc_until stops bs = (nm, r) \<Longrightarrow> r = [] \<or> hd r \<in> set stops"
  by (induction stops bs arbitrary: nm r rule: unesc_until.induct)
    (fastforce split: if_splits list.splits prod.splits)+

definition at_var :: "byte list \<Rightarrow> bool" where
  "at_var bs \<longleftrightarrow> bs = [] \<or> hd bs = TELNET_ENVIRON_VAR \<or> hd bs = TELNET_ENVIRON_USERVAR"

lemma env_count_ref: "at_var bs \<Longrightarrow> env_count bs = length (ref_vars bs)"
proof (induction bs rule: ref_vars.induct)
  case (2 ty xs)
  obtain nm r where n: "unesc_until name_stops xs = (nm, r)" by (cases "unesc_until name_stops xs")
  show ?case
  proof (cases "r \<noteq> [] \<and> hd r = TELNET_ENVIRON_VALUE")
    case True
    obtain v r' where v: "unesc_until value_stops (tl r) = (v, r')" by (cases "unesc_until value_stops (tl r)")
    have "at_var r'" using unesc_until_stops [OF v] by (auto simp: at_var_def)
    with "2.IH"(1) [OF n [symmetric] True v [symmetric]] have "env_count (tl r) = length (ref_vars r')"
      using env_count_value [OF v] by simp
    with n v True "2.prems" show ?thesis
      by (cases r) (auto simp: at_var_def ref_vars.simps(2) env_count_name [OF n])
  next
    case False
    then have "at_var r" using unesc_until_stops [OF n] by (auto simp: at_var_def)
    with "2.IH"(2) [OF n [symmetric] False] n False "2.prems" show ?thesis
      by (auto simp: at_var_def ref_vars.simps(2) env_count_name [OF n])
  qed
qed simp

definition c_string :: "byte list \<Rightarrow> byte list" where
  "c_string s = takeWhile (\<lambda>b. b \<noteq> 0) s"

definition ref_strings :: "(byte \<times> byte list \<times> byte list) list \<Rightarrow> environ_var list" where
  "ref_strings = map (\<lambda>(ty, nm, v). (ty, Some (c_string nm), Some (c_string v)))"

lemma cstr_copied:
  assumes "out + length nm < length mem" "take (Suc (out + length nm)) mem' = take (Suc (out + length nm)) (copied mem out nm)"
  shows "cstr_at mem' out = c_string nm"
proof -
  have "take (Suc (out + length nm)) mem' = take out mem @ nm @ [0]"
    using assms by (simp add: copied_def)
  then show ?thesis unfolding c_string_def by (rule cstr_at_prefix) (use assms in simp)
qed

lemma take_copied: "out \<le> length mem \<Longrightarrow> take out (copied mem out nm) = take out mem"
  by (simp add: copied_def)

lemma take_take_eq: "take m xs = take m ys \<Longrightarrow> n \<le> m \<Longrightarrow> take n xs = take n ys"
  by (metis min.absorb1 take_take)

lemma env_values_spec:
  assumes "sz \<le> length mem" "out < c" "c \<le> sz" "esc_ok (unread sz mem c)" "at_var (unread sz mem c)"
  shows "\<exists>mem' vs. env_values (length (ref_vars (unread sz mem c))) sz mem c out = Some (mem', vs) \<and>
    length mem' = length mem \<and> take out mem' = take out mem \<and>
    map (env_string mem') vs = ref_strings (ref_vars (unread sz mem c))"
  using assms
proof (induction "unread sz mem c" arbitrary: mem c out rule: ref_vars.induct)
  case 1
  then show ?case by (simp flip: "1.hyps" add: ref_strings_def)
next
  case (2 ty xs)
  have c: "c < sz" using "2.hyps" unread_end [of sz c mem] by (cases "c < sz") auto
  with "2" have u: "ty = mem ! c" "xs = unread sz mem (Suc c)" by (simp_all add: unread_Cons)
  have rdc: "buf_rd mem c = Some ty" using c "2.prems"(1) u by (simp add: buf_rd_def)
  obtain nm r where n: "unesc_until name_stops xs = (nm, r)" by (cases "unesc_until name_stops xs")
  let ?m1 = "copied mem out nm" and ?c1 = "sz - length r" and ?o1 = "out + length nm"
  have "esc_ok (unread sz mem (Suc c))"
    using "2.prems"(4) "2.hyps" u by (metis esc_ok_Cons)
  then have cp: "env_copy name_stops sz mem (Suc c) out = Some (take out mem @ nm @ drop ?o1 mem, ?c1, ?o1) \<and>
    buf_wr (take out mem @ nm @ drop ?o1 mem) ?o1 0 = Some ?m1 \<and>
    length ?m1 = length mem \<and> Suc ?o1 < ?c1 \<and> ?c1 \<le> sz \<and> unread sz ?m1 ?c1 = r \<and> esc_ok r"
    using copy_string [of sz mem out "Suc c" name_stops nm r] "2.prems"(1-3) c n u by simp
  have o0: "take out ?m1 = take out mem"
    using "2.prems"(1-3) by (intro take_copied) linarith
  show ?case
  proof (cases "r \<noteq> [] \<and> hd r = TELNET_ENVIRON_VALUE")
    case True
    obtain v r' where v: "unesc_until value_stops (tl r) = (v, r')" by (cases "unesc_until value_stops (tl r)")
    have c1: "?c1 < sz" using True "2.prems" by (cases r) auto
    then have r: "r = ?m1 ! ?c1 # unread sz ?m1 (Suc ?c1)"
      using cp "2.prems"(1) unread_Cons [of ?c1 sz ?m1] by simp
    then have tl: "tl r = unread sz ?m1 (Suc ?c1)" and hv: "?m1 ! ?c1 = TELNET_ENVIRON_VALUE"
      using True by (metis list.sel(3), metis list.sel(1))
    let ?m2 = "copied ?m1 (Suc ?o1) v" and ?c2 = "sz - length r'" and ?o2 = "Suc ?o1 + length v"
    have "esc_ok (tl r)" using cp r by (metis esc_ok_Cons list.sel(3))
    then have cv: "env_copy value_stops sz ?m1 (Suc ?c1) (Suc ?o1) = Some (take (Suc ?o1) ?m1 @ v @ drop ?o2 ?m1, ?c2, ?o2) \<and>
      buf_wr (take (Suc ?o1) ?m1 @ v @ drop ?o2 ?m1) ?o2 0 = Some ?m2 \<and>
      length ?m2 = length ?m1 \<and> Suc ?o2 < ?c2 \<and> ?c2 \<le> sz \<and> unread sz ?m2 ?c2 = r' \<and> esc_ok r'"
      using copy_string [of sz ?m1 "Suc ?o1" "Suc ?c1" value_stops v r'] cp "2.prems"(1) c1 v tl by simp
    have "at_var r'" using unesc_until_stops [OF v] by (auto simp: at_var_def)
    then obtain mem' vs where rest: "env_values (length (ref_vars r')) sz ?m2 ?c2 (Suc ?o2) = Some (mem', vs)"
      "length mem' = length ?m2" "take (Suc ?o2) mem' = take (Suc ?o2) ?m2"
      "map (env_string mem') vs = ref_strings (ref_vars r')"
      using "2.hyps"(1) [OF n [symmetric] True, of v ?m2 ?c2 "Suc ?o2"] v cv cp "2.prems"(1)
      by auto
    have ref: "ref_vars (unread sz mem c) = (ty, nm, v) # ref_vars r'"
      using n True v by (simp add: ref_vars.simps(2) flip: "2.hyps"(3))
    have val: "cstr_at mem' (Suc ?o1) = c_string v"
      using rest(3) cv cp "2.prems"(1) by (intro cstr_copied [of "Suc ?o1" v ?m1]) auto
    have o1: "Suc ?o1 \<le> length ?m1" using cp "2.prems"(1) by linarith
    have pre1: "take (Suc ?o1) mem' = take (Suc ?o1) ?m1"
      using take_take_eq [OF rest(3), of "Suc ?o1"] take_copied [OF o1, of v] by simp
    then have name: "cstr_at mem' out = c_string nm"
      using cp "2.prems"(1) by (intro cstr_copied [of out nm mem]) auto
    have pre: "take out mem' = take out mem"
      using o0 take_take_eq [OF pre1, of out] by simp
    show ?thesis
      using rdc cp cv rest ref c1 hv val name pre "2.prems"(1)
      by (simp add: buf_rd_def ref_strings_def env_string_def)
  next
    case False
    have hasv: "(if ?c1 < sz then map_option (\<lambda>x. x = TELNET_ENVIRON_VALUE) (buf_rd ?m1 ?c1) else Some False) = Some False"
    proof (cases "?c1 < sz")
      case True
      then have "?m1 ! ?c1 # unread sz ?m1 (Suc ?c1) = r"
        using cp "2.prems"(1) unread_Cons [of ?c1 sz ?m1] by simp
      then have "hd r = ?m1 ! ?c1" "r \<noteq> []" by (metis list.sel(1), metis list.distinct(1))
      with False True cp "2.prems"(1) show ?thesis by (simp add: buf_rd_def)
    qed simp
    have "at_var r" using False unesc_until_stops [OF n] by (auto simp: at_var_def)
    then obtain mem' vs where rest: "env_values (length (ref_vars r)) sz ?m1 ?c1 (Suc ?o1) = Some (mem', vs)"
      "length mem' = length ?m1" "take (Suc ?o1) mem' = take (Suc ?o1) ?m1"
      "map (env_string mem') vs = ref_strings (ref_vars r)"
      using "2.hyps"(2) [of nm ?m1 ?c1 "Suc ?o1"] n False cp "2.prems"(1) by auto
    have ref: "ref_vars (unread sz mem c) = (ty, nm, []) # ref_vars r"
      using n False by (auto simp: ref_vars.simps(2) simp flip: "2.hyps"(3))
    have name: "cstr_at mem' out = c_string nm"
      using rest(3) cp "2.prems"(1) by (intro cstr_copied [of out nm mem]) auto
    have pre: "take out mem' = take out mem"
      using o0 take_take_eq [OF rest(3), of out] by simp
    show ?thesis
      using rdc cp rest ref hasv name pre by (simp add: ref_strings_def env_string_def c_string_def)
  qed
qed

section \<open>Facts on the MSSP parser\<close>

definition mssp_text :: "byte list \<Rightarrow> byte list" where
  "mssp_text = takeWhile (\<lambda>x. x \<noteq> TELNET_MSSP_VAR \<and> x \<noteq> TELNET_MSSP_VAL)"

lemma mssp_copy_spec:
  assumes "sz \<le> length mem" "out < c" "c \<le> sz" "mssp_text (unread sz mem c) = nm"
  shows "mssp_copy sz mem c out =
      Some (take out mem @ nm @ drop (out + length nm) mem, c + length nm, out + length nm) \<and>
    c + length nm \<le> sz"
  using assms
proof (induction sz mem c out arbitrary: nm rule: mssp_copy.induct)
  case (1 sz mem c out)
  show ?case
  proof (cases "c < sz")
    case False
    with "1.prems" have "c = sz" by simp
    with "1.prems" show ?thesis by (simp add: mssp_copy.simps [of sz mem sz] unread_end mssp_text_def)
  next
    case c: True
    with "1.prems" have u: "unread sz mem c = mem ! c # unread sz mem (Suc c)" by (intro unread_Cons)
    show ?thesis
    proof (cases "mem ! c = TELNET_MSSP_VAR \<or> mem ! c = TELNET_MSSP_VAL")
      case True
      with "1.prems" c u show ?thesis
        by (auto simp: mssp_copy.simps [of sz mem c] buf_rd_def mssp_text_def)
    next
      case False
      let ?m = "mem[out := mem ! c]"
      have o: "out < length mem" using "1.prems"(1-3) by linarith
      define nm' where "nm' = mssp_text (unread sz ?m (Suc c))"
      have nm: "nm = mem ! c # nm'" "mssp_text (unread sz ?m (Suc c)) = nm'"
        using "1.prems"(2,4) False u by (auto simp: nm'_def mssp_text_def unread_update)
      have rec: "mssp_copy sz mem c out = mssp_copy sz ?m (Suc c) (Suc out)"
        using "1.prems"(1) c False o by (simp add: mssp_copy.simps [of sz mem c] buf_rd_def buf_wr_def)
      have IH: "mssp_copy sz ?m (Suc c) (Suc out) =
          Some (take (Suc out) ?m @ nm' @ drop (Suc out + length nm') ?m, Suc c + length nm', Suc out + length nm') \<and>
          Suc c + length nm' \<le> sz"
        using "1.prems"(1,2) c False nm(2) o
        by (intro "1.IH" [of "mem ! c"]) (auto simp: buf_rd_def buf_wr_def)
      then show ?thesis using rec nm(1) o by (simp add: take_update_last drop_update_cancel)
    qed
  qed
qed

lemma mssp_segment:
  assumes "sz \<le> length mem" "Suc out \<le> c" "c \<le> sz" "mssp_text (unread sz mem c) = nm"
  defines "c1 \<equiv> c + length nm" and "out1 \<equiv> out + length nm"
  shows "mssp_copy sz mem c out = Some (take out mem @ nm @ drop out1 mem, c1, out1) \<and>
    buf_wr (take out mem @ nm @ drop out1 mem) out1 0 = Some (copied mem out nm) \<and>
    length (copied mem out nm) = length mem \<and> c1 \<le> sz \<and>
    unread sz (copied mem out nm) c1 = unread sz mem c1"
proof -
  have spec: "mssp_copy sz mem c out = Some (take out mem @ nm @ drop out1 mem, c1, out1)" "c1 \<le> sz"
    using mssp_copy_spec [OF assms(1) _ assms(3,4), of out] assms(2) by (auto simp: c1_def out1_def)
  then have out1: "out1 < length mem" "out \<le> length mem"
    using assms(1,2) by (simp_all add: c1_def out1_def)
  then show ?thesis
    using spec assms(2) unread_copied [of out nm mem c1 sz]
    by (simp add: c1_def out1_def length_copied wr_copied)
qed

lemma mssp_text_stop:
  assumes "mssp_text bs = nm" "drop (length nm) bs = x # xs"
  shows "x = TELNET_MSSP_VAR \<or> x = TELNET_MSSP_VAL"
proof -
  have "dropWhile (\<lambda>x. x \<noteq> TELNET_MSSP_VAR \<and> x \<noteq> TELNET_MSSP_VAL) bs = x # xs"
    using assms unfolding mssp_text_def by (simp add: dropWhile_eq_drop)
  then show ?thesis by (metis (mono_tags, lifting) dropWhile_eq_Cons_conv)
qed

lemma mssp_text_count: "count_list (mssp_text bs) TELNET_MSSP_VAL = 0"
  by (auto simp: mssp_text_def count_list_0_iff dest: set_takeWhileD)

text \<open>
  The loop reads one byte past the data. With room behind the data it ends with all values read;
  when the data fills its block it leaves the block. A data error is never reported.
\<close>

definition mssp_state_ok :: "byte list \<Rightarrow> byte \<Rightarrow> nat option \<Rightarrow> nat \<Rightarrow> nat \<Rightarrow> bool" where
  "mssp_state_ok data next_type var i n \<longleftrightarrow>
     (next_type = TELNET_MSSP_VAR \<and> i + count_list data TELNET_MSSP_VAL \<le> n) \<or>
     (next_type = TELNET_MSSP_VAL \<and> var \<noteq> None \<and> Suc (i + count_list data TELNET_MSSP_VAL) \<le> n)"

lemma mssp_state_ok_next:
  assumes "sz \<le> length mem" "c \<le> sz" "mssp_text (unread sz mem c) = nm" "c + length nm < sz"
    and "mssp_state_ok (unread sz mem c) next_type var i n"
    and "next_type = TELNET_MSSP_VAR \<Longrightarrow> var' \<noteq> None \<and> i' = i"
    and "next_type = TELNET_MSSP_VAL \<Longrightarrow> var' = var \<and> i' = Suc i"
  shows "mssp_state_ok (unread sz mem (Suc (c + length nm))) (mem ! (c + length nm)) var' i' n"
proof -
  let ?c1 = "c + length nm"
  have d: "drop (length nm) (unread sz mem c) = unread sz mem ?c1"
    by (simp add: unread_def add.commute)
  have u1: "unread sz mem ?c1 = mem ! ?c1 # unread sz mem (Suc ?c1)"
    using assms(1,4) by (intro unread_Cons)
  have "unread sz mem c = nm @ unread sz mem ?c1"
    using d assms(3) by (metis append_take_drop_id mssp_text_def takeWhile_eq_take)
  then have "count_list (unread sz mem c) TELNET_MSSP_VAL = count_list (unread sz mem ?c1) TELNET_MSSP_VAL"
    using mssp_text_count [of "unread sz mem c"] assms(3) by simp
  moreover have "mem ! ?c1 = TELNET_MSSP_VAR \<or> mem ! ?c1 = TELNET_MSSP_VAL"
    using mssp_text_stop [OF assms(3)] d u1 by simp
  ultimately show ?thesis using assms(5-7) u1 by (auto simp: mssp_state_ok_def)
qed

definition mssp_mark :: "byte \<Rightarrow> bool" where
  "mssp_mark b \<longleftrightarrow> b = TELNET_MSSP_VAR \<or> b = TELNET_MSSP_VAL"

lemma mssp_text_all:
  assumes "sz \<le> length mem" "c < sz" "c + length (mssp_text (unread sz mem c)) = sz"
  shows "\<not> mssp_mark (mem ! (sz - 1))"
proof -
  have "length (mssp_text (unread sz mem c)) = length (unread sz mem c)"
    using assms by (simp add: length_unread)
  then have "mssp_text (unread sz mem c) = unread sz mem c"
    unfolding mssp_text_def by (rule takeWhile_full)
  moreover have "mem ! (sz - 1) \<in> set (unread sz mem c)"
    using assms(1,2) by (auto simp: unread_def in_set_conv_nth intro!: exI [of _ "sz - 1 - c"])
  ultimately have "mem ! (sz - 1) \<in> set (mssp_text (unread sz mem c))" by simp
  then show ?thesis by (auto simp: mssp_text_def mssp_mark_def dest: set_takeWhileD)
qed

lemma nth_copied: "out + length nm < k \<Longrightarrow> k < length mem \<Longrightarrow> copied mem out nm ! k = mem ! k"
  using drop_copied [of out nm mem k] hd_drop_conv_nth [of k mem] hd_drop_conv_nth [of k "copied mem out nm"]
  by (simp add: length_copied)

lemma mssp_loop_ends:
  assumes "sz \<le> length mem" "out < c" "c \<le> Suc sz"
    and "c < sz \<Longrightarrow> mssp_state_ok (unread sz mem c) next_type var i (length vs)"
  shows "if c < sz \<and> sz = length mem \<and> \<not> mssp_mark (mem ! (sz - 1))
    then mssp_loop sz mem c out lst next_type var i vs = MsspOverread sz
    else \<exists>mem' vs'. mssp_loop sz mem c out lst next_type var i vs = MsspDone mem' vs' \<and>
      length mem' = length mem"
  using assms
proof (induction sz mem c out lst next_type var i vs rule: mssp_loop.induct)
  case (1 sz mem c out lst next_type var i vs)
  let ?loop = "mssp_loop sz mem c out lst next_type var i vs"
  show ?case
  proof (cases "c < sz")
    case False
    then show ?thesis by (simp add: mssp_loop.simps [of sz mem c])
  next
    case c: True
    define nm where "nm = mssp_text (unread sz mem c)"
    let ?c1 = "c + length nm" and ?o1 = "out + length nm" and ?m = "copied mem out nm"
    have seg: "mssp_copy sz mem c out = Some (take out mem @ nm @ drop ?o1 mem, ?c1, ?o1)"
      "buf_wr (take out mem @ nm @ drop ?o1 mem) ?o1 0 = Some ?m" "length ?m = length mem" "?c1 \<le> sz"
      "unread sz ?m (Suc ?c1) = unread sz mem (Suc ?c1)" "unread sz ?m ?c1 = unread sz mem ?c1"
      using mssp_segment [of sz mem out c nm] "1.prems"(1,2) c unread_copied [of out nm mem "Suc ?c1" sz]
      by (simp_all add: nm_def)
    have ok: "mssp_state_ok (unread sz mem c) next_type var i (length vs)" using "1.prems"(4) c by simp
    show ?thesis
    proof (cases "?c1 < length mem")
      case False
      then have "sz = length mem" "?c1 = sz" using seg(4) "1.prems"(1) by simp_all
      moreover from this have "\<not> mssp_mark (mem ! (sz - 1))"
        using mssp_text_all [of sz mem c] c by (simp add: nm_def)
      ultimately show ?thesis
        using c seg ok by (auto simp: mssp_loop.simps [of _ mem c] buf_rd_def mssp_state_ok_def)
    next
      case True
      then have buf_rd: "buf_rd ?m ?c1 = Some (?m ! ?c1)" using seg(3) by (simp add: buf_rd_def)
      have nth: "?c1 \<le> k \<Longrightarrow> k < length mem \<Longrightarrow> ?m ! k = mem ! k" for k
        using "1.prems"(2) by (intro nth_copied) simp_all
      have stop: "?c1 < sz \<Longrightarrow> mssp_mark (mem ! ?c1)"
        using mssp_text_stop [OF nm_def [symmetric], of "mem ! ?c1" "unread sz mem (Suc ?c1)"]
          unread_Cons [of ?c1 sz mem] "1.prems"(1) by (simp add: unread_def mssp_mark_def add.commute)
      have cond: "(Suc ?c1 < sz \<and> sz = length mem \<and> \<not> mssp_mark (?m ! (sz - 1))) =
          (c < sz \<and> sz = length mem \<and> \<not> mssp_mark (mem ! (sz - 1)))"
      proof (cases "Suc ?c1 < sz")
        case True
        then show ?thesis using c seg(3) "1.prems"(1) nth [of "sz - 1"] by simp
      next
        case False
        then have "sz = length mem \<Longrightarrow> sz - 1 = ?c1" using True by simp
        then show ?thesis using False stop True by auto
      qed
      show ?thesis
      proof (cases "next_type = TELNET_MSSP_VAR")
        case var: True
        have step: "?loop = mssp_loop sz ?m (Suc ?c1) (Suc ?o1) (Suc ?o1) (?m ! ?c1) (Some lst) i vs"
          using c seg buf_rd var by (simp add: mssp_loop.simps [of sz mem c])
        have "?c1 < sz \<Longrightarrow> mssp_state_ok (unread sz ?m (Suc ?c1)) (?m ! ?c1) (Some lst) i (length vs)"
          using mssp_state_ok_next [of sz mem c nm next_type var i "length vs" "Some lst" i]
            "1.prems"(1) c ok var nth seg(5) by (simp add: nm_def)
        then show ?thesis
          unfolding step
          by (intro "1.IH"(1) [OF c seg(1) refl refl seg(2) var buf_rd, unfolded seg(3) cond])
            (use "1.prems"(1,2) seg(3,4) in simp_all)
      next
        case False
        with ok have val: "next_type = TELNET_MSSP_VAL \<and> var \<noteq> None" "i < length vs"
          by (auto simp: mssp_state_ok_def)
        have step: "?loop = mssp_loop sz ?m (Suc ?c1) (Suc ?o1) (Suc ?o1) (?m ! ?c1) var (Suc i)
            (vs[i := Some (the var, lst)])"
          using c seg buf_rd False val by (simp add: mssp_loop.simps [of sz mem c])
        have "?c1 < sz \<Longrightarrow> mssp_state_ok (unread sz ?m (Suc ?c1)) (?m ! ?c1) var (Suc i) (length vs)"
          using mssp_state_ok_next [of sz mem c nm next_type var i "length vs" var "Suc i"]
            "1.prems"(1) c ok val nth seg(5) by (simp add: nm_def)
        then show ?thesis
          unfolding step
          by (intro "1.IH"(2) [OF c seg(1) refl refl seg(2) False val buf_rd, unfolded seg(3) cond])
            (use "1.prems"(1,2) seg(3,4) in simp_all)
      qed
    qed
  qed
qed

section \<open>What a sub-negotiation may change\<close>

definition sub_core :: "telnet \<Rightarrow> telnet" where
  "sub_core t = t\<lparr>t_heap := [], t_buffer := [], t_evs := []\<rparr>"

definition sub_step :: "telnet \<Rightarrow> telnet \<Rightarrow> bool" where
  "sub_step t t' \<longleftrightarrow> sub_core t' = sub_core t \<and> length (t_buffer t') = length (t_buffer t) \<and>
     set (t_heap t') \<subseteq> set (t_heap t) \<and> (\<exists>es. t_evs t' = t_evs t @ es)"

lemma sub_step_refl: "sub_step t t"
  by (simp add: sub_step_def)

lemma sub_step_trans: "sub_step t t' \<Longrightarrow> sub_step t' t'' \<Longrightarrow> sub_step t t''"
  by (auto simp: sub_step_def)

lemma sub_step_emit: "sub_step t t' \<Longrightarrow> sub_step t (emit t' e)"
  by (auto simp: sub_step_def sub_core_def emit_def)

lemma sub_step_warn: "sub_step t t' \<Longrightarrow> sub_step t (warn t' err m args)"
  by (simp add: warn_def error_ev_def sub_step_emit)

lemma sub_step_buffer: "sub_step t t' \<Longrightarrow> length mem = length (t_buffer t) \<Longrightarrow> sub_step t (t'\<lparr>t_buffer := mem\<rparr>)"
  by (auto simp: sub_step_def sub_core_def)

lemma sub_step_alloc: "alloc t = (ok, t') \<Longrightarrow> sub_step t t'"
  by (auto simp: sub_step_def sub_core_def alloc_def split: list.splits)

lemmas sub_step_intros = sub_step_refl sub_step_emit sub_step_warn sub_step_buffer sub_step_alloc

lemma env_copy_length: "env_copy stops sz mem c out = Some (mem', c', out') \<Longrightarrow> length mem' = length mem"
proof (induction stops sz mem c out rule: env_copy.induct)
  case (1 stops sz mem c out)
  from "1.prems" show ?case
    by (subst (asm) env_copy.simps)
      (auto simp: buf_wr_def Let_def split: if_splits option.splits dest!: "1.IH" [rotated -1])
qed

lemma env_values_length: "env_values k sz mem c out = Some (mem', vs) \<Longrightarrow> length mem' = length mem"
proof (induction k arbitrary: mem c out mem' vs)
  case (Suc k)
  then show ?case
    by (auto simp: buf_wr_def bind_eq_Some_conv dest!: Suc.IH split: if_splits) (auto dest!: env_copy_length)
qed simp

lemma mssp_copy_length: "mssp_copy sz mem c out = Some (mem', c', out') \<Longrightarrow> length mem' = length mem"
proof (induction sz mem c out rule: mssp_copy.induct)
  case (1 sz mem c out)
  from "1.prems" show ?case
    by (subst (asm) mssp_copy.simps)
      (auto simp: buf_wr_def split: if_splits option.splits dest!: "1.IH" [rotated -1])
qed

lemma mssp_loop_length:
  "mssp_loop sz mem c out lst next_type var i vs \<in> {MsspDone mem' vs', MsspBad mem'} \<Longrightarrow>
    length mem' = length mem"
proof (induction sz mem c out lst next_type var i vs rule: mssp_loop.induct)
  case (1 sz mem c out lst next_type var i vs)
  show ?case
  proof (cases "c < sz")
    case False
    with "1.prems" show ?thesis by (simp add: mssp_loop.simps [of sz mem c])
  next
    case c: True
    with "1.prems" obtain mem1 c1 out1 mem2 where m: "mssp_copy sz mem c out = Some (mem1, c1, out1)"
      "buf_wr mem1 out1 0 = Some mem2"
      by (auto simp: mssp_loop.simps [of sz mem c] split: option.splits)
    then have l: "length mem2 = length mem" by (auto simp: buf_wr_def dest!: mssp_copy_length split: if_splits)
    note IH = "1.IH"(1,2) [OF c m(1) refl refl m(2)]
    from "1.prems" c m IH l show ?thesis
      by (auto simp: mssp_loop.simps [of sz mem c] split: if_splits option.splits)
  qed
qed

lemma environ_sub_step: "sub_step t (environ_telnet t ty)"
proof -
  obtain ok t1 where a: "alloc t = (ok, t1)" by (cases "alloc t")
  then have s: "sub_step t t1" and b: "t_buffer t1 = t_buffer t"
    by (auto simp: sub_step_alloc dest: alloc_cases)
  have "env_values k sz (t_buffer t) 1 0 = Some (mem, vs) \<Longrightarrow> sub_step t (t1\<lparr>t_buffer := mem\<rparr>)" for k sz mem vs
    using s by (auto intro: sub_step_buffer dest: env_values_length)
  then show ?thesis
    by (cases "take (t_buffer_pos t) (t_buffer t)")
      (auto simp: environ_telnet_def Let_def a s b sub_step_refl
        intro: sub_step_emit sub_step_warn split: option.split)
qed

lemma mssp_sub_step: "sub_step t (mssp_telnet t)"
proof -
  obtain ok t1 where a: "alloc t = (ok, t1)" by (cases "alloc t")
  then have s: "sub_step t t1" and b: "t_buffer t1 = t_buffer t"
    by (auto simp: sub_step_alloc dest: alloc_cases)
  have "mssp_loop sz (t_buffer t) 1 0 0 ty None 0 vs = MsspDone mem vs' \<Longrightarrow> sub_step t (t1\<lparr>t_buffer := mem\<rparr>)"
    and "mssp_loop sz (t_buffer t) 1 0 0 ty None 0 vs = MsspBad mem \<Longrightarrow> sub_step t (t1\<lparr>t_buffer := mem\<rparr>)"
    for sz ty vs mem vs'
    using s mssp_loop_length by (blast intro: sub_step_buffer)+
  then show ?thesis
    by (cases "take (t_buffer_pos t) (t_buffer t)")
      (auto simp: mssp_telnet_def Let_def a s b sub_step_refl
        intro: sub_step_emit sub_step_warn split: mssp_result.split)
qed

lemma zmp_sub_step: "sub_step t (zmp_telnet t)"
  by (auto simp: zmp_telnet_def Let_def intro: sub_step_refl sub_step_emit sub_step_warn sub_step_alloc split: prod.splits)

lemma ttype_sub_step: "sub_step t (ttype_telnet t)"
  by (auto simp: ttype_telnet_def intro: sub_step_refl sub_step_emit sub_step_warn sub_step_alloc
      split: list.splits prod.splits)

lemma subnegotiate_sub_step: "sub_step t (subnegotiate t)"
  using sub_step_emit [OF sub_step_refl, of t]
  by (auto simp: subnegotiate_def Let_def intro: sub_step_trans zmp_sub_step ttype_sub_step
      environ_sub_step mssp_sub_step)

lemma sub_step_frame:
  assumes "sub_step t t'"
  shows "t_telopts t' = t_telopts t" "t_q t' = t_q t" "t_state t' = t_state t" "t_flags t' = t_flags t"
    "t_sb_telopt t' = t_sb_telopt t" "t_q_size t' = t_q_size t" "t_q_cnt t' = t_q_cnt t"
    "t_buffer_size t' = t_buffer_size t" "t_buffer_pos t' = t_buffer_pos t"
    "length (t_buffer t') = length (t_buffer t)" "set (t_heap t') \<subseteq> set (t_heap t)"
    "\<exists>es. t_evs t' = t_evs t @ es"
  using assms unfolding sub_step_def sub_core_def by (cases t; cases t'; auto)+

lemmas subnegotiate_frame = sub_step_frame [OF subnegotiate_sub_step]

section \<open>Results\<close>

lemma environ_loop_spec:
  assumes "buf_wf t" "payload t = cmd # args" "args \<noteq> []" "at_var args" "esc_ok args"
  shows "\<exists>mem vs. env_values (env_count args) (t_buffer_pos t) (t_buffer t) 1 0 = Some (mem, vs) \<and>
    length mem = length (t_buffer t) \<and> map (env_string mem) vs = ref_strings (ref_vars args)"
proof -
  have sz: "t_buffer_pos t \<le> length (t_buffer t)" using assms(1) by (simp add: buf_wf_def)
  have u: "unread (t_buffer_pos t) (t_buffer t) 1 = args"
    using assms(2) unfolding payload_def unread_def by simp
  have "length (payload t) = t_buffer_pos t" using sz by (simp add: payload_def)
  then have "1 \<le> t_buffer_pos t" using assms(2) by simp
  then show ?thesis
    using env_values_spec [OF sz, of 0 1] assms(4,5) by (simp only: u env_count_ref) simp
qed

lemma mssp_start:
  assumes "buf_wf t" "payload t = TELNET_MSSP_VAR # rest"
  shows "if rest \<noteq> [] \<and> t_buffer_pos t = t_buffer_size t \<and> \<not> mssp_mark (last rest) then
      mssp_loop (t_buffer_pos t) (t_buffer t) 1 0 0 TELNET_MSSP_VAR None 0
        (replicate (count_list (payload t) TELNET_MSSP_VAL) None) = MsspOverread (t_buffer_pos t)
    else \<exists>mem vs. mssp_loop (t_buffer_pos t) (t_buffer t) 1 0 0 TELNET_MSSP_VAR None 0
        (replicate (count_list (payload t) TELNET_MSSP_VAL) None) = MsspDone mem vs \<and>
      length mem = length (t_buffer t)"
proof -
  have sz: "t_buffer_pos t \<le> length (t_buffer t)" using assms(1) by (simp add: buf_wf_def)
  have u: "unread (t_buffer_pos t) (t_buffer t) 1 = rest"
    using assms(2) unfolding payload_def unread_def by simp
  have "length (payload t) = t_buffer_pos t" using sz by (simp add: payload_def)
  then have p: "t_buffer_pos t = Suc (length rest)" using assms(2) by simp
  then have "payload t ! length rest = t_buffer t ! (t_buffer_pos t - 1)" by (simp add: payload_def)
  then have l: "rest \<noteq> [] \<Longrightarrow> last rest = t_buffer t ! (t_buffer_pos t - 1)"
    using assms(2) by (simp add: last_conv_nth nth_Cons')
  have st: "mssp_state_ok (unread (t_buffer_pos t) (t_buffer t) 1) TELNET_MSSP_VAR None 0
      (length (replicate (count_list (payload t) TELNET_MSSP_VAL) None))"
    unfolding u using assms(2) by (simp add: mssp_state_ok_def)
  have "1 < t_buffer_pos t \<longleftrightarrow> rest \<noteq> []" using p by simp
  then show ?thesis
    using mssp_loop_ends [OF sz _ _ st, where out = 0 and lst = 0] assms(1) l p
    by (cases "rest = []") (simp_all only: buf_wf_def, simp_all)
qed

lemma environ_parsed:
  assumes "buf_wf t" "fst (alloc t)" "payload t = cmd # args" "cmd \<le> 2" "args \<noteq> []" "at_var args" "esc_ok args"
  shows "t_evs (environ_telnet t ty) = t_evs t @ [EvEnviron cmd (ref_strings (ref_vars args))]"
proof -
  have "\<forall>x::byte. x \<le> 2 \<longrightarrow> x = 0 \<or> x = 1 \<or> x = 2"
    unfolding all_byte_enum by code_simp
  with assms(4) have cmd: "cmd = 0 \<or> cmd = 1 \<or> cmd = 2" by blast
  obtain t1 where a: "alloc t = (True, t1)" using assms(2) by (cases "alloc t") auto
  then have b: "t_buffer t1 = t_buffer t" "t_evs t1 = t_evs t" by (auto dest: alloc_cases)
  obtain mem vs where e: "env_values (env_count args) (t_buffer_pos t) (t_buffer t) 1 0 = Some (mem, vs)"
    "map (env_string mem) vs = ref_strings (ref_vars args)"
    using environ_loop_spec [OF assms(1,3,5,6,7)] by blast
  have d: "take (t_buffer_pos t) (t_buffer t) = cmd # args" using assms(3) by (simp add: payload_def)
  show ?thesis
    using cmd assms(5-7) by (auto simp: environ_telnet_def d a b e [simplified] Let_def at_var_def esc_ok_def)
qed

text \<open>
  Accesses outside a block in the log: none by a DATA event, none by the ENVIRON parser, and by the
  MSSP parser only one byte past a sub-negotiation buffer that is full.
\<close>

definition log_ok :: "telnet \<Rightarrow> bool" where
  "log_ok t \<longleftrightarrow> (\<forall>e\<in>set (t_evs t). case e of
     EvDataWild _ _ \<Rightarrow> False | EvOverread opt n \<Rightarrow> opt = TELNET_TELOPT_MSSP \<and> n \<in> {512, 2048, 8192, 16384} | _ \<Rightarrow> True)"

lemma log_ok_emit [simp]:
  "log_ok (emit t e) \<longleftrightarrow> log_ok t \<and> (case e of
     EvDataWild _ _ \<Rightarrow> False | EvOverread opt n \<Rightarrow> opt = TELNET_TELOPT_MSSP \<and> n \<in> {512, 2048, 8192, 16384} | _ \<Rightarrow> True)"
  by (auto simp: log_ok_def)

lemma log_ok_warn [simp]: "log_ok (warn t err m args) = log_ok t"
  by (simp add: warn_def error_ev_def)

lemma log_ok_buffer [simp]: "log_ok (t\<lparr>t_buffer := m\<rparr>) = log_ok t"
  by (simp add: log_ok_def)

lemma log_ok_alloc: "alloc t = (ok, t') \<Longrightarrow> log_ok t' = log_ok t"
  by (auto simp: log_ok_def dest: alloc_cases)

lemma environ_log_ok:
  assumes "buf_wf t" "log_ok t"
  shows "log_ok (environ_telnet t ty)"
proof (cases "take (t_buffer_pos t) (t_buffer t)")
  case Nil
  then show ?thesis using assms by (simp add: environ_telnet_def Let_def del: take_eq_Nil)
next
  case (Cons cmd args)
  obtain ok t1 where a: "alloc t = (ok, t1)" by (cases "alloc t")
  then have b: "t_buffer t1 = t_buffer t" by (auto dest: alloc_cases)
  have e: "args \<noteq> [] \<Longrightarrow> at_var args \<Longrightarrow> esc_ok args \<Longrightarrow>
      \<exists>mem vs. env_values (env_count args) (t_buffer_pos t) (t_buffer t) (Suc 0) 0 = Some (mem, vs)"
    using environ_loop_spec [of t cmd args] assms(1) Cons by (auto simp: payload_def)
  from Cons a b log_ok_alloc [OF a] assms(2) e show ?thesis
    by (auto simp: environ_telnet_def Let_def at_var_def esc_ok_def split: option.split)
qed

lemma mssp_outcome:
  assumes "buf_wf t" "payload t = TELNET_MSSP_VAR # rest" "fst (alloc t)"
  shows "if rest \<noteq> [] \<and> t_buffer_pos t = t_buffer_size t \<and> \<not> mssp_mark (last rest)
    then t_evs (mssp_telnet t) = t_evs t @ [EvOverread TELNET_TELOPT_MSSP (t_buffer_pos t)]
    else \<exists>vs. t_evs (mssp_telnet t) = t_evs t @ [EvMssp vs]"
proof -
  obtain t1 where a: "alloc t = (True, t1)" using assms(3) by (cases "alloc t") auto
  then have b: "t_buffer t1 = t_buffer t" "t_evs t1 = t_evs t" by (auto dest: alloc_cases)
  have d: "take (t_buffer_pos t) (t_buffer t) = TELNET_MSSP_VAR # rest" using assms(2) by (simp add: payload_def)
  let ?r = "mssp_loop (t_buffer_pos t) (t_buffer t) 1 0 0 TELNET_MSSP_VAR None 0
    (replicate (count_list (payload t) TELNET_MSSP_VAL) None)"
  have "mssp_telnet t = (case ?r of MsspDone mem vs \<Rightarrow> emit (t1\<lparr>t_buffer := mem\<rparr>) (EvMssp vs)
      | MsspBad mem \<Rightarrow> warn (t1\<lparr>t_buffer := mem\<rparr>) TELNET_EPROTOCOL ''invalid MSSP subnegotiation data'' []
      | MsspOverread p \<Rightarrow> emit t1 (EvOverread TELNET_TELOPT_MSSP p))"
    unfolding assms(2) by (simp add: mssp_telnet_def d a b Let_def)
  then show ?thesis
    using mssp_start [OF assms(1,2)] b(2) by (auto split: if_splits)
qed

lemma mssp_log_ok:
  assumes "buf_wf t" "log_ok t"
  shows "log_ok (mssp_telnet t)"
proof (cases "payload t \<noteq> [] \<and> hd (payload t) = TELNET_MSSP_VAR \<and> fst (alloc t)")
  case True
  then obtain rest where r: "payload t = TELNET_MSSP_VAR # rest" by (cases "payload t") auto
  from True have "0 < t_buffer_pos t" by (auto simp: payload_def)
  then have "t_buffer_pos t = t_buffer_size t \<Longrightarrow> t_buffer_pos t \<in> {512, 2048, 8192, 16384}"
    using assms(1) by (auto simp: buf_wf_def buffer_sizes_def)
  then show ?thesis
    using mssp_outcome [OF assms(1) r] True assms(2) by (auto simp: log_ok_def split: if_splits)
next
  case False
  obtain ok t1 where a: "alloc t = (ok, t1)" by (cases "alloc t")
  from False a log_ok_alloc [OF a] assms(2) show ?thesis
    by (auto simp: mssp_telnet_def payload_def Let_def split: list.split)
qed

lemma zmp_log_ok: "log_ok t \<Longrightarrow> log_ok (zmp_telnet t)"
  by (cases "alloc t") (auto simp: zmp_telnet_def Let_def log_ok_alloc)

lemma ttype_log_ok: "log_ok t \<Longrightarrow> log_ok (ttype_telnet t)"
  by (cases "alloc t") (auto simp: ttype_telnet_def log_ok_alloc split: list.split)

lemma subnegotiate_log_ok: "buf_wf t \<Longrightarrow> log_ok t \<Longrightarrow> log_ok (subnegotiate t)"
  by (simp add: subnegotiate_def Let_def environ_log_ok mssp_log_ok zmp_log_ok ttype_log_ok)

section \<open>Properties\<close>

text \<open>
  Property (C19). The in-place ENVIRON parser agrees with a reference parser on lists: for every
  payload that passes the tests of \<open>_environ_telnet\<close> (a command up to 2, a first type byte VAR or
  USERVAR, no trailing ESC) the event carries exactly the variables the reference finds, as the C
  strings the handler reads.
\<close>

theorem environ_parses:
  assumes "buf_wf t" "fst (alloc t)" "payload t = cmd # args" "cmd \<le> 2" "args \<noteq> []" "at_var args" "esc_ok args"
  shows "t_evs (environ_telnet t ty) = t_evs t @ [EvEnviron cmd (ref_strings (ref_vars args))]"
  using environ_parsed [OF assms] .

definition sub_example :: "byte \<Rightarrow> byte list \<Rightarrow> telnet" where
  "sub_example opt bs =
     \<lparr>t_telopts = None, t_q = [], t_buffer = bs @ replicate (512 - length bs) 0, t_buffer_size = 512,
      t_buffer_pos = length bs, t_state = TELNET_STATE_DATA, t_flags = 0, t_sb_telopt = opt, t_q_size = 0,
      t_q_cnt = 0, t_heap = [], t_evs = []\<rparr>"

lemma buf_wf_sub_example: "length bs \<le> 512 \<Longrightarrow> buf_wf (sub_example opt bs)"
  by (simp add: buf_wf_def sub_example_def buffer_sizes_def)

lemma payload_sub_example: "length bs \<le> 512 \<Longrightarrow> payload (sub_example opt bs) = bs"
  by (simp add: payload_def sub_example_def)

lemma alloc_sub_example: "fst (alloc (sub_example opt bs))"
  by (simp add: sub_example_def)

theorem environ_parses_witness:
  "t_evs (environ_telnet (sub_example 39 [0, 0, 85, 1, 2, 2, 98, 3, 88]) 39) =
     [EvEnviron 0 [(0, Some [85], Some [2, 98]), (3, Some [88], Some [])]]"
proof -
  have "ref_strings (ref_vars [0, 85, 1, 2, 2, 98, 3, 88]) = [(0, Some [85], Some [2, 98]), (3, Some [88], Some [])]"
    by code_simp
  then show ?thesis
    using environ_parses [of "sub_example 39 [0, 0, 85, 1, 2, 2, 98, 3, 88]" 0 "[0, 85, 1, 2, 2, 98, 3, 88]" 39]
    by (simp add: buf_wf_sub_example payload_sub_example alloc_sub_example at_var_def esc_ok_def)
      (simp add: sub_example_def)
qed

text \<open>
  The loop of \<open>_mssp_telnet\<close> reads \<open>*c++\<close> once after the last byte of the data. This read
  leaves the allocated block exactly when the data fills the buffer and does not end in a VAR or VAL
  marker; in every other case the parser reports its event.
\<close>

theorem mssp_overread:
  assumes "buf_wf t" "payload t = TELNET_MSSP_VAR # rest" "fst (alloc t)"
  shows "if rest \<noteq> [] \<and> t_buffer_pos t = t_buffer_size t \<and> \<not> mssp_mark (last rest)
    then t_evs (mssp_telnet t) = t_evs t @ [EvOverread TELNET_TELOPT_MSSP (t_buffer_pos t)]
    else \<exists>vs. t_evs (mssp_telnet t) = t_evs t @ [EvMssp vs]"
  using mssp_outcome [OF assms] .

theorem mssp_overread_witness:
  "t_evs (mssp_telnet (sub_example 70 (1 # replicate 511 65))) = [EvOverread TELNET_TELOPT_MSSP 512] \<and>
   (\<exists>vs. t_evs (mssp_telnet (sub_example 70 [1, 65, 2, 66])) = [EvMssp vs])"
  using mssp_overread [of "sub_example 70 (1 # replicate 511 65)" "replicate 511 65"]
    mssp_overread [of "sub_example 70 [1, 65, 2, 66]" "[65, 2, 66]"]
  by (simp add: buf_wf_sub_example payload_sub_example alloc_sub_example mssp_mark_def)
    (simp add: sub_example_def)

end
