(* ===== verification/Telnet_Recv.thy ===== *)
theory Telnet_Recv
  imports Telnet_Opt Telnet_Sub
begin

text \<open>
  The receiver of \<open>libtelnet.c\<close>: \<open>_process\<close> and \<open>telnet_recv\<close>. The C routine keeps an index \<open>start\<close>
  into its input and reports runs of data bytes as slices of it. The abstract receiver handles one
  byte at a time and keeps no index; the refinement lemma says that the two report the same stream
  of events, whatever way the input is cut into buffers.
\<close>

section \<open>The receiver\<close>

text \<open>
  A DATA event with \<open>buffer + start\<close> and \<open>i - start\<close>; when \<open>start\<close> has passed \<open>i\<close> the
  subtraction wraps and the handler is given memory outside the input.
\<close>

definition data_ev :: "byte list \<Rightarrow> nat \<Rightarrow> nat \<Rightarrow> telnet_event" where
  "data_ev buf start i =
     (if start \<le> i \<and> i \<le> length buf then EvData (slice buf start i)
      else EvDataWild start (of_nat i - of_nat start))"

definition flush_to :: "byte list \<Rightarrow> nat \<Rightarrow> nat \<Rightarrow> telnet \<Rightarrow> telnet" where
  "flush_to buf start i t = (if i \<noteq> start then emit t (data_ev buf start i) else t)"

definition nvt_cr :: "telnet \<Rightarrow> byte \<Rightarrow> bool" where
  "nvt_cr t b \<longleftrightarrow> b = 13 \<and> flag_set t TELNET_FLAG_NVT_EOL \<and> \<not> flag_set t TELNET_FLAG_RECEIVE_BINARY"

text \<open>The case \<open>TELNET_STATE_IAC\<close>; the second component is the new \<open>start\<close>.\<close>

definition process_iac :: "nat \<Rightarrow> byte \<Rightarrow> telnet \<times> nat \<Rightarrow> telnet \<times> nat" where
  "process_iac i b s = (case s of (t, start) \<Rightarrow>
     if b = TELNET_SB then (t\<lparr>t_state := TELNET_STATE_SB\<rparr>, start)
     else if b = TELNET_WILL then (t\<lparr>t_state := TELNET_STATE_WILL\<rparr>, start)
     else if b = TELNET_WONT then (t\<lparr>t_state := TELNET_STATE_WONT\<rparr>, start)
     else if b = TELNET_DO then (t\<lparr>t_state := TELNET_STATE_DO\<rparr>, start)
     else if b = TELNET_DONT then (t\<lparr>t_state := TELNET_STATE_DONT\<rparr>, start)
     else if b = TELNET_IAC then ((emit t (EvData [b]))\<lparr>t_state := TELNET_STATE_DATA\<rparr>, i + 1)
     else ((emit t (EvIac b))\<lparr>t_state := TELNET_STATE_DATA\<rparr>, i + 1))"

text \<open>
  The recursive call \<open>_process(telnet, &byte, 1)\<close>. It is made in \<open>TELNET_STATE_IAC\<close>, so its loop
  makes one pass through that case.
\<close>

definition process_one_iac :: "byte \<Rightarrow> telnet \<Rightarrow> telnet" where
  "process_one_iac b t = (case process_iac 0 b (t, 0) of (t, start) \<Rightarrow>
     if t_state t = TELNET_STATE_DATA then flush_to [b] start 1 t else t)"

definition process_step :: "byte list \<Rightarrow> nat \<Rightarrow> telnet \<times> nat \<Rightarrow> telnet \<times> nat" where
  "process_step buf i s = (case s of (t, start) \<Rightarrow>
     let b = buf ! i in
     case t_state t of
       TELNET_STATE_DATA \<Rightarrow>
         if b = TELNET_IAC then ((flush_to buf start i t)\<lparr>t_state := TELNET_STATE_IAC\<rparr>, start)
         else if nvt_cr t b then ((flush_to buf start i t)\<lparr>t_state := TELNET_STATE_EOL\<rparr>, start)
         else (t, start)
     | TELNET_STATE_EOL \<Rightarrow>
         (let t = (if b \<noteq> 10 then emit t (EvData [13]) else t)
          in (t\<lparr>t_state := TELNET_STATE_DATA\<rparr>, if b = 0 then i + 1 else i))
     | TELNET_STATE_IAC \<Rightarrow> process_iac i b (t, start)
     | TELNET_STATE_WILL \<Rightarrow> ((negotiate t b)\<lparr>t_state := TELNET_STATE_DATA\<rparr>, i + 1)
     | TELNET_STATE_WONT \<Rightarrow> ((negotiate t b)\<lparr>t_state := TELNET_STATE_DATA\<rparr>, i + 1)
     | TELNET_STATE_DO \<Rightarrow> ((negotiate t b)\<lparr>t_state := TELNET_STATE_DATA\<rparr>, i + 1)
     | TELNET_STATE_DONT \<Rightarrow> ((negotiate t b)\<lparr>t_state := TELNET_STATE_DATA\<rparr>, i + 1)
     | TELNET_STATE_SB \<Rightarrow>
         (t\<lparr>t_sb_telopt := b, t_buffer_pos := 0, t_state := TELNET_STATE_SB_DATA\<rparr>, start)
     | TELNET_STATE_SB_DATA \<Rightarrow>
         if b = TELNET_IAC then (t\<lparr>t_state := TELNET_STATE_SB_DATA_IAC\<rparr>, start)
         else if t_sb_telopt t = TELNET_TELOPT_COMPRESS \<and> b = TELNET_WILL then
           (t\<lparr>t_state := TELNET_STATE_DATA\<rparr>, i + 2)
         else
           (case buffer_byte t b of (err, t) \<Rightarrow>
              if err \<noteq> TELNET_EOK then (t\<lparr>t_state := TELNET_STATE_DATA\<rparr>, i + 1) else (t, start))
     | TELNET_STATE_SB_DATA_IAC \<Rightarrow>
         if b = TELNET_SE then (subnegotiate (t\<lparr>t_state := TELNET_STATE_DATA\<rparr>), i + 1)
         else if b = TELNET_IAC then
           (case buffer_byte t TELNET_IAC of (err, t) \<Rightarrow>
              if err \<noteq> TELNET_EOK then (t\<lparr>t_state := TELNET_STATE_DATA\<rparr>, i + 1)
              else (t\<lparr>t_state := TELNET_STATE_SB_DATA\<rparr>, start))
         else
           (let t = warn t TELNET_EPROTOCOL ''unexpected byte after IAC inside SB: %d'' [b];
                t = subnegotiate (t\<lparr>t_state := TELNET_STATE_IAC\<rparr>)
            in (process_one_iac b t, i + 1)))"

definition process :: "telnet \<Rightarrow> byte list \<Rightarrow> telnet" where
  "process t buf = (case fold (process_step buf) [0..<length buf] (t, 0) of (t, start) \<Rightarrow>
     if t_state t = TELNET_STATE_DATA then flush_to buf start (length buf) t else t)"

definition telnet_recv :: "telnet \<Rightarrow> byte list \<Rightarrow> telnet" where
  "telnet_recv t buf = process t buf"

section \<open>The abstract receiver\<close>

definition recv_iac :: "telnet \<Rightarrow> byte \<Rightarrow> telnet" where
  "recv_iac t b = fst (process_iac 0 b (t, 0))"

text \<open>One byte; every data byte is reported on its own.\<close>

definition recv_byte :: "telnet \<Rightarrow> byte \<Rightarrow> telnet" where
  "recv_byte t b = (case t_state t of
       TELNET_STATE_DATA \<Rightarrow>
         if b = TELNET_IAC then t\<lparr>t_state := TELNET_STATE_IAC\<rparr>
         else if nvt_cr t b then t\<lparr>t_state := TELNET_STATE_EOL\<rparr>
         else emit t (EvData [b])
     | TELNET_STATE_EOL \<Rightarrow>
         (let t = (if b \<noteq> 10 then emit t (EvData [13]) else t);
              t = (if b \<noteq> 0 then emit t (EvData [b]) else t)
          in t\<lparr>t_state := TELNET_STATE_DATA\<rparr>)
     | TELNET_STATE_IAC \<Rightarrow> recv_iac t b
     | TELNET_STATE_SB \<Rightarrow>
         t\<lparr>t_sb_telopt := b, t_buffer_pos := 0, t_state := TELNET_STATE_SB_DATA\<rparr>
     | TELNET_STATE_SB_DATA \<Rightarrow>
         if b = TELNET_IAC then t\<lparr>t_state := TELNET_STATE_SB_DATA_IAC\<rparr>
         else
           (case buffer_byte t b of (err, t) \<Rightarrow>
              if err \<noteq> TELNET_EOK then t\<lparr>t_state := TELNET_STATE_DATA\<rparr> else t)
     | TELNET_STATE_SB_DATA_IAC \<Rightarrow>
         if b = TELNET_SE then subnegotiate (t\<lparr>t_state := TELNET_STATE_DATA\<rparr>)
         else if b = TELNET_IAC then
           (case buffer_byte t TELNET_IAC of (err, t) \<Rightarrow>
              t\<lparr>t_state := if err \<noteq> TELNET_EOK then TELNET_STATE_DATA else TELNET_STATE_SB_DATA\<rparr>)
         else
           (let t = warn t TELNET_EPROTOCOL ''unexpected byte after IAC inside SB: %d'' [b]
            in recv_iac (subnegotiate (t\<lparr>t_state := TELNET_STATE_IAC\<rparr>)) b)
     | _ \<Rightarrow> (negotiate t b)\<lparr>t_state := TELNET_STATE_DATA\<rparr>)"

text \<open>The MCCPv1 sequence, where \<open>_process\<close> moves \<open>start\<close> past the byte it has not read yet.\<close>

definition mccp1_at :: "telnet \<Rightarrow> byte \<Rightarrow> bool" where
  "mccp1_at t b \<longleftrightarrow> t_state t = TELNET_STATE_SB_DATA \<and> t_sb_telopt t = TELNET_TELOPT_COMPRESS \<and> b = TELNET_WILL"

fun mccp1_free :: "telnet \<Rightarrow> byte list \<Rightarrow> bool" where
  "mccp1_free t [] = True"
| "mccp1_free t (b # bs) = (\<not> mccp1_at t b \<and> mccp1_free (recv_byte t b) bs)"

text \<open>Events with the data split into single bytes, and the tracker with its log in that form.\<close>

definition flat :: "telnet_event list \<Rightarrow> telnet_event list" where
  "flat es = concat (map (\<lambda>e. case e of EvData bs \<Rightarrow> map (\<lambda>b. EvData [b]) bs | _ \<Rightarrow> [e]) es)"

definition observe :: "telnet \<Rightarrow> telnet" where
  "observe t = t\<lparr>t_evs := flat (t_evs t)\<rparr>"

section \<open>Operations do not look at the log\<close>

text \<open>\<open>add_evs es t\<close> is the tracker \<open>t\<close> with \<open>es\<close> logged before everything it has logged itself.\<close>

definition add_evs :: "telnet_event list \<Rightarrow> telnet \<Rightarrow> telnet" where
  "add_evs es t = t\<lparr>t_evs := es @ t_evs t\<rparr>"

definition core :: "telnet \<Rightarrow> telnet" where
  "core t = t\<lparr>t_evs := []\<rparr>"

lemma add_evs_fields [simp]:
  "t_telopts (add_evs es t) = t_telopts t" "t_q (add_evs es t) = t_q t"
  "t_buffer (add_evs es t) = t_buffer t" "t_buffer_size (add_evs es t) = t_buffer_size t"
  "t_buffer_pos (add_evs es t) = t_buffer_pos t" "t_state (add_evs es t) = t_state t"
  "t_flags (add_evs es t) = t_flags t" "t_sb_telopt (add_evs es t) = t_sb_telopt t"
  "t_q_size (add_evs es t) = t_q_size t" "t_q_cnt (add_evs es t) = t_q_cnt t"
  "t_heap (add_evs es t) = t_heap t" "t_evs (add_evs es t) = es @ t_evs t"
  by (simp_all add: add_evs_def)

lemma add_evs_updates [simp]:
  "(add_evs es t)\<lparr>t_state := s\<rparr> = add_evs es (t\<lparr>t_state := s\<rparr>)"
  "(add_evs es t)\<lparr>t_q := q\<rparr> = add_evs es (t\<lparr>t_q := q\<rparr>)"
  "(add_evs es t)\<lparr>t_q_cnt := n\<rparr> = add_evs es (t\<lparr>t_q_cnt := n\<rparr>)"
  "(add_evs es t)\<lparr>t_q_size := n\<rparr> = add_evs es (t\<lparr>t_q_size := n\<rparr>)"
  "(add_evs es t)\<lparr>t_flags := f\<rparr> = add_evs es (t\<lparr>t_flags := f\<rparr>)"
  "(add_evs es t)\<lparr>t_buffer := m\<rparr> = add_evs es (t\<lparr>t_buffer := m\<rparr>)"
  "(add_evs es t)\<lparr>t_buffer_pos := n\<rparr> = add_evs es (t\<lparr>t_buffer_pos := n\<rparr>)"
  "(add_evs es t)\<lparr>t_buffer_size := n\<rparr> = add_evs es (t\<lparr>t_buffer_size := n\<rparr>)"
  "(add_evs es t)\<lparr>t_sb_telopt := b\<rparr> = add_evs es (t\<lparr>t_sb_telopt := b\<rparr>)"
  "(add_evs es t)\<lparr>t_heap := h\<rparr> = add_evs es (t\<lparr>t_heap := h\<rparr>)"
  by (simp_all add: add_evs_def)

lemma add_evs_emit [simp]: "emit (add_evs es t) e = add_evs es (emit t e)"
  by (simp add: add_evs_def emit_def)

lemma add_evs_alloc [simp]: "alloc (add_evs es t) = map_prod id (add_evs es) (alloc t)"
  by (simp add: alloc_def split: list.split)

lemma add_evs_warn [simp]: "warn (add_evs es t) err m args = add_evs es (warn t err m args)"
  by (simp add: warn_def error_ev_def)

lemma add_evs_error_ev [simp]:
  "error_ev (add_evs es t) err f m args = map_prod id (add_evs es) (error_ev t err f m args)"
  by (simp add: error_ev_def)

lemma add_evs_send [simp]: "send_negotiate (add_evs es t) c opt = add_evs es (send_negotiate t c opt)"
  by (simp add: send_negotiate_def send_t_def)

lemma add_evs_get [simp]: "get_rfc1143 (add_evs es t) opt = get_rfc1143 t opt"
  by (simp add: get_rfc1143_def cong: option.case_cong)

lemma add_evs_check [simp]: "check_telopt (add_evs es t) = check_telopt t"
  by (rule ext)+ (simp add: check_telopt_def)

lemma add_evs_flag [simp]: "flag_set (add_evs es t) = flag_set t"
  by (rule ext) (simp add: flag_set_def)

lemma add_evs_set [simp]: "set_rfc1143 (add_evs es t) opt us him = add_evs es (set_rfc1143 t opt us him)"
proof (cases "q_index (take (t_q_cnt t) (t_q t)) opt")
  case None
  obtain ok t1 where "alloc t = (ok, t1)" by (cases "alloc t")
  with None show ?thesis by (simp add: set_rfc1143_def q_append_def)
next
  case (Some i)
  then show ?thesis by (simp add: set_rfc1143_def set_binary_flags_def Let_def)
qed

lemma add_evs_protocol_warning [simp]: "protocol_warning (add_evs es t) m = add_evs es (protocol_warning t m)"
  by (simp add: protocol_warning_def)

lemma add_evs_arms:
  "negotiate_will (add_evs es t) opt = add_evs es (negotiate_will t opt)"
  "negotiate_wont (add_evs es t) opt = add_evs es (negotiate_wont t opt)"
  "negotiate_do (add_evs es t) opt = add_evs es (negotiate_do t opt)"
  "negotiate_dont (add_evs es t) opt = add_evs es (negotiate_dont t opt)"
  by (simp_all only: negotiate_arms Let_def add_evs_get add_evs_check add_evs_set add_evs_send
      add_evs_emit add_evs_protocol_warning if_distrib [of "add_evs es"])

lemma add_evs_negotiate: "negotiate (add_evs es t) opt = add_evs es (negotiate t opt)"
  by (cases "t_state t") (simp_all add: negotiate_def add_evs_arms)

lemma add_evs_buffer_byte: "buffer_byte (add_evs es t) b = map_prod id (add_evs es) (buffer_byte t b)"
  by (auto simp: buffer_byte_def push_byte_def Let_def split: prod.split)

lemma add_evs_environ: "environ_telnet (add_evs es t) ty = add_evs es (environ_telnet t ty)"
proof -
  obtain ok t1 where "alloc t = (ok, t1)" by (cases "alloc t")
  then show ?thesis
    by (cases "take (t_buffer_pos t) (t_buffer t)")
      (simp_all add: environ_telnet_def Let_def del: take_eq_Nil split: option.split)
qed

lemma add_evs_mssp: "mssp_telnet (add_evs es t) = add_evs es (mssp_telnet t)"
proof -
  obtain ok t1 where "alloc t = (ok, t1)" by (cases "alloc t")
  then show ?thesis
    by (cases "take (t_buffer_pos t) (t_buffer t)")
      (simp_all add: mssp_telnet_def Let_def del: take_eq_Nil split: mssp_result.split)
qed

lemma add_evs_zmp: "zmp_telnet (add_evs es t) = add_evs es (zmp_telnet t)"
proof -
  obtain ok t1 where "alloc t = (ok, t1)" by (cases "alloc t")
  then show ?thesis
    by (cases "take (t_buffer_pos t) (t_buffer t)")
      (simp_all add: zmp_telnet_def Let_def del: take_eq_Nil)
qed

lemma add_evs_ttype: "ttype_telnet (add_evs es t) = add_evs es (ttype_telnet t)"
proof -
  obtain ok t1 where "alloc t = (ok, t1)" by (cases "alloc t")
  then show ?thesis by (cases "take (t_buffer_pos t) (t_buffer t)") (simp_all add: ttype_telnet_def del: take_eq_Nil)
qed

lemma add_evs_subnegotiate: "subnegotiate (add_evs es t) = add_evs es (subnegotiate t)"
  by (simp add: subnegotiate_def Let_def add_evs_environ add_evs_mssp add_evs_zmp add_evs_ttype)

lemma add_evs_recv_iac: "recv_iac (add_evs es t) b = add_evs es (recv_iac t b)"
  by (simp add: recv_iac_def process_iac_def)

lemma add_evs_nvt_cr [simp]: "nvt_cr (add_evs es t) = nvt_cr t"
  by (rule ext) (simp add: nvt_cr_def)

lemma add_evs_recv_byte: "recv_byte (add_evs es t) b = add_evs es (recv_byte t b)"
  by (cases "t_state t")
    (auto simp: recv_byte_def Let_def add_evs_recv_iac add_evs_negotiate add_evs_buffer_byte
      add_evs_subnegotiate split: prod.split)

lemma core_add: "add_evs (t_evs t) (core t) = t"
  by (simp add: add_evs_def core_def)

lemma core_of_add [simp]: "core (add_evs es t) = core t"
  by (simp add: core_def add_evs_def)

section \<open>The receiver refines the abstract receiver\<close>

lemma flat_append [simp]: "flat (es @ es') = flat es @ flat es'"
  by (simp add: flat_def)

lemma flat_Nil [simp]: "flat [] = []"
  by (simp add: flat_def)

text \<open>Two trackers in the same state whose logs say the same.\<close>

definition same :: "telnet \<Rightarrow> telnet \<Rightarrow> bool" where
  "same t s \<longleftrightarrow> core t = core s \<and> flat (t_evs t) = flat (t_evs s)"

lemma same_observe: "same t s \<longleftrightarrow> observe t = observe s"
proof
  assume "same t s"
  then have "(core t)\<lparr>t_evs := flat (t_evs t)\<rparr> = (core s)\<lparr>t_evs := flat (t_evs s)\<rparr>" by (simp add: same_def)
  then show "observe t = observe s" by (simp add: core_def observe_def)
next
  assume a: "observe t = observe s"
  then have "core (observe t) = core (observe s)" "t_evs (observe t) = t_evs (observe s)" by simp_all
  then show "same t s" by (simp add: same_def core_def observe_def)
qed

lemma same_refl [simp]: "same t t"
  by (simp add: same_def)

lemma same_cong:
  assumes "same t s" and f: "\<And>es t. f (add_evs es t) = add_evs es (f t)"
  shows "same (f t) (f s)"
proof -
  have e: "f x = add_evs (t_evs x) (f (core x))" for x using f [of "t_evs x" "core x"] by (simp add: core_add)
  have "core t = core s" "flat (t_evs t) = flat (t_evs s)" using assms(1) by (simp_all add: same_def)
  then show ?thesis unfolding same_def by (subst (1 2) e, subst (3 4) e) simp
qed

lemma same_trans: "same t s \<Longrightarrow> same s u \<Longrightarrow> same t u"
  by (simp add: same_def)

lemma same_core: "same t s \<Longrightarrow> t_state t = t_state s" "same t s \<Longrightarrow> t_sb_telopt t = t_sb_telopt s"
  by (simp_all add: same_def core_def) (metis telnet.surjective telnet.update_convs(12) telnet.ext_inject)+

text \<open>
  How the loop of \<open>_process\<close> after \<open>i\<close> bytes relates to the abstract receiver: in the data state the
  bytes from \<open>start\<close> on are still to be reported, in every other state \<open>start\<close> means nothing.
\<close>

definition tracks :: "byte list \<Rightarrow> nat \<Rightarrow> telnet \<times> nat \<Rightarrow> telnet \<Rightarrow> bool" where
  "tracks buf i p s = (case p of (t, start) \<Rightarrow>
     if t_state t = TELNET_STATE_DATA then start \<le> i \<and> same (emit t (EvData (slice buf start i))) s
     else same t s)"

lemma same_recv_byte: "same t s \<Longrightarrow> same (recv_byte t b) (recv_byte s b)"
  by (rule same_cong [where f = "\<lambda>t. recv_byte t b"]) (simp_all add: add_evs_recv_byte)

lemma tracks_same: "tracks buf i p t \<Longrightarrow> same t s \<Longrightarrow> tracks buf i p s"
  by (auto simp: tracks_def intro: same_trans split: prod.splits if_splits)

lemma same_flush:
  "start \<le> i \<Longrightarrow> i \<le> length buf \<Longrightarrow>
     same ((flush_to buf start i t)\<lparr>t_state := st\<rparr>) ((emit t (EvData (slice buf start i)))\<lparr>t_state := st\<rparr>)"
  by (auto simp: flush_to_def data_ev_def same_def core_def emit_def flat_def)

lemma nvt_cr_emit [simp]: "nvt_cr (emit t e) = nvt_cr t"
  by (rule ext) (simp add: nvt_cr_def)

lemma tracks_data:
  assumes "i < length buf" "t_state t = TELNET_STATE_DATA" "start \<le> i"
  shows "tracks buf (Suc i) (process_step buf i (t, start)) (recv_byte (emit t (EvData (slice buf start i))) (buf ! i))"
  using assms same_flush [where start = start and i = i and buf = buf and t = t]
  by (auto simp: process_step_def recv_byte_def tracks_def slice_Suc)
    (simp add: same_def core_def emit_def flat_def)

lemma same_emit_Nil [simp]: "same (emit t (EvData [])) t"
  by (simp add: same_def core_def emit_def flat_def)

lemma tracks_here: "same t s \<Longrightarrow> tracks buf i (t, i) s"
  by (auto simp: tracks_def intro: same_trans [OF same_emit_Nil])

lemma tracks_other: "same t s \<Longrightarrow> t_state t \<noteq> TELNET_STATE_DATA \<Longrightarrow> tracks buf i (t, n) s"
  by (simp add: tracks_def)

lemma tracks_iac: "tracks buf (Suc i) (process_iac i b (t, start)) (recv_iac t b)"
  by (auto simp: process_iac_def recv_iac_def intro!: tracks_here tracks_other)

lemma process_one_iac: "process_one_iac b t = recv_iac t b"
  by (auto simp: process_one_iac_def recv_iac_def process_iac_def flush_to_def)

lemma tracks_step:
  assumes i: "i < length buf" and m: "\<not> mccp1_at t (buf ! i)" and s: "t_state t \<noteq> TELNET_STATE_DATA"
  shows "tracks buf (Suc i) (process_step buf i (t, start)) (recv_byte t (buf ! i))"
proof -
  obtain err t' where bb: "buffer_byte t (buf ! i) = (err, t')" by (cases "buffer_byte t (buf ! i)")
  then have t': "t_state t' = t_state t" by (simp add: buffer_byte_frame)
  have eol: "same (emit (u\<lparr>t_state := TELNET_STATE_DATA\<rparr>) (EvData (slice buf i (Suc i))))
      ((emit u (EvData [buf ! i]))\<lparr>t_state := TELNET_STATE_DATA\<rparr>)" for u
    using i by (simp add: slice_Suc same_def core_def emit_def)
  show ?thesis
  proof (cases "t_state t = TELNET_STATE_EOL")
    case True
    then show ?thesis
      using eol by (auto simp: process_step_def recv_byte_def Let_def tracks_def)
  next
    case False
    then show ?thesis
      using s m t' bb tracks_iac [of buf i "buf ! i" t start]
      by (cases "t_state t")
        (auto simp: process_step_def recv_byte_def Let_def mccp1_at_def process_one_iac
          intro!: tracks_here tracks_other)
  qed
qed

lemma mccp1_free_snoc:
  "mccp1_free t (bs @ [b]) \<longleftrightarrow> mccp1_free t bs \<and> \<not> mccp1_at (foldl recv_byte t bs) b"
  by (induction bs arbitrary: t) auto

lemma mccp1_free_append:
  "mccp1_free t (xs @ ys) \<longleftrightarrow> mccp1_free t xs \<and> mccp1_free (foldl recv_byte t xs) ys"
  by (induction xs arbitrary: t) auto

lemma mccp1_at_same: "same t s \<Longrightarrow> mccp1_at t b = mccp1_at s b"
  by (simp add: mccp1_at_def same_core)

lemma mccp1_free_same: "same t s \<Longrightarrow> mccp1_free t bs = mccp1_free s bs"
  by (induction bs arbitrary: t s) (simp_all add: mccp1_at_same, metis same_recv_byte)

lemma same_fold: "same t s \<Longrightarrow> same (foldl recv_byte t bs) (foldl recv_byte s bs)"
  by (induction bs arbitrary: t s) (simp_all add: same_recv_byte)

lemma loop_tracks:
  assumes "n \<le> length buf" "mccp1_free t (take n buf)"
  shows "tracks buf n (fold (process_step buf) [0..<n] (t, 0)) (foldl recv_byte t (take n buf))"
  using assms
proof (induction n)
  case 0
  then show ?case by (simp add: tracks_here)
next
  case (Suc n)
  let ?s = "foldl recv_byte t (take n buf)"
  obtain u start where u: "fold (process_step buf) [0..<n] (t, 0) = (u, start)"
    by (cases "fold (process_step buf) [0..<n] (t, 0)")
  have n: "n < length buf" and tk: "take (Suc n) buf = take n buf @ [buf ! n]"
    using Suc.prems(1) by (simp_all add: take_Suc_conv_app_nth)
  then have m: "mccp1_free t (take n buf)" "\<not> mccp1_at ?s (buf ! n)"
    using Suc.prems(2) by (simp_all add: mccp1_free_snoc)
  with Suc u have tr: "tracks buf n (u, start) ?s" by simp
  have "tracks buf (Suc n) (process_step buf n (u, start)) (recv_byte ?s (buf ! n))"
  proof (cases "t_state u = TELNET_STATE_DATA")
    case True
    with tr have "start \<le> n" "same (emit u (EvData (slice buf start n))) ?s" by (simp_all add: tracks_def)
    then show ?thesis
      by (intro tracks_same [OF tracks_data [OF n True]] same_recv_byte)
  next
    case False
    with tr have "same u ?s" by (simp add: tracks_def)
    with m(2) False show ?thesis
      by (intro tracks_same [OF tracks_step [OF n]] same_recv_byte) (simp_all add: mccp1_at_same)
  qed
  with tk u show ?case by simp
qed

lemma process_same:
  assumes "mccp1_free t buf"
  shows "same (process t buf) (foldl recv_byte t buf)"
proof -
  obtain u start where u: "fold (process_step buf) [0..<length buf] (t, 0) = (u, start)"
    by (cases "fold (process_step buf) [0..<length buf] (t, 0)")
  with loop_tracks [of "length buf" buf t] assms
  have tr: "tracks buf (length buf) (u, start) (foldl recv_byte t buf)" by simp
  show ?thesis
  proof (cases "t_state u = TELNET_STATE_DATA")
    case True
    with tr have st: "start \<le> length buf"
      and s: "same (emit u (EvData (slice buf start (length buf)))) (foldl recv_byte t buf)"
      by (simp_all add: tracks_def)
    have "same (flush_to buf start (length buf) u) (emit u (EvData (slice buf start (length buf))))"
      using st by (auto simp: flush_to_def data_ev_def same_def core_def emit_def flat_def)
    with s True u show ?thesis by (auto simp: process_def intro: same_trans)
  next
    case False
    with tr u show ?thesis by (simp add: tracks_def process_def)
  qed
qed

section \<open>The invariant\<close>

definition telnet_wf :: "telnet \<Rightarrow> bool" where
  "telnet_wf t \<longleftrightarrow> q_wf t \<and> buf_wf t"

lemma telnet_wf_emit [simp]: "telnet_wf (emit t e) = telnet_wf t"
  by (simp add: telnet_wf_def)

lemma telnet_wf_state [simp]: "telnet_wf (t\<lparr>t_state := st\<rparr>) = telnet_wf t"
  by (simp add: telnet_wf_def q_wf_def q_entries_def buf_wf_def)

lemma telnet_wf_sb: "telnet_wf t \<Longrightarrow> telnet_wf (t\<lparr>t_sb_telopt := b, t_buffer_pos := 0\<rparr>)"
  by (simp add: telnet_wf_def q_wf_def q_entries_def buf_wf_def)

lemma telnet_wf_warn [simp]: "telnet_wf (warn t err m args) = telnet_wf t"
  by (simp add: warn_def error_ev_def)

lemma telnet_wf_negotiate: "telnet_wf t \<Longrightarrow> telnet_wf (negotiate t opt)"
  by (simp add: telnet_wf_def q_wf_negotiate buf_wf_def)

lemma telnet_wf_buffer_byte: "telnet_wf t \<Longrightarrow> buffer_byte t b = (err, t') \<Longrightarrow> telnet_wf t'"
  using buffer_byte_cases [of t b err t'] buffer_byte_frame [of t b err t']
  by (auto simp: telnet_wf_def q_wf_def q_entries_def)

lemma telnet_wf_subnegotiate: "telnet_wf t \<Longrightarrow> telnet_wf (subnegotiate t)"
  by (simp add: telnet_wf_def q_wf_def q_entries_def buf_wf_def subnegotiate_frame)

lemma telnet_wf_flush [simp]: "telnet_wf (flush_to buf start i t) = telnet_wf t"
  by (simp add: flush_to_def)

lemma telnet_wf_iac [simp]: "telnet_wf (fst (process_iac i b (t, start))) = telnet_wf t"
  by (simp add: process_iac_def)

lemma telnet_wf_one_iac [simp]: "telnet_wf (process_one_iac b t) = telnet_wf t"
  using telnet_wf_iac [of 0 b t 0] by (cases "process_iac 0 b (t, 0)") (simp add: process_one_iac_def)

lemma telnet_wf_step: "telnet_wf t \<Longrightarrow> telnet_wf (fst (process_step buf i (t, start)))"
  by (cases "t_state t")
    (auto simp: process_step_def Let_def telnet_wf_negotiate telnet_wf_subnegotiate telnet_wf_sb
      dest: telnet_wf_buffer_byte split: prod.split)

lemma telnet_wf_loop: "telnet_wf (fst p) \<Longrightarrow> telnet_wf (fst (fold (process_step buf) is p))"
proof (induction "is" arbitrary: p)
  case (Cons i "is")
  then show ?case using telnet_wf_step [of "fst p" buf i "snd p"] by simp
qed simp

lemma telnet_wf_recv [wf_intros]: "telnet_wf t \<Longrightarrow> telnet_wf (telnet_recv t buf)"
  using telnet_wf_loop [of "(t, 0)" buf "[0..<length buf]"]
  by (cases "fold (process_step buf) [0..<length buf] (t, 0)") (simp add: telnet_recv_def process_def)

lemma telnet_wf_init: "telnet_init opts fl heap = Some t \<Longrightarrow> telnet_wf t"
  by (auto simp: telnet_init_def telnet_wf_def q_wf_def q_entries_def buf_wf_def buffer_sizes_def
      alloc_def Let_def split: list.splits if_splits)

section \<open>Memory accesses of the receiver\<close>

lemma log_ok_fields [simp]:
  "log_ok (t\<lparr>t_state := st\<rparr>) = log_ok t" "log_ok (t\<lparr>t_q := q\<rparr>) = log_ok t"
  "log_ok (t\<lparr>t_q_cnt := n\<rparr>) = log_ok t" "log_ok (t\<lparr>t_q_size := n\<rparr>) = log_ok t"
  "log_ok (t\<lparr>t_flags := f\<rparr>) = log_ok t" "log_ok (t\<lparr>t_sb_telopt := b\<rparr>) = log_ok t"
  "log_ok (t\<lparr>t_buffer_pos := n\<rparr>) = log_ok t" "log_ok (t\<lparr>t_heap := h\<rparr>) = log_ok t"
  by (simp_all add: log_ok_def)

lemma log_ok_set_rfc1143 [simp]: "log_ok t \<Longrightarrow> log_ok (set_rfc1143 t opt us him)"
  by (auto simp: set_rfc1143_def q_append_def set_binary_flags_def error_ev_def Let_def
      split: option.splits prod.splits dest!: alloc_cases)

lemma log_ok_negotiate: "log_ok t \<Longrightarrow> log_ok (negotiate t opt)"
  by (simp add: negotiate_def negotiate_unfold split: telnet_state.split)

lemma log_ok_buffer_byte: "buf_wf t \<Longrightarrow> log_ok t \<Longrightarrow> buffer_byte t b = (err, t') \<Longrightarrow> log_ok t'"
  using buffer_byte_cases [of t b err t'] by (auto simp: log_ok_def)

lemma log_ok_recv_iac: "log_ok (recv_iac t b) = log_ok t"
  by (simp add: recv_iac_def process_iac_def)

lemma buf_wf_fields [simp]:
  "buf_wf (t\<lparr>t_state := st\<rparr>) = buf_wf t" "buf_wf (warn t err m args) = buf_wf t"
  by (simp_all add: buf_wf_def warn_def error_ev_def)

lemma log_ok_recv_byte: "buf_wf t \<Longrightarrow> log_ok t \<Longrightarrow> log_ok (recv_byte t b)"
  by (cases "t_state t")
    (auto simp: recv_byte_def Let_def log_ok_negotiate log_ok_recv_iac subnegotiate_log_ok
      dest: log_ok_buffer_byte split: prod.split)

lemma telnet_wf_recv_byte: "telnet_wf t \<Longrightarrow> telnet_wf (recv_byte t b)"
  by (cases "t_state t")
    (auto simp: recv_byte_def Let_def recv_iac_def telnet_wf_negotiate telnet_wf_subnegotiate telnet_wf_sb
      dest: telnet_wf_buffer_byte split: prod.split)

lemma log_ok_foldl: "telnet_wf t \<Longrightarrow> log_ok t \<Longrightarrow> log_ok (foldl recv_byte t bs)"
  by (induction bs arbitrary: t)
    (simp_all add: telnet_wf_recv_byte, metis log_ok_recv_byte telnet_wf_def telnet_wf_recv_byte)

lemma log_ok_observe: "log_ok (observe t) = log_ok t"
  by (auto simp: log_ok_def observe_def flat_def split: telnet_event.splits)

lemma log_ok_same: "same t s \<Longrightarrow> log_ok t = log_ok s"
  using log_ok_observe [of t] log_ok_observe [of s] by (simp add: same_observe)

section \<open>Properties\<close>

text \<open>
  Property (C1). Refinement: on input without the MCCPv1 sequence, \<open>telnet_recv\<close> leaves the tracker in the
  state, and reports the events, of the abstract receiver that takes the bytes one at a time; runs
  of data may only be grouped differently.
\<close>

theorem recv_refines:
  assumes "mccp1_free t buf"
  shows "observe (telnet_recv t buf) = observe (foldl recv_byte t buf)"
  using process_same [OF assms] by (simp add: same_observe telnet_recv_def)

definition recv_example :: telnet where
  "recv_example =
     \<lparr>t_telopts = Some [\<lparr>opt_telopt = 0, opt_us = TELNET_WILL, opt_him = TELNET_DO\<rparr>,
        \<lparr>opt_telopt = - 1, opt_us = 0, opt_him = 0\<rparr>],
      t_q = [], t_buffer = [], t_buffer_size = 0,
      t_buffer_pos = 0, t_state = TELNET_STATE_DATA, t_flags = 0, t_sb_telopt = 0, t_q_size = 0,
      t_q_cnt = 0, t_heap = [], t_evs = []\<rparr>"

theorem recv_refines_witness:
  "mccp1_free recv_example [65, 255, 253, 24, 66, 67] \<and>
   t_evs (telnet_recv recv_example [65, 255, 253, 24, 66, 67]) =
     [EvData [65], EvSend [255, 252, 24], EvData [66, 67]] \<and>
   observe (telnet_recv recv_example [65, 255, 253, 24, 66, 67]) =
     observe (foldl recv_byte recv_example [65, 255, 253, 24, 66, 67])"
proof -
  have m: "mccp1_free recv_example [65, 255, 253, 24, 66, 67]" by code_simp
  moreover have "t_evs (telnet_recv recv_example [65, 255, 253, 24, 66, 67]) =
     [EvData [65], EvSend [255, 252, 24], EvData [66, 67]]" by code_simp
  ultimately show ?thesis using recv_refines [OF m] by blast
qed

lemma chunks_same:
  "mccp1_free t (concat chunks) \<Longrightarrow> same (foldl telnet_recv t chunks) (foldl recv_byte t (concat chunks))"
proof (induction chunks arbitrary: t)
  case (Cons c cs)
  then have a: "mccp1_free t c" "mccp1_free (foldl recv_byte t c) (concat cs)" by (simp_all add: mccp1_free_append)
  have s: "same (telnet_recv t c) (foldl recv_byte t c)" using process_same [OF a(1)] by (simp add: telnet_recv_def)
  with a(2) have "mccp1_free (telnet_recv t c) (concat cs)" by (simp add: mccp1_free_same)
  from Cons.IH [OF this] same_fold [OF s, of "concat cs"] show ?case by (simp add: same_def)
qed simp

text \<open>
  Property (C17). Segmentation: on input without a WILL byte inside a sub-negotiation of option COMPRESS
  (the MCCPv1 sequence, \<open>mccp1_free\<close>), the way the network cuts the input into buffers makes no difference: any sequence of
  \<open>telnet_recv\<close> calls ends in the state, and reports the events, of one call on the concatenated input. With
  one it does make a difference, see \<open>mccp1_wild_event\<close>.
\<close>

theorem recv_segmentation:
  assumes "mccp1_free t (concat chunks)"
  shows "observe (foldl telnet_recv t chunks) = observe (telnet_recv t (concat chunks))"
  using chunks_same [OF assms] process_same [OF assms] by (simp add: same_observe [symmetric] same_def telnet_recv_def)

theorem recv_segmentation_witness:
  "observe (foldl telnet_recv recv_example [[65, 255], [253], [24, 66], [67]]) =
     observe (telnet_recv recv_example [65, 255, 253, 24, 66, 67]) \<and>
   t_evs (telnet_recv recv_example [65, 255, 253, 24, 66, 67]) =
     [EvData [65], EvSend [255, 252, 24], EvData [66, 67]]"
proof -
  have "mccp1_free recv_example (concat [[65, 255], [253], [24, 66], [67]])" by code_simp
  from recv_segmentation [OF this] show ?thesis by simp code_simp
qed


lemma recv_example_ok: "telnet_wf recv_example" "log_ok recv_example"
  by (simp_all add: recv_example_def telnet_wf_def q_wf_def q_entries_def buf_wf_def buffer_sizes_def log_ok_def)


text \<open>
  The MCCPv1 branch is unsafe: when the input ends with its WILL byte, \<open>start\<close> is one past
  the end, and the DATA event at the end of \<open>_process\<close> has the wrapped size \<open>2 ^ 64 - 1\<close>.
\<close>

theorem mccp1_wild_event:
  assumes "t_state t = TELNET_STATE_SB_DATA" "t_sb_telopt t = TELNET_TELOPT_COMPRESS"
  shows "t_evs (telnet_recv t [TELNET_WILL]) = t_evs t @ [EvDataWild 2 (- 1)]"
  using assms by (simp add: telnet_recv_def process_def process_step_def flush_to_def data_ev_def)

theorem mccp1_wild_event_witness:
  "t_evs (telnet_recv (telnet_recv recv_example [255, 250, 85]) [251]) = [EvDataWild 2 (2 ^ 64 - 1)]"
proof -
  have "t_state (telnet_recv recv_example [255, 250, 85]) = TELNET_STATE_SB_DATA"
    "t_sb_telopt (telnet_recv recv_example [255, 250, 85]) = TELNET_TELOPT_COMPRESS"
    "t_evs (telnet_recv recv_example [255, 250, 85]) = []"
    by code_simp+
  with mccp1_wild_event show ?thesis by simp
qed

lemma set_rfc1143_new_flags:
  "q_index (q_entries t) opt = None \<Longrightarrow> t_flags (set_rfc1143 t opt us him) = t_flags t"
  by (auto simp: set_rfc1143_def q_entries_def q_append_def error_ev_def split: prod.splits dest!: alloc_cases)

lemma negotiate_do_accept:
  assumes "q_inv t" "q_index (q_entries t) opt = None" "check_telopt t opt True"
  shows "opt_view (negotiate_do t opt) opt = (Q_YES, Q_NO) \<and>
    t_evs (negotiate_do t opt) = t_evs t @ [EvSend [TELNET_IAC, TELNET_WILL, opt], EvDo opt] \<and>
    t_flags (negotiate_do t opt) = t_flags t"
proof -
  have q: "get_rfc1143 t opt = \<lparr>q_telopt = opt, q_state = 0\<rparr>" using assms(2) by (simp add: get_rfc1143_entries)
  then have "opt_view t opt = (0, 0)" by (simp add: opt_view_def Q_US_def Q_HIM_def)
  with assms q show ?thesis
    by (simp add: negotiate_do_def Q_US_def Q_HIM_def send_negotiate_def send_t_def table.get_put_same
        set_rfc1143_new_flags set_rfc1143_evs q_inv_def)
qed

text \<open>
  The first negotiation of BINARY leaves the binary flags alone: \<open>_set_rfc1143\<close> sets
  them only when the option already has an entry. After DO BINARY is accepted the option is on, and
  \<open>TELNET_FLAG_TRANSMIT_BINARY\<close> is what it was.
\<close>

theorem binary_flag_missed:
  assumes "q_inv t" "t_state t = TELNET_STATE_DO" "\<not> flag_set t TELNET_FLAG_PROXY"
    and "q_index (q_entries t) TELNET_TELOPT_BINARY = None" "check_telopt t TELNET_TELOPT_BINARY True"
  shows "opt_view (telnet_recv t [TELNET_TELOPT_BINARY]) TELNET_TELOPT_BINARY = (Q_YES, Q_NO) \<and>
    t_evs (telnet_recv t [TELNET_TELOPT_BINARY]) =
      t_evs t @ [EvSend [TELNET_IAC, TELNET_WILL, TELNET_TELOPT_BINARY], EvDo TELNET_TELOPT_BINARY] \<and>
    t_flags (telnet_recv t [TELNET_TELOPT_BINARY]) = t_flags t"
proof -
  have v: "opt_view (u\<lparr>t_state := st\<rparr>) = opt_view u" for u st
    by (rule ext) (simp add: opt_view_def get_rfc1143_def cong: option.case_cong)
  have "telnet_recv t [TELNET_TELOPT_BINARY] = (negotiate_do t TELNET_TELOPT_BINARY)\<lparr>t_state := TELNET_STATE_DATA\<rparr>"
    using assms(2,3) by (simp add: telnet_recv_def process_def process_step_def flush_to_def negotiate_def)
  with negotiate_do_accept [OF assms(1,4,5)] show ?thesis by (simp add: v)
qed

theorem binary_flag_missed_witness:
  "opt_view (telnet_recv (telnet_recv recv_example [255, 253]) [0]) 0 = (1, 0) \<and>
   t_flags (telnet_recv (telnet_recv recv_example [255, 253]) [0]) = 0"
proof -
  let ?t = "telnet_recv recv_example [255, 253]"
  have e: "?t = recv_example\<lparr>t_state := TELNET_STATE_DO\<rparr>"
    by (simp add: telnet_recv_def process_def process_step_def flush_to_def process_iac_def recv_example_def)
  have "q_inv ?t" "t_state ?t = TELNET_STATE_DO" "\<not> flag_set ?t 1" "q_index (q_entries ?t) 0 = None"
    "check_telopt ?t 0 True" "t_flags ?t = 0"
    unfolding e by (simp_all add: recv_example_def q_inv_def q_wf_def q_entries_def no_oom_def flag_set_def check_telopt_def)
  with binary_flag_missed [of ?t] show ?thesis by simp
qed

end
