(* ===== verification/Telnet_Send.thy ===== *)
theory Telnet_Send
  imports Telnet_Recv
begin

text \<open>
  The sender of \<open>libtelnet.c\<close>: escaped data (\<open>telnet_send\<close>, \<open>telnet_send_text\<close>, the \<open>printf\<close>
  family), sub-negotiations and the helpers built on them. The round-trip lemmas send through one
  tracker and receive with another, over a network that cuts the bytes as it likes.
\<close>

section \<open>Operations\<close>

definition telnet_iac :: "telnet \<Rightarrow> byte \<Rightarrow> telnet" where
  "telnet_iac t cmd = send_t t [TELNET_IAC, cmd]"

text \<open>
  The loop that \<open>telnet_send\<close>, \<open>telnet_send_text\<close> and \<open>telnet_vprintf\<close> share: plain bytes are
  collected from index \<open>l\<close> on and sent when a special byte or the end is reached. \<open>enc\<close> gives the bytes
  sent for a special byte.
\<close>

definition send_run :: "telnet \<Rightarrow> byte list \<Rightarrow> nat \<Rightarrow> nat \<Rightarrow> telnet" where
  "send_run t buf l i = (if i \<noteq> l then send_t t (slice buf l i) else t)"

definition send_step :: "(byte \<Rightarrow> byte list option) \<Rightarrow> byte list \<Rightarrow> nat \<Rightarrow> telnet \<times> nat \<Rightarrow> telnet \<times> nat" where
  "send_step enc buf i s = (case s of (t, l) \<Rightarrow>
     (case enc (buf ! i) of
        None \<Rightarrow> (t, l)
      | Some bytes \<Rightarrow> (send_t (send_run t buf l i) bytes, i + 1)))"

definition send_loop :: "(byte \<Rightarrow> byte list option) \<Rightarrow> telnet \<Rightarrow> byte list \<Rightarrow> telnet" where
  "send_loop enc t buf = (case fold (send_step enc buf) [0..<length buf] (t, 0) of (t, l) \<Rightarrow>
     send_run t buf l (length buf))"

definition CRLF :: "byte list" where "CRLF = [13, 10]"

definition CRNUL :: "byte list" where "CRNUL = [13, 0]"

definition iac_escape :: "byte \<Rightarrow> byte list option" where
  "iac_escape b = (if b = TELNET_IAC then Some [TELNET_IAC, TELNET_IAC] else None)"

definition text_escape :: "bool \<Rightarrow> byte \<Rightarrow> byte list option" where
  "text_escape binary b =
     (if b = TELNET_IAC then Some [TELNET_IAC, TELNET_IAC]
      else if \<not> binary \<and> b = 13 then Some CRNUL
      else if \<not> binary \<and> b = 10 then Some CRLF
      else None)"

definition telnet_send :: "telnet \<Rightarrow> byte list \<Rightarrow> telnet" where
  "telnet_send t buf = send_loop iac_escape t buf"

definition telnet_send_text :: "telnet \<Rightarrow> byte list \<Rightarrow> telnet" where
  "telnet_send_text t buf = send_loop (text_escape (flag_set t TELNET_FLAG_TRANSMIT_BINARY)) t buf"

definition telnet_begin_sb :: "telnet \<Rightarrow> byte \<Rightarrow> telnet" where
  "telnet_begin_sb t opt = send_t t [TELNET_IAC, TELNET_SB, opt]"

definition telnet_finish_sb :: "telnet \<Rightarrow> telnet" where
  "telnet_finish_sb t = telnet_iac t TELNET_SE"

definition telnet_subnegotiation :: "telnet \<Rightarrow> byte \<Rightarrow> byte list \<Rightarrow> telnet" where
  "telnet_subnegotiation t opt buf =
     send_t (telnet_send (send_t t [TELNET_IAC, TELNET_SB, opt]) buf) [TELNET_IAC, TELNET_SE]"

definition telnet_begin_compress2 :: "telnet \<Rightarrow> telnet" where
  "telnet_begin_compress2 t = t"

text \<open>
  The \<open>printf\<close> family. What \<open>vsnprintf\<close> writes for the format and its arguments is the parameter
  \<open>output\<close>; from 1024 bytes on the text is formatted again into allocated memory. The result is the
  length, or \<open>None\<close> for \<open>- 1\<close>.
\<close>

definition printf_with :: "(telnet \<Rightarrow> byte list \<Rightarrow> telnet) \<Rightarrow> telnet \<Rightarrow> byte list \<Rightarrow> nat option \<times> telnet" where
  "printf_with out t output =
     (if length output \<ge> 1024 then
        (case alloc t of (ok, t) \<Rightarrow>
           if \<not> ok then (None, snd (error_ev t TELNET_ENOMEM False ''malloc() failed: %s'' []))
           else (Some (length output), out t output))
      else (Some (length output), out t output))"

definition telnet_vprintf :: "telnet \<Rightarrow> byte list \<Rightarrow> nat option \<times> telnet" where
  "telnet_vprintf t output = printf_with (send_loop (text_escape False)) t output"

definition telnet_raw_vprintf :: "telnet \<Rightarrow> byte list \<Rightarrow> nat option \<times> telnet" where
  "telnet_raw_vprintf t output = printf_with telnet_send t output"

definition telnet_printf :: "telnet \<Rightarrow> byte list \<Rightarrow> nat option \<times> telnet" where
  "telnet_printf t output = telnet_vprintf t output"

definition telnet_raw_printf :: "telnet \<Rightarrow> byte list \<Rightarrow> nat option \<times> telnet" where
  "telnet_raw_printf t output = telnet_raw_vprintf t output"

definition telnet_begin_newenviron :: "telnet \<Rightarrow> byte \<Rightarrow> telnet" where
  "telnet_begin_newenviron t cmd = telnet_send (telnet_begin_sb t TELNET_TELOPT_NEW_ENVIRON) [cmd]"

text \<open>C strings are byte lists without their terminating NUL; a null pointer is \<open>None\<close>.\<close>

definition telnet_newenviron_value :: "telnet \<Rightarrow> byte \<Rightarrow> byte list option \<Rightarrow> telnet" where
  "telnet_newenviron_value t ty str =
     (let t = telnet_send t [ty] in case str of None \<Rightarrow> t | Some s \<Rightarrow> telnet_send t s)"

definition telnet_ttype_send :: "telnet \<Rightarrow> telnet" where
  "telnet_ttype_send t =
     send_t t [TELNET_IAC, TELNET_SB, TELNET_TELOPT_TTYPE, TELNET_TTYPE_SEND, TELNET_IAC, TELNET_SE]"

definition telnet_ttype_is :: "telnet \<Rightarrow> byte list option \<Rightarrow> telnet" where
  "telnet_ttype_is t ttype =
     (let name = (case ttype of None \<Rightarrow> [78, 86, 84] | Some s \<Rightarrow> s);
          t = send_t t [TELNET_IAC, TELNET_SB, TELNET_TELOPT_TTYPE, TELNET_TTYPE_IS];
          t = send_t t name
      in telnet_finish_sb t)"

definition telnet_zmp_arg :: "telnet \<Rightarrow> byte list \<Rightarrow> telnet" where
  "telnet_zmp_arg t arg = telnet_send t (arg @ [0])"

definition telnet_begin_zmp :: "telnet \<Rightarrow> byte list \<Rightarrow> telnet" where
  "telnet_begin_zmp t cmd = telnet_zmp_arg (telnet_begin_sb t TELNET_TELOPT_ZMP) cmd"

definition telnet_finish_zmp :: "telnet \<Rightarrow> telnet" where
  "telnet_finish_zmp t = telnet_finish_sb t"

definition telnet_send_zmp :: "telnet \<Rightarrow> byte list \<Rightarrow> byte list list \<Rightarrow> telnet" where
  "telnet_send_zmp t cmd args = telnet_finish_zmp (foldl telnet_zmp_arg (telnet_begin_zmp t cmd) args)"

definition telnet_send_vzmpv :: "telnet \<Rightarrow> byte list list \<Rightarrow> telnet" where
  "telnet_send_vzmpv t args =
     telnet_finish_zmp (foldl telnet_zmp_arg (telnet_begin_sb t TELNET_TELOPT_ZMP) args)"

definition telnet_send_zmpv :: "telnet \<Rightarrow> byte list list \<Rightarrow> telnet" where
  "telnet_send_zmpv t args = telnet_send_vzmpv t args"

section \<open>What goes on the wire\<close>

definition encode :: "(byte \<Rightarrow> byte list option) \<Rightarrow> byte list \<Rightarrow> byte list" where
  "encode enc bs = concat (map (\<lambda>b. case enc b of None \<Rightarrow> [b] | Some e \<Rightarrow> e) bs)"

lemma encode_simps [simp]:
  "encode enc [] = []"
  "encode enc (b # bs) = (case enc b of None \<Rightarrow> [b] | Some e \<Rightarrow> e) @ encode enc bs"
  "encode enc (xs @ ys) = encode enc xs @ encode enc ys"
  by (simp_all add: encode_def)

lemma sent_send_t [simp]: "sent (send_t t bs) = sent t @ bs"
  by (simp add: send_t_def)

lemma sent_send_run: "l \<le> i \<Longrightarrow> sent (send_run t buf l i) = sent t @ slice buf l i"
  by (simp add: send_run_def)

text \<open>After \<open>i\<close> bytes everything before \<open>l\<close> is encoded and sent, and the rest is plain.\<close>

lemma send_loop_inv:
  assumes "n \<le> length buf" "fold (send_step enc buf) [0..<n] (t, 0) = (t', l)"
  shows "l \<le> n \<and> sent t' @ slice buf l n = sent t @ encode enc (take n buf)"
  using assms
proof (induction n arbitrary: t' l)
  case (Suc n)
  obtain u m where u: "fold (send_step enc buf) [0..<n] (t, 0) = (u, m)"
    by (cases "fold (send_step enc buf) [0..<n] (t, 0)")
  have n: "n < length buf" using Suc.prems(1) by simp
  from Suc.IH [OF _ u] n have IH: "m \<le> n" "sent u @ slice buf m n = sent t @ encode enc (take n buf)" by simp_all
  from Suc.prems(2) u have st: "send_step enc buf n (u, m) = (t', l)" by simp
  show ?case
    using st IH n
    by (cases "enc (buf ! n)")
      (auto simp: send_step_def slice_Suc sent_send_run take_Suc_conv_app_nth simp flip: append_assoc)
qed simp

lemma sent_send_loop: "sent (send_loop enc t buf) = sent t @ encode enc buf"
proof -
  obtain u m where u: "fold (send_step enc buf) [0..<length buf] (t, 0) = (u, m)"
    by (cases "fold (send_step enc buf) [0..<length buf] (t, 0)")
  with send_loop_inv [OF _ u] show ?thesis by (simp add: send_loop_def sent_send_run)
qed

lemma sent_telnet_send [simp]: "sent (telnet_send t buf) = sent t @ encode iac_escape buf"
  by (simp add: telnet_send_def sent_send_loop)

lemma sent_finish_sb [simp]: "sent (telnet_finish_sb t) = sent t @ [TELNET_IAC, TELNET_SE]"
  by (simp add: telnet_finish_sb_def telnet_iac_def)

lemma sent_subnegotiation:
  "sent (telnet_subnegotiation t opt buf) =
     sent t @ [TELNET_IAC, TELNET_SB, opt] @ encode iac_escape buf @ [TELNET_IAC, TELNET_SE]"
  by (simp add: telnet_subnegotiation_def)

lemma encode_plain: "TELNET_IAC \<notin> set bs \<Longrightarrow> encode iac_escape bs = bs"
  by (induction bs) (auto simp: iac_escape_def)

lemma sent_ttype_is:
  "TELNET_IAC \<notin> set name \<Longrightarrow> sent (telnet_ttype_is t (Some name)) =
     sent t @ [TELNET_IAC, TELNET_SB, TELNET_TELOPT_TTYPE] @ encode iac_escape (TELNET_TTYPE_IS # name) @
       [TELNET_IAC, TELNET_SE]"
  by (simp add: telnet_ttype_is_def Let_def encode_plain) (simp add: iac_escape_def)

lemma sent_zmp_args:
  "sent (foldl telnet_zmp_arg t args) = sent t @ encode iac_escape (concat (map (\<lambda>a. a @ [0]) args))"
  by (induction args arbitrary: t) (simp_all add: telnet_zmp_arg_def)

lemma sent_send_zmp:
  "sent (telnet_send_zmp t cmd args) = sent t @ [TELNET_IAC, TELNET_SB, TELNET_TELOPT_ZMP] @
     encode iac_escape (concat (map (\<lambda>a. a @ [0]) (cmd # args))) @ [TELNET_IAC, TELNET_SE]"
  by (simp add: telnet_send_zmp_def telnet_finish_zmp_def sent_zmp_args telnet_begin_zmp_def
      telnet_zmp_arg_def telnet_begin_sb_def)

section \<open>Receiving what was sent\<close>

definition nvt_mode :: "telnet \<Rightarrow> bool" where
  "nvt_mode t \<longleftrightarrow> flag_set t TELNET_FLAG_NVT_EOL \<and> \<not> flag_set t TELNET_FLAG_RECEIVE_BINARY"

lemma nvt_cr_mode: "nvt_cr t b \<longleftrightarrow> b = 13 \<and> nvt_mode t"
  by (simp add: nvt_cr_def nvt_mode_def)

lemma nvt_mode_emit [simp]: "nvt_mode (emit t e) = nvt_mode t"
  by (simp add: nvt_mode_def)

lemma nvt_mode_state [simp]: "nvt_mode (t\<lparr>t_state := st\<rparr>) = nvt_mode t"
  by (simp add: nvt_mode_def flag_set_def)

lemma state_id: "t_state t = st \<Longrightarrow> t\<lparr>t_state := st\<rparr> = t"
  by simp

text \<open>A data encoding that suits a mode of the receiver.\<close>

definition suits :: "(byte \<Rightarrow> byte list option) \<Rightarrow> bool \<Rightarrow> bool" where
  "suits enc nvt \<longleftrightarrow> (if nvt then enc = text_escape False else enc = iac_escape)"

lemma recv_encoded_byte:
  assumes "t_state t = TELNET_STATE_DATA" "suits enc (nvt_mode t)"
  shows "foldl recv_byte t (encode enc [b]) = emit t (EvData [b])"
    and "mccp1_free t (encode enc [b])"
  using assms state_id [of "emit t (EvData [b])" TELNET_STATE_DATA]
  by (auto simp: suits_def iac_escape_def text_escape_def CRNUL_def CRLF_def recv_byte_def recv_iac_def
      process_iac_def nvt_cr_mode mccp1_at_def emit_def split: if_splits)

lemma recv_encoded:
  assumes "t_state t = TELNET_STATE_DATA" "suits enc (nvt_mode t)"
  shows "same (foldl recv_byte t (encode enc bs)) (emit t (EvData bs))"
    and "mccp1_free t (encode enc bs)"
  using assms
proof (induction bs arbitrary: t)
  case (Cons b bs)
  note [simp del] = encode_simps(2)
  have e: "encode enc (b # bs) = encode enc [b] @ encode enc bs" by (simp add: encode_def)
  have m: "same (emit (emit t (EvData [b])) (EvData bs)) (emit t (EvData (b # bs)))" for t
    by (simp add: same_def core_def emit_def flat_def)
  {
    case 1
    then have "same (foldl recv_byte t (encode enc (b # bs))) (emit (emit t (EvData [b])) (EvData bs))"
      using Cons.IH(1) [of "emit t (EvData [b])"] unfolding e foldl_append by (simp add: recv_encoded_byte)
    from same_trans [OF this m] show ?case .
  next
    case 2
    with Cons.IH(2) [of "emit t (EvData [b])"] show ?case
      unfolding e mccp1_free_append by (simp add: recv_encoded_byte)
  }
qed (simp_all add: same_def core_def emit_def flat_def)

lemma chunks_observe:
  assumes "concat chunks = bs" "mccp1_free r bs" "same (foldl recv_byte r bs) u"
  shows "observe (foldl telnet_recv r chunks) = observe u"
proof -
  have "same (foldl telnet_recv r chunks) (foldl recv_byte r bs)" using chunks_same assms(1,2) by blast
  from same_trans [OF this assms(3)] show ?thesis by (simp add: same_observe)
qed

section \<open>Sub-negotiations over the wire\<close>

definition sb_safe :: "byte \<Rightarrow> byte list \<Rightarrow> bool" where
  "sb_safe opt bs \<longleftrightarrow> \<not> (opt = TELNET_TELOPT_COMPRESS \<and> TELNET_WILL \<in> set bs)"

text \<open>The tracker is collecting the sub-negotiation \<open>opt\<close> and holds \<open>bs\<close>; its log is \<open>es\<close>.\<close>

definition collecting :: "telnet \<Rightarrow> byte \<Rightarrow> byte list \<Rightarrow> telnet_event list \<Rightarrow> bool" where
  "collecting t opt bs es \<longleftrightarrow> t_state t = TELNET_STATE_SB_DATA \<and> t_sb_telopt t = opt \<and> buf_wf t \<and>
     False \<notin> set (t_heap t) \<and> payload t = bs \<and> t_evs t = es"

lemma no_oom_buffer_byte: "False \<notin> set (t_heap t) \<Longrightarrow> buffer_byte t b = (err, t') \<Longrightarrow> False \<notin> set (t_heap t')"
  using buffer_byte_frame(8) by blast

lemma collecting_fields:
  "buf_wf (t\<lparr>t_state := st\<rparr>) = buf_wf t" "payload (t\<lparr>t_state := st\<rparr>) = payload t"
  by (simp_all add: payload_def)

lemma buffer_byte_state:
  "buffer_byte (t\<lparr>t_state := st\<rparr>) b = map_prod id (\<lambda>u. u\<lparr>t_state := st\<rparr>) (buffer_byte t b)"
  by (cases "t_heap t") (auto simp: buffer_byte_def Let_def push_byte_def error_ev_def emit_def alloc_def)

lemma collecting_byte:
  assumes "collecting t opt bs es" "length bs < 16384" "sb_safe opt [b]"
  shows "collecting (foldl recv_byte t (encode iac_escape [b])) opt (bs @ [b]) es"
    and "mccp1_free t (encode iac_escape [b])"
proof -
  obtain err u where u: "buffer_byte t b = (err, u)" by (cases "buffer_byte t b")
  have ok: "err = TELNET_EOK" using buffer_byte_room [of t b] assms u by (simp add: collecting_def)
  then have "buf_wf u \<and> payload u = payload t @ [b] \<and> t_evs u = t_evs t"
    using buffer_byte_cases [OF _ u] assms(1) by (auto simp: collecting_def)
  then have "collecting u opt (bs @ [b]) es"
    using buffer_byte_frame [OF u] no_oom_buffer_byte [OF _ u] assms(1) by (simp add: collecting_def)
  moreover from this have "u\<lparr>t_state := TELNET_STATE_SB_DATA\<rparr> = u" by (simp add: collecting_def)
  ultimately show "collecting (foldl recv_byte t (encode iac_escape [b])) opt (bs @ [b]) es"
    using assms(1) u ok by (auto simp: iac_escape_def recv_byte_def buffer_byte_state collecting_def collecting_fields)
  show "mccp1_free t (encode iac_escape [b])"
    using assms(1,3) by (auto simp: iac_escape_def mccp1_at_def recv_byte_def collecting_def sb_safe_def)
qed

lemma collecting_bytes:
  assumes "collecting t opt pre es" "length pre + length bs \<le> 16384" "sb_safe opt bs"
  shows "collecting (foldl recv_byte t (encode iac_escape bs)) opt (pre @ bs) es \<and>
    mccp1_free t (encode iac_escape bs)"
  using assms
proof (induction bs arbitrary: t pre)
  case (Cons b bs)
  note [simp del] = encode_simps(2)
  have e: "encode iac_escape (b # bs) = encode iac_escape [b] @ encode iac_escape bs" by (simp add: encode_def)
  have "sb_safe opt [b]" "sb_safe opt bs" using Cons.prems(3) by (auto simp: sb_safe_def)
  with collecting_byte [OF Cons.prems(1)] Cons.prems(2) Cons.IH [of "foldl recv_byte t (encode iac_escape [b])" "pre @ [b]"]
  show ?case unfolding e foldl_append mccp1_free_append by simp
qed simp

definition sb_frame :: "byte \<Rightarrow> byte list \<Rightarrow> byte list" where
  "sb_frame opt bs = [TELNET_IAC, TELNET_SB, opt] @ encode iac_escape bs @ [TELNET_IAC, TELNET_SE]"

lemma recv_sb_frame:
  assumes "t_state t = TELNET_STATE_DATA" "buf_wf t" "False \<notin> set (t_heap t)" "length bs \<le> 16384" "sb_safe opt bs"
  shows "mccp1_free t (sb_frame opt bs) \<and>
    (\<exists>u. foldl recv_byte t (sb_frame opt bs) = subnegotiate u \<and> buf_wf u \<and> payload u = bs \<and>
       t_sb_telopt u = opt \<and> t_evs u = t_evs t \<and> fst (alloc u) \<and> t_state u = TELNET_STATE_DATA)"
proof -
  let ?t = "t\<lparr>t_sb_telopt := opt, t_buffer_pos := 0, t_state := TELNET_STATE_SB_DATA\<rparr>"
  have "collecting ?t opt [] (t_evs t)" using assms by (simp add: collecting_def buf_wf_def payload_def)
  from collecting_bytes [OF this] assms(4,5)
  have c: "collecting (foldl recv_byte ?t (encode iac_escape bs)) opt bs (t_evs t)" "mccp1_free ?t (encode iac_escape bs)"
    by simp_all
  have s: "foldl recv_byte t [TELNET_IAC, TELNET_SB, opt] = ?t" "mccp1_free t [TELNET_IAC, TELNET_SB, opt]"
    using assms(1) by (simp_all add: recv_byte_def recv_iac_def process_iac_def mccp1_at_def)
  let ?u = "(foldl recv_byte ?t (encode iac_escape bs))\<lparr>t_state := TELNET_STATE_DATA\<rparr>"
  have "foldl recv_byte t (sb_frame opt bs) = subnegotiate ?u" "mccp1_free t (sb_frame opt bs)"
    using c s unfolding sb_frame_def foldl_append mccp1_free_append s(1)
    by (simp_all add: collecting_def recv_byte_def mccp1_at_def)
  moreover have "fst (alloc ?u)" using c(1) by (auto simp: collecting_def alloc_def split: list.splits)
  ultimately show ?thesis using c(1) by (intro conjI exI [of _ ?u]) (simp_all add: collecting_def payload_def)
qed

lemma zmp_args_strings:
  "\<forall>a\<in>set argv. 0 \<notin> set a \<Longrightarrow> zmp_args (concat (map (\<lambda>a. a @ [0]) argv)) = argv"
proof (induction argv)
  case (Cons a argv)
  let ?r = "concat (map (\<lambda>a. a @ [0]) argv)"
  have "\<forall>x\<in>set a. x \<noteq> 0" using Cons.prems by auto
  then have "takeWhile (\<lambda>b. b \<noteq> 0) (a @ 0 # ?r) = a" "dropWhile (\<lambda>b. b \<noteq> 0) (a @ 0 # ?r) = 0 # ?r"
    by (simp_all add: takeWhile_append_stop dropWhile_append2 dropWhile_append3)
  with Cons show ?case by (simp add: zmp_args.simps [of "a @ 0 # _"])
qed (simp add: zmp_args.simps)

lemma last_strings: "argv \<noteq> [] \<Longrightarrow> last (concat (map (\<lambda>a. a @ [0]) argv)) = 0"
  by (induction argv rule: rev_induct) simp_all

section \<open>Properties\<close>

text \<open>
  Property (C18). Data round trip: what \<open>telnet_send\<close> puts on the wire, cut into buffers in any way, is
  reported by a receiver in the data state (without NVT line-end translation) as exactly the bytes
  given to \<open>telnet_send\<close>, IAC bytes included, and changes nothing else in the receiver.
\<close>

theorem send_roundtrip:
  assumes "sent (telnet_send s bs) = sent s @ concat chunks"
    and "t_state r = TELNET_STATE_DATA" "\<not> nvt_mode r"
  shows "observe (foldl telnet_recv r chunks) = observe (emit r (EvData bs))"
  using assms recv_encoded [of r iac_escape bs] by (intro chunks_observe) (simp_all add: suits_def)

theorem send_roundtrip_witness:
  "observe (foldl telnet_recv recv_example [[65, 255], [255, 66]]) = observe (emit recv_example (EvData [65, 255, 66]))"
proof -
  have "sent (telnet_send recv_example [65, 255, 66]) = sent recv_example @ concat [[65, 255], [255, 66]]"
    by (simp add: iac_escape_def)
  from send_roundtrip [OF this, of recv_example] show ?thesis
    by (simp add: recv_example_def nvt_mode_def flag_set_def)
qed

text \<open>
  Text round trip: a text sent by \<open>telnet_send_text\<close> outside binary mode (CR as CR NUL, LF as
  CR LF) is restored byte for byte by a receiver with the flag NVT-EOL.
\<close>

theorem send_text_roundtrip:
  assumes "sent (telnet_send_text s bs) = sent s @ concat chunks" "\<not> flag_set s TELNET_FLAG_TRANSMIT_BINARY"
    and "t_state r = TELNET_STATE_DATA" "nvt_mode r"
  shows "observe (foldl telnet_recv r chunks) = observe (emit r (EvData bs))"
  using assms recv_encoded [of r "text_escape False" bs]
  by (intro chunks_observe) (simp_all add: suits_def telnet_send_text_def sent_send_loop)

theorem send_text_roundtrip_witness:
  "observe (foldl telnet_recv (recv_example\<lparr>t_flags := 2\<rparr>) [[65, 13], [10], [13, 0, 255, 255]]) =
     observe (emit (recv_example\<lparr>t_flags := 2\<rparr>) (EvData [65, 10, 13, 255]))"
proof -
  have "sent (telnet_send_text recv_example [65, 10, 13, 255]) =
      sent recv_example @ concat [[65, 13], [10], [13, 0, 255, 255]]"
    by (simp add: telnet_send_text_def sent_send_loop text_escape_def CRNUL_def CRLF_def recv_example_def flag_set_def)
  from send_text_roundtrip [OF this, of "recv_example\<lparr>t_flags := 2\<rparr>"] show ?thesis
    by (simp add: recv_example_def nvt_mode_def flag_set_def)
qed

text \<open>
  Sub-negotiation round trip: up to 16384 bytes given to \<open>telnet_subnegotiation\<close> arrive as
  one SUBNEGOTIATION event with the same option and the same bytes, and the receiver is back in
  the data state. The only option excluded is COMPRESS with a WILL byte in its data.
\<close>

theorem subnegotiation_roundtrip:
  assumes "sent (telnet_subnegotiation s opt bs) = sent s @ concat chunks"
    and "t_state r = TELNET_STATE_DATA" "telnet_wf r" "no_oom r" "length bs \<le> 16384" "sb_safe opt bs"
  shows "\<exists>es. t_evs (observe (foldl telnet_recv r chunks)) = flat (t_evs r) @ EvSubnegotiation opt bs # es \<and>
    t_state (observe (foldl telnet_recv r chunks)) = TELNET_STATE_DATA"
proof -
  from recv_sb_frame [of r bs opt] assms obtain u where u: "mccp1_free r (sb_frame opt bs)"
    "foldl recv_byte r (sb_frame opt bs) = subnegotiate u" "payload u = bs" "t_sb_telopt u = opt" "t_evs u = t_evs r"
    "t_state u = TELNET_STATE_DATA"
    by (auto simp: telnet_wf_def no_oom_def)
  have o: "observe (foldl telnet_recv r chunks) = observe (subnegotiate u)"
    using assms(1) u by (intro chunks_observe [of _ "sb_frame opt bs"]) (simp_all add: sent_subnegotiation sb_frame_def)
  have "sub_step (emit u (EvSubnegotiation opt bs)) (subnegotiate u)"
    using u(3,4) by (auto simp: subnegotiate_def payload_def Let_def sub_step_refl
        intro: zmp_sub_step ttype_sub_step environ_sub_step mssp_sub_step)
  then obtain es where "t_evs (subnegotiate u) = t_evs u @ EvSubnegotiation opt bs # es"
    by (auto simp: sub_step_def)
  then show ?thesis using u(5,6) unfolding o by (simp add: observe_def subnegotiate_frame) (simp add: flat_def)
qed

theorem subnegotiation_roundtrip_witness:
  "\<exists>es. t_evs (observe (foldl telnet_recv recv_example [[255, 250, 99, 7], [255], [255, 255, 240]])) =
     EvSubnegotiation 99 [7, 255] # es"
proof -
  have "sent (telnet_subnegotiation recv_example 99 [7, 255]) =
      sent recv_example @ concat [[255, 250, 99, 7], [255], [255, 255, 240]]"
    by (simp add: sent_subnegotiation iac_escape_def)
  from subnegotiation_roundtrip [OF this, of recv_example] recv_example_ok(1) show ?thesis
    by (auto simp: recv_example_def no_oom_def sb_safe_def)
qed

text \<open>
  ZMP round trip: the command and arguments given to \<open>telnet_send_zmp\<close> (C strings) arrive as
  the argument vector of one ZMP event.
\<close>

theorem zmp_roundtrip:
  assumes "sent (telnet_send_zmp s cmd args) = sent s @ concat chunks" "\<forall>a\<in>set (cmd # args). 0 \<notin> set a"
    and "t_state r = TELNET_STATE_DATA" "telnet_wf r" "no_oom r"
    and "length (concat (map (\<lambda>a. a @ [0]) (cmd # args))) \<le> 16384"
  shows "t_evs (observe (foldl telnet_recv r chunks)) = flat (t_evs r) @
    [EvSubnegotiation TELNET_TELOPT_ZMP (concat (map (\<lambda>a. a @ [0]) (cmd # args))), EvZmp (cmd # args)]"
proof -
  define bs where "bs = concat (map (\<lambda>a. a @ [0::byte]) (cmd # args))"
  from recv_sb_frame [of r bs TELNET_TELOPT_ZMP] assms obtain u where u: "mccp1_free r (sb_frame TELNET_TELOPT_ZMP bs)"
    "foldl recv_byte r (sb_frame TELNET_TELOPT_ZMP bs) = subnegotiate u" "payload u = bs" "t_sb_telopt u = TELNET_TELOPT_ZMP"
    "t_evs u = t_evs r" "fst (alloc u)"
    by (auto simp: telnet_wf_def no_oom_def sb_safe_def bs_def)
  have o: "observe (foldl telnet_recv r chunks) = observe (subnegotiate u)"
    using assms(1) u by (intro chunks_observe [of _ "sb_frame TELNET_TELOPT_ZMP bs"])
      (simp_all add: sent_send_zmp sb_frame_def bs_def)
  have bs: "bs \<noteq> []" "last bs = 0" "zmp_args bs = cmd # args"
    using zmp_args_strings [OF assms(2)] last_strings [of "cmd # args"] by (simp_all add: bs_def)
  have "t_evs (subnegotiate u) = t_evs u @ [EvSubnegotiation TELNET_TELOPT_ZMP bs, EvZmp (cmd # args)]"
    using u(3,4,6) bs
    by (cases "alloc (emit u (EvSubnegotiation TELNET_TELOPT_ZMP bs))")
      (auto simp: subnegotiate_def zmp_telnet_def payload_def Let_def alloc_def split: list.splits)
  then show ?thesis using u(5) unfolding o bs_def [symmetric] by (simp add: observe_def) (simp add: flat_def)
qed

theorem zmp_roundtrip_witness:
  "t_evs (observe (foldl telnet_recv recv_example [[255, 250, 93, 90], [0, 65, 0], [255, 240]])) =
     [EvSubnegotiation 93 [90, 0, 65, 0], EvZmp [[90], [65]]]"
proof -
  have "sent (telnet_send_zmp recv_example [90] [[65]]) =
      sent recv_example @ concat [[255, 250, 93, 90], [0, 65, 0], [255, 240]]"
    by (simp add: sent_send_zmp iac_escape_def)
  from zmp_roundtrip [OF this, of recv_example] recv_example_ok(1) show ?thesis
    by (simp add: recv_example_def no_oom_def)
qed

text \<open>
  TERMINAL-TYPE round trip: a name without IAC and NUL bytes given to \<open>telnet_ttype_is\<close>
  arrives as the name of one TTYPE event.
\<close>

theorem ttype_roundtrip:
  assumes "sent (telnet_ttype_is s (Some name)) = sent s @ concat chunks" "TELNET_IAC \<notin> set name" "0 \<notin> set name"
    and "t_state r = TELNET_STATE_DATA" "telnet_wf r" "no_oom r" "length name < 16384"
  shows "t_evs (observe (foldl telnet_recv r chunks)) = flat (t_evs r) @
    [EvSubnegotiation TELNET_TELOPT_TTYPE (TELNET_TTYPE_IS # name), EvTtype TELNET_TTYPE_IS (Some name)]"
proof -
  let ?bs = "TELNET_TTYPE_IS # name"
  from recv_sb_frame [of r ?bs TELNET_TELOPT_TTYPE] assms obtain u where u: "mccp1_free r (sb_frame TELNET_TELOPT_TTYPE ?bs)"
    "foldl recv_byte r (sb_frame TELNET_TELOPT_TTYPE ?bs) = subnegotiate u" "payload u = ?bs"
    "t_sb_telopt u = TELNET_TELOPT_TTYPE" "t_evs u = t_evs r" "fst (alloc u)"
    by (auto simp: telnet_wf_def no_oom_def sb_safe_def)
  have o: "observe (foldl telnet_recv r chunks) = observe (subnegotiate u)"
    using assms(1) sent_ttype_is [OF assms(2), of s] u
    by (intro chunks_observe [of _ "sb_frame TELNET_TELOPT_TTYPE ?bs"])
      (simp_all only: sb_frame_def append_eq_append_conv same_append_eq same_refl)
  have n: "takeWhile (\<lambda>b. b \<noteq> 0) name = name" using assms(3) by (simp add: takeWhile_eq_all_conv) metis
  have "t_evs (subnegotiate u) = t_evs u @ [EvSubnegotiation TELNET_TELOPT_TTYPE ?bs, EvTtype TELNET_TTYPE_IS (Some name)]"
    using u(3,4,6) n
    by (cases "alloc (emit u (EvSubnegotiation TELNET_TELOPT_TTYPE ?bs))")
      (auto simp: subnegotiate_def ttype_telnet_def payload_def Let_def alloc_def split: list.splits)
  then show ?thesis using u(5) unfolding o by (simp add: observe_def) (simp add: flat_def)
qed

theorem ttype_roundtrip_witness:
  "t_evs (observe (foldl telnet_recv recv_example [[255, 250, 24], [0, 100, 117], [109, 98, 255, 240]])) =
     [EvSubnegotiation 24 [0, 100, 117, 109, 98], EvTtype 0 (Some [100, 117, 109, 98])]"
proof -
  have "sent (telnet_ttype_is recv_example (Some [100, 117, 109, 98])) =
      sent recv_example @ concat [[255, 250, 24], [0, 100, 117], [109, 98, 255, 240]]"
    by (simp add: sent_ttype_is iac_escape_def)
  from ttype_roundtrip [OF this, of recv_example] recv_example_ok(1) show ?thesis
    by (simp add: recv_example_def no_oom_def)
qed

section \<open>Every reachable tracker is well formed\<close>

text \<open>The trackers an application can reach through the interface, with any outcome of the allocations.\<close>

inductive telnet_reach :: "telnet \<Rightarrow> bool" where
  init: "telnet_init opts fl heap = Some t \<Longrightarrow> telnet_reach t"
| recv: "telnet_reach t \<Longrightarrow> telnet_reach (telnet_recv t buf)"
| request: "telnet_reach t \<Longrightarrow> telnet_reach (telnet_negotiate t cmd opt)"
| send: "telnet_reach t \<Longrightarrow> telnet_reach (telnet_send t buf)"
| plain: "telnet_reach t \<Longrightarrow> telnet_reach (telnet_send_text t buf)"
| printf: "telnet_reach t \<Longrightarrow> telnet_reach (snd (telnet_vprintf t out))"
| iac: "telnet_reach t \<Longrightarrow> telnet_reach (telnet_iac t cmd)"
| sub: "telnet_reach t \<Longrightarrow> telnet_reach (telnet_subnegotiation t opt buf)"

lemma telnet_wf_send_t [simp]: "telnet_wf (send_t t bs) = telnet_wf t"
  by (simp add: send_t_def)

lemma telnet_wf_send_loop [simp]: "telnet_wf (send_loop enc t buf) = telnet_wf t"
proof -
  have "telnet_wf (fst (fold (send_step enc buf) is p)) = telnet_wf (fst p)" for "is" p
    by (induction "is" arbitrary: p)
      (auto simp: send_step_def send_run_def split: prod.split option.split)
  from this [of "[0..<length buf]" "(t, 0)"] show ?thesis
    by (cases "fold (send_step enc buf) [0..<length buf] (t, 0)") (simp add: send_loop_def send_run_def)
qed

lemma telnet_wf_heap [simp]: "telnet_wf (t\<lparr>t_heap := h\<rparr>) = telnet_wf t"
  by (simp add: telnet_wf_def q_wf_def q_entries_def buf_wf_def)

lemma telnet_wf_printf: "telnet_wf t \<Longrightarrow> telnet_wf (snd (printf_with (send_loop enc) t out))"
  by (auto simp: printf_with_def error_ev_def split: prod.split dest!: alloc_cases)

text \<open>
  Property (C21). In every reachable tracker the option table is well formed (sizes agree, no option has two
  entries, every state code is one of the six of RFC 1143) and the sub-negotiation buffer has one of
  the five sizes and holds no more bytes than its size. Allocation failures, malformed input and the
  MCCPv1 sequence are included.
\<close>

theorem reachable_wf:
  assumes "telnet_reach t"
  shows "telnet_wf t"
  using assms
proof (induction rule: telnet_reach.induct)
  case (request t cmd opt)
  then show ?case by (simp add: telnet_wf_def q_wf_telnet_negotiate buf_wf_def)
qed (simp_all add: telnet_wf_init telnet_wf_recv telnet_send_def telnet_send_text_def telnet_vprintf_def
    telnet_wf_printf telnet_iac_def telnet_subnegotiation_def)

theorem reachable_wf_witness:
  "telnet_wf (telnet_negotiate (telnet_recv recv_example [255, 253, 0]) TELNET_DO 1)"
proof -
  have "telnet_init (t_telopts recv_example) 0 [] = Some recv_example"
    by (simp add: telnet_init_def recv_example_def)
  from reachable_wf [OF telnet_reach.request [OF telnet_reach.recv [OF telnet_reach.init [OF this]]]]
  show ?thesis .
qed

end
