(* ===== verification/Telnet_Peers.thy ===== *)
theory Telnet_Peers
  imports Telnet_Recv
begin

text \<open>
  Two trackers of the library connected to each other: what the one sends (\<open>EvSend\<close>) is delivered,
  command by command, to \<open>telnet_recv\<close> of the other, and either application may call
  \<open>telnet_negotiate\<close> at any time.  Each side of an option follows the Q method, so that the
  results on the method carry over: negotiation comes to rest, in agreement.
\<close>

section \<open>Trackers and wires\<close>

record peers =
  peer_a :: telnet
  peer_b :: telnet
  to_b :: "byte list"
  to_a :: "byte list"

text \<open>The bytes a tracker has sent since an earlier state of it.\<close>

definition sent_since :: "telnet \<Rightarrow> telnet \<Rightarrow> byte list" where
  "sent_since t t' = drop (length (sent t)) (sent t')"

inductive peers_ask :: "byte \<Rightarrow> peers \<Rightarrow> peers \<Rightarrow> bool" for opt where
  ask_a: "cmd \<in> {TELNET_WILL, TELNET_WONT, TELNET_DO, TELNET_DONT} \<Longrightarrow> t = telnet_negotiate (peer_a p) cmd opt \<Longrightarrow>
     peers_ask opt p (p\<lparr>peer_a := t, to_b := to_b p @ sent_since (peer_a p) t\<rparr>)"
| ask_b: "cmd \<in> {TELNET_WILL, TELNET_WONT, TELNET_DO, TELNET_DONT} \<Longrightarrow> t = telnet_negotiate (peer_b p) cmd opt \<Longrightarrow>
     peers_ask opt p (p\<lparr>peer_b := t, to_a := to_a p @ sent_since (peer_b p) t\<rparr>)"

text \<open>The next command on a wire, three bytes, is received.\<close>

inductive peers_deliver :: "peers \<Rightarrow> peers \<Rightarrow> bool" where
  recv_b: "to_b p = m @ rest \<Longrightarrow> length m = 3 \<Longrightarrow> t = telnet_recv (peer_b p) m \<Longrightarrow>
     peers_deliver p (p\<lparr>peer_b := t, to_b := rest, to_a := to_a p @ sent_since (peer_b p) t\<rparr>)"
| recv_a: "to_a p = m @ rest \<Longrightarrow> length m = 3 \<Longrightarrow> t = telnet_recv (peer_a p) m \<Longrightarrow>
     peers_deliver p (p\<lparr>peer_a := t, to_a := rest, to_b := to_b p @ sent_since (peer_a p) t\<rparr>)"

text \<open>A tracker before any negotiation of the option, as \<open>telnet_init\<close> makes it.\<close>

definition fresh :: "byte \<Rightarrow> telnet \<Rightarrow> bool" where
  "fresh opt t \<longleftrightarrow> q_inv t \<and> \<not> flag_set t TELNET_FLAG_PROXY \<and> t_state t = TELNET_STATE_DATA \<and>
     opt_view t opt = (Q_NO, Q_NO)"

inductive peers_reach :: "byte \<Rightarrow> peers \<Rightarrow> bool" for opt where
  start: "fresh opt (peer_a p) \<Longrightarrow> fresh opt (peer_b p) \<Longrightarrow> to_b p = [] \<Longrightarrow> to_a p = [] \<Longrightarrow> peers_reach opt p"
| request: "peers_reach opt p \<Longrightarrow> peers_ask opt p p' \<Longrightarrow> peers_reach opt p'"
| delivery: "peers_reach opt p \<Longrightarrow> peers_deliver p p' \<Longrightarrow> peers_reach opt p'"


lemma init_fresh:
  assumes "telnet_init opts fl [] = Some t" and "fl AND TELNET_FLAG_PROXY = 0"
  shows "fresh opt t"
  using assms
  by (auto simp: telnet_init_def alloc_def fresh_def q_inv_def q_wf_def q_entries_def no_oom_def flag_set_def
      opt_view_def get_rfc1143_def Q_US_def Q_HIM_def Let_def)

section \<open>One command, one tracker\<close>

text \<open>
  A command is about an option of its sender (\<open>own\<close>: WILL or WONT) or of its receiver (DO or DONT).
\<close>

definition command_byte :: "bool \<Rightarrow> bool \<Rightarrow> byte" where
  "command_byte own enable = (if enable then yes_cmd (\<not> own) else no_cmd (\<not> own))"

fun wire_command :: "byte \<Rightarrow> bool \<times> bool \<Rightarrow> byte list" where
  "wire_command opt (own, enable) = [TELNET_IAC, command_byte own enable, opt]"

fun one_command :: "bool \<Rightarrow> bool option \<Rightarrow> (bool \<times> bool) list" where
  "one_command own None = []"
| "one_command own (Some enable) = [(own, enable)]"

definition runs :: "byte \<Rightarrow> telnet \<Rightarrow> qside \<Rightarrow> qside \<Rightarrow> bool" where
  "runs opt t us him \<longleftrightarrow> q_inv t \<and> \<not> flag_set t TELNET_FLAG_PROXY \<and> t_state t = TELNET_STATE_DATA \<and> sides t opt us him"

lemma answer_wire: "answer (yes_cmd r) (no_cmd r) opt a = concat (map (wire_command opt) (one_command (\<not> r) a))"
  by (cases a) (auto simp: command_byte_def elim: answer.elims split: if_splits)

text \<open>The flags of BINARY are not the proxy flag.\<close>

lemma proxy_binary:
  "((x::byte) AND NOT (TELNET_FLAG_TRANSMIT_BINARY OR TELNET_FLAG_RECEIVE_BINARY)) AND TELNET_FLAG_PROXY = x AND TELNET_FLAG_PROXY"
  "(x OR TELNET_FLAG_TRANSMIT_BINARY) AND TELNET_FLAG_PROXY = x AND TELNET_FLAG_PROXY"
  "(x OR TELNET_FLAG_RECEIVE_BINARY) AND TELNET_FLAG_PROXY = x AND TELNET_FLAG_PROXY"
proof -
  have "\<forall>x::byte. (x AND NOT (32 OR 64)) AND 1 = x AND 1 \<and> (x OR 32) AND 1 = x AND 1 \<and> (x OR 64) AND 1 = x AND 1"
    unfolding all_byte_enum by code_simp
  then show "((x::byte) AND NOT (TELNET_FLAG_TRANSMIT_BINARY OR TELNET_FLAG_RECEIVE_BINARY)) AND TELNET_FLAG_PROXY = x AND TELNET_FLAG_PROXY"
    "(x OR TELNET_FLAG_TRANSMIT_BINARY) AND TELNET_FLAG_PROXY = x AND TELNET_FLAG_PROXY"
    "(x OR TELNET_FLAG_RECEIVE_BINARY) AND TELNET_FLAG_PROXY = x AND TELNET_FLAG_PROXY" by blast+
qed

lemma set_rfc1143_proxy [simp]: "flag_set (set_rfc1143 t opt us him) TELNET_FLAG_PROXY = flag_set t TELNET_FLAG_PROXY"
  unfolding flag_set_def
  by (auto simp: set_rfc1143_def q_append_def set_binary_flags_def error_ev_def Let_def proxy_binary
      proxy_binary(1) [simplified] split: option.splits prod.splits dest!: alloc_cases)

lemma negotiate_proxy [simp]: "flag_set (negotiate t opt) TELNET_FLAG_PROXY = flag_set t TELNET_FLAG_PROXY"
  "flag_set (telnet_negotiate t cmd opt) TELNET_FLAG_PROXY = flag_set t TELNET_FLAG_PROXY"
  by (simp_all add: negotiate_def negotiate_unfold telnet_negotiate_def split: telnet_state.split)

lemma negotiate_check [simp]: "check_telopt (negotiate t opt) = check_telopt t"
  "check_telopt (telnet_negotiate t cmd opt) = check_telopt t"
  by (rule ext, rule ext, simp add: check_telopt_def)+

lemma ask_command:
  assumes "runs opt t us him" and "ask enable (if own then us else him) = (s, a)"
  defines "t' \<equiv> telnet_negotiate t (command_byte own enable) opt"
  shows "runs opt t' (if own then s else us) (if own then him else s)"
    and "sent_since t t' = concat (map (wire_command opt) (one_command own a))"
    and "check_telopt t' = check_telopt t"
proof -
  have t: "q_inv t" "\<not> flag_set t TELNET_FLAG_PROXY" "sides t opt us him" "t_state t = TELNET_STATE_DATA"
    using assms(1) by (simp_all add: runs_def)
  have "ask enable (if \<not> own then him else us) = (s, a)" using assms(2) by (cases own) simp_all
  note spec = telnet_negotiate_spec [OF t(1-3) this]
  have v: "opt_view t' = (opt_view t)(opt := put_side (\<not> own) s (us, him))"
    using spec(1) by (simp only: t'_def command_byte_def)
  have "q_inv t'" using t(1) by (simp add: q_inv_def t'_def q_wf_telnet_negotiate no_oom_telnet_negotiate)
  then show "runs opt t' (if own then s else us) (if own then him else s)"
    using t v by (simp add: runs_def sides_def put_side_def) (simp add: t'_def)
  have "sent t' = sent t @ answer (yes_cmd (\<not> own)) (no_cmd (\<not> own)) opt a"
    using spec(2) by (simp only: t'_def command_byte_def)
  then show "sent_since t t' = concat (map (wire_command opt) (one_command own a))"
    by (simp add: sent_since_def answer_wire)
  show "check_telopt t' = check_telopt t" by (simp add: t'_def)
qed

lemma sent_same:
  assumes "same t s"
  shows "sent t = sent s"
proof -
  let ?out = "\<lambda>es. concat (map (\<lambda>e. case e of EvSend bs \<Rightarrow> bs | _ \<Rightarrow> []) es)"
  have "?out (flat [e]) = ?out [e]" for e by (cases e) (simp_all add: flat_def comp_def)
  then have flat: "?out (flat es) = ?out es" for es
  proof (induction es)
    case (Cons e es)
    then show ?case using flat_append [of "[e]" es] by simp
  qed simp
  have "?out (flat (t_evs t)) = ?out (flat (t_evs s))" using assms by (simp add: same_def)
  then show ?thesis unfolding flat by (simp add: sent_def)
qed

lemma same_fields:
  assumes "same t s"
  shows "q_inv t = q_inv s" "flag_set t f = flag_set s f" "t_state t = t_state s" "opt_view t = opt_view s"
    "check_telopt t = check_telopt s"
proof -
  have c: "core t = core s" using assms by (simp add: same_def)
  have f: "q_inv (core u) = q_inv u" "flag_set (core u) f = flag_set u f" "t_state (core u) = t_state u"
    "opt_view (core u) = opt_view u" "check_telopt (core u) = check_telopt u" for u
    by (simp_all add: core_def q_inv_def q_wf_def q_entries_def no_oom_def flag_set_def opt_view_def [abs_def]
        get_rfc1143_def check_telopt_def [abs_def] cong: option.case_cong)
  show "q_inv t = q_inv s" "flag_set t f = flag_set s f" "t_state t = t_state s" "opt_view t = opt_view s"
    "check_telopt t = check_telopt s" using f c by metis+
qed

lemma recv_three:
  assumes "t_state t = TELNET_STATE_DATA"
  shows "same (telnet_recv t (wire_command opt (own, enable)))
    ((negotiate (t\<lparr>t_state := recv_state own enable\<rparr>) opt)\<lparr>t_state := TELNET_STATE_DATA\<rparr>)"
proof -
  let ?m = "wire_command opt (own, enable)"
  have iac: "recv_byte t TELNET_IAC = t\<lparr>t_state := TELNET_STATE_IAC\<rparr>" using assms by (simp add: recv_byte_def)
  have cmd: "recv_byte (t\<lparr>t_state := TELNET_STATE_IAC\<rparr>) (command_byte own enable) = t\<lparr>t_state := recv_state own enable\<rparr>"
    by (cases own; cases enable)
      (simp_all add: recv_byte_def recv_iac_def process_iac_def command_byte_def yes_cmd_def no_cmd_def recv_state_def)
  have neg: "recv_byte (t\<lparr>t_state := recv_state own enable\<rparr>) opt =
      (negotiate (t\<lparr>t_state := recv_state own enable\<rparr>) opt)\<lparr>t_state := TELNET_STATE_DATA\<rparr>"
    by (cases own; cases enable) (simp_all add: recv_byte_def recv_state_def)
  have "recv_state own enable \<noteq> TELNET_STATE_SB_DATA" by (simp add: recv_state_def)
  then have "mccp1_free t ?m" using assms by (simp add: iac cmd mccp1_at_def)
  then show ?thesis using process_same [of t ?m] by (simp add: telnet_recv_def iac cmd neg)
qed

lemma recv_command:
  assumes "runs opt t us him"
    and "recv_side (check_telopt t opt (\<not> own)) enable (if own then him else us) = (s, a)"
  defines "t' \<equiv> telnet_recv t (wire_command opt (own, enable))"
  shows "runs opt t' (if own then us else s) (if own then s else him)"
    and "sent_since t t' = concat (map (wire_command opt) (one_command (\<not> own) a))"
    and "check_telopt t' = check_telopt t"
proof -
  let ?u = "t\<lparr>t_state := recv_state own enable\<rparr>"
  let ?n = "(negotiate ?u opt)\<lparr>t_state := TELNET_STATE_DATA\<rparr>"
  have t: "q_inv t" "\<not> flag_set t TELNET_FLAG_PROXY" "sides t opt us him" "t_state t = TELNET_STATE_DATA"
    using assms(1) by (simp_all add: runs_def)
  have st: "q_inv (v\<lparr>t_state := x\<rparr>) = q_inv v" "flag_set (v\<lparr>t_state := x\<rparr>) = flag_set v" "opt_view (v\<lparr>t_state := x\<rparr>) = opt_view v"
    "check_telopt (v\<lparr>t_state := x\<rparr>) = check_telopt v" "sent (v\<lparr>t_state := x\<rparr>) = sent v" for v x
    by (simp_all add: q_inv_def q_wf_def q_entries_def no_oom_def flag_set_def [abs_def] opt_view_def [abs_def] get_rfc1143_def
        check_telopt_def [abs_def] sent_def cong: option.case_cong)
  have u: "q_inv ?u" "\<not> flag_set ?u TELNET_FLAG_PROXY" "sides ?u opt us him" "t_state ?u = recv_state own enable"
    using t by (simp_all add: st sides_def)
  have same: "same t' ?n" unfolding t'_def by (rule recv_three) (rule t(4))
  note spec = negotiate_spec [OF u, of s a]
  have "recv_side (check_telopt ?u opt (\<not> own)) enable (if own then him else us) = (s, a)"
    using assms(2) by (simp add: st)
  note spec = spec [OF this]
  have "q_inv (negotiate ?u opt)" using u(1) by (simp add: q_inv_def q_wf_negotiate no_oom_negotiate)
  then have "q_inv ?n" by (simp add: st)
  then show "runs opt t' (if own then us else s) (if own then s else him)"
    using t spec(1) same_fields [OF same] by (simp add: runs_def sides_def put_side_def st)
  show "check_telopt t' = check_telopt t" using same_fields(5) [OF same] by (simp add: st)
  have "sent t' = sent t @ answer (yes_cmd own) (no_cmd own) opt a"
    using sent_same [OF same] spec(2) by (simp add: st)
  then show "sent_since t t' = concat (map (wire_command opt) (one_command (\<not> own) a))"
    by (simp add: sent_since_def answer_wire)
qed

section \<open>Two trackers and the Q method\<close>

text \<open>The commands about one side among those on a wire.\<close>

definition side_commands :: "bool \<Rightarrow> (bool \<times> bool) list \<Rightarrow> bool list" where
  "side_commands own ms = map snd (filter (\<lambda>m. fst m = own) ms)"

lemma side_commands_simps [simp]:
  "side_commands own [] = []" "side_commands own (m # ms) = (if fst m = own then [snd m] else []) @ side_commands own ms"
  "side_commands own (ms @ ns) = side_commands own ms @ side_commands own ns"
  "side_commands own (one_command own' a) = (if own' = own then (case a of None \<Rightarrow> [] | Some b \<Rightarrow> [b]) else [])"
  by (auto simp: side_commands_def split: option.split)

text \<open>
  The two trackers hold, for the option, a configuration of the Q method for the side of the first
  and one for the side of the second.
\<close>

definition linked :: "byte \<Rightarrow> peers \<Rightarrow> config \<Rightarrow> config \<Rightarrow> bool" where
  "linked opt p c d \<longleftrightarrow> (\<exists>ua ha ub hb ms ns.
     runs opt (peer_a p) ua ha \<and> runs opt (peer_b p) ub hb \<and>
     to_b p = concat (map (wire_command opt) ms) \<and> to_a p = concat (map (wire_command opt) ns) \<and>
     c = (ua, hb, side_commands True ms, side_commands False ns) \<and> d = (ub, ha, side_commands True ns, side_commands False ms))"

definition swap :: "peers \<Rightarrow> peers" where
  "swap p = \<lparr>peer_a = peer_b p, peer_b = peer_a p, to_b = to_a p, to_a = to_b p\<rparr>"

lemma swap_swap [simp]: "swap (swap p) = p"
  by (simp add: swap_def)

lemma linked_swap: "linked opt p c d \<Longrightarrow> linked opt (swap p) d c"
  unfolding linked_def swap_def by (elim exE) (rule exI, rule exI, rule exI, rule exI, rule exI, rule exI, auto)

lemma linked_swapD: "linked opt (swap p) d c \<Longrightarrow> linked opt p c d"
  using linked_swap [of opt "swap p"] by simp

text \<open>What the tables of the two applications say about the option.\<close>

definition tables :: "peers \<Rightarrow> (byte \<Rightarrow> bool \<Rightarrow> bool) \<times> (byte \<Rightarrow> bool \<Rightarrow> bool)" where
  "tables p = (check_telopt (peer_a p), check_telopt (peer_b p))"

abbreviation side_reach :: "byte \<Rightarrow> (byte \<Rightarrow> bool \<Rightarrow> bool) \<Rightarrow> (byte \<Rightarrow> bool \<Rightarrow> bool) \<Rightarrow> config \<Rightarrow> bool" where
  "side_reach opt ta tb \<equiv> q_reach (ta opt True) (tb opt False)"

abbreviation side_deliver :: "byte \<Rightarrow> (byte \<Rightarrow> bool \<Rightarrow> bool) \<Rightarrow> (byte \<Rightarrow> bool \<Rightarrow> bool) \<Rightarrow> config \<Rightarrow> config \<Rightarrow> bool" where
  "side_deliver opt ta tb \<equiv> q_deliver (ta opt True) (tb opt False)"

lemma wire_head:
  assumes "concat (map (wire_command opt) ms) = m @ rest" and "length m = 3"
  obtains own enable ms' where "ms = (own, enable) # ms'" "m = wire_command opt (own, enable)"
    "rest = concat (map (wire_command opt) ms')"
proof (cases ms)
  case (Cons x ms')
  obtain own enable where x: "x = (own, enable)" by (cases x)
  have "wire_command opt (own, enable) @ concat (map (wire_command opt) ms') = m @ rest" using assms(1) by (simp add: Cons x)
  then have "m = wire_command opt (own, enable)" "rest = concat (map (wire_command opt) ms')"
    using append_eq_append_conv [of "wire_command opt (own, enable)" m] assms(2) by simp_all
  then show thesis using that [of own enable ms'] by (simp add: Cons x)
qed (use assms in simp)

lemma deliver_b_linked:
  assumes "linked opt p c d" and "tables p = (ta, tb)" and "to_b p = m @ rest" and "length m = 3"
    and "t = telnet_recv (peer_b p) m"
  defines "p' \<equiv> p\<lparr>peer_b := t, to_b := rest, to_a := to_a p @ sent_since (peer_b p) t\<rparr>"
  shows "tables p' = (ta, tb) \<and> ((\<exists>c'. linked opt p' c' d \<and> side_deliver opt ta tb c c') \<or>
    (\<exists>d'. linked opt p' c d' \<and> side_deliver opt tb ta d d'))"
proof -
  obtain ua ha ub hb ms ns where l: "runs opt (peer_a p) ua ha" "runs opt (peer_b p) ub hb"
      "to_b p = concat (map (wire_command opt) ms)" "to_a p = concat (map (wire_command opt) ns)"
      "c = (ua, hb, side_commands True ms, side_commands False ns)" "d = (ub, ha, side_commands True ns, side_commands False ms)"
    using assms(1) by (auto simp: linked_def)
  obtain own enable ms' where m: "ms = (own, enable) # ms'" "m = wire_command opt (own, enable)"
      "rest = concat (map (wire_command opt) ms')"
    using wire_head [of opt ms m rest] assms(3,4) l(3) by metis
  obtain s a where r: "recv_side (tb opt (\<not> own)) enable (if own then hb else ub) = (s, a)"
    by (cases "recv_side (tb opt (\<not> own)) enable (if own then hb else ub)")
  have tb: "check_telopt (peer_b p) = tb" using assms(2) by (simp add: tables_def)
  have step: "runs opt t (if own then ub else s) (if own then s else hb)"
    "sent_since (peer_b p) t = concat (map (wire_command opt) (one_command (\<not> own) a))" "check_telopt t = tb"
    using recv_command [OF l(2), of own enable s a] r unfolding assms(5) m(2) tb by simp_all
  have tables: "tables p' = (ta, tb)" using assms(2) step(3) by (simp add: tables_def p'_def)
  have wires: "to_b p' = concat (map (wire_command opt) ms')"
    "to_a p' = concat (map (wire_command opt) (ns @ one_command (\<not> own) a))"
    using l(4) m(3) step(2) by (simp_all add: p'_def)
  show ?thesis
  proof (cases own)
    case True
    let ?c = "(ua, s, side_commands True ms', put_answer (side_commands False ns) a)"
    have "linked opt p' ?c d"
      using l True m(1) step(1) wires unfolding linked_def
      by (intro exI [of _ ua] exI [of _ ha] exI [of _ ub] exI [of _ s] exI [of _ ms'] exI [of _ "ns @ one_command False a"])
        (simp add: p'_def put_answer_def)
    moreover have "side_deliver opt ta tb c ?c"
      using q_deliver.to_b [of "tb opt False" enable hb s a "ta opt True" ua "side_commands True ms'" "side_commands False ns"] r True l(5) m(1)
      by simp
    ultimately show ?thesis using tables by blast
  next
    case False
    let ?d = "(s, ha, put_answer (side_commands True ns) a, side_commands False ms')"
    have "linked opt p' c ?d"
      using l False m(1) step(1) wires unfolding linked_def
      by (intro exI [of _ ua] exI [of _ ha] exI [of _ s] exI [of _ hb] exI [of _ ms'] exI [of _ "ns @ one_command True a"])
        (simp add: p'_def put_answer_def)
    moreover have "side_deliver opt tb ta d ?d"
      using q_deliver.to_a [of "tb opt True" enable ub s a "ta opt False" ha "side_commands True ns" "side_commands False ms'"] r False l(6) m(1)
      by simp
    ultimately show ?thesis using tables by blast
  qed
qed

definition enabling :: "config \<Rightarrow> config" where
  "enabling c = (case c of (a, b, ab, ba) \<Rightarrow> (case ask True a of (a', r) \<Rightarrow> (a', b, put_answer ab r, ba)))"

lemma ask_a_linked:
  assumes "linked opt p c d" and "tables p = (ta, tb)"
    and "cmd \<in> {TELNET_WILL, TELNET_WONT, TELNET_DO, TELNET_DONT}" and "t = telnet_negotiate (peer_a p) cmd opt"
  defines "p' \<equiv> p\<lparr>peer_a := t, to_b := to_b p @ sent_since (peer_a p) t\<rparr>"
  shows "tables p' = (ta, tb) \<and> (\<exists>c' d'. linked opt p' c' d' \<and> (q_ask c c' \<and> d' = d \<or> c' = c \<and> q_ask d d') \<and>
    (cmd = TELNET_WILL \<longrightarrow> d' = d \<and> c' = enabling c))"
proof -
  obtain ua ha ub hb ms ns where l: "runs opt (peer_a p) ua ha" "runs opt (peer_b p) ub hb"
      "to_b p = concat (map (wire_command opt) ms)" "to_a p = concat (map (wire_command opt) ns)"
      "c = (ua, hb, side_commands True ms, side_commands False ns)" "d = (ub, ha, side_commands True ns, side_commands False ms)"
    using assms(1) by (auto simp: linked_def)
  obtain own enable where cmd: "cmd = command_byte own enable"
  proof -
    have "cmd = command_byte (cmd \<in> {TELNET_WILL, TELNET_WONT}) (cmd \<in> {TELNET_WILL, TELNET_DO})"
      using assms(3) by (auto simp: command_byte_def yes_cmd_def no_cmd_def)
    then show thesis using that by blast
  qed
  obtain s a where r: "ask enable (if own then ua else ha) = (s, a)" by (cases "ask enable (if own then ua else ha)")
  have step: "runs opt t (if own then s else ua) (if own then ha else s)"
    "sent_since (peer_a p) t = concat (map (wire_command opt) (one_command own a))" "check_telopt t = check_telopt (peer_a p)"
    using ask_command [OF l(1) r] unfolding assms(4) cmd by simp_all
  have tables: "tables p' = (ta, tb)" using assms(2) step(3) by (simp add: tables_def p'_def)
  have wires: "to_b p' = concat (map (wire_command opt) (ms @ one_command own a))" "to_a p' = to_a p"
    using l(3) step(2) by (simp_all add: p'_def)
  show ?thesis
  proof (cases own)
    case True
    let ?c = "(s, hb, put_answer (side_commands True ms) a, side_commands False ns)"
    have "linked opt p' ?c d"
      using l True step(1) wires unfolding linked_def
      by (intro exI [of _ s] exI [of _ ha] exI [of _ ub] exI [of _ hb] exI [of _ "ms @ one_command True a"] exI [of _ ns])
        (simp add: p'_def put_answer_def)
    moreover have "q_ask c ?c" using q_ask.ask_a [of enable ua s a] r True l(5) by simp
    moreover have "cmd = TELNET_WILL \<Longrightarrow> ?c = enabling c"
      using cmd r True l(5) by (cases enable) (simp_all add: enabling_def command_byte_def yes_cmd_def no_cmd_def)
    ultimately show ?thesis using tables by blast
  next
    case False
    let ?d = "(ub, s, side_commands True ns, put_answer (side_commands False ms) a)"
    have "linked opt p' c ?d"
      using l False step(1) wires unfolding linked_def
      by (intro exI [of _ ua] exI [of _ s] exI [of _ ub] exI [of _ hb] exI [of _ "ms @ one_command False a"] exI [of _ ns])
        (simp add: p'_def put_answer_def)
    moreover have "q_ask d ?d" using q_ask.ask_b [of enable ha s a] r False l(6) by simp
    moreover have "cmd \<noteq> TELNET_WILL"
      using cmd False by (cases enable) (simp_all add: command_byte_def yes_cmd_def no_cmd_def)
    ultimately show ?thesis using tables by blast
  qed
qed

text \<open>The same of the other tracker, by symmetry.\<close>

lemma tables_swap: "tables (swap p) = (snd (tables p), fst (tables p))"
  by (simp add: tables_def swap_def)

lemma deliver_a_linked:
  assumes "linked opt p c d" and "tables p = (ta, tb)" and "to_a p = m @ rest" and "length m = 3"
    and "t = telnet_recv (peer_a p) m"
  defines "p' \<equiv> p\<lparr>peer_a := t, to_a := rest, to_b := to_b p @ sent_since (peer_a p) t\<rparr>"
  shows "tables p' = (ta, tb) \<and> ((\<exists>c'. linked opt p' c' d \<and> side_deliver opt ta tb c c') \<or>
    (\<exists>d'. linked opt p' c d' \<and> side_deliver opt tb ta d d'))"
proof -
  have s: "tables (swap p) = (tb, ta)" "to_b (swap p) = m @ rest" "t = telnet_recv (peer_b (swap p)) m"
    using assms(2,3,5) by (simp_all add: tables_swap) (simp_all add: swap_def)
  have p': "(swap p)\<lparr>peer_b := t, to_b := rest, to_a := to_a (swap p) @ sent_since (peer_b (swap p)) t\<rparr> = swap p'"
    by (simp add: swap_def p'_def)
  note step = deliver_b_linked [OF linked_swap [OF assms(1)] s(1,2) assms(4) s(3), unfolded p']
  then have "tables p' = (ta, tb)" using tables_swap [of "swap p'"] by simp
  with step show ?thesis using linked_swapD by blast
qed

lemma ask_b_linked:
  assumes "linked opt p c d" and "tables p = (ta, tb)"
    and "cmd \<in> {TELNET_WILL, TELNET_WONT, TELNET_DO, TELNET_DONT}" and "t = telnet_negotiate (peer_b p) cmd opt"
  defines "p' \<equiv> p\<lparr>peer_b := t, to_a := to_a p @ sent_since (peer_b p) t\<rparr>"
  shows "tables p' = (ta, tb) \<and> (\<exists>c' d'. linked opt p' c' d' \<and> (q_ask c c' \<and> d' = d \<or> c' = c \<and> q_ask d d'))"
proof -
  have s: "tables (swap p) = (tb, ta)" "t = telnet_negotiate (peer_a (swap p)) cmd opt"
    using assms(2,4) by (simp_all add: tables_swap) (simp_all add: swap_def)
  have p': "(swap p)\<lparr>peer_a := t, to_b := to_b (swap p) @ sent_since (peer_a (swap p)) t\<rparr> = swap p'"
    by (simp add: swap_def p'_def)
  note step = ask_a_linked [OF linked_swap [OF assms(1)] s(1) assms(3) s(2), unfolded p']
  then have "tables p' = (ta, tb)" using tables_swap [of "swap p'"] by simp
  with step show ?thesis using linked_swapD by blast
qed

section \<open>Convergence\<close>

definition follows_q :: "byte \<Rightarrow> peers \<Rightarrow> config \<Rightarrow> config \<Rightarrow> bool" where
  "follows_q opt p c d \<longleftrightarrow> linked opt p c d \<and>
     side_reach opt (fst (tables p)) (snd (tables p)) c \<and> side_reach opt (snd (tables p)) (fst (tables p)) d"

lemma deliver_linked:
  assumes "peers_deliver p p'" and "linked opt p c d" and "tables p = (ta, tb)"
  shows "tables p' = (ta, tb) \<and> ((\<exists>c'. linked opt p' c' d \<and> side_deliver opt ta tb c c') \<or>
    (\<exists>d'. linked opt p' c d' \<and> side_deliver opt tb ta d d'))"
  using assms(1)
proof cases
  case recv_b
  then show ?thesis using deliver_b_linked [OF assms(2,3)] by blast
next
  case recv_a
  then show ?thesis using deliver_a_linked [OF assms(2,3)] by blast
qed

lemma ask_linked:
  assumes "peers_ask opt p p'" and "linked opt p c d" and "tables p = (ta, tb)"
  shows "tables p' = (ta, tb) \<and> (\<exists>c' d'. linked opt p' c' d' \<and> (q_ask c c' \<and> d' = d \<or> c' = c \<and> q_ask d d'))"
  using assms(1)
proof cases
  case ask_a
  then show ?thesis using ask_a_linked [OF assms(2,3)] by blast
next
  case ask_b
  then show ?thesis using ask_b_linked [OF assms(2,3)] by blast
qed

lemma reach_follows: "peers_reach opt p \<Longrightarrow> \<exists>c d. follows_q opt p c d"
proof (induction rule: peers_reach.induct)
  case (start p)
  let ?c = "(QNo, QNo, [], [])"
  have "linked opt p ?c ?c"
    using start unfolding linked_def
    by (intro exI [of _ QNo] exI [of _ "[]"]) (simp add: fresh_def runs_def sides_def)
  then have "follows_q opt p ?c ?c" by (simp add: follows_q_def q_reach.start)
  then show ?case by blast
next
  case (request p p')
  then obtain c d where f: "follows_q opt p c d" by blast
  obtain ta tb where t: "tables p = (ta, tb)" by (cases "tables p")
  have l: "linked opt p c d" "side_reach opt ta tb c" "side_reach opt tb ta d" using f t by (simp_all add: follows_q_def)
  obtain c' d' where "linked opt p' c' d'" "q_ask c c' \<and> d' = d \<or> c' = c \<and> q_ask d d'" "tables p' = (ta, tb)"
    using ask_linked [OF request.hyps(2) l(1) t] by blast
  moreover from this have "side_reach opt ta tb c'" "side_reach opt tb ta d'" using l(2,3) q_reach.request by blast+
  ultimately have "follows_q opt p' c' d'" by (simp add: follows_q_def)
  then show ?case by blast
next
  case (delivery p p')
  then obtain c d where f: "follows_q opt p c d" by blast
  obtain ta tb where t: "tables p = (ta, tb)" by (cases "tables p")
  have l: "linked opt p c d" "side_reach opt ta tb c" "side_reach opt tb ta d" using f t by (simp_all add: follows_q_def)
  obtain c' d' where "linked opt p' c' d'" "side_deliver opt ta tb c c' \<and> d' = d \<or> c' = c \<and> side_deliver opt tb ta d d'"
      "tables p' = (ta, tb)"
    using deliver_linked [OF delivery.hyps(2) l(1) t] by blast
  moreover from this have "side_reach opt ta tb c'" "side_reach opt tb ta d'" using l(2,3) q_reach.delivery by blast+
  ultimately have "follows_q opt p' c' d'" by (simp add: follows_q_def)
  then show ?case by blast
qed

text \<open>A run of deliveries is a run of each of the two sides, interleaved.\<close>

lemma deliver_split:
  assumes "(peers_deliver ^^ k) p p'" and "linked opt p c d" and "tables p = (ta, tb)"
  shows "\<exists>i j c' d'. k = i + j \<and> (side_deliver opt ta tb ^^ i) c c' \<and> (side_deliver opt tb ta ^^ j) d d' \<and>
    linked opt p' c' d' \<and> tables p' = (ta, tb)"
  using assms(1)
proof (induction k arbitrary: p')
  case 0
  then show ?case using assms(2,3) by (intro exI [of _ 0] exI [of _ c] exI [of _ d]) simp
next
  case (Suc k)
  then obtain q where q: "(peers_deliver ^^ k) p q" "peers_deliver q p'" by auto
  obtain i j c1 d1 where r: "k = i + j" "(side_deliver opt ta tb ^^ i) c c1" "(side_deliver opt tb ta ^^ j) d d1"
      "linked opt q c1 d1" "tables q = (ta, tb)"
    using Suc.IH [OF q(1)] by blast
  from deliver_linked [OF q(2) r(4,5)] consider
    c' where "linked opt p' c' d1" "side_deliver opt ta tb c1 c'" "tables p' = (ta, tb)"
    | d' where "linked opt p' c1 d'" "side_deliver opt tb ta d1 d'" "tables p' = (ta, tb)" by blast
  then show ?case
  proof cases
    case 1
    then have "(side_deliver opt ta tb ^^ Suc i) c c'" using r(2) by auto
    then show ?thesis using 1 r by (intro exI [of _ "Suc i"] exI [of _ j] exI [of _ c'] exI [of _ d1]) simp
  next
    case 2
    then have "(side_deliver opt tb ta ^^ Suc j) d d'" using r(3) by auto
    then show ?thesis using 2 r by (intro exI [of _ i] exI [of _ "Suc j"] exI [of _ c1] exI [of _ d']) simp
  qed
qed

text \<open>Nothing is on its way to either tracker.\<close>

definition wires_empty :: "peers \<Rightarrow> bool" where
  "wires_empty p \<longleftrightarrow> to_b p = [] \<and> to_a p = []"

lemma no_commands: "[] = concat (map (wire_command opt) ms) \<Longrightarrow> ms = []"
  by (cases ms) (auto elim: wire_command.elims)

lemma linked_rest: "linked opt p c d \<Longrightarrow> wires_empty p \<Longrightarrow> settled c \<and> settled d"
proof -
  assume "linked opt p c d" and rest: "wires_empty p"
  then obtain ua ha ub hb ms ns where l: "to_b p = concat (map (wire_command opt) ms)" "to_a p = concat (map (wire_command opt) ns)"
      "c = (ua, hb, side_commands True ms, side_commands False ns)" "d = (ub, ha, side_commands True ns, side_commands False ms)"
    unfolding linked_def by blast
  have "ms = []" using l(1) rest no_commands [of opt ms] unfolding wires_empty_def by metis
  moreover have "ns = []" using l(2) rest no_commands [of opt ns] unfolding wires_empty_def by metis
  ultimately show "settled c \<and> settled d" using l(3,4) by (simp add: settled_def)
qed

lemma rest_or_deliver:
  assumes "linked opt p c d"
  shows "wires_empty p \<or> (\<exists>q. peers_deliver p q)"
proof -
  obtain ms ns where w: "to_b p = concat (map (wire_command opt) ms)" "to_a p = concat (map (wire_command opt) ns)"
    using assms unfolding linked_def by blast
  consider "ms = []" "ns = []" | own enable ms' where "ms = (own, enable) # ms'" | own enable ns' where "ns = (own, enable) # ns'"
    by (metis neq_Nil_conv surj_pair)
  then show ?thesis
  proof cases
    case 1
    then show ?thesis using w by (simp add: wires_empty_def)
  next
    case 2
    then have "to_b p = wire_command opt (own, enable) @ concat (map (wire_command opt) ms')" using w(1) by simp
    from peers_deliver.recv_b [OF this _ refl] show ?thesis by auto
  next
    case 3
    then have "to_a p = wire_command opt (own, enable) @ concat (map (wire_command opt) ns')" using w(2) by simp
    from peers_deliver.recv_a [OF this _ refl] show ?thesis by auto
  qed
qed

lemma follows_deliver:
  assumes "(peers_deliver ^^ k) p p'" and "follows_q opt p c d"
  shows "k \<le> 10" and "\<exists>c' d'. follows_q opt p' c' d'"
proof -
  obtain ta tb where t: "tables p = (ta, tb)" by (cases "tables p")
  have f: "linked opt p c d" "side_reach opt ta tb c" "side_reach opt tb ta d"
    using assms(2) t by (simp_all add: follows_q_def)
  obtain i j c' d' where r: "k = i + j" "(side_deliver opt ta tb ^^ i) c c'" "(side_deliver opt tb ta ^^ j) d d'"
      "linked opt p' c' d'" "tables p' = (ta, tb)"
    using deliver_split [OF assms(1) f(1) t] by blast
  have "i \<le> 5" "j \<le> 5" using q_converges [OF f(2) r(2)] q_converges [OF f(3) r(3)] by simp_all
  then show "k \<le> 10" using r(1) by simp
  have "follows_q opt p' c' d'" using r deliver_reach f(2,3) by (auto simp: follows_q_def)
  then show "\<exists>c' d'. follows_q opt p' c' d'" by blast
qed

lemma rest_agreed:
  assumes "follows_q opt p c d" and "wires_empty p"
  obtains u h where "u \<in> {QNo, QYes}" "h \<in> {QNo, QYes}" "c = (u, u, [], [])" "d = (h, h, [], [])"
    "runs opt (peer_a p) u h" "runs opt (peer_b p) h u"
proof -
  have l: "linked opt p c d" and "config_ok c" "config_ok d"
    using assms(1) reach_ok unfolding follows_q_def by blast+
  moreover have "settled c" "settled d" using linked_rest [OF l assms(2)] by simp_all
  ultimately have "agreed c" "agreed d" by (simp_all add: config_ok_def)
  then have uh: "fst c \<in> {QNo, QYes}" "fst d \<in> {QNo, QYes}" "c = (fst c, fst c, [], [])" "d = (fst d, fst d, [], [])"
    using \<open>settled c\<close> \<open>settled d\<close> by (cases c; cases d; simp add: agreed_def settled_def)+
  then have "runs opt (peer_a p) (fst c) (fst d)" "runs opt (peer_b p) (fst d) (fst c)"
    using l unfolding linked_def by (metis fst_conv snd_conv)+
  then show thesis using that uh by blast
qed

text \<open>A side that is off, asked for at rest, is on once nothing is in flight if the other end supports it.\<close>

lemma q_granted:
  assumes "(q_deliver agree_a agree_b ^^ k) (enabling (u, u, [], [])) c" and "settled c" and "u \<in> {QNo, QYes}"
  shows "fst c = (if u = QYes \<or> agree_b then QYes else QNo)"
proof (cases "u = QYes")
  case True
  have stuck: "\<not> q_deliver agree_a agree_b (QYes, QYes, [], []) x" for x by (simp add: q_deliver_succs deliver_succs_def)
  have "(q_deliver agree_a agree_b ^^ k) (QYes, QYes, [], []) c" using assms(1) True by (simp add: enabling_def put_answer_def)
  then have "c = (QYes, QYes, [], [])" using stuck by (metis relpowp_E2)
  then show ?thesis using True by simp
next
  case False
  then have "u = QNo" using assms(3) by simp
  let ?e = "if agree_b then QYes else QNo"
  have last: "\<not> q_deliver agree_a agree_b (?e, ?e, [], []) x" for x by (simp add: q_deliver_succs deliver_succs_def)
  have s1: "q_deliver agree_a agree_b (QWantYes, QNo, [True], []) x \<longleftrightarrow> x = (QWantYes, ?e, [], [agree_b])" for x
    by (simp add: q_deliver_succs deliver_succs_def recv_side_def put_answer_def)
  have s2: "q_deliver agree_a agree_b (QWantYes, ?e, [], [agree_b]) x \<longleftrightarrow> x = (?e, ?e, [], [])" for x
    by (simp add: q_deliver_succs deliver_succs_def recv_side_def put_answer_def)
  have k: "(q_deliver agree_a agree_b ^^ k) (QWantYes, QNo, [True], []) c"
    using assms(1) \<open>u = QNo\<close> by (simp add: enabling_def put_answer_def)
  consider "k = 0" | "k = 1" | m where "k = Suc (Suc m)" by (metis One_nat_def not0_implies_Suc)
  then show ?thesis
  proof cases
    case 3
    then have "(q_deliver agree_a agree_b ^^ m) (?e, ?e, [], []) c" using k s1 s2 by (metis relpowp_Suc_D2)
    then have "c = (?e, ?e, [], [])" using last by (metis relpowp_E2)
    then show ?thesis using False by simp
  qed (use k s1 assms(2) in \<open>auto simp: settled_def\<close>)
qed

lemma request_granted:
  assumes "follows_q opt p c d" and "wires_empty p" and "t = telnet_negotiate (peer_a p) TELNET_WILL opt"
    and "(peers_deliver ^^ j) (p\<lparr>peer_a := t, to_b := sent_since (peer_a p) t\<rparr>) q" and "wires_empty q"
  shows "fst (opt_view (peer_a q) opt) = (if fst (opt_view (peer_a p) opt) = Q_YES \<or> check_telopt (peer_b p) opt False then Q_YES else Q_NO)"
proof -
  obtain ta tb where tt: "tables p = (ta, tb)" by (cases "tables p")
  obtain u h where u: "u \<in> {QNo, QYes}" "c = (u, u, [], [])" "runs opt (peer_a p) u h"
    using rest_agreed [OF assms(1,2)] by metis
  have l: "linked opt p c d" using assms(1) by (simp add: follows_q_def)
  let ?p = "p\<lparr>peer_a := t, to_b := to_b p @ sent_since (peer_a p) t\<rparr>"
  have p1: "tables ?p = (ta, tb)" "linked opt ?p (enabling c) d"
    using ask_a_linked [OF l tt _ assms(3)] by auto
  have "(peers_deliver ^^ j) ?p q" using assms(2,4) by (simp add: wires_empty_def)
  then obtain i c' d' where r: "(side_deliver opt ta tb ^^ i) (enabling c) c'" "linked opt q c' d'"
    using deliver_split [OF _ p1(2,1)] by blast
  have "settled c'" using linked_rest [OF r(2) assms(5)] by simp
  then have f: "fst c' = (if u = QYes \<or> tb opt False then QYes else QNo)" using q_granted r(1) u(1,2) by blast
  have "\<exists>h'. sides (peer_a q) opt (fst c') h'" using r(2) by (auto simp: linked_def runs_def)
  then have "fst (opt_view (peer_a q) opt) = qcode (fst c')" by (auto simp: sides_def)
  moreover have "fst (opt_view (peer_a p) opt) = qcode u" using u(3) by (simp add: runs_def sides_def)
  moreover have "tb = check_telopt (peer_b p)" using tt by (simp add: tables_def)
  ultimately show ?thesis using f u(1) by auto
qed

text \<open>
  Property (C20). Two trackers of the library, connected to each other, never loop over an option
  and never come to disagree about it. Start with two trackers that have not negotiated the option
  (neither is a proxy), let both applications call \<open>telnet_negotiate\<close> for it at any time, with any of
  the four commands, and let the commands be received in any interleaving: at every moment, at most
  ten further receptions empty the wires, as long as no application asks again; at rest each side of the
  option is the same for both, on or off; and when the first application then asks to enable the
  option on its side, that side ends on if it was on or if the table of the other supports it, and off
  otherwise.
\<close>

theorem negotiation_converges:
  assumes "peers_reach opt p" and "(peers_deliver ^^ k) p p'"
  shows "k \<le> 10 \<and> (wires_empty p' \<or> (\<exists>q. peers_deliver p' q)) \<and>
    (wires_empty p' \<longrightarrow> (\<exists>u \<in> {Q_NO, Q_YES}. \<exists>h \<in> {Q_NO, Q_YES}.
      opt_view (peer_a p') opt = (u, h) \<and> opt_view (peer_b p') opt = (h, u))) \<and>
    (wires_empty p' \<and> t = telnet_negotiate (peer_a p') TELNET_WILL opt \<and>
      (peers_deliver ^^ j) (p'\<lparr>peer_a := t, to_b := sent_since (peer_a p') t\<rparr>) q \<and> wires_empty q \<longrightarrow>
      fst (opt_view (peer_a q) opt) =
        (if fst (opt_view (peer_a p') opt) = Q_YES \<or> check_telopt (peer_b p') opt False then Q_YES else Q_NO))"
proof -
  obtain c d where "follows_q opt p c d" using reach_follows [OF assms(1)] by blast
  from follows_deliver [OF assms(2) this] obtain c' d' where "k \<le> 10" and f: "follows_q opt p' c' d'" by blast
  moreover have "wires_empty p' \<or> (\<exists>q. peers_deliver p' q)" using f rest_or_deliver unfolding follows_q_def by blast
  moreover have "\<exists>u \<in> {Q_NO, Q_YES}. \<exists>h \<in> {Q_NO, Q_YES}.
      opt_view (peer_a p') opt = (u, h) \<and> opt_view (peer_b p') opt = (h, u)" if rest: "wires_empty p'"
  proof -
    obtain u h where "u \<in> {QNo, QYes}" "h \<in> {QNo, QYes}" "runs opt (peer_a p') u h" "runs opt (peer_b p') h u"
      using rest_agreed [OF f rest] by metis
    then show ?thesis by (auto simp: runs_def sides_def)
  qed
  ultimately show ?thesis using request_granted [OF f] by blast
qed

text \<open>
  Two trackers, of which the second supports ECHO on the side of the first: the first asks, its
  WILL and the DO that answers it are delivered, and both hold the side on.
\<close>

definition echo_peers :: peers where
  "echo_peers = \<lparr>peer_a = the (telnet_init None 0 []),
     peer_b = the (telnet_init (Some [\<lparr>opt_telopt = 1, opt_us = TELNET_WONT, opt_him = TELNET_DO\<rparr>,
        \<lparr>opt_telopt = - 1, opt_us = 0, opt_him = 0\<rparr>]) 0 []),
     to_b = [], to_a = []\<rparr>"

definition echo_asked :: telnet where
  "echo_asked = telnet_negotiate (peer_a echo_peers) TELNET_WILL 1"

definition echo_answered :: telnet where
  "echo_answered = telnet_recv (peer_b echo_peers) [TELNET_IAC, TELNET_WILL, 1]"

definition echo_end :: peers where
  "echo_end = \<lparr>peer_a = telnet_recv echo_asked [TELNET_IAC, TELNET_DO, 1], peer_b = echo_answered, to_b = [], to_a = []\<rparr>"

lemma echo_wires:
  "sent_since (peer_a echo_peers) echo_asked = [TELNET_IAC, TELNET_WILL, 1]"
  "sent_since (peer_b echo_peers) echo_answered = [TELNET_IAC, TELNET_DO, 1]"
  "sent_since echo_asked (telnet_recv echo_asked [TELNET_IAC, TELNET_DO, 1]) = []"
  by code_simp+

lemma echo_run: "(peers_deliver ^^ 2) (echo_peers\<lparr>peer_a := echo_asked, to_b := sent_since (peer_a echo_peers) echo_asked\<rparr>) echo_end"
proof -
  let ?p = "echo_peers\<lparr>peer_a := echo_asked, to_b := sent_since (peer_a echo_peers) echo_asked\<rparr>"
  let ?q = "\<lparr>peer_a = echo_asked, peer_b = echo_answered, to_b = [], to_a = [TELNET_IAC, TELNET_DO, 1]\<rparr>"
  have "peers_deliver ?p ?q"
    using peers_deliver.recv_b [of ?p "[TELNET_IAC, TELNET_WILL, 1]" "[]" echo_answered] echo_wires
    by (simp add: echo_peers_def echo_answered_def)
  moreover have "peers_deliver ?q echo_end"
    using peers_deliver.recv_a [of ?q "[TELNET_IAC, TELNET_DO, 1]" "[]"] echo_wires by (simp add: echo_end_def)
  ultimately show ?thesis by (auto simp: numeral_2_eq_2)
qed

lemma echo_start: "peers_reach opt echo_peers"
  by (rule peers_reach.start)
    (auto simp: echo_peers_def telnet_init_def alloc_def Let_def intro!: init_fresh [where fl = 0 and opts = None] init_fresh [where fl = 0])

theorem negotiation_converges_witness:
  "wires_empty echo_end \<and> opt_view (peer_a echo_peers) 1 = (Q_NO, Q_NO) \<and> check_telopt (peer_b echo_peers) 1 False \<and>
   fst (opt_view (peer_a echo_end) 1) = Q_YES"
proof -
  have "wires_empty echo_peers" "wires_empty echo_end" by (simp_all add: wires_empty_def echo_peers_def echo_end_def)
  moreover have "opt_view (peer_a echo_peers) 1 = (Q_NO, Q_NO)" "check_telopt (peer_b echo_peers) 1 False" by code_simp+
  ultimately show ?thesis
    using negotiation_converges [OF echo_start, of 0 echo_peers 1 echo_asked 2 echo_end] echo_run
    by (simp add: echo_asked_def)
qed

end
