(* ===== verification/Pico_State.thy ===== *)
theory Pico_State
  imports Fuji_Prelude
begin

text \<open>
  The RP2040 firmware of the Macintosh interface (\<open>src/pico/mac/commands.c\<close>): its globals, its
  hardware as seen through the Pico SDK, and the latch routines.

  The globals are the fields of a record. The hardware is outside the sources: the words that will
  arrive in the FIFOs of the PIO state machines are lists, a blocking read of an empty list never
  returns (\<open>Blocked\<close>), and everything the firmware writes is appended to \<open>outs\<close>. The ESP32 at the
  other end of the serial line is the function \<open>esp\<close>: the bytes it sends on receiving the last byte of the
  given history. Busy-waiting loops (\<open>while (gpio_get(MCI_WR));\<close>) change no state and are not
  represented; \<open>printf\<close> is diagnostic output only. \<open>assert\<close> stops the firmware when its argument is
  false, as in a build without \<open>NDEBUG\<close> (the firmware of such a build would go on); an access outside \<open>payload\<close> is \<open>Overflow\<close>.
\<close>

section \<open>State\<close>

datatype disk_mode_t = DCD | TO_FPY | FPY | TO_DCD

datatype state_machine = SM_FPY_CMD | SM_DCD_CMD | SM_DCD_READ | SM_DCD_WRITE | SM_FPY_ECHO | SM_LATCH | SM_MUX

datatype pico_out =
    OutLatch u16
  | OutUart byte
  | OutByte byte
  | OutEnable state_machine bool
  | OutInit state_machine
  | OutMuxProgram bool
  | OutMuxDrives u32
  | OutMuxDirs
  | OutTach nat

record pico =
  latch :: u16
  dcd_latch :: byte
  reg_a :: u32
  reg_olda :: u32
  chr_c :: byte
  active_disk_number :: u32
  num_dcd_drives :: u32
  disk_mode :: disk_mode_t
  host :: bool
  step_state :: bool
  cmd_sync :: byte
  cmd_num_rx :: byte
  cmd_num_tx :: byte
  payload :: "byte list"
  wr_sector :: u32
  fpy_fifo :: "u32 list"
  cmd_fifo :: "u32 list"
  cmd_polls :: "bool list"
  read_fifo :: "u32 list"
  mux_fifo :: "u32 list"
  uart_now :: "byte list"
  uart_sent :: "byte list"
  esp :: "byte list \<Rightarrow> byte list"
  enable_pin :: bool
  outs :: "pico_out list"

abbreviation (input) PAYLOAD_SIZE :: nat where "PAYLOAD_SIZE \<equiv> 539"

section \<open>Statements\<close>

datatype stop = Blocked | Assertion | Overflow

type_synonym prog = "pico \<Rightarrow> stop + pico"

definition skip :: prog where
  "skip s = Inr s"

definition seq :: "prog \<Rightarrow> prog \<Rightarrow> prog" where
  "seq p q s = (case p s of Inl e \<Rightarrow> Inl e | Inr s' \<Rightarrow> q s')"

fun block :: "prog list \<Rightarrow> prog" where
  "block [] = skip"
| "block (p # ps) = seq p (block ps)"

definition upd :: "(pico \<Rightarrow> pico) \<Rightarrow> prog" where
  "upd f s = Inr (f s)"

definition cond :: "(pico \<Rightarrow> bool) \<Rightarrow> prog \<Rightarrow> prog \<Rightarrow> prog" where
  "cond b p q s = (if b s then p s else q s)"

definition assert :: "(pico \<Rightarrow> bool) \<Rightarrow> prog" where
  "assert b s = (if b s then Inr s else Inl Assertion)"

text \<open>\<open>for_loop body n i\<close>: the loop \<open>for (; i < i + n; i++)\<close>, \<open>n\<close> passes starting at index \<open>i\<close>.\<close>

fun for_loop :: "(nat \<Rightarrow> prog) \<Rightarrow> nat \<Rightarrow> nat \<Rightarrow> prog" where
  "for_loop body 0 i = skip"
| "for_loop body (Suc n) i = seq (body i) (for_loop body n (Suc i))"

lemma seq_simps [simp]:
  "seq skip q = q" "seq (upd f) q s = q (f s)"
  "seq (cond b p p') q s = (if b s then seq p q s else seq p' q s)"
  "seq (assert b) q s = (if b s then q s else Inl Assertion)"
  by (auto simp: seq_def skip_def upd_def cond_def assert_def)

lemma seq_Inr: "p s = Inr s' \<Longrightarrow> seq p q s = q s'"
  by (simp add: seq_def)

lemma seq_Inl: "p s = Inl e \<Longrightarrow> seq p q s = Inl e"
  by (simp add: seq_def)

lemma skip_simp [simp]: "skip s = Inr s"
  by (simp add: skip_def)

lemma seq_assoc: "seq (seq p q) r = seq p (seq q r)"
  by (rule ext) (simp add: seq_def split: sum.split)

lemma seq_skip [simp]: "seq p skip = p"
  by (rule ext) (simp add: seq_def split: sum.split)

section \<open>Hardware\<close>

definition out :: "pico_out \<Rightarrow> pico \<Rightarrow> pico" where
  "out e s = s\<lparr>outs := outs s @ [e]\<rparr>"

definition put_latch :: "u16 \<Rightarrow> pico \<Rightarrow> pico" where
  "put_latch w s = out (OutLatch w) s"

definition sm_set_enabled :: "state_machine \<Rightarrow> bool \<Rightarrow> pico \<Rightarrow> pico" where
  "sm_set_enabled sm on s = out (OutEnable sm on) s"

definition uart_putc :: "byte \<Rightarrow> pico \<Rightarrow> pico" where
  "uart_putc b s =
     (let h = uart_sent s @ [b]
      in out (OutUart b) (s\<lparr>uart_sent := h, uart_now := uart_now s @ esp s h\<rparr>))"

definition uart_getc :: prog where
  "uart_getc s = (case uart_now s of [] \<Rightarrow> Inl Blocked | b # bs \<Rightarrow> Inr (s\<lparr>chr_c := b, uart_now := bs\<rparr>))"

text \<open>\<open>while (uart_is_readable(UART_ID)) uart_getc(UART_ID);\<close>\<close>

definition uart_drain :: "pico \<Rightarrow> pico" where
  "uart_drain s = s\<lparr>uart_now := []\<rparr>"

text \<open>\<open>uart_read_blocking(UART_ID, &payload[off], n)\<close> and \<open>uart_write_blocking(UART_ID, &payload[off], n)\<close>.\<close>

definition uart_read :: "nat \<Rightarrow> nat \<Rightarrow> prog" where
  "uart_read off n s =
     (if off + n > length (payload s) then Inl Overflow
      else if length (uart_now s) < n then Inl Blocked
      else Inr (s\<lparr>payload := take off (payload s) @ take n (uart_now s) @ drop (off + n) (payload s),
                  uart_now := drop n (uart_now s)\<rparr>))"

definition uart_write :: "nat \<Rightarrow> nat \<Rightarrow> prog" where
  "uart_write off n s =
     (if off + n > length (payload s) then Inl Overflow
      else Inr (fold uart_putc (slice (payload s) off (off + n)) s))"

text \<open>\<open>a = pio_sm_get_blocking(pioblk_read_only, SM_DCD_CMD)\<close>\<close>

definition get_cmd :: prog where
  "get_cmd s = (case cmd_fifo s of [] \<Rightarrow> Inl Blocked | w # ws \<Rightarrow> Inr (s\<lparr>reg_a := w, cmd_fifo := ws\<rparr>))"

text \<open>
  \<open>!pio_sm_is_rx_fifo_empty(pioblk_read_only, SM_DCD_CMD)\<close>: whether a word has arrived by now is the
  next answer of \<open>cmd_polls\<close>.
\<close>

definition cmd_ready :: "pico \<Rightarrow> bool" where
  "cmd_ready s \<longleftrightarrow> cmd_polls s \<noteq> [] \<and> hd (cmd_polls s)"

definition cmd_polled :: "pico \<Rightarrow> pico" where
  "cmd_polled s = s\<lparr>cmd_polls := tl (cmd_polls s)\<rparr>"

definition if_cmd_ready :: "prog \<Rightarrow> prog" where
  "if_cmd_ready p s = (if cmd_ready s then p (cmd_polled s) else Inr (cmd_polled s))"

text \<open>A byte from the DCD read state machine, handed to the statement \<open>p\<close>.\<close>

definition get_read :: "(byte \<Rightarrow> prog) \<Rightarrow> prog" where
  "get_read p s = (case read_fifo s of [] \<Rightarrow> Inl Blocked | w # ws \<Rightarrow> p (ucast w) (s\<lparr>read_fifo := ws\<rparr>))"

section \<open>The latches\<close>

datatype latch_bits =
    DIRTN | STEP | MOTORON | EJECT | DATA0 | na0101 | SINGLESIDE | DRVIN
  | CSTIN | WRTPRT | TKO | TACH | DATA1 | na1101 | READY | REVISED

fun latch_bit :: "latch_bits \<Rightarrow> nat" where
  "latch_bit DIRTN = 0" | "latch_bit STEP = 1" | "latch_bit MOTORON = 2" | "latch_bit EJECT = 3"
| "latch_bit DATA0 = 4" | "latch_bit na0101 = 5" | "latch_bit SINGLESIDE = 6" | "latch_bit DRVIN = 7"
| "latch_bit CSTIN = 8" | "latch_bit WRTPRT = 9" | "latch_bit TKO = 10" | "latch_bit TACH = 11"
| "latch_bit DATA1 = 12" | "latch_bit na1101 = 13" | "latch_bit READY = 14" | "latch_bit REVISED = 15"

definition get_latch :: "pico \<Rightarrow> u16" where
  "get_latch s = latch s"

definition dcd_get_latch :: "pico \<Rightarrow> u16" where
  "dcd_get_latch s = push_bit 8 (ucast (dcd_latch s)) + ucast (dcd_latch s)"

definition set_latch :: "latch_bits \<Rightarrow> pico \<Rightarrow> pico" where
  "set_latch b s = s\<lparr>latch := latch s OR push_bit (latch_bit b) 1\<rparr>"

definition clr_latch :: "latch_bits \<Rightarrow> pico \<Rightarrow> pico" where
  "clr_latch b s = s\<lparr>latch := latch s AND NOT (push_bit (latch_bit b) 1)\<rparr>"

definition dcd_set_latch :: "nat \<Rightarrow> pico \<Rightarrow> pico" where
  "dcd_set_latch n s = s\<lparr>dcd_latch := dcd_latch s OR push_bit n 1\<rparr>"

definition dcd_clr_latch :: "nat \<Rightarrow> pico \<Rightarrow> pico" where
  "dcd_clr_latch n s = s\<lparr>dcd_latch := dcd_latch s AND NOT (push_bit n 1)\<rparr>"

definition dcd_assert_hshk :: "pico \<Rightarrow> pico" where
  "dcd_assert_hshk s =
     (let s = dcd_clr_latch 2 s; s = dcd_clr_latch 3 s in put_latch (dcd_get_latch s) s)"

definition dcd_deassert_hshk :: "pico \<Rightarrow> pico" where
  "dcd_deassert_hshk s =
     (let s = dcd_set_latch 2 s; s = dcd_set_latch 3 s in put_latch (dcd_get_latch s) s)"

definition preset_latch :: "pico \<Rightarrow> pico" where
  "preset_latch s =
     (let s = s\<lparr>latch := 0\<rparr>; s = clr_latch DIRTN s; s = set_latch STEP s; s = set_latch MOTORON s;
          s = clr_latch EJECT s; s = set_latch SINGLESIDE s; s = clr_latch DRVIN s; s = set_latch CSTIN s;
          s = clr_latch WRTPRT s; s = set_latch TKO s; s = set_latch READY s
      in set_latch REVISED s)"

definition dcd_preset_latch :: "pico \<Rightarrow> pico" where
  "dcd_preset_latch s =
     (let s = s\<lparr>dcd_latch := 0\<rparr>; s = dcd_clr_latch 0 s; s = dcd_clr_latch 1 s; s = dcd_set_latch 2 s;
          s = dcd_set_latch 3 s; s = dcd_set_latch 4 s; s = dcd_clr_latch 5 s; s = dcd_set_latch 6 s
      in dcd_set_latch 7 s)"

text \<open>The tachometer frequency for the track \<open>c\<close>; the clock source runs at 125 MHz.\<close>

definition tach_lut :: "(nat \<times> nat \<times> nat) list" where
  "tach_lut = [(0, 15, 394), (16, 31, 429), (32, 47, 472), (48, 63, 525), (64, 79, 590)]"

definition set_tach_freq :: "byte \<Rightarrow> pico \<Rightarrow> pico" where
  "set_tach_freq c s =
     fold (\<lambda>(lo, hi, f) s. if lo \<le> unat c \<and> unat c \<le> hi then out (OutTach (125000000 div f)) s else s) tach_lut s"

section \<open>Facts on the latches\<close>

lemma out_fields [simp]:
  "latch (out e s) = latch s" "dcd_latch (out e s) = dcd_latch s" "reg_a (out e s) = reg_a s"
  "reg_olda (out e s) = reg_olda s"
  "chr_c (out e s) = chr_c s" "num_dcd_drives (out e s) = num_dcd_drives s" "disk_mode (out e s) = disk_mode s"
  "payload (out e s) = payload s" "wr_sector (out e s) = wr_sector s" "cmd_fifo (out e s) = cmd_fifo s"
  "cmd_polls (out e s) = cmd_polls s" "read_fifo (out e s) = read_fifo s" "uart_now (out e s) = uart_now s"
  "uart_sent (out e s) = uart_sent s" "esp (out e s) = esp s" "outs (out e s) = outs s @ [e]"
  "step_state (out e s) = step_state s" "host (out e s) = host s" "enable_pin (out e s) = enable_pin s"
  "fpy_fifo (out e s) = fpy_fifo s" "mux_fifo (out e s) = mux_fifo s"
  by (simp_all add: out_def)

lemma latch_bit_inj: "latch_bit b = latch_bit b' \<longleftrightarrow> b = b'"
  by (cases b; cases b'; simp)

lemma latch_bit_less: "latch_bit b < 16"
  by (cases b) simp_all

lemma bit_set_latch: "bit (latch (set_latch b s)) (latch_bit b') \<longleftrightarrow> b' = b \<or> bit (latch s) (latch_bit b')"
  using latch_bit_less [of b'] latch_bit_inj [of b b'] by (auto simp: set_latch_def bit_simps)

lemma bit_clr_latch: "bit (latch (clr_latch b s)) (latch_bit b') \<longleftrightarrow> b' \<noteq> b \<and> bit (latch s) (latch_bit b')"
  using latch_bit_less [of b'] latch_bit_inj [of b b'] by (auto simp: clr_latch_def bit_simps)

end
