(* ===== verification/Pico_Dcd.thy ===== *)
theory Pico_Dcd
  imports Pico_State
begin

text \<open>
  The hard-disk protocol of the firmware (\<open>commands.c\<close>, from \<open>send_byte\<close> to \<open>dcd_process\<close>): packets
  in the 7-to-8 encoding with their handshakes and hold-offs, the checksum, and the commands of the
  Macintosh.
\<close>

section \<open>Packets\<close>

definition send_byte :: "byte \<Rightarrow> pico \<Rightarrow> pico" where
  "send_byte b s = out (OutByte b) s"

definition expect :: "u32 \<Rightarrow> prog" where
  "expect w = block [get_cmd, assert (\<lambda>s. reg_a s = w)]"

definition handshake_before_send :: prog where
  "handshake_before_send = block [upd dcd_assert_hshk, expect 3, expect 1]"

definition handshake_after_send :: prog where
  "handshake_after_send = block [expect 3, expect 2]"

text \<open>The inner loop of \<open>send_packet\<close> over \<open>j\<close>, with the variable \<open>lsb\<close>.\<close>

fun send_group_bytes :: "nat \<Rightarrow> byte \<Rightarrow> byte list \<Rightarrow> pico \<Rightarrow> pico" where
  "send_group_bytes j lsb [] s = send_byte (lsb OR 0x80) s"
| "send_group_bytes j lsb (b # bs) s =
     send_group_bytes (Suc j) (lsb OR push_bit j (b AND 1)) bs (send_byte (drop_bit 1 b OR 0x80) s)"

definition send_group :: "nat \<Rightarrow> prog" where
  "send_group i =
     block [if_cmd_ready (block [expect 0, expect 1, upd (send_byte 0xaa)]),
            cond (\<lambda>s. 7 * i + 7 \<le> length (payload s))
              (upd (\<lambda>s. send_group_bytes 0 0 (slice (payload s) (7 * i) (7 * i + 7)) s))
              (\<lambda>s. Inl Overflow)]"

definition send_packet :: "byte \<Rightarrow> prog" where
  "send_packet ntx =
     block [handshake_before_send,
            upd (sm_set_enabled SM_LATCH False),
            upd (out (OutInit SM_DCD_WRITE)),
            upd (sm_set_enabled SM_DCD_WRITE True),
            upd (send_byte 0xaa),
            for_loop send_group (unat ntx) 0,
            upd (send_byte 0),
            upd dcd_deassert_hshk,
            upd (sm_set_enabled SM_DCD_WRITE False),
            upd (sm_set_enabled SM_LATCH True),
            handshake_after_send]"

definition store :: "nat \<Rightarrow> byte \<Rightarrow> prog" where
  "store p v s = (if p < length (payload s) then Inr (s\<lparr>payload := (payload s)[p := v]\<rparr>) else Inl Overflow)"

definition clear_payload :: "pico \<Rightarrow> pico" where
  "clear_payload s = s\<lparr>payload := replicate PAYLOAD_SIZE 0\<rparr>"

definition checksum :: "byte list \<Rightarrow> byte" where
  "checksum bs = NOT (fold (\<lambda>b sum. sum + b) bs 0) + 1"

definition compute_checksum :: "nat \<Rightarrow> prog" where
  "compute_checksum n s = store n (checksum (take n (payload s))) s"

section \<open>The commands\<close>

definition sector_arg :: "pico \<Rightarrow> u32" where
  "sector_arg s = push_bit 16 (ucast (payload s ! 2)) + push_bit 8 (ucast (payload s ! 3)) + ucast (payload s ! 4)"

definition put_sector :: "byte \<Rightarrow> u32 \<Rightarrow> pico \<Rightarrow> pico" where
  "put_sector cmd sector s =
     (let s = uart_putc cmd s;
          s = uart_putc (ucast (drop_bit 16 sector AND 0xff)) s;
          s = uart_putc (ucast (drop_bit 8 sector AND 0xff)) s
      in uart_putc (ucast (sector AND 0xff)) s)"

definition read_sector :: "byte \<Rightarrow> byte \<Rightarrow> u32 \<Rightarrow> nat \<Rightarrow> prog" where
  "read_sector ntx num_sectors sector i =
     block [upd (put_sector 82 (sector + of_nat i)),
            upd clear_payload,
            store 0 0x80,
            store 1 (num_sectors - of_nat i),
            uart_read 26 512,
            compute_checksum 538,
            send_packet ntx]"

definition dcd_read :: "byte \<Rightarrow> prog" where
  "dcd_read ntx s =
     (let num_sectors = payload s ! 1; sector = sector_arg s
      in block [upd uart_drain, for_loop (read_sector ntx num_sectors sector) (unat num_sectors) 0] s)"

definition write_sector :: "byte \<Rightarrow> bool \<Rightarrow> bool \<Rightarrow> byte \<Rightarrow> prog" where
  "write_sector ntx cont verf num_sectors =
     block [cond (\<lambda>_. cont) (upd (\<lambda>s. s\<lparr>wr_sector := wr_sector s + 1\<rparr>))
              (upd (\<lambda>s. s\<lparr>wr_sector := sector_arg s\<rparr>)),
            upd uart_drain,
            upd (\<lambda>s. put_sector 87 (wr_sector s) s),
            upd (\<lambda>s. s\<lparr>wr_sector := wr_sector s + 1\<rparr>),
            uart_write 26 512,
            uart_getc,
            upd clear_payload,
            store 0 (if \<not> verf then 0x81 else 0x82),
            store 1 num_sectors,
            compute_checksum 6,
            send_packet ntx]"

definition dcd_write :: "byte \<Rightarrow> bool \<Rightarrow> bool \<Rightarrow> prog" where
  "dcd_write ntx cont verf s = (let num_sectors = payload s ! 1 in write_sector ntx cont verf num_sectors s)"

definition dcd_status :: "byte \<Rightarrow> prog" where
  "dcd_status ntx =
     block [upd clear_payload, store 0 0x83, upd uart_drain, upd (uart_putc 84),
            uart_read 6 336, compute_checksum 342, send_packet ntx]"

text \<open>
  \<open>strcpy("FujiNet DCD", &payload[6])\<close> copies from the cleared payload to the literal, so it leaves the
  payload alone.
\<close>

definition dcd_id :: "byte \<Rightarrow> prog" where
  "dcd_id ntx =
     block [upd clear_payload, store 0 0x84,
            store 20 0x02, store 21 0x10, store 22 0x33, store 23 0x72, store 25 0x98, store 26 0x35,
            store 27 0x02, store 28 0x14, store 29 0x01, store 30 0x31, store 31 0x04, store 32 0x20,
            compute_checksum 48, send_packet ntx]"

definition dcd_format :: "byte \<Rightarrow> prog" where
  "dcd_format ntx =
     block [upd clear_payload, store 0 (0x80 + 0x19), compute_checksum 6, assert (\<lambda>_. ntx = 1), send_packet ntx]"

definition dcd_verify :: "byte \<Rightarrow> prog" where
  "dcd_verify ntx =
     block [upd clear_payload, store 0 (0x80 + 0x1a), compute_checksum 6, assert (\<lambda>_. ntx = 1), send_packet ntx]"

section \<open>Receiving a command\<close>

definition wait_sync :: prog where
  "wait_sync s = (case dropWhile (\<lambda>w. (ucast w :: byte) \<noteq> 0xaa) (read_fifo s) of
     [] \<Rightarrow> Inl Blocked | _ # ws \<Rightarrow> Inr (s\<lparr>read_fifo := ws\<rparr>))"

text \<open>The inner loop of \<open>dcd_process\<close>: \<open>n\<close> bytes to \<open>payload[p]\<close> on.\<close>

fun recv_bytes :: "nat \<Rightarrow> byte \<Rightarrow> nat \<Rightarrow> prog" where
  "recv_bytes 0 lsb p = skip"
| "recv_bytes (Suc n) lsb p =
     get_read (\<lambda>b. seq (store p (push_bit 1 b OR (lsb AND 1))) (recv_bytes n (drop_bit 1 lsb) (Suc p)))"

definition recv_group :: "nat \<Rightarrow> prog" where
  "recv_group i =
     block [if_cmd_ready (block [expect 0, expect 1, wait_sync]),
            get_read (\<lambda>lsb. recv_bytes 7 lsb (7 * i))]"

definition dispatch :: "byte \<Rightarrow> prog" where
  "dispatch ntx s =
     (let cmd = payload s ! 0 in
      if cmd = 0x00 then dcd_read ntx s
      else if cmd = 0x01 then dcd_write ntx False False s
      else if cmd = 0x02 then dcd_write ntx False True s
      else if cmd = 0x03 then dcd_status ntx s
      else if cmd = 0x04 then dcd_id ntx s
      else if cmd = 0x19 then dcd_format ntx s
      else if cmd = 0x1a then dcd_verify ntx s
      else if cmd = 0x41 then dcd_write ntx True False s
      else if cmd = 0x42 then dcd_write ntx True True s
      else Inr s)"

definition dcd_process :: "byte \<Rightarrow> byte \<Rightarrow> prog" where
  "dcd_process nrx ntx =
     block [for_loop recv_group (unat nrx) 0,
            upd (sm_set_enabled SM_DCD_READ False),
            expect 3,
            upd dcd_deassert_hshk,
            expect 2,
            dispatch ntx]"

section \<open>The checksum\<close>

lemma fold_sum: "fold (\<lambda>b sum. sum + b) bs (x::byte) = x + sum_list bs"
  by (induction bs arbitrary: x) (simp_all add: add.assoc)

lemma checksum_zero: "sum_list bs + checksum bs = 0"
  by (simp add: checksum_def fold_sum not_eq_complement)

section \<open>The 7-to-8 encoding\<close>

fun low_bits :: "nat \<Rightarrow> byte list \<Rightarrow> byte" where
  "low_bits j [] = 0"
| "low_bits j (b # bs) = push_bit j (b AND 1) OR low_bits (Suc j) bs"

definition group_data :: "byte list \<Rightarrow> byte list" where
  "group_data bs = map (\<lambda>b. drop_bit 1 b OR 0x80) bs"

definition group_low :: "byte list \<Rightarrow> byte" where
  "group_low bs = low_bits 0 bs OR 0x80"

text \<open>A group as it is received: the byte of low bits, then the data.\<close>

fun ungroup :: "byte \<Rightarrow> byte list \<Rightarrow> byte list" where
  "ungroup lsb [] = []"
| "ungroup lsb (b # bs) = (push_bit 1 b OR (lsb AND 1)) # ungroup (drop_bit 1 lsb) bs"

lemma send_group_bytes_out:
  "send_group_bytes j lsb bs s =
     s\<lparr>outs := outs s @ map OutByte (group_data bs @ [lsb OR low_bits j bs OR 0x80])\<rparr>"
  by (induction j lsb bs s rule: send_group_bytes.induct)
    (simp_all add: group_data_def send_byte_def out_def or.assoc)

lemma bit_low_bits: "bit (low_bits j bs) n \<longleftrightarrow> j \<le> n \<and> n < 8 \<and> n - j < length bs \<and> bit (bs ! (n - j)) 0"
proof (induction bs arbitrary: j)
  case (Cons b bs)
  show ?case
    using Cons.IH [of "Suc j"]
    by (cases "n = j") (auto simp: bit_simps bit_1_iff nth_Cons' Suc_le_eq split: if_splits)
qed simp

lemma ungroup_nth: "i < length bs \<Longrightarrow> ungroup lsb bs ! i = push_bit 1 (bs ! i) OR (drop_bit i lsb AND 1)"
  by (induction lsb bs arbitrary: i rule: ungroup.induct) (auto simp: nth_Cons' drop_bit_drop_bit)

lemma length_ungroup [simp]: "length (ungroup lsb bs) = length bs"
  by (induction lsb bs rule: ungroup.induct) simp_all

lemma shift_restore: "push_bit 1 (drop_bit 1 b OR (0x80::byte)) OR (b AND 1) = b"
proof -
  have "\<forall>b::byte. push_bit 1 (drop_bit 1 b OR 0x80) OR (b AND 1) = b"
    unfolding all_byte_enum by code_simp
  then show ?thesis ..
qed

lemma ungroup_group:
  assumes "length bs \<le> 7"
  shows "ungroup (group_low bs) (group_data bs) = bs"
proof (rule nth_equalityI)
  show "length (ungroup (group_low bs) (group_data bs)) = length bs" by (simp add: group_data_def)
  fix i assume "i < length (ungroup (group_low bs) (group_data bs))"
  then have i: "i < length bs" by (simp add: group_data_def)
  have "bit (group_low bs) i \<longleftrightarrow> bit (bs ! i) 0"
    using i assms bit_128 [of i] by (auto simp: group_low_def bit_low_bits bit_or_iff)
  then have "drop_bit i (group_low bs) AND 1 = bs ! i AND 1"
    by (intro bit_word_eqI) (auto simp: bit_simps bit_1_iff)
  with i show "ungroup (group_low bs) (group_data bs) ! i = bs ! i"
    unfolding group_data_def by (simp only: ungroup_nth length_map nth_map shift_restore)
qed

end
