(* ===== verification/Pico_Packets.thy ===== *)
theory Pico_Packets
  imports Pico_Dcd
begin

text \<open>
  Facts on the packets of the hard-disk protocol: what a statement leaves alone, the bytes on the
  wire with and without hold-offs, decoding on both sides, and the bound on the payload.
\<close>

section \<open>What statements leave alone\<close>

definition keeps :: "(pico \<Rightarrow> 'a) \<Rightarrow> prog \<Rightarrow> bool" where
  "keeps f p \<longleftrightarrow> (\<forall>s s'. p s = Inr s' \<longrightarrow> f s' = f s)"

lemma keepsD: "keeps f p \<Longrightarrow> p s = Inr s' \<Longrightarrow> f s' = f s"
  by (simp add: keeps_def)

lemma keeps_skip [wf_intros]: "keeps f skip"
  by (simp add: keeps_def)

lemma keeps_upd [wf_intros]: "(\<And>s. f (g s) = f s) \<Longrightarrow> keeps f (upd g)"
  by (simp add: keeps_def upd_def)

lemma keeps_assert [wf_intros]: "keeps f (assert b)"
  by (simp add: keeps_def assert_def)

lemma keeps_seq [wf_intros]: "keeps f p \<Longrightarrow> keeps f q \<Longrightarrow> keeps f (seq p q)"
  unfolding keeps_def seq_def by (auto split: sum.splits)

lemma keeps_block [wf_intros]: "(\<And>p. p \<in> set ps \<Longrightarrow> keeps f p) \<Longrightarrow> keeps f (block ps)"
  by (induction ps) (auto intro: keeps_skip keeps_seq)

lemma keeps_cond [wf_intros]: "keeps f p \<Longrightarrow> keeps f q \<Longrightarrow> keeps f (cond b p q)"
  by (simp add: keeps_def cond_def)

lemma keeps_stop [wf_intros]: "keeps f (\<lambda>s. Inl e)"
  by (simp add: keeps_def)

lemma keeps_for [wf_intros]: "(\<And>i. keeps f (body i)) \<Longrightarrow> keeps f (for_loop body n i)"
  by (induction n arbitrary: i) (auto intro: keeps_skip keeps_seq)

lemma keeps_get_cmd [wf_intros]:
  "(\<And>s w ws. f (s\<lparr>reg_a := w, cmd_fifo := ws\<rparr>) = f s) \<Longrightarrow> keeps f get_cmd"
  by (auto simp: keeps_def get_cmd_def split: list.splits)

lemma keeps_if_cmd_ready [wf_intros]:
  "(\<And>s ps. f (s\<lparr>cmd_polls := ps\<rparr>) = f s) \<Longrightarrow> keeps f p \<Longrightarrow> keeps f (if_cmd_ready p)"
  unfolding keeps_def if_cmd_ready_def cmd_polled_def by (auto split: if_splits)

text \<open>Sending a packet concerns the handshake, the latch and the output only.\<close>

definition host_side :: "pico \<Rightarrow> byte list \<times> u32 \<times> byte list \<times> byte list \<times> (byte list \<Rightarrow> byte list)" where
  "host_side s = (payload s, wr_sector s, uart_now s, uart_sent s, esp s)"

lemma host_side_updates [simp]:
  "host_side (out e s) = host_side s" "host_side (s\<lparr>reg_a := w\<rparr>) = host_side s"
  "host_side (s\<lparr>cmd_fifo := ws\<rparr>) = host_side s" "host_side (s\<lparr>cmd_polls := ps\<rparr>) = host_side s"
  "host_side (s\<lparr>dcd_latch := l\<rparr>) = host_side s" "host_side (s\<lparr>outs := es\<rparr>) = host_side s"
  by (simp_all add: host_side_def)

lemma keeps_expect: "keeps host_side (expect w)"
  unfolding expect_def by (auto intro!: wf_intros)

lemma hshk_host_side [simp]: "host_side (dcd_assert_hshk s) = host_side s" "host_side (dcd_deassert_hshk s) = host_side s"
  by (simp_all add: dcd_assert_hshk_def dcd_deassert_hshk_def Let_def put_latch_def dcd_clr_latch_def dcd_set_latch_def)

lemma keeps_send_group: "keeps host_side (send_group i)"
  unfolding send_group_def
  by (rule keeps_block) (auto intro!: wf_intros keeps_expect simp: send_byte_def send_group_bytes_out)

lemma keeps_send_packet: "keeps host_side (send_packet ntx)"
  unfolding send_packet_def handshake_before_send_def handshake_after_send_def
  by (rule keeps_block) (auto intro!: wf_intros keeps_expect keeps_send_group
      simp: send_byte_def sm_set_enabled_def)

section \<open>The bytes of a packet\<close>

definition wire :: "pico_out list \<Rightarrow> byte list" where
  "wire es = concat (map (\<lambda>e. case e of OutByte b \<Rightarrow> [b] | _ \<Rightarrow> []) es)"

lemma wire_simps [simp]:
  "wire [] = []" "wire (es @ es') = wire es @ wire es'" "wire (OutByte b # es) = b # wire es"
  "wire (OutLatch w # es) = wire es" "wire (OutEnable m e # es) = wire es" "wire (OutInit m # es) = wire es"
  "wire (map OutByte bs) = bs"
proof -
  show "wire (map OutByte bs) = bs" by (induction bs) (simp_all add: wire_def)
qed (simp_all add: wire_def)

text \<open>
  The words of the command state machine during a packet: a hold-off is announced by 0 and ended by 1. The
  list tells before which groups the Macintosh holds off.
\<close>

definition holdoffs :: "bool list \<Rightarrow> u32 list" where
  "holdoffs ps = concat (map (\<lambda>p. if p then [0, 1] else []) ps)"

fun packet_groups :: "bool list \<Rightarrow> nat \<Rightarrow> byte list \<Rightarrow> byte list" where
  "packet_groups [] i pl = []"
| "packet_groups (p # ps) i pl =
     (if p then [0xaa] else []) @ group_data (slice pl (7 * i) (7 * i + 7)) @
     [group_low (slice pl (7 * i) (7 * i + 7))] @ packet_groups ps (Suc i) pl"

text \<open>The receiver on the Macintosh: after a hold-off it skips the sync byte, then decodes a group.\<close>

fun unpack :: "bool list \<Rightarrow> byte list \<Rightarrow> byte list" where
  "unpack [] w = []"
| "unpack (p # ps) w =
     (let w = (if p then tl w else w) in ungroup (w ! 7) (take 7 w) @ unpack ps (drop 8 w))"

lemma length_group_data [simp]: "length (group_data bs) = length bs"
  by (simp add: group_data_def)

lemma slice_extend: "m \<le> n \<Longrightarrow> n \<le> k \<Longrightarrow> slice xs m n @ slice xs n k = slice xs m k"
proof -
  assume "m \<le> n" "n \<le> k"
  then have "take (k - m) (drop m xs) = take (n - m) (drop m xs) @ take (k - n) (drop (n - m) (drop m xs))"
    by (simp add: take_add [symmetric] del: drop_drop)
  with \<open>m \<le> n\<close> show ?thesis by (simp add: slice_def)
qed

lemma unpack_packet:
  "7 * (i + length ps) \<le> length pl \<Longrightarrow>
    unpack ps (packet_groups ps i pl) = slice pl (7 * i) (7 * (i + length ps))"
proof (induction ps arbitrary: i)
  case (Cons p ps)
  let ?g = "slice pl (7 * i) (7 * i + 7)"
  have l: "length ?g = 7" using Cons.prems by (simp add: length_slice)
  have "ungroup (group_low ?g) (group_data ?g) = ?g" using l by (intro ungroup_group) simp
  moreover have "slice pl (7 * i) (7 * i + 7) @ slice pl (7 * i + 7) (7 * (i + length (p # ps))) =
      slice pl (7 * i) (7 * (i + length (p # ps)))"
    by (rule slice_extend) simp_all
  ultimately show ?case using Cons.IH [of "Suc i"] Cons.prems l by (simp add: nth_append add.commute)
qed simp

lemma expect_ok: "cmd_fifo s = w # ws \<Longrightarrow> expect w s = Inr (s\<lparr>reg_a := w, cmd_fifo := ws\<rparr>)"
  by (simp add: expect_def get_cmd_def seq_def assert_def skip_def)

lemma expect_seq: "cmd_fifo s = w # ws \<Longrightarrow> seq (expect w) q s = q (s\<lparr>reg_a := w, cmd_fifo := ws\<rparr>)"
  by (simp add: expect_ok seq_Inr)

text \<open>What sending groups changes besides the output.\<close>

definition after_groups :: "bool list \<Rightarrow> pico \<Rightarrow> pico" where
  "after_groups ps s = s\<lparr>reg_a := (if True \<in> set ps then 1 else reg_a s),
     cmd_polls := drop (length ps) (cmd_polls s), cmd_fifo := drop (length (holdoffs ps)) (cmd_fifo s)\<rparr>"

lemma send_group_ok:
  assumes "cmd_polls s = p # ps" "cmd_fifo s = holdoffs [p] @ ws" "7 * i + 7 \<le> length (payload s)"
  shows "send_group i s = Inr (s\<lparr>reg_a := (if p then 1 else reg_a s), cmd_polls := ps, cmd_fifo := ws,
    outs := outs s @ map OutByte (packet_groups [p] i (payload s))\<rparr>)"
  using assms
  by (cases p) (simp_all add: send_group_def if_cmd_ready_def cmd_ready_def cmd_polled_def seq_def holdoffs_def
      expect_ok upd_def send_byte_def out_def cond_def send_group_bytes_out group_low_def skip_def)

lemma send_groups_ok:
  assumes "cmd_polls s = ps @ qs" "cmd_fifo s = holdoffs ps @ ws" "7 * (i + length ps) \<le> length (payload s)"
  shows "for_loop send_group (length ps) i s =
    Inr ((after_groups ps s)\<lparr>outs := outs s @ map OutByte (packet_groups ps i (payload s))\<rparr>)"
  using assms
proof (induction ps arbitrary: s i)
  case Nil
  then show ?case by (simp add: after_groups_def holdoffs_def)
next
  case (Cons p ps)
  let ?s = "s\<lparr>reg_a := (if p then 1 else reg_a s), cmd_polls := ps @ qs, cmd_fifo := holdoffs ps @ ws,
    outs := outs s @ map OutByte (packet_groups [p] i (payload s))\<rparr>"
  have h: "holdoffs (p # ps) = holdoffs [p] @ holdoffs ps" by (simp add: holdoffs_def)
  have g: "send_group i s = Inr ?s"
    using Cons.prems by (intro send_group_ok) (simp_all add: h)
  have "for_loop send_group (length ps) (Suc i) ?s =
      Inr ((after_groups ps ?s)\<lparr>outs := outs ?s @ map OutByte (packet_groups ps (Suc i) (payload s))\<rparr>)"
    using Cons.IH [of ?s "Suc i"] Cons.prems by simp
  with g show ?case
    by (simp add: seq_Inr) (simp add: after_groups_def Cons.prems h)
qed

text \<open>The state after a packet sent with the hold-offs \<open>ps\<close>.\<close>

definition after_packet :: "bool list \<Rightarrow> pico \<Rightarrow> u32 list \<Rightarrow> pico_out list \<Rightarrow> pico" where
  "after_packet ps s ws es = s\<lparr>reg_a := 2, cmd_polls := drop (length ps) (cmd_polls s), cmd_fifo := ws,
     dcd_latch := dcd_latch s OR 12, outs := outs s @ es\<rparr>"

definition latch_word :: "byte \<Rightarrow> u16" where
  "latch_word l = push_bit 8 (ucast l) + ucast l"

lemma hshk_masks:
  "((l::byte) AND NOT (push_bit 2 1)) AND NOT (push_bit 3 1) = l AND 243"
  "((l::byte) OR push_bit 2 1) OR push_bit 3 1 = l OR 12" "(l AND 243) OR 12 = (l OR 12)"
proof -
  have "\<forall>l::byte. (l AND NOT (push_bit 2 1)) AND NOT (push_bit 3 1) = l AND 243"
    "\<forall>l::byte. (l OR push_bit 2 1) OR push_bit 3 1 = l OR 12" "\<forall>l::byte. (l AND 243) OR 12 = (l OR 12)"
    unfolding all_byte_enum by code_simp+
  then show "((l::byte) AND NOT (push_bit 2 1)) AND NOT (push_bit 3 1) = l AND 243"
    "((l::byte) OR push_bit 2 1) OR push_bit 3 1 = l OR 12" "(l AND 243) OR 12 = (l OR 12)" by blast+
qed

lemma hshk_bits:
  "dcd_clr_latch 3 (dcd_clr_latch 2 s) = s\<lparr>dcd_latch := dcd_latch s AND 243\<rparr>"
  "dcd_set_latch 3 (dcd_set_latch 2 s) = s\<lparr>dcd_latch := dcd_latch s OR 12\<rparr>"
  using hshk_masks(1,2) [of "dcd_latch s"] by (simp_all add: dcd_clr_latch_def dcd_set_latch_def)

lemma dcd_assert_hshk_eq:
  "dcd_assert_hshk s = s\<lparr>dcd_latch := dcd_latch s AND 243, outs := outs s @ [OutLatch (latch_word (dcd_latch s AND 243))]\<rparr>"
  by (simp add: dcd_assert_hshk_def Let_def hshk_bits put_latch_def dcd_get_latch_def out_def latch_word_def)

lemma dcd_deassert_hshk_eq:
  "dcd_deassert_hshk s = s\<lparr>dcd_latch := dcd_latch s OR 12, outs := outs s @ [OutLatch (latch_word (dcd_latch s OR 12))]\<rparr>"
  by (simp add: dcd_deassert_hshk_def Let_def hshk_bits put_latch_def dcd_get_latch_def out_def latch_word_def)

lemma send_packet_ok:
  assumes "unat ntx = length ps" "cmd_polls s = ps @ qs" "cmd_fifo s = [3, 1] @ holdoffs ps @ [3, 2] @ ws"
    and "7 * length ps \<le> length (payload s)"
  shows "\<exists>es. send_packet ntx s = Inr (after_packet ps s ws es) \<and>
    wire es = 0xaa # packet_groups ps 0 (payload s) @ [0]"
proof -
  define s1 where "s1 = s\<lparr>dcd_latch := dcd_latch s AND 243, reg_a := 1, cmd_fifo := holdoffs ps @ [3, 2] @ ws,
    outs := outs s @ [OutLatch (latch_word (dcd_latch s AND 243)), OutEnable SM_LATCH False, OutInit SM_DCD_WRITE,
      OutEnable SM_DCD_WRITE True, OutByte 0xaa]\<rparr>"
  have g: "for_loop send_group (unat ntx) 0 s1 =
      Inr ((after_groups ps s1)\<lparr>outs := outs s1 @ map OutByte (packet_groups ps 0 (payload s1))\<rparr>)"
    unfolding assms(1) using assms by (intro send_groups_ok) (simp_all add: s1_def)
  have "send_packet ntx s = seq (for_loop send_group (unat ntx) 0) (block
      [upd (send_byte 0), upd dcd_deassert_hshk, upd (sm_set_enabled SM_DCD_WRITE False),
       upd (sm_set_enabled SM_LATCH True), handshake_after_send]) s1"
    using assms(3)
    by (simp add: send_packet_def handshake_before_send_def seq_assoc expect_seq dcd_assert_hshk_eq s1_def
        sm_set_enabled_def send_byte_def out_def)
  also have "\<dots> = Inr (after_packet ps s ws ([OutLatch (latch_word (dcd_latch s AND 243)), OutEnable SM_LATCH False,
      OutInit SM_DCD_WRITE, OutEnable SM_DCD_WRITE True, OutByte 0xaa] @ map OutByte (packet_groups ps 0 (payload s)) @
      [OutByte 0, OutLatch (latch_word (dcd_latch s OR 12)), OutEnable SM_DCD_WRITE False, OutEnable SM_LATCH True]))"
    unfolding seq_Inr [where p = "for_loop send_group (unat ntx) 0", OF g]
    using assms(2)
    by (simp add: handshake_after_send_def expect_seq expect_ok after_groups_def s1_def after_packet_def
        dcd_deassert_hshk_eq send_byte_def sm_set_enabled_def out_def hshk_masks)
  finally show ?thesis by (intro exI conjI, assumption) simp
qed

end
