(* ===== verification/Pico_Commands.thy ===== *)
theory Pico_Commands
  imports Pico_Packets
begin

text \<open>
  The commands of the Macintosh as the firmware executes them: receiving a command packet, its
  dispatch, and what reading, writing and the other commands put on the serial line and on the wire.
\<close>

section \<open>Receiving a command packet\<close>

text \<open>
  The Macintosh sends the payload \<open>pl\<close> in groups, low bits first. A group may follow a hold-off; then
  some bytes other than the sync byte, and the sync byte, come before it.
\<close>

fun mac_sends :: "byte list option list \<Rightarrow> nat \<Rightarrow> byte list \<Rightarrow> byte list" where
  "mac_sends [] i pl = []"
| "mac_sends (h # hs) i pl =
     (case h of None \<Rightarrow> [] | Some junk \<Rightarrow> junk @ [0xaa]) @
     group_low (slice pl (7 * i) (7 * i + 7)) # group_data (slice pl (7 * i) (7 * i + 7)) @ mac_sends hs (Suc i) pl"

definition held :: "byte list option list \<Rightarrow> bool list" where
  "held hs = map (\<lambda>h. h \<noteq> None) hs"

definition clean :: "byte list option list \<Rightarrow> bool" where
  "clean hs \<longleftrightarrow> (\<forall>h\<in>set hs. case h of None \<Rightarrow> True | Some junk \<Rightarrow> 0xaa \<notin> set junk)"

abbreviation words :: "byte list \<Rightarrow> u32 list" where
  "words \<equiv> map ucast"

lemma byte_word [simp]: "(ucast (ucast (b::byte) :: u32) :: byte) = b"
  by (rule bit_word_eqI) (simp add: bit_ucast_iff)

lemma recv_bytes_ok:
  assumes "read_fifo s = words bs @ rs" "p + length bs \<le> length (payload s)"
  shows "recv_bytes (length bs) lsb p s = Inr (s\<lparr>read_fifo := rs,
    payload := take p (payload s) @ ungroup lsb bs @ drop (p + length bs) (payload s)\<rparr>)"
  using assms
proof (induction bs arbitrary: s lsb p)
  case (Cons b bs)
  let ?v = "push_bit 1 b OR (lsb AND 1)"
  let ?s = "s\<lparr>read_fifo := words bs @ rs, payload := (payload s)[p := ?v]\<rparr>"
  have "recv_bytes (length (b # bs)) lsb p s = recv_bytes (length bs) (drop_bit 1 lsb) (Suc p) ?s"
    using Cons.prems by (simp add: get_read_def store_def seq_def)
  moreover have "take (Suc p) ((payload s)[p := ?v]) = take p (payload s) @ [?v]"
    using Cons.prems(2) by (simp add: take_update_last)
  ultimately show ?case using Cons.IH [of ?s "Suc p" "drop_bit 1 lsb"] Cons.prems(2) by simp
qed simp

lemma wait_sync_ok: "0xaa \<notin> set junk \<Longrightarrow> read_fifo s = words junk @ words [0xaa] @ rs \<Longrightarrow>
    wait_sync s = Inr (s\<lparr>read_fifo := rs\<rparr>)"
proof -
  assume a: "0xaa \<notin> set junk" "read_fifo s = words junk @ words [0xaa] @ rs"
  have "dropWhile (\<lambda>w. (ucast w :: byte) \<noteq> 0xaa) (words junk @ 0xaa # rs) = 0xaa # rs"
    using a(1) by (induction junk) auto
  with a(2) show ?thesis by (simp add: wait_sync_def)
qed

definition put_group :: "nat \<Rightarrow> byte list \<Rightarrow> byte list \<Rightarrow> byte list" where
  "put_group i data mem = take (7 * i) mem @ slice data (7 * i) (7 * i + 7) @ drop (7 * i + 7) mem"

lemma recv_group_ok:
  assumes "cmd_polls s = (h \<noteq> None) # ps" "cmd_fifo s = holdoffs [h \<noteq> None] @ ws" "clean [h]"
    and "read_fifo s = words (mac_sends [h] i data) @ rs"
    and "7 * i + 7 \<le> length (payload s)" "7 * i + 7 \<le> length data"
  shows "recv_group i s = Inr (s\<lparr>reg_a := (if h \<noteq> None then 1 else reg_a s), cmd_polls := ps, cmd_fifo := ws,
    read_fifo := rs, payload := put_group i data (payload s)\<rparr>)"
proof -
  let ?g = "slice data (7 * i) (7 * i + 7)"
  let ?s = "s\<lparr>reg_a := (if h \<noteq> None then 1 else reg_a s), cmd_polls := ps, cmd_fifo := ws,
    read_fifo := words (group_low ?g # group_data ?g) @ rs\<rparr>"
  have l: "length ?g = 7" using assms(6) by (simp add: length_slice)
  have "if_cmd_ready (block [expect 0, expect 1, wait_sync]) s = Inr ?s"
  proof (cases h)
    case None
    with assms show ?thesis by (simp add: if_cmd_ready_def cmd_ready_def cmd_polled_def holdoffs_def)
  next
    case (Some junk)
    with assms show ?thesis
      by (simp add: if_cmd_ready_def cmd_ready_def cmd_polled_def holdoffs_def expect_seq clean_def
          wait_sync_ok [of junk])
  qed
  moreover have "get_read (\<lambda>lsb. recv_bytes 7 lsb (7 * i)) ?s =
      Inr (?s\<lparr>read_fifo := rs, payload := put_group i data (payload s)\<rparr>)"
    using recv_bytes_ok [of "?s\<lparr>read_fifo := words (group_data ?g) @ rs\<rparr>" "group_data ?g" rs "7 * i" "group_low ?g"]
      assms(5) l ungroup_group [of ?g]
    by (simp add: get_read_def put_group_def)
  ultimately show ?thesis by (simp add: recv_group_def seq_Inr)
qed

lemma put_group_next:
  assumes "7 * (Suc i + n) \<le> length mem" "7 * i + 7 \<le> length data"
  shows "take (7 * Suc i) (put_group i data mem) = take (7 * i) mem @ slice data (7 * i) (7 * i + 7)"
    and "drop (7 * (Suc i + n)) (put_group i data mem) = drop (7 * (Suc i + n)) mem"
  using assms by (simp_all add: put_group_def length_slice algebra_simps)

lemma recv_groups_ok:
  assumes "cmd_polls s = held hs @ ps" "cmd_fifo s = holdoffs (held hs) @ ws" "clean hs"
    and "read_fifo s = words (mac_sends hs i data) @ rs"
    and "7 * (i + length hs) \<le> length (payload s)" "7 * (i + length hs) \<le> length data"
  shows "\<exists>w. for_loop recv_group (length hs) i s = Inr (s\<lparr>reg_a := w, cmd_polls := ps, cmd_fifo := ws, read_fifo := rs,
    payload := take (7 * i) (payload s) @ slice data (7 * i) (7 * (i + length hs)) @ drop (7 * (i + length hs)) (payload s)\<rparr>)"
  using assms
proof (induction hs arbitrary: s i)
  case Nil
  then show ?case by (intro exI [of _ "reg_a s"]) (simp add: held_def holdoffs_def)
next
  case (Cons h hs)
  have h: "held (h # hs) = (h \<noteq> None) # held hs"
    "holdoffs ((h \<noteq> None) # held hs) = holdoffs [h \<noteq> None] @ holdoffs (held hs)" by (simp_all add: held_def holdoffs_def)
  have m: "mac_sends (h # hs) i data = mac_sends [h] i data @ mac_sends hs (Suc i) data" by simp
  let ?s = "s\<lparr>reg_a := (if h \<noteq> None then 1 else reg_a s), cmd_polls := held hs @ ps, cmd_fifo := holdoffs (held hs) @ ws,
    read_fifo := words (mac_sends hs (Suc i) data) @ rs, payload := put_group i data (payload s)\<rparr>"
  have g: "recv_group i s = Inr ?s"
    using Cons.prems by (intro recv_group_ok) (simp_all add: h(1) holdoffs_def m clean_def del: mac_sends.simps)
  have b: "7 * (Suc i + length hs) \<le> length (payload s)" "7 * i + 7 \<le> length data" "7 * (Suc i + length hs) \<le> length data"
    using Cons.prems(5,6) by simp_all
  then have l: "length (put_group i data (payload s)) = length (payload s)" by (simp add: put_group_def length_slice)
  have "clean hs" using Cons.prems(3) by (simp add: clean_def)
  with b l obtain w where "for_loop recv_group (length hs) (Suc i) ?s = Inr (?s\<lparr>reg_a := w, cmd_polls := ps, cmd_fifo := ws,
      read_fifo := rs, payload := take (7 * Suc i) (put_group i data (payload s)) @ slice data (7 * Suc i) (7 * (Suc i + length hs)) @
        drop (7 * (Suc i + length hs)) (put_group i data (payload s))\<rparr>)"
    using Cons.IH [of ?s "Suc i"] by auto
  moreover have "slice data (7 * i) (7 * i + 7) @ slice data (7 * Suc i) (7 * (Suc i + length hs)) =
      slice data (7 * i) (7 * (i + length (h # hs)))"
    using slice_extend [of "7 * i" "7 * Suc i" "7 * (i + length (h # hs))" data] by (simp add: add.commute)
  ultimately show ?case
    using g put_group_next [OF b(1) b(2)] by (intro exI [of _ w]) (simp add: seq_Inr)
qed

section \<open>Too many groups\<close>

text \<open>A group received without a hold-off, whatever its words, moves on by eight words or leaves the payload.\<close>

lemma recv_bytes_any:
  assumes "n \<le> length (read_fifo s)" "p + n \<le> length (payload s)"
  shows "\<exists>mem. recv_bytes n lsb p s = Inr (s\<lparr>read_fifo := drop n (read_fifo s), payload := mem\<rparr>) \<and> length mem = length (payload s)"
  using assms
proof (induction n arbitrary: s p lsb)
  case 0
  then show ?case by (intro exI [of _ "payload s"]) simp
next
  case (Suc n)
  then obtain w ws where w: "read_fifo s = w # ws" by (cases "read_fifo s") auto
  let ?s = "s\<lparr>read_fifo := ws, payload := (payload s)[p := push_bit 1 (ucast w) OR (lsb AND 1)]\<rparr>"
  have "recv_bytes (Suc n) lsb p s = recv_bytes n (drop_bit 1 lsb) (Suc p) ?s"
    using Suc.prems w by (simp add: get_read_def store_def seq_def)
  with Suc.IH [of ?s "Suc p" "drop_bit 1 lsb"] Suc.prems w show ?case by auto
qed

lemma recv_bytes_over:
  assumes "length (payload s) \<le> p" "read_fifo s \<noteq> []" "0 < n"
  shows "recv_bytes n lsb p s = Inl Overflow"
  using assms by (cases n) (simp_all add: get_read_def store_def seq_def split: list.split)

lemma no_holdoff: "cmd_polls s = [] \<Longrightarrow> if_cmd_ready q s = Inr s"
  by (simp add: if_cmd_ready_def cmd_ready_def cmd_polled_def)

lemma recv_group_any:
  assumes "cmd_polls s = []" "8 \<le> length (read_fifo s)" "7 * i + 7 \<le> length (payload s)"
  shows "\<exists>mem. recv_group i s = Inr (s\<lparr>read_fifo := drop 8 (read_fifo s), payload := mem\<rparr>) \<and> length mem = length (payload s)"
proof -
  obtain w ws where w: "read_fifo s = w # ws" using assms(2) by (cases "read_fifo s") auto
  have "if_cmd_ready q s = Inr s" for q using assms(1) by (rule no_holdoff)
  moreover obtain mem where "recv_bytes 7 (ucast w) (7 * i) (s\<lparr>read_fifo := ws\<rparr>) =
      Inr (s\<lparr>read_fifo := drop 7 ws, payload := mem\<rparr>)" "length mem = length (payload s)"
    using recv_bytes_any [of 7 "s\<lparr>read_fifo := ws\<rparr>" "7 * i" "ucast w"] assms(2,3) w by auto
  ultimately show ?thesis using w by (intro exI [of _ mem]) (simp add: recv_group_def seq_Inr get_read_def)
qed

lemma recv_groups_over:
  assumes "cmd_polls s = []" "8 * n \<le> length (read_fifo s)" "length (payload s) < 7 * (i + n)" "7 dvd length (payload s)"
    and "7 * i \<le> length (payload s)"
  shows "for_loop recv_group n i s = Inl Overflow"
  using assms
proof (induction n arbitrary: i s)
  case (Suc n)
  show ?case
  proof (cases "7 * i + 7 \<le> length (payload s)")
    case True
    then obtain mem where m: "recv_group i s = Inr (s\<lparr>read_fifo := drop 8 (read_fifo s), payload := mem\<rparr>)" "length mem = length (payload s)"
      using recv_group_any [of s i] Suc.prems(1,2) by auto
    have "for_loop recv_group n (Suc i) (s\<lparr>read_fifo := drop 8 (read_fifo s), payload := mem\<rparr>) = Inl Overflow"
      using Suc.prems True m(2) by (intro Suc.IH) simp_all
    with m(1) show ?thesis by (simp add: seq_Inr)
  next
    case False
    obtain k where k: "length (payload s) = 7 * k" using Suc.prems(4) by (rule dvdE)
    with False Suc.prems(5) have "length (payload s) = 7 * i" by simp
    moreover obtain w ws where "read_fifo s = w # ws" "ws \<noteq> []"
      using Suc.prems(2) by (cases "read_fifo s"; cases "tl (read_fifo s)") auto
    ultimately have "recv_group i s = Inl Overflow"
      using Suc.prems(1) recv_bytes_over [of "s\<lparr>read_fifo := ws\<rparr>" "7 * i" 7 "ucast w"]
      by (simp add: recv_group_def no_holdoff seq_Inr get_read_def)
    then show ?thesis by (simp add: seq_Inl)
  qed
qed simp

section \<open>Requests on the serial line\<close>

definition sector_bytes :: "u32 \<Rightarrow> byte list" where
  "sector_bytes n = [ucast (drop_bit 16 n AND 0xff), ucast (drop_bit 8 n AND 0xff), ucast (n AND 0xff)]"

lemma uart_putc_fields [simp]:
  "uart_sent (uart_putc b s) = uart_sent s @ [b]" "esp (uart_putc b s) = esp s"
  "payload (uart_putc b s) = payload s" "wr_sector (uart_putc b s) = wr_sector s"
  "uart_now (uart_putc b s) = uart_now s @ esp s (uart_sent s @ [b])"
  "cmd_fifo (uart_putc b s) = cmd_fifo s" "cmd_polls (uart_putc b s) = cmd_polls s"
  by (simp_all add: uart_putc_def Let_def)

lemma fold_uart_putc:
  "uart_sent (fold uart_putc bs s) = uart_sent s @ bs \<and> wr_sector (fold uart_putc bs s) = wr_sector s"
  by (induction bs arbitrary: s) simp_all

lemma put_sector_sent: "uart_sent (put_sector cmd n s) = uart_sent s @ cmd # sector_bytes n"
  by (simp add: put_sector_def Let_def sector_bytes_def)

lemma put_sector_fields [simp]:
  "payload (put_sector cmd n s) = payload s" "esp (put_sector cmd n s) = esp s" "wr_sector (put_sector cmd n s) = wr_sector s"
  "cmd_fifo (put_sector cmd n s) = cmd_fifo s" "cmd_polls (put_sector cmd n s) = cmd_polls s"
  by (simp_all add: put_sector_def Let_def)

text \<open>The sector a write goes to, and what the firmware remembers for the next command.\<close>

definition write_target :: "bool \<Rightarrow> pico \<Rightarrow> u32" where
  "write_target cont s = (if cont then wr_sector s + 1 else sector_arg s)"

definition serial :: "pico \<Rightarrow> byte list \<times> u32" where
  "serial s = (uart_sent s, wr_sector s)"

lemma keeps_serial_packet: "keeps serial (send_packet ntx)"
  using keeps_send_packet [of ntx] by (auto simp: keeps_def host_side_def serial_def)

lemma keeps_serial:
  "keeps serial (store p v)" "keeps serial (compute_checksum n)" "keeps serial uart_getc" "keeps serial (upd clear_payload)"
  by (auto simp: keeps_def store_def compute_checksum_def uart_getc_def upd_def clear_payload_def serial_def split: if_splits list.splits)

lemma seq_InrE: "seq p q s = Inr s' \<Longrightarrow> \<exists>u. p s = Inr u \<and> q u = Inr s'"
  by (auto simp: seq_def split: sum.splits)

lemma write_done:
  assumes "dcd_write ntx cont verf s = Inr s'"
  shows "26 + 512 \<le> length (payload s)"
    and "uart_sent s' = uart_sent s @ 87 # sector_bytes (write_target cont s) @ slice (payload s) 26 538"
    and "wr_sector s' = write_target cont s + 1"
proof -
  define n where "n = write_target cont s"
  define t where "t = (put_sector 87 n (uart_drain (s\<lparr>wr_sector := n\<rparr>)))\<lparr>wr_sector := n + 1\<rparr>"
  define q where "q = block [uart_getc, upd clear_payload, store 0 (if \<not> verf then 0x81 else 0x82), store 1 (payload s ! 1),
      compute_checksum 6, send_packet ntx]"
  have "dcd_write ntx cont verf s = seq (uart_write 26 512) q t"
    by (simp add: dcd_write_def write_sector_def Let_def t_def n_def write_target_def q_def uart_drain_def sector_arg_def)
  with assms obtain u where u: "uart_write 26 512 t = Inr u" "q u = Inr s'" using seq_InrE by metis
  have pl: "payload t = payload s" by (simp add: t_def uart_drain_def)
  with u(1) show l: "26 + 512 \<le> length (payload s)" by (auto simp: uart_write_def split: if_splits)
  have "u = fold uart_putc (slice (payload s) 26 538) t" using u(1) pl by (auto simp: uart_write_def split: if_splits)
  then have "serial u = (uart_sent t @ slice (payload s) 26 538, wr_sector t)" by (simp add: serial_def fold_uart_putc)
  moreover have "keeps serial q" unfolding q_def
    by (rule keeps_block) (auto intro: keeps_serial keeps_serial_packet)
  then have "serial s' = serial u" using u(2) keepsD by fast
  ultimately show "uart_sent s' = uart_sent s @ 87 # sector_bytes (write_target cont s) @ slice (payload s) 26 538"
    and "wr_sector s' = write_target cont s + 1"
    by (simp_all add: serial_def t_def put_sector_sent uart_drain_def n_def)
qed

section \<open>Reading\<close>

text \<open>
  The ESP32 as a server of sectors: it answers the fourth byte of every request with \<open>d\<close> of the request.
\<close>

definition disk_esp :: "(byte list \<Rightarrow> byte list) \<Rightarrow> byte list \<Rightarrow> byte list" where
  "disk_esp d h = (if length h mod 4 = 0 then d (drop (length h - 4) h) else [])"

definition read_request :: "u32 \<Rightarrow> byte list" where
  "read_request n = 82 # sector_bytes n"

definition read_reply :: "byte \<Rightarrow> nat \<Rightarrow> byte list \<Rightarrow> byte list" where
  "read_reply num i data =
     (let body = 0x80 # (num - of_nat i) # replicate 24 0 @ data in body @ [checksum body])"

definition packet :: "byte \<Rightarrow> byte list \<Rightarrow> byte list" where
  "packet ntx pl = 0xaa # packet_groups (replicate (unat ntx) False) 0 pl @ [0]"

lemma put_sector_eq:
  assumes "esp s = disk_esp d" "uart_now s = []" "4 dvd length (uart_sent s)"
  shows "\<exists>es. put_sector 82 n s = s\<lparr>uart_sent := uart_sent s @ read_request n, uart_now := d (read_request n),
    outs := outs s @ es\<rparr> \<and> wire es = []"
proof -
  obtain k where k: "length (uart_sent s) = 4 * k" using assms(3) by (rule dvdE)
  have "Suc (4 * k) mod 4 = 1" "Suc (Suc (4 * k)) mod 4 = 2" "Suc (Suc (Suc (4 * k))) mod 4 = 3" "Suc (Suc (Suc (Suc (4 * k)))) mod 4 = 0"
    by presburger+
  with assms k show ?thesis
    by (intro exI [of _ "map OutUart (read_request n)"])
      (simp add: put_sector_def Let_def uart_putc_def out_def disk_esp_def read_request_def sector_bytes_def, simp add: wire_def)
qed

lemma reply_payload:
  assumes "length data = 512"
  shows "let mem = (take 26 ((replicate 539 0)[0 := 0x80, 1 := v]) @ data @ drop 538 ((replicate 539 0)[0 := 0x80, 1 := v])) in
    mem[538 := checksum (take 538 mem)] = 0x80 # v # replicate 24 0 @ data @ [checksum (0x80 # v # replicate 24 0 @ data)]"
proof -
  have "(replicate 539 (0::byte))[0 := 0x80, 1 := v] = 0x80 # v # replicate 24 0 @ replicate 512 0 @ [0]"
    by (simp add: eval_nat_numeral)
  then show ?thesis using assms by (simp add: Let_def list_update_append)
qed

lemma read_sector_ok:
  assumes "esp s = disk_esp d" "uart_now s = []" "4 dvd length (uart_sent s)" "length (d (read_request (sec + of_nat i))) = 512"
    and "cmd_polls s = replicate (unat ntx) False @ qs" "cmd_fifo s = [3, 1, 3, 2] @ ws" "unat ntx \<le> 77"
  shows "\<exists>s' es. read_sector ntx num sec i s = Inr s' \<and> esp s' = esp s \<and> uart_now s' = [] \<and>
    uart_sent s' = uart_sent s @ read_request (sec + of_nat i) \<and> cmd_polls s' = qs \<and> cmd_fifo s' = ws \<and>
    outs s' = outs s @ es \<and> wire es = packet ntx (read_reply num i (d (read_request (sec + of_nat i))))"
proof -
  let ?r = "read_request (sec + of_nat i)"
  let ?pl = "read_reply num i (d ?r)"
  obtain es where es: "put_sector 82 (sec + of_nat i) s = s\<lparr>uart_sent := uart_sent s @ ?r, uart_now := d ?r, outs := outs s @ es\<rparr>"
    "wire es = []" using put_sector_eq [OF assms(1-3)] by blast
  define t where "t = s\<lparr>uart_sent := uart_sent s @ ?r, outs := outs s @ es, uart_now := [], payload := ?pl\<rparr>"
  have "read_sector ntx num sec i s = send_packet ntx t"
    using reply_payload [OF assms(4), of "num - of_nat i"] assms(4)
    by (simp add: read_sector_def es clear_payload_def store_def seq_def uart_read_def compute_checksum_def t_def
        read_reply_def Let_def upd_def)
  moreover have "holdoffs (replicate k False) = []" for k by (induction k) (simp_all add: holdoffs_def)
  then obtain es' where "send_packet ntx t = Inr (after_packet (replicate (unat ntx) False) t ws es')"
    "wire es' = 0xaa # packet_groups (replicate (unat ntx) False) 0 ?pl @ [0]"
    using send_packet_ok [of ntx "replicate (unat ntx) False" t qs ws] assms(4-7)
    by (auto simp: t_def read_reply_def Let_def)
  ultimately show ?thesis
    using es(2) assms(5) by (intro exI [of _ "after_packet (replicate (unat ntx) False) t ws es'"] exI [of _ "es @ es'"])
      (simp add: after_packet_def t_def packet_def)
qed

lemma read_loop_ok:
  assumes "esp s = disk_esp d" "uart_now s = []" "4 dvd length (uart_sent s)" "\<And>r. length (d r) = 512"
    and "cmd_polls s = replicate (n * unat ntx) False @ qs" "cmd_fifo s = concat (replicate n [3, 1, 3, 2]) @ ws" "unat ntx \<le> 77"
  shows "\<exists>s' es. for_loop (read_sector ntx num sec) n i s = Inr s' \<and>
    uart_sent s' = uart_sent s @ concat (map (\<lambda>k. read_request (sec + of_nat k)) [i..<i + n]) \<and>
    outs s' = outs s @ es \<and>
    wire es = concat (map (\<lambda>k. packet ntx (read_reply num k (d (read_request (sec + of_nat k))))) [i..<i + n])"
  using assms
proof (induction n arbitrary: s i)
  case (Suc n)
  have p: "cmd_polls s = replicate (unat ntx) False @ replicate (n * unat ntx) False @ qs"
    using Suc.prems(5) by (simp add: replicate_add)
  have c: "cmd_fifo s = [3, 1, 3, 2] @ concat (replicate n [3, 1, 3, 2]) @ ws" using Suc.prems(6) by simp
  obtain u es where u: "read_sector ntx num sec i s = Inr u" "esp u = esp s" "uart_now u = []"
    "uart_sent u = uart_sent s @ read_request (sec + of_nat i)" "cmd_polls u = replicate (n * unat ntx) False @ qs"
    "cmd_fifo u = concat (replicate n [3, 1, 3, 2]) @ ws" "outs u = outs s @ es"
    "wire es = packet ntx (read_reply num i (d (read_request (sec + of_nat i))))"
    using read_sector_ok [OF Suc.prems(1-4) p c Suc.prems(7)] by blast
  have "4 dvd length (uart_sent u)" using u(4) Suc.prems(3) by (simp add: read_request_def sector_bytes_def) presburger
  from Suc.IH [of u "Suc i", OF _ u(3) this Suc.prems(4) u(5,6) Suc.prems(7)] u(2) Suc.prems(1)
  obtain s' es' where s': "for_loop (read_sector ntx num sec) n (Suc i) u = Inr s'"
    "uart_sent s' = uart_sent u @ concat (map (\<lambda>k. read_request (sec + of_nat k)) [Suc i..<Suc i + n])"
    "outs s' = outs u @ es'"
    "wire es' = concat (map (\<lambda>k. packet ntx (read_reply num k (d (read_request (sec + of_nat k))))) [Suc i..<Suc i + n])"
    by auto
  have "[i..<i + Suc n] = i # [Suc i..<Suc i + n]" by (simp add: upt_conv_Cons)
  with u s' show ?case by (intro exI [of _ s'] exI [of _ "es @ es'"]) (simp add: seq_Inr del: upt_Suc)
qed (auto intro!: exI [of _ "[]"])

lemma fold_uart_putc_frame:
  "cmd_fifo (fold uart_putc bs s) = cmd_fifo s \<and> cmd_polls (fold uart_putc bs s) = cmd_polls s \<and>
   esp (fold uart_putc bs s) = esp s \<and> (uart_now s \<noteq> [] \<longrightarrow> uart_now (fold uart_putc bs s) \<noteq> [])"
  by (induction bs arbitrary: s) simp_all

text \<open>A write runs to its end when the ESP32 answers and the Macintosh shakes hands.\<close>

lemma write_completes:
  assumes "length (payload s) = 539" "\<And>h. esp s h \<noteq> []" "cmd_polls s = [False] @ qs" "cmd_fifo s = [3, 1, 3, 2] @ ws"
  shows "\<exists>s'. dcd_write 1 cont verf s = Inr s'"
proof -
  define n where "n = write_target cont s"
  define t where "t = (put_sector 87 n (uart_drain (s\<lparr>wr_sector := n\<rparr>)))\<lparr>wr_sector := n + 1\<rparr>"
  define u where "u = fold uart_putc (slice (payload s) 26 538) t"
  have t: "payload t = payload s" "esp t = esp s" "cmd_polls t = cmd_polls s" "cmd_fifo t = cmd_fifo s" "uart_now t \<noteq> []"
    using assms(2) by (simp_all add: t_def put_sector_def Let_def uart_drain_def)
  have w: "uart_write 26 512 t = Inr u" using t(1) assms(1) by (simp add: uart_write_def u_def)
  have "uart_now u \<noteq> []" "cmd_polls u = [False] @ qs" "cmd_fifo u = [3, 1, 3, 2] @ ws"
    using fold_uart_putc_frame [of "slice (payload s) 26 538" t] t assms(3,4) by (simp_all add: u_def)
  then obtain c cs where c: "uart_now u = c # cs" by (cases "uart_now u") auto
  define pl where "pl = (replicate 539 0)[0 := if \<not> verf then 0x81 else 0x82, 1 := payload s ! 1]"
  define v where "v = u\<lparr>chr_c := c, uart_now := cs, payload := pl[6 := checksum (take 6 pl)]\<rparr>"
  have "dcd_write 1 cont verf s = seq (uart_write 26 512) (block [uart_getc, upd clear_payload,
      store 0 (if \<not> verf then 0x81 else 0x82), store 1 (payload s ! 1), compute_checksum 6, send_packet 1]) t"
    by (simp add: dcd_write_def write_sector_def Let_def t_def n_def write_target_def uart_drain_def sector_arg_def)
  also have "\<dots> = send_packet 1 v"
    by (simp add: w seq_Inr uart_getc_def c upd_def clear_payload_def store_def compute_checksum_def v_def pl_def)
  finally show ?thesis
    using send_packet_ok [of 1 "[False]" v qs ws] \<open>cmd_polls u = [False] @ qs\<close> \<open>cmd_fifo u = [3, 1, 3, 2] @ ws\<close>
    by (auto simp: v_def pl_def holdoffs_def)
qed

section \<open>Properties\<close>

text \<open>
  The checksum byte makes every response sum to zero modulo 256.
\<close>

theorem checksum_balances:
  assumes "compute_checksum n s = Inr s'"
  shows "sum_list (take (Suc n) (payload s')) = 0 \<and> take n (payload s') = take n (payload s)"
  using assms checksum_zero [of "take n (payload s)"]
  by (auto simp: compute_checksum_def store_def take_update_last split: if_splits)

definition pico_example :: pico where
  "pico_example =
     \<lparr>latch = 0, dcd_latch = 0, reg_a = 0, reg_olda = 0, chr_c = 0, active_disk_number = 0, num_dcd_drives = 1,
      disk_mode = DCD, host = False, step_state = False, cmd_sync = 0, cmd_num_rx = 0, cmd_num_tx = 0,
      payload = replicate 539 0, wr_sector = 0, fpy_fifo = [], cmd_fifo = [], cmd_polls = [], read_fifo = [],
      mux_fifo = [], uart_now = [], uart_sent = [], esp = (\<lambda>h. []), enable_pin = False, outs = []\<rparr>"

theorem checksum_balances_witness:
  "\<exists>s'. compute_checksum 6 (pico_example\<lparr>payload := [0x83, 1, 2, 3, 4, 5, 0]\<rparr>) = Inr s' \<and>
     sum_list (take 7 (payload s')) = 0 \<and> payload s' ! 6 = 0x6e"
proof -
  let ?s = "pico_example\<lparr>payload := [0x83, 1, 2, 3, 4, 5, 0]\<rparr>"
  have "compute_checksum 6 ?s = Inr (?s\<lparr>payload := [0x83, 1, 2, 3, 4, 5, 0x6e]\<rparr>)"
    by (simp add: compute_checksum_def store_def checksum_def)
  with checksum_balances [OF this] show ?thesis by simp
qed

text \<open>
  Property (C7). Sending: with \<open>ntx\<close> groups, at most 77, and hold-offs of the Macintosh before any of them,
  \<open>send_packet\<close> completes, and what the Macintosh decodes from the wire is exactly the first \<open>7 * ntx\<close>
  bytes of the payload.
\<close>

theorem packet_sent:
  assumes "unat ntx = length ps" "cmd_polls s = ps @ qs" "cmd_fifo s = [3, 1] @ holdoffs ps @ [3, 2] @ ws"
    and "length ps \<le> 77" "length (payload s) = PAYLOAD_SIZE"
  shows "\<exists>es w. send_packet ntx s = Inr (after_packet ps s ws es) \<and> wire es = 0xaa # w @ [0] \<and>
    unpack ps w = take (7 * unat ntx) (payload s)"
proof -
  have l: "7 * length ps \<le> length (payload s)" using assms(4,5) by simp
  then have "unpack ps (packet_groups ps 0 (payload s)) = take (7 * unat ntx) (payload s)"
    using unpack_packet [of 0 ps "payload s"] assms(1) by (simp add: slice_def)
  with send_packet_ok [OF assms(1-3) l] show ?thesis by blast
qed

theorem packet_sent_witness:
  "\<exists>es w. send_packet 1 (pico_example\<lparr>cmd_polls := [True], cmd_fifo := [3, 1, 0, 1, 3, 2]\<rparr>) =
       Inr (after_packet [True] (pico_example\<lparr>cmd_polls := [True], cmd_fifo := [3, 1, 0, 1, 3, 2]\<rparr>) [] es) \<and>
     wire es = 0xaa # w @ [0] \<and> unpack [True] w = replicate 7 0"
  using packet_sent [of 1 "[True]" "pico_example\<lparr>cmd_polls := [True], cmd_fifo := [3, 1, 0, 1, 3, 2]\<rparr>" "[]" "[]"]
  by (simp add: holdoffs_def pico_example_def)

text \<open>
  Property (C22). Receiving: a command packet of \<open>nrx\<close> groups, at most 77, sent by the Macintosh with hold-offs
  before any of them, is decoded into the payload byte for byte, and the bytes after it are kept.
\<close>

theorem packet_received:
  assumes "cmd_polls s = held hs @ ps" "cmd_fifo s = holdoffs (held hs) @ ws" "clean hs"
    and "read_fifo s = words (mac_sends hs 0 data) @ rs"
    and "length hs \<le> 77" "length (payload s) = PAYLOAD_SIZE" "length data = 7 * length hs"
  shows "\<exists>w. for_loop recv_group (length hs) 0 s = Inr (s\<lparr>reg_a := w, cmd_polls := ps, cmd_fifo := ws, read_fifo := rs,
    payload := data @ drop (length data) (payload s)\<rparr>)"
  using recv_groups_ok [OF assms(1-4)] assms(5-7) by (simp add: slice_def)

theorem packet_received_witness:
  "\<exists>w. for_loop recv_group 1 0 (pico_example\<lparr>cmd_polls := [True], cmd_fifo := [0, 1],
       read_fifo := words (mac_sends [Some [7]] 0 [3, 0, 0, 0, 0, 0, 0xfd])\<rparr>) =
     Inr (pico_example\<lparr>reg_a := w, cmd_polls := [], cmd_fifo := [], read_fifo := [],
       payload := [3, 0, 0, 0, 0, 0, 0xfd] @ replicate 532 0\<rparr>)"
proof -
  let ?s = "pico_example\<lparr>cmd_polls := [True], cmd_fifo := [0, 1],
    read_fifo := words (mac_sends [Some [7]] 0 [3, 0, 0, 0, 0, 0, 0xfd])\<rparr>"
  have "cmd_polls ?s = held [Some [7]] @ []" "cmd_fifo ?s = holdoffs (held [Some [7]]) @ []" "clean [Some [7]]"
    "read_fifo ?s = words (mac_sends [Some [7]] 0 [3, 0, 0, 0, 0, 0, 0xfd]) @ []" "length [Some [7::byte]] \<le> 77"
    "length (payload ?s) = 539" "length [3, 0, 0, 0, 0, 0, 0xfd::byte] = 7 * length [Some [7::byte]]"
    by (simp_all add: held_def holdoffs_def clean_def pico_example_def)
  from packet_received [OF this] show ?thesis by (auto simp: pico_example_def)
qed

text \<open>
  The payload has room for 77 groups, and \<open>dcd_process\<close> does not check the count: a command that
  announces 78 to 127 groups and sends them is written past the end of \<open>payload\<close>.
\<close>

theorem command_overflow:
  assumes "77 < unat nrx" "8 * unat nrx \<le> length (read_fifo s)" "cmd_polls s = []" "length (payload s) = PAYLOAD_SIZE"
  shows "dcd_process nrx ntx s = Inl Overflow"
proof -
  have "for_loop recv_group (unat nrx) 0 s = Inl Overflow"
    using assms by (intro recv_groups_over) simp_all
  then show ?thesis by (simp add: dcd_process_def seq_Inl)
qed

theorem command_overflow_witness: "dcd_process 78 1 (pico_example\<lparr>read_fifo := replicate 624 0x80\<rparr>) = Inl Overflow"
  using command_overflow [of 78 "pico_example\<lparr>read_fifo := replicate 624 0x80\<rparr>" 1] by (simp add: pico_example_def)

text \<open>
  A read of \<open>num\<close> sectors asks the ESP32 for the sectors one after the other and answers each with
  one packet: command byte, count of the sectors left, 24 zero bytes, the data of that sector, and the
  checksum.
\<close>

theorem read_sectors:
  assumes "esp s = disk_esp d" "4 dvd length (uart_sent s)" "\<And>r. length (d r) = 512"
    and "num = payload s ! 1" "unat ntx \<le> 77"
    and "cmd_polls s = replicate (unat num * unat ntx) False @ qs"
    and "cmd_fifo s = concat (replicate (unat num) [3, 1, 3, 2]) @ ws"
  shows "\<exists>s' es. dcd_read ntx s = Inr s' \<and>
    uart_sent s' = uart_sent s @ concat (map (\<lambda>k. read_request (sector_arg s + of_nat k)) [0..<unat num]) \<and>
    outs s' = outs s @ es \<and>
    wire es = concat (map (\<lambda>k. packet ntx (read_reply num k (d (read_request (sector_arg s + of_nat k))))) [0..<unat num])"
  using read_loop_ok [of "uart_drain s" d "unat num" ntx qs ws num "sector_arg s" 0] assms
  by (simp add: dcd_read_def uart_drain_def Let_def)

theorem read_sectors_witness:
  "\<exists>s'. dcd_read 1 (pico_example\<lparr>payload := [0, 2, 0, 1, 0xff, 0, 0] @ replicate 532 0, esp := disk_esp (\<lambda>r. replicate 512 7),
       cmd_polls := [False, False], cmd_fifo := [3, 1, 3, 2, 3, 1, 3, 2]\<rparr>) = Inr s' \<and>
     uart_sent s' = [82, 0, 1, 0xff, 82, 0, 2, 0]"
proof -
  let ?s = "pico_example\<lparr>payload := [0, 2, 0, 1, 0xff, 0, 0] @ replicate 532 0, esp := disk_esp (\<lambda>r. replicate 512 7),
    cmd_polls := [False, False], cmd_fifo := [3, 1, 3, 2, 3, 1, 3, 2]\<rparr>"
  have n: "[0..<unat (2::byte)] = [0, 1]" "concat (replicate (unat (2::byte)) [3, 1, 3, 2]) = [3, 1, 3, 2, 3, 1, 3, 2::u32]"
    "replicate (unat (2::byte) * unat (1::byte)) False = [False, False]"
    by code_simp+
  have "sector_arg ?s = 0x1ff" by (simp add: sector_arg_def)
  moreover have "read_request 0x1ff = [82, 0, 1, 0xff]" "read_request 0x200 = [82, 0, 2, 0]" by code_simp+
  ultimately show ?thesis
    using read_sectors [of ?s "\<lambda>r. replicate 512 7" 2 1 "[]" "[]"] n by (auto simp: pico_example_def)
qed

text \<open>
  A write with a sector address stores the 512 data bytes at that sector.
\<close>

theorem write_first:
  assumes "dcd_write ntx False verf s = Inr s'"
  shows "uart_sent s' = uart_sent s @ 87 # sector_bytes (sector_arg s) @ slice (payload s) 26 538"
  using write_done(2) [OF assms] by (simp add: write_target_def)

definition write_example :: "byte list \<Rightarrow> pico" where
  "write_example cmd = pico_example\<lparr>payload := cmd @ replicate (539 - length cmd) 0, esp := (\<lambda>h. [119]),
     cmd_polls := [False], cmd_fifo := [3, 1, 3, 2]\<rparr>"

lemma write_example_completes: "length cmd \<le> 539 \<Longrightarrow> \<exists>s'. dcd_write 1 cont verf (write_example cmd) = Inr s'"
  by (rule write_completes [of _ "[]" "[]"]) (simp_all add: write_example_def)

theorem write_first_witness:
  "\<exists>s'. dcd_write 1 False False (write_example [1, 1, 0, 2, 5]) = Inr s' \<and>
     uart_sent s' = [87, 0, 2, 5] @ replicate 512 0"
proof -
  obtain s' where s': "dcd_write 1 False False (write_example [1, 1, 0, 2, 5]) = Inr s'"
    using write_example_completes [of "[1, 1, 0, 2, 5]" False False] by auto
  have "sector_bytes (sector_arg (write_example [1, 1, 0, 2, 5])) = [0, 2, 5]" by code_simp
  with write_first [OF s'] s' show ?thesis
    by (simp add: write_example_def pico_example_def slice_def)
qed

text \<open>
  A continued write skips a sector: the sector counter is incremented after every write and again
  at the start of a continuation, so that after a write to sector \<open>n\<close> the next block of the same command
  goes to \<open>n + 2\<close>, and sector \<open>n + 1\<close> is never written.
\<close>

theorem continued_write_skips:
  assumes "dcd_write ntx False verf s = Inr s1" "wr_sector s2 = wr_sector s1" "dcd_write ntx True verf s2 = Inr s3"
  shows "uart_sent s3 = uart_sent s2 @ 87 # sector_bytes (sector_arg s + 2) @ slice (payload s2) 26 538"
proof -
  have "write_target True s2 = sector_arg s + 2"
    using write_done(3) [OF assms(1)] assms(2) by (simp add: write_target_def)
  with write_done(2) [OF assms(3)] show ?thesis by simp
qed

theorem continued_write_skips_witness:
  "\<exists>s1 s3. dcd_write 1 False False (write_example [1, 2, 0, 2, 5]) = Inr s1 \<and>
     dcd_write 1 True False ((write_example [0x41, 1])\<lparr>wr_sector := wr_sector s1\<rparr>) = Inr s3 \<and>
     uart_sent s3 = [87, 0, 2, 7] @ replicate 512 0"
proof -
  obtain s1 where s1: "dcd_write 1 False False (write_example [1, 2, 0, 2, 5]) = Inr s1"
    using write_example_completes [of "[1, 2, 0, 2, 5]" False False] by auto
  let ?s2 = "(write_example [0x41, 1])\<lparr>wr_sector := wr_sector s1\<rparr>"
  obtain s3 where s3: "dcd_write 1 True False ?s2 = Inr s3"
    using write_completes [of ?s2 "[]" "[]" True False] by (auto simp: write_example_def)
  have "sector_bytes (sector_arg (write_example [1, 2, 0, 2, 5]) + 2) = [0, 2, 7]" by code_simp
  with continued_write_skips [OF s1 _ s3] s1 s3 show ?thesis
    by (simp add: write_example_def pico_example_def slice_def)
qed

definition id_payload :: "byte list" where
  "id_payload =
     (let pl = (replicate 539 0)[0 := 0x84, 20 := 0x02, 21 := 0x10, 22 := 0x33, 23 := 0x72, 25 := 0x98,
        26 := 0x35, 27 := 0x02, 28 := 0x14, 29 := 0x01, 30 := 0x31, 31 := 0x04, 32 := 0x20]
      in pl[48 := checksum (take 48 pl)])"

lemma dcd_id_packet: "dcd_id ntx s = send_packet ntx (s\<lparr>payload := id_payload\<rparr>)"
  by (simp add: dcd_id_def upd_def clear_payload_def store_def compute_checksum_def id_payload_def Let_def seq_def)

lemma id_payload_fields:
  "slice id_payload 6 19 = replicate 13 0" "id_payload ! 0 = 0x84"
  "slice id_payload 24 33 = [0, 0x98, 0x35, 0x02, 0x14, 0x01, 0x31, 0x04, 0x20]"
  by (simp_all add: id_payload_def Let_def slice_def list_eq_iff_nth_eq nth_list_update less_Suc_eq eval_nat_numeral)

text \<open>
  The identification packet has no name: the arguments of \<open>strcpy\<close> are swapped, so the thirteen
  bytes of the name field that should begin with FujiNet DCD are all zero, while the capacity and
  geometry fields are as documented.
\<close>

theorem id_name_missing:
  assumes "dcd_id ntx s = Inr s'"
  shows "slice (payload s') 6 19 = replicate 13 0 \<and> payload s' ! 0 = 0x84 \<and>
    slice (payload s') 24 33 = [0, 0x98, 0x35, 0x02, 0x14, 0x01, 0x31, 0x04, 0x20]"
proof -
  have "payload s' = id_payload"
    using assms keepsD [OF keeps_send_packet] by (auto simp: dcd_id_packet host_side_def)
  then show ?thesis by (simp only: id_payload_fields simp_thms)
qed

theorem id_name_missing_witness:
  "\<exists>s'. dcd_id 1 (write_example [4]) = Inr s' \<and> slice (payload s') 6 19 = replicate 13 0"
proof -
  obtain s' where "dcd_id 1 (write_example [4]) = Inr s'"
    using send_packet_ok [of 1 "[False]" "(write_example [4])\<lparr>payload := id_payload\<rparr>" "[]" "[]"]
    by (auto simp: dcd_id_packet write_example_def holdoffs_def) (auto simp: id_payload_def Let_def)
  with id_name_missing [OF this] show ?thesis by blast
qed

end
