(* ===== verification/Pico_Loop.thy ===== *)
theory Pico_Loop
  imports Pico_Commands
begin

text \<open>
  The main loop of the firmware: the switch between floppy and hard-disk emulation, the floppy
  phases, the messages of the ESP32, and the hard-disk bus states that lead to \<open>dcd_process\<close>.
\<close>

section \<open>Starting state machines\<close>

text \<open>
  The wrappers \<open>pio_commands\<close>, \<open>pio_echo\<close>, \<open>pio_latch\<close>, \<open>pio_mux\<close>, \<open>pio_dcd_commands\<close> and \<open>pio_dcd_mux\<close>
  initialise a state machine and enable it; \<open>pio_dcd_read\<close> and \<open>pio_dcd_write\<close> initialise only.
\<close>

definition pio_start :: "state_machine \<Rightarrow> pico \<Rightarrow> pico" where
  "pio_start sm s = sm_set_enabled sm True (out (OutInit sm) s)"

definition set_num_dcd :: "pico \<Rightarrow> pico" where
  "set_num_dcd s =
     (let s = sm_set_enabled SM_MUX False s; s = out (OutMuxDrives (num_dcd_drives s)) s in pio_start SM_MUX s)"

text \<open>\<open>OutMuxProgram dcd\<close> stands for removing one multiplexer program and loading the other at its offset.\<close>

definition switch_to_floppy :: "pico \<Rightarrow> pico" where
  "switch_to_floppy s =
     (let s = put_latch (get_latch s) s;
          s = sm_set_enabled SM_DCD_CMD False s;
          s = pio_start SM_FPY_CMD s;
          s = out (OutMuxProgram False) s
      in pio_start SM_MUX s)"

definition switch_to_dcd :: "pico \<Rightarrow> pico" where
  "switch_to_dcd s =
     (let s = put_latch (dcd_get_latch s) s;
          s = sm_set_enabled SM_FPY_CMD False s;
          s = pio_start SM_DCD_CMD s;
          s = out (OutMuxProgram True) s;
          s = pio_start SM_MUX s
      in set_num_dcd s)"

definition pico_setup :: "pico \<Rightarrow> pico" where
  "pico_setup s =
     (let s = set_tach_freq 0 s; s = preset_latch s; s = dcd_preset_latch s;
          s = pio_start SM_DCD_CMD s;
          s = out (OutInit SM_DCD_READ) s;
          s = pio_start SM_LATCH s;
          s = put_latch (dcd_get_latch s) s;
          s = pio_start SM_FPY_ECHO s;
          s = out (OutInit SM_DCD_WRITE) s;
          s = out (OutMuxProgram True) s
      in pio_start SM_MUX s)"

section \<open>Messages of the ESP32\<close>

definition esp_loop :: prog where
  "esp_loop s =
     (case uart_now s of [] \<Rightarrow> Inr s | _ \<Rightarrow>
        block [uart_getc,
               cond (\<lambda>s. chr_c s = 104)
                 (block [uart_getc,
                         upd (\<lambda>s. s\<lparr>num_dcd_drives := ucast (chr_c s)\<rparr>),
                         cond (\<lambda>s. disk_mode s = DCD) (upd set_num_dcd) skip,
                         upd (\<lambda>s. s\<lparr>chr_c := 0\<rparr>)])
                 skip] s)"

section \<open>The floppy\<close>

definition phase_command :: "u32 \<Rightarrow> pico \<Rightarrow> pico" where
  "phase_command a s =
     (if a = 0 then clr_latch DIRTN s
      else if a = 4 then set_latch DIRTN s
      else if a = 1 then (set_latch READY (clr_latch STEP s))\<lparr>step_state := True\<rparr>
      else if a = 2 then set_latch READY (clr_latch MOTORON s)
      else if a = 6 then set_latch READY (set_latch MOTORON s)
      else if a = 7 then set_latch READY (set_latch EJECT s)
      else s)"

definition floppy_phase :: "pico \<Rightarrow> pico" where
  "floppy_phase s =
     (case fpy_fifo s of [] \<Rightarrow> s | a # ws \<Rightarrow>
        let s = phase_command a (s\<lparr>reg_a := a, fpy_fifo := ws\<rparr>);
            s = put_latch (get_latch s) s
        in uart_putc (ucast a + 48) s)"

definition step_pulse :: "pico \<Rightarrow> pico" where
  "step_pulse s = (if step_state s then (set_latch STEP s)\<lparr>step_state := False\<rparr> else s)"

definition esp_command :: "byte \<Rightarrow> pico \<Rightarrow> pico" where
  "esp_command c s =
     (if c AND 128 \<noteq> 0 then (if c = 128 then clr_latch TKO s else s)
      else if c = 115 then clr_latch WRTPRT (clr_latch CSTIN (clr_latch SINGLESIDE s))
      else if c = 100 then clr_latch WRTPRT (clr_latch CSTIN (set_latch SINGLESIDE s))
      else if c = 69 then clr_latch EJECT (set_latch CSTIN s)
      else if c = 83 then clr_latch READY s
      else if c = 77 then clr_latch READY s
      else s)"

definition floppy_message :: "pico \<Rightarrow> pico" where
  "floppy_message s =
     (if chr_c s \<noteq> 0 then
        (let s = esp_command (chr_c s) s; s = put_latch (get_latch s) s in s\<lparr>chr_c := 0\<rparr>)
      else s)"

definition floppy_loop :: "pico \<Rightarrow> pico" where
  "floppy_loop s =
     (if enable_pin s \<and> num_dcd_drives s > 0 then s\<lparr>disk_mode := TO_DCD\<rparr>
      else floppy_message (step_pulse (floppy_phase s)))"

section \<open>The hard-disk bus\<close>

definition dcd_phase :: prog where
  "dcd_phase s =
     (let a = reg_a s in
      if a = 0 then Inr (s\<lparr>host := True\<rparr>)
      else if a = 1 then
        block [upd (\<lambda>s. s\<lparr>host := True\<rparr>),
               get_read (\<lambda>b. upd (\<lambda>s. s\<lparr>cmd_sync := b\<rparr>)),
               assert (\<lambda>s. cmd_sync s = 0xaa),
               get_read (\<lambda>b. upd (\<lambda>s. s\<lparr>cmd_num_rx := b\<rparr>)),
               get_read (\<lambda>b. upd (\<lambda>s. s\<lparr>cmd_num_tx := b\<rparr>)),
               (\<lambda>s. dcd_process (cmd_num_rx s AND 0x7f) (cmd_num_tx s AND 0x7f) s)] s
      else if a = 2 then Inr (s\<lparr>host := False\<rparr>)
      else if a = 3 then
        (let s = s\<lparr>host := True\<rparr>
         in if reg_olda s = 2 then
              Inr (dcd_assert_hshk (sm_set_enabled SM_DCD_READ True (out (OutInit SM_DCD_READ) s)))
            else Inr s)
      else if a = 4 then
        (let s = dcd_deassert_hshk (s\<lparr>host := False\<rparr>);
             s = sm_set_enabled SM_DCD_WRITE False s;
             s = sm_set_enabled SM_LATCH True s
         in Inr (out OutMuxDirs s))
      else Inr (dcd_deassert_hshk (s\<lparr>host := False\<rparr>)))"

definition dcd_command :: prog where
  "dcd_command = if_cmd_ready (block [upd (\<lambda>s. s\<lparr>reg_olda := reg_a s\<rparr>), get_cmd, dcd_phase])"

definition select_drive :: "u32 \<Rightarrow> pico \<Rightarrow> pico" where
  "select_drive m s =
     (let n = num_dcd_drives s + 65 - m in uart_putc (ucast n) (s\<lparr>active_disk_number := n\<rparr>))"

definition dcd_loop :: prog where
  "dcd_loop s =
     (if num_dcd_drives s = 0 then Inr (s\<lparr>disk_mode := TO_FPY\<rparr>)
      else case mux_fifo s of
          [] \<Rightarrow> dcd_command s
        | m # ws \<Rightarrow>
            let s = s\<lparr>mux_fifo := ws\<rparr>
            in if m \<noteq> 0 then dcd_command (select_drive m s) else Inr (s\<lparr>disk_mode := TO_FPY\<rparr>))"

section \<open>The main loop\<close>

definition run_mode :: prog where
  "run_mode s =
     (case disk_mode s of
        DCD \<Rightarrow> dcd_loop s
      | TO_FPY \<Rightarrow> Inr (floppy_loop ((switch_to_floppy s)\<lparr>disk_mode := FPY\<rparr>))
      | FPY \<Rightarrow> Inr (floppy_loop s)
      | TO_DCD \<Rightarrow> Inr ((switch_to_dcd s)\<lparr>disk_mode := DCD\<rparr>))"

definition main_iteration :: prog where
  "main_iteration = seq esp_loop run_mode"

text \<open>
  Runs: after the set-up, iterations of the main loop alternate with the arrival of words, bytes and
  answers at the inputs.
\<close>

inductive pico_reach :: "pico \<Rightarrow> bool" where
  boot: "disk_mode s = DCD \<Longrightarrow> outs s = [] \<Longrightarrow> pico_reach (pico_setup s)"
| iteration: "pico_reach s \<Longrightarrow> main_iteration s = Inr s' \<Longrightarrow> pico_reach s'"
| arrival: "pico_reach s \<Longrightarrow> pico_reach (s\<lparr>fpy_fifo := f, cmd_fifo := c, cmd_polls := p, read_fifo := r, mux_fifo := m,
     uart_now := u, enable_pin := e\<rparr>)"

section \<open>The mode and the multiplexer program\<close>

definition loaded_mux :: "pico_out list \<Rightarrow> bool" where
  "loaded_mux es = foldl (\<lambda>b e. case e of OutMuxProgram d \<Rightarrow> d | _ \<Rightarrow> b) True es"

definition mode_view :: "pico \<Rightarrow> disk_mode_t \<times> bool" where
  "mode_view s = (disk_mode s, loaded_mux (outs s))"

definition mode_ok :: "pico \<Rightarrow> bool" where
  "mode_ok s \<longleftrightarrow> (loaded_mux (outs s) \<longleftrightarrow> disk_mode s = DCD \<or> disk_mode s = TO_FPY)"

lemma mode_ok_view: "mode_view s = mode_view s' \<Longrightarrow> mode_ok s = mode_ok s'"
  by (simp add: mode_view_def mode_ok_def)

lemma loaded_mux_snoc [simp]:
  "loaded_mux (es @ [e]) = (case e of OutMuxProgram d \<Rightarrow> d | _ \<Rightarrow> loaded_mux es)"
  unfolding loaded_mux_def by (cases e) simp_all

lemma mode_view_out [simp]: "(\<forall>d. e \<noteq> OutMuxProgram d) \<Longrightarrow> mode_view (out e s) = mode_view s"
  by (cases e) (auto simp: mode_view_def)

lemma mode_view_fields [simp]:
  "mode_view (s\<lparr>reg_a := w\<rparr>) = mode_view s" "mode_view (s\<lparr>reg_olda := w\<rparr>) = mode_view s"
  "mode_view (s\<lparr>cmd_fifo := ws\<rparr>) = mode_view s"
  "mode_view (s\<lparr>cmd_polls := ps\<rparr>) = mode_view s" "mode_view (s\<lparr>dcd_latch := l\<rparr>) = mode_view s"
  "mode_view (s\<lparr>latch := la\<rparr>) = mode_view s" "mode_view (s\<lparr>step_state := st\<rparr>) = mode_view s"
  "mode_view (s\<lparr>chr_c := b\<rparr>) = mode_view s" "mode_view (s\<lparr>host := h\<rparr>) = mode_view s"
  "mode_view (s\<lparr>wr_sector := n\<rparr>) = mode_view s" "mode_view (s\<lparr>uart_now := bs\<rparr>) = mode_view s"
  "mode_view (s\<lparr>uart_sent := bs\<rparr>) = mode_view s" "mode_view (s\<lparr>read_fifo := ws\<rparr>) = mode_view s"
  "mode_view (s\<lparr>cmd_sync := b\<rparr>) = mode_view s" "mode_view (s\<lparr>cmd_num_rx := b\<rparr>) = mode_view s"
  "mode_view (s\<lparr>cmd_num_tx := b\<rparr>) = mode_view s" "mode_view (s\<lparr>mux_fifo := ws\<rparr>) = mode_view s"
  "mode_view (s\<lparr>fpy_fifo := ws\<rparr>) = mode_view s" "mode_view (s\<lparr>active_disk_number := n\<rparr>) = mode_view s"
  "mode_view (s\<lparr>num_dcd_drives := n\<rparr>) = mode_view s" "mode_view (s\<lparr>payload := pl\<rparr>) = mode_view s"
  by (simp_all add: mode_view_def)

lemma mode_view_hw [simp]:
  "mode_view (put_latch w s) = mode_view s" "mode_view (sm_set_enabled m on s) = mode_view s"
  "mode_view (send_byte b s) = mode_view s" "mode_view (uart_putc b s) = mode_view s" "mode_view (uart_drain s) = mode_view s"
  "mode_view (dcd_assert_hshk s) = mode_view s" "mode_view (dcd_deassert_hshk s) = mode_view s"
  "mode_view (put_sector c n s) = mode_view s" "mode_view (pio_start m s) = mode_view s" "mode_view (set_num_dcd s) = mode_view s"
  "mode_view (set_latch b' s) = mode_view s" "mode_view (clr_latch b' s) = mode_view s" "mode_view (select_drive k s) = mode_view s"
  by (simp_all add: put_latch_def sm_set_enabled_def send_byte_def uart_putc_def uart_drain_def dcd_assert_hshk_def
      dcd_deassert_hshk_def dcd_clr_latch_def dcd_set_latch_def put_sector_def Let_def pio_start_def set_num_dcd_def
      set_latch_def clr_latch_def select_drive_def)

lemma mode_view_group [simp]: "mode_view (send_group_bytes j lsb bs s) = mode_view s"
  by (induction j lsb bs s rule: send_group_bytes.induct) simp_all

lemma mode_view_fold [simp]: "mode_view (fold uart_putc bs s) = mode_view s"
  by (induction bs arbitrary: s) simp_all

lemma keeps_get_read [wf_intros]:
  "(\<And>s ws. f (s\<lparr>read_fifo := ws\<rparr>) = f s) \<Longrightarrow> (\<And>b. keeps f (p b)) \<Longrightarrow> keeps f (get_read p)"
  by (fastforce simp: keeps_def get_read_def split: list.splits)

lemma keeps_mode_prims [wf_intros]:
  "keeps mode_view (store p v)" "keeps mode_view (compute_checksum n)" "keeps mode_view uart_getc"
  "keeps mode_view (uart_read off n)" "keeps mode_view (uart_write off n)" "keeps mode_view wait_sync"
  by (auto simp: keeps_def store_def compute_checksum_def uart_getc_def uart_read_def uart_write_def wait_sync_def
      split: if_splits list.splits)

lemma keeps_mode_expect [wf_intros]: "keeps mode_view (expect w)"
  unfolding expect_def by (auto intro!: wf_intros)

lemma keeps_mode_packet [wf_intros]: "keeps mode_view (send_packet ntx)"
  unfolding send_packet_def handshake_before_send_def handshake_after_send_def send_group_def
  by (rule keeps_block) (auto intro!: wf_intros)

lemma keeps_mode_recv_bytes [wf_intros]: "keeps mode_view (recv_bytes n lsb p)"
  by (induction n arbitrary: lsb p) (auto intro!: wf_intros)

lemma keeps_mode_read: "keeps mode_view (dcd_read ntx)"
proof -
  have "keeps mode_view (block [upd uart_drain, for_loop (read_sector ntx num sec) n 0])" for num sec n
    unfolding read_sector_def by (auto intro!: wf_intros simp: clear_payload_def)
  then show ?thesis by (simp add: keeps_def dcd_read_def Let_def)
qed

lemma keeps_mode_write: "keeps mode_view (dcd_write ntx cont verf)"
proof -
  have "keeps mode_view (write_sector ntx cont verf num)" for num
    unfolding write_sector_def by (rule keeps_block) (auto intro!: wf_intros simp: clear_payload_def)
  then show ?thesis by (simp add: keeps_def dcd_write_def)
qed

lemma keeps_mode_simple:
  "keeps mode_view (dcd_status ntx)" "keeps mode_view (dcd_id ntx)" "keeps mode_view (dcd_format ntx)" "keeps mode_view (dcd_verify ntx)"
  unfolding dcd_status_def dcd_id_def dcd_format_def dcd_verify_def
  by (auto intro!: wf_intros simp: clear_payload_def)

lemma keeps_mode_dispatch [wf_intros]: "keeps mode_view (dispatch ntx)"
  using keeps_mode_read keeps_mode_write keeps_mode_simple
  by (auto simp: keeps_def dispatch_def Let_def split: if_splits)

lemma keeps_mode_process: "keeps mode_view (dcd_process nrx ntx)"
  unfolding dcd_process_def recv_group_def by (rule keeps_block) (auto intro!: wf_intros)

lemma keeps_mode_phase [wf_intros]: "keeps mode_view dcd_phase"
proof -
  have p: "keeps mode_view (\<lambda>s. dcd_process (cmd_num_rx s AND 0x7f) (cmd_num_tx s AND 0x7f) s)"
    using keeps_mode_process by (simp add: keeps_def)
  have "keeps mode_view (block [upd (\<lambda>s. s\<lparr>host := True\<rparr>), get_read (\<lambda>b. upd (\<lambda>s. s\<lparr>cmd_sync := b\<rparr>)),
      assert (\<lambda>s. cmd_sync s = 0xaa), get_read (\<lambda>b. upd (\<lambda>s. s\<lparr>cmd_num_rx := b\<rparr>)),
      get_read (\<lambda>b. upd (\<lambda>s. s\<lparr>cmd_num_tx := b\<rparr>)),
      (\<lambda>s. dcd_process (cmd_num_rx s AND 0x7f) (cmd_num_tx s AND 0x7f) s)])"
    by (rule keeps_block) (use p in \<open>auto intro!: wf_intros\<close>)
  then show ?thesis by (auto simp: keeps_def dcd_phase_def Let_def split: if_splits)
qed

lemma keeps_mode_command: "keeps mode_view dcd_command"
  unfolding dcd_command_def by (auto intro!: wf_intros)

lemma keeps_mode_esp: "keeps mode_view esp_loop"
proof -
  have "keeps mode_view (block [uart_getc, cond (\<lambda>s. chr_c s = 104)
      (block [uart_getc, upd (\<lambda>s. s\<lparr>num_dcd_drives := ucast (chr_c s)\<rparr>),
         cond (\<lambda>s. disk_mode s = DCD) (upd set_num_dcd) skip, upd (\<lambda>s. s\<lparr>chr_c := 0\<rparr>)]) skip])"
    by (rule keeps_block) (auto intro!: wf_intros)
  then show ?thesis by (auto simp: keeps_def esp_loop_def split: list.splits)
qed

lemma mode_view_floppy [simp]:
  "mode_view (floppy_phase s) = mode_view s" "mode_view (step_pulse s) = mode_view s" "mode_view (floppy_message s) = mode_view s"
  by (simp_all add: floppy_phase_def phase_command_def Let_def step_pulse_def floppy_message_def esp_command_def split: list.split)

lemma mode_ok_floppy: "loaded_mux (outs s) = False \<Longrightarrow> disk_mode s = FPY \<Longrightarrow> mode_ok (floppy_loop s)"
proof -
  assume a: "loaded_mux (outs s) = False" "disk_mode s = FPY"
  have "mode_view (floppy_message (step_pulse (floppy_phase s))) = mode_view s" by simp
  with a show ?thesis by (simp add: floppy_loop_def mode_ok_def mode_view_def)
qed

lemma mode_ok_setup: "disk_mode s = DCD \<Longrightarrow> mode_ok (pico_setup s)"
proof -
  assume d: "disk_mode s = DCD"
  have t: "disk_mode (set_tach_freq 0 s) = DCD" using d by (simp add: set_tach_freq_def tach_lut_def out_def)
  show ?thesis
    by (simp add: pico_setup_def Let_def mode_ok_def pio_start_def sm_set_enabled_def put_latch_def preset_latch_def
        dcd_preset_latch_def set_latch_def clr_latch_def dcd_set_latch_def dcd_clr_latch_def t loaded_mux_def)
qed

lemma mode_ok_iteration:
  assumes "mode_ok s" "main_iteration s = Inr s'"
  shows "mode_ok s'"
proof -
  from assms(2) obtain u where u: "esp_loop s = Inr u" "run_mode u = Inr s'" unfolding main_iteration_def using seq_InrE by blast
  have ok: "mode_ok u" using keepsD [OF keeps_mode_esp u(1)] mode_ok_view assms(1) by blast
  show ?thesis
  proof (cases "disk_mode u")
    case DCD
    have c: "dcd_command v = Inr s' \<Longrightarrow> mode_view v = mode_view u \<Longrightarrow> mode_ok s'" for v
      using keepsD [OF keeps_mode_command] mode_ok_view ok by metis
    have "mode_view (select_drive m (u\<lparr>mux_fifo := ws\<rparr>)) = mode_view u" for m ws by simp
    with c DCD u(2) ok show ?thesis
      by (auto simp: run_mode_def dcd_loop_def Let_def mode_ok_def split: if_splits list.splits)
  next
    case TO_FPY
    with u(2) show ?thesis
      by (auto simp: run_mode_def intro!: mode_ok_floppy)
        (simp add: switch_to_floppy_def Let_def pio_start_def sm_set_enabled_def loaded_mux_def)
  next
    case FPY
    with ok have "loaded_mux (outs u) = False" by (simp add: mode_ok_def)
    with FPY u(2) show ?thesis using mode_ok_floppy by (auto simp: run_mode_def)
  next
    case TO_DCD
    with u(2) show ?thesis
      by (auto simp: run_mode_def mode_ok_def switch_to_dcd_def set_num_dcd_def Let_def pio_start_def sm_set_enabled_def
          loaded_mux_def)
  qed
qed

section \<open>Properties\<close>

text \<open>
  Property (C34). In every reachable state of the firmware the multiplexer program in the PIO is the one the
  mode needs: the hard-disk program in the modes DCD and TO-FPY, the floppy program in the modes
  FPY and TO-DCD. So each switch removes the program that is loaded.
\<close>

theorem mode_matches_program:
  assumes "pico_reach s"
  shows "mode_ok s"
  using assms
proof induction
  case (boot s)
  then show ?case by (simp add: mode_ok_setup)
next
  case (iteration s s')
  then show ?case using mode_ok_iteration by blast
qed (simp add: mode_ok_def)

theorem mode_matches_program_witness: "mode_ok (pico_setup pico_example)"
  using mode_matches_program [OF pico_reach.boot [of pico_example]] by (simp add: pico_example_def)

text \<open>
  A step command of the Macintosh drives !STEP low and !READY high on the latch, tells the ESP32,
  and leaves !STEP high again for the next word, so that every step is one pulse.
\<close>

theorem step_is_a_pulse:
  assumes "fpy_fifo s = 1 # ws" "\<not> (enable_pin s \<and> num_dcd_drives s > 0)" "chr_c s = 0"
  shows "\<exists>w. outs (floppy_loop s) = outs s @ [OutLatch w, OutUart 49] \<and>
    \<not> bit w (latch_bit STEP) \<and> bit w (latch_bit READY) \<and>
    bit (latch (floppy_loop s)) (latch_bit STEP) \<and> \<not> step_state (floppy_loop s) \<and> fpy_fifo (floppy_loop s) = ws"
proof -
  define w where "w = latch (set_latch READY (clr_latch STEP s))"
  have "\<not> bit w (latch_bit STEP)" "bit w (latch_bit READY)"
    unfolding w_def by (simp_all only: bit_set_latch bit_clr_latch) simp_all
  moreover have "floppy_loop s = (set_latch STEP (uart_putc 49 (put_latch w
      ((set_latch READY (clr_latch STEP (s\<lparr>reg_a := 1, fpy_fifo := ws\<rparr>)))\<lparr>step_state := True\<rparr>))))\<lparr>step_state := False\<rparr>"
    unfolding floppy_loop_def if_not_P [OF assms(2)] using assms(1,3)
    by (simp add: floppy_phase_def phase_command_def Let_def step_pulse_def floppy_message_def get_latch_def
        w_def put_latch_def uart_putc_def set_latch_def clr_latch_def out_def)
  moreover have "bit (latch (set_latch STEP t)) (latch_bit STEP)" for t by (simp only: bit_set_latch) simp
  ultimately show ?thesis
    by (intro exI [of _ w]) (simp add: uart_putc_def put_latch_def Let_def out_def, simp add: set_latch_def clr_latch_def)
qed

theorem step_is_a_pulse_witness:
  "\<exists>w. outs (floppy_loop (pico_example\<lparr>fpy_fifo := [1]\<rparr>)) = [OutLatch w, OutUart 49] \<and> \<not> bit w (latch_bit STEP)"
  using step_is_a_pulse [of "pico_example\<lparr>fpy_fifo := [1]\<rparr>" "[]"] by (auto simp: pico_example_def)

text \<open>
  The latches after reset: no disk inserted, motor off, not on track 0, drive present, handshake not
  asserted.
\<close>

theorem preset_values: "latch (preset_latch s) = 0xC546 \<and> dcd_latch (dcd_preset_latch s) = 0xDC"
  by (simp add: preset_latch_def dcd_preset_latch_def Let_def set_latch_def clr_latch_def dcd_set_latch_def dcd_clr_latch_def)

text \<open>
  Drive selection: when the multiplexer reports that \<open>m\<close> of the \<open>n\<close> daisy-chained drives are still
  to be passed, the ESP32 is told the letter of drive \<open>n - m\<close>, so that \<open>m = n\<close> selects A.
\<close>

theorem drive_letter:
  assumes "num_dcd_drives s = of_nat n" "0 < m" "m \<le> n" "n \<le> 26" "mux_fifo s = of_nat m # ws" "cmd_polls s = []"
  shows "\<exists>s'. dcd_loop s = Inr s' \<and> uart_sent s' = uart_sent s @ [of_nat (65 + (n - m))] \<and> disk_mode s' = disk_mode s"
proof -
  have u: "unat (of_nat n :: u32) = n" "unat (of_nat m :: u32) = m" using assms(3,4) by (simp_all add: unat_of_nat take_bit_nat_eq_self)
  then have nz: "(of_nat n :: u32) \<noteq> 0" "(of_nat m :: u32) \<noteq> 0" using assms(2,3) by (auto simp: unat_eq_0 [symmetric])
  have "(of_nat n + 65 - of_nat m :: u32) = of_nat (65 + (n - m))"
    using assms(3) by (simp add: of_nat_diff)
  then have l: "(ucast (of_nat n + 65 - of_nat m :: u32) :: byte) = of_nat (65 + (n - m))"
    using ucast_of_nat_byte [of "65 + (n - m)"] by (simp only:)
  have "dcd_command t = Inr t" if "cmd_polls t = []" for t
    using that by (simp add: dcd_command_def no_holdoff)
  then have "dcd_loop s = Inr (select_drive (of_nat m) (s\<lparr>mux_fifo := ws\<rparr>))"
    using assms(1,5,6) nz by (simp add: dcd_loop_def select_drive_def Let_def)
  then show ?thesis
    using l assms(1) by (simp add: select_drive_def Let_def uart_putc_def)
qed

theorem drive_letter_witness:
  "\<exists>s'. dcd_loop (pico_example\<lparr>num_dcd_drives := 2, mux_fifo := [1]\<rparr>) = Inr s' \<and> uart_sent s' = [66]"
  using drive_letter [of "pico_example\<lparr>num_dcd_drives := 2, mux_fifo := [1]\<rparr>" 2 1 "[]"] by (auto simp: pico_example_def)

end
