(* ===== verification/Base64.thy ===== *)
theory Base64
  imports Fuji_Prelude
begin

text \<open>
  Base64 (\<open>src/lib/base64/base64.c\<close>): the encoder with its line breaks and padding, the tolerant
  decoder, and the round trip between them. Strings are lists of character codes without the
  terminating NUL. \<open>NULL\<close> is \<open>None\<close>; whether \<open>malloc\<close> succeeds is the argument \<open>ok\<close>.
\<close>

section \<open>Tables\<close>

definition alphabet :: "byte list" where
  "alphabet = map word_of_nat ([65..<91] @ [97..<123] @ [48..<58])"

definition base64_table :: "byte list" where
  "base64_table = alphabet @ [43, 47]"

definition base64_url_table :: "byte list" where
  "base64_url_table = alphabet @ [45, 95]"

abbreviation (input) PAD :: byte where "PAD \<equiv> 61"
abbreviation (input) NEWLINE :: byte where "NEWLINE \<equiv> 10"
abbreviation (input) SIZE_MAX :: nat where "SIZE_MAX \<equiv> 2 ^ 64 - 1"

section \<open>Encoder\<close>

definition pick :: "byte list \<Rightarrow> byte \<Rightarrow> byte" where
  "pick table x = table ! unat (x AND 0x3f)"

definition quad :: "byte list \<Rightarrow> byte \<Rightarrow> byte \<Rightarrow> byte \<Rightarrow> byte list" where
  "quad table a b c =
     [pick table (drop_bit 2 a),
      pick table (push_bit 4 (a AND 0x03) OR drop_bit 4 b),
      pick table (push_bit 2 (b AND 0x0f) OR drop_bit 6 c),
      pick table c]"

text \<open>The last one or two bytes.\<close>

fun encode_tail :: "byte list \<Rightarrow> bool \<Rightarrow> byte list \<Rightarrow> byte list" where
  "encode_tail table add_pad [a] =
     [pick table (drop_bit 2 a), pick table (push_bit 4 (a AND 0x03))] @
     (if add_pad then [PAD] else []) @ (if add_pad then [PAD] else [])"
| "encode_tail table add_pad [a, b] =
     [pick table (drop_bit 2 a), pick table (push_bit 4 (a AND 0x03) OR drop_bit 4 b),
      pick table (push_bit 2 (b AND 0x0f))] @ (if add_pad then [PAD] else [])"
| "encode_tail table add_pad _ = []"

text \<open>
  \<open>line_len\<close>, an \<open>int\<close>, is reset at 72 when lines are broken and is not read when they are not (without
  padding), so that its width does not matter.
\<close>

fun encode_loop :: "byte list \<Rightarrow> bool \<Rightarrow> byte list \<Rightarrow> nat \<Rightarrow> byte list" where
  "encode_loop table add_pad (a # b # c # rest) line_len =
     quad table a b c @
     (if add_pad \<and> line_len + 4 \<ge> 72 then NEWLINE # encode_loop table add_pad rest 0
      else encode_loop table add_pad rest (line_len + 4))"
| "encode_loop table add_pad rest line_len =
     encode_tail table add_pad rest @
     (let line_len = (if rest \<noteq> [] then line_len + 4 else line_len)
      in if add_pad \<and> line_len \<noteq> 0 then [NEWLINE] else [])"

definition encode_size :: "bool \<Rightarrow> nat \<Rightarrow> nat" where
  "encode_size add_pad len =
     (let olen = len * 4 div 3 + 4; olen = (if add_pad then olen + olen div 72 else olen) in olen + 1)"

definition base64_gen_encode :: "byte list \<Rightarrow> bool \<Rightarrow> bool \<Rightarrow> byte list \<Rightarrow> byte list option" where
  "base64_gen_encode table add_pad ok src =
     (if length src \<ge> SIZE_MAX div 4 then None
      else if encode_size add_pad (length src) < length src then None
      else if \<not> ok then None
      else Some (encode_loop table add_pad src 0))"

definition base64_encode :: "bool \<Rightarrow> byte list \<Rightarrow> byte list option" where
  "base64_encode ok src = base64_gen_encode base64_table True ok src"

definition base64_url_encode :: "bool \<Rightarrow> byte list \<Rightarrow> byte list option" where
  "base64_url_encode ok src = base64_gen_encode base64_url_table False ok src"

section \<open>Decoder\<close>

text \<open>\<open>dtable\<close>: 0x80 for a byte that is not in the alphabet.\<close>

definition make_dtable :: "byte list \<Rightarrow> byte \<Rightarrow> byte" where
  "make_dtable table =
     (fold (\<lambda>i dt. dt(table ! i := of_nat i)) [0..<64] (\<lambda>_. 0x80))(PAD := 0)"

definition block_bytes :: "byte list \<Rightarrow> byte list" where
  "block_bytes blk =
     [push_bit 2 (blk ! 0) OR drop_bit 4 (blk ! 1),
      push_bit 4 (blk ! 1) OR drop_bit 2 (blk ! 2),
      push_bit 6 (blk ! 2) OR blk ! 3]"

fun decode_loop :: "(byte \<Rightarrow> byte) \<Rightarrow> byte list \<Rightarrow> byte list \<Rightarrow> nat \<Rightarrow> byte list \<Rightarrow> byte list option" where
  "decode_loop dt [] blk pad out = Some out"
| "decode_loop dt (val # rest) blk pad out =
     (let tmp = dt val in
      if tmp = 0x80 then decode_loop dt rest blk pad out
      else
        (let pad = (if val = PAD then pad + 1 else pad); blk = blk @ [tmp] in
         if length blk = 4 then
           (let out = out @ block_bytes blk in
            if pad \<noteq> 0 then
              (if pad = 1 then Some (take (length out - 1) out)
               else if pad = 2 then Some (take (length out - 2) out)
               else None)
            else decode_loop dt rest [] pad out)
         else decode_loop dt rest blk pad out))"

definition base64_gen_decode :: "byte list \<Rightarrow> bool \<Rightarrow> byte list \<Rightarrow> byte list option" where
  "base64_gen_decode table ok src =
     (let dt = make_dtable table;
          count = length (filter (\<lambda>b. dt b \<noteq> 0x80) src)
      in if count = 0 then None
         else if \<not> ok then None
         else
           (let extra_pad = (4 - count mod 4) mod 4
            in decode_loop dt (src @ replicate extra_pad PAD) [] 0 []))"

definition base64_decode :: "bool \<Rightarrow> byte list \<Rightarrow> byte list option" where
  "base64_decode ok src = base64_gen_decode base64_table ok src"

definition base64_url_decode :: "bool \<Rightarrow> byte list \<Rightarrow> byte list option" where
  "base64_url_decode ok src = base64_gen_decode base64_url_table ok src"

section \<open>The decoding table\<close>

lemma and_63: "(x::byte) AND 63 = take_bit 6 x"
  by (simp add: take_bit_eq_mask mask_eq_exp_minus_1)

lemma and_3: "(x::byte) AND 3 = take_bit 2 x"
  by (simp add: take_bit_eq_mask mask_eq_exp_minus_1)

lemmas masks = and_63 and_3 and_15

lemma sextet_less: "unat ((x::byte) AND 63) < 64"
  unfolding and_63 unsigned_take_bit_eq using take_bit_nat_less_exp [of 6 "unat x"] by simp

lemma sextet_known: "(x::byte) AND 63 \<noteq> 128"
  using sextet_less [of x] by auto

lemma fold_upd_notin: "x \<notin> g ` set is \<Longrightarrow> fold (\<lambda>i dt. dt(g i := h i)) is dt x = dt x"
  by (induction "is" arbitrary: dt) auto

lemma fold_upd_in:
  "distinct (map g is) \<Longrightarrow> i \<in> set is \<Longrightarrow> fold (\<lambda>i dt. dt(g i := h i)) is dt (g i) = h i"
  by (induction "is" arbitrary: dt) (auto simp: fold_upd_notin)

text \<open>
  What the round trip needs of an alphabet: 64 different letters, and neither the padding character
  nor the line feed is one of them. Then the decoder's table inverts it.
\<close>

definition good_alphabet :: "byte list \<Rightarrow> bool" where
  "good_alphabet table \<longleftrightarrow> length table = 64 \<and> distinct table \<and> PAD \<notin> set table \<and> NEWLINE \<notin> set table"

lemma good_alphabet_codes:
  assumes "table = map word_of_nat ns" "length ns = 64" "distinct ns" "\<forall>n\<in>set ns. n < 256"
    "61 \<notin> set ns" "10 \<notin> set ns"
  shows "good_alphabet table"
proof -
  have inj: "word_of_nat m = (word_of_nat n :: byte) \<longleftrightarrow> m = n" if "m < 256" "n < 256" for m n
    using that by (simp add: word_of_nat_eq_iff take_bit_nat_eq_self)
  have "word_of_nat m \<noteq> PAD" "word_of_nat m \<noteq> NEWLINE" if "m \<in> set ns" for m
    using that assms inj [of m 61] inj [of m 10] by auto
  then show ?thesis
    using assms(1-4) inj by (auto simp: good_alphabet_def distinct_map inj_on_def)
qed

lemma good_alphabet_base64: "good_alphabet base64_table"
  by (rule good_alphabet_codes [where ns = "[65..<91] @ [97..<123] @ [48..<58] @ [43, 47]"])
    (auto simp: base64_table_def alphabet_def)

lemma good_alphabet_url: "good_alphabet base64_url_table"
  by (rule good_alphabet_codes [where ns = "[65..<91] @ [97..<123] @ [48..<58] @ [45, 95]"])
    (auto simp: base64_url_table_def alphabet_def)

lemma pick_in_table: "good_alphabet table \<Longrightarrow> pick table x \<in> set table"
  using sextet_less [of x] by (simp add: good_alphabet_def pick_def)

lemma pick_neq_pad [simp]: "good_alphabet table \<Longrightarrow> pick table x \<noteq> PAD"
  using pick_in_table [of table x] by (auto simp: good_alphabet_def)

lemma dtable_pick:
  assumes "good_alphabet table"
  shows "make_dtable table (pick table x) = x AND 63"
proof -
  have "distinct (map ((!) table) [0..<64])"
    using assms by (simp add: good_alphabet_def distinct_map inj_on_def nth_eq_iff_index_eq)
  then have "fold (\<lambda>i dt. dt(table ! i := of_nat i)) [0..<64] (\<lambda>_. 0x80)
      (table ! unat (x AND 63)) = (of_nat (unat (x AND 63)) :: byte)"
    by (rule fold_upd_in) (use sextet_less [of x] in simp)
  then show ?thesis
    using pick_neq_pad [OF assms, of x] by (simp add: make_dtable_def pick_def)
qed

lemma dtable_pad: "make_dtable table PAD = 0"
  by (simp add: make_dtable_def)

lemma dtable_newline:
  assumes "good_alphabet table"
  shows "make_dtable table NEWLINE = 0x80"
proof -
  have "NEWLINE \<notin> (!) table ` set [0..<64]"
    using assms by (auto simp: good_alphabet_def in_set_conv_nth)
  then show ?thesis
    by (simp add: make_dtable_def fold_upd_notin)
qed

section \<open>Bits\<close>

lemmas sextet_bits = masks bit_byte_ge bit_push_bit_iff bit_drop_bit_eq bit_or_iff bit_take_bit_iff

lemma sextet_0:
  fixes a b :: byte
  shows "push_bit 2 (drop_bit 2 a AND 63) OR drop_bit 4 ((push_bit 4 (a AND 3) OR drop_bit 4 b) AND 63) = a"
  by (rule bit_cases_8) (simp_all add: sextet_bits del: add_2_eq_Suc add_2_eq_Suc')

lemma sextet_1:
  fixes a b c :: byte
  shows "push_bit 4 ((push_bit 4 (a AND 3) OR drop_bit 4 b) AND 63)
           OR drop_bit 2 ((push_bit 2 (b AND 15) OR drop_bit 6 c) AND 63) = b"
  by (rule bit_cases_8) (simp_all add: sextet_bits del: add_2_eq_Suc add_2_eq_Suc')

lemma sextet_2:
  fixes b c :: byte
  shows "push_bit 6 ((push_bit 2 (b AND 15) OR drop_bit 6 c) AND 63) OR (c AND 63) = c"
  by (rule bit_cases_8) (simp_all add: sextet_bits del: add_2_eq_Suc add_2_eq_Suc')

section \<open>Decoding what was encoded\<close>

lemma length_alphabet: "good_alphabet table \<Longrightarrow> length table = 64"
  by (simp add: good_alphabet_def)

lemmas decode_simps = dtable_pick dtable_pad dtable_newline sextet_known block_bytes_def

lemma decode_picks:
  assumes "good_alphabet table"
  shows "decode_loop (make_dtable table)
           (pick table x0 # pick table x1 # pick table x2 # pick table x3 # rest) [] 0 out =
         decode_loop (make_dtable table) rest [] 0 (out @ block_bytes [x0 AND 63, x1 AND 63, x2 AND 63, x3 AND 63])"
  using assms by (simp add: dtable_pick sextet_known Let_def)

lemma block_bytes_sextets:
  "block_bytes [drop_bit 2 a AND 63, (push_bit 4 (a AND 3) OR drop_bit 4 b) AND 63,
     (push_bit 2 (b AND 15) OR drop_bit 6 c) AND 63, c AND 63] = [a, b, c]"
proof -
  have list_nths: "[p, q, r, s] ! 0 = p" "[p, q, r, s] ! 1 = q" "[p, q, r, s] ! 2 = r" "[p, q, r, s] ! 3 = s"
    for p q r s :: byte
    by simp_all
  show ?thesis
    by (simp only: block_bytes_def list_nths sextet_0 sextet_1 sextet_2)
qed

lemma decode_quad:
  assumes "good_alphabet table"
  shows "decode_loop (make_dtable table) (quad table a b c @ rest) [] 0 out =
         decode_loop (make_dtable table) rest [] 0 (out @ [a, b, c])"
  by (simp only: quad_def append_Cons append_Nil decode_picks [OF assms] block_bytes_sextets)

lemma decode_tail_1:
  assumes "good_alphabet table"
  shows "decode_loop (make_dtable table)
           (pick table (drop_bit 2 a) # pick table (push_bit 4 (a AND 3)) # PAD # PAD # rest) [] 0 out = Some (out @ [a])"
  using assms sextet_0 [of a 0] by (simp add: decode_simps Let_def)

lemma decode_tail_2:
  assumes "good_alphabet table"
  shows "decode_loop (make_dtable table)
           (pick table (drop_bit 2 a) # pick table (push_bit 4 (a AND 3) OR drop_bit 4 b)
              # pick table (push_bit 2 (b AND 15)) # PAD # rest) [] 0 out = Some (out @ [a, b])"
  using assms sextet_0 [of a b] sextet_1 [of a b 0] by (simp add: decode_simps Let_def)

lemma decode_newline:
  "good_alphabet table \<Longrightarrow> decode_loop (make_dtable table) (NEWLINE # rest) blk pad out =
     decode_loop (make_dtable table) rest blk pad out"
  by (simp add: decode_simps)

definition missing_pad :: "bool \<Rightarrow> byte list \<Rightarrow> nat" where
  "missing_pad add_pad src = (if add_pad then 0 else (3 - length src mod 3) mod 3)"

lemma missing_pad_step: "missing_pad add_pad (a # b # c # src) = missing_pad add_pad src"
proof -
  have "Suc (Suc (Suc (length src))) mod 3 = length src mod 3" by presburger
  then show ?thesis by (simp add: missing_pad_def)
qed

lemma replicate_2: "replicate 2 x = [x, x]"
  by (simp add: numeral_2_eq_2)

lemma decode_encode_loop:
  assumes "good_alphabet table"
  shows "decode_loop (make_dtable table)
           (encode_loop table add_pad src n @ replicate (missing_pad add_pad src) PAD) [] 0 out = Some (out @ src)"
  using assms
proof (induction table add_pad src n arbitrary: out rule: encode_loop.induct, goal_cases)
  case (1 table add_pad a b c rest n out)
  then show ?case
    by (simp add: decode_quad decode_newline missing_pad_step del: decode_loop.simps)
next
  case (2 table add_pad n out)
  then show ?case by (simp add: missing_pad_def decode_newline Let_def dtable_newline)
next
  case (3 table add_pad a n out)
  then show ?case
    using decode_tail_1 [of table a "[NEWLINE]" out] decode_tail_1 [of table a "[]" out]
    by (cases add_pad) (simp_all add: missing_pad_def replicate_2 del: decode_loop.simps)
next
  case (4 table add_pad a b n out)
  then show ?case
    using decode_tail_2 [of table a b "[NEWLINE]" out] decode_tail_2 [of table a b "[]" out]
    by (cases add_pad) (simp_all add: missing_pad_def del: decode_loop.simps)
qed

section \<open>Counting the symbols\<close>

definition known :: "byte list \<Rightarrow> byte \<Rightarrow> bool" where
  "known table b \<longleftrightarrow> make_dtable table b \<noteq> 0x80"

lemma known_simps:
  assumes "good_alphabet table"
  shows "known table (pick table x)" "known table PAD" "\<not> known table NEWLINE"
  using assms by (simp_all add: known_def decode_simps)

definition symbols :: "bool \<Rightarrow> nat \<Rightarrow> nat" where
  "symbols add_pad len =
     4 * (len div 3) + (if len mod 3 = 0 then 0 else if add_pad then 4 else len mod 3 + 1)"

lemma symbols_step: "symbols add_pad (Suc (Suc (Suc len))) = 4 + symbols add_pad len"
proof -
  have "Suc (Suc (Suc len)) mod 3 = len mod 3" "Suc (Suc (Suc len)) div 3 = Suc (len div 3)" by presburger+
  then show ?thesis by (simp add: symbols_def)
qed

lemma count_encode_loop:
  assumes "good_alphabet table"
  shows "length (filter (known table) (encode_loop table add_pad src n)) = symbols add_pad (length src)"
  using assms
proof (induction table add_pad src n rule: encode_loop.induct)
  case (1 table add_pad a b c rest n)
  then show ?case by (simp add: quad_def known_simps symbols_step)
qed (simp_all add: known_simps symbols_def)

lemma extra_pad_symbols: "(4 - symbols add_pad (length src) mod 4) mod 4 = missing_pad add_pad src"
proof -
  have "length src mod 3 = 0 \<or> length src mod 3 = 1 \<or> length src mod 3 = 2" by presburger
  then show ?thesis by (auto simp: symbols_def missing_pad_def)
qed

lemma symbols_pos: "src \<noteq> [] \<Longrightarrow> symbols add_pad (length src) \<noteq> 0"
  by (cases src) (auto simp: symbols_def div_eq_0_iff dest: dvd_imp_le)

lemma gen_roundtrip:
  assumes "good_alphabet table" "src \<noteq> []"
  shows "base64_gen_decode table True (encode_loop table add_pad src 0) = Some src"
  using assms count_encode_loop [of table add_pad src 0, unfolded known_def] symbols_pos [of src add_pad]
    decode_encode_loop [of table add_pad src 0 "[]"]
  by (simp add: base64_gen_decode_def Let_def extra_pad_symbols del: filter_empty_conv length_0_conv)

section \<open>Sizes\<close>

lemma length_encode_tail:
  "length src < 3 \<Longrightarrow> length (encode_tail table add_pad src) = symbols add_pad (length src)"
  by (cases "(table, add_pad, src)" rule: encode_tail.cases) (auto simp: symbols_def)

lemma length_encode_padded:
  "n < 72 \<Longrightarrow> 4 dvd n \<Longrightarrow>
   length (encode_loop table True src n) = symbols True (length src) + (n + symbols True (length src) + 71) div 72"
proof (induction table True src n rule: encode_loop.induct)
  case (1 table a b c rest n)
  show ?case
  proof (cases "n + 4 \<ge> 72")
    case True
    then have "n = 68" using 1 by presburger
    then show ?thesis using 1(1) by (simp add: quad_def symbols_step)
  next
    case False
    then show ?thesis using 1(2-) by (simp add: quad_def symbols_step algebra_simps)
  qed
qed (auto simp: symbols_def)

lemma length_encode_unpadded: "length (encode_loop table False src n) = symbols False (length src)"
  by (induction table False src n rule: encode_loop.induct) (simp_all add: quad_def symbols_step, simp_all add: symbols_def)

lemma encode_size_le: "len \<le> encode_size add_pad len"
proof -
  have "len \<le> len * 4 div 3 + 4" by presburger
  then show ?thesis by (cases add_pad) (simp_all add: encode_size_def Let_def)
qed

lemma symbols_fit:
  "symbols True len + (symbols True len + 71) div 72 + 1 \<le> encode_size True len"
  "symbols False len + 1 \<le> encode_size False len"
proof -
  obtain k r where len: "len = 3 * k + r" "r < 3"
    by (metis mod_less_divisor mult_div_mod_eq zero_less_numeral)
  then show "symbols False len + 1 \<le> encode_size False len"
    by (auto simp: symbols_def encode_size_def)
  have "r = 0 \<or> r = 1 \<or> r = 2" using len by auto
  then show "symbols True len + (symbols True len + 71) div 72 + 1 \<le> encode_size True len"
  proof (elim disjE)
    assume "r = 1"
    then have "len * 4 div 3 = 4 * k + 1" "len div 3 = k" "len mod 3 = 1" using len by presburger+
    then show ?thesis by (simp add: symbols_def encode_size_def)
  next
    assume "r = 2"
    then have "len * 4 div 3 = 4 * k + 2" "len div 3 = k" "len mod 3 = 2" using len by presburger+
    then show ?thesis by (simp add: symbols_def encode_size_def)
  qed (use len in \<open>simp add: symbols_def encode_size_def\<close>)
qed

section \<open>Properties\<close>

text \<open>
  Property (C36). Whatever non-empty data is encoded, in the standard or in the URL alphabet, is
  decoded to the same data: line breaks are skipped, and the padding the URL variant leaves out is
  supplied by the decoder.
\<close>

theorem base64_roundtrip:
  assumes "src \<noteq> []" "length src < SIZE_MAX div 4"
  shows "Option.bind (base64_encode True src) (base64_decode True) = Some src
       \<and> Option.bind (base64_url_encode True src) (base64_url_decode True) = Some src"
  using assms encode_size_le [of "length src"] gen_roundtrip good_alphabet_base64 good_alphabet_url
  by (simp add: base64_encode_def base64_url_encode_def base64_gen_encode_def base64_decode_def
      base64_url_decode_def not_less)

theorem base64_roundtrip_witness:
  "Option.bind (base64_encode True [0x4d, 0x61]) (base64_decode True) = Some [0x4d, 0x61]"
  using base64_roundtrip [of "[0x4d, 0x61]"] by simp

text \<open>
  The encoder never writes outside the block it allocates: its output and the
  terminating NUL fit in \<open>olen\<close> bytes, for every length and both variants.
\<close>

theorem base64_encode_fits:
  assumes "base64_gen_encode table add_pad ok src = Some out"
  shows "length out + 1 \<le> encode_size add_pad (length src)"
  using assms symbols_fit [of "length src"]
  by (cases add_pad)
    (auto simp: base64_gen_encode_def length_encode_padded length_encode_unpadded split: if_splits)

theorem base64_encode_fits_witness:
  "length ''TWE='' + 2 \<le> encode_size True 2"
proof -
  have "base64_gen_encode base64_table True True [0x4d, 0x61] = Some (encode_loop base64_table True [0x4d, 0x61] 0)"
    by (simp add: base64_gen_encode_def encode_size_def)
  from base64_encode_fits [OF this] show ?thesis by (simp add: numeral_2_eq_2)
qed

end
