(* ===== verification/Strl.thy ===== *)
theory Strl
  imports Fuji_Prelude
begin

text \<open>
  The bounded string functions of \<open>src/lib/compat/strlcpy.c\<close> and \<open>src/lib/compat/strlcat.c\<close>.
  A memory block is the list of its bytes and a pointer an offset into it. Reading or writing
  outside the block gives \<open>None\<close>, so a result \<open>Some\<close> says that every access of the run was inside.
  Source and destination are different blocks.
\<close>

definition mem_load :: "byte list \<Rightarrow> nat \<Rightarrow> byte option" where
  "mem_load m i = (if i < length m then Some (m ! i) else None)"

definition mem_store :: "byte list \<Rightarrow> nat \<Rightarrow> byte \<Rightarrow> byte list option" where
  "mem_store m i v = (if i < length m then Some (m[i := v]) else None)"

section \<open>strlcpy\<close>

text \<open>\<open>while (--nleft != 0) ...\<close>: the new destination, the two pointers and \<open>nleft\<close> afterwards.\<close>

fun copy_loop :: "byte list \<Rightarrow> nat \<Rightarrow> byte list \<Rightarrow> nat \<Rightarrow> nat \<Rightarrow> (byte list \<times> nat \<times> nat \<times> nat) option" where
  "copy_loop dst d src s 0 = None"
| "copy_loop dst d src s (Suc nleft) =
     (if nleft = 0 then Some (dst, d, s, 0)
      else Option.bind (mem_load src s) (\<lambda>c.
           Option.bind (mem_store dst d c) (\<lambda>dst.
             if c = 0 then Some (dst, d + 1, s + 1, nleft)
             else copy_loop dst (d + 1) src (s + 1) nleft)))"

text \<open>\<open>while (*src++) ;\<close>\<close>

function skip_loop :: "byte list \<Rightarrow> nat \<Rightarrow> nat option" where
  "skip_loop src s =
     (if s < length src then (if src ! s \<noteq> 0 then skip_loop src (s + 1) else Some (s + 1)) else None)"
  by auto
termination by (relation "measure (\<lambda>(src, s). length src - s)") auto

definition strlcpy :: "byte list \<Rightarrow> byte list \<Rightarrow> nat \<Rightarrow> (byte list \<times> nat) option" where
  "strlcpy dst src dsize =
     Option.bind (if dsize \<noteq> 0 then copy_loop dst 0 src 0 dsize else Some (dst, 0, 0, dsize)) (\<lambda>(dst, d, s, nleft).
     Option.bind
       (if nleft = 0 then
          Option.bind (if dsize \<noteq> 0 then mem_store dst d 0 else Some dst) (\<lambda>dst.
          Option.bind (skip_loop src s) (\<lambda>s. Some (dst, s)))
        else Some (dst, s)) (\<lambda>(dst, s).
     Some (dst, s - 1)))"

section \<open>strlcat\<close>

text \<open>\<open>while (n-- != 0 && *dst != 0) dst++\<close>: the offset reached.\<close>

fun find_end :: "byte list \<Rightarrow> nat \<Rightarrow> nat \<Rightarrow> nat option" where
  "find_end dst d 0 = Some d"
| "find_end dst d (Suc n) =
     Option.bind (mem_load dst d) (\<lambda>c. if c \<noteq> 0 then find_end dst (d + 1) n else Some d)"

function append_loop :: "byte list \<Rightarrow> nat \<Rightarrow> byte list \<Rightarrow> nat \<Rightarrow> nat \<Rightarrow> (byte list \<times> nat \<times> nat) option" where
  "append_loop dst d src s n =
     (if s < length src then
        (if src ! s \<noteq> 0 then
           (if n \<noteq> 0 then Option.bind (mem_store dst d (src ! s)) (\<lambda>dst. append_loop dst (d + 1) src (s + 1) (n - 1))
            else append_loop dst d src (s + 1) n)
         else Some (dst, d, s))
      else None)"
  by auto
termination by (relation "measure (\<lambda>(dst, d, src, s, n). length src - s)") auto

definition strlcat :: "byte list \<Rightarrow> byte list \<Rightarrow> nat \<Rightarrow> (byte list \<times> nat) option" where
  "strlcat dst src dsize =
     Option.bind (find_end dst 0 dsize) (\<lambda>dlen.
     let n = dsize - dlen in
     if n = 0 then Option.bind (skip_loop src 0) (\<lambda>s. Some (dst, dlen + (s - 1)))
     else
       Option.bind (append_loop dst dlen src 0 (n - 1)) (\<lambda>(dst, d, s).
       Option.bind (mem_store dst d 0) (\<lambda>dst.
       Some (dst, dlen + s))))"

declare skip_loop.simps [simp del] append_loop.simps [simp del]

section \<open>The loops\<close>

text \<open>\<open>overwrite m i bytes\<close> overwrites the block from offset \<open>i\<close> on.\<close>

definition overwrite :: "byte list \<Rightarrow> nat \<Rightarrow> byte list \<Rightarrow> byte list" where
  "overwrite m i bytes = take i m @ bytes @ drop (i + length bytes) m"

lemma overwrite_Nil [simp]: "overwrite m i [] = m"
  by (simp add: overwrite_def)

lemma overwrite_Cons: "i < length m \<Longrightarrow> overwrite (m[i := b]) (Suc i) bytes = overwrite m i (b # bytes)"
  by (simp add: overwrite_def take_Suc_conv_app_nth drop_update_cancel)

lemma overwrite_snoc: "i + length bytes < length m \<Longrightarrow> (overwrite m i bytes)[i + length bytes := b] = overwrite m i (bytes @ [b])"
  by (simp add: overwrite_def list_update_append Cons_nth_drop_Suc [symmetric])

lemma length_overwrite [simp]: "i + length bytes \<le> length m \<Longrightarrow> length (overwrite m i bytes) = length m"
  by (simp add: overwrite_def)

lemma skip_loop_string:
  "0 \<notin> set str \<Longrightarrow> skip_loop (pre @ str @ 0 # rest) (length pre) = Some (length pre + length str + 1)"
proof (induction str arbitrary: pre)
  case Nil
  then show ?case by (simp add: skip_loop.simps)
next
  case (Cons c str)
  from Cons.IH [of "pre @ [c]"] Cons.prems show ?case
    by (simp add: skip_loop.simps [of "pre @ c # _"] nth_append)
qed

lemma copy_loop_fits:
  "0 \<notin> set str \<Longrightarrow> length str + 1 < n \<Longrightarrow> d + length str < length dst \<Longrightarrow>
   copy_loop dst d (pre @ str @ 0 # rest) (length pre) n =
     Some (overwrite dst d (str @ [0]), d + length str + 1, length pre + length str + 1, n - length str - 1)"
proof (induction str arbitrary: pre dst d n)
  case Nil
  then show ?case
    by (cases n) (auto simp: mem_load_def mem_store_def overwrite_def upd_conv_take_nth_drop)
next
  case (Cons c str)
  then obtain m where "n = Suc m" by (cases n) auto
  with Cons.IH [of m "d + 1" "dst[d := c]" "pre @ [c]"] Cons.prems show ?case
    by (auto simp: mem_load_def mem_store_def overwrite_Cons)
qed

lemma copy_loop_truncates:
  "0 \<notin> set str \<Longrightarrow> n \<le> length str \<Longrightarrow> d + n < length dst \<Longrightarrow>
   copy_loop dst d (pre @ str @ 0 # rest) (length pre) (Suc n) =
     Some (overwrite dst d (take n str), d + n, length pre + n, 0)"
proof (induction str arbitrary: pre dst d n)
  case Nil
  then show ?case by simp
next
  case (Cons c str)
  show ?case
  proof (cases n)
    case (Suc m)
    with Cons.IH [of m "d + 1" "dst[d := c]" "pre @ [c]"] Cons.prems show ?thesis
      by (auto simp: mem_load_def mem_store_def overwrite_Cons)
  qed simp
qed

lemma find_end_spec:
  "d + n \<le> length dst \<Longrightarrow> find_end dst d n = Some (d + length (takeWhile (\<lambda>b. b \<noteq> 0) (take n (drop d dst))))"
proof (induction n arbitrary: d)
  case (Suc n)
  then have "drop d dst = dst ! d # drop (Suc d) dst" by (simp add: Cons_nth_drop_Suc)
  with Suc show ?case by (simp add: mem_load_def)
qed simp

lemma append_loop_spec:
  "0 \<notin> set str \<Longrightarrow> d + n < length dst \<Longrightarrow>
   append_loop dst d (pre @ str @ 0 # rest) (length pre) n =
     Some (overwrite dst d (take n str), d + min n (length str), length pre + length str)"
proof (induction str arbitrary: pre dst d n)
  case Nil
  then show ?case by (simp add: append_loop.simps)
next
  case (Cons c str)
  show ?case
  proof (cases n)
    case 0
    with Cons.IH [of d 0 dst "pre @ [c]"] Cons.prems show ?thesis
      by (simp add: append_loop.simps [of _ _ "pre @ c # _"])
  next
    case (Suc m)
    with Cons.IH [of "d + 1" m "dst[d := c]" "pre @ [c]"] Cons.prems show ?thesis
      by (simp add: append_loop.simps [of _ _ "pre @ c # _"] mem_store_def overwrite_Cons)
  qed
qed

section \<open>Properties\<close>

text \<open>
  Property (C37). \<open>strlcpy\<close> on a destination of at least \<open>dsize\<close> bytes and a NUL-terminated source:
  every access is inside the blocks; the destination starts with as much of the source as fits in
  \<open>dsize - 1\<close> bytes and a NUL, and is unchanged behind it; nothing is written when \<open>dsize\<close> is 0; the
  length of the source is returned, so that a result of \<open>dsize\<close> or more tells a truncation.
\<close>

theorem strlcpy_correct:
  assumes "0 \<notin> set str" "dsize \<le> length dst"
  shows "strlcpy dst (str @ 0 # rest) dsize =
    Some (if dsize = 0 then dst else overwrite dst 0 (take (dsize - 1) str @ [0]), length str)"
proof (cases "dsize \<noteq> 0 \<and> length str + 1 < dsize")
  case True
  then have "take (dsize - 1) str = str" by auto
  with True copy_loop_fits [of str dsize 0 dst "[]" rest] assms show ?thesis
    by (simp add: strlcpy_def)
next
  case False
  show ?thesis
  proof (cases dsize)
    case 0
    with skip_loop_string [of str "[]" rest] assms show ?thesis by (simp add: strlcpy_def)
  next
    case (Suc n)
    moreover have "str = take n str @ drop n str" "length (take n str) = n" using False Suc by auto
    moreover have "skip_loop (str @ 0 # rest) n = Some (length str + 1)"
      using skip_loop_string [of "drop n str" "take n str" rest] calculation assms
      by (metis (no_types, lifting) add.assoc append.assoc in_set_dropD length_append)
    moreover have "(overwrite dst 0 (take n str))[n := 0] = overwrite dst 0 (take n str @ [0])"
      using overwrite_snoc [of 0 "take n str" dst 0] calculation assms by simp
    ultimately show ?thesis
      using copy_loop_truncates [of str n 0 dst "[]" rest] False assms
      by (simp add: strlcpy_def mem_store_def)
  qed
qed

theorem strlcpy_correct_witness:
  "strlcpy [9, 9, 9, 9, 9] [1, 2, 3, 0] 3 = Some (overwrite [9, 9, 9, 9, 9] 0 [1, 2, 0], 3)"
  using strlcpy_correct [of "[1, 2, 3]" 3 "[9, 9, 9, 9, 9]" "[]"] by simp

text \<open>
  \<open>strlcat\<close> on a destination of at least \<open>dsize\<close> bytes and a NUL-terminated source:
  every access is inside the blocks; with no NUL among the first \<open>dsize\<close> bytes nothing is written,
  otherwise the source is appended as far as it fits and a NUL follows within the \<open>dsize\<close> bytes;
  the result is the length the full concatenation would have.
\<close>

theorem strlcat_correct:
  assumes "0 \<notin> set str" "dsize \<le> length dst"
    and "dlen = length (takeWhile (\<lambda>b. b \<noteq> 0) (take dsize dst))"
  shows "strlcat dst (str @ 0 # rest) dsize =
    Some (if dlen = dsize then dst else overwrite dst dlen (take (dsize - dlen - 1) str @ [0]), dlen + length str)"
proof -
  have fe: "find_end dst 0 dsize = Some dlen"
    using assms find_end_spec [of 0 dsize dst] by simp
  have le: "dlen \<le> dsize"
    using length_takeWhile_le [of _ "take dsize dst"] assms by (metis length_take min.absorb2)
  show ?thesis
  proof (cases "dlen = dsize")
    case True
    with fe skip_loop_string [of str "[]" rest] assms show ?thesis by (simp add: strlcat_def)
  next
    case False
    then have "(overwrite dst dlen (take (dsize - dlen - 1) str))[dlen + min (dsize - dlen - 1) (length str) := 0]
        = overwrite dst dlen (take (dsize - dlen - 1) str @ [0])"
      using overwrite_snoc [of dlen "take (dsize - dlen - 1) str" dst 0] assms le by (simp add: min.commute)
    with False fe le append_loop_spec [of str dlen "dsize - dlen - 1" dst "[]" rest] assms show ?thesis
      by (simp add: strlcat_def mem_store_def)
  qed
qed

theorem strlcat_correct_witness:
  "strlcat [7, 0, 9, 9, 9] [1, 2, 3, 0] 3 = Some (overwrite [7, 0, 9, 9, 9] 1 [1, 0], 4)"
  using strlcat_correct [of "[1, 2, 3]" 3 "[7, 0, 9, 9, 9]" 1 "[]"] by simp

end
