(* ===== verification/Z80_State.thy ===== *)
theory Z80_State
  imports Fuji_Prelude
begin

text \<open>
  The registers and the memory of the Z80 emulator (\<open>src/lib/runcpm/cpu.h\<close>) and the macros its
  instructions are written with. A register is a C \<open>int32\<close>, so it is a 32-bit word here although the
  machine's registers have 16 bits: the code lets the upper half collect whatever carries into it and
  masks when it reads. \<open>>>\<close> on an \<open>int32\<close> is \<open>signed_drop_bit\<close>, on an \<open>uint32\<close> \<open>drop_bit\<close>; signed
  arithmetic wraps, as compilers give it. The locals of \<open>Z80run\<close> are let-bound variables, since every
  instruction assigns them before it reads them.

  The memory block has \<open>MEMSIZE\<close> bytes. Accesses that go through \<open>ADDRMASK\<close> are inside; \<open>overrun\<close>
  records a write behind its end. \<open>world\<close> is what the CP/M side (\<open>_Bdos\<close>, \<open>_Bios\<close>) keeps outside of
  the processor.
\<close>

record 'w cpu =
  PCX :: u32
  AF :: u32
  BC :: u32
  DE :: u32
  HL :: u32
  IX :: u32
  IY :: u32
  PC :: u32
  SP :: u32
  AF1 :: u32
  BC1 :: u32
  DE1 :: u32
  HL1 :: u32
  IFF :: u32
  IR :: u32
  Status :: u32
  Debug :: u32
  Break :: u32
  Step :: u32
  RAM :: "u16 \<Rightarrow> byte"
  overrun :: bool
  world :: 'w

section \<open>Register halves and digits\<close>

definition LOW_DIGIT :: "u32 \<Rightarrow> u32" where
  "LOW_DIGIT x = x AND 0xf"

definition HIGH_DIGIT :: "u32 \<Rightarrow> u32" where
  "HIGH_DIGIT x = drop_bit 4 x AND 0xf"

definition LOW_REGISTER :: "u32 \<Rightarrow> u32" where
  "LOW_REGISTER x = x AND 0xff"

definition HIGH_REGISTER :: "u32 \<Rightarrow> u32" where
  "HIGH_REGISTER x = signed_drop_bit 8 x AND 0xff"

definition SET_LOW_REGISTER :: "u32 \<Rightarrow> u32 \<Rightarrow> u32" where
  "SET_LOW_REGISTER x v = (x AND 0xff00) OR (v AND 0xff)"

definition SET_HIGH_REGISTER :: "u32 \<Rightarrow> u32 \<Rightarrow> u32" where
  "SET_HIGH_REGISTER x v = (x AND 0xff) OR push_bit 8 (v AND 0xff)"

abbreviation (input) ADDRMASK :: u32 where "ADDRMASK \<equiv> 0xffff"

text \<open>The conversion \<open>(int8)\<close> of a byte that was read, promoted to \<open>int\<close>.\<close>

definition int8 :: "u32 \<Rightarrow> u32" where
  "int8 x = scast (ucast x :: byte)"

section \<open>Flags\<close>

abbreviation (input) FLAG_C :: u32 where "FLAG_C \<equiv> 1"
abbreviation (input) FLAG_N :: u32 where "FLAG_N \<equiv> 2"
abbreviation (input) FLAG_P :: u32 where "FLAG_P \<equiv> 4"
abbreviation (input) FLAG_H :: u32 where "FLAG_H \<equiv> 16"
abbreviation (input) FLAG_Z :: u32 where "FLAG_Z \<equiv> 64"
abbreviation (input) FLAG_S :: u32 where "FLAG_S \<equiv> 128"

definition SETFLAG :: "u32 \<Rightarrow> bool \<Rightarrow> 'w cpu \<Rightarrow> 'w cpu" where
  "SETFLAG f c s = s\<lparr>AF := if c then AF s OR f else AF s AND NOT f\<rparr>"

definition TSTFLAG :: "'w cpu \<Rightarrow> u32 \<Rightarrow> bool" where
  "TSTFLAG s f \<longleftrightarrow> AF s AND f \<noteq> 0"

definition SET_PV :: "u32 \<Rightarrow> u32" where
  "SET_PV cbits = (drop_bit 6 cbits XOR drop_bit 5 cbits) AND 4"

definition SET_PV2 :: "u32 \<Rightarrow> u32 \<Rightarrow> u32" where
  "SET_PV2 temp x = push_bit 2 (of_bool (temp = x))"

text \<open>Increase the refresh counter.\<close>

definition INCR :: "u32 \<Rightarrow> 'w cpu \<Rightarrow> 'w cpu" where
  "INCR val s = s\<lparr>IR := (IR s AND NOT 0x3f) OR ((IR s + val) AND 0x3f)\<rparr>"

section \<open>Memory\<close>

text \<open>\<open>RAM[a] = v\<close> (\<open>_RamWrite\<close> with \<open>RAM_FAST\<close>).\<close>

definition RamWrite :: "u32 \<Rightarrow> u32 \<Rightarrow> 'w cpu \<Rightarrow> 'w cpu" where
  "RamWrite a v s =
     (if a < 0x10000 then s\<lparr>RAM := (RAM s)(ucast a := ucast v)\<rparr> else s\<lparr>overrun := True\<rparr>)"

definition GET_BYTE :: "'w cpu \<Rightarrow> u32 \<Rightarrow> u32" where
  "GET_BYTE s a = ucast (RAM s (ucast (a AND ADDRMASK)))"

definition PUT_BYTE :: "u32 \<Rightarrow> u32 \<Rightarrow> 'w cpu \<Rightarrow> 'w cpu" where
  "PUT_BYTE a v s = RamWrite (a AND ADDRMASK) v s"

definition GET_WORD :: "'w cpu \<Rightarrow> u32 \<Rightarrow> u32" where
  "GET_WORD s a = GET_BYTE s a OR push_bit 8 (GET_BYTE s (a + 1))"

definition PUT_WORD :: "u32 \<Rightarrow> u32 \<Rightarrow> 'w cpu \<Rightarrow> 'w cpu" where
  "PUT_WORD a v s = RamWrite (a + 1) (drop_bit 8 v) (RamWrite a v s)"

definition PUSH :: "u32 \<Rightarrow> 'w cpu \<Rightarrow> 'w cpu" where
  "PUSH x s =
     (let s = s\<lparr>SP := SP s - 1\<rparr>; s = PUT_BYTE (SP s) (drop_bit 8 x) s;
          s = s\<lparr>SP := SP s - 1\<rparr>
      in PUT_BYTE (SP s) x s)"

text \<open>\<open>POP(x)\<close>: the value for \<open>x\<close>, and the state with \<open>SP\<close> moved.\<close>

definition POP :: "'w cpu \<Rightarrow> u32 \<times> 'w cpu" where
  "POP s =
     (let y = GET_BYTE s (SP s); s = s\<lparr>SP := SP s + 1\<rparr>;
          x = y + push_bit 8 (GET_BYTE s (SP s)); s = s\<lparr>SP := SP s + 1\<rparr>
      in (x, s))"

definition JPC :: "bool \<Rightarrow> 'w cpu \<Rightarrow> 'w cpu" where
  "JPC cond s = (if cond then s\<lparr>PC := GET_WORD s (PC s)\<rparr> else s\<lparr>PC := PC s + 2\<rparr>)"

definition CALLC :: "bool \<Rightarrow> 'w cpu \<Rightarrow> 'w cpu" where
  "CALLC cond s =
     (if cond then (let adrr = GET_WORD s (PC s); s = PUSH (PC s + 2) s in s\<lparr>PC := adrr\<rparr>)
      else s\<lparr>PC := PC s + 2\<rparr>)"

section \<open>Input and output\<close>

text \<open>
  The operating system calls of the emulated machine. \<open>left_first\<close> settles the one place where the
  order of evaluation matters: \<open>IN A,(nn)\<close> reads \<open>AF\<close> and calls \<open>cpu_in\<close> in the same expression.
\<close>

record 'w host =
  bdos :: "'w cpu \<Rightarrow> 'w cpu"
  bios :: "'w cpu \<Rightarrow> 'w cpu"
  left_first :: bool

definition HardwareOut :: "u32 \<Rightarrow> u32 \<Rightarrow> 'w cpu \<Rightarrow> 'w cpu" where
  "HardwareOut Port Value s = s"

definition HardwareIn :: "u32 \<Rightarrow> u32" where
  "HardwareIn Port = 0"

definition cpu_out :: "'w host \<Rightarrow> u32 \<Rightarrow> u32 \<Rightarrow> 'w cpu \<Rightarrow> 'w cpu" where
  "cpu_out h Port Value s = (if Port = 0xFF then bios h s else HardwareOut Port Value s)"

definition cpu_in :: "'w host \<Rightarrow> u32 \<Rightarrow> 'w cpu \<Rightarrow> u32 \<times> 'w cpu" where
  "cpu_in h Port s =
     (if Port = 0xFF then (let s = bdos h s in (HIGH_REGISTER (AF s), s)) else (HardwareIn Port, s))"

definition Z80reset :: "'w cpu \<Rightarrow> 'w cpu" where
  "Z80reset s = s\<lparr>PC := 0, IFF := 0, IR := 0, Status := 0, Debug := 0, Break := - 1, Step := - 1\<rparr>"

end
