(* ===== verification/Cpm_State.thy ===== *)
theory Cpm_State
  imports Z80_State "HOL-Library.AList" "HOL-Library.List_Lexorder"
begin

text \<open>
  What the CP/M side of the emulator keeps outside of the processor: the globals of
  \<open>src/lib/runcpm/globals.h\<close>, \<open>console.h\<close> and \<open>abstraction_fujinet.h\<close>, the console, and the files on the
  SD card. The record is the \<open>world\<close> of the Z80 state, so an operation here is a function on the
  complete machine.

  A C string is the list of its bytes without the terminator. The console is the list of keys still
  to be typed and the list of bytes sent; waiting for a key when none will come sets \<open>stuck\<close>, and so
  does a loop that does not end. Closing a null file pointer sets \<open>crashed\<close>. A write behind the 64 KiB
  block, or behind a name buffer, sets \<open>overrun\<close>; \<open>beyond\<close> is what the memory behind the block holds.
  The state after one of the three flags is set has no meaning.
\<close>

section \<open>Files\<close>

type_synonym path = "byte list"

text \<open>Files with their contents in the order in which \<open>readdir\<close> gives them, and the directories.\<close>

record fsys =
  files :: "(path \<times> byte list) list"
  dirs :: "path list"

text \<open>\<open>fsdir_entry\<close>\<close>

record entry =
  e_name :: "byte list"
  e_isDir :: bool
  e_size :: u32

section \<open>Globals\<close>

record cpm =
  filename :: "byte list"
  newname :: "byte list"
  fcbname :: "byte list"
  pattern :: "byte list"
  dmaAddr :: u16
  oDrive :: byte
  cDrive :: byte
  userCode :: byte
  roVector :: u16
  loginVector :: u16
  allUsers :: bool
  allExtents :: bool
  currFindUser :: byte
  blockShift :: byte
  blockMask :: byte
  extentMask :: byte
  firstBlockAfterDir :: u16
  numAllocBlocks :: u16
  extentsPerDirEntry :: byte
  physicalExtentBytes :: u16
  findNextDirName :: "byte list"
  fileRecords :: u16
  fileExtents :: u16
  fileExtentsUsed :: u16
  firstFreeAllocBlock :: u16
  mask8bit :: byte
  lastLine :: "byte list"
  fs :: fsys
  dirEntries :: "entry list"
  host_stat :: "path \<Rightarrow> int"
  keys :: "byte list"
  screen :: "byte list"
  printer :: "byte list"
  beyond :: "nat \<Rightarrow> byte"
  stuck :: bool
  crashed :: bool

type_synonym machine = "cpm cpu"

definition cpm_upd :: "(cpm \<Rightarrow> cpm) \<Rightarrow> machine \<Rightarrow> machine" where
  "cpm_upd f s = s\<lparr>world := f (world s)\<rparr>"

section \<open>Characters\<close>

definition str :: "string \<Rightarrow> byte list" where
  "str = map of_char"

definition toupper :: "byte \<Rightarrow> byte" where
  "toupper c = (if 0x61 \<le> c \<and> c \<le> 0x7a then c - 32 else c)"

definition tohex :: "byte \<Rightarrow> byte" where
  "tohex x = (if x < 10 then x + 48 else x + 87)"

text \<open>\<open>FOLDERCHAR\<close>\<close>

abbreviation (input) slash :: byte where "slash \<equiv> 0x2f"

definition at :: "byte list \<Rightarrow> nat \<Rightarrow> byte" where
  "at xs i = (if i < length xs then xs ! i else 0)"

section \<open>Memory\<close>

text \<open>\<open>RAM[a]\<close> for an index that was not masked.\<close>

definition rd :: "machine \<Rightarrow> nat \<Rightarrow> byte" where
  "rd s a = (if a < 65536 then RAM s (of_nat a) else beyond (world s) (a - 65536))"

definition wr :: "nat \<Rightarrow> byte \<Rightarrow> machine \<Rightarrow> machine" where
  "wr a v s = (if a < 65536 then s\<lparr>RAM := (RAM s)(of_nat a := v)\<rparr> else s\<lparr>overrun := True\<rparr>)"

text \<open>\<open>_RamRead16\<close> and \<open>_RamWrite16\<close>\<close>

definition rd16 :: "machine \<Rightarrow> nat \<Rightarrow> u16" where
  "rd16 s a = push_bit 8 (ucast (rd s (a mod 65536 + 1))) OR ucast (rd s (a mod 65536))"

definition wr16 :: "nat \<Rightarrow> u16 \<Rightarrow> machine \<Rightarrow> machine" where
  "wr16 a v s = wr (a + 1) (ucast (drop_bit 8 v)) (wr a (ucast v) s)"

text \<open>Bytes at consecutive addresses.\<close>

fun put_bytes :: "nat \<Rightarrow> byte list \<Rightarrow> machine \<Rightarrow> machine" where
  "put_bytes a [] s = s"
| "put_bytes a (b # bs) s = put_bytes (a + 1) bs (wr a b s)"

definition get_bytes :: "machine \<Rightarrow> nat \<Rightarrow> nat \<Rightarrow> byte list" where
  "get_bytes s a n = map (rd s) [a..<a + n]"

section \<open>Console\<close>

text \<open>\<open>_kbhit\<close>, \<open>_getch\<close>, \<open>_getche\<close>, \<open>_putch\<close>; the telnet copy (\<open>teeMode\<close>) is never switched on.\<close>

definition kbhit :: "machine \<Rightarrow> bool" where
  "kbhit s \<longleftrightarrow> keys (world s) \<noteq> []"

definition getch :: "machine \<Rightarrow> byte \<times> machine" where
  "getch s =
     (case keys (world s) of
        [] \<Rightarrow> (0, cpm_upd (\<lambda>w. w\<lparr>stuck := True\<rparr>) s)
      | k # ks \<Rightarrow> (k AND 0x7f, cpm_upd (\<lambda>w. w\<lparr>keys := ks\<rparr>) s))"

definition serial_write :: "byte \<Rightarrow> machine \<Rightarrow> machine" where
  "serial_write c s = cpm_upd (\<lambda>w. w\<lparr>screen := screen w @ [c]\<rparr>) s"

definition getche :: "machine \<Rightarrow> byte \<times> machine" where
  "getche s = (let (ch, s) = getch s; ch = ch AND 0x7f in (ch, serial_write ch s))"

definition putch :: "byte \<Rightarrow> machine \<Rightarrow> machine" where
  "putch ch s = serial_write (ch AND 0x7f) s"

definition chready :: "machine \<Rightarrow> byte" where
  "chready s = (if kbhit s then 0xff else 0)"

definition getchNB :: "machine \<Rightarrow> byte \<times> machine" where
  "getchNB s = (if kbhit s then getch s else (0, s))"

definition putcon :: "byte \<Rightarrow> machine \<Rightarrow> machine" where
  "putcon ch s = putch (ch AND mask8bit (world s)) s"

definition puts :: "byte list \<Rightarrow> machine \<Rightarrow> machine" where
  "puts cs s = fold putcon cs s"

end
