(* ===== verification/Cpm_Files.thy ===== *)
theory Cpm_Files
  imports Cpm_State
begin

text \<open>
  The file layer of \<open>src/lib/runcpm/abstraction_fujinet.h\<close> on the SD card class of
  \<open>src/lib/FileSystem/fnFsSD.cpp\<close>. Paths are relative to the base directory of the card. Space on the
  card does not run out, a directory cannot be opened as a file, and \<open>fseek\<close> to a position that is not
  negative succeeds, also behind the end. \<open>host_stat\<close> is what \<open>stat\<close> reports for a path that was not
  prefixed with the base directory (-1 for no such file). The base directory is short enough for
  every path to fit the 64 byte \<open>segment\<close> of \<open>create_path\<close>.
\<close>

section \<open>The card\<close>

definition is_file :: "path \<Rightarrow> fsys \<Rightarrow> bool" where
  "is_file p f \<longleftrightarrow> map_of (files f) p \<noteq> None"

definition content :: "path \<Rightarrow> fsys \<Rightarrow> byte list" where
  "content p f = (case map_of (files f) p of None \<Rightarrow> [] | Some c \<Rightarrow> c)"

definition put_file :: "path \<Rightarrow> byte list \<Rightarrow> fsys \<Rightarrow> fsys" where
  "put_file p c f = f\<lparr>files := AList.update p c (files f)\<rparr>"

definition parent :: "path \<Rightarrow> path" where
  "parent p = rev (tl (dropWhile (\<lambda>c. c \<noteq> slash) (rev p)))"

definition base_name :: "path \<Rightarrow> byte list" where
  "base_name p = rev (takeWhile (\<lambda>c. c \<noteq> slash) (rev p))"

text \<open>A directory may be named with a \<open>/\<close> behind it.\<close>

definition sd_exists :: "path \<Rightarrow> fsys \<Rightarrow> bool" where
  "sd_exists p f \<longleftrightarrow> is_file p f \<or> p \<in> set (dirs f) \<or> (p \<noteq> [] \<and> last p = slash \<and> butlast p \<in> set (dirs f))"

text \<open>Modes \<open>w\<close> and \<open>a\<close> create the file when its directory is there.\<close>

definition can_create :: "path \<Rightarrow> fsys \<Rightarrow> bool" where
  "can_create p f \<longleftrightarrow> parent p \<in> set (dirs f) \<and> p \<notin> set (dirs f) \<and> base_name p \<noteq> []"

definition sd_remove :: "path \<Rightarrow> fsys \<Rightarrow> bool \<times> fsys" where
  "sd_remove p f = (if is_file p f then (True, f\<lparr>files := AList.delete p (files f)\<rparr>) else (False, f))"

definition sd_rename :: "path \<Rightarrow> path \<Rightarrow> fsys \<Rightarrow> bool \<times> fsys" where
  "sd_rename p q f =
     (if is_file p f \<and> can_create q f then
        (True, if p = q then f else put_file q (content p f) (f\<lparr>files := AList.delete p (files f)\<rparr>))
      else (False, f))"

text \<open>\<open>mkdir\<close>; an entry of that name is no error (\<open>EEXIST\<close>).\<close>

definition sd_mkdir :: "path \<Rightarrow> fsys \<Rightarrow> bool \<times> fsys" where
  "sd_mkdir p f =
     (if sd_exists p f then (True, f)
      else if parent p = [] \<or> parent p \<in> set (dirs f) then (True, f\<lparr>dirs := dirs f @ [p]\<rparr>)
      else (False, f))"

text \<open>The directories along a path: a prefix for each \<open>/\<close> but a leading one, and the path itself.\<close>

definition path_prefixes :: "path \<Rightarrow> path list" where
  "path_prefixes p = map (\<lambda>n. take n p) (filter (\<lambda>n. n = length p \<or> p ! n = slash) [1..<length p + 1])"

fun make_dirs :: "path list \<Rightarrow> fsys \<Rightarrow> bool \<times> fsys" where
  "make_dirs [] f = (True, f)"
| "make_dirs (p # ps) f = (let (ok, f) = sd_mkdir p f in if ok then make_dirs ps f else (False, f))"

definition create_path :: "path \<Rightarrow> fsys \<Rightarrow> bool \<times> fsys" where
  "create_path p f = make_dirs (path_prefixes p) f"

text \<open>
  \<open>dir_open\<close> with pattern \<open>*\<close>: directories before files, each sorted without regard to case; hidden
  and special names are left out. The size of an entry is that of a file of its name in the root of
  the card, since \<open>stat\<close> is called without the directory; zero if there is none.
\<close>

definition tolower :: "byte \<Rightarrow> byte" where
  "tolower c = (if 0x41 \<le> c \<and> c \<le> 0x5a then c + 32 else c)"

definition listed :: "byte list \<Rightarrow> bool" where
  "listed n \<longleftrightarrow> n \<noteq> [] \<and> hd n \<noteq> 0x2e \<and> n \<notin> {str ''paper'', str ''fnconfig.ini'', str ''rs232dump''}"

definition root_size :: "byte list \<Rightarrow> fsys \<Rightarrow> u32" where
  "root_size n f = of_nat (length (content (slash # n) f))"

definition sort_entries :: "entry list \<Rightarrow> entry list" where
  "sort_entries = sort_key (\<lambda>e. map (unat \<circ> tolower) (e_name e))"

definition dir_open :: "path \<Rightarrow> fsys \<Rightarrow> entry list" where
  "dir_open p f =
     (if p \<in> set (dirs f) then
        (let names = (\<lambda>l. filter listed (map base_name (filter (\<lambda>q. parent q = p) l)));
             item = (\<lambda>d n. \<lparr>e_name = n, e_isDir = d, e_size = root_size n f\<rparr>)
         in sort_entries (map (item True) (names (dirs f))) @
            sort_entries (map (item False) (names (map fst (files f)))))
      else [])"

section \<open>\<open>_sys_\<close> functions\<close>

definition full_path :: "byte list \<Rightarrow> path" where
  "full_path fn = str ''/CPM/'' @ fn"

definition sys_exists :: "byte list \<Rightarrow> machine \<Rightarrow> bool" where
  "sys_exists fn s = sd_exists (full_path fn) (fs (world s))"

definition sys_select :: "byte list \<Rightarrow> machine \<Rightarrow> bool" where
  "sys_select disk s = sd_exists (full_path disk) (fs (world s))"

definition fs_upd :: "fsys \<Rightarrow> machine \<Rightarrow> machine" where
  "fs_upd f s = cpm_upd (\<lambda>w. w\<lparr>fs := f\<rparr>) s"

definition fclose_null :: "machine \<Rightarrow> machine" where
  "fclose_null s = cpm_upd (\<lambda>w. w\<lparr>crashed := True\<rparr>) s"

definition sys_filesize :: "byte list \<Rightarrow> machine \<Rightarrow> int \<times> machine" where
  "sys_filesize fn s =
     (let p = full_path fn; f = fs (world s) in
      if is_file p f then (int (length (content p f)), s) else (- 1, fclose_null s))"

definition sys_openfile :: "byte list \<Rightarrow> machine \<Rightarrow> bool" where
  "sys_openfile fn s = is_file (full_path fn) (fs (world s))"

definition sys_makefile :: "byte list \<Rightarrow> machine \<Rightarrow> bool \<times> machine" where
  "sys_makefile fn s =
     (let p = full_path fn; f = fs (world s) in
      if is_file p f \<or> can_create p f then (True, fs_upd (put_file p [] f) s) else (False, s))"

definition sys_deletefile :: "byte list \<Rightarrow> machine \<Rightarrow> bool \<times> machine" where
  "sys_deletefile fn s = (let (ok, f) = sd_remove (full_path fn) (fs (world s)) in (ok, fs_upd f s))"

definition sys_renamefile :: "byte list \<Rightarrow> byte list \<Rightarrow> machine \<Rightarrow> bool \<times> machine" where
  "sys_renamefile fn to s =
     (let (ok, f) = sd_rename (full_path fn) (full_path to) (fs (world s)) in (ok, fs_upd f s))"

text \<open>
  \<open>fpos\<close> and the difference \<open>origSize - fpos\<close> are unsigned, and so are the comparisons, so that the
  loop runs from 0 to a count that wrapped.
\<close>

definition extend_count :: "int \<Rightarrow> size_t \<Rightarrow> nat" where
  "extend_count origSize fpos =
     (if word_of_int origSize < fpos then unat (word_of_int origSize - fpos) else 0)"

definition sys_extendfile :: "byte list \<Rightarrow> size_t \<Rightarrow> machine \<Rightarrow> bool \<times> machine" where
  "sys_extendfile fn fpos s =
     (let p = full_path fn; f = fs (world s) in
      if is_file p f \<or> can_create p f then
        (let origSize = host_stat (world s) p in
         (True, fs_upd (put_file p (content p f @ replicate (extend_count origSize fpos) 0) f) s))
      else (False, s))"

text \<open>\<open>fread\<close> of one block of 128 bytes: the block, when it is complete.\<close>

definition read_block :: "byte list \<Rightarrow> nat \<Rightarrow> byte list option" where
  "read_block c pos = (if pos + 128 \<le> length c then Some (take 128 (drop pos c)) else None)"

text \<open>\<open>fwrite\<close> of one block; a gap behind the end reads as zeros.\<close>

definition write_block :: "byte list \<Rightarrow> nat \<Rightarrow> byte list \<Rightarrow> byte list" where
  "write_block c pos data = take pos (c @ replicate (pos - length c) 0) @ data @ drop (pos + length data) c"

definition sys_readseq :: "byte list \<Rightarrow> nat \<Rightarrow> machine \<Rightarrow> byte \<times> machine" where
  "sys_readseq fn fpos s =
     (let p = full_path fn; f = fs (world s) in
      if is_file p f then
        (case read_block (content p f) fpos of
           Some block \<Rightarrow> (0, put_bytes (unat (dmaAddr (world s))) block s)
         | None \<Rightarrow> (1, s))
      else (0x10, s))"

definition sys_write :: "byte list \<Rightarrow> nat \<Rightarrow> machine \<Rightarrow> byte \<times> machine" where
  "sys_write fn fpos s =
     (let p = full_path fn; (ok, s) = sys_extendfile fn (of_nat fpos) s in
      if ok then
        (let f = fs (world s); data = get_bytes s (unat (dmaAddr (world s))) 128
         in (0, fs_upd (put_file p (write_block (content p f) fpos data) f) s))
      else (0xff, s))"

definition sys_writeseq :: "byte list \<Rightarrow> nat \<Rightarrow> machine \<Rightarrow> byte \<times> machine" where
  "sys_writeseq fn fpos s = sys_write fn fpos s"

text \<open>The branches for a failed seek are not taken. The null file pointer is closed.\<close>

definition sys_readrand :: "byte list \<Rightarrow> nat \<Rightarrow> machine \<Rightarrow> byte \<times> machine" where
  "sys_readrand fn fpos s =
     (let p = full_path fn; f = fs (world s) in
      if is_file p f then
        (case read_block (content p f) fpos of
           Some block \<Rightarrow> (0, put_bytes (unat (dmaAddr (world s))) block s)
         | None \<Rightarrow> (1, s))
      else (0x10, fclose_null s))"

definition sys_writerand :: "byte list \<Rightarrow> nat \<Rightarrow> machine \<Rightarrow> byte \<times> machine" where
  "sys_writerand fn fpos s = sys_write fn fpos s"

definition Truncate :: "byte list \<Rightarrow> byte \<Rightarrow> machine \<Rightarrow> machine" where
  "Truncate fn rc s = s"

definition MakeUserDir :: "machine \<Rightarrow> machine" where
  "MakeUserDir s =
     (let w = world s; p = full_path [cDrive w + 0x41, slash, toupper (tohex (userCode w))] in
      if sd_exists p (fs w) then s else fs_upd (snd (create_path p (fs w))) s)"

definition sys_makedisk :: "byte \<Rightarrow> machine \<Rightarrow> byte \<times> machine" where
  "sys_makedisk drive s =
     (if drive < 1 \<or> 16 < drive then (0xff, s)
      else
        (let dFolder = drive + 0x40; p = full_path [dFolder] in
         if sd_exists p (fs (world s)) then (0, s)
         else
           (let (ok, f) = create_path p (fs (world s)); s = fs_upd f s in
            if \<not> ok then (0xfe, s)
            else (0, fs_upd (snd (create_path (full_path [dFolder, slash, 0x30]) (fs (world s)))) s))))"

end
