(* ===== verification/Cpm_Disk.thy ===== *)
theory Cpm_Disk
  imports Cpm_Files "HOL-Library.Signed_Division"
begin

text \<open>
  The disk functions of \<open>src/lib/runcpm/disk.h\<close>, with the directory search of
  \<open>abstraction_fujinet.h\<close>. A file control block is addressed as in the code, as bytes of the emulated
  memory: \<open>dr\<close> at offset 0, the name at 1 to 8, the type at 9 to 11, then \<open>ex\<close>, \<open>s1\<close>, \<open>s2\<close>, \<open>rc\<close>, 16 bytes of
  allocation, \<open>cr\<close>, \<open>r0\<close>, \<open>r1\<close>, \<open>r2\<close>.
\<close>

abbreviation (input) F_ex :: "u16 \<Rightarrow> nat" where "F_ex a \<equiv> unat a + 12"
abbreviation (input) F_s1 :: "u16 \<Rightarrow> nat" where "F_s1 a \<equiv> unat a + 13"
abbreviation (input) F_s2 :: "u16 \<Rightarrow> nat" where "F_s2 a \<equiv> unat a + 14"
abbreviation (input) F_rc :: "u16 \<Rightarrow> nat" where "F_rc a \<equiv> unat a + 15"
abbreviation (input) F_al :: "u16 \<Rightarrow> nat" where "F_al a \<equiv> unat a + 16"
abbreviation (input) F_cr :: "u16 \<Rightarrow> nat" where "F_cr a \<equiv> unat a + 32"
abbreviation (input) F_r0 :: "u16 \<Rightarrow> nat" where "F_r0 a \<equiv> unat a + 33"
abbreviation (input) F_r1 :: "u16 \<Rightarrow> nat" where "F_r1 a \<equiv> unat a + 34"
abbreviation (input) F_r2 :: "u16 \<Rightarrow> nat" where "F_r2 a \<equiv> unat a + 35"

text \<open>\<open>BDOSpage\<close>, \<open>tmpFCB\<close>, \<open>BatchFCB\<close>\<close>

abbreviation (input) BDOSpage :: u16 where "BDOSpage \<equiv> 60672"
abbreviation (input) tmpFCB :: u16 where "tmpFCB \<equiv> 60736"
abbreviation (input) BatchFCB :: u16 where "BatchFCB \<equiv> 60772"
abbreviation (input) DSKByte :: nat where "DSKByte \<equiv> 4"

abbreviation (input) question :: byte where "question \<equiv> 0x3f"

section \<open>Errors and drives\<close>

datatype disk_error = errWRITEPROT | errSELECT

definition error :: "disk_error \<Rightarrow> machine \<Rightarrow> machine" where
  "error e s =
     (let s = puts ([0x0d, 0x0a] @ str ''Bdos Err on '') s;
          s = putcon (0x41 + cDrive (world s)) s;
          s = puts (str '': '') s;
          s = puts (case e of errWRITEPROT \<Rightarrow> str ''R/O'' | errSELECT \<Rightarrow> str ''Select'') s;
          (ch, s) = getch s;
          s = s\<lparr>Status := ucast ch\<rparr>;
          s = puts [0x0d, 0x0a] s;
          d = rd s DSKByte AND 0x0f;
          s = cpm_upd (\<lambda>w. w\<lparr>cDrive := d, oDrive := d\<rparr>) s
      in s\<lparr>Status := 2\<rparr>)"

text \<open>The result is 0 or 0xff; \<open>ok\<close> is the test \<open>!_SelectDisk(...)\<close>.\<close>

definition SelectDisk :: "byte \<Rightarrow> machine \<Rightarrow> byte \<times> machine" where
  "SelectDisk dr s =
     (let dr = (if dr = 0 \<or> dr = question then cDrive (world s) else dr - 1);
          disk = 0x41 + dr
      in if sys_select [disk] s then
           (0, cpm_upd (\<lambda>w. w\<lparr>loginVector := loginVector w OR push_bit (unat (disk - 0x41)) 1\<rparr>) s)
         else (0xff, error errSELECT s))"

text \<open>The macro \<open>RW\<close>: the current drive is set to read-only.\<close>

definition read_only :: "machine \<Rightarrow> bool" where
  "read_only s = bit (roVector (world s)) (unat (cDrive (world s)))"

section \<open>Names\<close>

text \<open>
  The characters a name or type field gives, and whether a question mark is among them. A host name is the list of
  the bytes stored. They contain no NUL, except that a drive number whose letter wraps around to 0 (0xc0 in a
  control block) makes the C string end there; such a number is outside of what the lists represent.
\<close>

definition fcb_char :: "byte \<Rightarrow> byte" where
  "fcb_char b = (let c = b AND 0x7f in if c = slash then 0x5f else c)"

definition fcb_part :: "byte list \<Rightarrow> byte list" where
  "fcb_part bs = map toupper (filter (\<lambda>c. 32 < c) (map fcb_char bs))"

definition FCBtoHostname :: "u16 \<Rightarrow> machine \<Rightarrow> bool \<times> byte list" where
  "FCBtoHostname fcbaddr s =
     (let w = world s; dr = rd s (unat fcbaddr);
          fn = get_bytes s (unat fcbaddr + 1) 8; tp = get_bytes s (unat fcbaddr + 9) 3;
          drive = (if dr \<noteq> 0 \<and> dr \<noteq> question then (dr - 1) + 0x41 else cDrive w + 0x41);
          dir = [drive, slash, toupper (tohex (userCode w)), slash]
      in if dr \<noteq> question then
           (let ext = fcb_part tp in
            (question \<notin> set (map fcb_char (fn @ tp)), dir @ fcb_part fn @ (if ext = [] then [] else 0x2e # ext)))
         else (False, dir @ replicate 8 question @ 0x2e # replicate 3 question))"

definition set_filename :: "u16 \<Rightarrow> machine \<Rightarrow> machine" where
  "set_filename fcbaddr s = cpm_upd (\<lambda>w. w\<lparr>filename := snd (FCBtoHostname fcbaddr s)\<rparr>) s"

text \<open>A host name without drive and user folder, as its two parts.\<close>

definition host_parts :: "byte list \<Rightarrow> byte list \<times> byte list" where
  "host_parts n =
     (let n = (if at n 1 = slash then drop 4 n else n);
          b = takeWhile (\<lambda>c. c \<noteq> 0x2e) n
      in (map toupper b, map toupper (drop (length b + 1) n)))"

definition HostnameToFCB :: "u16 \<Rightarrow> byte list \<Rightarrow> machine \<Rightarrow> machine" where
  "HostnameToFCB fcbaddr n s =
     (let (b, e) = host_parts n;
          s = put_bytes (unat fcbaddr + 1) (b @ replicate (8 - length b) 0x20) s
      in put_bytes (unat fcbaddr + 9) (e @ replicate (3 - length e) 0x20) s)"

definition HostnameToFCBname :: "byte list \<Rightarrow> byte list" where
  "HostnameToFCBname n =
     (let (b, e) = host_parts n
      in b @ replicate (8 - length b) 0x20 @ e @ replicate (3 - length e) 0x20)"

definition match :: "byte list \<Rightarrow> byte list \<Rightarrow> bool" where
  "match name pat \<longleftrightarrow> (\<forall>i \<in> set [0..<12]. at pat i = question \<or> at pat i = at name i)"

text \<open>A name put into one of the static buffers.\<close>

definition into_buffer :: "nat \<Rightarrow> byte list \<Rightarrow> machine \<Rightarrow> machine" where
  "into_buffer capacity n s = (if length n < capacity then s else s\<lparr>overrun := True\<rparr>)"

section \<open>Directory search\<close>

text \<open>The allocation bytes of a directory entry: 8-bit or 16-bit block numbers.\<close>

fun put_blocks8 :: "nat \<Rightarrow> nat \<Rightarrow> machine \<Rightarrow> machine" where
  "put_blocks8 a 0 s = s"
| "put_blocks8 a (Suc n) s =
     (let b = firstFreeAllocBlock (world s)
      in put_blocks8 (a + 1) n (cpm_upd (\<lambda>w. w\<lparr>firstFreeAllocBlock := b + 1\<rparr>) (wr a (ucast b) s)))"

fun put_blocks16 :: "nat \<Rightarrow> nat \<Rightarrow> machine \<Rightarrow> machine" where
  "put_blocks16 a 0 s = s"
| "put_blocks16 a (Suc n) s =
     (let b = firstFreeAllocBlock (world s); s = wr a (ucast (b AND 0xff)) s; s = wr (a + 1) (ucast (drop_bit 8 b)) s
      in put_blocks16 (a + 2) n (cpm_upd (\<lambda>w. w\<lparr>firstFreeAllocBlock := b + 1\<rparr>) s))"

definition mockupDirEntry :: "machine \<Rightarrow> machine" where
  "mockupDirEntry s =
     (let a = unat (dmaAddr (world s));
          s = put_bytes a (replicate 32 0) s;
          s = HostnameToFCB (dmaAddr (world s)) (findNextDirName (world s)) s;
          s = wr a (if allUsers (world s) then currFindUser (world s) else userCode (world s)) s;
          w = world s; per = int (unat (extentsPerDirEntry w));
          recs = int (unat (fileRecords w)); exts = int (unat (fileExtents w)); used = int (unat (fileExtentsUsed w));
          (blocks, s) =
            (if exts \<le> per then
               (let s = (if exts \<noteq> 0 then
                           wr (a + 15) (of_int (recs - 128 * (exts - 1)))
                             (wr (a + 14) (of_int ((exts - 1 + used) div 32))
                               (wr (a + 12) (of_int ((exts - 1 + used) mod 32)) s))
                         else s);
                    blocks = (of_int (recs div 2 ^ unat (blockShift w)) :: byte) +
                             (if fileRecords w AND ucast (blockMask w) \<noteq> 0 then 1 else 0)
                in (blocks, cpm_upd (\<lambda>w. w\<lparr>fileRecords := 0, fileExtents := 0, fileExtentsUsed := 0\<rparr>) s))
             else
               (let s = wr (a + 15) 128
                          (wr (a + 14) (of_int ((per - 1 + used) div 32))
                            (wr (a + 12) (of_int ((per - 1 + used) mod 32)) s))
                in (if numAllocBlocks w < 256 then 16 else 8,
                    cpm_upd (\<lambda>w. w\<lparr>fileRecords := of_int (recs - 128 * per), fileExtents := of_int (exts - per),
                      fileExtentsUsed := of_int (used + per)\<rparr>) s)))
      in if numAllocBlocks w < 256 then put_blocks8 (a + 16) (unat blocks) s
         else if unat blocks < 128 then put_blocks16 (a + 16) (unat blocks) s
         else cpm_upd (\<lambda>w. w\<lparr>stuck := True\<rparr>) s)"

text \<open>A matching entry: the counters for a directory listing, and the name into \<open>tmpFCB\<close>.\<close>

definition found_entry :: "bool \<Rightarrow> entry \<Rightarrow> machine \<Rightarrow> machine" where
  "found_entry isdir e s =
     (let bytes = e_size e;
          s = (if isdir then
                 (let bytes = (if bytes AND 127 \<noteq> 0 then (bytes AND NOT 127) + 128 else bytes);
                      recs = ucast (bytes div 128) :: u16;
                      exts = recs div 128 + (if recs AND 127 \<noteq> 0 then 1 else 0)
                  in mockupDirEntry (cpm_upd (\<lambda>w. w\<lparr>fileRecords := recs, fileExtents := exts, fileExtentsUsed := 0,
                       firstFreeAllocBlock := firstBlockAfterDir w\<rparr>) s))
               else cpm_upd (\<lambda>w. w\<lparr>fileRecords := 0, fileExtents := 0, fileExtentsUsed := 0,
                      firstFreeAllocBlock := firstBlockAfterDir w\<rparr>) s);
          s = wr (unat tmpFCB) (at (filename (world s)) 0 - 0x40) s
      in HostnameToFCB tmpFCB (findNextDirName (world s)) s)"

fun findnext_loop :: "bool \<Rightarrow> entry list \<Rightarrow> machine \<Rightarrow> byte \<times> machine" where
  "findnext_loop isdir [] s = (0xff, cpm_upd (\<lambda>w. w\<lparr>dirEntries := []\<rparr>) s)"
| "findnext_loop isdir (e # es) s =
     (let s = cpm_upd (\<lambda>w. w\<lparr>dirEntries := es, findNextDirName := e_name e\<rparr>) (into_buffer 17 (e_name e) s) in
      if e_isDir e then findnext_loop isdir es s
      else
        (let n = HostnameToFCBname (e_name e);
             s = cpm_upd (\<lambda>w. w\<lparr>fcbname := n\<rparr>) (into_buffer 13 n s)
         in if match n (pattern (world s)) then (0, found_entry isdir e s)
            else findnext_loop isdir es s))"

definition findnext :: "bool \<Rightarrow> machine \<Rightarrow> byte \<times> machine" where
  "findnext isdir s =
     (if allExtents (world s) \<and> fileRecords (world s) \<noteq> 0 then (0, mockupDirEntry s)
      else findnext_loop isdir (dirEntries (world s)) s)"

definition findfirst :: "bool \<Rightarrow> machine \<Rightarrow> byte \<times> machine" where
  "findfirst isdir s =
     (let f = filename (world s);
          n = HostnameToFCBname f;
          s = into_buffer 13 n s;
          s = cpm_upd (\<lambda>w. w\<lparr>dirEntries := dir_open (full_path [at f 0, slash, at f 2]) (fs w), pattern := n,
            fileRecords := 0, fileExtents := 0, fileExtentsUsed := 0\<rparr>) s
      in findnext isdir s)"

definition findnextallusers :: "bool \<Rightarrow> machine \<Rightarrow> byte \<times> machine" where
  "findnextallusers isdir s = findnext isdir s"

text \<open>The open directory is not changed.\<close>

definition findfirstallusers :: "bool \<Rightarrow> machine \<Rightarrow> byte \<times> machine" where
  "findfirstallusers isdir s =
     (let s = cpm_upd (\<lambda>w. w\<lparr>pattern := replicate 11 question, fileRecords := 0, fileExtents := 0, fileExtentsUsed := 0\<rparr>) s
      in findnextallusers isdir s)"

section \<open>Files\<close>

definition FileSize :: "u16 \<Rightarrow> machine \<Rightarrow> int \<times> machine" where
  "FileSize fcbaddr s =
     (let (r, s) = SelectDisk (rd s (unat fcbaddr)) s in
      if r = 0 then
        (let s = set_filename fcbaddr s;
             (l, s) = sys_filesize (filename (world s)) s;
             r = l smod 128
         in (if r \<noteq> 0 then l + 128 - r else l, s))
      else (- 1, s))"

definition OpenFile :: "u16 \<Rightarrow> machine \<Rightarrow> byte \<times> machine" where
  "OpenFile fcbaddr s =
     (let (r, s) = SelectDisk (rd s (unat fcbaddr)) s in
      if r = 0 then
        (let s = set_filename fcbaddr s in
         if sys_openfile (filename (world s)) s then
           (let (size, s) = FileSize fcbaddr s; len = size sdiv 128;
                s = wr (F_s1 fcbaddr) 0 s;
                s = wr (F_s2 fcbaddr) 0x80 s;
                s = wr (F_rc fcbaddr) (if 128 < len then 128 else of_int len) s
            in (0, put_bytes (F_al fcbaddr) (replicate 16 0) s))
         else (0xff, s))
      else (0xff, s))"

definition CloseFile :: "u16 \<Rightarrow> machine \<Rightarrow> byte \<times> machine" where
  "CloseFile fcbaddr s =
     (let (r, s) = SelectDisk (rd s (unat fcbaddr)) s in
      if r = 0 then
        (if rd s (F_s2 fcbaddr) AND 0x80 = 0 then
           (if \<not> read_only s then
              (let s = set_filename fcbaddr s;
                   s = (if fcbaddr = BatchFCB then Truncate (filename (world s)) (rd s (F_rc fcbaddr)) s else s)
               in (0, s))
            else (0xff, error errWRITEPROT s))
         else (0, s))
      else (0xff, s))"

definition MakeFile :: "u16 \<Rightarrow> machine \<Rightarrow> byte \<times> machine" where
  "MakeFile fcbaddr s =
     (let (r, s) = SelectDisk (rd s (unat fcbaddr)) s in
      if r = 0 then
        (if \<not> read_only s then
           (let s = set_filename fcbaddr s; (ok, s) = sys_makefile (filename (world s)) s in
            if ok then
              (let s = wr (F_ex fcbaddr) 0 s; s = wr (F_s1 fcbaddr) 0 s; s = wr (F_s2 fcbaddr) 0 s;
                   s = wr (F_rc fcbaddr) 0 s;
                   s = put_bytes (F_al fcbaddr) (replicate 16 0) s
               in (0, wr (F_cr fcbaddr) 0 s))
            else (0xff, s))
         else (0xff, error errWRITEPROT s))
      else (0xff, s))"

definition SearchFirst :: "u16 \<Rightarrow> bool \<Rightarrow> machine \<Rightarrow> byte \<times> machine" where
  "SearchFirst fcbaddr isdir s =
     (let (r, s) = SelectDisk (rd s (unat fcbaddr)) s in
      if r = 0 then
        (let s = set_filename fcbaddr s;
             s = cpm_upd (\<lambda>w. w\<lparr>allUsers := (rd s (unat fcbaddr) = question), allExtents := (rd s (F_ex fcbaddr) = question)\<rparr>) s
         in if allUsers (world s) then findfirstallusers isdir s else findfirst isdir s)
      else (0xff, s))"

definition SearchNext :: "u16 \<Rightarrow> bool \<Rightarrow> machine \<Rightarrow> byte \<times> machine" where
  "SearchNext fcbaddr isdir s =
     (let (r, s) = SelectDisk (rd s (unat tmpFCB)) s in
      if r = 0 then (if allUsers (world s) then findnextallusers isdir s else findnext isdir s)
      else (0xff, s))"

text \<open>
  The loop of \<open>_DeleteFile\<close>, entered with the result of a search. When the file that was found cannot be
  removed, the next search finds it again, so the loop does not end. Each other turn removes a file;
  \<open>n\<close> bounds the number of files.
\<close>

fun delete_loop :: "nat \<Rightarrow> u16 \<Rightarrow> byte \<Rightarrow> byte \<Rightarrow> machine \<Rightarrow> byte \<times> machine" where
  "delete_loop n fcbaddr result deleted s =
     (if result = 0xff then (deleted, s)
      else
        (let s = set_filename tmpFCB s; (ok, s) = sys_deletefile (filename (world s)) s in
         case n of
           0 \<Rightarrow> (deleted, cpm_upd (\<lambda>w. w\<lparr>stuck := True\<rparr>) s)
         | Suc n \<Rightarrow>
             (if ok then (let (result, s) = SearchFirst fcbaddr False s in delete_loop n fcbaddr result 0 s)
              else (deleted, cpm_upd (\<lambda>w. w\<lparr>stuck := True\<rparr>) s))))"

declare delete_loop.simps [simp del]

definition DeleteFile :: "u16 \<Rightarrow> machine \<Rightarrow> byte \<times> machine" where
  "DeleteFile fcbaddr s =
     (let (r, s) = SelectDisk (rd s (unat fcbaddr)) s in
      if r = 0 then
        (if \<not> read_only s then
           (let (result, s) = SearchFirst fcbaddr False s
            in delete_loop (length (files (fs (world s)))) fcbaddr result 0xff s)
         else (0xff, error errWRITEPROT s))
      else (0xff, s))"

definition RenameFile :: "u16 \<Rightarrow> machine \<Rightarrow> byte \<times> machine" where
  "RenameFile fcbaddr s =
     (let (r, s) = SelectDisk (rd s (unat fcbaddr)) s in
      if r = 0 then
        (if \<not> read_only s then
           (let s = wr (unat fcbaddr + 16) (rd s (unat fcbaddr)) s;
                s = cpm_upd (\<lambda>w. w\<lparr>newname := snd (FCBtoHostname (fcbaddr + 16) s)\<rparr>) s;
                s = set_filename fcbaddr s;
                (ok, s) = sys_renamefile (filename (world s)) (newname (world s)) s
            in (if ok then 0 else 0xff, s))
         else (0xff, error errWRITEPROT s))
      else (0xff, s))"

section \<open>Records\<close>

text \<open>The byte position of the next sequential record.\<close>

definition seq_pos :: "u16 \<Rightarrow> machine \<Rightarrow> nat" where
  "seq_pos fcbaddr s =
     unat (rd s (F_s2 fcbaddr) AND 15) * 4096 * 128 + unat (rd s (F_ex fcbaddr)) * 128 * 128 +
     unat (rd s (F_cr fcbaddr)) * 128"

text \<open>\<open>++cr\<close> and the carries into \<open>ex\<close> and \<open>s2\<close>.\<close>

definition next_record :: "u16 \<Rightarrow> machine \<Rightarrow> machine" where
  "next_record fcbaddr s =
     (let s = wr (F_cr fcbaddr) (rd s (F_cr fcbaddr) + 1) s;
          s = (if 128 < rd s (F_cr fcbaddr) then
                 wr (F_ex fcbaddr) (rd s (F_ex fcbaddr) + 1) (wr (F_cr fcbaddr) 1 s)
               else s)
      in if 31 < rd s (F_ex fcbaddr) then
           (let s = wr (F_ex fcbaddr) 0 s in wr (F_s2 fcbaddr) (rd s (F_s2 fcbaddr) + 1) s)
         else s)"

definition ReadSeq :: "u16 \<Rightarrow> machine \<Rightarrow> byte \<times> machine" where
  "ReadSeq fcbaddr s =
     (let fpos = seq_pos fcbaddr s; (r, s) = SelectDisk (rd s (unat fcbaddr)) s in
      if r = 0 then
        (let s = set_filename fcbaddr s; (result, s) = sys_readseq (filename (world s)) fpos s in
         if result = 0 then
           (let s = next_record fcbaddr s
            in (if 15 < rd s (F_s2 fcbaddr) AND 0x7f then 0xfe else 0, s))
         else (result, s))
      else (0xff, s))"

definition WriteSeq :: "u16 \<Rightarrow> machine \<Rightarrow> byte \<times> machine" where
  "WriteSeq fcbaddr s =
     (let fpos = seq_pos fcbaddr s; (r, s) = SelectDisk (rd s (unat fcbaddr)) s in
      if r = 0 then
        (if \<not> read_only s then
           (let s = set_filename fcbaddr s; (result, s) = sys_writeseq (filename (world s)) fpos s in
            if result = 0 then
              (let s = wr (F_s2 fcbaddr) (rd s (F_s2 fcbaddr) AND 0x7f) s;
                   s = next_record fcbaddr s
               in (if 15 < rd s (F_s2 fcbaddr) then 0xfe else 0, s))
            else (result, s))
         else (0xff, error errWRITEPROT s))
      else (0xff, s))"

definition random_record :: "u16 \<Rightarrow> machine \<Rightarrow> nat" where
  "random_record fcbaddr s =
     unat (rd s (F_r2 fcbaddr)) * 65536 + unat (rd s (F_r1 fcbaddr)) * 256 + unat (rd s (F_r0 fcbaddr))"

definition ReadRand :: "u16 \<Rightarrow> machine \<Rightarrow> byte \<times> machine" where
  "ReadRand fcbaddr s =
     (let record = random_record fcbaddr s; (r, s) = SelectDisk (rd s (unat fcbaddr)) s in
      if r = 0 then
        (let s = set_filename fcbaddr s; (result, s) = sys_readrand (filename (world s)) (record * 128) s in
         if result = 0 \<or> result = 1 \<or> result = 4 then
           (let s = wr (F_cr fcbaddr) (of_nat (record mod 128)) s;
                s = wr (F_ex fcbaddr) (of_nat (record div 128 mod 32)) s;
                m = of_nat (record div 4096 mod 16)
            in (result, wr (F_s2 fcbaddr) (if rd s (F_s2 fcbaddr) AND 0x80 \<noteq> 0 then m OR 0x80 else m) s))
         else (result, s))
      else (0xff, s))"

definition WriteRand :: "u16 \<Rightarrow> machine \<Rightarrow> byte \<times> machine" where
  "WriteRand fcbaddr s =
     (let record = random_record fcbaddr s; (r, s) = SelectDisk (rd s (unat fcbaddr)) s in
      if r = 0 then
        (if \<not> read_only s then
           (let s = set_filename fcbaddr s; (result, s) = sys_writerand (filename (world s)) (record * 128) s in
            if result = 0 then
              (let s = wr (F_cr fcbaddr) (of_nat (record mod 128)) s;
                   s = wr (F_ex fcbaddr) (of_nat (record div 128 mod 32)) s
               in (result, wr (F_s2 fcbaddr) (of_nat (record div 4096 mod 16)) s))
            else (result, s))
         else (0xff, error errWRITEPROT s))
      else (0xff, s))"

text \<open>Store a record number in \<open>r0\<close>, \<open>r1\<close>, \<open>r2\<close>.\<close>

definition put_random :: "u16 \<Rightarrow> int \<Rightarrow> machine \<Rightarrow> machine" where
  "put_random fcbaddr count s =
     (let s = wr (F_r0 fcbaddr) (of_int (count mod 256)) s;
          s = wr (F_r1 fcbaddr) (of_int (count div 256 mod 256)) s
      in wr (F_r2 fcbaddr) (of_int (count div 65536 mod 256)) s)"

definition GetFileSize :: "u16 \<Rightarrow> machine \<Rightarrow> byte \<times> machine" where
  "GetFileSize fcbaddr s =
     (let (size, s) = FileSize (ucast (DE s)) s; count = size div 128
      in (0xff, if count \<noteq> - 1 then put_random fcbaddr count s else s))"

definition SetRandom :: "u16 \<Rightarrow> machine \<Rightarrow> byte \<times> machine" where
  "SetRandom fcbaddr s =
     (let count = int (unat (rd s (F_cr fcbaddr) AND 0x7f)) + int (unat (rd s (F_ex fcbaddr) AND 0x1f)) * 128 +
                  int (unat (rd s (F_s2 fcbaddr) AND 15)) * 4096
      in (0, put_random fcbaddr count s))"

section \<open>Users, disks, batch files\<close>

definition SetUser :: "byte \<Rightarrow> machine \<Rightarrow> machine" where
  "SetUser user s =
     (let s = cpm_upd (\<lambda>w. w\<lparr>userCode := user AND 0x1f\<rparr>) s
      in if userCode (world s) < 16 then MakeUserDir s else s)"

definition MakeDisk :: "u16 \<Rightarrow> machine \<Rightarrow> byte \<times> machine" where
  "MakeDisk fcbaddr s = sys_makedisk (rd s (unat fcbaddr)) s"

definition CheckSUB :: "machine \<Rightarrow> byte \<times> machine" where
  "CheckSUB s =
     (let oCode = userCode (world s);
          s = HostnameToFCB tmpFCB (str ''$???????.???'') s;
          s = wr (unat tmpFCB) 1 s;
          (r, s) = SearchFirst tmpFCB False s;
          result = (if r = 0 then 0xff else 0)
      in (result, cpm_upd (\<lambda>w. w\<lparr>userCode := oCode\<rparr>) s))"

end
