(* ===== verification/Cpm_Bdos.thy ===== *)
theory Cpm_Bdos
  imports Cpm_Disk
begin

text \<open>
  \<open>src/lib/runcpm/cpm.h\<close>: the memory image \<open>_PatchCPM\<close> lays out, the BIOS calls and the BDOS calls. The
  build modelled is the Atari one, without \<open>DEBUG\<close>, \<open>USE_PUN\<close>, \<open>USE_LST\<close>, \<open>HASLUA\<close> and board specific calls.
\<close>

abbreviation (input) BDOSjmppage :: nat where "BDOSjmppage \<equiv> 60416"
abbreviation (input) BIOSpage :: nat where "BIOSpage \<equiv> 65280"
abbreviation (input) BIOSjmppage :: nat where "BIOSjmppage \<equiv> 65024"
abbreviation (input) DPBaddr :: nat where "DPBaddr \<equiv> 65344"
abbreviation (input) DPHaddr :: u32 where "DPHaddr \<equiv> 65359"
abbreviation (input) SCBaddr :: u32 where "SCBaddr \<equiv> 60688"
abbreviation (input) CCPaddr :: u32 where "CCPaddr \<equiv> 58368"

section \<open>\<open>_PatchCPM\<close>\<close>

text \<open>One entry of the BIOS jump table and the BIOS page, for \<open>i = 0, 3, ..., 0x33\<close>.\<close>

definition patch_jump :: "nat \<Rightarrow> machine \<Rightarrow> machine" where
  "patch_jump i s = wr16 (BIOSjmppage + i + 1) (of_nat (BIOSpage + i)) (wr (BIOSjmppage + i) 0xc3 s)"

definition patch_bios :: "nat \<Rightarrow> machine \<Rightarrow> machine" where
  "patch_bios i s = wr (BIOSpage + i + 2) 0xc9 (wr (BIOSpage + i + 1) 0xff (wr (BIOSpage + i) 0xd3 s))"

definition disk_parameters :: "byte list" where
  "disk_parameters =
     [64, 0, 5, 0x1f, 1, 0xff, 0x07, 255, 3, 0xff, 0x00, 0, 0, 0x02, 0x00,
      0, 0, 0, 0, 0, 0, 0, 0, 0x80, 0, 0x40, 0xff, 0, 0, 0, 0]"

text \<open>The leading ones of an allocation byte.\<close>

definition leading_ones :: "byte \<Rightarrow> nat" where
  "leading_ones b = length (takeWhile (bit b) [7, 6, 5, 4, 3, 2, 1, 0])"

text \<open>Page zero, the version bytes and the BDOS entry.\<close>

definition patch_bdos :: "machine \<Rightarrow> machine" where
  "patch_bdos s =
     (let s = wr16 1 (of_nat (BIOSjmppage + 3)) (wr 0 0xc3 s);
          s = (if Status s \<noteq> 2 then wr DSKByte 0 (wr 3 0x3d s) else s);
          s = wr16 6 (of_nat (BDOSjmppage + 6)) (wr 5 0xc3 s);
          s = wr16 BDOSjmppage 0x1600 s;
          s = wr16 (BDOSjmppage + 2) 0 s;
          s = wr16 (BDOSjmppage + 4) 0 s;
          s = wr16 (BDOSjmppage + 7) BDOSpage (wr (BDOSjmppage + 6) 0xc3 s)
      in put_bytes (unat BDOSpage) [0xdb, 0xff, 0xc9] s)"

definition PatchCPM :: "machine \<Rightarrow> machine" where
  "PatchCPM s =
     (let s = patch_bdos s;
          s = fold patch_jump [0, 3, 6, 9, 12, 15, 18, 21, 24, 27, 30, 33, 36, 39, 42, 45, 48, 51] s;
          s = fold patch_bios [0, 3, 6, 9, 12, 15, 18, 21, 24, 27, 30, 33, 36, 39, 42, 45, 48, 51] s;
          s = put_bytes DPBaddr (take 15 disk_parameters) s;
          s = cpm_upd (\<lambda>w. w\<lparr>blockShift := rd s (DPBaddr + 2), blockMask := rd s (DPBaddr + 3),
                extentMask := rd s (DPBaddr + 4), numAllocBlocks := rd16 s (DPBaddr + 5) + 1,
                extentsPerDirEntry := rd s (DPBaddr + 4) + 1\<rparr>) s;
          s = put_bytes (DPBaddr + 15) (drop 15 disk_parameters) s;
          n = leading_ones (rd s (DPBaddr + 9)) +
              (if rd s (DPBaddr + 9) = 0xff then leading_ones (rd s (DPBaddr + 10)) else 0)
      in cpm_upd (\<lambda>w. w\<lparr>firstBlockAfterDir := of_nat n,
           physicalExtentBytes := 0x4000 * (ucast (extentMask w) + 1)\<rparr>) s)"

section \<open>BIOS\<close>

definition set_A :: "u32 \<Rightarrow> machine \<Rightarrow> machine" where
  "set_A v s = s\<lparr>AF := SET_HIGH_REGISTER (AF s) v\<rparr>"

definition Bios :: "machine \<Rightarrow> machine" where
  "Bios s =
     (let ch = LOW_REGISTER (PCX s) in
      if ch = 0x00 then s\<lparr>Status := 1\<rparr>
      else if ch = 0x03 then s\<lparr>Status := 2\<rparr>
      else if ch = 0x06 then set_A (ucast (chready s)) s
      else if ch = 0x09 then (let (c, s) = getch s in set_A (ucast c) s)
      else if ch = 0x0c then putcon (ucast (LOW_REGISTER (BC s))) s
      else if ch = 0x15 then set_A 0x1a s
      else if ch = 0x1b then
        (if sys_select [0x41 + ucast (LOW_REGISTER (BC s))] s then s\<lparr>HL := DPHaddr\<rparr> else s\<lparr>HL := 0\<rparr>)
      else if ch = 0x24 then
        cpm_upd (\<lambda>w. w\<lparr>dmaAddr := ucast (BC s)\<rparr>) (s\<lparr>HL := BC s\<rparr>)
      else if ch = 0x27 then set_A 0 s
      else if ch = 0x2a then set_A 0 s
      else if ch = 0x2d then set_A 0xff s
      else if ch = 0x30 then s\<lparr>HL := BC s\<rparr>
      else if ch = 0x33 then s\<lparr>Status := 3\<rparr>
      else s)"

section \<open>Console calls\<close>

lemma DE_serial_write [simp]: "DE (serial_write c s) = DE s"
  by (simp add: serial_write_def cpm_upd_def)

lemma DE_putcon [simp]: "DE (putcon c s) = DE s"
  by (simp add: putcon_def putch_def)

text \<open>\<open>OUT_STRING\<close>. The address is not masked: behind the block there is nothing to print.\<close>

function out_string :: "machine \<Rightarrow> machine" where
  "out_string s =
     (if DE s < 0x10000 then
        (let ch = RAM s (ucast (DE s)); s = s\<lparr>DE := DE s + 1\<rparr>
         in if ch \<noteq> 0x24 then out_string (putcon ch s) else s)
      else s\<lparr>overrun := True\<rparr>)"
  by auto
termination
proof (relation "measure (\<lambda>s. 0x10000 - unat (DE s))")
  fix s x xa
  assume "DE (s :: machine) < 0x10000" "x = RAM s (ucast (DE s))" "xa = s\<lparr>DE := DE s + 1\<rparr>"
  moreover have "unat (DE s + 1) = unat (DE s) + 1" if "unat (DE s) < 0x10000"
    using that unat_add_lem [of "DE s" 1] by simp
  ultimately show "(putcon x xa, s) \<in> measure (\<lambda>s. 0x10000 - unat (DE s))"
    by (simp add: word_less_nat_alt)
qed simp

declare out_string.simps [simp del]

text \<open>Copy \<open>n\<close> bytes one by one, both addresses moving by \<open>st\<close>.\<close>

fun shift_bytes :: "nat \<Rightarrow> u16 \<Rightarrow> u16 \<Rightarrow> u16 \<Rightarrow> machine \<Rightarrow> machine" where
  "shift_bytes 0 st dst src s = s"
| "shift_bytes (Suc n) st dst src s =
     shift_bytes n st (dst + st) (src + st) (s\<lparr>RAM := (RAM s)(dst := RAM s src)\<rparr>)"

text \<open>
  What a key does to the line: the new number of characters and the numbers of backspaces before, of
  characters to retype and of backspaces after. \<open>idx\<close> is the address of the first character.
\<close>

record edit =
  chrsCnt :: byte
  preBS :: byte
  reType :: byte
  postBS :: byte

definition edit_key :: "u16 \<Rightarrow> byte \<Rightarrow> byte \<Rightarrow> byte \<Rightarrow> machine \<Rightarrow> edit \<times> machine" where
  "edit_key idx chr cnt col s =
     (let e = \<lparr>chrsCnt = cnt, preBS = 0, reType = 0, postBS = 0\<rparr>;
          bell = putcon 7 s;
          rest = cnt - col; n = unat rest;
          here = idx + ucast col
      in if chr = 1 then (if 0 < col then (e\<lparr>preBS := 1\<rparr>, s) else (e, bell))
         else if chr = 2 then (if col \<noteq> 0 then (e\<lparr>preBS := col\<rparr>, s) else (e\<lparr>reType := rest\<rparr>, s))
         else if chr = 5 then (e\<lparr>preBS := col, reType := cnt, postBS := cnt\<rparr>, puts [0x0d, 0x0a] s)
         else if chr = 6 then (if col < cnt then (e\<lparr>reType := 1\<rparr>, s) else (e, bell))
         else if chr = 7 then
           (if col < cnt then
              (e\<lparr>chrsCnt := cnt - 1, reType := rest, postBS := rest\<rparr>, shift_bytes (n - 1) 1 here (here + 1) s)
            else (e, bell))
         else if chr = 0x08 \<or> chr = 0x7f then
           (if 0 < col then
              (if col < cnt then
                 (e\<lparr>chrsCnt := cnt - 1, preBS := 1, reType := rest + 1, postBS := rest + 1\<rparr>,
                  shift_bytes n 1 (here - 1) here s)
               else (e\<lparr>chrsCnt := cnt - 1, preBS := 1, reType := 1, postBS := 1\<rparr>, s))
            else (e, bell))
         else if chr = 0x0b then
           (if col < cnt then (e\<lparr>chrsCnt := col, reType := rest, postBS := rest\<rparr>, s) else (e, bell))
         else if chr = 18 then
           (e\<lparr>preBS := col, reType := cnt, postBS := rest\<rparr>, puts [0x23, 8, 0x0d, 0x0a] s)
         else if chr = 21 then (e\<lparr>chrsCnt := 0, preBS := col\<rparr>, puts [0x23, 8, 0x0d, 0x0a] s)
         else if chr = 23 then
           (if col = 0 then
              (let last = lastLine (world s); len = at last 0 in
               if len \<noteq> 0 then
                 (if cnt = 0xff then (e, cpm_upd (\<lambda>w. w\<lparr>stuck := True\<rparr>) s)
                  else
                    (let s = fold (\<lambda>j s. s\<lparr>RAM := (RAM s)(idx - 1 + of_nat j := at last j)\<rparr>) [0..<unat cnt + 1] s;
                         m = (if len < cnt then cnt else len)
                     in (e\<lparr>chrsCnt := len, reType := m, postBS := m\<rparr>, s)))
               else (e, bell))
            else if col < cnt then (e\<lparr>reType := rest\<rparr>, s)
            else (e, s))
         else if chr = 24 then
           (if 0 < col then
              (e\<lparr>chrsCnt := cnt - col, preBS := col, reType := cnt, postBS := cnt\<rparr>, shift_bytes n 1 idx here s)
            else (e, bell))
         else if 0x20 \<le> chr \<and> chr \<le> 0x7e then
           (let end = idx + ucast cnt;
                s = (if col < cnt then shift_bytes n (- 1) end (end - 1) s else s);
                s = s\<lparr>RAM := (RAM s)(here := chr)\<rparr>
            in (e\<lparr>chrsCnt := cnt + 1, reType := rest + 1, postBS := rest\<rparr>, s))
         else (e, s))"

fun backspaces :: "nat \<Rightarrow> byte \<Rightarrow> machine \<Rightarrow> byte \<times> machine" where
  "backspaces 0 col s = (col, s)"
| "backspaces (Suc n) col s = backspaces n (col - 1) (putcon 8 s)"

fun retype :: "nat \<Rightarrow> u16 \<Rightarrow> byte \<Rightarrow> byte \<Rightarrow> machine \<Rightarrow> byte \<times> machine" where
  "retype 0 idx cnt col s = (col, s)"
| "retype (Suc n) idx cnt col s =
     (let ch = (if col < cnt then RAM s (idx + ucast col) else 0x20)
      in retype n idx cnt (col + 1) (putcon ch s))"

text \<open>
  The editing loop, on the keys still to be typed (nothing else in it takes a key). The result is the
  number of characters.
\<close>

fun readstr_loop :: "byte list \<Rightarrow> u16 \<Rightarrow> byte \<Rightarrow> byte \<Rightarrow> byte \<Rightarrow> machine \<Rightarrow> byte \<times> machine" where
  "readstr_loop [] idx mx cnt col s = (cnt, cpm_upd (\<lambda>w. w\<lparr>stuck := True\<rparr>) s)"
| "readstr_loop (k # ks) idx mx cnt col s =
     (let s = cpm_upd (\<lambda>w. w\<lparr>keys := ks\<rparr>) s; chr = k AND 0x7f in
      if chr = 3 \<and> cnt = 0 then (cnt, (puts (str ''^C'') s)\<lparr>Status := 2\<rparr>)
      else if chr = 0x0a \<or> chr = 0x0d then (cnt, s)
      else
        (let (e, s) = edit_key idx chr cnt col s;
             (col, s) = backspaces (unat (preBS e)) col s;
             (col, s) = retype (unat (reType e)) idx (chrsCnt e) col s;
             (col, s) = backspaces (unat (postBS e)) col s
         in if chrsCnt e = mx then (chrsCnt e, s) else readstr_loop ks idx mx (chrsCnt e) col s))"

definition readstr :: "machine \<Rightarrow> machine" where
  "readstr s =
     (let chrsMaxIdx = ucast (DE s) :: u16; chrsCntIdx = chrsMaxIdx + 1; chrsIdx = chrsCntIdx + 1;
          mx = RAM s chrsMaxIdx;
          (cnt, s) = (if mx \<noteq> 0 then readstr_loop (keys (world s)) chrsIdx mx 0 0 s else (0, s));
          s = s\<lparr>RAM := (RAM s)(chrsCntIdx := cnt)\<rparr>;
          s = (if cnt = 0 then s
               else if cnt = 0xff then cpm_upd (\<lambda>w. w\<lparr>stuck := True\<rparr>) s
               else
                 (let n = unat cnt + 1; line = map (\<lambda>j. RAM s (chrsCntIdx + of_nat j)) [0..<n]
                  in cpm_upd (\<lambda>w. w\<lparr>lastLine := line @ drop n (lastLine w)\<rparr>) s))
      in putcon 0x0d s)"

section \<open>BDOS\<close>

text \<open>A call that leaves a byte in \<open>HL\<close>.\<close>

definition in_HL :: "byte \<times> machine \<Rightarrow> machine" where
  "in_HL r = (snd r)\<lparr>HL := ucast (fst r)\<rparr>"

definition drv_set :: "machine \<Rightarrow> machine" where
  "drv_set s =
     (let e = ucast (LOW_REGISTER (DE s)) :: byte;
          s = cpm_upd (\<lambda>w. w\<lparr>oDrive := cDrive w, cDrive := e\<rparr>) s;
          s = in_HL (SelectDisk (e + 1) s)
      in if HL s = 0 then cpm_upd (\<lambda>w. w\<lparr>oDrive := cDrive w\<rparr>) s
         else if rd s DSKByte AND 0x0f = cDrive (world s) then
           (let s = cpm_upd (\<lambda>w. w\<lparr>cDrive := 0, oDrive := 0\<rparr>) s in wr DSKByte (rd s DSKByte AND 0xf0) s)
         else cpm_upd (\<lambda>w. w\<lparr>cDrive := oDrive w\<rparr>) s)"

definition print_out :: "byte \<Rightarrow> machine \<Rightarrow> machine" where
  "print_out c s = (if c \<noteq> 0x0a then cpm_upd (\<lambda>w. w\<lparr>printer := printer w @ [c]\<rparr>) s else s)"

text \<open>The \<open>switch\<close> of \<open>_Bdos\<close>: \<open>ch\<close> is the function, \<open>E\<close> the low byte of \<open>DE\<close>, \<open>a\<close> \<open>DE\<close> as an address.\<close>

definition bdos_call :: "u32 \<Rightarrow> machine \<Rightarrow> machine" where
  "bdos_call ch s =
     (let E = ucast (LOW_REGISTER (DE s)) :: byte; a = ucast (DE s) :: u16; w = world s in
      if ch = 0 then s\<lparr>Status := 2\<rparr>
      else if ch = 1 then in_HL (getche s)
      else if ch = 2 then putcon E s
      else if ch = 3 then s\<lparr>HL := 0x1a\<rparr>
      else if ch = 5 then print_out E s
      else if ch = 6 then (if E = 0xff then in_HL (getchNB s) else putcon E s)
      else if ch = 7 then s\<lparr>HL := ucast (rd s 3)\<rparr>
      else if ch = 8 then wr 3 E s
      else if ch = 9 then out_string s
      else if ch = 10 then readstr s
      else if ch = 11 then s\<lparr>HL := ucast (chready s)\<rparr>
      else if ch = 12 then s\<lparr>HL := 0x22\<rparr>
      else if ch = 13 then
        in_HL (CheckSUB (cpm_upd (\<lambda>w. w\<lparr>roVector := 0, loginVector := 0, dmaAddr := 0x80, cDrive := 0\<rparr>) s))
      else if ch = 14 then drv_set s
      else if ch = 15 then in_HL (OpenFile a s)
      else if ch = 16 then in_HL (CloseFile a s)
      else if ch = 17 then in_HL (SearchFirst a True s)
      else if ch = 18 then in_HL (SearchNext a True s)
      else if ch = 19 then in_HL (DeleteFile a s)
      else if ch = 20 then in_HL (ReadSeq a s)
      else if ch = 21 then in_HL (WriteSeq a s)
      else if ch = 22 then in_HL (MakeFile a s)
      else if ch = 23 then in_HL (RenameFile a s)
      else if ch = 24 then s\<lparr>HL := ucast (loginVector w)\<rparr>
      else if ch = 25 then s\<lparr>HL := ucast (cDrive w)\<rparr>
      else if ch = 26 then cpm_upd (\<lambda>w. w\<lparr>dmaAddr := a\<rparr>) s
      else if ch = 27 then s\<lparr>HL := SCBaddr\<rparr>
      else if ch = 28 then cpm_upd (\<lambda>w. w\<lparr>roVector := roVector w OR push_bit (unat (cDrive w)) 1\<rparr>) s
      else if ch = 29 then s\<lparr>HL := ucast (roVector w)\<rparr>
      else if ch = 30 then s\<lparr>HL := 0\<rparr>
      else if ch = 31 then s\<lparr>HL := of_nat DPBaddr\<rparr>
      else if ch = 32 then (if E = 0xff then s\<lparr>HL := ucast (userCode w)\<rparr> else SetUser E s)
      else if ch = 33 then in_HL (ReadRand a s)
      else if ch = 34 then in_HL (WriteRand a s)
      else if ch = 35 then in_HL (GetFileSize a s)
      else if ch = 36 then in_HL (SetRandom a s)
      else if ch = 37 then cpm_upd (\<lambda>w. w\<lparr>roVector := roVector w AND NOT a\<rparr>) s
      else if ch = 40 then in_HL (WriteRand a s)
      else if ch = 230 then cpm_upd (\<lambda>w. w\<lparr>mask8bit := E\<rparr>) s
      else if ch = 231 then s\<lparr>HL := 0\<rparr>
      else if ch = 249 then in_HL (MakeDisk a s)
      else if ch = 250 then s\<lparr>HL := 7\<rparr>
      else if ch = 251 then s\<lparr>HL := 0x58\<rparr>
      else if ch = 252 then s\<lparr>HL := 0x26\<rparr>
      else if ch = 253 then s\<lparr>HL := CCPaddr\<rparr>
      else s)"

definition Bdos :: "machine \<Rightarrow> machine" where
  "Bdos s =
     (let ch = LOW_REGISTER (BC s);
          s = s\<lparr>HL := 0\<rparr>;
          s = s\<lparr>BC := SET_LOW_REGISTER (BC s) (LOW_REGISTER (DE s))\<rparr>;
          s = bdos_call ch s;
          s = s\<lparr>BC := SET_HIGH_REGISTER (BC s) (HIGH_REGISTER (HL s))\<rparr>
      in s\<lparr>AF := SET_HIGH_REGISTER (AF s) (LOW_REGISTER (HL s))\<rparr>)"

text \<open>The calls the processor reaches through the ports.\<close>

definition cpm_host :: "bool \<Rightarrow> cpm host" where
  "cpm_host l = \<lparr>bdos = Bdos, bios = Bios, left_first = l\<rparr>"

end
