(* ===== verification/Cpm_Inv.thy ===== *)
theory Cpm_Inv
  imports Cpm_Bdos
begin

text \<open>
  What every BDOS call keeps. The locale states the contract once: a predicate on the machine that the
  primitive steps keep (a memory write, a new value of \<open>HL\<close>, a name from a file control block, ...) is kept
  by every disk function and every BDOS call. It is used for the registers the calls leave alone and for the sizes
  of the static buffers.
\<close>

text \<open>The static buffers with a fixed size.\<close>

definition buffers :: "cpm \<Rightarrow> byte list list" where
  "buffers w = [filename w, newname w, lastLine w, findNextDirName w, fcbname w, pattern w]"

locale machine_inv =
  fixes P :: "machine \<Rightarrow> bool"
  assumes ram: "P s \<Longrightarrow> P (s\<lparr>RAM := m\<rparr>)"
    and flag: "P s \<Longrightarrow> P (s\<lparr>overrun := True\<rparr>)"
    and hl: "P s \<Longrightarrow> P (s\<lparr>HL := v\<rparr>)"
    and de: "P s \<Longrightarrow> P (s\<lparr>DE := v\<rparr>)"
    and status: "P s \<Longrightarrow> P (s\<lparr>Status := v\<rparr>)"
    and other: "P s \<Longrightarrow> (\<And>w. buffers (f w) = buffers w) \<Longrightarrow> P (cpm_upd f s)"
    and name: "P s \<Longrightarrow> P (cpm_upd (\<lambda>w. w\<lparr>filename := snd (FCBtoHostname a s')\<rparr>) s)"
    and new: "P s \<Longrightarrow> P (cpm_upd (\<lambda>w. w\<lparr>newname := snd (FCBtoHostname a s')\<rparr>) s)"
    and line: "P s \<Longrightarrow> length l \<le> 255 \<Longrightarrow> P (cpm_upd (\<lambda>w. w\<lparr>lastLine := l @ drop (length l) (lastLine w)\<rparr>) s)"
    and found: "P s \<Longrightarrow> overrun s \<or> length n < 17 \<Longrightarrow> (\<And>w. buffers (f w) = (buffers w)[3 := n]) \<Longrightarrow> P (cpm_upd f s)"
    and fcb: "P s \<Longrightarrow> overrun s \<or> length n < 13 \<Longrightarrow> (\<And>w. buffers (f w) = (buffers w)[4 := n]) \<Longrightarrow> P (cpm_upd f s)"
    and pat: "P s \<Longrightarrow> overrun s \<or> length n < 13 \<Longrightarrow> (\<And>w. buffers (f w) = (buffers w)[5 := n]) \<Longrightarrow> P (cpm_upd f s)"
begin

lemma let_m: "P a \<Longrightarrow> (\<And>s. P s \<Longrightarrow> P (f s)) \<Longrightarrow> P (Let a f)"
  by simp

lemma let_p: "P (snd p) \<Longrightarrow> (\<And>x s. P s \<Longrightarrow> P (f x s)) \<Longrightarrow> P (Let p (\<lambda>(x, s). f x s))"
  by (cases p) simp

lemma let_x: "(\<And>x. P (f x)) \<Longrightarrow> P (Let a f)"
  by simp

lemma if_m: "P a \<Longrightarrow> P b \<Longrightarrow> P (if c then a else b)"
  by simp

lemma slet_m: "P a \<Longrightarrow> (\<And>s. P s \<Longrightarrow> P (snd (f s))) \<Longrightarrow> P (snd (Let a f))"
  by simp

lemma slet_p: "P (snd p) \<Longrightarrow> (\<And>x s. P s \<Longrightarrow> P (snd (f x s))) \<Longrightarrow> P (snd (Let p (\<lambda>(x, s). f x s)))"
  by (cases p) simp

lemma slet_x: "(\<And>x. P (snd (f x))) \<Longrightarrow> P (snd (Let a f))"
  by simp

lemma sif_m: "P (snd a) \<Longrightarrow> P (snd b) \<Longrightarrow> P (snd (if c then a else b))"
  by simp

lemma spair: "P s \<Longrightarrow> P (snd (x, s))"
  by simp

lemmas vc = let_m let_p let_x if_m slet_m slet_p slet_x sif_m spair

lemma m_wr: "P s \<Longrightarrow> P (wr a v s)"
  by (simp add: wr_def ram flag)

lemma m_put_bytes: "P s \<Longrightarrow> P (put_bytes a bs s)"
  by (induction bs arbitrary: a s) (auto intro: m_wr)

lemma m_serial: "P s \<Longrightarrow> P (serial_write c s)"
  unfolding serial_write_def by (rule other) (simp_all add: buffers_def)

lemma m_putcon: "P s \<Longrightarrow> P (putcon c s)"
  by (simp add: putcon_def putch_def m_serial)

lemma m_puts: "P s \<Longrightarrow> P (puts cs s)"
  unfolding puts_def by (induction cs arbitrary: s) (auto intro: m_putcon)

lemma m_getch: "P s \<Longrightarrow> P (snd (getch s))"
  by (auto simp: getch_def buffers_def split: list.split intro: other)

lemma m_getche: "P s \<Longrightarrow> P (snd (getche s))"
  unfolding getche_def by (intro vc m_serial m_getch)

lemma m_getchNB: "P s \<Longrightarrow> P (snd (getchNB s))"
  by (simp add: getchNB_def m_getch)

lemma m_fs: "P s \<Longrightarrow> P (fs_upd f s)"
  unfolding fs_upd_def by (rule other) (simp_all add: buffers_def)

lemma m_crash: "P s \<Longrightarrow> P (fclose_null s)"
  unfolding fclose_null_def by (rule other) (simp_all add: buffers_def)

lemma m_filename: "P s \<Longrightarrow> P (set_filename a s)"
  unfolding set_filename_def by (rule name)

lemmas prims = m_wr m_put_bytes m_serial m_putcon m_puts m_getch m_getche m_getchNB m_fs m_crash m_filename ram flag hl de status

lemma m_error: "P s \<Longrightarrow> P (error e s)"
  unfolding error_def by (intro vc prims other) (simp_all add: buffers_def)

lemma m_SelectDisk: "P s \<Longrightarrow> P (snd (SelectDisk d s))"
  unfolding SelectDisk_def by (intro vc m_error other) (simp_all add: buffers_def)

lemma m_sys:
  "P s \<Longrightarrow> P (snd (sys_filesize n s))" "P s \<Longrightarrow> P (snd (sys_makefile n s))" "P s \<Longrightarrow> P (snd (sys_deletefile n s))"
  "P s \<Longrightarrow> P (snd (sys_renamefile n n' s))" "P s \<Longrightarrow> P (snd (sys_extendfile n z s))"
  "P s \<Longrightarrow> P (snd (sys_readseq n p s))" "P s \<Longrightarrow> P (snd (sys_readrand n p s))"
  by (auto simp: sys_filesize_def sys_makefile_def sys_deletefile_def sys_renamefile_def sys_extendfile_def
      sys_readseq_def sys_readrand_def Let_def split: option.split prod.split intro: prims)

lemma m_sys_write: "P s \<Longrightarrow> P (snd (sys_write n p s))"
  unfolding sys_write_def by (intro vc m_fs m_sys)

lemma m_MakeUserDir: "P s \<Longrightarrow> P (MakeUserDir s)"
  unfolding MakeUserDir_def by (intro vc m_fs)

lemma m_sys_makedisk: "P s \<Longrightarrow> P (snd (sys_makedisk d s))"
  unfolding sys_makedisk_def by (auto simp: Let_def split: prod.split intro: m_fs)

lemma m_HostnameToFCB: "P s \<Longrightarrow> P (HostnameToFCB a n s)"
  unfolding HostnameToFCB_def by (simp add: Let_def m_put_bytes split: prod.split)

lemma m_into_buffer: "P s \<Longrightarrow> P (into_buffer c n s)"
  by (simp add: into_buffer_def flag)

lemma into_buffer_ok: "overrun (into_buffer c n s) \<or> length n < c"
  by (simp add: into_buffer_def)

lemma m_name_found: "P s \<Longrightarrow> P (cpm_upd (\<lambda>w. w\<lparr>dirEntries := es, findNextDirName := n\<rparr>) (into_buffer 17 n s))"
  by (rule found [OF m_into_buffer into_buffer_ok]) (simp_all add: buffers_def)

lemma m_fcbname: "P s \<Longrightarrow> P (cpm_upd (\<lambda>w. w\<lparr>fcbname := n\<rparr>) (into_buffer 13 n s))"
  by (rule fcb [OF m_into_buffer into_buffer_ok]) (simp_all add: buffers_def)

lemma m_block: "P s \<Longrightarrow> P (cpm_upd (\<lambda>w. w\<lparr>firstFreeAllocBlock := b\<rparr>) s)"
  by (rule other) (simp_all add: buffers_def)

lemma m_put_blocks8: "P s \<Longrightarrow> P (put_blocks8 a n s)"
proof (induction n arbitrary: a s)
  case (Suc n)
  show ?case unfolding put_blocks8.simps by (intro vc Suc m_wr m_block)
qed simp

lemma m_put_blocks16: "P s \<Longrightarrow> P (put_blocks16 a n s)"
proof (induction n arbitrary: a s)
  case (Suc n)
  show ?case unfolding put_blocks16.simps by (intro vc Suc m_wr m_block)
qed simp

lemma m_mockup: "P s \<Longrightarrow> P (mockupDirEntry s)"
  unfolding mockupDirEntry_def by (intro vc m_put_blocks8 m_put_blocks16 m_wr m_put_bytes m_HostnameToFCB other) (simp_all add: buffers_def)

lemma m_found_entry: "P s \<Longrightarrow> P (found_entry d e s)"
  unfolding found_entry_def by (intro vc m_mockup m_wr m_HostnameToFCB other) (simp_all add: buffers_def)

lemma m_findnext_loop: "P s \<Longrightarrow> P (snd (findnext_loop d es s))"
proof (induction es arbitrary: s)
  case Nil
  then show ?case by (auto simp: buffers_def intro: other)
next
  case (Cons e es)
  then show ?case
    unfolding findnext_loop.simps by (intro vc m_found_entry m_name_found m_fcbname) (simp_all add: m_name_found m_fcbname)
qed

lemma m_findnext: "P s \<Longrightarrow> P (snd (findnext d s))"
  unfolding findnext_def by (intro vc m_mockup m_findnext_loop)

lemma m_findfirst: "P s \<Longrightarrow> P (snd (findfirst d s))"
  unfolding findfirst_def Let_def
  by (rule m_findnext, rule pat [OF m_into_buffer into_buffer_ok]) (simp_all add: buffers_def)

lemma m_findfirstallusers: "P s \<Longrightarrow> P (snd (findfirstallusers d s))"
  unfolding findfirstallusers_def findnextallusers_def Let_def
  by (rule m_findnext, rule pat [where n = "replicate 11 question"]) (simp_all add: buffers_def)

lemma m_SearchFirst: "P s \<Longrightarrow> P (snd (SearchFirst a d s))"
  unfolding SearchFirst_def
  by (intro vc m_SelectDisk m_filename m_findfirst m_findfirstallusers other) (simp_all add: buffers_def)

lemma m_SearchNext: "P s \<Longrightarrow> P (snd (SearchNext a d s))"
  unfolding SearchNext_def findnextallusers_def by (intro vc m_SelectDisk m_findnext)

lemmas disk = m_SelectDisk m_error m_filename m_sys m_sys_write m_wr m_put_bytes m_SearchFirst m_SearchNext

lemma m_FileSize: "P s \<Longrightarrow> P (snd (FileSize a s))"
  unfolding FileSize_def by (intro vc disk)

lemma m_OpenFile: "P s \<Longrightarrow> P (snd (OpenFile a s))"
  unfolding OpenFile_def by (intro vc disk m_FileSize)

lemma m_CloseFile: "P s \<Longrightarrow> P (snd (CloseFile a s))"
  unfolding CloseFile_def Truncate_def by (intro vc disk)

lemma m_MakeFile: "P s \<Longrightarrow> P (snd (MakeFile a s))"
  unfolding MakeFile_def by (intro vc disk)

lemma m_delete_loop: "P s \<Longrightarrow> P (snd (delete_loop n a r d s))"
proof (induction n arbitrary: r d s)
  case 0
  then show ?case
    by (subst delete_loop.simps, simp only: nat.case) (intro vc disk other, simp_all add: buffers_def)
next
  case (Suc n)
  show ?case
    by (subst delete_loop.simps, simp only: nat.case) (intro vc disk other Suc.IH Suc.prems, simp_all add: buffers_def)
qed

lemma m_DeleteFile: "P s \<Longrightarrow> P (snd (DeleteFile a s))"
  unfolding DeleteFile_def by (intro vc disk m_delete_loop)

lemma m_RenameFile: "P s \<Longrightarrow> P (snd (RenameFile a s))"
  unfolding RenameFile_def by (intro vc disk new)

lemma m_next_record: "P s \<Longrightarrow> P (next_record a s)"
  unfolding next_record_def by (intro vc m_wr)

lemma m_ReadSeq: "P s \<Longrightarrow> P (snd (ReadSeq a s))"
  unfolding ReadSeq_def by (intro vc disk m_next_record)

lemma m_WriteSeq: "P s \<Longrightarrow> P (snd (WriteSeq a s))"
  unfolding WriteSeq_def sys_writeseq_def by (intro vc disk m_next_record)

lemma m_ReadRand: "P s \<Longrightarrow> P (snd (ReadRand a s))"
  unfolding ReadRand_def by (intro vc disk)

lemma m_WriteRand: "P s \<Longrightarrow> P (snd (WriteRand a s))"
  unfolding WriteRand_def sys_writerand_def by (intro vc disk)

lemma m_put_random: "P s \<Longrightarrow> P (put_random a c s)"
  unfolding put_random_def by (intro vc m_wr)

lemma m_GetFileSize: "P s \<Longrightarrow> P (snd (GetFileSize a s))"
  unfolding GetFileSize_def by (intro vc m_FileSize m_put_random)

lemma m_SetRandom: "P s \<Longrightarrow> P (snd (SetRandom a s))"
  unfolding SetRandom_def by (intro vc m_put_random)

lemma m_SetUser: "P s \<Longrightarrow> P (SetUser u s)"
  unfolding SetUser_def by (intro vc m_MakeUserDir other) (simp_all add: buffers_def)

lemma m_MakeDisk: "P s \<Longrightarrow> P (snd (MakeDisk a s))"
  unfolding MakeDisk_def by (rule m_sys_makedisk)

lemma m_CheckSUB: "P s \<Longrightarrow> P (snd (CheckSUB s))"
  unfolding CheckSUB_def by (intro vc m_SearchFirst m_wr m_HostnameToFCB other) (simp_all add: buffers_def)

lemma m_out_string: "P s \<Longrightarrow> P (out_string s)"
proof (induction s rule: out_string.induct)
  case (1 s)
  then show ?case by (subst out_string.simps) (auto simp: Let_def intro: de flag m_putcon)
qed

lemma m_shift_bytes: "P s \<Longrightarrow> P (shift_bytes n st d a s)"
  by (induction n arbitrary: d a s) (auto intro: ram)

lemma m_fold_ram: "P s \<Longrightarrow> P (fold (\<lambda>j s. s\<lparr>RAM := (RAM s)(a j := v j)\<rparr>) js s)"
  by (induction js arbitrary: s) (auto intro: ram)

lemma m_edit_key: "P s \<Longrightarrow> P (snd (edit_key i c n k s))"
  unfolding edit_key_def
  by (intro vc ram m_shift_bytes m_fold_ram m_putcon m_puts other) (simp_all add: buffers_def)

lemma m_backspaces: "P s \<Longrightarrow> P (snd (backspaces n c s))"
  by (induction n arbitrary: c s) (auto intro: m_putcon)

lemma m_retype: "P s \<Longrightarrow> P (snd (retype n i m c s))"
  by (induction n arbitrary: c s) (auto simp: Let_def intro: m_putcon)

lemma m_readstr_loop: "P s \<Longrightarrow> P (snd (readstr_loop ks i m n c s))"
proof (induction ks arbitrary: n c s)
  case Nil
  then show ?case by (auto simp: buffers_def intro: other)
next
  case (Cons k ks)
  then show ?case
    unfolding readstr_loop.simps
    by (intro vc status m_puts m_edit_key m_backspaces m_retype other) (simp_all add: buffers_def)
qed

lemma m_stuck: "P s \<Longrightarrow> P (cpm_upd (\<lambda>w. w\<lparr>stuck := True\<rparr>) s)"
  by (rule other) (simp_all add: buffers_def)

lemma m_last: "P s \<Longrightarrow> c \<noteq> 0xff \<Longrightarrow>
    P (cpm_upd (\<lambda>w. w\<lparr>lastLine := map g [0..<Suc (unat c)] @ drop (Suc (unat c)) (lastLine w)\<rparr>) s)" for c :: byte
proof -
  assume "P s" "c \<noteq> 0xff"
  then have "unat c \<noteq> 0xff" by (simp add: word_unat_eq_iff)
  moreover have "unat c < 2 ^ LENGTH(8)" by (rule unsigned_less)
  ultimately show ?thesis using line [of s "map g [0..<Suc (unat c)]"] \<open>P s\<close> by (simp del: upt_Suc)
qed

lemma m_readstr: "P s \<Longrightarrow> P (readstr s)"
proof -
  assume s: "P s"
  obtain cnt s1 where e: "(if RAM s (ucast (DE s)) \<noteq> 0
      then readstr_loop (keys (world s)) (ucast (DE s) + 1 + 1) (RAM s (ucast (DE s))) 0 0 s else (0, s)) = (cnt, s1)"
    by fastforce
  have "P s1" using e s m_readstr_loop [of s] by (metis snd_conv)
  then show ?thesis
    unfolding readstr_def Let_def e prod.case
    by (cases "cnt = 0"; cases "cnt = 0xff") (auto intro!: m_putcon ram m_stuck m_last simp del: upt_Suc)
qed

lemma m_in_HL: "P (snd r) \<Longrightarrow> P (in_HL r)"
  unfolding in_HL_def by (rule hl)

lemma m_drv_set: "P s \<Longrightarrow> P (drv_set s)"
  unfolding drv_set_def by (intro vc m_in_HL m_SelectDisk m_wr other) (simp_all add: buffers_def)

lemma m_print_out: "P s \<Longrightarrow> P (print_out c s)"
  unfolding print_out_def by (intro vc other) (simp_all add: buffers_def)

lemma m_bdos_call: "P s \<Longrightarrow> P (bdos_call ch s)"
  unfolding bdos_call_def
  by (intro vc m_in_HL m_drv_set m_print_out m_readstr m_out_string m_CheckSUB m_MakeDisk m_SetUser m_SetRandom
      m_GetFileSize m_WriteRand m_ReadRand m_WriteSeq m_ReadSeq m_RenameFile m_DeleteFile m_MakeFile m_CloseFile
      m_OpenFile m_SearchFirst m_SearchNext m_wr m_putcon m_getche m_getchNB hl status other)
    (simp_all add: buffers_def)

end

section \<open>Registers\<close>

text \<open>The registers no BDOS call changes.\<close>

definition kept :: "'w cpu \<Rightarrow> u32 list" where
  "kept s = [PCX s, IX s, IY s, PC s, SP s, AF1 s, BC1 s, DE1 s, HL1 s, IFF s, IR s, Debug s, Break s, Step s]"

interpretation regs: machine_inv "\<lambda>s. (kept s, AF s, BC s) = r"
  by unfold_locales (auto simp: kept_def cpm_upd_def)

lemma bdos_call_regs: "kept (bdos_call ch s) = kept s" "AF (bdos_call ch s) = AF s" "BC (bdos_call ch s) = BC s"
  using regs.m_bdos_call [of s _ ch] by auto

lemma Bdos_kept: "kept (Bdos s) = kept s"
proof -
  have u: "kept (s\<lparr>AF := x\<rparr>) = kept s" "kept (s\<lparr>BC := x\<rparr>) = kept s" "kept (s\<lparr>HL := x\<rparr>) = kept s" for s :: machine and x
    by (simp_all add: kept_def)
  show ?thesis unfolding Bdos_def Let_def u bdos_call_regs ..
qed

section \<open>Buffers\<close>

lemma length_fcb_part: "length (fcb_part bs) \<le> length bs"
  unfolding fcb_part_def by (metis length_filter_le length_map)

lemma FCBtoHostname_length: "length (snd (FCBtoHostname a s)) \<le> 16"
  using length_fcb_part [of "get_bytes s (unat a + 1) 8"] length_fcb_part [of "get_bytes s (unat a + 9) 3"]
  by (simp add: FCBtoHostname_def Let_def get_bytes_def del: upt_Suc)

text \<open>
  The static buffers with their sizes: \<open>filename[17]\<close>, \<open>newname[17]\<close> and \<open>lastLine[256]\<close> always, and
  \<open>findNextDirName[17]\<close>, \<open>fcbname[13]\<close> and \<open>pattern[13]\<close>, whose contents are copied without a check of the
  length, as long as the flag \<open>overrun\<close> has not recorded a copy that was too long.
\<close>

definition buffers_fit :: "machine \<Rightarrow> bool" where
  "buffers_fit s \<longleftrightarrow> length (filename (world s)) \<le> 16 \<and> length (newname (world s)) \<le> 16 \<and> length (lastLine (world s)) = 256 \<and>
     (\<not> overrun s \<longrightarrow> length (findNextDirName (world s)) \<le> 16 \<and> length (fcbname (world s)) \<le> 12 \<and> length (pattern (world s)) \<le> 12)"

interpretation fit: machine_inv buffers_fit
  by unfold_locales (auto simp: buffers_fit_def cpm_upd_def buffers_def FCBtoHostname_length)

lemma Bdos_fit: "buffers_fit s \<Longrightarrow> buffers_fit (Bdos s)"
proof -
  assume s: "buffers_fit s"
  have u: "buffers_fit (s\<lparr>AF := x\<rparr>) = buffers_fit s" "buffers_fit (s\<lparr>BC := x\<rparr>) = buffers_fit s"
    "buffers_fit (s\<lparr>HL := x\<rparr>) = buffers_fit s" for s :: machine and x
    by (simp_all add: buffers_fit_def)
  show ?thesis unfolding Bdos_def Let_def u using s by (intro fit.m_bdos_call) (simp add: u)
qed

end
