(* ===== verification/Z80_Tables.thy ===== *)
theory Z80_Tables
  imports Fuji_Prelude
begin

text \<open>
  The precomputed tables of the Z80 emulator (\<open>src/lib/runcpm/cpu.h\<close>), entry by entry as the source
  has them. An entry is the value the lookup has after integer promotion. The comment above the tables
  gives a formula for each; \<open>f_...\<close> is that formula, and every table is proved to be what its formula
  says. The instructions look entries up with \<open>tbl\<close>, whose value outside a table is unspecified: what
  is proved of an instruction therefore also shows that its indices are in range.
\<close>

section \<open>The tables\<close>

definition parityTable :: "int list" where
  "parityTable = [
    4, 0, 0, 4, 0, 4, 4, 0, 0, 4, 4, 0, 4, 0, 0, 4, 0, 4, 4, 0, 4, 0, 0, 4,
    4, 0, 0, 4, 0, 4, 4, 0, 0, 4, 4, 0, 4, 0, 0, 4, 4, 0, 0, 4, 0, 4, 4, 0,
    4, 0, 0, 4, 0, 4, 4, 0, 0, 4, 4, 0, 4, 0, 0, 4, 0, 4, 4, 0, 4, 0, 0, 4,
    4, 0, 0, 4, 0, 4, 4, 0, 4, 0, 0, 4, 0, 4, 4, 0, 0, 4, 4, 0, 4, 0, 0, 4,
    4, 0, 0, 4, 0, 4, 4, 0, 0, 4, 4, 0, 4, 0, 0, 4, 0, 4, 4, 0, 4, 0, 0, 4,
    4, 0, 0, 4, 0, 4, 4, 0, 0, 4, 4, 0, 4, 0, 0, 4, 4, 0, 0, 4, 0, 4, 4, 0,
    4, 0, 0, 4, 0, 4, 4, 0, 0, 4, 4, 0, 4, 0, 0, 4, 4, 0, 0, 4, 0, 4, 4, 0,
    0, 4, 4, 0, 4, 0, 0, 4, 0, 4, 4, 0, 4, 0, 0, 4, 4, 0, 0, 4, 0, 4, 4, 0,
    4, 0, 0, 4, 0, 4, 4, 0, 0, 4, 4, 0, 4, 0, 0, 4, 0, 4, 4, 0, 4, 0, 0, 4,
    4, 0, 0, 4, 0, 4, 4, 0, 0, 4, 4, 0, 4, 0, 0, 4, 4, 0, 0, 4, 0, 4, 4, 0,
    4, 0, 0, 4, 0, 4, 4, 0, 0, 4, 4, 0, 4, 0, 0, 4]"

definition incTable :: "int list" where
  "incTable = [
    80, 0, 0, 0, 0, 0, 0, 0, 8, 8, 8, 8, 8, 8, 8, 8, 16, 0, 0, 0, 0, 0, 0, 0,
    8, 8, 8, 8, 8, 8, 8, 8, 48, 32, 32, 32, 32, 32, 32, 32, 40, 40, 40, 40, 40, 40, 40, 40,
    48, 32, 32, 32, 32, 32, 32, 32, 40, 40, 40, 40, 40, 40, 40, 40, 16, 0, 0, 0, 0, 0, 0, 0,
    8, 8, 8, 8, 8, 8, 8, 8, 16, 0, 0, 0, 0, 0, 0, 0, 8, 8, 8, 8, 8, 8, 8, 8,
    48, 32, 32, 32, 32, 32, 32, 32, 40, 40, 40, 40, 40, 40, 40, 40, 48, 32, 32, 32, 32, 32, 32, 32,
    40, 40, 40, 40, 40, 40, 40, 40, 144, 128, 128, 128, 128, 128, 128, 128, 136, 136, 136, 136, 136, 136, 136, 136,
    144, 128, 128, 128, 128, 128, 128, 128, 136, 136, 136, 136, 136, 136, 136, 136, 176, 160, 160, 160, 160, 160, 160, 160,
    168, 168, 168, 168, 168, 168, 168, 168, 176, 160, 160, 160, 160, 160, 160, 160, 168, 168, 168, 168, 168, 168, 168, 168,
    144, 128, 128, 128, 128, 128, 128, 128, 136, 136, 136, 136, 136, 136, 136, 136, 144, 128, 128, 128, 128, 128, 128, 128,
    136, 136, 136, 136, 136, 136, 136, 136, 176, 160, 160, 160, 160, 160, 160, 160, 168, 168, 168, 168, 168, 168, 168, 168,
    176, 160, 160, 160, 160, 160, 160, 160, 168, 168, 168, 168, 168, 168, 168, 168, 80]"

definition decTable :: "int list" where
  "decTable = [
    66, 2, 2, 2, 2, 2, 2, 2, 10, 10, 10, 10, 10, 10, 10, 26, 2, 2, 2, 2, 2, 2, 2, 2,
    10, 10, 10, 10, 10, 10, 10, 26, 34, 34, 34, 34, 34, 34, 34, 34, 42, 42, 42, 42, 42, 42, 42, 58,
    34, 34, 34, 34, 34, 34, 34, 34, 42, 42, 42, 42, 42, 42, 42, 58, 2, 2, 2, 2, 2, 2, 2, 2,
    10, 10, 10, 10, 10, 10, 10, 26, 2, 2, 2, 2, 2, 2, 2, 2, 10, 10, 10, 10, 10, 10, 10, 26,
    34, 34, 34, 34, 34, 34, 34, 34, 42, 42, 42, 42, 42, 42, 42, 58, 34, 34, 34, 34, 34, 34, 34, 34,
    42, 42, 42, 42, 42, 42, 42, 58, 130, 130, 130, 130, 130, 130, 130, 130, 138, 138, 138, 138, 138, 138, 138, 154,
    130, 130, 130, 130, 130, 130, 130, 130, 138, 138, 138, 138, 138, 138, 138, 154, 162, 162, 162, 162, 162, 162, 162, 162,
    170, 170, 170, 170, 170, 170, 170, 186, 162, 162, 162, 162, 162, 162, 162, 162, 170, 170, 170, 170, 170, 170, 170, 186,
    130, 130, 130, 130, 130, 130, 130, 130, 138, 138, 138, 138, 138, 138, 138, 154, 130, 130, 130, 130, 130, 130, 130, 130,
    138, 138, 138, 138, 138, 138, 138, 154, 162, 162, 162, 162, 162, 162, 162, 162, 170, 170, 170, 170, 170, 170, 170, 186,
    162, 162, 162, 162, 162, 162, 162, 162, 170, 170, 170, 170, 170, 170, 170, 186]"

definition cbitsTable :: "int list" where
  "cbitsTable = [
    0, 0, 0, 0, 0, 0, 0, 0, 0, 0, 0, 0, 0, 0, 0, 0, 16, 16, 16, 16, 16, 16, 16, 16,
    16, 16, 16, 16, 16, 16, 16, 16, 0, 0, 0, 0, 0, 0, 0, 0, 0, 0, 0, 0, 0, 0, 0, 0,
    16, 16, 16, 16, 16, 16, 16, 16, 16, 16, 16, 16, 16, 16, 16, 16, 0, 0, 0, 0, 0, 0, 0, 0,
    0, 0, 0, 0, 0, 0, 0, 0, 16, 16, 16, 16, 16, 16, 16, 16, 16, 16, 16, 16, 16, 16, 16, 16,
    0, 0, 0, 0, 0, 0, 0, 0, 0, 0, 0, 0, 0, 0, 0, 0, 16, 16, 16, 16, 16, 16, 16, 16,
    16, 16, 16, 16, 16, 16, 16, 16, 0, 0, 0, 0, 0, 0, 0, 0, 0, 0, 0, 0, 0, 0, 0, 0,
    16, 16, 16, 16, 16, 16, 16, 16, 16, 16, 16, 16, 16, 16, 16, 16, 0, 0, 0, 0, 0, 0, 0, 0,
    0, 0, 0, 0, 0, 0, 0, 0, 16, 16, 16, 16, 16, 16, 16, 16, 16, 16, 16, 16, 16, 16, 16, 16,
    0, 0, 0, 0, 0, 0, 0, 0, 0, 0, 0, 0, 0, 0, 0, 0, 16, 16, 16, 16, 16, 16, 16, 16,
    16, 16, 16, 16, 16, 16, 16, 16, 0, 0, 0, 0, 0, 0, 0, 0, 0, 0, 0, 0, 0, 0, 0, 0,
    16, 16, 16, 16, 16, 16, 16, 16, 16, 16, 16, 16, 16, 16, 16, 16, 1, 1, 1, 1, 1, 1, 1, 1,
    1, 1, 1, 1, 1, 1, 1, 1, 17, 17, 17, 17, 17, 17, 17, 17, 17, 17, 17, 17, 17, 17, 17, 17,
    1, 1, 1, 1, 1, 1, 1, 1, 1, 1, 1, 1, 1, 1, 1, 1, 17, 17, 17, 17, 17, 17, 17, 17,
    17, 17, 17, 17, 17, 17, 17, 17, 1, 1, 1, 1, 1, 1, 1, 1, 1, 1, 1, 1, 1, 1, 1, 1,
    17, 17, 17, 17, 17, 17, 17, 17, 17, 17, 17, 17, 17, 17, 17, 17, 1, 1, 1, 1, 1, 1, 1, 1,
    1, 1, 1, 1, 1, 1, 1, 1, 17, 17, 17, 17, 17, 17, 17, 17, 17, 17, 17, 17, 17, 17, 17, 17,
    1, 1, 1, 1, 1, 1, 1, 1, 1, 1, 1, 1, 1, 1, 1, 1, 17, 17, 17, 17, 17, 17, 17, 17,
    17, 17, 17, 17, 17, 17, 17, 17, 1, 1, 1, 1, 1, 1, 1, 1, 1, 1, 1, 1, 1, 1, 1, 1,
    17, 17, 17, 17, 17, 17, 17, 17, 17, 17, 17, 17, 17, 17, 17, 17, 1, 1, 1, 1, 1, 1, 1, 1,
    1, 1, 1, 1, 1, 1, 1, 1, 17, 17, 17, 17, 17, 17, 17, 17, 17, 17, 17, 17, 17, 17, 17, 17,
    1, 1, 1, 1, 1, 1, 1, 1, 1, 1, 1, 1, 1, 1, 1, 1, 17, 17, 17, 17, 17, 17, 17, 17,
    17, 17, 17, 17, 17, 17, 17, 17]"

definition cbitsDup8Table :: "int list" where
  "cbitsDup8Table = [
    64, 256, 512, 768, 1024, 1280, 1536, 1792, 2056, 2312, 2568, 2824, 3080, 3336, 3592, 3848,
    4112, 4368, 4624, 4880, 5136, 5392, 5648, 5904, 6168, 6424, 6680, 6936, 7192, 7448, 7704, 7960,
    8224, 8480, 8736, 8992, 9248, 9504, 9760, 10016, 10280, 10536, 10792, 11048, 11304, 11560, 11816, 12072,
    12336, 12592, 12848, 13104, 13360, 13616, 13872, 14128, 14392, 14648, 14904, 15160, 15416, 15672, 15928, 16184,
    16384, 16640, 16896, 17152, 17408, 17664, 17920, 18176, 18440, 18696, 18952, 19208, 19464, 19720, 19976, 20232,
    20496, 20752, 21008, 21264, 21520, 21776, 22032, 22288, 22552, 22808, 23064, 23320, 23576, 23832, 24088, 24344,
    24608, 24864, 25120, 25376, 25632, 25888, 26144, 26400, 26664, 26920, 27176, 27432, 27688, 27944, 28200, 28456,
    28720, 28976, 29232, 29488, 29744, 30000, 30256, 30512, 30776, 31032, 31288, 31544, 31800, 32056, 32312, 32568,
    32896, 33152, 33408, 33664, 33920, 34176, 34432, 34688, 34952, 35208, 35464, 35720, 35976, 36232, 36488, 36744,
    37008, 37264, 37520, 37776, 38032, 38288, 38544, 38800, 39064, 39320, 39576, 39832, 40088, 40344, 40600, 40856,
    41120, 41376, 41632, 41888, 42144, 42400, 42656, 42912, 43176, 43432, 43688, 43944, 44200, 44456, 44712, 44968,
    45232, 45488, 45744, 46000, 46256, 46512, 46768, 47024, 47288, 47544, 47800, 48056, 48312, 48568, 48824, 49080,
    49280, 49536, 49792, 50048, 50304, 50560, 50816, 51072, 51336, 51592, 51848, 52104, 52360, 52616, 52872, 53128,
    53392, 53648, 53904, 54160, 54416, 54672, 54928, 55184, 55448, 55704, 55960, 56216, 56472, 56728, 56984, 57240,
    57504, 57760, 58016, 58272, 58528, 58784, 59040, 59296, 59560, 59816, 60072, 60328, 60584, 60840, 61096, 61352,
    61616, 61872, 62128, 62384, 62640, 62896, 63152, 63408, 63672, 63928, 64184, 64440, 64696, 64952, 65208, 65464,
    65, 257, 513, 769, 1025, 1281, 1537, 1793, 2057, 2313, 2569, 2825, 3081, 3337, 3593, 3849,
    4113, 4369, 4625, 4881, 5137, 5393, 5649, 5905, 6169, 6425, 6681, 6937, 7193, 7449, 7705, 7961,
    8225, 8481, 8737, 8993, 9249, 9505, 9761, 10017, 10281, 10537, 10793, 11049, 11305, 11561, 11817, 12073,
    12337, 12593, 12849, 13105, 13361, 13617, 13873, 14129, 14393, 14649, 14905, 15161, 15417, 15673, 15929, 16185,
    16385, 16641, 16897, 17153, 17409, 17665, 17921, 18177, 18441, 18697, 18953, 19209, 19465, 19721, 19977, 20233,
    20497, 20753, 21009, 21265, 21521, 21777, 22033, 22289, 22553, 22809, 23065, 23321, 23577, 23833, 24089, 24345,
    24609, 24865, 25121, 25377, 25633, 25889, 26145, 26401, 26665, 26921, 27177, 27433, 27689, 27945, 28201, 28457,
    28721, 28977, 29233, 29489, 29745, 30001, 30257, 30513, 30777, 31033, 31289, 31545, 31801, 32057, 32313, 32569,
    32897, 33153, 33409, 33665, 33921, 34177, 34433, 34689, 34953, 35209, 35465, 35721, 35977, 36233, 36489, 36745,
    37009, 37265, 37521, 37777, 38033, 38289, 38545, 38801, 39065, 39321, 39577, 39833, 40089, 40345, 40601, 40857,
    41121, 41377, 41633, 41889, 42145, 42401, 42657, 42913, 43177, 43433, 43689, 43945, 44201, 44457, 44713, 44969,
    45233, 45489, 45745, 46001, 46257, 46513, 46769, 47025, 47289, 47545, 47801, 48057, 48313, 48569, 48825, 49081,
    49281, 49537, 49793, 50049, 50305, 50561, 50817, 51073, 51337, 51593, 51849, 52105, 52361, 52617, 52873, 53129,
    53393, 53649, 53905, 54161, 54417, 54673, 54929, 55185, 55449, 55705, 55961, 56217, 56473, 56729, 56985, 57241,
    57505, 57761, 58017, 58273, 58529, 58785, 59041, 59297, 59561, 59817, 60073, 60329, 60585, 60841, 61097, 61353,
    61617, 61873, 62129, 62385, 62641, 62897, 63153, 63409, 63673, 63929, 64185, 64441, 64697, 64953, 65209, 65465]"

definition cbitsDup16Table :: "int list" where
  "cbitsDup16Table = [
    0, 0, 0, 0, 0, 0, 0, 0, 8, 8, 8, 8, 8, 8, 8, 8, 16, 16, 16, 16, 16, 16, 16, 16,
    24, 24, 24, 24, 24, 24, 24, 24, 32, 32, 32, 32, 32, 32, 32, 32, 40, 40, 40, 40, 40, 40, 40, 40,
    48, 48, 48, 48, 48, 48, 48, 48, 56, 56, 56, 56, 56, 56, 56, 56, 0, 0, 0, 0, 0, 0, 0, 0,
    8, 8, 8, 8, 8, 8, 8, 8, 16, 16, 16, 16, 16, 16, 16, 16, 24, 24, 24, 24, 24, 24, 24, 24,
    32, 32, 32, 32, 32, 32, 32, 32, 40, 40, 40, 40, 40, 40, 40, 40, 48, 48, 48, 48, 48, 48, 48, 48,
    56, 56, 56, 56, 56, 56, 56, 56, 0, 0, 0, 0, 0, 0, 0, 0, 8, 8, 8, 8, 8, 8, 8, 8,
    16, 16, 16, 16, 16, 16, 16, 16, 24, 24, 24, 24, 24, 24, 24, 24, 32, 32, 32, 32, 32, 32, 32, 32,
    40, 40, 40, 40, 40, 40, 40, 40, 48, 48, 48, 48, 48, 48, 48, 48, 56, 56, 56, 56, 56, 56, 56, 56,
    0, 0, 0, 0, 0, 0, 0, 0, 8, 8, 8, 8, 8, 8, 8, 8, 16, 16, 16, 16, 16, 16, 16, 16,
    24, 24, 24, 24, 24, 24, 24, 24, 32, 32, 32, 32, 32, 32, 32, 32, 40, 40, 40, 40, 40, 40, 40, 40,
    48, 48, 48, 48, 48, 48, 48, 48, 56, 56, 56, 56, 56, 56, 56, 56, 1, 1, 1, 1, 1, 1, 1, 1,
    9, 9, 9, 9, 9, 9, 9, 9, 17, 17, 17, 17, 17, 17, 17, 17, 25, 25, 25, 25, 25, 25, 25, 25,
    33, 33, 33, 33, 33, 33, 33, 33, 41, 41, 41, 41, 41, 41, 41, 41, 49, 49, 49, 49, 49, 49, 49, 49,
    57, 57, 57, 57, 57, 57, 57, 57, 1, 1, 1, 1, 1, 1, 1, 1, 9, 9, 9, 9, 9, 9, 9, 9,
    17, 17, 17, 17, 17, 17, 17, 17, 25, 25, 25, 25, 25, 25, 25, 25, 33, 33, 33, 33, 33, 33, 33, 33,
    41, 41, 41, 41, 41, 41, 41, 41, 49, 49, 49, 49, 49, 49, 49, 49, 57, 57, 57, 57, 57, 57, 57, 57,
    1, 1, 1, 1, 1, 1, 1, 1, 9, 9, 9, 9, 9, 9, 9, 9, 17, 17, 17, 17, 17, 17, 17, 17,
    25, 25, 25, 25, 25, 25, 25, 25, 33, 33, 33, 33, 33, 33, 33, 33, 41, 41, 41, 41, 41, 41, 41, 41,
    49, 49, 49, 49, 49, 49, 49, 49, 57, 57, 57, 57, 57, 57, 57, 57, 1, 1, 1, 1, 1, 1, 1, 1,
    9, 9, 9, 9, 9, 9, 9, 9, 17, 17, 17, 17, 17, 17, 17, 17, 25, 25, 25, 25, 25, 25, 25, 25,
    33, 33, 33, 33, 33, 33, 33, 33, 41, 41, 41, 41, 41, 41, 41, 41, 49, 49, 49, 49, 49, 49, 49, 49,
    57, 57, 57, 57, 57, 57, 57, 57]"

definition cbits2Table :: "int list" where
  "cbits2Table = [
    2, 2, 2, 2, 2, 2, 2, 2, 2, 2, 2, 2, 2, 2, 2, 2, 18, 18, 18, 18, 18, 18, 18, 18,
    18, 18, 18, 18, 18, 18, 18, 18, 2, 2, 2, 2, 2, 2, 2, 2, 2, 2, 2, 2, 2, 2, 2, 2,
    18, 18, 18, 18, 18, 18, 18, 18, 18, 18, 18, 18, 18, 18, 18, 18, 2, 2, 2, 2, 2, 2, 2, 2,
    2, 2, 2, 2, 2, 2, 2, 2, 18, 18, 18, 18, 18, 18, 18, 18, 18, 18, 18, 18, 18, 18, 18, 18,
    2, 2, 2, 2, 2, 2, 2, 2, 2, 2, 2, 2, 2, 2, 2, 2, 18, 18, 18, 18, 18, 18, 18, 18,
    18, 18, 18, 18, 18, 18, 18, 18, 2, 2, 2, 2, 2, 2, 2, 2, 2, 2, 2, 2, 2, 2, 2, 2,
    18, 18, 18, 18, 18, 18, 18, 18, 18, 18, 18, 18, 18, 18, 18, 18, 2, 2, 2, 2, 2, 2, 2, 2,
    2, 2, 2, 2, 2, 2, 2, 2, 18, 18, 18, 18, 18, 18, 18, 18, 18, 18, 18, 18, 18, 18, 18, 18,
    2, 2, 2, 2, 2, 2, 2, 2, 2, 2, 2, 2, 2, 2, 2, 2, 18, 18, 18, 18, 18, 18, 18, 18,
    18, 18, 18, 18, 18, 18, 18, 18, 2, 2, 2, 2, 2, 2, 2, 2, 2, 2, 2, 2, 2, 2, 2, 2,
    18, 18, 18, 18, 18, 18, 18, 18, 18, 18, 18, 18, 18, 18, 18, 18, 3, 3, 3, 3, 3, 3, 3, 3,
    3, 3, 3, 3, 3, 3, 3, 3, 19, 19, 19, 19, 19, 19, 19, 19, 19, 19, 19, 19, 19, 19, 19, 19,
    3, 3, 3, 3, 3, 3, 3, 3, 3, 3, 3, 3, 3, 3, 3, 3, 19, 19, 19, 19, 19, 19, 19, 19,
    19, 19, 19, 19, 19, 19, 19, 19, 3, 3, 3, 3, 3, 3, 3, 3, 3, 3, 3, 3, 3, 3, 3, 3,
    19, 19, 19, 19, 19, 19, 19, 19, 19, 19, 19, 19, 19, 19, 19, 19, 3, 3, 3, 3, 3, 3, 3, 3,
    3, 3, 3, 3, 3, 3, 3, 3, 19, 19, 19, 19, 19, 19, 19, 19, 19, 19, 19, 19, 19, 19, 19, 19,
    3, 3, 3, 3, 3, 3, 3, 3, 3, 3, 3, 3, 3, 3, 3, 3, 19, 19, 19, 19, 19, 19, 19, 19,
    19, 19, 19, 19, 19, 19, 19, 19, 3, 3, 3, 3, 3, 3, 3, 3, 3, 3, 3, 3, 3, 3, 3, 3,
    19, 19, 19, 19, 19, 19, 19, 19, 19, 19, 19, 19, 19, 19, 19, 19, 3, 3, 3, 3, 3, 3, 3, 3,
    3, 3, 3, 3, 3, 3, 3, 3, 19, 19, 19, 19, 19, 19, 19, 19, 19, 19, 19, 19, 19, 19, 19, 19,
    3, 3, 3, 3, 3, 3, 3, 3, 3, 3, 3, 3, 3, 3, 3, 3, 19, 19, 19, 19, 19, 19, 19, 19,
    19, 19, 19, 19, 19, 19, 19, 19]"

definition rrcaTable :: "int list" where
  "rrcaTable = [
    0, 32769, 256, 33025, 512, 33281, 768, 33537, 1024, 33793, 1280, 34049, 1536, 34305, 1792, 34561,
    2056, 34825, 2312, 35081, 2568, 35337, 2824, 35593, 3080, 35849, 3336, 36105, 3592, 36361, 3848, 36617,
    4096, 36865, 4352, 37121, 4608, 37377, 4864, 37633, 5120, 37889, 5376, 38145, 5632, 38401, 5888, 38657,
    6152, 38921, 6408, 39177, 6664, 39433, 6920, 39689, 7176, 39945, 7432, 40201, 7688, 40457, 7944, 40713,
    8224, 40993, 8480, 41249, 8736, 41505, 8992, 41761, 9248, 42017, 9504, 42273, 9760, 42529, 10016, 42785,
    10280, 43049, 10536, 43305, 10792, 43561, 11048, 43817, 11304, 44073, 11560, 44329, 11816, 44585, 12072, 44841,
    12320, 45089, 12576, 45345, 12832, 45601, 13088, 45857, 13344, 46113, 13600, 46369, 13856, 46625, 14112, 46881,
    14376, 47145, 14632, 47401, 14888, 47657, 15144, 47913, 15400, 48169, 15656, 48425, 15912, 48681, 16168, 48937,
    16384, 49153, 16640, 49409, 16896, 49665, 17152, 49921, 17408, 50177, 17664, 50433, 17920, 50689, 18176, 50945,
    18440, 51209, 18696, 51465, 18952, 51721, 19208, 51977, 19464, 52233, 19720, 52489, 19976, 52745, 20232, 53001,
    20480, 53249, 20736, 53505, 20992, 53761, 21248, 54017, 21504, 54273, 21760, 54529, 22016, 54785, 22272, 55041,
    22536, 55305, 22792, 55561, 23048, 55817, 23304, 56073, 23560, 56329, 23816, 56585, 24072, 56841, 24328, 57097,
    24608, 57377, 24864, 57633, 25120, 57889, 25376, 58145, 25632, 58401, 25888, 58657, 26144, 58913, 26400, 59169,
    26664, 59433, 26920, 59689, 27176, 59945, 27432, 60201, 27688, 60457, 27944, 60713, 28200, 60969, 28456, 61225,
    28704, 61473, 28960, 61729, 29216, 61985, 29472, 62241, 29728, 62497, 29984, 62753, 30240, 63009, 30496, 63265,
    30760, 63529, 31016, 63785, 31272, 64041, 31528, 64297, 31784, 64553, 32040, 64809, 32296, 65065, 32552, 65321]"

definition rraTable :: "int list" where
  "rraTable = [
    0, 1, 256, 257, 512, 513, 768, 769, 1024, 1025, 1280, 1281, 1536, 1537, 1792, 1793,
    2056, 2057, 2312, 2313, 2568, 2569, 2824, 2825, 3080, 3081, 3336, 3337, 3592, 3593, 3848, 3849,
    4096, 4097, 4352, 4353, 4608, 4609, 4864, 4865, 5120, 5121, 5376, 5377, 5632, 5633, 5888, 5889,
    6152, 6153, 6408, 6409, 6664, 6665, 6920, 6921, 7176, 7177, 7432, 7433, 7688, 7689, 7944, 7945,
    8224, 8225, 8480, 8481, 8736, 8737, 8992, 8993, 9248, 9249, 9504, 9505, 9760, 9761, 10016, 10017,
    10280, 10281, 10536, 10537, 10792, 10793, 11048, 11049, 11304, 11305, 11560, 11561, 11816, 11817, 12072, 12073,
    12320, 12321, 12576, 12577, 12832, 12833, 13088, 13089, 13344, 13345, 13600, 13601, 13856, 13857, 14112, 14113,
    14376, 14377, 14632, 14633, 14888, 14889, 15144, 15145, 15400, 15401, 15656, 15657, 15912, 15913, 16168, 16169,
    16384, 16385, 16640, 16641, 16896, 16897, 17152, 17153, 17408, 17409, 17664, 17665, 17920, 17921, 18176, 18177,
    18440, 18441, 18696, 18697, 18952, 18953, 19208, 19209, 19464, 19465, 19720, 19721, 19976, 19977, 20232, 20233,
    20480, 20481, 20736, 20737, 20992, 20993, 21248, 21249, 21504, 21505, 21760, 21761, 22016, 22017, 22272, 22273,
    22536, 22537, 22792, 22793, 23048, 23049, 23304, 23305, 23560, 23561, 23816, 23817, 24072, 24073, 24328, 24329,
    24608, 24609, 24864, 24865, 25120, 25121, 25376, 25377, 25632, 25633, 25888, 25889, 26144, 26145, 26400, 26401,
    26664, 26665, 26920, 26921, 27176, 27177, 27432, 27433, 27688, 27689, 27944, 27945, 28200, 28201, 28456, 28457,
    28704, 28705, 28960, 28961, 29216, 29217, 29472, 29473, 29728, 29729, 29984, 29985, 30240, 30241, 30496, 30497,
    30760, 30761, 31016, 31017, 31272, 31273, 31528, 31529, 31784, 31785, 32040, 32041, 32296, 32297, 32552, 32553]"

definition addTable :: "int list" where
  "addTable = [
    64, 256, 512, 768, 1024, 1280, 1536, 1792, 2056, 2312, 2568, 2824, 3080, 3336, 3592, 3848,
    4096, 4352, 4608, 4864, 5120, 5376, 5632, 5888, 6152, 6408, 6664, 6920, 7176, 7432, 7688, 7944,
    8224, 8480, 8736, 8992, 9248, 9504, 9760, 10016, 10280, 10536, 10792, 11048, 11304, 11560, 11816, 12072,
    12320, 12576, 12832, 13088, 13344, 13600, 13856, 14112, 14376, 14632, 14888, 15144, 15400, 15656, 15912, 16168,
    16384, 16640, 16896, 17152, 17408, 17664, 17920, 18176, 18440, 18696, 18952, 19208, 19464, 19720, 19976, 20232,
    20480, 20736, 20992, 21248, 21504, 21760, 22016, 22272, 22536, 22792, 23048, 23304, 23560, 23816, 24072, 24328,
    24608, 24864, 25120, 25376, 25632, 25888, 26144, 26400, 26664, 26920, 27176, 27432, 27688, 27944, 28200, 28456,
    28704, 28960, 29216, 29472, 29728, 29984, 30240, 30496, 30760, 31016, 31272, 31528, 31784, 32040, 32296, 32552,
    32896, 33152, 33408, 33664, 33920, 34176, 34432, 34688, 34952, 35208, 35464, 35720, 35976, 36232, 36488, 36744,
    36992, 37248, 37504, 37760, 38016, 38272, 38528, 38784, 39048, 39304, 39560, 39816, 40072, 40328, 40584, 40840,
    41120, 41376, 41632, 41888, 42144, 42400, 42656, 42912, 43176, 43432, 43688, 43944, 44200, 44456, 44712, 44968,
    45216, 45472, 45728, 45984, 46240, 46496, 46752, 47008, 47272, 47528, 47784, 48040, 48296, 48552, 48808, 49064,
    49280, 49536, 49792, 50048, 50304, 50560, 50816, 51072, 51336, 51592, 51848, 52104, 52360, 52616, 52872, 53128,
    53376, 53632, 53888, 54144, 54400, 54656, 54912, 55168, 55432, 55688, 55944, 56200, 56456, 56712, 56968, 57224,
    57504, 57760, 58016, 58272, 58528, 58784, 59040, 59296, 59560, 59816, 60072, 60328, 60584, 60840, 61096, 61352,
    61600, 61856, 62112, 62368, 62624, 62880, 63136, 63392, 63656, 63912, 64168, 64424, 64680, 64936, 65192, 65448,
    64, 256, 512, 768, 1024, 1280, 1536, 1792, 2056, 2312, 2568, 2824, 3080, 3336, 3592, 3848,
    4096, 4352, 4608, 4864, 5120, 5376, 5632, 5888, 6152, 6408, 6664, 6920, 7176, 7432, 7688, 7944,
    8224, 8480, 8736, 8992, 9248, 9504, 9760, 10016, 10280, 10536, 10792, 11048, 11304, 11560, 11816, 12072,
    12320, 12576, 12832, 13088, 13344, 13600, 13856, 14112, 14376, 14632, 14888, 15144, 15400, 15656, 15912, 16168,
    16384, 16640, 16896, 17152, 17408, 17664, 17920, 18176, 18440, 18696, 18952, 19208, 19464, 19720, 19976, 20232,
    20480, 20736, 20992, 21248, 21504, 21760, 22016, 22272, 22536, 22792, 23048, 23304, 23560, 23816, 24072, 24328,
    24608, 24864, 25120, 25376, 25632, 25888, 26144, 26400, 26664, 26920, 27176, 27432, 27688, 27944, 28200, 28456,
    28704, 28960, 29216, 29472, 29728, 29984, 30240, 30496, 30760, 31016, 31272, 31528, 31784, 32040, 32296, 32552,
    32896, 33152, 33408, 33664, 33920, 34176, 34432, 34688, 34952, 35208, 35464, 35720, 35976, 36232, 36488, 36744,
    36992, 37248, 37504, 37760, 38016, 38272, 38528, 38784, 39048, 39304, 39560, 39816, 40072, 40328, 40584, 40840,
    41120, 41376, 41632, 41888, 42144, 42400, 42656, 42912, 43176, 43432, 43688, 43944, 44200, 44456, 44712, 44968,
    45216, 45472, 45728, 45984, 46240, 46496, 46752, 47008, 47272, 47528, 47784, 48040, 48296, 48552, 48808, 49064,
    49280, 49536, 49792, 50048, 50304, 50560, 50816, 51072, 51336, 51592, 51848, 52104, 52360, 52616, 52872, 53128,
    53376, 53632, 53888, 54144, 54400, 54656, 54912, 55168, 55432, 55688, 55944, 56200, 56456, 56712, 56968, 57224,
    57504, 57760, 58016, 58272, 58528, 58784, 59040, 59296, 59560, 59816, 60072, 60328, 60584, 60840, 61096, 61352,
    61600, 61856, 62112, 62368, 62624, 62880, 63136, 63392, 63656, 63912, 64168, 64424, 64680, 64936, 65192, 65448]"

definition subTable :: "int list" where
  "subTable = [
    66, 258, 514, 770, 1026, 1282, 1538, 1794, 2058, 2314, 2570, 2826, 3082, 3338, 3594, 3850,
    4098, 4354, 4610, 4866, 5122, 5378, 5634, 5890, 6154, 6410, 6666, 6922, 7178, 7434, 7690, 7946,
    8226, 8482, 8738, 8994, 9250, 9506, 9762, 10018, 10282, 10538, 10794, 11050, 11306, 11562, 11818, 12074,
    12322, 12578, 12834, 13090, 13346, 13602, 13858, 14114, 14378, 14634, 14890, 15146, 15402, 15658, 15914, 16170,
    16386, 16642, 16898, 17154, 17410, 17666, 17922, 18178, 18442, 18698, 18954, 19210, 19466, 19722, 19978, 20234,
    20482, 20738, 20994, 21250, 21506, 21762, 22018, 22274, 22538, 22794, 23050, 23306, 23562, 23818, 24074, 24330,
    24610, 24866, 25122, 25378, 25634, 25890, 26146, 26402, 26666, 26922, 27178, 27434, 27690, 27946, 28202, 28458,
    28706, 28962, 29218, 29474, 29730, 29986, 30242, 30498, 30762, 31018, 31274, 31530, 31786, 32042, 32298, 32554,
    32898, 33154, 33410, 33666, 33922, 34178, 34434, 34690, 34954, 35210, 35466, 35722, 35978, 36234, 36490, 36746,
    36994, 37250, 37506, 37762, 38018, 38274, 38530, 38786, 39050, 39306, 39562, 39818, 40074, 40330, 40586, 40842,
    41122, 41378, 41634, 41890, 42146, 42402, 42658, 42914, 43178, 43434, 43690, 43946, 44202, 44458, 44714, 44970,
    45218, 45474, 45730, 45986, 46242, 46498, 46754, 47010, 47274, 47530, 47786, 48042, 48298, 48554, 48810, 49066,
    49282, 49538, 49794, 50050, 50306, 50562, 50818, 51074, 51338, 51594, 51850, 52106, 52362, 52618, 52874, 53130,
    53378, 53634, 53890, 54146, 54402, 54658, 54914, 55170, 55434, 55690, 55946, 56202, 56458, 56714, 56970, 57226,
    57506, 57762, 58018, 58274, 58530, 58786, 59042, 59298, 59562, 59818, 60074, 60330, 60586, 60842, 61098, 61354,
    61602, 61858, 62114, 62370, 62626, 62882, 63138, 63394, 63658, 63914, 64170, 64426, 64682, 64938, 65194, 65450]"

definition andTable :: "int list" where
  "andTable = [
    84, 272, 528, 788, 1040, 1300, 1556, 1808, 2072, 2332, 2588, 2840, 3100, 3352, 3608, 3868,
    4112, 4372, 4628, 4880, 5140, 5392, 5648, 5908, 6172, 6424, 6680, 6940, 7192, 7452, 7708, 7960,
    8240, 8500, 8756, 9008, 9268, 9520, 9776, 10036, 10300, 10552, 10808, 11068, 11320, 11580, 11836, 12088,
    12340, 12592, 12848, 13108, 13360, 13620, 13876, 14128, 14392, 14652, 14908, 15160, 15420, 15672, 15928, 16188,
    16400, 16660, 16916, 17168, 17428, 17680, 17936, 18196, 18460, 18712, 18968, 19228, 19480, 19740, 19996, 20248,
    20500, 20752, 21008, 21268, 21520, 21780, 22036, 22288, 22552, 22812, 23068, 23320, 23580, 23832, 24088, 24348,
    24628, 24880, 25136, 25396, 25648, 25908, 26164, 26416, 26680, 26940, 27196, 27448, 27708, 27960, 28216, 28476,
    28720, 28980, 29236, 29488, 29748, 30000, 30256, 30516, 30780, 31032, 31288, 31548, 31800, 32060, 32316, 32568,
    32912, 33172, 33428, 33680, 33940, 34192, 34448, 34708, 34972, 35224, 35480, 35740, 35992, 36252, 36508, 36760,
    37012, 37264, 37520, 37780, 38032, 38292, 38548, 38800, 39064, 39324, 39580, 39832, 40092, 40344, 40600, 40860,
    41140, 41392, 41648, 41908, 42160, 42420, 42676, 42928, 43192, 43452, 43708, 43960, 44220, 44472, 44728, 44988,
    45232, 45492, 45748, 46000, 46260, 46512, 46768, 47028, 47292, 47544, 47800, 48060, 48312, 48572, 48828, 49080,
    49300, 49552, 49808, 50068, 50320, 50580, 50836, 51088, 51352, 51612, 51868, 52120, 52380, 52632, 52888, 53148,
    53392, 53652, 53908, 54160, 54420, 54672, 54928, 55188, 55452, 55704, 55960, 56220, 56472, 56732, 56988, 57240,
    57520, 57780, 58036, 58288, 58548, 58800, 59056, 59316, 59580, 59832, 60088, 60348, 60600, 60860, 61116, 61368,
    61620, 61872, 62128, 62388, 62640, 62900, 63156, 63408, 63672, 63932, 64188, 64440, 64700, 64952, 65208, 65468]"

definition xororTable :: "int list" where
  "xororTable = [
    68, 256, 512, 772, 1024, 1284, 1540, 1792, 2056, 2316, 2572, 2824, 3084, 3336, 3592, 3852,
    4096, 4356, 4612, 4864, 5124, 5376, 5632, 5892, 6156, 6408, 6664, 6924, 7176, 7436, 7692, 7944,
    8224, 8484, 8740, 8992, 9252, 9504, 9760, 10020, 10284, 10536, 10792, 11052, 11304, 11564, 11820, 12072,
    12324, 12576, 12832, 13092, 13344, 13604, 13860, 14112, 14376, 14636, 14892, 15144, 15404, 15656, 15912, 16172,
    16384, 16644, 16900, 17152, 17412, 17664, 17920, 18180, 18444, 18696, 18952, 19212, 19464, 19724, 19980, 20232,
    20484, 20736, 20992, 21252, 21504, 21764, 22020, 22272, 22536, 22796, 23052, 23304, 23564, 23816, 24072, 24332,
    24612, 24864, 25120, 25380, 25632, 25892, 26148, 26400, 26664, 26924, 27180, 27432, 27692, 27944, 28200, 28460,
    28704, 28964, 29220, 29472, 29732, 29984, 30240, 30500, 30764, 31016, 31272, 31532, 31784, 32044, 32300, 32552,
    32896, 33156, 33412, 33664, 33924, 34176, 34432, 34692, 34956, 35208, 35464, 35724, 35976, 36236, 36492, 36744,
    36996, 37248, 37504, 37764, 38016, 38276, 38532, 38784, 39048, 39308, 39564, 39816, 40076, 40328, 40584, 40844,
    41124, 41376, 41632, 41892, 42144, 42404, 42660, 42912, 43176, 43436, 43692, 43944, 44204, 44456, 44712, 44972,
    45216, 45476, 45732, 45984, 46244, 46496, 46752, 47012, 47276, 47528, 47784, 48044, 48296, 48556, 48812, 49064,
    49284, 49536, 49792, 50052, 50304, 50564, 50820, 51072, 51336, 51596, 51852, 52104, 52364, 52616, 52872, 53132,
    53376, 53636, 53892, 54144, 54404, 54656, 54912, 55172, 55436, 55688, 55944, 56204, 56456, 56716, 56972, 57224,
    57504, 57764, 58020, 58272, 58532, 58784, 59040, 59300, 59564, 59816, 60072, 60332, 60584, 60844, 61100, 61352,
    61604, 61856, 62112, 62372, 62624, 62884, 63140, 63392, 63656, 63916, 64172, 64424, 64684, 64936, 65192, 65452]"

definition rotateShiftTable :: "int list" where
  "rotateShiftTable = [
    68, 0, 0, 4, 0, 4, 4, 0, 8, 12, 12, 8, 12, 8, 8, 12, 0, 4, 4, 0, 4, 0, 0, 4,
    12, 8, 8, 12, 8, 12, 12, 8, 32, 36, 36, 32, 36, 32, 32, 36, 44, 40, 40, 44, 40, 44, 44, 40,
    36, 32, 32, 36, 32, 36, 36, 32, 40, 44, 44, 40, 44, 40, 40, 44, 0, 4, 4, 0, 4, 0, 0, 4,
    12, 8, 8, 12, 8, 12, 12, 8, 4, 0, 0, 4, 0, 4, 4, 0, 8, 12, 12, 8, 12, 8, 8, 12,
    36, 32, 32, 36, 32, 36, 36, 32, 40, 44, 44, 40, 44, 40, 40, 44, 32, 36, 36, 32, 36, 32, 32, 36,
    44, 40, 40, 44, 40, 44, 44, 40, 128, 132, 132, 128, 132, 128, 128, 132, 140, 136, 136, 140, 136, 140, 140, 136,
    132, 128, 128, 132, 128, 132, 132, 128, 136, 140, 140, 136, 140, 136, 136, 140, 164, 160, 160, 164, 160, 164, 164, 160,
    168, 172, 172, 168, 172, 168, 168, 172, 160, 164, 164, 160, 164, 160, 160, 164, 172, 168, 168, 172, 168, 172, 172, 168,
    132, 128, 128, 132, 128, 132, 132, 128, 136, 140, 140, 136, 140, 136, 136, 140, 128, 132, 132, 128, 132, 128, 128, 132,
    140, 136, 136, 140, 136, 140, 140, 136, 160, 164, 164, 160, 164, 160, 160, 164, 172, 168, 168, 172, 168, 172, 172, 168,
    164, 160, 160, 164, 160, 164, 164, 160, 168, 172, 172, 168, 172, 168, 168, 172]"

definition incZ80Table :: "int list" where
  "incZ80Table = [
    80, 0, 0, 0, 0, 0, 0, 0, 8, 8, 8, 8, 8, 8, 8, 8, 16, 0, 0, 0, 0, 0, 0, 0,
    8, 8, 8, 8, 8, 8, 8, 8, 48, 32, 32, 32, 32, 32, 32, 32, 40, 40, 40, 40, 40, 40, 40, 40,
    48, 32, 32, 32, 32, 32, 32, 32, 40, 40, 40, 40, 40, 40, 40, 40, 16, 0, 0, 0, 0, 0, 0, 0,
    8, 8, 8, 8, 8, 8, 8, 8, 16, 0, 0, 0, 0, 0, 0, 0, 8, 8, 8, 8, 8, 8, 8, 8,
    48, 32, 32, 32, 32, 32, 32, 32, 40, 40, 40, 40, 40, 40, 40, 40, 48, 32, 32, 32, 32, 32, 32, 32,
    40, 40, 40, 40, 40, 40, 40, 40, 148, 128, 128, 128, 128, 128, 128, 128, 136, 136, 136, 136, 136, 136, 136, 136,
    144, 128, 128, 128, 128, 128, 128, 128, 136, 136, 136, 136, 136, 136, 136, 136, 176, 160, 160, 160, 160, 160, 160, 160,
    168, 168, 168, 168, 168, 168, 168, 168, 176, 160, 160, 160, 160, 160, 160, 160, 168, 168, 168, 168, 168, 168, 168, 168,
    144, 128, 128, 128, 128, 128, 128, 128, 136, 136, 136, 136, 136, 136, 136, 136, 144, 128, 128, 128, 128, 128, 128, 128,
    136, 136, 136, 136, 136, 136, 136, 136, 176, 160, 160, 160, 160, 160, 160, 160, 168, 168, 168, 168, 168, 168, 168, 168,
    176, 160, 160, 160, 160, 160, 160, 160, 168, 168, 168, 168, 168, 168, 168, 168, 80]"

definition decZ80Table :: "int list" where
  "decZ80Table = [
    66, 2, 2, 2, 2, 2, 2, 2, 10, 10, 10, 10, 10, 10, 10, 26, 2, 2, 2, 2, 2, 2, 2, 2,
    10, 10, 10, 10, 10, 10, 10, 26, 34, 34, 34, 34, 34, 34, 34, 34, 42, 42, 42, 42, 42, 42, 42, 58,
    34, 34, 34, 34, 34, 34, 34, 34, 42, 42, 42, 42, 42, 42, 42, 58, 2, 2, 2, 2, 2, 2, 2, 2,
    10, 10, 10, 10, 10, 10, 10, 26, 2, 2, 2, 2, 2, 2, 2, 2, 10, 10, 10, 10, 10, 10, 10, 26,
    34, 34, 34, 34, 34, 34, 34, 34, 42, 42, 42, 42, 42, 42, 42, 58, 34, 34, 34, 34, 34, 34, 34, 34,
    42, 42, 42, 42, 42, 42, 42, 62, 130, 130, 130, 130, 130, 130, 130, 130, 138, 138, 138, 138, 138, 138, 138, 154,
    130, 130, 130, 130, 130, 130, 130, 130, 138, 138, 138, 138, 138, 138, 138, 154, 162, 162, 162, 162, 162, 162, 162, 162,
    170, 170, 170, 170, 170, 170, 170, 186, 162, 162, 162, 162, 162, 162, 162, 162, 170, 170, 170, 170, 170, 170, 170, 186,
    130, 130, 130, 130, 130, 130, 130, 130, 138, 138, 138, 138, 138, 138, 138, 154, 130, 130, 130, 130, 130, 130, 130, 130,
    138, 138, 138, 138, 138, 138, 138, 154, 162, 162, 162, 162, 162, 162, 162, 162, 170, 170, 170, 170, 170, 170, 170, 186,
    162, 162, 162, 162, 162, 162, 162, 162, 170, 170, 170, 170, 170, 170, 170, 186]"

definition cbitsZ80Table :: "int list" where
  "cbitsZ80Table = [
    0, 0, 0, 0, 0, 0, 0, 0, 0, 0, 0, 0, 0, 0, 0, 0, 16, 16, 16, 16, 16, 16, 16, 16,
    16, 16, 16, 16, 16, 16, 16, 16, 0, 0, 0, 0, 0, 0, 0, 0, 0, 0, 0, 0, 0, 0, 0, 0,
    16, 16, 16, 16, 16, 16, 16, 16, 16, 16, 16, 16, 16, 16, 16, 16, 0, 0, 0, 0, 0, 0, 0, 0,
    0, 0, 0, 0, 0, 0, 0, 0, 16, 16, 16, 16, 16, 16, 16, 16, 16, 16, 16, 16, 16, 16, 16, 16,
    0, 0, 0, 0, 0, 0, 0, 0, 0, 0, 0, 0, 0, 0, 0, 0, 16, 16, 16, 16, 16, 16, 16, 16,
    16, 16, 16, 16, 16, 16, 16, 16, 4, 4, 4, 4, 4, 4, 4, 4, 4, 4, 4, 4, 4, 4, 4, 4,
    20, 20, 20, 20, 20, 20, 20, 20, 20, 20, 20, 20, 20, 20, 20, 20, 4, 4, 4, 4, 4, 4, 4, 4,
    4, 4, 4, 4, 4, 4, 4, 4, 20, 20, 20, 20, 20, 20, 20, 20, 20, 20, 20, 20, 20, 20, 20, 20,
    4, 4, 4, 4, 4, 4, 4, 4, 4, 4, 4, 4, 4, 4, 4, 4, 20, 20, 20, 20, 20, 20, 20, 20,
    20, 20, 20, 20, 20, 20, 20, 20, 4, 4, 4, 4, 4, 4, 4, 4, 4, 4, 4, 4, 4, 4, 4, 4,
    20, 20, 20, 20, 20, 20, 20, 20, 20, 20, 20, 20, 20, 20, 20, 20, 5, 5, 5, 5, 5, 5, 5, 5,
    5, 5, 5, 5, 5, 5, 5, 5, 21, 21, 21, 21, 21, 21, 21, 21, 21, 21, 21, 21, 21, 21, 21, 21,
    5, 5, 5, 5, 5, 5, 5, 5, 5, 5, 5, 5, 5, 5, 5, 5, 21, 21, 21, 21, 21, 21, 21, 21,
    21, 21, 21, 21, 21, 21, 21, 21, 5, 5, 5, 5, 5, 5, 5, 5, 5, 5, 5, 5, 5, 5, 5, 5,
    21, 21, 21, 21, 21, 21, 21, 21, 21, 21, 21, 21, 21, 21, 21, 21, 5, 5, 5, 5, 5, 5, 5, 5,
    5, 5, 5, 5, 5, 5, 5, 5, 21, 21, 21, 21, 21, 21, 21, 21, 21, 21, 21, 21, 21, 21, 21, 21,
    1, 1, 1, 1, 1, 1, 1, 1, 1, 1, 1, 1, 1, 1, 1, 1, 17, 17, 17, 17, 17, 17, 17, 17,
    17, 17, 17, 17, 17, 17, 17, 17, 1, 1, 1, 1, 1, 1, 1, 1, 1, 1, 1, 1, 1, 1, 1, 1,
    17, 17, 17, 17, 17, 17, 17, 17, 17, 17, 17, 17, 17, 17, 17, 17, 1, 1, 1, 1, 1, 1, 1, 1,
    1, 1, 1, 1, 1, 1, 1, 1, 17, 17, 17, 17, 17, 17, 17, 17, 17, 17, 17, 17, 17, 17, 17, 17,
    1, 1, 1, 1, 1, 1, 1, 1, 1, 1, 1, 1, 1, 1, 1, 1, 17, 17, 17, 17, 17, 17, 17, 17,
    17, 17, 17, 17, 17, 17, 17, 17]"

definition cbitsZ80DupTable :: "int list" where
  "cbitsZ80DupTable = [
    0, 0, 0, 0, 0, 0, 0, 0, 8, 8, 8, 8, 8, 8, 8, 8, 16, 16, 16, 16, 16, 16, 16, 16,
    24, 24, 24, 24, 24, 24, 24, 24, 32, 32, 32, 32, 32, 32, 32, 32, 40, 40, 40, 40, 40, 40, 40, 40,
    48, 48, 48, 48, 48, 48, 48, 48, 56, 56, 56, 56, 56, 56, 56, 56, 0, 0, 0, 0, 0, 0, 0, 0,
    8, 8, 8, 8, 8, 8, 8, 8, 16, 16, 16, 16, 16, 16, 16, 16, 24, 24, 24, 24, 24, 24, 24, 24,
    32, 32, 32, 32, 32, 32, 32, 32, 40, 40, 40, 40, 40, 40, 40, 40, 48, 48, 48, 48, 48, 48, 48, 48,
    56, 56, 56, 56, 56, 56, 56, 56, 132, 132, 132, 132, 132, 132, 132, 132, 140, 140, 140, 140, 140, 140, 140, 140,
    148, 148, 148, 148, 148, 148, 148, 148, 156, 156, 156, 156, 156, 156, 156, 156, 164, 164, 164, 164, 164, 164, 164, 164,
    172, 172, 172, 172, 172, 172, 172, 172, 180, 180, 180, 180, 180, 180, 180, 180, 188, 188, 188, 188, 188, 188, 188, 188,
    132, 132, 132, 132, 132, 132, 132, 132, 140, 140, 140, 140, 140, 140, 140, 140, 148, 148, 148, 148, 148, 148, 148, 148,
    156, 156, 156, 156, 156, 156, 156, 156, 164, 164, 164, 164, 164, 164, 164, 164, 172, 172, 172, 172, 172, 172, 172, 172,
    180, 180, 180, 180, 180, 180, 180, 180, 188, 188, 188, 188, 188, 188, 188, 188, 5, 5, 5, 5, 5, 5, 5, 5,
    13, 13, 13, 13, 13, 13, 13, 13, 21, 21, 21, 21, 21, 21, 21, 21, 29, 29, 29, 29, 29, 29, 29, 29,
    37, 37, 37, 37, 37, 37, 37, 37, 45, 45, 45, 45, 45, 45, 45, 45, 53, 53, 53, 53, 53, 53, 53, 53,
    61, 61, 61, 61, 61, 61, 61, 61, 5, 5, 5, 5, 5, 5, 5, 5, 13, 13, 13, 13, 13, 13, 13, 13,
    21, 21, 21, 21, 21, 21, 21, 21, 29, 29, 29, 29, 29, 29, 29, 29, 37, 37, 37, 37, 37, 37, 37, 37,
    45, 45, 45, 45, 45, 45, 45, 45, 53, 53, 53, 53, 53, 53, 53, 53, 61, 61, 61, 61, 61, 61, 61, 61,
    129, 129, 129, 129, 129, 129, 129, 129, 137, 137, 137, 137, 137, 137, 137, 137, 145, 145, 145, 145, 145, 145, 145, 145,
    153, 153, 153, 153, 153, 153, 153, 153, 161, 161, 161, 161, 161, 161, 161, 161, 169, 169, 169, 169, 169, 169, 169, 169,
    177, 177, 177, 177, 177, 177, 177, 177, 185, 185, 185, 185, 185, 185, 185, 185, 129, 129, 129, 129, 129, 129, 129, 129,
    137, 137, 137, 137, 137, 137, 137, 137, 145, 145, 145, 145, 145, 145, 145, 145, 153, 153, 153, 153, 153, 153, 153, 153,
    161, 161, 161, 161, 161, 161, 161, 161, 169, 169, 169, 169, 169, 169, 169, 169, 177, 177, 177, 177, 177, 177, 177, 177,
    185, 185, 185, 185, 185, 185, 185, 185]"

definition cbits2Z80Table :: "int list" where
  "cbits2Z80Table = [
    2, 2, 2, 2, 2, 2, 2, 2, 2, 2, 2, 2, 2, 2, 2, 2, 18, 18, 18, 18, 18, 18, 18, 18,
    18, 18, 18, 18, 18, 18, 18, 18, 2, 2, 2, 2, 2, 2, 2, 2, 2, 2, 2, 2, 2, 2, 2, 2,
    18, 18, 18, 18, 18, 18, 18, 18, 18, 18, 18, 18, 18, 18, 18, 18, 2, 2, 2, 2, 2, 2, 2, 2,
    2, 2, 2, 2, 2, 2, 2, 2, 18, 18, 18, 18, 18, 18, 18, 18, 18, 18, 18, 18, 18, 18, 18, 18,
    2, 2, 2, 2, 2, 2, 2, 2, 2, 2, 2, 2, 2, 2, 2, 2, 18, 18, 18, 18, 18, 18, 18, 18,
    18, 18, 18, 18, 18, 18, 18, 18, 6, 6, 6, 6, 6, 6, 6, 6, 6, 6, 6, 6, 6, 6, 6, 6,
    22, 22, 22, 22, 22, 22, 22, 22, 22, 22, 22, 22, 22, 22, 22, 22, 6, 6, 6, 6, 6, 6, 6, 6,
    6, 6, 6, 6, 6, 6, 6, 6, 22, 22, 22, 22, 22, 22, 22, 22, 22, 22, 22, 22, 22, 22, 22, 22,
    6, 6, 6, 6, 6, 6, 6, 6, 6, 6, 6, 6, 6, 6, 6, 6, 22, 22, 22, 22, 22, 22, 22, 22,
    22, 22, 22, 22, 22, 22, 22, 22, 6, 6, 6, 6, 6, 6, 6, 6, 6, 6, 6, 6, 6, 6, 6, 6,
    22, 22, 22, 22, 22, 22, 22, 22, 22, 22, 22, 22, 22, 22, 22, 22, 7, 7, 7, 7, 7, 7, 7, 7,
    7, 7, 7, 7, 7, 7, 7, 7, 23, 23, 23, 23, 23, 23, 23, 23, 23, 23, 23, 23, 23, 23, 23, 23,
    7, 7, 7, 7, 7, 7, 7, 7, 7, 7, 7, 7, 7, 7, 7, 7, 23, 23, 23, 23, 23, 23, 23, 23,
    23, 23, 23, 23, 23, 23, 23, 23, 7, 7, 7, 7, 7, 7, 7, 7, 7, 7, 7, 7, 7, 7, 7, 7,
    23, 23, 23, 23, 23, 23, 23, 23, 23, 23, 23, 23, 23, 23, 23, 23, 7, 7, 7, 7, 7, 7, 7, 7,
    7, 7, 7, 7, 7, 7, 7, 7, 23, 23, 23, 23, 23, 23, 23, 23, 23, 23, 23, 23, 23, 23, 23, 23,
    3, 3, 3, 3, 3, 3, 3, 3, 3, 3, 3, 3, 3, 3, 3, 3, 19, 19, 19, 19, 19, 19, 19, 19,
    19, 19, 19, 19, 19, 19, 19, 19, 3, 3, 3, 3, 3, 3, 3, 3, 3, 3, 3, 3, 3, 3, 3, 3,
    19, 19, 19, 19, 19, 19, 19, 19, 19, 19, 19, 19, 19, 19, 19, 19, 3, 3, 3, 3, 3, 3, 3, 3,
    3, 3, 3, 3, 3, 3, 3, 3, 19, 19, 19, 19, 19, 19, 19, 19, 19, 19, 19, 19, 19, 19, 19, 19,
    3, 3, 3, 3, 3, 3, 3, 3, 3, 3, 3, 3, 3, 3, 3, 3, 19, 19, 19, 19, 19, 19, 19, 19,
    19, 19, 19, 19, 19, 19, 19, 19]"

definition cbits2Z80DupTable :: "int list" where
  "cbits2Z80DupTable = [
    2, 2, 2, 2, 2, 2, 2, 2, 10, 10, 10, 10, 10, 10, 10, 10, 18, 18, 18, 18, 18, 18, 18, 18,
    26, 26, 26, 26, 26, 26, 26, 26, 34, 34, 34, 34, 34, 34, 34, 34, 42, 42, 42, 42, 42, 42, 42, 42,
    50, 50, 50, 50, 50, 50, 50, 50, 58, 58, 58, 58, 58, 58, 58, 58, 2, 2, 2, 2, 2, 2, 2, 2,
    10, 10, 10, 10, 10, 10, 10, 10, 18, 18, 18, 18, 18, 18, 18, 18, 26, 26, 26, 26, 26, 26, 26, 26,
    34, 34, 34, 34, 34, 34, 34, 34, 42, 42, 42, 42, 42, 42, 42, 42, 50, 50, 50, 50, 50, 50, 50, 50,
    58, 58, 58, 58, 58, 58, 58, 58, 134, 134, 134, 134, 134, 134, 134, 134, 142, 142, 142, 142, 142, 142, 142, 142,
    150, 150, 150, 150, 150, 150, 150, 150, 158, 158, 158, 158, 158, 158, 158, 158, 166, 166, 166, 166, 166, 166, 166, 166,
    174, 174, 174, 174, 174, 174, 174, 174, 182, 182, 182, 182, 182, 182, 182, 182, 190, 190, 190, 190, 190, 190, 190, 190,
    134, 134, 134, 134, 134, 134, 134, 134, 142, 142, 142, 142, 142, 142, 142, 142, 150, 150, 150, 150, 150, 150, 150, 150,
    158, 158, 158, 158, 158, 158, 158, 158, 166, 166, 166, 166, 166, 166, 166, 166, 174, 174, 174, 174, 174, 174, 174, 174,
    182, 182, 182, 182, 182, 182, 182, 182, 190, 190, 190, 190, 190, 190, 190, 190, 7, 7, 7, 7, 7, 7, 7, 7,
    15, 15, 15, 15, 15, 15, 15, 15, 23, 23, 23, 23, 23, 23, 23, 23, 31, 31, 31, 31, 31, 31, 31, 31,
    39, 39, 39, 39, 39, 39, 39, 39, 47, 47, 47, 47, 47, 47, 47, 47, 55, 55, 55, 55, 55, 55, 55, 55,
    63, 63, 63, 63, 63, 63, 63, 63, 7, 7, 7, 7, 7, 7, 7, 7, 15, 15, 15, 15, 15, 15, 15, 15,
    23, 23, 23, 23, 23, 23, 23, 23, 31, 31, 31, 31, 31, 31, 31, 31, 39, 39, 39, 39, 39, 39, 39, 39,
    47, 47, 47, 47, 47, 47, 47, 47, 55, 55, 55, 55, 55, 55, 55, 55, 63, 63, 63, 63, 63, 63, 63, 63,
    131, 131, 131, 131, 131, 131, 131, 131, 139, 139, 139, 139, 139, 139, 139, 139, 147, 147, 147, 147, 147, 147, 147, 147,
    155, 155, 155, 155, 155, 155, 155, 155, 163, 163, 163, 163, 163, 163, 163, 163, 171, 171, 171, 171, 171, 171, 171, 171,
    179, 179, 179, 179, 179, 179, 179, 179, 187, 187, 187, 187, 187, 187, 187, 187, 131, 131, 131, 131, 131, 131, 131, 131,
    139, 139, 139, 139, 139, 139, 139, 139, 147, 147, 147, 147, 147, 147, 147, 147, 155, 155, 155, 155, 155, 155, 155, 155,
    163, 163, 163, 163, 163, 163, 163, 163, 171, 171, 171, 171, 171, 171, 171, 171, 179, 179, 179, 179, 179, 179, 179, 179,
    187, 187, 187, 187, 187, 187, 187, 187]"

definition negTable :: "int list" where
  "negTable = [
    2, 19, 19, 19, 19, 19, 19, 19, 19, 19, 19, 19, 19, 19, 19, 19, 3, 19, 19, 19, 19, 19, 19, 19,
    19, 19, 19, 19, 19, 19, 19, 19, 3, 19, 19, 19, 19, 19, 19, 19, 19, 19, 19, 19, 19, 19, 19, 19,
    3, 19, 19, 19, 19, 19, 19, 19, 19, 19, 19, 19, 19, 19, 19, 19, 3, 19, 19, 19, 19, 19, 19, 19,
    19, 19, 19, 19, 19, 19, 19, 19, 3, 19, 19, 19, 19, 19, 19, 19, 19, 19, 19, 19, 19, 19, 19, 19,
    3, 19, 19, 19, 19, 19, 19, 19, 19, 19, 19, 19, 19, 19, 19, 19, 3, 19, 19, 19, 19, 19, 19, 19,
    19, 19, 19, 19, 19, 19, 19, 19, 7, 19, 19, 19, 19, 19, 19, 19, 19, 19, 19, 19, 19, 19, 19, 19,
    3, 19, 19, 19, 19, 19, 19, 19, 19, 19, 19, 19, 19, 19, 19, 19, 3, 19, 19, 19, 19, 19, 19, 19,
    19, 19, 19, 19, 19, 19, 19, 19, 3, 19, 19, 19, 19, 19, 19, 19, 19, 19, 19, 19, 19, 19, 19, 19,
    3, 19, 19, 19, 19, 19, 19, 19, 19, 19, 19, 19, 19, 19, 19, 19, 3, 19, 19, 19, 19, 19, 19, 19,
    19, 19, 19, 19, 19, 19, 19, 19, 3, 19, 19, 19, 19, 19, 19, 19, 19, 19, 19, 19, 19, 19, 19, 19,
    3, 19, 19, 19, 19, 19, 19, 19, 19, 19, 19, 19, 19, 19, 19, 19]"

definition rrdrldTable :: "int list" where
  "rrdrldTable = [
    68, 256, 512, 772, 1024, 1284, 1540, 1792, 2056, 2316, 2572, 2824, 3084, 3336, 3592, 3852,
    4096, 4356, 4612, 4864, 5124, 5376, 5632, 5892, 6156, 6408, 6664, 6924, 7176, 7436, 7692, 7944,
    8224, 8484, 8740, 8992, 9252, 9504, 9760, 10020, 10284, 10536, 10792, 11052, 11304, 11564, 11820, 12072,
    12324, 12576, 12832, 13092, 13344, 13604, 13860, 14112, 14376, 14636, 14892, 15144, 15404, 15656, 15912, 16172,
    16384, 16644, 16900, 17152, 17412, 17664, 17920, 18180, 18444, 18696, 18952, 19212, 19464, 19724, 19980, 20232,
    20484, 20736, 20992, 21252, 21504, 21764, 22020, 22272, 22536, 22796, 23052, 23304, 23564, 23816, 24072, 24332,
    24612, 24864, 25120, 25380, 25632, 25892, 26148, 26400, 26664, 26924, 27180, 27432, 27692, 27944, 28200, 28460,
    28704, 28964, 29220, 29472, 29732, 29984, 30240, 30500, 30764, 31016, 31272, 31532, 31784, 32044, 32300, 32552,
    32896, 33156, 33412, 33664, 33924, 34176, 34432, 34692, 34956, 35208, 35464, 35724, 35976, 36236, 36492, 36744,
    36996, 37248, 37504, 37764, 38016, 38276, 38532, 38784, 39048, 39308, 39564, 39816, 40076, 40328, 40584, 40844,
    41124, 41376, 41632, 41892, 42144, 42404, 42660, 42912, 43176, 43436, 43692, 43944, 44204, 44456, 44712, 44972,
    45216, 45476, 45732, 45984, 46244, 46496, 46752, 47012, 47276, 47528, 47784, 48044, 48296, 48556, 48812, 49064,
    49284, 49536, 49792, 50052, 50304, 50564, 50820, 51072, 51336, 51596, 51852, 52104, 52364, 52616, 52872, 53132,
    53376, 53636, 53892, 54144, 54404, 54656, 54912, 55172, 55436, 55688, 55944, 56204, 56456, 56716, 56972, 57224,
    57504, 57764, 58020, 58272, 58532, 58784, 59040, 59300, 59564, 59816, 60072, 60332, 60584, 60844, 61100, 61352,
    61604, 61856, 62112, 62372, 62624, 62884, 63140, 63392, 63656, 63916, 64172, 64424, 64684, 64936, 65192, 65452]"

definition cpTable :: "int list" where
  "cpTable = [
    64, 0, 0, 0, 0, 0, 0, 0, 0, 0, 0, 0, 0, 0, 0, 0, 0, 0, 0, 0, 0, 0, 0, 0,
    0, 0, 0, 0, 0, 0, 0, 0, 0, 0, 0, 0, 0, 0, 0, 0, 0, 0, 0, 0, 0, 0, 0, 0,
    0, 0, 0, 0, 0, 0, 0, 0, 0, 0, 0, 0, 0, 0, 0, 0, 0, 0, 0, 0, 0, 0, 0, 0,
    0, 0, 0, 0, 0, 0, 0, 0, 0, 0, 0, 0, 0, 0, 0, 0, 0, 0, 0, 0, 0, 0, 0, 0,
    0, 0, 0, 0, 0, 0, 0, 0, 0, 0, 0, 0, 0, 0, 0, 0, 0, 0, 0, 0, 0, 0, 0, 0,
    0, 0, 0, 0, 0, 0, 0, 0, 128, 128, 128, 128, 128, 128, 128, 128, 128, 128, 128, 128, 128, 128, 128, 128,
    128, 128, 128, 128, 128, 128, 128, 128, 128, 128, 128, 128, 128, 128, 128, 128, 128, 128, 128, 128, 128, 128, 128, 128,
    128, 128, 128, 128, 128, 128, 128, 128, 128, 128, 128, 128, 128, 128, 128, 128, 128, 128, 128, 128, 128, 128, 128, 128,
    128, 128, 128, 128, 128, 128, 128, 128, 128, 128, 128, 128, 128, 128, 128, 128, 128, 128, 128, 128, 128, 128, 128, 128,
    128, 128, 128, 128, 128, 128, 128, 128, 128, 128, 128, 128, 128, 128, 128, 128, 128, 128, 128, 128, 128, 128, 128, 128,
    128, 128, 128, 128, 128, 128, 128, 128, 128, 128, 128, 128, 128, 128, 128, 128]"

text \<open>\<open>table[i]\<close>\<close>

definition tbl :: "int list \<Rightarrow> u32 \<Rightarrow> u32" where
  "tbl T i = word_of_int (T ! unat i)"

section \<open>The formulas\<close>

text \<open>The number of ones among the eight low bits.\<close>

definition ones :: "int \<Rightarrow> nat" where
  "ones i = length (filter (bit i) [0, 1, 2, 3, 4, 5, 6, 7])"

definition parity :: "int \<Rightarrow> int" where
  "parity i = (if odd (ones i) then 0 else 4)"

definition f_inc :: "int \<Rightarrow> int" where
  "f_inc i =
     (i AND 0xa8) OR push_bit 6 (of_bool (i AND 0xff = 0)) OR
     push_bit 4 (of_bool (i AND 0xf = 0))"

definition f_dec :: "int \<Rightarrow> int" where
  "f_dec i =
     (i AND 0xa8) OR push_bit 6 (of_bool (i AND 0xff = 0)) OR
     push_bit 4 (of_bool (i AND 0xf = 0xf)) OR 2"

definition f_cbits :: "int \<Rightarrow> int" where
  "f_cbits i =
     (i AND 0x10) OR (drop_bit 8 i AND 1)"

definition f_cbitsDup8 :: "int \<Rightarrow> int" where
  "f_cbitsDup8 i =
     (i AND 0x10) OR (drop_bit 8 i AND 1) OR push_bit 8 (i AND 0xff) OR (i AND 0xa8) OR
     push_bit 6 (of_bool (i AND 0xff = 0))"

definition f_cbitsDup16 :: "int \<Rightarrow> int" where
  "f_cbitsDup16 i =
     (i AND 0x10) OR (drop_bit 8 i AND 1) OR (i AND 0x28)"

definition f_cbits2 :: "int \<Rightarrow> int" where
  "f_cbits2 i =
     (i AND 0x10) OR (drop_bit 8 i AND 1) OR 2"

definition f_rrca :: "int \<Rightarrow> int" where
  "f_rrca i =
     push_bit 15 (i AND 1) OR push_bit 8 (drop_bit 1 i) OR (drop_bit 1 i AND 0x28) OR
     (i AND 1)"

definition f_rra :: "int \<Rightarrow> int" where
  "f_rra i =
     push_bit 8 (drop_bit 1 i) OR (drop_bit 1 i AND 0x28) OR (i AND 1)"

definition f_add :: "int \<Rightarrow> int" where
  "f_add i =
     push_bit 8 (i AND 0xff) OR (i AND 0xa8) OR push_bit 6 (of_bool (i AND 0xff = 0))"

definition f_sub :: "int \<Rightarrow> int" where
  "f_sub i =
     push_bit 8 (i AND 0xff) OR (i AND 0xa8) OR push_bit 6 (of_bool (i AND 0xff = 0)) OR 2"

definition f_and :: "int \<Rightarrow> int" where
  "f_and i =
     push_bit 8 i OR (i AND 0xa8) OR push_bit 6 (of_bool (i = 0)) OR 0x10 OR parity i"

definition f_xoror :: "int \<Rightarrow> int" where
  "f_xoror i =
     push_bit 8 i OR (i AND 0xa8) OR push_bit 6 (of_bool (i = 0)) OR parity i"

definition f_rotateShift :: "int \<Rightarrow> int" where
  "f_rotateShift i =
     (i AND 0xa8) OR push_bit 6 (of_bool (i AND 0xff = 0)) OR parity (i AND 0xff)"

definition f_incZ80 :: "int \<Rightarrow> int" where
  "f_incZ80 i =
     (i AND 0xa8) OR push_bit 6 (of_bool (i AND 0xff = 0)) OR
     push_bit 4 (of_bool (i AND 0xf = 0)) OR push_bit 2 (of_bool (i = 0x80))"

definition f_decZ80 :: "int \<Rightarrow> int" where
  "f_decZ80 i =
     (i AND 0xa8) OR push_bit 6 (of_bool (i AND 0xff = 0)) OR
     push_bit 4 (of_bool (i AND 0xf = 0xf)) OR push_bit 2 (of_bool (i = 0x7f)) OR 2"

definition f_cbitsZ80 :: "int \<Rightarrow> int" where
  "f_cbitsZ80 i =
     (i AND 0x10) OR ((drop_bit 6 i XOR drop_bit 5 i) AND 4) OR (drop_bit 8 i AND 1)"

definition f_cbitsZ80Dup :: "int \<Rightarrow> int" where
  "f_cbitsZ80Dup i =
     (i AND 0x10) OR ((drop_bit 6 i XOR drop_bit 5 i) AND 4) OR (drop_bit 8 i AND 1) OR
     (i AND 0xa8)"

definition f_cbits2Z80 :: "int \<Rightarrow> int" where
  "f_cbits2Z80 i =
     (i AND 0x10) OR ((drop_bit 6 i XOR drop_bit 5 i) AND 4) OR (drop_bit 8 i AND 1) OR 2"

definition f_cbits2Z80Dup :: "int \<Rightarrow> int" where
  "f_cbits2Z80Dup i =
     (i AND 0x10) OR ((drop_bit 6 i XOR drop_bit 5 i) AND 4) OR (drop_bit 8 i AND 1) OR 2 OR
     (i AND 0xa8)"

definition f_neg :: "int \<Rightarrow> int" where
  "f_neg i =
     push_bit 4 (of_bool (i AND 0x0f \<noteq> 0)) OR push_bit 2 (of_bool (i = 0x80)) OR 2 OR
     of_bool (i \<noteq> 0)"

definition f_rrdrld :: "int \<Rightarrow> int" where
  "f_rrdrld i =
     push_bit 8 i OR (i AND 0xa8) OR push_bit 6 (of_bool (i AND 0xff = 0)) OR parity i"

definition f_cp :: "int \<Rightarrow> int" where
  "f_cp i =
     (i AND 0x80) OR push_bit 6 (of_bool (i AND 0xff = 0))"

section \<open>Lookup\<close>

text \<open>A list that tabulates a function on \<open>0..n\<close>.\<close>

locale precomputed =
  fixes T :: "int list" and f :: "int \<Rightarrow> int" and n :: int
  assumes entries: "T = map f [0..n]"
begin

lemma size: "0 \<le> n \<Longrightarrow> length T = nat (n + 1)"
  by (simp add: entries)

lemma lookup: "uint i \<le> n \<Longrightarrow> tbl T i = word_of_int (f (uint i))"
proof -
  assume "uint i \<le> n"
  then have "unat i < length [0..n]" "[0..n] ! unat i = uint i"
    using nth_upto [of 0 "unat i" n] by (simp_all add: zless_nat_eq_int_zless)
  then show ?thesis by (simp add: tbl_def entries del: length_upto)
qed

lemma lookup_bit: "uint i \<le> n \<Longrightarrow> bit (tbl T i) k \<longleftrightarrow> k < 32 \<and> bit (f (uint i)) k"
  by (simp add: lookup bit_word_of_int_iff)

end

interpretation parity_t: precomputed parityTable parity 255
  by unfold_locales code_simp

interpretation inc_t: precomputed incTable f_inc 256
  by unfold_locales code_simp

interpretation dec_t: precomputed decTable f_dec 255
  by unfold_locales code_simp

interpretation cbits_t: precomputed cbitsTable f_cbits 511
  by unfold_locales code_simp

interpretation cbitsDup8_t: precomputed cbitsDup8Table f_cbitsDup8 511
  by unfold_locales code_simp

interpretation cbitsDup16_t: precomputed cbitsDup16Table f_cbitsDup16 511
  by unfold_locales code_simp

interpretation cbits2_t: precomputed cbits2Table f_cbits2 511
  by unfold_locales code_simp

interpretation rrca_t: precomputed rrcaTable f_rrca 255
  by unfold_locales code_simp

interpretation rra_t: precomputed rraTable f_rra 255
  by unfold_locales code_simp

interpretation add_t: precomputed addTable f_add 511
  by unfold_locales code_simp

interpretation sub_t: precomputed subTable f_sub 255
  by unfold_locales code_simp

interpretation and_t: precomputed andTable f_and 255
  by unfold_locales code_simp

interpretation xoror_t: precomputed xororTable f_xoror 255
  by unfold_locales code_simp

interpretation rotateShift_t: precomputed rotateShiftTable f_rotateShift 255
  by unfold_locales code_simp

interpretation incZ80_t: precomputed incZ80Table f_incZ80 256
  by unfold_locales code_simp

interpretation decZ80_t: precomputed decZ80Table f_decZ80 255
  by unfold_locales code_simp

interpretation cbitsZ80_t: precomputed cbitsZ80Table f_cbitsZ80 511
  by unfold_locales code_simp

interpretation cbitsZ80Dup_t: precomputed cbitsZ80DupTable f_cbitsZ80Dup 511
  by unfold_locales code_simp

interpretation cbits2Z80_t: precomputed cbits2Z80Table f_cbits2Z80 511
  by unfold_locales code_simp

interpretation cbits2Z80Dup_t: precomputed cbits2Z80DupTable f_cbits2Z80Dup 511
  by unfold_locales code_simp

interpretation neg_t: precomputed negTable f_neg 255
  by unfold_locales code_simp

interpretation rrdrld_t: precomputed rrdrldTable f_rrdrld 255
  by unfold_locales code_simp

interpretation cp_t: precomputed cpTable f_cp 255
  by unfold_locales code_simp

section \<open>The tables are what the comment says\<close>

text \<open>
  Each of the 23 tables has the entries its documented formula gives, over the whole
  range the comment states for it.
\<close>

theorem tables_correct:
  "parityTable = map parity [0..255]
   \<and> incTable = map f_inc [0..256]
   \<and> decTable = map f_dec [0..255]
   \<and> cbitsTable = map f_cbits [0..511]
   \<and> cbitsDup8Table = map f_cbitsDup8 [0..511]
   \<and> cbitsDup16Table = map f_cbitsDup16 [0..511]
   \<and> cbits2Table = map f_cbits2 [0..511]
   \<and> rrcaTable = map f_rrca [0..255]
   \<and> rraTable = map f_rra [0..255]
   \<and> addTable = map f_add [0..511]
   \<and> subTable = map f_sub [0..255]
   \<and> andTable = map f_and [0..255]
   \<and> xororTable = map f_xoror [0..255]
   \<and> rotateShiftTable = map f_rotateShift [0..255]
   \<and> incZ80Table = map f_incZ80 [0..256]
   \<and> decZ80Table = map f_decZ80 [0..255]
   \<and> cbitsZ80Table = map f_cbitsZ80 [0..511]
   \<and> cbitsZ80DupTable = map f_cbitsZ80Dup [0..511]
   \<and> cbits2Z80Table = map f_cbits2Z80 [0..511]
   \<and> cbits2Z80DupTable = map f_cbits2Z80Dup [0..511]
   \<and> negTable = map f_neg [0..255]
   \<and> rrdrldTable = map f_rrdrld [0..255]
   \<and> cpTable = map f_cp [0..255]"
  by (intro conjI)
    (rule parity_t.entries
      inc_t.entries
      dec_t.entries
      cbits_t.entries
      cbitsDup8_t.entries
      cbitsDup16_t.entries
      cbits2_t.entries
      rrca_t.entries
      rra_t.entries
      add_t.entries
      sub_t.entries
      and_t.entries
      xoror_t.entries
      rotateShift_t.entries
      incZ80_t.entries
      decZ80_t.entries
      cbitsZ80_t.entries
      cbitsZ80Dup_t.entries
      cbits2Z80_t.entries
      cbits2Z80Dup_t.entries
      neg_t.entries
      rrdrld_t.entries
      cp_t.entries)+

end
