(* ===== verification/Z80_Block0.thy ===== *)
theory Z80_Block0
  imports Z80_State Z80_Tables
begin

text \<open>
  Opcodes 0x00 to 0x3f of \<open>Z80run\<close>: 16-bit loads and arithmetic, increments and decrements,
  accumulator rotates, \<open>DAA\<close>, relative jumps.
\<close>

(* NOP *)
definition op_00 :: "'w cpu \<Rightarrow> 'w cpu" where
  "op_00 s = s"

(* LD BC,nnnn *)
definition op_01 :: "'w cpu \<Rightarrow> 'w cpu" where
  "op_01 s =
     (let s = s\<lparr>BC := GET_WORD s (PC s)\<rparr>
      in s\<lparr>PC := PC s + 2\<rparr>)"

(* LD (BC),A *)
definition op_02 :: "'w cpu \<Rightarrow> 'w cpu" where
  "op_02 s = PUT_BYTE (BC s) (HIGH_REGISTER (AF s)) s"

(* INC BC *)
definition op_03 :: "'w cpu \<Rightarrow> 'w cpu" where
  "op_03 s = s\<lparr>BC := BC s + 1\<rparr>"

(* INC B *)
definition op_04 :: "'w cpu \<Rightarrow> 'w cpu" where
  "op_04 s =
     (let s = s\<lparr>BC := BC s + 0x100\<rparr>;
          temp = HIGH_REGISTER (BC s)
      in s\<lparr>AF := (AF s AND NOT 0xfe) OR tbl incTable temp OR SET_PV2 temp 0x80\<rparr>)"

(* DEC B *)
definition op_05 :: "'w cpu \<Rightarrow> 'w cpu" where
  "op_05 s =
     (let s = s\<lparr>BC := BC s - 0x100\<rparr>;
          temp = HIGH_REGISTER (BC s)
      in s\<lparr>AF := (AF s AND NOT 0xfe) OR tbl decTable temp OR SET_PV2 temp 0x7f\<rparr>)"

(* LD B,nn *)
definition op_06 :: "'w cpu \<Rightarrow> 'w cpu" where
  "op_06 s =
     (let v = GET_BYTE s (PC s);
          s = s\<lparr>PC := PC s + 1\<rparr>
      in s\<lparr>BC := SET_HIGH_REGISTER (BC s) v\<rparr>)"

(* RLCA *)
definition op_07 :: "'w cpu \<Rightarrow> 'w cpu" where
  "op_07 s =
     s\<lparr>AF := (signed_drop_bit 7 (AF s) AND 0x0128) OR
            (push_bit 1 (AF s) AND NOT 0x1ff) OR (AF s AND 0xc4) OR
            (signed_drop_bit 15 (AF s) AND 1)\<rparr>"

(* EX AF,AF' *)
definition op_08 :: "'w cpu \<Rightarrow> 'w cpu" where
  "op_08 s =
     (let temp = AF s;
          s = s\<lparr>AF := AF1 s\<rparr>
      in s\<lparr>AF1 := temp\<rparr>)"

(* ADD HL,BC *)
definition op_09 :: "'w cpu \<Rightarrow> 'w cpu" where
  "op_09 s =
     (let s = s\<lparr>HL := HL s AND ADDRMASK\<rparr>;
          s = s\<lparr>BC := BC s AND ADDRMASK\<rparr>;
          sum = HL s + BC s;
          s = s\<lparr>AF := (AF s AND NOT 0x3b) OR (drop_bit 8 sum AND 0x28) OR
            tbl cbitsTable (drop_bit 8 (HL s XOR BC s XOR sum))\<rparr>
      in s\<lparr>HL := sum\<rparr>)"

(* LD A,(BC) *)
definition op_0a :: "'w cpu \<Rightarrow> 'w cpu" where
  "op_0a s = s\<lparr>AF := SET_HIGH_REGISTER (AF s) (GET_BYTE s (BC s))\<rparr>"

(* DEC BC *)
definition op_0b :: "'w cpu \<Rightarrow> 'w cpu" where
  "op_0b s = s\<lparr>BC := BC s - 1\<rparr>"

(* INC C *)
definition op_0c :: "'w cpu \<Rightarrow> 'w cpu" where
  "op_0c s =
     (let temp = LOW_REGISTER (BC s) + 1;
          s = s\<lparr>BC := SET_LOW_REGISTER (BC s) temp\<rparr>
      in s\<lparr>AF := (AF s AND NOT 0xfe) OR tbl incTable temp OR SET_PV2 temp 0x80\<rparr>)"

(* DEC C *)
definition op_0d :: "'w cpu \<Rightarrow> 'w cpu" where
  "op_0d s =
     (let temp = LOW_REGISTER (BC s) - 1;
          s = s\<lparr>BC := SET_LOW_REGISTER (BC s) temp\<rparr>
      in s\<lparr>AF := (AF s AND NOT 0xfe) OR tbl decTable (temp AND 0xff) OR
            SET_PV2 temp 0x7f\<rparr>)"

(* LD C,nn *)
definition op_0e :: "'w cpu \<Rightarrow> 'w cpu" where
  "op_0e s =
     (let v = GET_BYTE s (PC s);
          s = s\<lparr>PC := PC s + 1\<rparr>
      in s\<lparr>BC := SET_LOW_REGISTER (BC s) v\<rparr>)"

(* RRCA *)
definition op_0f :: "'w cpu \<Rightarrow> 'w cpu" where
  "op_0f s = s\<lparr>AF := (AF s AND 0xc4) OR tbl rrcaTable (HIGH_REGISTER (AF s))\<rparr>"

(* DJNZ dd *)
definition op_10 :: "'w cpu \<Rightarrow> 'w cpu" where
  "op_10 s =
     (let s = s\<lparr>BC := BC s - 0x100\<rparr>
      in (if BC s AND 0xff00 \<noteq> 0 then s\<lparr>PC := PC s + int8 (GET_BYTE s (PC s)) + 1\<rparr> else s\<lparr>PC := PC s + 1\<rparr>))"

(* LD DE,nnnn *)
definition op_11 :: "'w cpu \<Rightarrow> 'w cpu" where
  "op_11 s =
     (let s = s\<lparr>DE := GET_WORD s (PC s)\<rparr>
      in s\<lparr>PC := PC s + 2\<rparr>)"

(* LD (DE),A *)
definition op_12 :: "'w cpu \<Rightarrow> 'w cpu" where
  "op_12 s = PUT_BYTE (DE s) (HIGH_REGISTER (AF s)) s"

(* INC DE *)
definition op_13 :: "'w cpu \<Rightarrow> 'w cpu" where
  "op_13 s = s\<lparr>DE := DE s + 1\<rparr>"

(* INC D *)
definition op_14 :: "'w cpu \<Rightarrow> 'w cpu" where
  "op_14 s =
     (let s = s\<lparr>DE := DE s + 0x100\<rparr>;
          temp = HIGH_REGISTER (DE s)
      in s\<lparr>AF := (AF s AND NOT 0xfe) OR tbl incTable temp OR SET_PV2 temp 0x80\<rparr>)"

(* DEC D *)
definition op_15 :: "'w cpu \<Rightarrow> 'w cpu" where
  "op_15 s =
     (let s = s\<lparr>DE := DE s - 0x100\<rparr>;
          temp = HIGH_REGISTER (DE s)
      in s\<lparr>AF := (AF s AND NOT 0xfe) OR tbl decTable temp OR SET_PV2 temp 0x7f\<rparr>)"

(* LD D,nn *)
definition op_16 :: "'w cpu \<Rightarrow> 'w cpu" where
  "op_16 s =
     (let v = GET_BYTE s (PC s);
          s = s\<lparr>PC := PC s + 1\<rparr>
      in s\<lparr>DE := SET_HIGH_REGISTER (DE s) v\<rparr>)"

(* RLA *)
definition op_17 :: "'w cpu \<Rightarrow> 'w cpu" where
  "op_17 s =
     s\<lparr>AF := (push_bit 8 (AF s) AND 0x0100) OR (signed_drop_bit 7 (AF s) AND 0x28) OR
            (push_bit 1 (AF s) AND NOT 0x01ff) OR (AF s AND 0xc4) OR
            (signed_drop_bit 15 (AF s) AND 1)\<rparr>"

(* JR dd *)
definition op_18 :: "'w cpu \<Rightarrow> 'w cpu" where
  "op_18 s = s\<lparr>PC := PC s + int8 (GET_BYTE s (PC s)) + 1\<rparr>"

(* ADD HL,DE *)
definition op_19 :: "'w cpu \<Rightarrow> 'w cpu" where
  "op_19 s =
     (let s = s\<lparr>HL := HL s AND ADDRMASK\<rparr>;
          s = s\<lparr>DE := DE s AND ADDRMASK\<rparr>;
          sum = HL s + DE s;
          s = s\<lparr>AF := (AF s AND NOT 0x3b) OR (drop_bit 8 sum AND 0x28) OR
            tbl cbitsTable (drop_bit 8 (HL s XOR DE s XOR sum))\<rparr>
      in s\<lparr>HL := sum\<rparr>)"

(* LD A,(DE) *)
definition op_1a :: "'w cpu \<Rightarrow> 'w cpu" where
  "op_1a s = s\<lparr>AF := SET_HIGH_REGISTER (AF s) (GET_BYTE s (DE s))\<rparr>"

(* DEC DE *)
definition op_1b :: "'w cpu \<Rightarrow> 'w cpu" where
  "op_1b s = s\<lparr>DE := DE s - 1\<rparr>"

(* INC E *)
definition op_1c :: "'w cpu \<Rightarrow> 'w cpu" where
  "op_1c s =
     (let temp = LOW_REGISTER (DE s) + 1;
          s = s\<lparr>DE := SET_LOW_REGISTER (DE s) temp\<rparr>
      in s\<lparr>AF := (AF s AND NOT 0xfe) OR tbl incTable temp OR SET_PV2 temp 0x80\<rparr>)"

(* DEC E *)
definition op_1d :: "'w cpu \<Rightarrow> 'w cpu" where
  "op_1d s =
     (let temp = LOW_REGISTER (DE s) - 1;
          s = s\<lparr>DE := SET_LOW_REGISTER (DE s) temp\<rparr>
      in s\<lparr>AF := (AF s AND NOT 0xfe) OR tbl decTable (temp AND 0xff) OR
            SET_PV2 temp 0x7f\<rparr>)"

(* LD E,nn *)
definition op_1e :: "'w cpu \<Rightarrow> 'w cpu" where
  "op_1e s =
     (let v = GET_BYTE s (PC s);
          s = s\<lparr>PC := PC s + 1\<rparr>
      in s\<lparr>DE := SET_LOW_REGISTER (DE s) v\<rparr>)"

(* RRA *)
definition op_1f :: "'w cpu \<Rightarrow> 'w cpu" where
  "op_1f s =
     s\<lparr>AF := push_bit 15 (AF s AND 1) OR (AF s AND 0xc4) OR
            tbl rraTable (HIGH_REGISTER (AF s))\<rparr>"

(* JR NZ,dd *)
definition op_20 :: "'w cpu \<Rightarrow> 'w cpu" where
  "op_20 s =
     (if TSTFLAG s FLAG_Z then s\<lparr>PC := PC s + 1\<rparr> else s\<lparr>PC := PC s + int8 (GET_BYTE s (PC s)) + 1\<rparr>)"

(* LD HL,nnnn *)
definition op_21 :: "'w cpu \<Rightarrow> 'w cpu" where
  "op_21 s =
     (let s = s\<lparr>HL := GET_WORD s (PC s)\<rparr>
      in s\<lparr>PC := PC s + 2\<rparr>)"

(* LD (nnnn),HL *)
definition op_22 :: "'w cpu \<Rightarrow> 'w cpu" where
  "op_22 s =
     (let temp = GET_WORD s (PC s);
          s = PUT_WORD temp (HL s) s
      in s\<lparr>PC := PC s + 2\<rparr>)"

(* INC HL *)
definition op_23 :: "'w cpu \<Rightarrow> 'w cpu" where
  "op_23 s = s\<lparr>HL := HL s + 1\<rparr>"

(* INC H *)
definition op_24 :: "'w cpu \<Rightarrow> 'w cpu" where
  "op_24 s =
     (let s = s\<lparr>HL := HL s + 0x100\<rparr>;
          temp = HIGH_REGISTER (HL s)
      in s\<lparr>AF := (AF s AND NOT 0xfe) OR tbl incTable temp OR SET_PV2 temp 0x80\<rparr>)"

(* DEC H *)
definition op_25 :: "'w cpu \<Rightarrow> 'w cpu" where
  "op_25 s =
     (let s = s\<lparr>HL := HL s - 0x100\<rparr>;
          temp = HIGH_REGISTER (HL s)
      in s\<lparr>AF := (AF s AND NOT 0xfe) OR tbl decTable temp OR SET_PV2 temp 0x7f\<rparr>)"

(* LD H,nn *)
definition op_26 :: "'w cpu \<Rightarrow> 'w cpu" where
  "op_26 s =
     (let v = GET_BYTE s (PC s);
          s = s\<lparr>PC := PC s + 1\<rparr>
      in s\<lparr>HL := SET_HIGH_REGISTER (HL s) v\<rparr>)"

(* JR Z,dd *)
definition op_28 :: "'w cpu \<Rightarrow> 'w cpu" where
  "op_28 s =
     (if TSTFLAG s FLAG_Z then s\<lparr>PC := PC s + int8 (GET_BYTE s (PC s)) + 1\<rparr> else s\<lparr>PC := PC s + 1\<rparr>)"

(* ADD HL,HL *)
definition op_29 :: "'w cpu \<Rightarrow> 'w cpu" where
  "op_29 s =
     (let s = s\<lparr>HL := HL s AND ADDRMASK\<rparr>;
          sum = HL s + HL s;
          s = s\<lparr>AF := (AF s AND NOT 0x3b) OR tbl cbitsDup16Table (drop_bit 8 sum)\<rparr>
      in s\<lparr>HL := sum\<rparr>)"

(* LD HL,(nnnn) *)
definition op_2a :: "'w cpu \<Rightarrow> 'w cpu" where
  "op_2a s =
     (let temp = GET_WORD s (PC s);
          s = s\<lparr>HL := GET_WORD s temp\<rparr>
      in s\<lparr>PC := PC s + 2\<rparr>)"

(* DEC HL *)
definition op_2b :: "'w cpu \<Rightarrow> 'w cpu" where
  "op_2b s = s\<lparr>HL := HL s - 1\<rparr>"

(* INC L *)
definition op_2c :: "'w cpu \<Rightarrow> 'w cpu" where
  "op_2c s =
     (let temp = LOW_REGISTER (HL s) + 1;
          s = s\<lparr>HL := SET_LOW_REGISTER (HL s) temp\<rparr>
      in s\<lparr>AF := (AF s AND NOT 0xfe) OR tbl incTable temp OR SET_PV2 temp 0x80\<rparr>)"

(* DEC L *)
definition op_2d :: "'w cpu \<Rightarrow> 'w cpu" where
  "op_2d s =
     (let temp = LOW_REGISTER (HL s) - 1;
          s = s\<lparr>HL := SET_LOW_REGISTER (HL s) temp\<rparr>
      in s\<lparr>AF := (AF s AND NOT 0xfe) OR tbl decTable (temp AND 0xff) OR
            SET_PV2 temp 0x7f\<rparr>)"

(* LD L,nn *)
definition op_2e :: "'w cpu \<Rightarrow> 'w cpu" where
  "op_2e s =
     (let v = GET_BYTE s (PC s);
          s = s\<lparr>PC := PC s + 1\<rparr>
      in s\<lparr>HL := SET_LOW_REGISTER (HL s) v\<rparr>)"

(* CPL *)
definition op_2f :: "'w cpu \<Rightarrow> 'w cpu" where
  "op_2f s =
     s\<lparr>AF := (NOT (AF s) AND NOT 0xff) OR (AF s AND 0xc5) OR
            (signed_drop_bit 8 (NOT (AF s)) AND 0x28) OR 0x12\<rparr>"

(* JR NC,dd *)
definition op_30 :: "'w cpu \<Rightarrow> 'w cpu" where
  "op_30 s =
     (if TSTFLAG s FLAG_C then s\<lparr>PC := PC s + 1\<rparr> else s\<lparr>PC := PC s + int8 (GET_BYTE s (PC s)) + 1\<rparr>)"

(* LD SP,nnnn *)
definition op_31 :: "'w cpu \<Rightarrow> 'w cpu" where
  "op_31 s =
     (let s = s\<lparr>SP := GET_WORD s (PC s)\<rparr>
      in s\<lparr>PC := PC s + 2\<rparr>)"

(* LD (nnnn),A *)
definition op_32 :: "'w cpu \<Rightarrow> 'w cpu" where
  "op_32 s =
     (let temp = GET_WORD s (PC s);
          s = PUT_BYTE temp (HIGH_REGISTER (AF s)) s
      in s\<lparr>PC := PC s + 2\<rparr>)"

(* INC SP *)
definition op_33 :: "'w cpu \<Rightarrow> 'w cpu" where
  "op_33 s = s\<lparr>SP := SP s + 1\<rparr>"

(* INC (HL) *)
definition op_34 :: "'w cpu \<Rightarrow> 'w cpu" where
  "op_34 s =
     (let temp = GET_BYTE s (HL s) + 1;
          s = PUT_BYTE (HL s) temp s
      in s\<lparr>AF := (AF s AND NOT 0xfe) OR tbl incTable temp OR SET_PV2 temp 0x80\<rparr>)"

(* DEC (HL) *)
definition op_35 :: "'w cpu \<Rightarrow> 'w cpu" where
  "op_35 s =
     (let temp = GET_BYTE s (HL s) - 1;
          s = PUT_BYTE (HL s) temp s
      in s\<lparr>AF := (AF s AND NOT 0xfe) OR tbl decTable (temp AND 0xff) OR
            SET_PV2 temp 0x7f\<rparr>)"

(* LD (HL),nn *)
definition op_36 :: "'w cpu \<Rightarrow> 'w cpu" where
  "op_36 s =
     (let v = GET_BYTE s (PC s);
          s = s\<lparr>PC := PC s + 1\<rparr>
      in PUT_BYTE (HL s) v s)"

(* SCF *)
definition op_37 :: "'w cpu \<Rightarrow> 'w cpu" where
  "op_37 s =
     s\<lparr>AF := (AF s AND NOT 0x3b) OR (signed_drop_bit 8 (AF s) AND 0x28) OR 1\<rparr>"

(* JR C,dd *)
definition op_38 :: "'w cpu \<Rightarrow> 'w cpu" where
  "op_38 s =
     (if TSTFLAG s FLAG_C then s\<lparr>PC := PC s + int8 (GET_BYTE s (PC s)) + 1\<rparr> else s\<lparr>PC := PC s + 1\<rparr>)"

(* ADD HL,SP *)
definition op_39 :: "'w cpu \<Rightarrow> 'w cpu" where
  "op_39 s =
     (let s = s\<lparr>HL := HL s AND ADDRMASK\<rparr>;
          s = s\<lparr>SP := SP s AND ADDRMASK\<rparr>;
          sum = HL s + SP s;
          s = s\<lparr>AF := (AF s AND NOT 0x3b) OR (drop_bit 8 sum AND 0x28) OR
            tbl cbitsTable (drop_bit 8 (HL s XOR SP s XOR sum))\<rparr>
      in s\<lparr>HL := sum\<rparr>)"

(* LD A,(nnnn) *)
definition op_3a :: "'w cpu \<Rightarrow> 'w cpu" where
  "op_3a s =
     (let temp = GET_WORD s (PC s);
          s = s\<lparr>AF := SET_HIGH_REGISTER (AF s) (GET_BYTE s temp)\<rparr>
      in s\<lparr>PC := PC s + 2\<rparr>)"

(* DEC SP *)
definition op_3b :: "'w cpu \<Rightarrow> 'w cpu" where
  "op_3b s = s\<lparr>SP := SP s - 1\<rparr>"

(* INC A *)
definition op_3c :: "'w cpu \<Rightarrow> 'w cpu" where
  "op_3c s =
     (let s = s\<lparr>AF := AF s + 0x100\<rparr>;
          temp = HIGH_REGISTER (AF s)
      in s\<lparr>AF := (AF s AND NOT 0xfe) OR tbl incTable temp OR SET_PV2 temp 0x80\<rparr>)"

(* DEC A *)
definition op_3d :: "'w cpu \<Rightarrow> 'w cpu" where
  "op_3d s =
     (let s = s\<lparr>AF := AF s - 0x100\<rparr>;
          temp = HIGH_REGISTER (AF s)
      in s\<lparr>AF := (AF s AND NOT 0xfe) OR tbl decTable temp OR SET_PV2 temp 0x7f\<rparr>)"

(* LD A,nn *)
definition op_3e :: "'w cpu \<Rightarrow> 'w cpu" where
  "op_3e s =
     (let v = GET_BYTE s (PC s);
          s = s\<lparr>PC := PC s + 1\<rparr>
      in s\<lparr>AF := SET_HIGH_REGISTER (AF s) v\<rparr>)"

(* CCF *)
definition op_3f :: "'w cpu \<Rightarrow> 'w cpu" where
  "op_3f s =
     s\<lparr>AF := (AF s AND NOT 0x3b) OR (signed_drop_bit 8 (AF s) AND 0x28) OR
            push_bit 4 (AF s AND 1) OR (NOT (AF s) AND 1)\<rparr>"

(* DAA *)
definition op_27 :: "'w cpu \<Rightarrow> 'w cpu" where
  "op_27 s =
     (let acu = HIGH_REGISTER (AF s);
          temp = LOW_DIGIT acu;
          cbits = of_bool (TSTFLAG s FLAG_C);
          (acu, s) =
            (if TSTFLAG s FLAG_N then
               (let hd = (cbits \<noteq> 0 \<or> 0x99 < acu);
                    (acu, s) =
                      (if TSTFLAG s FLAG_H \<or> 9 < temp then
                         (let s = (if 5 < temp then SETFLAG FLAG_H False s else s) in ((acu - 6) AND 0xff, s))
                       else (acu, s))
                in (if hd then acu - 0x160 else acu, s))
             else
               (let (acu, s) =
                      (if TSTFLAG s FLAG_H \<or> 9 < temp then
                         (let s = SETFLAG FLAG_H (9 < temp) s in (acu + 6, s))
                       else (acu, s))
                in (if cbits \<noteq> 0 \<or> 0x90 < acu AND 0x1f0 then acu + 0x60 else acu, s)))
      in s\<lparr>AF := (AF s AND 0x12) OR tbl rrdrldTable (acu AND 0xff) OR (drop_bit 8 acu AND 1) OR cbits\<rparr>)"

end
