(* ===== verification/Z80_Block1.thy ===== *)
theory Z80_Block1
  imports Z80_State Z80_Tables
begin

text \<open>
  Opcodes 0x40 to 0x7f of \<open>Z80run\<close>: the 8-bit loads, and \<open>HALT\<close>, which besides moving \<open>PC\<close> back
  ends the run.
\<close>

(* LD B,B *)
definition op_40 :: "'w cpu \<Rightarrow> 'w cpu" where
  "op_40 s = s"

(* LD B,C *)
definition op_41 :: "'w cpu \<Rightarrow> 'w cpu" where
  "op_41 s = s\<lparr>BC := (BC s AND 0xff) OR push_bit 8 (BC s AND 0xff)\<rparr>"

(* LD B,D *)
definition op_42 :: "'w cpu \<Rightarrow> 'w cpu" where
  "op_42 s = s\<lparr>BC := (BC s AND 0xff) OR (DE s AND NOT 0xff)\<rparr>"

(* LD B,E *)
definition op_43 :: "'w cpu \<Rightarrow> 'w cpu" where
  "op_43 s = s\<lparr>BC := (BC s AND 0xff) OR push_bit 8 (DE s AND 0xff)\<rparr>"

(* LD B,H *)
definition op_44 :: "'w cpu \<Rightarrow> 'w cpu" where
  "op_44 s = s\<lparr>BC := (BC s AND 0xff) OR (HL s AND NOT 0xff)\<rparr>"

(* LD B,L *)
definition op_45 :: "'w cpu \<Rightarrow> 'w cpu" where
  "op_45 s = s\<lparr>BC := (BC s AND 0xff) OR push_bit 8 (HL s AND 0xff)\<rparr>"

(* LD B,(HL) *)
definition op_46 :: "'w cpu \<Rightarrow> 'w cpu" where
  "op_46 s = s\<lparr>BC := SET_HIGH_REGISTER (BC s) (GET_BYTE s (HL s))\<rparr>"

(* LD B,A *)
definition op_47 :: "'w cpu \<Rightarrow> 'w cpu" where
  "op_47 s = s\<lparr>BC := (BC s AND 0xff) OR (AF s AND NOT 0xff)\<rparr>"

(* LD C,B *)
definition op_48 :: "'w cpu \<Rightarrow> 'w cpu" where
  "op_48 s = s\<lparr>BC := (BC s AND NOT 0xff) OR (signed_drop_bit 8 (BC s) AND 0xff)\<rparr>"

(* LD C,C *)
definition op_49 :: "'w cpu \<Rightarrow> 'w cpu" where
  "op_49 s = s"

(* LD C,D *)
definition op_4a :: "'w cpu \<Rightarrow> 'w cpu" where
  "op_4a s = s\<lparr>BC := (BC s AND NOT 0xff) OR (signed_drop_bit 8 (DE s) AND 0xff)\<rparr>"

(* LD C,E *)
definition op_4b :: "'w cpu \<Rightarrow> 'w cpu" where
  "op_4b s = s\<lparr>BC := (BC s AND NOT 0xff) OR (DE s AND 0xff)\<rparr>"

(* LD C,H *)
definition op_4c :: "'w cpu \<Rightarrow> 'w cpu" where
  "op_4c s = s\<lparr>BC := (BC s AND NOT 0xff) OR (signed_drop_bit 8 (HL s) AND 0xff)\<rparr>"

(* LD C,L *)
definition op_4d :: "'w cpu \<Rightarrow> 'w cpu" where
  "op_4d s = s\<lparr>BC := (BC s AND NOT 0xff) OR (HL s AND 0xff)\<rparr>"

(* LD C,(HL) *)
definition op_4e :: "'w cpu \<Rightarrow> 'w cpu" where
  "op_4e s = s\<lparr>BC := SET_LOW_REGISTER (BC s) (GET_BYTE s (HL s))\<rparr>"

(* LD C,A *)
definition op_4f :: "'w cpu \<Rightarrow> 'w cpu" where
  "op_4f s = s\<lparr>BC := (BC s AND NOT 0xff) OR (signed_drop_bit 8 (AF s) AND 0xff)\<rparr>"

(* LD D,B *)
definition op_50 :: "'w cpu \<Rightarrow> 'w cpu" where
  "op_50 s = s\<lparr>DE := (DE s AND 0xff) OR (BC s AND NOT 0xff)\<rparr>"

(* LD D,C *)
definition op_51 :: "'w cpu \<Rightarrow> 'w cpu" where
  "op_51 s = s\<lparr>DE := (DE s AND 0xff) OR push_bit 8 (BC s AND 0xff)\<rparr>"

(* LD D,D *)
definition op_52 :: "'w cpu \<Rightarrow> 'w cpu" where
  "op_52 s = s"

(* LD D,E *)
definition op_53 :: "'w cpu \<Rightarrow> 'w cpu" where
  "op_53 s = s\<lparr>DE := (DE s AND 0xff) OR push_bit 8 (DE s AND 0xff)\<rparr>"

(* LD D,H *)
definition op_54 :: "'w cpu \<Rightarrow> 'w cpu" where
  "op_54 s = s\<lparr>DE := (DE s AND 0xff) OR (HL s AND NOT 0xff)\<rparr>"

(* LD D,L *)
definition op_55 :: "'w cpu \<Rightarrow> 'w cpu" where
  "op_55 s = s\<lparr>DE := (DE s AND 0xff) OR push_bit 8 (HL s AND 0xff)\<rparr>"

(* LD D,(HL) *)
definition op_56 :: "'w cpu \<Rightarrow> 'w cpu" where
  "op_56 s = s\<lparr>DE := SET_HIGH_REGISTER (DE s) (GET_BYTE s (HL s))\<rparr>"

(* LD D,A *)
definition op_57 :: "'w cpu \<Rightarrow> 'w cpu" where
  "op_57 s = s\<lparr>DE := (DE s AND 0xff) OR (AF s AND NOT 0xff)\<rparr>"

(* LD E,B *)
definition op_58 :: "'w cpu \<Rightarrow> 'w cpu" where
  "op_58 s = s\<lparr>DE := (DE s AND NOT 0xff) OR (signed_drop_bit 8 (BC s) AND 0xff)\<rparr>"

(* LD E,C *)
definition op_59 :: "'w cpu \<Rightarrow> 'w cpu" where
  "op_59 s = s\<lparr>DE := (DE s AND NOT 0xff) OR (BC s AND 0xff)\<rparr>"

(* LD E,D *)
definition op_5a :: "'w cpu \<Rightarrow> 'w cpu" where
  "op_5a s = s\<lparr>DE := (DE s AND NOT 0xff) OR (signed_drop_bit 8 (DE s) AND 0xff)\<rparr>"

(* LD E,E *)
definition op_5b :: "'w cpu \<Rightarrow> 'w cpu" where
  "op_5b s = s"

(* LD E,H *)
definition op_5c :: "'w cpu \<Rightarrow> 'w cpu" where
  "op_5c s = s\<lparr>DE := (DE s AND NOT 0xff) OR (signed_drop_bit 8 (HL s) AND 0xff)\<rparr>"

(* LD E,L *)
definition op_5d :: "'w cpu \<Rightarrow> 'w cpu" where
  "op_5d s = s\<lparr>DE := (DE s AND NOT 0xff) OR (HL s AND 0xff)\<rparr>"

(* LD E,(HL) *)
definition op_5e :: "'w cpu \<Rightarrow> 'w cpu" where
  "op_5e s = s\<lparr>DE := SET_LOW_REGISTER (DE s) (GET_BYTE s (HL s))\<rparr>"

(* LD E,A *)
definition op_5f :: "'w cpu \<Rightarrow> 'w cpu" where
  "op_5f s = s\<lparr>DE := (DE s AND NOT 0xff) OR (signed_drop_bit 8 (AF s) AND 0xff)\<rparr>"

(* LD H,B *)
definition op_60 :: "'w cpu \<Rightarrow> 'w cpu" where
  "op_60 s = s\<lparr>HL := (HL s AND 0xff) OR (BC s AND NOT 0xff)\<rparr>"

(* LD H,C *)
definition op_61 :: "'w cpu \<Rightarrow> 'w cpu" where
  "op_61 s = s\<lparr>HL := (HL s AND 0xff) OR push_bit 8 (BC s AND 0xff)\<rparr>"

(* LD H,D *)
definition op_62 :: "'w cpu \<Rightarrow> 'w cpu" where
  "op_62 s = s\<lparr>HL := (HL s AND 0xff) OR (DE s AND NOT 0xff)\<rparr>"

(* LD H,E *)
definition op_63 :: "'w cpu \<Rightarrow> 'w cpu" where
  "op_63 s = s\<lparr>HL := (HL s AND 0xff) OR push_bit 8 (DE s AND 0xff)\<rparr>"

(* LD H,H *)
definition op_64 :: "'w cpu \<Rightarrow> 'w cpu" where
  "op_64 s = s"

(* LD H,L *)
definition op_65 :: "'w cpu \<Rightarrow> 'w cpu" where
  "op_65 s = s\<lparr>HL := (HL s AND 0xff) OR push_bit 8 (HL s AND 0xff)\<rparr>"

(* LD H,(HL) *)
definition op_66 :: "'w cpu \<Rightarrow> 'w cpu" where
  "op_66 s = s\<lparr>HL := SET_HIGH_REGISTER (HL s) (GET_BYTE s (HL s))\<rparr>"

(* LD H,A *)
definition op_67 :: "'w cpu \<Rightarrow> 'w cpu" where
  "op_67 s = s\<lparr>HL := (HL s AND 0xff) OR (AF s AND NOT 0xff)\<rparr>"

(* LD L,B *)
definition op_68 :: "'w cpu \<Rightarrow> 'w cpu" where
  "op_68 s = s\<lparr>HL := (HL s AND NOT 0xff) OR (signed_drop_bit 8 (BC s) AND 0xff)\<rparr>"

(* LD L,C *)
definition op_69 :: "'w cpu \<Rightarrow> 'w cpu" where
  "op_69 s = s\<lparr>HL := (HL s AND NOT 0xff) OR (BC s AND 0xff)\<rparr>"

(* LD L,D *)
definition op_6a :: "'w cpu \<Rightarrow> 'w cpu" where
  "op_6a s = s\<lparr>HL := (HL s AND NOT 0xff) OR (signed_drop_bit 8 (DE s) AND 0xff)\<rparr>"

(* LD L,E *)
definition op_6b :: "'w cpu \<Rightarrow> 'w cpu" where
  "op_6b s = s\<lparr>HL := (HL s AND NOT 0xff) OR (DE s AND 0xff)\<rparr>"

(* LD L,H *)
definition op_6c :: "'w cpu \<Rightarrow> 'w cpu" where
  "op_6c s = s\<lparr>HL := (HL s AND NOT 0xff) OR (signed_drop_bit 8 (HL s) AND 0xff)\<rparr>"

(* LD L,L *)
definition op_6d :: "'w cpu \<Rightarrow> 'w cpu" where
  "op_6d s = s"

(* LD L,(HL) *)
definition op_6e :: "'w cpu \<Rightarrow> 'w cpu" where
  "op_6e s = s\<lparr>HL := SET_LOW_REGISTER (HL s) (GET_BYTE s (HL s))\<rparr>"

(* LD L,A *)
definition op_6f :: "'w cpu \<Rightarrow> 'w cpu" where
  "op_6f s = s\<lparr>HL := (HL s AND NOT 0xff) OR (signed_drop_bit 8 (AF s) AND 0xff)\<rparr>"

(* LD (HL),B *)
definition op_70 :: "'w cpu \<Rightarrow> 'w cpu" where
  "op_70 s = PUT_BYTE (HL s) (HIGH_REGISTER (BC s)) s"

(* LD (HL),C *)
definition op_71 :: "'w cpu \<Rightarrow> 'w cpu" where
  "op_71 s = PUT_BYTE (HL s) (LOW_REGISTER (BC s)) s"

(* LD (HL),D *)
definition op_72 :: "'w cpu \<Rightarrow> 'w cpu" where
  "op_72 s = PUT_BYTE (HL s) (HIGH_REGISTER (DE s)) s"

(* LD (HL),E *)
definition op_73 :: "'w cpu \<Rightarrow> 'w cpu" where
  "op_73 s = PUT_BYTE (HL s) (LOW_REGISTER (DE s)) s"

(* LD (HL),H *)
definition op_74 :: "'w cpu \<Rightarrow> 'w cpu" where
  "op_74 s = PUT_BYTE (HL s) (HIGH_REGISTER (HL s)) s"

(* LD (HL),L *)
definition op_75 :: "'w cpu \<Rightarrow> 'w cpu" where
  "op_75 s = PUT_BYTE (HL s) (LOW_REGISTER (HL s)) s"

(* LD (HL),A *)
definition op_77 :: "'w cpu \<Rightarrow> 'w cpu" where
  "op_77 s = PUT_BYTE (HL s) (HIGH_REGISTER (AF s)) s"

(* LD A,B *)
definition op_78 :: "'w cpu \<Rightarrow> 'w cpu" where
  "op_78 s = s\<lparr>AF := (AF s AND 0xff) OR (BC s AND NOT 0xff)\<rparr>"

(* LD A,C *)
definition op_79 :: "'w cpu \<Rightarrow> 'w cpu" where
  "op_79 s = s\<lparr>AF := (AF s AND 0xff) OR push_bit 8 (BC s AND 0xff)\<rparr>"

(* LD A,D *)
definition op_7a :: "'w cpu \<Rightarrow> 'w cpu" where
  "op_7a s = s\<lparr>AF := (AF s AND 0xff) OR (DE s AND NOT 0xff)\<rparr>"

(* LD A,E *)
definition op_7b :: "'w cpu \<Rightarrow> 'w cpu" where
  "op_7b s = s\<lparr>AF := (AF s AND 0xff) OR push_bit 8 (DE s AND 0xff)\<rparr>"

(* LD A,H *)
definition op_7c :: "'w cpu \<Rightarrow> 'w cpu" where
  "op_7c s = s\<lparr>AF := (AF s AND 0xff) OR (HL s AND NOT 0xff)\<rparr>"

(* LD A,L *)
definition op_7d :: "'w cpu \<Rightarrow> 'w cpu" where
  "op_7d s = s\<lparr>AF := (AF s AND 0xff) OR push_bit 8 (HL s AND 0xff)\<rparr>"

(* LD A,(HL) *)
definition op_7e :: "'w cpu \<Rightarrow> 'w cpu" where
  "op_7e s = s\<lparr>AF := SET_HIGH_REGISTER (AF s) (GET_BYTE s (HL s))\<rparr>"

(* LD A,A *)
definition op_7f :: "'w cpu \<Rightarrow> 'w cpu" where
  "op_7f s = s"

(* HALT *)
definition op_76 :: "'w cpu \<Rightarrow> 'w cpu" where
  "op_76 s = s\<lparr>PC := PC s - 1\<rparr>"

end
