(* ===== verification/Z80_Block2.thy ===== *)
theory Z80_Block2
  imports Z80_State Z80_Tables
begin

text \<open>
  Opcodes 0x80 to 0xbf of \<open>Z80run\<close>: 8-bit arithmetic and logic with the accumulator.
\<close>

(* ADD A,B *)
definition op_80 :: "'w cpu \<Rightarrow> 'w cpu" where
  "op_80 s =
     (let temp = HIGH_REGISTER (BC s);
          acu = HIGH_REGISTER (AF s);
          sum = acu + temp;
          cbits = acu XOR temp XOR sum
      in s\<lparr>AF := tbl addTable sum OR tbl cbitsTable cbits OR SET_PV cbits\<rparr>)"

(* ADD A,C *)
definition op_81 :: "'w cpu \<Rightarrow> 'w cpu" where
  "op_81 s =
     (let temp = LOW_REGISTER (BC s);
          acu = HIGH_REGISTER (AF s);
          sum = acu + temp;
          cbits = acu XOR temp XOR sum
      in s\<lparr>AF := tbl addTable sum OR tbl cbitsTable cbits OR SET_PV cbits\<rparr>)"

(* ADD A,D *)
definition op_82 :: "'w cpu \<Rightarrow> 'w cpu" where
  "op_82 s =
     (let temp = HIGH_REGISTER (DE s);
          acu = HIGH_REGISTER (AF s);
          sum = acu + temp;
          cbits = acu XOR temp XOR sum
      in s\<lparr>AF := tbl addTable sum OR tbl cbitsTable cbits OR SET_PV cbits\<rparr>)"

(* ADD A,E *)
definition op_83 :: "'w cpu \<Rightarrow> 'w cpu" where
  "op_83 s =
     (let temp = LOW_REGISTER (DE s);
          acu = HIGH_REGISTER (AF s);
          sum = acu + temp;
          cbits = acu XOR temp XOR sum
      in s\<lparr>AF := tbl addTable sum OR tbl cbitsTable cbits OR SET_PV cbits\<rparr>)"

(* ADD A,H *)
definition op_84 :: "'w cpu \<Rightarrow> 'w cpu" where
  "op_84 s =
     (let temp = HIGH_REGISTER (HL s);
          acu = HIGH_REGISTER (AF s);
          sum = acu + temp;
          cbits = acu XOR temp XOR sum
      in s\<lparr>AF := tbl addTable sum OR tbl cbitsTable cbits OR SET_PV cbits\<rparr>)"

(* ADD A,L *)
definition op_85 :: "'w cpu \<Rightarrow> 'w cpu" where
  "op_85 s =
     (let temp = LOW_REGISTER (HL s);
          acu = HIGH_REGISTER (AF s);
          sum = acu + temp;
          cbits = acu XOR temp XOR sum
      in s\<lparr>AF := tbl addTable sum OR tbl cbitsTable cbits OR SET_PV cbits\<rparr>)"

(* ADD A,(HL) *)
definition op_86 :: "'w cpu \<Rightarrow> 'w cpu" where
  "op_86 s =
     (let temp = GET_BYTE s (HL s);
          acu = HIGH_REGISTER (AF s);
          sum = acu + temp;
          cbits = acu XOR temp XOR sum
      in s\<lparr>AF := tbl addTable sum OR tbl cbitsTable cbits OR SET_PV cbits\<rparr>)"

(* ADD A,A *)
definition op_87 :: "'w cpu \<Rightarrow> 'w cpu" where
  "op_87 s =
     (let cbits = 2 * HIGH_REGISTER (AF s)
      in s\<lparr>AF := tbl cbitsDup8Table cbits OR SET_PV cbits\<rparr>)"

(* ADC A,B *)
definition op_88 :: "'w cpu \<Rightarrow> 'w cpu" where
  "op_88 s =
     (let temp = HIGH_REGISTER (BC s);
          acu = HIGH_REGISTER (AF s);
          sum = acu + temp + of_bool (TSTFLAG s FLAG_C);
          cbits = acu XOR temp XOR sum
      in s\<lparr>AF := tbl addTable sum OR tbl cbitsTable cbits OR SET_PV cbits\<rparr>)"

(* ADC A,C *)
definition op_89 :: "'w cpu \<Rightarrow> 'w cpu" where
  "op_89 s =
     (let temp = LOW_REGISTER (BC s);
          acu = HIGH_REGISTER (AF s);
          sum = acu + temp + of_bool (TSTFLAG s FLAG_C);
          cbits = acu XOR temp XOR sum
      in s\<lparr>AF := tbl addTable sum OR tbl cbitsTable cbits OR SET_PV cbits\<rparr>)"

(* ADC A,D *)
definition op_8a :: "'w cpu \<Rightarrow> 'w cpu" where
  "op_8a s =
     (let temp = HIGH_REGISTER (DE s);
          acu = HIGH_REGISTER (AF s);
          sum = acu + temp + of_bool (TSTFLAG s FLAG_C);
          cbits = acu XOR temp XOR sum
      in s\<lparr>AF := tbl addTable sum OR tbl cbitsTable cbits OR SET_PV cbits\<rparr>)"

(* ADC A,E *)
definition op_8b :: "'w cpu \<Rightarrow> 'w cpu" where
  "op_8b s =
     (let temp = LOW_REGISTER (DE s);
          acu = HIGH_REGISTER (AF s);
          sum = acu + temp + of_bool (TSTFLAG s FLAG_C);
          cbits = acu XOR temp XOR sum
      in s\<lparr>AF := tbl addTable sum OR tbl cbitsTable cbits OR SET_PV cbits\<rparr>)"

(* ADC A,H *)
definition op_8c :: "'w cpu \<Rightarrow> 'w cpu" where
  "op_8c s =
     (let temp = HIGH_REGISTER (HL s);
          acu = HIGH_REGISTER (AF s);
          sum = acu + temp + of_bool (TSTFLAG s FLAG_C);
          cbits = acu XOR temp XOR sum
      in s\<lparr>AF := tbl addTable sum OR tbl cbitsTable cbits OR SET_PV cbits\<rparr>)"

(* ADC A,L *)
definition op_8d :: "'w cpu \<Rightarrow> 'w cpu" where
  "op_8d s =
     (let temp = LOW_REGISTER (HL s);
          acu = HIGH_REGISTER (AF s);
          sum = acu + temp + of_bool (TSTFLAG s FLAG_C);
          cbits = acu XOR temp XOR sum
      in s\<lparr>AF := tbl addTable sum OR tbl cbitsTable cbits OR SET_PV cbits\<rparr>)"

(* ADC A,(HL) *)
definition op_8e :: "'w cpu \<Rightarrow> 'w cpu" where
  "op_8e s =
     (let temp = GET_BYTE s (HL s);
          acu = HIGH_REGISTER (AF s);
          sum = acu + temp + of_bool (TSTFLAG s FLAG_C);
          cbits = acu XOR temp XOR sum
      in s\<lparr>AF := tbl addTable sum OR tbl cbitsTable cbits OR SET_PV cbits\<rparr>)"

(* ADC A,A *)
definition op_8f :: "'w cpu \<Rightarrow> 'w cpu" where
  "op_8f s =
     (let cbits = 2 * HIGH_REGISTER (AF s) + of_bool (TSTFLAG s FLAG_C)
      in s\<lparr>AF := tbl cbitsDup8Table cbits OR SET_PV cbits\<rparr>)"

(* SUB B *)
definition op_90 :: "'w cpu \<Rightarrow> 'w cpu" where
  "op_90 s =
     (let temp = HIGH_REGISTER (BC s);
          acu = HIGH_REGISTER (AF s);
          sum = acu - temp;
          cbits = acu XOR temp XOR sum
      in s\<lparr>AF := tbl subTable (sum AND 0xff) OR tbl cbitsTable (cbits AND 0x1ff) OR
            SET_PV cbits\<rparr>)"

(* SUB C *)
definition op_91 :: "'w cpu \<Rightarrow> 'w cpu" where
  "op_91 s =
     (let temp = LOW_REGISTER (BC s);
          acu = HIGH_REGISTER (AF s);
          sum = acu - temp;
          cbits = acu XOR temp XOR sum
      in s\<lparr>AF := tbl subTable (sum AND 0xff) OR tbl cbitsTable (cbits AND 0x1ff) OR
            SET_PV cbits\<rparr>)"

(* SUB D *)
definition op_92 :: "'w cpu \<Rightarrow> 'w cpu" where
  "op_92 s =
     (let temp = HIGH_REGISTER (DE s);
          acu = HIGH_REGISTER (AF s);
          sum = acu - temp;
          cbits = acu XOR temp XOR sum
      in s\<lparr>AF := tbl subTable (sum AND 0xff) OR tbl cbitsTable (cbits AND 0x1ff) OR
            SET_PV cbits\<rparr>)"

(* SUB E *)
definition op_93 :: "'w cpu \<Rightarrow> 'w cpu" where
  "op_93 s =
     (let temp = LOW_REGISTER (DE s);
          acu = HIGH_REGISTER (AF s);
          sum = acu - temp;
          cbits = acu XOR temp XOR sum
      in s\<lparr>AF := tbl subTable (sum AND 0xff) OR tbl cbitsTable (cbits AND 0x1ff) OR
            SET_PV cbits\<rparr>)"

(* SUB H *)
definition op_94 :: "'w cpu \<Rightarrow> 'w cpu" where
  "op_94 s =
     (let temp = HIGH_REGISTER (HL s);
          acu = HIGH_REGISTER (AF s);
          sum = acu - temp;
          cbits = acu XOR temp XOR sum
      in s\<lparr>AF := tbl subTable (sum AND 0xff) OR tbl cbitsTable (cbits AND 0x1ff) OR
            SET_PV cbits\<rparr>)"

(* SUB L *)
definition op_95 :: "'w cpu \<Rightarrow> 'w cpu" where
  "op_95 s =
     (let temp = LOW_REGISTER (HL s);
          acu = HIGH_REGISTER (AF s);
          sum = acu - temp;
          cbits = acu XOR temp XOR sum
      in s\<lparr>AF := tbl subTable (sum AND 0xff) OR tbl cbitsTable (cbits AND 0x1ff) OR
            SET_PV cbits\<rparr>)"

(* SUB (HL) *)
definition op_96 :: "'w cpu \<Rightarrow> 'w cpu" where
  "op_96 s =
     (let temp = GET_BYTE s (HL s);
          acu = HIGH_REGISTER (AF s);
          sum = acu - temp;
          cbits = acu XOR temp XOR sum
      in s\<lparr>AF := tbl subTable (sum AND 0xff) OR tbl cbitsTable (cbits AND 0x1ff) OR
            SET_PV cbits\<rparr>)"

(* SUB A *)
definition op_97 :: "'w cpu \<Rightarrow> 'w cpu" where
  "op_97 s = s\<lparr>AF := 0x42\<rparr>"

(* SBC A,B *)
definition op_98 :: "'w cpu \<Rightarrow> 'w cpu" where
  "op_98 s =
     (let temp = HIGH_REGISTER (BC s);
          acu = HIGH_REGISTER (AF s);
          sum = acu - temp - of_bool (TSTFLAG s FLAG_C);
          cbits = acu XOR temp XOR sum
      in s\<lparr>AF := tbl subTable (sum AND 0xff) OR tbl cbitsTable (cbits AND 0x1ff) OR
            SET_PV cbits\<rparr>)"

(* SBC A,C *)
definition op_99 :: "'w cpu \<Rightarrow> 'w cpu" where
  "op_99 s =
     (let temp = LOW_REGISTER (BC s);
          acu = HIGH_REGISTER (AF s);
          sum = acu - temp - of_bool (TSTFLAG s FLAG_C);
          cbits = acu XOR temp XOR sum
      in s\<lparr>AF := tbl subTable (sum AND 0xff) OR tbl cbitsTable (cbits AND 0x1ff) OR
            SET_PV cbits\<rparr>)"

(* SBC A,D *)
definition op_9a :: "'w cpu \<Rightarrow> 'w cpu" where
  "op_9a s =
     (let temp = HIGH_REGISTER (DE s);
          acu = HIGH_REGISTER (AF s);
          sum = acu - temp - of_bool (TSTFLAG s FLAG_C);
          cbits = acu XOR temp XOR sum
      in s\<lparr>AF := tbl subTable (sum AND 0xff) OR tbl cbitsTable (cbits AND 0x1ff) OR
            SET_PV cbits\<rparr>)"

(* SBC A,E *)
definition op_9b :: "'w cpu \<Rightarrow> 'w cpu" where
  "op_9b s =
     (let temp = LOW_REGISTER (DE s);
          acu = HIGH_REGISTER (AF s);
          sum = acu - temp - of_bool (TSTFLAG s FLAG_C);
          cbits = acu XOR temp XOR sum
      in s\<lparr>AF := tbl subTable (sum AND 0xff) OR tbl cbitsTable (cbits AND 0x1ff) OR
            SET_PV cbits\<rparr>)"

(* SBC A,H *)
definition op_9c :: "'w cpu \<Rightarrow> 'w cpu" where
  "op_9c s =
     (let temp = HIGH_REGISTER (HL s);
          acu = HIGH_REGISTER (AF s);
          sum = acu - temp - of_bool (TSTFLAG s FLAG_C);
          cbits = acu XOR temp XOR sum
      in s\<lparr>AF := tbl subTable (sum AND 0xff) OR tbl cbitsTable (cbits AND 0x1ff) OR
            SET_PV cbits\<rparr>)"

(* SBC A,L *)
definition op_9d :: "'w cpu \<Rightarrow> 'w cpu" where
  "op_9d s =
     (let temp = LOW_REGISTER (HL s);
          acu = HIGH_REGISTER (AF s);
          sum = acu - temp - of_bool (TSTFLAG s FLAG_C);
          cbits = acu XOR temp XOR sum
      in s\<lparr>AF := tbl subTable (sum AND 0xff) OR tbl cbitsTable (cbits AND 0x1ff) OR
            SET_PV cbits\<rparr>)"

(* SBC A,(HL) *)
definition op_9e :: "'w cpu \<Rightarrow> 'w cpu" where
  "op_9e s =
     (let temp = GET_BYTE s (HL s);
          acu = HIGH_REGISTER (AF s);
          sum = acu - temp - of_bool (TSTFLAG s FLAG_C);
          cbits = acu XOR temp XOR sum
      in s\<lparr>AF := tbl subTable (sum AND 0xff) OR tbl cbitsTable (cbits AND 0x1ff) OR
            SET_PV cbits\<rparr>)"

(* SBC A,A *)
definition op_9f :: "'w cpu \<Rightarrow> 'w cpu" where
  "op_9f s =
     (let cbits = - of_bool (TSTFLAG s FLAG_C)
      in s\<lparr>AF := tbl subTable (cbits AND 0xff) OR tbl cbitsTable (cbits AND 0x1ff) OR
            SET_PV cbits\<rparr>)"

(* AND B *)
definition op_a0 :: "'w cpu \<Rightarrow> 'w cpu" where
  "op_a0 s = s\<lparr>AF := tbl andTable (signed_drop_bit 8 (AF s AND BC s) AND 0xff)\<rparr>"

(* AND C *)
definition op_a1 :: "'w cpu \<Rightarrow> 'w cpu" where
  "op_a1 s = s\<lparr>AF := tbl andTable ((signed_drop_bit 8 (AF s) AND BC s) AND 0xff)\<rparr>"

(* AND D *)
definition op_a2 :: "'w cpu \<Rightarrow> 'w cpu" where
  "op_a2 s = s\<lparr>AF := tbl andTable (signed_drop_bit 8 (AF s AND DE s) AND 0xff)\<rparr>"

(* AND E *)
definition op_a3 :: "'w cpu \<Rightarrow> 'w cpu" where
  "op_a3 s = s\<lparr>AF := tbl andTable ((signed_drop_bit 8 (AF s) AND DE s) AND 0xff)\<rparr>"

(* AND H *)
definition op_a4 :: "'w cpu \<Rightarrow> 'w cpu" where
  "op_a4 s = s\<lparr>AF := tbl andTable (signed_drop_bit 8 (AF s AND HL s) AND 0xff)\<rparr>"

(* AND L *)
definition op_a5 :: "'w cpu \<Rightarrow> 'w cpu" where
  "op_a5 s = s\<lparr>AF := tbl andTable ((signed_drop_bit 8 (AF s) AND HL s) AND 0xff)\<rparr>"

(* AND (HL) *)
definition op_a6 :: "'w cpu \<Rightarrow> 'w cpu" where
  "op_a6 s =
     s\<lparr>AF := tbl andTable ((signed_drop_bit 8 (AF s) AND GET_BYTE s (HL s)) AND 0xff)\<rparr>"

(* AND A *)
definition op_a7 :: "'w cpu \<Rightarrow> 'w cpu" where
  "op_a7 s = s\<lparr>AF := tbl andTable (signed_drop_bit 8 (AF s) AND 0xff)\<rparr>"

(* XOR B *)
definition op_a8 :: "'w cpu \<Rightarrow> 'w cpu" where
  "op_a8 s = s\<lparr>AF := tbl xororTable (signed_drop_bit 8 (AF s XOR BC s) AND 0xff)\<rparr>"

(* XOR C *)
definition op_a9 :: "'w cpu \<Rightarrow> 'w cpu" where
  "op_a9 s = s\<lparr>AF := tbl xororTable ((signed_drop_bit 8 (AF s) XOR BC s) AND 0xff)\<rparr>"

(* XOR D *)
definition op_aa :: "'w cpu \<Rightarrow> 'w cpu" where
  "op_aa s = s\<lparr>AF := tbl xororTable (signed_drop_bit 8 (AF s XOR DE s) AND 0xff)\<rparr>"

(* XOR E *)
definition op_ab :: "'w cpu \<Rightarrow> 'w cpu" where
  "op_ab s = s\<lparr>AF := tbl xororTable ((signed_drop_bit 8 (AF s) XOR DE s) AND 0xff)\<rparr>"

(* XOR H *)
definition op_ac :: "'w cpu \<Rightarrow> 'w cpu" where
  "op_ac s = s\<lparr>AF := tbl xororTable (signed_drop_bit 8 (AF s XOR HL s) AND 0xff)\<rparr>"

(* XOR L *)
definition op_ad :: "'w cpu \<Rightarrow> 'w cpu" where
  "op_ad s = s\<lparr>AF := tbl xororTable ((signed_drop_bit 8 (AF s) XOR HL s) AND 0xff)\<rparr>"

(* XOR (HL) *)
definition op_ae :: "'w cpu \<Rightarrow> 'w cpu" where
  "op_ae s =
     s\<lparr>AF := tbl xororTable ((signed_drop_bit 8 (AF s) XOR GET_BYTE s (HL s)) AND 0xff)\<rparr>"

(* XOR A *)
definition op_af :: "'w cpu \<Rightarrow> 'w cpu" where
  "op_af s = s\<lparr>AF := 0x44\<rparr>"

(* OR B *)
definition op_b0 :: "'w cpu \<Rightarrow> 'w cpu" where
  "op_b0 s = s\<lparr>AF := tbl xororTable (signed_drop_bit 8 (AF s OR BC s) AND 0xff)\<rparr>"

(* OR C *)
definition op_b1 :: "'w cpu \<Rightarrow> 'w cpu" where
  "op_b1 s = s\<lparr>AF := tbl xororTable ((signed_drop_bit 8 (AF s) OR BC s) AND 0xff)\<rparr>"

(* OR D *)
definition op_b2 :: "'w cpu \<Rightarrow> 'w cpu" where
  "op_b2 s = s\<lparr>AF := tbl xororTable (signed_drop_bit 8 (AF s OR DE s) AND 0xff)\<rparr>"

(* OR E *)
definition op_b3 :: "'w cpu \<Rightarrow> 'w cpu" where
  "op_b3 s = s\<lparr>AF := tbl xororTable ((signed_drop_bit 8 (AF s) OR DE s) AND 0xff)\<rparr>"

(* OR H *)
definition op_b4 :: "'w cpu \<Rightarrow> 'w cpu" where
  "op_b4 s = s\<lparr>AF := tbl xororTable (signed_drop_bit 8 (AF s OR HL s) AND 0xff)\<rparr>"

(* OR L *)
definition op_b5 :: "'w cpu \<Rightarrow> 'w cpu" where
  "op_b5 s = s\<lparr>AF := tbl xororTable ((signed_drop_bit 8 (AF s) OR HL s) AND 0xff)\<rparr>"

(* OR (HL) *)
definition op_b6 :: "'w cpu \<Rightarrow> 'w cpu" where
  "op_b6 s =
     s\<lparr>AF := tbl xororTable ((signed_drop_bit 8 (AF s) OR
            GET_BYTE s (HL s)) AND 0xff)\<rparr>"

(* OR A *)
definition op_b7 :: "'w cpu \<Rightarrow> 'w cpu" where
  "op_b7 s = s\<lparr>AF := tbl xororTable (signed_drop_bit 8 (AF s) AND 0xff)\<rparr>"

(* CP B *)
definition op_b8 :: "'w cpu \<Rightarrow> 'w cpu" where
  "op_b8 s =
     (let temp = HIGH_REGISTER (BC s);
          s = s\<lparr>AF := (AF s AND NOT 0x28) OR (temp AND 0x28)\<rparr>;
          acu = HIGH_REGISTER (AF s);
          sum = acu - temp;
          cbits = acu XOR temp XOR sum
      in s\<lparr>AF := (AF s AND NOT 0xff) OR tbl cpTable (sum AND 0xff) OR (temp AND 0x28) OR
            SET_PV cbits OR tbl cbits2Table (cbits AND 0x1ff)\<rparr>)"

(* CP C *)
definition op_b9 :: "'w cpu \<Rightarrow> 'w cpu" where
  "op_b9 s =
     (let temp = LOW_REGISTER (BC s);
          s = s\<lparr>AF := (AF s AND NOT 0x28) OR (temp AND 0x28)\<rparr>;
          acu = HIGH_REGISTER (AF s);
          sum = acu - temp;
          cbits = acu XOR temp XOR sum
      in s\<lparr>AF := (AF s AND NOT 0xff) OR tbl cpTable (sum AND 0xff) OR (temp AND 0x28) OR
            SET_PV cbits OR tbl cbits2Table (cbits AND 0x1ff)\<rparr>)"

(* CP D *)
definition op_ba :: "'w cpu \<Rightarrow> 'w cpu" where
  "op_ba s =
     (let temp = HIGH_REGISTER (DE s);
          s = s\<lparr>AF := (AF s AND NOT 0x28) OR (temp AND 0x28)\<rparr>;
          acu = HIGH_REGISTER (AF s);
          sum = acu - temp;
          cbits = acu XOR temp XOR sum
      in s\<lparr>AF := (AF s AND NOT 0xff) OR tbl cpTable (sum AND 0xff) OR (temp AND 0x28) OR
            SET_PV cbits OR tbl cbits2Table (cbits AND 0x1ff)\<rparr>)"

(* CP E *)
definition op_bb :: "'w cpu \<Rightarrow> 'w cpu" where
  "op_bb s =
     (let temp = LOW_REGISTER (DE s);
          s = s\<lparr>AF := (AF s AND NOT 0x28) OR (temp AND 0x28)\<rparr>;
          acu = HIGH_REGISTER (AF s);
          sum = acu - temp;
          cbits = acu XOR temp XOR sum
      in s\<lparr>AF := (AF s AND NOT 0xff) OR tbl cpTable (sum AND 0xff) OR (temp AND 0x28) OR
            SET_PV cbits OR tbl cbits2Table (cbits AND 0x1ff)\<rparr>)"

(* CP H *)
definition op_bc :: "'w cpu \<Rightarrow> 'w cpu" where
  "op_bc s =
     (let temp = HIGH_REGISTER (HL s);
          s = s\<lparr>AF := (AF s AND NOT 0x28) OR (temp AND 0x28)\<rparr>;
          acu = HIGH_REGISTER (AF s);
          sum = acu - temp;
          cbits = acu XOR temp XOR sum
      in s\<lparr>AF := (AF s AND NOT 0xff) OR tbl cpTable (sum AND 0xff) OR (temp AND 0x28) OR
            SET_PV cbits OR tbl cbits2Table (cbits AND 0x1ff)\<rparr>)"

(* CP L *)
definition op_bd :: "'w cpu \<Rightarrow> 'w cpu" where
  "op_bd s =
     (let temp = LOW_REGISTER (HL s);
          s = s\<lparr>AF := (AF s AND NOT 0x28) OR (temp AND 0x28)\<rparr>;
          acu = HIGH_REGISTER (AF s);
          sum = acu - temp;
          cbits = acu XOR temp XOR sum
      in s\<lparr>AF := (AF s AND NOT 0xff) OR tbl cpTable (sum AND 0xff) OR (temp AND 0x28) OR
            SET_PV cbits OR tbl cbits2Table (cbits AND 0x1ff)\<rparr>)"

(* CP (HL) *)
definition op_be :: "'w cpu \<Rightarrow> 'w cpu" where
  "op_be s =
     (let temp = GET_BYTE s (HL s);
          s = s\<lparr>AF := (AF s AND NOT 0x28) OR (temp AND 0x28)\<rparr>;
          acu = HIGH_REGISTER (AF s);
          sum = acu - temp;
          cbits = acu XOR temp XOR sum
      in s\<lparr>AF := (AF s AND NOT 0xff) OR tbl cpTable (sum AND 0xff) OR (temp AND 0x28) OR
            SET_PV cbits OR tbl cbits2Table (cbits AND 0x1ff)\<rparr>)"

(* CP A *)
definition op_bf :: "'w cpu \<Rightarrow> 'w cpu" where
  "op_bf s =
     s\<lparr>AF := SET_LOW_REGISTER (AF s) ((HIGH_REGISTER (AF s) AND 0x28) OR 0x42)\<rparr>"

end
