(* ===== verification/Z80_Block3.thy ===== *)
theory Z80_Block3
  imports Z80_State Z80_Tables
begin

text \<open>
  Opcodes 0xc0 to 0xff of \<open>Z80run\<close> but the prefixes: returns, calls, jumps, the stack, arithmetic
  with an immediate operand, input and output.
\<close>

(* RET NZ *)
definition op_c0 :: "'w cpu \<Rightarrow> 'w cpu" where
  "op_c0 s =
     (if \<not> TSTFLAG s FLAG_Z then (let (x, s) = POP s in s\<lparr>PC := x\<rparr>) else s)"

(* POP BC *)
definition op_c1 :: "'w cpu \<Rightarrow> 'w cpu" where
  "op_c1 s =
     (let (x, s) = POP s
      in s\<lparr>BC := x\<rparr>)"

(* JP NZ,nnnn *)
definition op_c2 :: "'w cpu \<Rightarrow> 'w cpu" where
  "op_c2 s = JPC (\<not> TSTFLAG s FLAG_Z) s"

(* JP nnnn *)
definition op_c3 :: "'w cpu \<Rightarrow> 'w cpu" where
  "op_c3 s = JPC True s"

(* CALL NZ,nnnn *)
definition op_c4 :: "'w cpu \<Rightarrow> 'w cpu" where
  "op_c4 s = CALLC (\<not> TSTFLAG s FLAG_Z) s"

(* PUSH BC *)
definition op_c5 :: "'w cpu \<Rightarrow> 'w cpu" where
  "op_c5 s = PUSH (BC s) s"

(* ADD A,nn *)
definition op_c6 :: "'w cpu \<Rightarrow> 'w cpu" where
  "op_c6 s =
     (let v = GET_BYTE s (PC s);
          s = s\<lparr>PC := PC s + 1\<rparr>;
          temp = v;
          acu = HIGH_REGISTER (AF s);
          sum = acu + temp;
          cbits = acu XOR temp XOR sum
      in s\<lparr>AF := tbl addTable sum OR tbl cbitsTable cbits OR SET_PV cbits\<rparr>)"

(* RST 0 *)
definition op_c7 :: "'w cpu \<Rightarrow> 'w cpu" where
  "op_c7 s =
     (let s = PUSH (PC s) s
      in s\<lparr>PC := 0\<rparr>)"

(* RET Z *)
definition op_c8 :: "'w cpu \<Rightarrow> 'w cpu" where
  "op_c8 s = (if TSTFLAG s FLAG_Z then (let (x, s) = POP s in s\<lparr>PC := x\<rparr>) else s)"

(* RET *)
definition op_c9 :: "'w cpu \<Rightarrow> 'w cpu" where
  "op_c9 s =
     (let (x, s) = POP s
      in s\<lparr>PC := x\<rparr>)"

(* JP Z,nnnn *)
definition op_ca :: "'w cpu \<Rightarrow> 'w cpu" where
  "op_ca s = JPC (TSTFLAG s FLAG_Z) s"

(* CALL Z,nnnn *)
definition op_cc :: "'w cpu \<Rightarrow> 'w cpu" where
  "op_cc s = CALLC (TSTFLAG s FLAG_Z) s"

(* CALL nnnn *)
definition op_cd :: "'w cpu \<Rightarrow> 'w cpu" where
  "op_cd s = CALLC True s"

(* ADC A,nn *)
definition op_ce :: "'w cpu \<Rightarrow> 'w cpu" where
  "op_ce s =
     (let v = GET_BYTE s (PC s);
          s = s\<lparr>PC := PC s + 1\<rparr>;
          temp = v;
          acu = HIGH_REGISTER (AF s);
          sum = acu + temp + of_bool (TSTFLAG s FLAG_C);
          cbits = acu XOR temp XOR sum
      in s\<lparr>AF := tbl addTable sum OR tbl cbitsTable cbits OR SET_PV cbits\<rparr>)"

(* RST 8 *)
definition op_cf :: "'w cpu \<Rightarrow> 'w cpu" where
  "op_cf s =
     (let s = PUSH (PC s) s
      in s\<lparr>PC := 8\<rparr>)"

(* RET NC *)
definition op_d0 :: "'w cpu \<Rightarrow> 'w cpu" where
  "op_d0 s =
     (if \<not> TSTFLAG s FLAG_C then (let (x, s) = POP s in s\<lparr>PC := x\<rparr>) else s)"

(* POP DE *)
definition op_d1 :: "'w cpu \<Rightarrow> 'w cpu" where
  "op_d1 s =
     (let (x, s) = POP s
      in s\<lparr>DE := x\<rparr>)"

(* JP NC,nnnn *)
definition op_d2 :: "'w cpu \<Rightarrow> 'w cpu" where
  "op_d2 s = JPC (\<not> TSTFLAG s FLAG_C) s"

(* OUT (nn),A *)
definition op_d3 :: "'w host \<Rightarrow> 'w cpu \<Rightarrow> 'w cpu" where
  "op_d3 h s =
     (let v = GET_BYTE s (PC s);
          s = s\<lparr>PC := PC s + 1\<rparr>
      in cpu_out h v (HIGH_REGISTER (AF s)) s)"

(* CALL NC,nnnn *)
definition op_d4 :: "'w cpu \<Rightarrow> 'w cpu" where
  "op_d4 s = CALLC (\<not> TSTFLAG s FLAG_C) s"

(* PUSH DE *)
definition op_d5 :: "'w cpu \<Rightarrow> 'w cpu" where
  "op_d5 s = PUSH (DE s) s"

(* SUB nn *)
definition op_d6 :: "'w cpu \<Rightarrow> 'w cpu" where
  "op_d6 s =
     (let v = GET_BYTE s (PC s);
          s = s\<lparr>PC := PC s + 1\<rparr>;
          temp = v;
          acu = HIGH_REGISTER (AF s);
          sum = acu - temp;
          cbits = acu XOR temp XOR sum
      in s\<lparr>AF := tbl subTable (sum AND 0xff) OR tbl cbitsTable (cbits AND 0x1ff) OR
            SET_PV cbits\<rparr>)"

(* RST 10H *)
definition op_d7 :: "'w cpu \<Rightarrow> 'w cpu" where
  "op_d7 s =
     (let s = PUSH (PC s) s
      in s\<lparr>PC := 0x10\<rparr>)"

(* RET C *)
definition op_d8 :: "'w cpu \<Rightarrow> 'w cpu" where
  "op_d8 s = (if TSTFLAG s FLAG_C then (let (x, s) = POP s in s\<lparr>PC := x\<rparr>) else s)"

(* EXX *)
definition op_d9 :: "'w cpu \<Rightarrow> 'w cpu" where
  "op_d9 s =
     (let temp = BC s;
          s = s\<lparr>BC := BC1 s\<rparr>;
          s = s\<lparr>BC1 := temp\<rparr>;
          temp = DE s;
          s = s\<lparr>DE := DE1 s\<rparr>;
          s = s\<lparr>DE1 := temp\<rparr>;
          temp = HL s;
          s = s\<lparr>HL := HL1 s\<rparr>
      in s\<lparr>HL1 := temp\<rparr>)"

(* JP C,nnnn *)
definition op_da :: "'w cpu \<Rightarrow> 'w cpu" where
  "op_da s = JPC (TSTFLAG s FLAG_C) s"

(* CALL C,nnnn *)
definition op_dc :: "'w cpu \<Rightarrow> 'w cpu" where
  "op_dc s = CALLC (TSTFLAG s FLAG_C) s"

(* SBC A,nn *)
definition op_de :: "'w cpu \<Rightarrow> 'w cpu" where
  "op_de s =
     (let v = GET_BYTE s (PC s);
          s = s\<lparr>PC := PC s + 1\<rparr>;
          temp = v;
          acu = HIGH_REGISTER (AF s);
          sum = acu - temp - of_bool (TSTFLAG s FLAG_C);
          cbits = acu XOR temp XOR sum
      in s\<lparr>AF := tbl subTable (sum AND 0xff) OR tbl cbitsTable (cbits AND 0x1ff) OR
            SET_PV cbits\<rparr>)"

(* RST 18H *)
definition op_df :: "'w cpu \<Rightarrow> 'w cpu" where
  "op_df s =
     (let s = PUSH (PC s) s
      in s\<lparr>PC := 0x18\<rparr>)"

(* RET PO *)
definition op_e0 :: "'w cpu \<Rightarrow> 'w cpu" where
  "op_e0 s =
     (if \<not> TSTFLAG s FLAG_P then (let (x, s) = POP s in s\<lparr>PC := x\<rparr>) else s)"

(* POP HL *)
definition op_e1 :: "'w cpu \<Rightarrow> 'w cpu" where
  "op_e1 s =
     (let (x, s) = POP s
      in s\<lparr>HL := x\<rparr>)"

(* JP PO,nnnn *)
definition op_e2 :: "'w cpu \<Rightarrow> 'w cpu" where
  "op_e2 s = JPC (\<not> TSTFLAG s FLAG_P) s"

(* EX (SP),HL *)
definition op_e3 :: "'w cpu \<Rightarrow> 'w cpu" where
  "op_e3 s =
     (let temp = HL s;
          (x, s) = POP s;
          s = s\<lparr>HL := x\<rparr>
      in PUSH temp s)"

(* CALL PO,nnnn *)
definition op_e4 :: "'w cpu \<Rightarrow> 'w cpu" where
  "op_e4 s = CALLC (\<not> TSTFLAG s FLAG_P) s"

(* PUSH HL *)
definition op_e5 :: "'w cpu \<Rightarrow> 'w cpu" where
  "op_e5 s = PUSH (HL s) s"

(* AND nn *)
definition op_e6 :: "'w cpu \<Rightarrow> 'w cpu" where
  "op_e6 s =
     (let v = GET_BYTE s (PC s);
          s = s\<lparr>PC := PC s + 1\<rparr>
      in s\<lparr>AF := tbl andTable ((signed_drop_bit 8 (AF s) AND v) AND 0xff)\<rparr>)"

(* RST 20H *)
definition op_e7 :: "'w cpu \<Rightarrow> 'w cpu" where
  "op_e7 s =
     (let s = PUSH (PC s) s
      in s\<lparr>PC := 0x20\<rparr>)"

(* RET PE *)
definition op_e8 :: "'w cpu \<Rightarrow> 'w cpu" where
  "op_e8 s = (if TSTFLAG s FLAG_P then (let (x, s) = POP s in s\<lparr>PC := x\<rparr>) else s)"

(* JP (HL) *)
definition op_e9 :: "'w cpu \<Rightarrow> 'w cpu" where
  "op_e9 s = s\<lparr>PC := HL s\<rparr>"

(* JP PE,nnnn *)
definition op_ea :: "'w cpu \<Rightarrow> 'w cpu" where
  "op_ea s = JPC (TSTFLAG s FLAG_P) s"

(* EX DE,HL *)
definition op_eb :: "'w cpu \<Rightarrow> 'w cpu" where
  "op_eb s =
     (let temp = HL s;
          s = s\<lparr>HL := DE s\<rparr>
      in s\<lparr>DE := temp\<rparr>)"

(* CALL PE,nnnn *)
definition op_ec :: "'w cpu \<Rightarrow> 'w cpu" where
  "op_ec s = CALLC (TSTFLAG s FLAG_P) s"

(* XOR nn *)
definition op_ee :: "'w cpu \<Rightarrow> 'w cpu" where
  "op_ee s =
     (let v = GET_BYTE s (PC s);
          s = s\<lparr>PC := PC s + 1\<rparr>
      in s\<lparr>AF := tbl xororTable ((signed_drop_bit 8 (AF s) XOR v) AND 0xff)\<rparr>)"

(* RST 28H *)
definition op_ef :: "'w cpu \<Rightarrow> 'w cpu" where
  "op_ef s =
     (let s = PUSH (PC s) s
      in s\<lparr>PC := 0x28\<rparr>)"

(* RET P *)
definition op_f0 :: "'w cpu \<Rightarrow> 'w cpu" where
  "op_f0 s =
     (if \<not> TSTFLAG s FLAG_S then (let (x, s) = POP s in s\<lparr>PC := x\<rparr>) else s)"

(* POP AF *)
definition op_f1 :: "'w cpu \<Rightarrow> 'w cpu" where
  "op_f1 s =
     (let (x, s) = POP s
      in s\<lparr>AF := x\<rparr>)"

(* JP P,nnnn *)
definition op_f2 :: "'w cpu \<Rightarrow> 'w cpu" where
  "op_f2 s = JPC (\<not> TSTFLAG s FLAG_S) s"

(* DI *)
definition op_f3 :: "'w cpu \<Rightarrow> 'w cpu" where
  "op_f3 s = s\<lparr>IFF := 0\<rparr>"

(* CALL P,nnnn *)
definition op_f4 :: "'w cpu \<Rightarrow> 'w cpu" where
  "op_f4 s = CALLC (\<not> TSTFLAG s FLAG_S) s"

(* PUSH AF *)
definition op_f5 :: "'w cpu \<Rightarrow> 'w cpu" where
  "op_f5 s = PUSH (AF s) s"

(* OR nn *)
definition op_f6 :: "'w cpu \<Rightarrow> 'w cpu" where
  "op_f6 s =
     (let v = GET_BYTE s (PC s);
          s = s\<lparr>PC := PC s + 1\<rparr>
      in s\<lparr>AF := tbl xororTable ((signed_drop_bit 8 (AF s) OR v) AND 0xff)\<rparr>)"

(* RST 30H *)
definition op_f7 :: "'w cpu \<Rightarrow> 'w cpu" where
  "op_f7 s =
     (let s = PUSH (PC s) s
      in s\<lparr>PC := 0x30\<rparr>)"

(* RET M *)
definition op_f8 :: "'w cpu \<Rightarrow> 'w cpu" where
  "op_f8 s = (if TSTFLAG s FLAG_S then (let (x, s) = POP s in s\<lparr>PC := x\<rparr>) else s)"

(* LD SP,HL *)
definition op_f9 :: "'w cpu \<Rightarrow> 'w cpu" where
  "op_f9 s = s\<lparr>SP := HL s\<rparr>"

(* JP M,nnnn *)
definition op_fa :: "'w cpu \<Rightarrow> 'w cpu" where
  "op_fa s = JPC (TSTFLAG s FLAG_S) s"

(* EI *)
definition op_fb :: "'w cpu \<Rightarrow> 'w cpu" where
  "op_fb s = s\<lparr>IFF := 3\<rparr>"

(* CALL M,nnnn *)
definition op_fc :: "'w cpu \<Rightarrow> 'w cpu" where
  "op_fc s = CALLC (TSTFLAG s FLAG_S) s"

(* CP nn *)
definition op_fe :: "'w cpu \<Rightarrow> 'w cpu" where
  "op_fe s =
     (let v = GET_BYTE s (PC s);
          s = s\<lparr>PC := PC s + 1\<rparr>;
          temp = v;
          s = s\<lparr>AF := (AF s AND NOT 0x28) OR (temp AND 0x28)\<rparr>;
          acu = HIGH_REGISTER (AF s);
          sum = acu - temp;
          cbits = acu XOR temp XOR sum
      in s\<lparr>AF := (AF s AND NOT 0xff) OR tbl cpTable (sum AND 0xff) OR (temp AND 0x28) OR
            SET_PV cbits OR tbl cbits2Table (cbits AND 0x1ff)\<rparr>)"

(* RST 38H *)
definition op_ff :: "'w cpu \<Rightarrow> 'w cpu" where
  "op_ff s =
     (let s = PUSH (PC s) s
      in s\<lparr>PC := 0x38\<rparr>)"

(* IN A,(nn) *)
definition op_db :: "'w host \<Rightarrow> 'w cpu \<Rightarrow> 'w cpu" where
  "op_db h s =
     (let v = GET_BYTE s (PC s);
          s = s\<lparr>PC := PC s + 1\<rparr>;
          (r, s') = cpu_in h v s
      in s'\<lparr>AF := SET_HIGH_REGISTER (if left_first h then AF s else AF s') r\<rparr>)"

end
