(* ===== verification/Z80_CB.thy ===== *)
theory Z80_CB
  imports Z80_State Z80_Tables
begin

text \<open>
  The bit instructions (prefix \<open>CB\<close>): shifts, rotates, \<open>BIT\<close>, \<open>RES\<close> and \<open>SET\<close>.
\<close>

section \<open>The pieces\<close>

text \<open>The operand, and \<open>PC\<close> behind the opcode.\<close>

definition cb_fetch :: "u32 \<Rightarrow> u32 \<Rightarrow> 'w cpu \<Rightarrow> u32 \<times> 'w cpu" where
  "cb_fetch opc adr s =
     (let s = s\<lparr>PC := PC s + 1\<rparr>; k = opc AND 7 in
      (if k = 0 then HIGH_REGISTER (BC s)
       else if k = 1 then LOW_REGISTER (BC s)
       else if k = 2 then HIGH_REGISTER (DE s)
       else if k = 3 then LOW_REGISTER (DE s)
       else if k = 4 then HIGH_REGISTER (HL s)
       else if k = 5 then LOW_REGISTER (HL s)
       else if k = 6 then GET_BYTE s adr
       else HIGH_REGISTER (AF s), s))"

text \<open>Shifts and rotates: \<open>temp\<close> and \<open>cbits\<close>.\<close>

definition cb_shift :: "u32 \<Rightarrow> u32 \<Rightarrow> bool \<Rightarrow> u32 \<times> u32" where
  "cb_shift opc acu carry =
     (let k = opc AND 0x38 in
      if k = 0x00 then (let temp = push_bit 1 acu OR drop_bit 7 acu in (temp, temp AND 1))
      else if k = 0x08 then (let temp = drop_bit 1 acu OR push_bit 7 acu in (temp, temp AND 0x80))
      else if k = 0x10 then (push_bit 1 acu OR of_bool carry, acu AND 0x80)
      else if k = 0x18 then (drop_bit 1 acu OR push_bit 7 (of_bool carry), acu AND 1)
      else if k = 0x20 then (push_bit 1 acu, acu AND 0x80)
      else if k = 0x28 then (drop_bit 1 acu OR (acu AND 0x80), acu AND 1)
      else if k = 0x30 then (push_bit 1 acu OR 1, acu AND 0x80)
      else (drop_bit 1 acu, acu AND 1))"

text \<open>The operation: the new operand and the state with the flags.\<close>

definition cb_operate :: "u32 \<Rightarrow> u32 \<Rightarrow> 'w cpu \<Rightarrow> u32 \<times> 'w cpu" where
  "cb_operate opc acu s =
     (let k = opc AND 0xc0; m = push_bit (unat (drop_bit 3 opc AND 7)) 1 in
      if k = 0x00 then
        (let (temp, cbits) = cb_shift opc acu (TSTFLAG s FLAG_C) in
         (temp, s\<lparr>AF := (AF s AND NOT 0xff) OR tbl rotateShiftTable (temp AND 0xff) OR of_bool (cbits \<noteq> 0)\<rparr>))
      else if k = 0x40 then
        (let s = (if acu AND m \<noteq> 0
                  then s\<lparr>AF := (AF s AND NOT 0xfe) OR 0x10 OR push_bit 7 (of_bool (opc AND 0x38 = 0x38))\<rparr>
                  else s\<lparr>AF := (AF s AND NOT 0xfe) OR 0x54\<rparr>);
             s = (if opc AND 7 \<noteq> 6 then s\<lparr>AF := AF s OR (acu AND 0x28)\<rparr> else s)
         in (acu, s))
      else if k = 0x80 then (acu AND NOT m, s)
      else (acu OR m, s))"

definition cb_store :: "u32 \<Rightarrow> u32 \<Rightarrow> u32 \<Rightarrow> 'w cpu \<Rightarrow> 'w cpu" where
  "cb_store opc adr temp s =
     (let k = opc AND 7 in
      if k = 0 then s\<lparr>BC := SET_HIGH_REGISTER (BC s) temp\<rparr>
      else if k = 1 then s\<lparr>BC := SET_LOW_REGISTER (BC s) temp\<rparr>
      else if k = 2 then s\<lparr>DE := SET_HIGH_REGISTER (DE s) temp\<rparr>
      else if k = 3 then s\<lparr>DE := SET_LOW_REGISTER (DE s) temp\<rparr>
      else if k = 4 then s\<lparr>HL := SET_HIGH_REGISTER (HL s) temp\<rparr>
      else if k = 5 then s\<lparr>HL := SET_LOW_REGISTER (HL s) temp\<rparr>
      else if k = 6 then PUT_BYTE adr temp s
      else s\<lparr>AF := SET_HIGH_REGISTER (AF s) temp\<rparr>)"

section \<open>The three prefixes\<close>

text \<open>
  The source repeats the decoder for \<open>CB\<close>, \<open>DD CB\<close> and \<open>FD CB\<close>, with the same text but for the
  address and the labels.
\<close>

definition cb_body :: "u32 \<Rightarrow> 'w cpu \<Rightarrow> 'w cpu" where
  "cb_body adr s =
     (let opc = GET_BYTE s (PC s);
          (acu, s) = cb_fetch opc adr s;
          (temp, s) = cb_operate opc acu s
      in cb_store opc adr temp s)"

definition op_cb :: "'w cpu \<Rightarrow> 'w cpu" where
  "op_cb s = (let s = INCR 1 s; adr = HL s in cb_body adr s)"

definition dd_cb :: "'w cpu \<Rightarrow> 'w cpu" where
  "dd_cb s = (let v = GET_BYTE s (PC s); s = s\<lparr>PC := PC s + 1\<rparr>; adr = IX s + int8 v in cb_body adr s)"

definition fd_cb :: "'w cpu \<Rightarrow> 'w cpu" where
  "fd_cb s = (let v = GET_BYTE s (PC s); s = s\<lparr>PC := PC s + 1\<rparr>; adr = IY s + int8 v in cb_body adr s)"

end
