(* ===== verification/Z80_DD.thy ===== *)
theory Z80_DD
  imports Z80_CB
begin

text \<open>
  The instructions with prefix \<open>DD\<close>, on the index register \<open>IX\<close>.
\<close>

(* ADD IX,BC *)
definition dd_09 :: "'w cpu \<Rightarrow> 'w cpu" where
  "dd_09 s =
     (let s = s\<lparr>IX := IX s AND ADDRMASK\<rparr>;
          s = s\<lparr>BC := BC s AND ADDRMASK\<rparr>;
          sum = IX s + BC s;
          s = s\<lparr>AF := (AF s AND NOT 0x3b) OR (drop_bit 8 sum AND 0x28) OR
            tbl cbitsTable (drop_bit 8 (IX s XOR BC s XOR sum))\<rparr>
      in s\<lparr>IX := sum\<rparr>)"

(* ADD IX,DE *)
definition dd_19 :: "'w cpu \<Rightarrow> 'w cpu" where
  "dd_19 s =
     (let s = s\<lparr>IX := IX s AND ADDRMASK\<rparr>;
          s = s\<lparr>DE := DE s AND ADDRMASK\<rparr>;
          sum = IX s + DE s;
          s = s\<lparr>AF := (AF s AND NOT 0x3b) OR (drop_bit 8 sum AND 0x28) OR
            tbl cbitsTable (drop_bit 8 (IX s XOR DE s XOR sum))\<rparr>
      in s\<lparr>IX := sum\<rparr>)"

(* LD IX,nnnn *)
definition dd_21 :: "'w cpu \<Rightarrow> 'w cpu" where
  "dd_21 s =
     (let s = s\<lparr>IX := GET_WORD s (PC s)\<rparr>
      in s\<lparr>PC := PC s + 2\<rparr>)"

(* LD (nnnn),IX *)
definition dd_22 :: "'w cpu \<Rightarrow> 'w cpu" where
  "dd_22 s =
     (let temp = GET_WORD s (PC s);
          s = PUT_WORD temp (IX s) s
      in s\<lparr>PC := PC s + 2\<rparr>)"

(* INC IX *)
definition dd_23 :: "'w cpu \<Rightarrow> 'w cpu" where
  "dd_23 s = s\<lparr>IX := IX s + 1\<rparr>"

(* INC IXH *)
definition dd_24 :: "'w cpu \<Rightarrow> 'w cpu" where
  "dd_24 s =
     (let s = s\<lparr>IX := IX s + 0x100\<rparr>
      in s\<lparr>AF := (AF s AND NOT 0xfe) OR tbl incZ80Table (HIGH_REGISTER (IX s))\<rparr>)"

(* DEC IXH *)
definition dd_25 :: "'w cpu \<Rightarrow> 'w cpu" where
  "dd_25 s =
     (let s = s\<lparr>IX := IX s - 0x100\<rparr>
      in s\<lparr>AF := (AF s AND NOT 0xfe) OR tbl decZ80Table (HIGH_REGISTER (IX s))\<rparr>)"

(* LD IXH,nn *)
definition dd_26 :: "'w cpu \<Rightarrow> 'w cpu" where
  "dd_26 s =
     (let v = GET_BYTE s (PC s);
          s = s\<lparr>PC := PC s + 1\<rparr>
      in s\<lparr>IX := SET_HIGH_REGISTER (IX s) v\<rparr>)"

(* ADD IX,IX *)
definition dd_29 :: "'w cpu \<Rightarrow> 'w cpu" where
  "dd_29 s =
     (let s = s\<lparr>IX := IX s AND ADDRMASK\<rparr>;
          sum = IX s + IX s;
          s = s\<lparr>AF := (AF s AND NOT 0x3b) OR tbl cbitsDup16Table (drop_bit 8 sum)\<rparr>
      in s\<lparr>IX := sum\<rparr>)"

(* LD IX,(nnnn) *)
definition dd_2a :: "'w cpu \<Rightarrow> 'w cpu" where
  "dd_2a s =
     (let temp = GET_WORD s (PC s);
          s = s\<lparr>IX := GET_WORD s temp\<rparr>
      in s\<lparr>PC := PC s + 2\<rparr>)"

(* DEC IX *)
definition dd_2b :: "'w cpu \<Rightarrow> 'w cpu" where
  "dd_2b s = s\<lparr>IX := IX s - 1\<rparr>"

(* INC IXL *)
definition dd_2c :: "'w cpu \<Rightarrow> 'w cpu" where
  "dd_2c s =
     (let temp = LOW_REGISTER (IX s) + 1;
          s = s\<lparr>IX := SET_LOW_REGISTER (IX s) temp\<rparr>
      in s\<lparr>AF := (AF s AND NOT 0xfe) OR tbl incZ80Table temp\<rparr>)"

(* DEC IXL *)
definition dd_2d :: "'w cpu \<Rightarrow> 'w cpu" where
  "dd_2d s =
     (let temp = LOW_REGISTER (IX s) - 1;
          s = s\<lparr>IX := SET_LOW_REGISTER (IX s) temp\<rparr>
      in s\<lparr>AF := (AF s AND NOT 0xfe) OR tbl decZ80Table (temp AND 0xff)\<rparr>)"

(* LD IXL,nn *)
definition dd_2e :: "'w cpu \<Rightarrow> 'w cpu" where
  "dd_2e s =
     (let v = GET_BYTE s (PC s);
          s = s\<lparr>PC := PC s + 1\<rparr>
      in s\<lparr>IX := SET_LOW_REGISTER (IX s) v\<rparr>)"

(* INC (IX+dd) *)
definition dd_34 :: "'w cpu \<Rightarrow> 'w cpu" where
  "dd_34 s =
     (let v = GET_BYTE s (PC s);
          s = s\<lparr>PC := PC s + 1\<rparr>;
          adr = IX s + int8 v;
          temp = GET_BYTE s adr + 1;
          s = PUT_BYTE adr temp s
      in s\<lparr>AF := (AF s AND NOT 0xfe) OR tbl incZ80Table temp\<rparr>)"

(* DEC (IX+dd) *)
definition dd_35 :: "'w cpu \<Rightarrow> 'w cpu" where
  "dd_35 s =
     (let v = GET_BYTE s (PC s);
          s = s\<lparr>PC := PC s + 1\<rparr>;
          adr = IX s + int8 v;
          temp = GET_BYTE s adr - 1;
          s = PUT_BYTE adr temp s
      in s\<lparr>AF := (AF s AND NOT 0xfe) OR tbl decZ80Table (temp AND 0xff)\<rparr>)"

(* LD (IX+dd),nn *)
definition dd_36 :: "'w cpu \<Rightarrow> 'w cpu" where
  "dd_36 s =
     (let v = GET_BYTE s (PC s);
          s = s\<lparr>PC := PC s + 1\<rparr>;
          adr = IX s + int8 v;
          v = GET_BYTE s (PC s);
          s = s\<lparr>PC := PC s + 1\<rparr>
      in PUT_BYTE adr v s)"

(* ADD IX,SP *)
definition dd_39 :: "'w cpu \<Rightarrow> 'w cpu" where
  "dd_39 s =
     (let s = s\<lparr>IX := IX s AND ADDRMASK\<rparr>;
          s = s\<lparr>SP := SP s AND ADDRMASK\<rparr>;
          sum = IX s + SP s;
          s = s\<lparr>AF := (AF s AND NOT 0x3b) OR (drop_bit 8 sum AND 0x28) OR
            tbl cbitsTable (drop_bit 8 (IX s XOR SP s XOR sum))\<rparr>
      in s\<lparr>IX := sum\<rparr>)"

(* LD B,IXH *)
definition dd_44 :: "'w cpu \<Rightarrow> 'w cpu" where
  "dd_44 s = s\<lparr>BC := SET_HIGH_REGISTER (BC s) (HIGH_REGISTER (IX s))\<rparr>"

(* LD B,IXL *)
definition dd_45 :: "'w cpu \<Rightarrow> 'w cpu" where
  "dd_45 s = s\<lparr>BC := SET_HIGH_REGISTER (BC s) (LOW_REGISTER (IX s))\<rparr>"

(* LD B,(IX+dd) *)
definition dd_46 :: "'w cpu \<Rightarrow> 'w cpu" where
  "dd_46 s =
     (let v = GET_BYTE s (PC s);
          s = s\<lparr>PC := PC s + 1\<rparr>;
          adr = IX s + int8 v
      in s\<lparr>BC := SET_HIGH_REGISTER (BC s) (GET_BYTE s adr)\<rparr>)"

(* LD C,IXH *)
definition dd_4c :: "'w cpu \<Rightarrow> 'w cpu" where
  "dd_4c s = s\<lparr>BC := SET_LOW_REGISTER (BC s) (HIGH_REGISTER (IX s))\<rparr>"

(* LD C,IXL *)
definition dd_4d :: "'w cpu \<Rightarrow> 'w cpu" where
  "dd_4d s = s\<lparr>BC := SET_LOW_REGISTER (BC s) (LOW_REGISTER (IX s))\<rparr>"

(* LD C,(IX+dd) *)
definition dd_4e :: "'w cpu \<Rightarrow> 'w cpu" where
  "dd_4e s =
     (let v = GET_BYTE s (PC s);
          s = s\<lparr>PC := PC s + 1\<rparr>;
          adr = IX s + int8 v
      in s\<lparr>BC := SET_LOW_REGISTER (BC s) (GET_BYTE s adr)\<rparr>)"

(* LD D,IXH *)
definition dd_54 :: "'w cpu \<Rightarrow> 'w cpu" where
  "dd_54 s = s\<lparr>DE := SET_HIGH_REGISTER (DE s) (HIGH_REGISTER (IX s))\<rparr>"

(* LD D,IXL *)
definition dd_55 :: "'w cpu \<Rightarrow> 'w cpu" where
  "dd_55 s = s\<lparr>DE := SET_HIGH_REGISTER (DE s) (LOW_REGISTER (IX s))\<rparr>"

(* LD D,(IX+dd) *)
definition dd_56 :: "'w cpu \<Rightarrow> 'w cpu" where
  "dd_56 s =
     (let v = GET_BYTE s (PC s);
          s = s\<lparr>PC := PC s + 1\<rparr>;
          adr = IX s + int8 v
      in s\<lparr>DE := SET_HIGH_REGISTER (DE s) (GET_BYTE s adr)\<rparr>)"

(* LD E,IXH *)
definition dd_5c :: "'w cpu \<Rightarrow> 'w cpu" where
  "dd_5c s = s\<lparr>DE := SET_LOW_REGISTER (DE s) (HIGH_REGISTER (IX s))\<rparr>"

(* LD E,IXL *)
definition dd_5d :: "'w cpu \<Rightarrow> 'w cpu" where
  "dd_5d s = s\<lparr>DE := SET_LOW_REGISTER (DE s) (LOW_REGISTER (IX s))\<rparr>"

(* LD E,(IX+dd) *)
definition dd_5e :: "'w cpu \<Rightarrow> 'w cpu" where
  "dd_5e s =
     (let v = GET_BYTE s (PC s);
          s = s\<lparr>PC := PC s + 1\<rparr>;
          adr = IX s + int8 v
      in s\<lparr>DE := SET_LOW_REGISTER (DE s) (GET_BYTE s adr)\<rparr>)"

(* LD IXH,B *)
definition dd_60 :: "'w cpu \<Rightarrow> 'w cpu" where
  "dd_60 s = s\<lparr>IX := SET_HIGH_REGISTER (IX s) (HIGH_REGISTER (BC s))\<rparr>"

(* LD IXH,C *)
definition dd_61 :: "'w cpu \<Rightarrow> 'w cpu" where
  "dd_61 s = s\<lparr>IX := SET_HIGH_REGISTER (IX s) (LOW_REGISTER (BC s))\<rparr>"

(* LD IXH,D *)
definition dd_62 :: "'w cpu \<Rightarrow> 'w cpu" where
  "dd_62 s = s\<lparr>IX := SET_HIGH_REGISTER (IX s) (HIGH_REGISTER (DE s))\<rparr>"

(* LD IXH,E *)
definition dd_63 :: "'w cpu \<Rightarrow> 'w cpu" where
  "dd_63 s = s\<lparr>IX := SET_HIGH_REGISTER (IX s) (LOW_REGISTER (DE s))\<rparr>"

(* LD IXH,IXH *)
definition dd_64 :: "'w cpu \<Rightarrow> 'w cpu" where
  "dd_64 s = s"

(* LD IXH,IXL *)
definition dd_65 :: "'w cpu \<Rightarrow> 'w cpu" where
  "dd_65 s = s\<lparr>IX := SET_HIGH_REGISTER (IX s) (LOW_REGISTER (IX s))\<rparr>"

(* LD H,(IX+dd) *)
definition dd_66 :: "'w cpu \<Rightarrow> 'w cpu" where
  "dd_66 s =
     (let v = GET_BYTE s (PC s);
          s = s\<lparr>PC := PC s + 1\<rparr>;
          adr = IX s + int8 v
      in s\<lparr>HL := SET_HIGH_REGISTER (HL s) (GET_BYTE s adr)\<rparr>)"

(* LD IXH,A *)
definition dd_67 :: "'w cpu \<Rightarrow> 'w cpu" where
  "dd_67 s = s\<lparr>IX := SET_HIGH_REGISTER (IX s) (HIGH_REGISTER (AF s))\<rparr>"

(* LD IXL,B *)
definition dd_68 :: "'w cpu \<Rightarrow> 'w cpu" where
  "dd_68 s = s\<lparr>IX := SET_LOW_REGISTER (IX s) (HIGH_REGISTER (BC s))\<rparr>"

(* LD IXL,C *)
definition dd_69 :: "'w cpu \<Rightarrow> 'w cpu" where
  "dd_69 s = s\<lparr>IX := SET_LOW_REGISTER (IX s) (LOW_REGISTER (BC s))\<rparr>"

(* LD IXL,D *)
definition dd_6a :: "'w cpu \<Rightarrow> 'w cpu" where
  "dd_6a s = s\<lparr>IX := SET_LOW_REGISTER (IX s) (HIGH_REGISTER (DE s))\<rparr>"

(* LD IXL,E *)
definition dd_6b :: "'w cpu \<Rightarrow> 'w cpu" where
  "dd_6b s = s\<lparr>IX := SET_LOW_REGISTER (IX s) (LOW_REGISTER (DE s))\<rparr>"

(* LD IXL,IXH *)
definition dd_6c :: "'w cpu \<Rightarrow> 'w cpu" where
  "dd_6c s = s\<lparr>IX := SET_LOW_REGISTER (IX s) (HIGH_REGISTER (IX s))\<rparr>"

(* LD IXL,IXL *)
definition dd_6d :: "'w cpu \<Rightarrow> 'w cpu" where
  "dd_6d s = s"

(* LD L,(IX+dd) *)
definition dd_6e :: "'w cpu \<Rightarrow> 'w cpu" where
  "dd_6e s =
     (let v = GET_BYTE s (PC s);
          s = s\<lparr>PC := PC s + 1\<rparr>;
          adr = IX s + int8 v
      in s\<lparr>HL := SET_LOW_REGISTER (HL s) (GET_BYTE s adr)\<rparr>)"

(* LD IXL,A *)
definition dd_6f :: "'w cpu \<Rightarrow> 'w cpu" where
  "dd_6f s = s\<lparr>IX := SET_LOW_REGISTER (IX s) (HIGH_REGISTER (AF s))\<rparr>"

(* LD (IX+dd),B *)
definition dd_70 :: "'w cpu \<Rightarrow> 'w cpu" where
  "dd_70 s =
     (let v = GET_BYTE s (PC s);
          s = s\<lparr>PC := PC s + 1\<rparr>;
          adr = IX s + int8 v
      in PUT_BYTE adr (HIGH_REGISTER (BC s)) s)"

(* LD (IX+dd),C *)
definition dd_71 :: "'w cpu \<Rightarrow> 'w cpu" where
  "dd_71 s =
     (let v = GET_BYTE s (PC s);
          s = s\<lparr>PC := PC s + 1\<rparr>;
          adr = IX s + int8 v
      in PUT_BYTE adr (LOW_REGISTER (BC s)) s)"

(* LD (IX+dd),D *)
definition dd_72 :: "'w cpu \<Rightarrow> 'w cpu" where
  "dd_72 s =
     (let v = GET_BYTE s (PC s);
          s = s\<lparr>PC := PC s + 1\<rparr>;
          adr = IX s + int8 v
      in PUT_BYTE adr (HIGH_REGISTER (DE s)) s)"

(* LD (IX+dd),E *)
definition dd_73 :: "'w cpu \<Rightarrow> 'w cpu" where
  "dd_73 s =
     (let v = GET_BYTE s (PC s);
          s = s\<lparr>PC := PC s + 1\<rparr>;
          adr = IX s + int8 v
      in PUT_BYTE adr (LOW_REGISTER (DE s)) s)"

(* LD (IX+dd),H *)
definition dd_74 :: "'w cpu \<Rightarrow> 'w cpu" where
  "dd_74 s =
     (let v = GET_BYTE s (PC s);
          s = s\<lparr>PC := PC s + 1\<rparr>;
          adr = IX s + int8 v
      in PUT_BYTE adr (HIGH_REGISTER (HL s)) s)"

(* LD (IX+dd),L *)
definition dd_75 :: "'w cpu \<Rightarrow> 'w cpu" where
  "dd_75 s =
     (let v = GET_BYTE s (PC s);
          s = s\<lparr>PC := PC s + 1\<rparr>;
          adr = IX s + int8 v
      in PUT_BYTE adr (LOW_REGISTER (HL s)) s)"

(* LD (IX+dd),A *)
definition dd_77 :: "'w cpu \<Rightarrow> 'w cpu" where
  "dd_77 s =
     (let v = GET_BYTE s (PC s);
          s = s\<lparr>PC := PC s + 1\<rparr>;
          adr = IX s + int8 v
      in PUT_BYTE adr (HIGH_REGISTER (AF s)) s)"

(* LD A,IXH *)
definition dd_7c :: "'w cpu \<Rightarrow> 'w cpu" where
  "dd_7c s = s\<lparr>AF := SET_HIGH_REGISTER (AF s) (HIGH_REGISTER (IX s))\<rparr>"

(* LD A,IXL *)
definition dd_7d :: "'w cpu \<Rightarrow> 'w cpu" where
  "dd_7d s = s\<lparr>AF := SET_HIGH_REGISTER (AF s) (LOW_REGISTER (IX s))\<rparr>"

(* LD A,(IX+dd) *)
definition dd_7e :: "'w cpu \<Rightarrow> 'w cpu" where
  "dd_7e s =
     (let v = GET_BYTE s (PC s);
          s = s\<lparr>PC := PC s + 1\<rparr>;
          adr = IX s + int8 v
      in s\<lparr>AF := SET_HIGH_REGISTER (AF s) (GET_BYTE s adr)\<rparr>)"

(* ADD A,IXH *)
definition dd_84 :: "'w cpu \<Rightarrow> 'w cpu" where
  "dd_84 s =
     (let temp = HIGH_REGISTER (IX s);
          acu = HIGH_REGISTER (AF s);
          sum = acu + temp
      in s\<lparr>AF := tbl addTable sum OR tbl cbitsZ80Table (acu XOR temp XOR sum)\<rparr>)"

(* ADD A,IXL *)
definition dd_85 :: "'w cpu \<Rightarrow> 'w cpu" where
  "dd_85 s =
     (let temp = LOW_REGISTER (IX s);
          acu = HIGH_REGISTER (AF s);
          sum = acu + temp
      in s\<lparr>AF := tbl addTable sum OR tbl cbitsZ80Table (acu XOR temp XOR sum)\<rparr>)"

(* ADD A,(IX+dd) *)
definition dd_86 :: "'w cpu \<Rightarrow> 'w cpu" where
  "dd_86 s =
     (let v = GET_BYTE s (PC s);
          s = s\<lparr>PC := PC s + 1\<rparr>;
          adr = IX s + int8 v;
          temp = GET_BYTE s adr;
          acu = HIGH_REGISTER (AF s);
          sum = acu + temp
      in s\<lparr>AF := tbl addTable sum OR tbl cbitsZ80Table (acu XOR temp XOR sum)\<rparr>)"

(* ADC A,IXH *)
definition dd_8c :: "'w cpu \<Rightarrow> 'w cpu" where
  "dd_8c s =
     (let temp = HIGH_REGISTER (IX s);
          acu = HIGH_REGISTER (AF s);
          sum = acu + temp + of_bool (TSTFLAG s FLAG_C)
      in s\<lparr>AF := tbl addTable sum OR tbl cbitsZ80Table (acu XOR temp XOR sum)\<rparr>)"

(* ADC A,IXL *)
definition dd_8d :: "'w cpu \<Rightarrow> 'w cpu" where
  "dd_8d s =
     (let temp = LOW_REGISTER (IX s);
          acu = HIGH_REGISTER (AF s);
          sum = acu + temp + of_bool (TSTFLAG s FLAG_C)
      in s\<lparr>AF := tbl addTable sum OR tbl cbitsZ80Table (acu XOR temp XOR sum)\<rparr>)"

(* ADC A,(IX+dd) *)
definition dd_8e :: "'w cpu \<Rightarrow> 'w cpu" where
  "dd_8e s =
     (let v = GET_BYTE s (PC s);
          s = s\<lparr>PC := PC s + 1\<rparr>;
          adr = IX s + int8 v;
          temp = GET_BYTE s adr;
          acu = HIGH_REGISTER (AF s);
          sum = acu + temp + of_bool (TSTFLAG s FLAG_C)
      in s\<lparr>AF := tbl addTable sum OR tbl cbitsZ80Table (acu XOR temp XOR sum)\<rparr>)"

(* SUB (IX+dd) *)
definition dd_96 :: "'w cpu \<Rightarrow> 'w cpu" where
  "dd_96 s =
     (let v = GET_BYTE s (PC s);
          s = s\<lparr>PC := PC s + 1\<rparr>;
          adr = IX s + int8 v;
          temp = GET_BYTE s adr;
          acu = HIGH_REGISTER (AF s);
          sum = acu - temp
      in s\<lparr>AF := tbl addTable (sum AND 0xff) OR
            tbl cbits2Z80Table ((acu XOR temp XOR sum) AND 0x1ff)\<rparr>)"

(* SBC A,IXH *)
definition dd_9c :: "'w cpu \<Rightarrow> 'w cpu" where
  "dd_9c s =
     (let temp = HIGH_REGISTER (IX s);
          acu = HIGH_REGISTER (AF s);
          sum = acu - temp - of_bool (TSTFLAG s FLAG_C)
      in s\<lparr>AF := tbl addTable (sum AND 0xff) OR
            tbl cbits2Z80Table ((acu XOR temp XOR sum) AND 0x1ff)\<rparr>)"

(* SUB IXH *)
definition dd_94 :: "'w cpu \<Rightarrow> 'w cpu" where
  "dd_94 s = dd_9c (SETFLAG FLAG_C False s)"

(* SBC A,IXL *)
definition dd_9d :: "'w cpu \<Rightarrow> 'w cpu" where
  "dd_9d s =
     (let temp = LOW_REGISTER (IX s);
          acu = HIGH_REGISTER (AF s);
          sum = acu - temp - of_bool (TSTFLAG s FLAG_C)
      in s\<lparr>AF := tbl addTable (sum AND 0xff) OR
            tbl cbits2Z80Table ((acu XOR temp XOR sum) AND 0x1ff)\<rparr>)"

(* SUB IXL *)
definition dd_95 :: "'w cpu \<Rightarrow> 'w cpu" where
  "dd_95 s = dd_9d (SETFLAG FLAG_C False s)"

(* SBC A,(IX+dd) *)
definition dd_9e :: "'w cpu \<Rightarrow> 'w cpu" where
  "dd_9e s =
     (let v = GET_BYTE s (PC s);
          s = s\<lparr>PC := PC s + 1\<rparr>;
          adr = IX s + int8 v;
          temp = GET_BYTE s adr;
          acu = HIGH_REGISTER (AF s);
          sum = acu - temp - of_bool (TSTFLAG s FLAG_C)
      in s\<lparr>AF := tbl addTable (sum AND 0xff) OR
            tbl cbits2Z80Table ((acu XOR temp XOR sum) AND 0x1ff)\<rparr>)"

(* AND IXH *)
definition dd_a4 :: "'w cpu \<Rightarrow> 'w cpu" where
  "dd_a4 s = s\<lparr>AF := tbl andTable (signed_drop_bit 8 (AF s AND IX s) AND 0xff)\<rparr>"

(* AND IXL *)
definition dd_a5 :: "'w cpu \<Rightarrow> 'w cpu" where
  "dd_a5 s = s\<lparr>AF := tbl andTable ((signed_drop_bit 8 (AF s) AND IX s) AND 0xff)\<rparr>"

(* AND (IX+dd) *)
definition dd_a6 :: "'w cpu \<Rightarrow> 'w cpu" where
  "dd_a6 s =
     (let v = GET_BYTE s (PC s);
          s = s\<lparr>PC := PC s + 1\<rparr>;
          adr = IX s + int8 v
      in s\<lparr>AF := tbl andTable ((signed_drop_bit 8 (AF s) AND GET_BYTE s adr) AND 0xff)\<rparr>)"

(* XOR IXH *)
definition dd_ac :: "'w cpu \<Rightarrow> 'w cpu" where
  "dd_ac s = s\<lparr>AF := tbl xororTable (signed_drop_bit 8 (AF s XOR IX s) AND 0xff)\<rparr>"

(* XOR IXL *)
definition dd_ad :: "'w cpu \<Rightarrow> 'w cpu" where
  "dd_ad s = s\<lparr>AF := tbl xororTable ((signed_drop_bit 8 (AF s) XOR IX s) AND 0xff)\<rparr>"

(* XOR (IX+dd) *)
definition dd_ae :: "'w cpu \<Rightarrow> 'w cpu" where
  "dd_ae s =
     (let v = GET_BYTE s (PC s);
          s = s\<lparr>PC := PC s + 1\<rparr>;
          adr = IX s + int8 v
      in s\<lparr>AF := tbl xororTable ((signed_drop_bit 8 (AF s) XOR GET_BYTE s adr) AND 0xff)\<rparr>)"

(* OR IXH *)
definition dd_b4 :: "'w cpu \<Rightarrow> 'w cpu" where
  "dd_b4 s = s\<lparr>AF := tbl xororTable (signed_drop_bit 8 (AF s OR IX s) AND 0xff)\<rparr>"

(* OR IXL *)
definition dd_b5 :: "'w cpu \<Rightarrow> 'w cpu" where
  "dd_b5 s = s\<lparr>AF := tbl xororTable ((signed_drop_bit 8 (AF s) OR IX s) AND 0xff)\<rparr>"

(* OR (IX+dd) *)
definition dd_b6 :: "'w cpu \<Rightarrow> 'w cpu" where
  "dd_b6 s =
     (let v = GET_BYTE s (PC s);
          s = s\<lparr>PC := PC s + 1\<rparr>;
          adr = IX s + int8 v
      in s\<lparr>AF := tbl xororTable ((signed_drop_bit 8 (AF s) OR
            GET_BYTE s adr) AND 0xff)\<rparr>)"

(* CP IXH *)
definition dd_bc :: "'w cpu \<Rightarrow> 'w cpu" where
  "dd_bc s =
     (let temp = HIGH_REGISTER (IX s);
          s = s\<lparr>AF := (AF s AND NOT 0x28) OR (temp AND 0x28)\<rparr>;
          acu = HIGH_REGISTER (AF s);
          sum = acu - temp
      in s\<lparr>AF := (AF s AND NOT 0xff) OR tbl cpTable (sum AND 0xff) OR (temp AND 0x28) OR
            tbl cbits2Z80Table ((acu XOR temp XOR sum) AND 0x1ff)\<rparr>)"

(* CP IXL *)
definition dd_bd :: "'w cpu \<Rightarrow> 'w cpu" where
  "dd_bd s =
     (let temp = LOW_REGISTER (IX s);
          s = s\<lparr>AF := (AF s AND NOT 0x28) OR (temp AND 0x28)\<rparr>;
          acu = HIGH_REGISTER (AF s);
          sum = acu - temp
      in s\<lparr>AF := (AF s AND NOT 0xff) OR tbl cpTable (sum AND 0xff) OR (temp AND 0x28) OR
            tbl cbits2Z80Table ((acu XOR temp XOR sum) AND 0x1ff)\<rparr>)"

(* CP (IX+dd) *)
definition dd_be :: "'w cpu \<Rightarrow> 'w cpu" where
  "dd_be s =
     (let v = GET_BYTE s (PC s);
          s = s\<lparr>PC := PC s + 1\<rparr>;
          adr = IX s + int8 v;
          temp = GET_BYTE s adr;
          s = s\<lparr>AF := (AF s AND NOT 0x28) OR (temp AND 0x28)\<rparr>;
          acu = HIGH_REGISTER (AF s);
          sum = acu - temp
      in s\<lparr>AF := (AF s AND NOT 0xff) OR tbl cpTable (sum AND 0xff) OR (temp AND 0x28) OR
            tbl cbits2Z80Table ((acu XOR temp XOR sum) AND 0x1ff)\<rparr>)"

(* POP IX *)
definition dd_e1 :: "'w cpu \<Rightarrow> 'w cpu" where
  "dd_e1 s =
     (let (x, s) = POP s
      in s\<lparr>IX := x\<rparr>)"

(* EX (SP),IX *)
definition dd_e3 :: "'w cpu \<Rightarrow> 'w cpu" where
  "dd_e3 s =
     (let temp = IX s;
          (x, s) = POP s;
          s = s\<lparr>IX := x\<rparr>
      in PUSH temp s)"

(* PUSH IX *)
definition dd_e5 :: "'w cpu \<Rightarrow> 'w cpu" where
  "dd_e5 s = PUSH (IX s) s"

(* JP (IX) *)
definition dd_e9 :: "'w cpu \<Rightarrow> 'w cpu" where
  "dd_e9 s = s\<lparr>PC := IX s\<rparr>"

(* LD SP,IX *)
definition dd_f9 :: "'w cpu \<Rightarrow> 'w cpu" where
  "dd_f9 s = s\<lparr>SP := IX s\<rparr>"

(* default: ignore the prefix *)
definition dd_default :: "'w cpu \<Rightarrow> 'w cpu" where
  "dd_default s = s\<lparr>PC := PC s - 1\<rparr>"

section \<open>Decoding\<close>

definition dd_ops :: "(u32 \<times> ('w cpu \<Rightarrow> 'w cpu)) list" where
  "dd_ops =
    [(0x09, dd_09), (0x19, dd_19), (0x21, dd_21), (0x22, dd_22), (0x23, dd_23), (0x24, dd_24),
     (0x25, dd_25), (0x26, dd_26), (0x29, dd_29), (0x2a, dd_2a), (0x2b, dd_2b), (0x2c, dd_2c),
     (0x2d, dd_2d), (0x2e, dd_2e), (0x34, dd_34), (0x35, dd_35), (0x36, dd_36), (0x39, dd_39),
     (0x44, dd_44), (0x45, dd_45), (0x46, dd_46), (0x4c, dd_4c), (0x4d, dd_4d), (0x4e, dd_4e),
     (0x54, dd_54), (0x55, dd_55), (0x56, dd_56), (0x5c, dd_5c), (0x5d, dd_5d), (0x5e, dd_5e),
     (0x60, dd_60), (0x61, dd_61), (0x62, dd_62), (0x63, dd_63), (0x64, dd_64), (0x65, dd_65),
     (0x66, dd_66), (0x67, dd_67), (0x68, dd_68), (0x69, dd_69), (0x6a, dd_6a), (0x6b, dd_6b),
     (0x6c, dd_6c), (0x6d, dd_6d), (0x6e, dd_6e), (0x6f, dd_6f), (0x70, dd_70), (0x71, dd_71),
     (0x72, dd_72), (0x73, dd_73), (0x74, dd_74), (0x75, dd_75), (0x77, dd_77), (0x7c, dd_7c),
     (0x7d, dd_7d), (0x7e, dd_7e), (0x84, dd_84), (0x85, dd_85), (0x86, dd_86), (0x8c, dd_8c),
     (0x8d, dd_8d), (0x8e, dd_8e), (0x94, dd_94), (0x95, dd_95), (0x96, dd_96), (0x9c, dd_9c),
     (0x9d, dd_9d), (0x9e, dd_9e), (0xa4, dd_a4), (0xa5, dd_a5), (0xa6, dd_a6), (0xac, dd_ac),
     (0xad, dd_ad), (0xae, dd_ae), (0xb4, dd_b4), (0xb5, dd_b5), (0xb6, dd_b6), (0xbc, dd_bc),
     (0xbd, dd_bd), (0xbe, dd_be), (0xcb, dd_cb), (0xe1, dd_e1), (0xe3, dd_e3), (0xe5, dd_e5),
     (0xe9, dd_e9), (0xf9, dd_f9)]"

definition op_dd :: "'w cpu \<Rightarrow> 'w cpu" where
  "op_dd s =
     (let s = INCR 1 s;
          v = GET_BYTE s (PC s);
          s = s\<lparr>PC := PC s + 1\<rparr>
      in (case map_of dd_ops v of Some f \<Rightarrow> f s | None \<Rightarrow> dd_default s))"

end
