(* ===== verification/Z80_FD.thy ===== *)
theory Z80_FD
  imports Z80_CB
begin

text \<open>
  The instructions with prefix \<open>FD\<close>, on the index register \<open>IY\<close>.
\<close>

(* ADD IY,BC *)
definition fd_09 :: "'w cpu \<Rightarrow> 'w cpu" where
  "fd_09 s =
     (let s = s\<lparr>IY := IY s AND ADDRMASK\<rparr>;
          s = s\<lparr>BC := BC s AND ADDRMASK\<rparr>;
          sum = IY s + BC s;
          s = s\<lparr>AF := (AF s AND NOT 0x3b) OR (drop_bit 8 sum AND 0x28) OR
            tbl cbitsTable (drop_bit 8 (IY s XOR BC s XOR sum))\<rparr>
      in s\<lparr>IY := sum\<rparr>)"

(* ADD IY,DE *)
definition fd_19 :: "'w cpu \<Rightarrow> 'w cpu" where
  "fd_19 s =
     (let s = s\<lparr>IY := IY s AND ADDRMASK\<rparr>;
          s = s\<lparr>DE := DE s AND ADDRMASK\<rparr>;
          sum = IY s + DE s;
          s = s\<lparr>AF := (AF s AND NOT 0x3b) OR (drop_bit 8 sum AND 0x28) OR
            tbl cbitsTable (drop_bit 8 (IY s XOR DE s XOR sum))\<rparr>
      in s\<lparr>IY := sum\<rparr>)"

(* LD IY,nnnn *)
definition fd_21 :: "'w cpu \<Rightarrow> 'w cpu" where
  "fd_21 s =
     (let s = s\<lparr>IY := GET_WORD s (PC s)\<rparr>
      in s\<lparr>PC := PC s + 2\<rparr>)"

(* LD (nnnn),IY *)
definition fd_22 :: "'w cpu \<Rightarrow> 'w cpu" where
  "fd_22 s =
     (let temp = GET_WORD s (PC s);
          s = PUT_WORD temp (IY s) s
      in s\<lparr>PC := PC s + 2\<rparr>)"

(* INC IY *)
definition fd_23 :: "'w cpu \<Rightarrow> 'w cpu" where
  "fd_23 s = s\<lparr>IY := IY s + 1\<rparr>"

(* INC IYH *)
definition fd_24 :: "'w cpu \<Rightarrow> 'w cpu" where
  "fd_24 s =
     (let s = s\<lparr>IY := IY s + 0x100\<rparr>
      in s\<lparr>AF := (AF s AND NOT 0xfe) OR tbl incZ80Table (HIGH_REGISTER (IY s))\<rparr>)"

(* DEC IYH *)
definition fd_25 :: "'w cpu \<Rightarrow> 'w cpu" where
  "fd_25 s =
     (let s = s\<lparr>IY := IY s - 0x100\<rparr>
      in s\<lparr>AF := (AF s AND NOT 0xfe) OR tbl decZ80Table (HIGH_REGISTER (IY s))\<rparr>)"

(* LD IYH,nn *)
definition fd_26 :: "'w cpu \<Rightarrow> 'w cpu" where
  "fd_26 s =
     (let v = GET_BYTE s (PC s);
          s = s\<lparr>PC := PC s + 1\<rparr>
      in s\<lparr>IY := SET_HIGH_REGISTER (IY s) v\<rparr>)"

(* ADD IY,IY *)
definition fd_29 :: "'w cpu \<Rightarrow> 'w cpu" where
  "fd_29 s =
     (let s = s\<lparr>IY := IY s AND ADDRMASK\<rparr>;
          sum = IY s + IY s;
          s = s\<lparr>AF := (AF s AND NOT 0x3b) OR tbl cbitsDup16Table (drop_bit 8 sum)\<rparr>
      in s\<lparr>IY := sum\<rparr>)"

(* LD IY,(nnnn) *)
definition fd_2a :: "'w cpu \<Rightarrow> 'w cpu" where
  "fd_2a s =
     (let temp = GET_WORD s (PC s);
          s = s\<lparr>IY := GET_WORD s temp\<rparr>
      in s\<lparr>PC := PC s + 2\<rparr>)"

(* DEC IY *)
definition fd_2b :: "'w cpu \<Rightarrow> 'w cpu" where
  "fd_2b s = s\<lparr>IY := IY s - 1\<rparr>"

(* INC IYL *)
definition fd_2c :: "'w cpu \<Rightarrow> 'w cpu" where
  "fd_2c s =
     (let temp = LOW_REGISTER (IY s) + 1;
          s = s\<lparr>IY := SET_LOW_REGISTER (IY s) temp\<rparr>
      in s\<lparr>AF := (AF s AND NOT 0xfe) OR tbl incZ80Table temp\<rparr>)"

(* DEC IYL *)
definition fd_2d :: "'w cpu \<Rightarrow> 'w cpu" where
  "fd_2d s =
     (let temp = LOW_REGISTER (IY s) - 1;
          s = s\<lparr>IY := SET_LOW_REGISTER (IY s) temp\<rparr>
      in s\<lparr>AF := (AF s AND NOT 0xfe) OR tbl decZ80Table (temp AND 0xff)\<rparr>)"

(* LD IYL,nn *)
definition fd_2e :: "'w cpu \<Rightarrow> 'w cpu" where
  "fd_2e s =
     (let v = GET_BYTE s (PC s);
          s = s\<lparr>PC := PC s + 1\<rparr>
      in s\<lparr>IY := SET_LOW_REGISTER (IY s) v\<rparr>)"

(* INC (IY+dd) *)
definition fd_34 :: "'w cpu \<Rightarrow> 'w cpu" where
  "fd_34 s =
     (let v = GET_BYTE s (PC s);
          s = s\<lparr>PC := PC s + 1\<rparr>;
          adr = IY s + int8 v;
          temp = GET_BYTE s adr + 1;
          s = PUT_BYTE adr temp s
      in s\<lparr>AF := (AF s AND NOT 0xfe) OR tbl incZ80Table temp\<rparr>)"

(* DEC (IY+dd) *)
definition fd_35 :: "'w cpu \<Rightarrow> 'w cpu" where
  "fd_35 s =
     (let v = GET_BYTE s (PC s);
          s = s\<lparr>PC := PC s + 1\<rparr>;
          adr = IY s + int8 v;
          temp = GET_BYTE s adr - 1;
          s = PUT_BYTE adr temp s
      in s\<lparr>AF := (AF s AND NOT 0xfe) OR tbl decZ80Table (temp AND 0xff)\<rparr>)"

(* LD (IY+dd),nn *)
definition fd_36 :: "'w cpu \<Rightarrow> 'w cpu" where
  "fd_36 s =
     (let v = GET_BYTE s (PC s);
          s = s\<lparr>PC := PC s + 1\<rparr>;
          adr = IY s + int8 v;
          v = GET_BYTE s (PC s);
          s = s\<lparr>PC := PC s + 1\<rparr>
      in PUT_BYTE adr v s)"

(* ADD IY,SP *)
definition fd_39 :: "'w cpu \<Rightarrow> 'w cpu" where
  "fd_39 s =
     (let s = s\<lparr>IY := IY s AND ADDRMASK\<rparr>;
          s = s\<lparr>SP := SP s AND ADDRMASK\<rparr>;
          sum = IY s + SP s;
          s = s\<lparr>AF := (AF s AND NOT 0x3b) OR (drop_bit 8 sum AND 0x28) OR
            tbl cbitsTable (drop_bit 8 (IY s XOR SP s XOR sum))\<rparr>
      in s\<lparr>IY := sum\<rparr>)"

(* LD B,IYH *)
definition fd_44 :: "'w cpu \<Rightarrow> 'w cpu" where
  "fd_44 s = s\<lparr>BC := SET_HIGH_REGISTER (BC s) (HIGH_REGISTER (IY s))\<rparr>"

(* LD B,IYL *)
definition fd_45 :: "'w cpu \<Rightarrow> 'w cpu" where
  "fd_45 s = s\<lparr>BC := SET_HIGH_REGISTER (BC s) (LOW_REGISTER (IY s))\<rparr>"

(* LD B,(IY+dd) *)
definition fd_46 :: "'w cpu \<Rightarrow> 'w cpu" where
  "fd_46 s =
     (let v = GET_BYTE s (PC s);
          s = s\<lparr>PC := PC s + 1\<rparr>;
          adr = IY s + int8 v
      in s\<lparr>BC := SET_HIGH_REGISTER (BC s) (GET_BYTE s adr)\<rparr>)"

(* LD C,IYH *)
definition fd_4c :: "'w cpu \<Rightarrow> 'w cpu" where
  "fd_4c s = s\<lparr>BC := SET_LOW_REGISTER (BC s) (HIGH_REGISTER (IY s))\<rparr>"

(* LD C,IYL *)
definition fd_4d :: "'w cpu \<Rightarrow> 'w cpu" where
  "fd_4d s = s\<lparr>BC := SET_LOW_REGISTER (BC s) (LOW_REGISTER (IY s))\<rparr>"

(* LD C,(IY+dd) *)
definition fd_4e :: "'w cpu \<Rightarrow> 'w cpu" where
  "fd_4e s =
     (let v = GET_BYTE s (PC s);
          s = s\<lparr>PC := PC s + 1\<rparr>;
          adr = IY s + int8 v
      in s\<lparr>BC := SET_LOW_REGISTER (BC s) (GET_BYTE s adr)\<rparr>)"

(* LD D,IYH *)
definition fd_54 :: "'w cpu \<Rightarrow> 'w cpu" where
  "fd_54 s = s\<lparr>DE := SET_HIGH_REGISTER (DE s) (HIGH_REGISTER (IY s))\<rparr>"

(* LD D,IYL *)
definition fd_55 :: "'w cpu \<Rightarrow> 'w cpu" where
  "fd_55 s = s\<lparr>DE := SET_HIGH_REGISTER (DE s) (LOW_REGISTER (IY s))\<rparr>"

(* LD D,(IY+dd) *)
definition fd_56 :: "'w cpu \<Rightarrow> 'w cpu" where
  "fd_56 s =
     (let v = GET_BYTE s (PC s);
          s = s\<lparr>PC := PC s + 1\<rparr>;
          adr = IY s + int8 v
      in s\<lparr>DE := SET_HIGH_REGISTER (DE s) (GET_BYTE s adr)\<rparr>)"

(* LD E,IYH *)
definition fd_5c :: "'w cpu \<Rightarrow> 'w cpu" where
  "fd_5c s = s\<lparr>DE := SET_LOW_REGISTER (DE s) (HIGH_REGISTER (IY s))\<rparr>"

(* LD E,IYL *)
definition fd_5d :: "'w cpu \<Rightarrow> 'w cpu" where
  "fd_5d s = s\<lparr>DE := SET_LOW_REGISTER (DE s) (LOW_REGISTER (IY s))\<rparr>"

(* LD E,(IY+dd) *)
definition fd_5e :: "'w cpu \<Rightarrow> 'w cpu" where
  "fd_5e s =
     (let v = GET_BYTE s (PC s);
          s = s\<lparr>PC := PC s + 1\<rparr>;
          adr = IY s + int8 v
      in s\<lparr>DE := SET_LOW_REGISTER (DE s) (GET_BYTE s adr)\<rparr>)"

(* LD IYH,B *)
definition fd_60 :: "'w cpu \<Rightarrow> 'w cpu" where
  "fd_60 s = s\<lparr>IY := SET_HIGH_REGISTER (IY s) (HIGH_REGISTER (BC s))\<rparr>"

(* LD IYH,C *)
definition fd_61 :: "'w cpu \<Rightarrow> 'w cpu" where
  "fd_61 s = s\<lparr>IY := SET_HIGH_REGISTER (IY s) (LOW_REGISTER (BC s))\<rparr>"

(* LD IYH,D *)
definition fd_62 :: "'w cpu \<Rightarrow> 'w cpu" where
  "fd_62 s = s\<lparr>IY := SET_HIGH_REGISTER (IY s) (HIGH_REGISTER (DE s))\<rparr>"

(* LD IYH,E *)
definition fd_63 :: "'w cpu \<Rightarrow> 'w cpu" where
  "fd_63 s = s\<lparr>IY := SET_HIGH_REGISTER (IY s) (LOW_REGISTER (DE s))\<rparr>"

(* LD IYH,IYH *)
definition fd_64 :: "'w cpu \<Rightarrow> 'w cpu" where
  "fd_64 s = s"

(* LD IYH,IYL *)
definition fd_65 :: "'w cpu \<Rightarrow> 'w cpu" where
  "fd_65 s = s\<lparr>IY := SET_HIGH_REGISTER (IY s) (LOW_REGISTER (IY s))\<rparr>"

(* LD H,(IY+dd) *)
definition fd_66 :: "'w cpu \<Rightarrow> 'w cpu" where
  "fd_66 s =
     (let v = GET_BYTE s (PC s);
          s = s\<lparr>PC := PC s + 1\<rparr>;
          adr = IY s + int8 v
      in s\<lparr>HL := SET_HIGH_REGISTER (HL s) (GET_BYTE s adr)\<rparr>)"

(* LD IYH,A *)
definition fd_67 :: "'w cpu \<Rightarrow> 'w cpu" where
  "fd_67 s = s\<lparr>IY := SET_HIGH_REGISTER (IY s) (HIGH_REGISTER (AF s))\<rparr>"

(* LD IYL,B *)
definition fd_68 :: "'w cpu \<Rightarrow> 'w cpu" where
  "fd_68 s = s\<lparr>IY := SET_LOW_REGISTER (IY s) (HIGH_REGISTER (BC s))\<rparr>"

(* LD IYL,C *)
definition fd_69 :: "'w cpu \<Rightarrow> 'w cpu" where
  "fd_69 s = s\<lparr>IY := SET_LOW_REGISTER (IY s) (LOW_REGISTER (BC s))\<rparr>"

(* LD IYL,D *)
definition fd_6a :: "'w cpu \<Rightarrow> 'w cpu" where
  "fd_6a s = s\<lparr>IY := SET_LOW_REGISTER (IY s) (HIGH_REGISTER (DE s))\<rparr>"

(* LD IYL,E *)
definition fd_6b :: "'w cpu \<Rightarrow> 'w cpu" where
  "fd_6b s = s\<lparr>IY := SET_LOW_REGISTER (IY s) (LOW_REGISTER (DE s))\<rparr>"

(* LD IYL,IYH *)
definition fd_6c :: "'w cpu \<Rightarrow> 'w cpu" where
  "fd_6c s = s\<lparr>IY := SET_LOW_REGISTER (IY s) (HIGH_REGISTER (IY s))\<rparr>"

(* LD IYL,IYL *)
definition fd_6d :: "'w cpu \<Rightarrow> 'w cpu" where
  "fd_6d s = s"

(* LD L,(IY+dd) *)
definition fd_6e :: "'w cpu \<Rightarrow> 'w cpu" where
  "fd_6e s =
     (let v = GET_BYTE s (PC s);
          s = s\<lparr>PC := PC s + 1\<rparr>;
          adr = IY s + int8 v
      in s\<lparr>HL := SET_LOW_REGISTER (HL s) (GET_BYTE s adr)\<rparr>)"

(* LD IYL,A *)
definition fd_6f :: "'w cpu \<Rightarrow> 'w cpu" where
  "fd_6f s = s\<lparr>IY := SET_LOW_REGISTER (IY s) (HIGH_REGISTER (AF s))\<rparr>"

(* LD (IY+dd),B *)
definition fd_70 :: "'w cpu \<Rightarrow> 'w cpu" where
  "fd_70 s =
     (let v = GET_BYTE s (PC s);
          s = s\<lparr>PC := PC s + 1\<rparr>;
          adr = IY s + int8 v
      in PUT_BYTE adr (HIGH_REGISTER (BC s)) s)"

(* LD (IY+dd),C *)
definition fd_71 :: "'w cpu \<Rightarrow> 'w cpu" where
  "fd_71 s =
     (let v = GET_BYTE s (PC s);
          s = s\<lparr>PC := PC s + 1\<rparr>;
          adr = IY s + int8 v
      in PUT_BYTE adr (LOW_REGISTER (BC s)) s)"

(* LD (IY+dd),D *)
definition fd_72 :: "'w cpu \<Rightarrow> 'w cpu" where
  "fd_72 s =
     (let v = GET_BYTE s (PC s);
          s = s\<lparr>PC := PC s + 1\<rparr>;
          adr = IY s + int8 v
      in PUT_BYTE adr (HIGH_REGISTER (DE s)) s)"

(* LD (IY+dd),E *)
definition fd_73 :: "'w cpu \<Rightarrow> 'w cpu" where
  "fd_73 s =
     (let v = GET_BYTE s (PC s);
          s = s\<lparr>PC := PC s + 1\<rparr>;
          adr = IY s + int8 v
      in PUT_BYTE adr (LOW_REGISTER (DE s)) s)"

(* LD (IY+dd),H *)
definition fd_74 :: "'w cpu \<Rightarrow> 'w cpu" where
  "fd_74 s =
     (let v = GET_BYTE s (PC s);
          s = s\<lparr>PC := PC s + 1\<rparr>;
          adr = IY s + int8 v
      in PUT_BYTE adr (HIGH_REGISTER (HL s)) s)"

(* LD (IY+dd),L *)
definition fd_75 :: "'w cpu \<Rightarrow> 'w cpu" where
  "fd_75 s =
     (let v = GET_BYTE s (PC s);
          s = s\<lparr>PC := PC s + 1\<rparr>;
          adr = IY s + int8 v
      in PUT_BYTE adr (LOW_REGISTER (HL s)) s)"

(* LD (IY+dd),A *)
definition fd_77 :: "'w cpu \<Rightarrow> 'w cpu" where
  "fd_77 s =
     (let v = GET_BYTE s (PC s);
          s = s\<lparr>PC := PC s + 1\<rparr>;
          adr = IY s + int8 v
      in PUT_BYTE adr (HIGH_REGISTER (AF s)) s)"

(* LD A,IYH *)
definition fd_7c :: "'w cpu \<Rightarrow> 'w cpu" where
  "fd_7c s = s\<lparr>AF := SET_HIGH_REGISTER (AF s) (HIGH_REGISTER (IY s))\<rparr>"

(* LD A,IYL *)
definition fd_7d :: "'w cpu \<Rightarrow> 'w cpu" where
  "fd_7d s = s\<lparr>AF := SET_HIGH_REGISTER (AF s) (LOW_REGISTER (IY s))\<rparr>"

(* LD A,(IY+dd) *)
definition fd_7e :: "'w cpu \<Rightarrow> 'w cpu" where
  "fd_7e s =
     (let v = GET_BYTE s (PC s);
          s = s\<lparr>PC := PC s + 1\<rparr>;
          adr = IY s + int8 v
      in s\<lparr>AF := SET_HIGH_REGISTER (AF s) (GET_BYTE s adr)\<rparr>)"

(* ADD A,IYH *)
definition fd_84 :: "'w cpu \<Rightarrow> 'w cpu" where
  "fd_84 s =
     (let temp = HIGH_REGISTER (IY s);
          acu = HIGH_REGISTER (AF s);
          sum = acu + temp
      in s\<lparr>AF := tbl addTable sum OR tbl cbitsZ80Table (acu XOR temp XOR sum)\<rparr>)"

(* ADD A,IYL *)
definition fd_85 :: "'w cpu \<Rightarrow> 'w cpu" where
  "fd_85 s =
     (let temp = LOW_REGISTER (IY s);
          acu = HIGH_REGISTER (AF s);
          sum = acu + temp
      in s\<lparr>AF := tbl addTable sum OR tbl cbitsZ80Table (acu XOR temp XOR sum)\<rparr>)"

(* ADD A,(IY+dd) *)
definition fd_86 :: "'w cpu \<Rightarrow> 'w cpu" where
  "fd_86 s =
     (let v = GET_BYTE s (PC s);
          s = s\<lparr>PC := PC s + 1\<rparr>;
          adr = IY s + int8 v;
          temp = GET_BYTE s adr;
          acu = HIGH_REGISTER (AF s);
          sum = acu + temp
      in s\<lparr>AF := tbl addTable sum OR tbl cbitsZ80Table (acu XOR temp XOR sum)\<rparr>)"

(* ADC A,IYH *)
definition fd_8c :: "'w cpu \<Rightarrow> 'w cpu" where
  "fd_8c s =
     (let temp = HIGH_REGISTER (IY s);
          acu = HIGH_REGISTER (AF s);
          sum = acu + temp + of_bool (TSTFLAG s FLAG_C)
      in s\<lparr>AF := tbl addTable sum OR tbl cbitsZ80Table (acu XOR temp XOR sum)\<rparr>)"

(* ADC A,IYL *)
definition fd_8d :: "'w cpu \<Rightarrow> 'w cpu" where
  "fd_8d s =
     (let temp = LOW_REGISTER (IY s);
          acu = HIGH_REGISTER (AF s);
          sum = acu + temp + of_bool (TSTFLAG s FLAG_C)
      in s\<lparr>AF := tbl addTable sum OR tbl cbitsZ80Table (acu XOR temp XOR sum)\<rparr>)"

(* ADC A,(IY+dd) *)
definition fd_8e :: "'w cpu \<Rightarrow> 'w cpu" where
  "fd_8e s =
     (let v = GET_BYTE s (PC s);
          s = s\<lparr>PC := PC s + 1\<rparr>;
          adr = IY s + int8 v;
          temp = GET_BYTE s adr;
          acu = HIGH_REGISTER (AF s);
          sum = acu + temp + of_bool (TSTFLAG s FLAG_C)
      in s\<lparr>AF := tbl addTable sum OR tbl cbitsZ80Table (acu XOR temp XOR sum)\<rparr>)"

(* SUB (IY+dd) *)
definition fd_96 :: "'w cpu \<Rightarrow> 'w cpu" where
  "fd_96 s =
     (let v = GET_BYTE s (PC s);
          s = s\<lparr>PC := PC s + 1\<rparr>;
          adr = IY s + int8 v;
          temp = GET_BYTE s adr;
          acu = HIGH_REGISTER (AF s);
          sum = acu - temp
      in s\<lparr>AF := tbl addTable (sum AND 0xff) OR
            tbl cbits2Z80Table ((acu XOR temp XOR sum) AND 0x1ff)\<rparr>)"

(* SBC A,IYH *)
definition fd_9c :: "'w cpu \<Rightarrow> 'w cpu" where
  "fd_9c s =
     (let temp = HIGH_REGISTER (IY s);
          acu = HIGH_REGISTER (AF s);
          sum = acu - temp - of_bool (TSTFLAG s FLAG_C)
      in s\<lparr>AF := tbl addTable (sum AND 0xff) OR
            tbl cbits2Z80Table ((acu XOR temp XOR sum) AND 0x1ff)\<rparr>)"

(* SUB IYH *)
definition fd_94 :: "'w cpu \<Rightarrow> 'w cpu" where
  "fd_94 s = fd_9c (SETFLAG FLAG_C False s)"

(* SBC A,IYL *)
definition fd_9d :: "'w cpu \<Rightarrow> 'w cpu" where
  "fd_9d s =
     (let temp = LOW_REGISTER (IY s);
          acu = HIGH_REGISTER (AF s);
          sum = acu - temp - of_bool (TSTFLAG s FLAG_C)
      in s\<lparr>AF := tbl addTable (sum AND 0xff) OR
            tbl cbits2Z80Table ((acu XOR temp XOR sum) AND 0x1ff)\<rparr>)"

(* SUB IYL *)
definition fd_95 :: "'w cpu \<Rightarrow> 'w cpu" where
  "fd_95 s = fd_9d (SETFLAG FLAG_C False s)"

(* SBC A,(IY+dd) *)
definition fd_9e :: "'w cpu \<Rightarrow> 'w cpu" where
  "fd_9e s =
     (let v = GET_BYTE s (PC s);
          s = s\<lparr>PC := PC s + 1\<rparr>;
          adr = IY s + int8 v;
          temp = GET_BYTE s adr;
          acu = HIGH_REGISTER (AF s);
          sum = acu - temp - of_bool (TSTFLAG s FLAG_C)
      in s\<lparr>AF := tbl addTable (sum AND 0xff) OR
            tbl cbits2Z80Table ((acu XOR temp XOR sum) AND 0x1ff)\<rparr>)"

(* AND IYH *)
definition fd_a4 :: "'w cpu \<Rightarrow> 'w cpu" where
  "fd_a4 s = s\<lparr>AF := tbl andTable (signed_drop_bit 8 (AF s AND IY s) AND 0xff)\<rparr>"

(* AND IYL *)
definition fd_a5 :: "'w cpu \<Rightarrow> 'w cpu" where
  "fd_a5 s = s\<lparr>AF := tbl andTable ((signed_drop_bit 8 (AF s) AND IY s) AND 0xff)\<rparr>"

(* AND (IY+dd) *)
definition fd_a6 :: "'w cpu \<Rightarrow> 'w cpu" where
  "fd_a6 s =
     (let v = GET_BYTE s (PC s);
          s = s\<lparr>PC := PC s + 1\<rparr>;
          adr = IY s + int8 v
      in s\<lparr>AF := tbl andTable ((signed_drop_bit 8 (AF s) AND GET_BYTE s adr) AND 0xff)\<rparr>)"

(* XOR IYH *)
definition fd_ac :: "'w cpu \<Rightarrow> 'w cpu" where
  "fd_ac s = s\<lparr>AF := tbl xororTable (signed_drop_bit 8 (AF s XOR IY s) AND 0xff)\<rparr>"

(* XOR IYL *)
definition fd_ad :: "'w cpu \<Rightarrow> 'w cpu" where
  "fd_ad s = s\<lparr>AF := tbl xororTable ((signed_drop_bit 8 (AF s) XOR IY s) AND 0xff)\<rparr>"

(* XOR (IY+dd) *)
definition fd_ae :: "'w cpu \<Rightarrow> 'w cpu" where
  "fd_ae s =
     (let v = GET_BYTE s (PC s);
          s = s\<lparr>PC := PC s + 1\<rparr>;
          adr = IY s + int8 v
      in s\<lparr>AF := tbl xororTable ((signed_drop_bit 8 (AF s) XOR GET_BYTE s adr) AND 0xff)\<rparr>)"

(* OR IYH *)
definition fd_b4 :: "'w cpu \<Rightarrow> 'w cpu" where
  "fd_b4 s = s\<lparr>AF := tbl xororTable (signed_drop_bit 8 (AF s OR IY s) AND 0xff)\<rparr>"

(* OR IYL *)
definition fd_b5 :: "'w cpu \<Rightarrow> 'w cpu" where
  "fd_b5 s = s\<lparr>AF := tbl xororTable ((signed_drop_bit 8 (AF s) OR IY s) AND 0xff)\<rparr>"

(* OR (IY+dd) *)
definition fd_b6 :: "'w cpu \<Rightarrow> 'w cpu" where
  "fd_b6 s =
     (let v = GET_BYTE s (PC s);
          s = s\<lparr>PC := PC s + 1\<rparr>;
          adr = IY s + int8 v
      in s\<lparr>AF := tbl xororTable ((signed_drop_bit 8 (AF s) OR
            GET_BYTE s adr) AND 0xff)\<rparr>)"

(* CP IYH *)
definition fd_bc :: "'w cpu \<Rightarrow> 'w cpu" where
  "fd_bc s =
     (let temp = HIGH_REGISTER (IY s);
          s = s\<lparr>AF := (AF s AND NOT 0x28) OR (temp AND 0x28)\<rparr>;
          acu = HIGH_REGISTER (AF s);
          sum = acu - temp
      in s\<lparr>AF := (AF s AND NOT 0xff) OR tbl cpTable (sum AND 0xff) OR (temp AND 0x28) OR
            tbl cbits2Z80Table ((acu XOR temp XOR sum) AND 0x1ff)\<rparr>)"

(* CP IYL *)
definition fd_bd :: "'w cpu \<Rightarrow> 'w cpu" where
  "fd_bd s =
     (let temp = LOW_REGISTER (IY s);
          s = s\<lparr>AF := (AF s AND NOT 0x28) OR (temp AND 0x28)\<rparr>;
          acu = HIGH_REGISTER (AF s);
          sum = acu - temp
      in s\<lparr>AF := (AF s AND NOT 0xff) OR tbl cpTable (sum AND 0xff) OR (temp AND 0x28) OR
            tbl cbits2Z80Table ((acu XOR temp XOR sum) AND 0x1ff)\<rparr>)"

(* CP (IY+dd) *)
definition fd_be :: "'w cpu \<Rightarrow> 'w cpu" where
  "fd_be s =
     (let v = GET_BYTE s (PC s);
          s = s\<lparr>PC := PC s + 1\<rparr>;
          adr = IY s + int8 v;
          temp = GET_BYTE s adr;
          s = s\<lparr>AF := (AF s AND NOT 0x28) OR (temp AND 0x28)\<rparr>;
          acu = HIGH_REGISTER (AF s);
          sum = acu - temp
      in s\<lparr>AF := (AF s AND NOT 0xff) OR tbl cpTable (sum AND 0xff) OR (temp AND 0x28) OR
            tbl cbits2Z80Table ((acu XOR temp XOR sum) AND 0x1ff)\<rparr>)"

(* POP IY *)
definition fd_e1 :: "'w cpu \<Rightarrow> 'w cpu" where
  "fd_e1 s =
     (let (x, s) = POP s
      in s\<lparr>IY := x\<rparr>)"

(* EX (SP),IY *)
definition fd_e3 :: "'w cpu \<Rightarrow> 'w cpu" where
  "fd_e3 s =
     (let temp = IY s;
          (x, s) = POP s;
          s = s\<lparr>IY := x\<rparr>
      in PUSH temp s)"

(* PUSH IY *)
definition fd_e5 :: "'w cpu \<Rightarrow> 'w cpu" where
  "fd_e5 s = PUSH (IY s) s"

(* JP (IY) *)
definition fd_e9 :: "'w cpu \<Rightarrow> 'w cpu" where
  "fd_e9 s = s\<lparr>PC := IY s\<rparr>"

(* LD SP,IY *)
definition fd_f9 :: "'w cpu \<Rightarrow> 'w cpu" where
  "fd_f9 s = s\<lparr>SP := IY s\<rparr>"

(* default: ignore the prefix *)
definition fd_default :: "'w cpu \<Rightarrow> 'w cpu" where
  "fd_default s = s\<lparr>PC := PC s - 1\<rparr>"

section \<open>Decoding\<close>

definition fd_ops :: "(u32 \<times> ('w cpu \<Rightarrow> 'w cpu)) list" where
  "fd_ops =
    [(0x09, fd_09), (0x19, fd_19), (0x21, fd_21), (0x22, fd_22), (0x23, fd_23), (0x24, fd_24),
     (0x25, fd_25), (0x26, fd_26), (0x29, fd_29), (0x2a, fd_2a), (0x2b, fd_2b), (0x2c, fd_2c),
     (0x2d, fd_2d), (0x2e, fd_2e), (0x34, fd_34), (0x35, fd_35), (0x36, fd_36), (0x39, fd_39),
     (0x44, fd_44), (0x45, fd_45), (0x46, fd_46), (0x4c, fd_4c), (0x4d, fd_4d), (0x4e, fd_4e),
     (0x54, fd_54), (0x55, fd_55), (0x56, fd_56), (0x5c, fd_5c), (0x5d, fd_5d), (0x5e, fd_5e),
     (0x60, fd_60), (0x61, fd_61), (0x62, fd_62), (0x63, fd_63), (0x64, fd_64), (0x65, fd_65),
     (0x66, fd_66), (0x67, fd_67), (0x68, fd_68), (0x69, fd_69), (0x6a, fd_6a), (0x6b, fd_6b),
     (0x6c, fd_6c), (0x6d, fd_6d), (0x6e, fd_6e), (0x6f, fd_6f), (0x70, fd_70), (0x71, fd_71),
     (0x72, fd_72), (0x73, fd_73), (0x74, fd_74), (0x75, fd_75), (0x77, fd_77), (0x7c, fd_7c),
     (0x7d, fd_7d), (0x7e, fd_7e), (0x84, fd_84), (0x85, fd_85), (0x86, fd_86), (0x8c, fd_8c),
     (0x8d, fd_8d), (0x8e, fd_8e), (0x94, fd_94), (0x95, fd_95), (0x96, fd_96), (0x9c, fd_9c),
     (0x9d, fd_9d), (0x9e, fd_9e), (0xa4, fd_a4), (0xa5, fd_a5), (0xa6, fd_a6), (0xac, fd_ac),
     (0xad, fd_ad), (0xae, fd_ae), (0xb4, fd_b4), (0xb5, fd_b5), (0xb6, fd_b6), (0xbc, fd_bc),
     (0xbd, fd_bd), (0xbe, fd_be), (0xcb, fd_cb), (0xe1, fd_e1), (0xe3, fd_e3), (0xe5, fd_e5),
     (0xe9, fd_e9), (0xf9, fd_f9)]"

definition op_fd :: "'w cpu \<Rightarrow> 'w cpu" where
  "op_fd s =
     (let s = INCR 1 s;
          v = GET_BYTE s (PC s);
          s = s\<lparr>PC := PC s + 1\<rparr>
      in (case map_of fd_ops v of Some f \<Rightarrow> f s | None \<Rightarrow> fd_default s))"

end
