(* ===== verification/Z80_ED.thy ===== *)
theory Z80_ED
  imports Z80_State Z80_Tables
begin

text \<open>
  The instructions with prefix \<open>ED\<close>: 16-bit arithmetic with carry, input and output, block
  transfers and searches.
\<close>

section \<open>Flags of the block transfers\<close>

definition INOUTFLAGS :: "u32 \<Rightarrow> u32 \<Rightarrow> u32 \<Rightarrow> u32 \<Rightarrow> 'w cpu \<Rightarrow> 'w cpu" where
  "INOUTFLAGS syxz acu temp x s =
     s\<lparr>AF := (AF s AND 0xff00) OR syxz OR drop_bit 6 (acu AND 0x80) OR
              (if 0xff < acu + x then FLAG_C OR FLAG_H else 0) OR
              tbl parityTable (((acu + x) AND 7) XOR temp)\<rparr>"

definition INOUTFLAGS_ZERO :: "u32 \<Rightarrow> u32 \<Rightarrow> u32 \<Rightarrow> 'w cpu \<Rightarrow> 'w cpu" where
  "INOUTFLAGS_ZERO acu temp x s = INOUTFLAGS FLAG_Z acu temp x s"

definition INOUTFLAGS_NONZERO :: "u32 \<Rightarrow> u32 \<Rightarrow> u32 \<Rightarrow> 'w cpu \<Rightarrow> 'w cpu" where
  "INOUTFLAGS_NONZERO acu temp x s =
     INOUTFLAGS ((HIGH_REGISTER (BC s) AND 0xa8) OR push_bit 6 (of_bool (HIGH_REGISTER (BC s) = 0))) acu temp x s"

section \<open>Single instructions\<close>

(* IN B,(C) *)
definition ed_40 :: "'w host \<Rightarrow> 'w cpu \<Rightarrow> 'w cpu" where
  "ed_40 h s =
     (let (v, s) = cpu_in h (LOW_REGISTER (BC s)) s;
          temp = v;
          s = s\<lparr>BC := SET_HIGH_REGISTER (BC s) temp\<rparr>
      in s\<lparr>AF := (AF s AND NOT 0xfe) OR tbl rotateShiftTable (temp AND 0xff)\<rparr>)"

(* OUT (C),B *)
definition ed_41 :: "'w host \<Rightarrow> 'w cpu \<Rightarrow> 'w cpu" where
  "ed_41 h s = cpu_out h (LOW_REGISTER (BC s)) (HIGH_REGISTER (BC s)) s"

(* SBC HL,BC *)
definition ed_42 :: "'w cpu \<Rightarrow> 'w cpu" where
  "ed_42 s =
     (let s = s\<lparr>HL := HL s AND ADDRMASK\<rparr>;
          s = s\<lparr>BC := BC s AND ADDRMASK\<rparr>;
          sum = HL s - BC s - of_bool (TSTFLAG s FLAG_C);
          s = s\<lparr>AF := (AF s AND NOT 0xff) OR (drop_bit 8 sum AND 0xa8) OR
            push_bit 6 (of_bool (sum AND ADDRMASK = 0)) OR
            tbl cbits2Z80Table (drop_bit 8 (HL s XOR BC s XOR sum) AND 0x1ff)\<rparr>
      in s\<lparr>HL := sum\<rparr>)"

(* LD (nnnn),BC *)
definition ed_43 :: "'w cpu \<Rightarrow> 'w cpu" where
  "ed_43 s =
     (let temp = GET_WORD s (PC s);
          s = PUT_WORD temp (BC s) s
      in s\<lparr>PC := PC s + 2\<rparr>)"

(* NEG *)
definition ed_44 :: "'w cpu \<Rightarrow> 'w cpu" where
  "ed_44 s =
     (let temp = HIGH_REGISTER (AF s);
          s = s\<lparr>AF := NOT (AF s AND 0xff00) + 1 AND 0xff00\<rparr>
      in s\<lparr>AF := AF s OR ((signed_drop_bit 8 (AF s) AND 0xa8) OR
            push_bit 6 (of_bool (AF s AND 0xff00 = 0)) OR tbl negTable temp)\<rparr>)"

(* RETN *)
definition ed_45 :: "'w cpu \<Rightarrow> 'w cpu" where
  "ed_45 s =
     (let s = s\<lparr>IFF := IFF s OR signed_drop_bit 1 (IFF s)\<rparr>;
          (x, s) = POP s
      in s\<lparr>PC := x\<rparr>)"

(* IM 0 *)
definition ed_46 :: "'w cpu \<Rightarrow> 'w cpu" where
  "ed_46 s = s"

(* LD I,A *)
definition ed_47 :: "'w cpu \<Rightarrow> 'w cpu" where
  "ed_47 s = s\<lparr>IR := (IR s AND 0xff) OR (AF s AND NOT 0xff)\<rparr>"

(* IN C,(C) *)
definition ed_48 :: "'w host \<Rightarrow> 'w cpu \<Rightarrow> 'w cpu" where
  "ed_48 h s =
     (let (v, s) = cpu_in h (LOW_REGISTER (BC s)) s;
          temp = v;
          s = s\<lparr>BC := SET_LOW_REGISTER (BC s) temp\<rparr>
      in s\<lparr>AF := (AF s AND NOT 0xfe) OR tbl rotateShiftTable (temp AND 0xff)\<rparr>)"

(* OUT (C),C *)
definition ed_49 :: "'w host \<Rightarrow> 'w cpu \<Rightarrow> 'w cpu" where
  "ed_49 h s = cpu_out h (LOW_REGISTER (BC s)) (LOW_REGISTER (BC s)) s"

(* ADC HL,BC *)
definition ed_4a :: "'w cpu \<Rightarrow> 'w cpu" where
  "ed_4a s =
     (let s = s\<lparr>HL := HL s AND ADDRMASK\<rparr>;
          s = s\<lparr>BC := BC s AND ADDRMASK\<rparr>;
          sum = HL s + BC s + of_bool (TSTFLAG s FLAG_C);
          s = s\<lparr>AF := (AF s AND NOT 0xff) OR (drop_bit 8 sum AND 0xa8) OR
            push_bit 6 (of_bool (sum AND ADDRMASK = 0)) OR
            tbl cbitsZ80Table (drop_bit 8 (HL s XOR BC s XOR sum))\<rparr>
      in s\<lparr>HL := sum\<rparr>)"

(* LD BC,(nnnn) *)
definition ed_4b :: "'w cpu \<Rightarrow> 'w cpu" where
  "ed_4b s =
     (let temp = GET_WORD s (PC s);
          s = s\<lparr>BC := GET_WORD s temp\<rparr>
      in s\<lparr>PC := PC s + 2\<rparr>)"

(* RETI *)
definition ed_4d :: "'w cpu \<Rightarrow> 'w cpu" where
  "ed_4d s =
     (let s = s\<lparr>IFF := IFF s OR signed_drop_bit 1 (IFF s)\<rparr>;
          (x, s) = POP s
      in s\<lparr>PC := x\<rparr>)"

(* LD R,A *)
definition ed_4f :: "'w cpu \<Rightarrow> 'w cpu" where
  "ed_4f s = s\<lparr>IR := (IR s AND NOT 0xff) OR (signed_drop_bit 8 (AF s) AND 0xff)\<rparr>"

(* IN D,(C) *)
definition ed_50 :: "'w host \<Rightarrow> 'w cpu \<Rightarrow> 'w cpu" where
  "ed_50 h s =
     (let (v, s) = cpu_in h (LOW_REGISTER (BC s)) s;
          temp = v;
          s = s\<lparr>DE := SET_HIGH_REGISTER (DE s) temp\<rparr>
      in s\<lparr>AF := (AF s AND NOT 0xfe) OR tbl rotateShiftTable (temp AND 0xff)\<rparr>)"

(* OUT (C),D *)
definition ed_51 :: "'w host \<Rightarrow> 'w cpu \<Rightarrow> 'w cpu" where
  "ed_51 h s = cpu_out h (LOW_REGISTER (BC s)) (HIGH_REGISTER (DE s)) s"

(* SBC HL,DE *)
definition ed_52 :: "'w cpu \<Rightarrow> 'w cpu" where
  "ed_52 s =
     (let s = s\<lparr>HL := HL s AND ADDRMASK\<rparr>;
          s = s\<lparr>DE := DE s AND ADDRMASK\<rparr>;
          sum = HL s - DE s - of_bool (TSTFLAG s FLAG_C);
          s = s\<lparr>AF := (AF s AND NOT 0xff) OR (drop_bit 8 sum AND 0xa8) OR
            push_bit 6 (of_bool (sum AND ADDRMASK = 0)) OR
            tbl cbits2Z80Table (drop_bit 8 (HL s XOR DE s XOR sum) AND 0x1ff)\<rparr>
      in s\<lparr>HL := sum\<rparr>)"

(* LD (nnnn),DE *)
definition ed_53 :: "'w cpu \<Rightarrow> 'w cpu" where
  "ed_53 s =
     (let temp = GET_WORD s (PC s);
          s = PUT_WORD temp (DE s) s
      in s\<lparr>PC := PC s + 2\<rparr>)"

(* IM 1 *)
definition ed_56 :: "'w cpu \<Rightarrow> 'w cpu" where
  "ed_56 s = s"

(* LD A,I *)
definition ed_57 :: "'w cpu \<Rightarrow> 'w cpu" where
  "ed_57 s =
     s\<lparr>AF := (AF s AND 0x29) OR (IR s AND NOT 0xff) OR
            (signed_drop_bit 8 (IR s) AND 0x80) OR
            push_bit 6 (of_bool (IR s AND NOT 0xff = 0)) OR
            push_bit 1 (IFF s AND 2)\<rparr>"

(* IN E,(C) *)
definition ed_58 :: "'w host \<Rightarrow> 'w cpu \<Rightarrow> 'w cpu" where
  "ed_58 h s =
     (let (v, s) = cpu_in h (LOW_REGISTER (BC s)) s;
          temp = v;
          s = s\<lparr>DE := SET_LOW_REGISTER (DE s) temp\<rparr>
      in s\<lparr>AF := (AF s AND NOT 0xfe) OR tbl rotateShiftTable (temp AND 0xff)\<rparr>)"

(* OUT (C),E *)
definition ed_59 :: "'w host \<Rightarrow> 'w cpu \<Rightarrow> 'w cpu" where
  "ed_59 h s = cpu_out h (LOW_REGISTER (BC s)) (LOW_REGISTER (DE s)) s"

(* ADC HL,DE *)
definition ed_5a :: "'w cpu \<Rightarrow> 'w cpu" where
  "ed_5a s =
     (let s = s\<lparr>HL := HL s AND ADDRMASK\<rparr>;
          s = s\<lparr>DE := DE s AND ADDRMASK\<rparr>;
          sum = HL s + DE s + of_bool (TSTFLAG s FLAG_C);
          s = s\<lparr>AF := (AF s AND NOT 0xff) OR (drop_bit 8 sum AND 0xa8) OR
            push_bit 6 (of_bool (sum AND ADDRMASK = 0)) OR
            tbl cbitsZ80Table (drop_bit 8 (HL s XOR DE s XOR sum))\<rparr>
      in s\<lparr>HL := sum\<rparr>)"

(* LD DE,(nnnn) *)
definition ed_5b :: "'w cpu \<Rightarrow> 'w cpu" where
  "ed_5b s =
     (let temp = GET_WORD s (PC s);
          s = s\<lparr>DE := GET_WORD s temp\<rparr>
      in s\<lparr>PC := PC s + 2\<rparr>)"

(* IM 2 *)
definition ed_5e :: "'w cpu \<Rightarrow> 'w cpu" where
  "ed_5e s = s"

(* LD A,R *)
definition ed_5f :: "'w cpu \<Rightarrow> 'w cpu" where
  "ed_5f s =
     s\<lparr>AF := (AF s AND 0x29) OR push_bit 8 (IR s AND 0xff) OR (IR s AND 0x80) OR
            push_bit 6 (of_bool (IR s AND 0xff = 0)) OR
            push_bit 1 (IFF s AND 2)\<rparr>"

(* IN H,(C) *)
definition ed_60 :: "'w host \<Rightarrow> 'w cpu \<Rightarrow> 'w cpu" where
  "ed_60 h s =
     (let (v, s) = cpu_in h (LOW_REGISTER (BC s)) s;
          temp = v;
          s = s\<lparr>HL := SET_HIGH_REGISTER (HL s) temp\<rparr>
      in s\<lparr>AF := (AF s AND NOT 0xfe) OR tbl rotateShiftTable (temp AND 0xff)\<rparr>)"

(* OUT (C),H *)
definition ed_61 :: "'w host \<Rightarrow> 'w cpu \<Rightarrow> 'w cpu" where
  "ed_61 h s = cpu_out h (LOW_REGISTER (BC s)) (HIGH_REGISTER (HL s)) s"

(* SBC HL,HL *)
definition ed_62 :: "'w cpu \<Rightarrow> 'w cpu" where
  "ed_62 s =
     (let s = s\<lparr>HL := HL s AND ADDRMASK\<rparr>;
          sum = HL s - HL s - of_bool (TSTFLAG s FLAG_C);
          s = s\<lparr>AF := (AF s AND NOT 0xff) OR
            push_bit 6 (of_bool (sum AND ADDRMASK = 0)) OR
            tbl cbits2Z80DupTable (drop_bit 8 sum AND 0x1ff)\<rparr>
      in s\<lparr>HL := sum\<rparr>)"

(* LD (nnnn),HL *)
definition ed_63 :: "'w cpu \<Rightarrow> 'w cpu" where
  "ed_63 s =
     (let temp = GET_WORD s (PC s);
          s = PUT_WORD temp (HL s) s
      in s\<lparr>PC := PC s + 2\<rparr>)"

(* RRD *)
definition ed_67 :: "'w cpu \<Rightarrow> 'w cpu" where
  "ed_67 s =
     (let temp = GET_BYTE s (HL s);
          acu = HIGH_REGISTER (AF s);
          s = PUT_BYTE (HL s) (HIGH_DIGIT temp OR push_bit 4 (LOW_DIGIT acu)) s
      in s\<lparr>AF := tbl rrdrldTable ((acu AND 0xf0) OR LOW_DIGIT temp) OR (AF s AND 1)\<rparr>)"

(* IN L,(C) *)
definition ed_68 :: "'w host \<Rightarrow> 'w cpu \<Rightarrow> 'w cpu" where
  "ed_68 h s =
     (let (v, s) = cpu_in h (LOW_REGISTER (BC s)) s;
          temp = v;
          s = s\<lparr>HL := SET_LOW_REGISTER (HL s) temp\<rparr>
      in s\<lparr>AF := (AF s AND NOT 0xfe) OR tbl rotateShiftTable (temp AND 0xff)\<rparr>)"

(* OUT (C),L *)
definition ed_69 :: "'w host \<Rightarrow> 'w cpu \<Rightarrow> 'w cpu" where
  "ed_69 h s = cpu_out h (LOW_REGISTER (BC s)) (LOW_REGISTER (HL s)) s"

(* ADC HL,HL *)
definition ed_6a :: "'w cpu \<Rightarrow> 'w cpu" where
  "ed_6a s =
     (let s = s\<lparr>HL := HL s AND ADDRMASK\<rparr>;
          sum = HL s + HL s + of_bool (TSTFLAG s FLAG_C);
          s = s\<lparr>AF := (AF s AND NOT 0xff) OR
            push_bit 6 (of_bool (sum AND ADDRMASK = 0)) OR
            tbl cbitsZ80DupTable (drop_bit 8 sum)\<rparr>
      in s\<lparr>HL := sum\<rparr>)"

(* LD HL,(nnnn) *)
definition ed_6b :: "'w cpu \<Rightarrow> 'w cpu" where
  "ed_6b s =
     (let temp = GET_WORD s (PC s);
          s = s\<lparr>HL := GET_WORD s temp\<rparr>
      in s\<lparr>PC := PC s + 2\<rparr>)"

(* RLD *)
definition ed_6f :: "'w cpu \<Rightarrow> 'w cpu" where
  "ed_6f s =
     (let temp = GET_BYTE s (HL s);
          acu = HIGH_REGISTER (AF s);
          s = PUT_BYTE (HL s) (push_bit 4 (LOW_DIGIT temp) OR LOW_DIGIT acu) s
      in s\<lparr>AF := tbl rrdrldTable ((acu AND 0xf0) OR HIGH_DIGIT temp) OR (AF s AND 1)\<rparr>)"

(* IN (C) *)
definition ed_70 :: "'w host \<Rightarrow> 'w cpu \<Rightarrow> 'w cpu" where
  "ed_70 h s =
     (let (v, s) = cpu_in h (LOW_REGISTER (BC s)) s;
          temp = v;
          temp = SET_LOW_REGISTER temp temp
      in s\<lparr>AF := (AF s AND NOT 0xfe) OR tbl rotateShiftTable (temp AND 0xff)\<rparr>)"

(* OUT (C),0 *)
definition ed_71 :: "'w host \<Rightarrow> 'w cpu \<Rightarrow> 'w cpu" where
  "ed_71 h s = cpu_out h (LOW_REGISTER (BC s)) 0 s"

(* SBC HL,SP *)
definition ed_72 :: "'w cpu \<Rightarrow> 'w cpu" where
  "ed_72 s =
     (let s = s\<lparr>HL := HL s AND ADDRMASK\<rparr>;
          s = s\<lparr>SP := SP s AND ADDRMASK\<rparr>;
          sum = HL s - SP s - of_bool (TSTFLAG s FLAG_C);
          s = s\<lparr>AF := (AF s AND NOT 0xff) OR (drop_bit 8 sum AND 0xa8) OR
            push_bit 6 (of_bool (sum AND ADDRMASK = 0)) OR
            tbl cbits2Z80Table (drop_bit 8 (HL s XOR SP s XOR sum) AND 0x1ff)\<rparr>
      in s\<lparr>HL := sum\<rparr>)"

(* LD (nnnn),SP *)
definition ed_73 :: "'w cpu \<Rightarrow> 'w cpu" where
  "ed_73 s =
     (let temp = GET_WORD s (PC s);
          s = PUT_WORD temp (SP s) s
      in s\<lparr>PC := PC s + 2\<rparr>)"

(* IN A,(C) *)
definition ed_78 :: "'w host \<Rightarrow> 'w cpu \<Rightarrow> 'w cpu" where
  "ed_78 h s =
     (let (v, s) = cpu_in h (LOW_REGISTER (BC s)) s;
          temp = v;
          s = s\<lparr>AF := SET_HIGH_REGISTER (AF s) temp\<rparr>
      in s\<lparr>AF := (AF s AND NOT 0xfe) OR tbl rotateShiftTable (temp AND 0xff)\<rparr>)"

(* OUT (C),A *)
definition ed_79 :: "'w host \<Rightarrow> 'w cpu \<Rightarrow> 'w cpu" where
  "ed_79 h s = cpu_out h (LOW_REGISTER (BC s)) (HIGH_REGISTER (AF s)) s"

(* ADC HL,SP *)
definition ed_7a :: "'w cpu \<Rightarrow> 'w cpu" where
  "ed_7a s =
     (let s = s\<lparr>HL := HL s AND ADDRMASK\<rparr>;
          s = s\<lparr>SP := SP s AND ADDRMASK\<rparr>;
          sum = HL s + SP s + of_bool (TSTFLAG s FLAG_C);
          s = s\<lparr>AF := (AF s AND NOT 0xff) OR (drop_bit 8 sum AND 0xa8) OR
            push_bit 6 (of_bool (sum AND ADDRMASK = 0)) OR
            tbl cbitsZ80Table (drop_bit 8 (HL s XOR SP s XOR sum))\<rparr>
      in s\<lparr>HL := sum\<rparr>)"

(* LD SP,(nnnn) *)
definition ed_7b :: "'w cpu \<Rightarrow> 'w cpu" where
  "ed_7b s =
     (let temp = GET_WORD s (PC s);
          s = s\<lparr>SP := GET_WORD s temp\<rparr>
      in s\<lparr>PC := PC s + 2\<rparr>)"

(* LDI *)
definition ed_a0 :: "'w cpu \<Rightarrow> 'w cpu" where
  "ed_a0 s =
     (let v = GET_BYTE s (HL s);
          s = s\<lparr>HL := HL s + 1\<rparr>;
          acu = v;
          s = PUT_BYTE (DE s) acu s;
          s = s\<lparr>DE := DE s + 1\<rparr>;
          acu = acu + HIGH_REGISTER (AF s);
          s = s\<lparr>BC := BC s - 1\<rparr>
      in s\<lparr>AF := (AF s AND NOT 0x3e) OR (acu AND 8) OR push_bit 4 (acu AND 2) OR
            push_bit 2 (of_bool (BC s AND ADDRMASK \<noteq> 0))\<rparr>)"

(* CPI *)
definition ed_a1 :: "'w cpu \<Rightarrow> 'w cpu" where
  "ed_a1 s =
     (let acu = HIGH_REGISTER (AF s);
          v = GET_BYTE s (HL s);
          s = s\<lparr>HL := HL s + 1\<rparr>;
          temp = v;
          sum = acu - temp;
          cbits = acu XOR temp XOR sum;
          s = s\<lparr>BC := BC s - 1\<rparr>;
          s = s\<lparr>AF := (AF s AND NOT 0xfe) OR (sum AND 0x80) OR
            push_bit 6 (of_bool (sum AND 0xff = 0)) OR
            push_bit 4 (sum - drop_bit 4 (cbits AND 16) AND 2) OR (cbits AND 16) OR
            (sum - (drop_bit 4 cbits AND 1) AND 8) OR
            push_bit 2 (of_bool (BC s AND ADDRMASK \<noteq> 0)) OR 2\<rparr>
      in (if sum AND 15 = 8 \<and> cbits AND 16 \<noteq> 0 then s\<lparr>AF := AF s AND NOT 8\<rparr> else s))"

(* INI *)
definition ed_a2 :: "'w host \<Rightarrow> 'w cpu \<Rightarrow> 'w cpu" where
  "ed_a2 h s =
     (let (v, s) = cpu_in h (LOW_REGISTER (BC s)) s;
          acu = v;
          s = PUT_BYTE (HL s) acu s;
          s = s\<lparr>HL := HL s + 1\<rparr>;
          temp = HIGH_REGISTER (BC s);
          s = s\<lparr>BC := BC s - 0x100\<rparr>
      in INOUTFLAGS_NONZERO acu temp (LOW_REGISTER (BC s) + 1 AND 0xff) s)"

(* OUTI *)
definition ed_a3 :: "'w host \<Rightarrow> 'w cpu \<Rightarrow> 'w cpu" where
  "ed_a3 h s =
     (let acu = GET_BYTE s (HL s);
          s = cpu_out h (LOW_REGISTER (BC s)) acu s;
          s = s\<lparr>HL := HL s + 1\<rparr>;
          temp = HIGH_REGISTER (BC s);
          s = s\<lparr>BC := BC s - 0x100\<rparr>
      in INOUTFLAGS_NONZERO acu temp (LOW_REGISTER (HL s)) s)"

(* LDD *)
definition ed_a8 :: "'w cpu \<Rightarrow> 'w cpu" where
  "ed_a8 s =
     (let v = GET_BYTE s (HL s);
          s = s\<lparr>HL := HL s - 1\<rparr>;
          acu = v;
          s = PUT_BYTE (DE s) acu s;
          s = s\<lparr>DE := DE s - 1\<rparr>;
          acu = acu + HIGH_REGISTER (AF s);
          s = s\<lparr>BC := BC s - 1\<rparr>
      in s\<lparr>AF := (AF s AND NOT 0x3e) OR (acu AND 8) OR push_bit 4 (acu AND 2) OR
            push_bit 2 (of_bool (BC s AND ADDRMASK \<noteq> 0))\<rparr>)"

(* CPD *)
definition ed_a9 :: "'w cpu \<Rightarrow> 'w cpu" where
  "ed_a9 s =
     (let acu = HIGH_REGISTER (AF s);
          v = GET_BYTE s (HL s);
          s = s\<lparr>HL := HL s - 1\<rparr>;
          temp = v;
          sum = acu - temp;
          cbits = acu XOR temp XOR sum;
          s = s\<lparr>BC := BC s - 1\<rparr>;
          s = s\<lparr>AF := (AF s AND NOT 0xfe) OR (sum AND 0x80) OR
            push_bit 6 (of_bool (sum AND 0xff = 0)) OR
            push_bit 4 (sum - drop_bit 4 (cbits AND 16) AND 2) OR (cbits AND 16) OR
            (sum - (drop_bit 4 cbits AND 1) AND 8) OR
            push_bit 2 (of_bool (BC s AND ADDRMASK \<noteq> 0)) OR 2\<rparr>
      in (if sum AND 15 = 8 \<and> cbits AND 16 \<noteq> 0 then s\<lparr>AF := AF s AND NOT 8\<rparr> else s))"

(* IND *)
definition ed_aa :: "'w host \<Rightarrow> 'w cpu \<Rightarrow> 'w cpu" where
  "ed_aa h s =
     (let (v, s) = cpu_in h (LOW_REGISTER (BC s)) s;
          acu = v;
          s = PUT_BYTE (HL s) acu s;
          s = s\<lparr>HL := HL s - 1\<rparr>;
          temp = HIGH_REGISTER (BC s);
          s = s\<lparr>BC := BC s - 0x100\<rparr>
      in INOUTFLAGS_NONZERO acu temp (LOW_REGISTER (BC s) - 1 AND 0xff) s)"

(* OUTD *)
definition ed_ab :: "'w host \<Rightarrow> 'w cpu \<Rightarrow> 'w cpu" where
  "ed_ab h s =
     (let acu = GET_BYTE s (HL s);
          s = cpu_out h (LOW_REGISTER (BC s)) acu s;
          s = s\<lparr>HL := HL s - 1\<rparr>;
          temp = HIGH_REGISTER (BC s);
          s = s\<lparr>BC := BC s - 0x100\<rparr>
      in INOUTFLAGS_NONZERO acu temp (LOW_REGISTER (HL s)) s)"

section \<open>Block transfers\<close>

lemma BC_frame [simp]:
  "BC (INCR n s) = BC s" "BC (RamWrite a v s) = BC s" "BC (PUT_BYTE a v s) = BC s"
  by (simp_all add: INCR_def RamWrite_def PUT_BYTE_def)

lemma countdown: "(x::u32) \<noteq> 1 \<Longrightarrow> unat (x - 2) < unat (x - 1)"
  using unat_gt_0 [of "x - 1"] unat_minus_one [of "x - 1"] by simp

text \<open>\<open>step\<close> is 1 for the instructions that move up and -1 for those that move down.\<close>

function ldir_loop :: "u32 \<Rightarrow> 'w cpu \<Rightarrow> u32 \<times> 'w cpu" where
  "ldir_loop step s =
     (let s = INCR 2 s;
          acu = GET_BYTE s (HL s);
          s = s\<lparr>HL := HL s + step\<rparr>;
          s = PUT_BYTE (DE s) acu s;
          s = s\<lparr>DE := DE s + step\<rparr>;
          s = s\<lparr>BC := BC s - 1\<rparr>
      in if BC s \<noteq> 0 then ldir_loop step s else (acu, s))"
  by auto
termination
  by (relation "measure (\<lambda>(step, s). unat (BC s - 1))") (auto simp: Let_def intro: countdown)

definition block_count :: "'w cpu \<Rightarrow> 'w cpu" where
  "block_count s =
     (let s = s\<lparr>BC := BC s AND ADDRMASK\<rparr> in if BC s = 0 then s\<lparr>BC := 0x10000\<rparr> else s)"

definition ed_b0 :: "'w cpu \<Rightarrow> 'w cpu" where
  "ed_b0 s =
     (let (acu, s) = ldir_loop 1 (block_count s);
          acu = acu + HIGH_REGISTER (AF s)
      in s\<lparr>AF := (AF s AND NOT 0x3e) OR (acu AND 8) OR push_bit 4 (acu AND 2)\<rparr>)"

definition ed_b8 :: "'w cpu \<Rightarrow> 'w cpu" where
  "ed_b8 s =
     (let (acu, s) = ldir_loop (- 1) (block_count s);
          acu = acu + HIGH_REGISTER (AF s)
      in s\<lparr>AF := (AF s AND NOT 0x3e) OR (acu AND 8) OR push_bit 4 (acu AND 2)\<rparr>)"

function cpir_loop :: "u32 \<Rightarrow> u32 \<Rightarrow> 'w cpu \<Rightarrow> u32 \<times> u32 \<times> u32 \<times> 'w cpu" where
  "cpir_loop step acu s =
     (let s = INCR 1 s;
          temp = GET_BYTE s (HL s);
          s = s\<lparr>HL := HL s + step\<rparr>;
          s = s\<lparr>BC := BC s - 1\<rparr>;
          opc = of_bool (BC s \<noteq> 0);
          sum = acu - temp
      in if opc \<noteq> 0 \<and> sum \<noteq> 0 then cpir_loop step acu s else (temp, opc, sum, s))"
  by auto
termination
  by (relation "measure (\<lambda>(step, acu, s). unat (BC s - 1))") (auto simp: Let_def intro: countdown)

definition cpir_flags :: "u32 \<Rightarrow> u32 \<Rightarrow> u32 \<Rightarrow> u32 \<Rightarrow> 'w cpu \<Rightarrow> 'w cpu" where
  "cpir_flags acu temp opc sum32 s =
     (let cbits = acu XOR temp XOR sum32;
          s = s\<lparr>AF := (AF s AND NOT 0xfe) OR (sum32 AND 0x80) OR push_bit 6 (of_bool (sum32 AND 0xff = 0)) OR
                push_bit 4 ((sum32 - drop_bit 4 (cbits AND 16)) AND 2) OR
                (cbits AND 16) OR ((sum32 - (drop_bit 4 cbits AND 1)) AND 8) OR
                push_bit 2 opc OR 2\<rparr>
      in if sum32 AND 15 = 8 \<and> cbits AND 16 \<noteq> 0 then s\<lparr>AF := AF s AND NOT 8\<rparr> else s)"

definition ed_b1 :: "'w cpu \<Rightarrow> 'w cpu" where
  "ed_b1 s =
     (let acu = HIGH_REGISTER (AF s);
          (temp, opc, sum, s) = cpir_loop 1 acu (block_count s)
      in cpir_flags acu temp opc sum s)"

definition ed_b9 :: "'w cpu \<Rightarrow> 'w cpu" where
  "ed_b9 s =
     (let acu = HIGH_REGISTER (AF s);
          (temp, opc, sum, s) = cpir_loop (- 1) acu (block_count s)
      in cpir_flags acu temp opc sum s)"

function inir_loop :: "'w host \<Rightarrow> u32 \<Rightarrow> u32 \<Rightarrow> 'w cpu \<Rightarrow> u32 \<times> 'w cpu" where
  "inir_loop h step temp s =
     (let s = INCR 1 s;
          (acu, s) = cpu_in h (LOW_REGISTER (BC s)) s;
          s = PUT_BYTE (HL s) acu s;
          s = s\<lparr>HL := HL s + step\<rparr>;
          temp = temp - 1
      in if temp \<noteq> 0 then inir_loop h step temp s else (acu, s))"
  by auto
termination
  by (relation "measure (\<lambda>(h, step, temp, s). unat (temp - 1))") (auto simp: Let_def intro: countdown)

function otir_loop :: "'w host \<Rightarrow> u32 \<Rightarrow> u32 \<Rightarrow> 'w cpu \<Rightarrow> u32 \<times> 'w cpu" where
  "otir_loop h step temp s =
     (let s = INCR 1 s;
          acu = GET_BYTE s (HL s);
          s = cpu_out h (LOW_REGISTER (BC s)) acu s;
          s = s\<lparr>HL := HL s + step\<rparr>;
          temp = temp - 1
      in if temp \<noteq> 0 then otir_loop h step temp s else (acu, s))"
  by auto
termination
  by (relation "measure (\<lambda>(h, step, temp, s). unat (temp - 1))") (auto simp: Let_def intro: countdown)

declare ldir_loop.simps [simp del] cpir_loop.simps [simp del] inir_loop.simps [simp del]
  otir_loop.simps [simp del]

definition io_count :: "'w cpu \<Rightarrow> u32" where
  "io_count s = (let temp = HIGH_REGISTER (BC s) in if temp = 0 then 0x100 else temp)"

definition ed_b2 :: "'w host \<Rightarrow> 'w cpu \<Rightarrow> 'w cpu" where
  "ed_b2 h s =
     (let (acu, s) = inir_loop h 1 (io_count s) s;
          temp = HIGH_REGISTER (BC s);
          s = s\<lparr>BC := SET_HIGH_REGISTER (BC s) 0\<rparr>
      in INOUTFLAGS_ZERO acu temp ((LOW_REGISTER (BC s) + 1) AND 0xff) s)"

definition ed_ba :: "'w host \<Rightarrow> 'w cpu \<Rightarrow> 'w cpu" where
  "ed_ba h s =
     (let (acu, s) = inir_loop h (- 1) (io_count s) s;
          temp = HIGH_REGISTER (BC s);
          s = s\<lparr>BC := SET_HIGH_REGISTER (BC s) 0\<rparr>
      in INOUTFLAGS_ZERO acu temp ((LOW_REGISTER (BC s) - 1) AND 0xff) s)"

definition ed_b3 :: "'w host \<Rightarrow> 'w cpu \<Rightarrow> 'w cpu" where
  "ed_b3 h s =
     (let (acu, s) = otir_loop h 1 (io_count s) s;
          temp = HIGH_REGISTER (BC s);
          s = s\<lparr>BC := SET_HIGH_REGISTER (BC s) 0\<rparr>
      in INOUTFLAGS_ZERO acu temp (LOW_REGISTER (HL s)) s)"

definition ed_bb :: "'w host \<Rightarrow> 'w cpu \<Rightarrow> 'w cpu" where
  "ed_bb h s =
     (let (acu, s) = otir_loop h (- 1) (io_count s) s;
          temp = HIGH_REGISTER (BC s);
          s = s\<lparr>BC := SET_HIGH_REGISTER (BC s) 0\<rparr>
      in INOUTFLAGS_ZERO acu temp (LOW_REGISTER (HL s)) s)"

section \<open>Decoding\<close>

definition ed_ops :: "'w host \<Rightarrow> (u32 \<times> ('w cpu \<Rightarrow> 'w cpu)) list" where
  "ed_ops h =
    [(0x40, ed_40 h), (0x41, ed_41 h), (0x42, ed_42), (0x43, ed_43), (0x44, ed_44), (0x45, ed_45),
     (0x46, ed_46), (0x47, ed_47), (0x48, ed_48 h), (0x49, ed_49 h), (0x4a, ed_4a), (0x4b, ed_4b),
     (0x4c, ed_44), (0x4d, ed_4d), (0x4f, ed_4f), (0x50, ed_50 h), (0x51, ed_51 h), (0x52, ed_52),
     (0x53, ed_53), (0x54, ed_44), (0x55, ed_45), (0x56, ed_56), (0x57, ed_57), (0x58, ed_58 h),
     (0x59, ed_59 h), (0x5a, ed_5a), (0x5b, ed_5b), (0x5c, ed_44), (0x5d, ed_45), (0x5e, ed_5e),
     (0x5f, ed_5f), (0x60, ed_60 h), (0x61, ed_61 h), (0x62, ed_62), (0x63, ed_63), (0x64, ed_44),
     (0x65, ed_45), (0x67, ed_67), (0x68, ed_68 h), (0x69, ed_69 h), (0x6a, ed_6a), (0x6b, ed_6b),
     (0x6c, ed_44), (0x6d, ed_45), (0x6f, ed_6f), (0x70, ed_70 h), (0x71, ed_71 h), (0x72, ed_72),
     (0x73, ed_73), (0x74, ed_44), (0x75, ed_45), (0x78, ed_78 h), (0x79, ed_79 h), (0x7a, ed_7a),
     (0x7b, ed_7b), (0x7c, ed_44), (0x7d, ed_45), (0xa0, ed_a0), (0xa1, ed_a1), (0xa2, ed_a2 h),
     (0xa3, ed_a3 h), (0xa8, ed_a8), (0xa9, ed_a9), (0xaa, ed_aa h), (0xab, ed_ab h), (0xb0, ed_b0),
     (0xb1, ed_b1), (0xb2, ed_b2 h), (0xb3, ed_b3 h), (0xb8, ed_b8), (0xb9, ed_b9), (0xba, ed_ba h),
     (0xbb, ed_bb h)]"

definition op_ed :: "'w host \<Rightarrow> 'w cpu \<Rightarrow> 'w cpu" where
  "op_ed h s =
     (let s = INCR 1 s;
          v = GET_BYTE s (PC s);
          s = s\<lparr>PC := PC s + 1\<rparr>
      in (case map_of (ed_ops h) v of Some f \<Rightarrow> f s | None \<Rightarrow> s))"

end
