(* ===== verification/Z80_Spec.thy ===== *)
theory Z80_Spec
  imports Fuji_Prelude
begin

text \<open>
  A Z80 as its data sheet describes it: 16-bit registers, a memory of 65536 bytes whose addresses wrap,
  and instructions decoded by the fields of the opcode, so that one clause serves every register. The
  flags are defined by arithmetic on the operands (carries, signed overflow, parity). This is what the
  emulator of \<open>src/lib/runcpm/cpu.h\<close>, with its 32-bit registers, tables and one case per opcode, is
  compared with. Prefixed opcodes and input and output are not part of \<open>exec\<close>.
\<close>

record z80 =
  rAF :: u16
  rBC :: u16
  rDE :: u16
  rHL :: u16
  rPC :: u16
  rSP :: u16
  rAF1 :: u16
  rBC1 :: u16
  rDE1 :: u16
  rHL1 :: u16
  rIFF :: u32
  mem :: "u16 \<Rightarrow> byte"

section \<open>Halves\<close>

definition hi :: "u16 \<Rightarrow> byte" where
  "hi w = ucast (drop_bit 8 w)"

definition lo :: "u16 \<Rightarrow> byte" where
  "lo w = ucast w"

definition pair :: "byte \<Rightarrow> byte \<Rightarrow> u16" where
  "pair h l = push_bit 8 (ucast h) OR ucast l"

section \<open>Flags and arithmetic\<close>

definition flags :: "bool \<Rightarrow> bool \<Rightarrow> bool \<Rightarrow> bool \<Rightarrow> bool \<Rightarrow> bool \<Rightarrow> bool \<Rightarrow> bool \<Rightarrow> byte" where
  "flags S Z Y H X P N C =
     push_bit 7 (of_bool S) OR push_bit 6 (of_bool Z) OR push_bit 5 (of_bool Y) OR push_bit 4 (of_bool H) OR
     push_bit 3 (of_bool X) OR push_bit 2 (of_bool P) OR push_bit 1 (of_bool N) OR of_bool C"

abbreviation (input) fC :: "byte \<Rightarrow> bool" where "fC f \<equiv> bit f 0"
abbreviation (input) fN :: "byte \<Rightarrow> bool" where "fN f \<equiv> bit f 1"
abbreviation (input) fP :: "byte \<Rightarrow> bool" where "fP f \<equiv> bit f 2"
abbreviation (input) fX :: "byte \<Rightarrow> bool" where "fX f \<equiv> bit f 3"
abbreviation (input) fH :: "byte \<Rightarrow> bool" where "fH f \<equiv> bit f 4"
abbreviation (input) fY :: "byte \<Rightarrow> bool" where "fY f \<equiv> bit f 5"
abbreviation (input) fZ :: "byte \<Rightarrow> bool" where "fZ f \<equiv> bit f 6"
abbreviation (input) fS :: "byte \<Rightarrow> bool" where "fS f \<equiv> bit f 7"

definition even_parity :: "byte \<Rightarrow> bool" where
  "even_parity b \<longleftrightarrow> even (length (filter (bit b) [0, 1, 2, 3, 4, 5, 6, 7]))"

text \<open>Accumulator and flags after an operation, as the pair \<open>AF\<close>.\<close>

definition add8 :: "byte \<Rightarrow> byte \<Rightarrow> bool \<Rightarrow> u16" where
  "add8 a b c =
     (let r = a + b + of_bool c in
      pair r (flags (bit r 7) (r = 0) (bit r 5) (uint a mod 16 + uint b mod 16 + of_bool c \<ge> 16) (bit r 3)
        (\<not> (- 128 \<le> sint a + sint b + of_bool c \<and> sint a + sint b + of_bool c < 128)) False
        (uint a + uint b + of_bool c \<ge> 256)))"

definition sub_flags :: "byte \<Rightarrow> byte \<Rightarrow> bool \<Rightarrow> byte \<Rightarrow> byte" where
  "sub_flags a b c yx =
     (let r = a - b - of_bool c in
      flags (bit r 7) (r = 0) (bit yx 5) (uint a mod 16 < uint b mod 16 + of_bool c) (bit yx 3)
        (\<not> (- 128 \<le> sint a - sint b - of_bool c \<and> sint a - sint b - of_bool c < 128)) True
        (uint a < uint b + of_bool c))"

definition sub8 :: "byte \<Rightarrow> byte \<Rightarrow> bool \<Rightarrow> u16" where
  "sub8 a b c = (let r = a - b - of_bool c in pair r (sub_flags a b c r))"

definition logic_flags :: "byte \<Rightarrow> bool \<Rightarrow> byte" where
  "logic_flags r h = flags (bit r 7) (r = 0) (bit r 5) h (bit r 3) (even_parity r) False False"

definition alu :: "nat \<Rightarrow> byte \<Rightarrow> byte \<Rightarrow> bool \<Rightarrow> u16" where
  "alu y a b c =
     (if y = 0 then add8 a b False
      else if y = 1 then add8 a b c
      else if y = 2 then sub8 a b False
      else if y = 3 then sub8 a b c
      else if y = 4 then pair (a AND b) (logic_flags (a AND b) True)
      else if y = 5 then pair (a XOR b) (logic_flags (a XOR b) False)
      else if y = 6 then pair (a OR b) (logic_flags (a OR b) False)
      else pair a (sub_flags a b False b))"

definition inc_flags :: "byte \<Rightarrow> byte \<Rightarrow> byte" where
  "inc_flags b f =
     (let r = b + 1 in
      flags (bit r 7) (r = 0) (bit r 5) (uint b mod 16 = 15) (bit r 3) (sint b = 127) False (fC f))"

definition dec_flags :: "byte \<Rightarrow> byte \<Rightarrow> byte" where
  "dec_flags b f =
     (let r = b - 1 in
      flags (bit r 7) (r = 0) (bit r 5) (uint b mod 16 = 0) (bit r 3) (sint b = - 128) True (fC f))"

definition add16_flags :: "u16 \<Rightarrow> u16 \<Rightarrow> byte \<Rightarrow> byte" where
  "add16_flags a b f =
     (let r = a + b in
      flags (fS f) (fZ f) (bit r 13) (uint a mod 4096 + uint b mod 4096 \<ge> 4096) (bit r 11) (fP f) False
        (uint a + uint b \<ge> 65536))"

section \<open>Accumulator operations\<close>

definition rot_flags :: "byte \<Rightarrow> byte \<Rightarrow> bool \<Rightarrow> byte" where
  "rot_flags r f c = flags (fS f) (fZ f) (bit r 5) False (bit r 3) (fP f) False c"

text \<open>Decimal adjust: the correction and the flags.\<close>

definition daa :: "byte \<Rightarrow> byte \<Rightarrow> u16" where
  "daa a f =
     (let d = (if fH f \<or> uint a mod 16 > 9 then 6 else 0) + (if fC f \<or> uint a > 0x99 then 0x60 else 0);
          r = (if fN f then a - d else a + d)
      in pair r (flags (bit r 7) (r = 0) (bit r 5)
           (if fN f then fH f \<and> uint a mod 16 < 6 else uint a mod 16 > 9)
           (bit r 3) (even_parity r) (fN f) (fC f \<or> uint a > 0x99)))"

definition acc_op :: "nat \<Rightarrow> byte \<Rightarrow> byte \<Rightarrow> u16" where
  "acc_op y a f =
     (if y = 0 then (let r = push_bit 1 a OR drop_bit 7 a in pair r (rot_flags r f (bit a 7)))
      else if y = 1 then (let r = drop_bit 1 a OR push_bit 7 a in pair r (rot_flags r f (bit a 0)))
      else if y = 2 then (let r = push_bit 1 a OR of_bool (fC f) in pair r (rot_flags r f (bit a 7)))
      else if y = 3 then (let r = drop_bit 1 a OR push_bit 7 (of_bool (fC f)) in pair r (rot_flags r f (bit a 0)))
      else if y = 4 then daa a f
      else if y = 5 then
        (let r = NOT a in pair r (flags (fS f) (fZ f) (bit r 5) True (bit r 3) (fP f) True (fC f)))
      else if y = 6 then pair a (flags (fS f) (fZ f) (bit a 5) False (bit a 3) (fP f) False True)
      else pair a (flags (fS f) (fZ f) (bit a 5) (fC f) (bit a 3) (fP f) False (\<not> fC f)))"

section \<open>Operands\<close>

definition get8 :: "nat \<Rightarrow> z80 \<Rightarrow> byte" where
  "get8 k m =
     (if k = 0 then hi (rBC m) else if k = 1 then lo (rBC m)
      else if k = 2 then hi (rDE m) else if k = 3 then lo (rDE m)
      else if k = 4 then hi (rHL m) else if k = 5 then lo (rHL m)
      else if k = 6 then mem m (rHL m) else hi (rAF m))"

definition set8 :: "nat \<Rightarrow> byte \<Rightarrow> z80 \<Rightarrow> z80" where
  "set8 k v m =
     (if k = 0 then m\<lparr>rBC := pair v (lo (rBC m))\<rparr> else if k = 1 then m\<lparr>rBC := pair (hi (rBC m)) v\<rparr>
      else if k = 2 then m\<lparr>rDE := pair v (lo (rDE m))\<rparr> else if k = 3 then m\<lparr>rDE := pair (hi (rDE m)) v\<rparr>
      else if k = 4 then m\<lparr>rHL := pair v (lo (rHL m))\<rparr> else if k = 5 then m\<lparr>rHL := pair (hi (rHL m)) v\<rparr>
      else if k = 6 then m\<lparr>mem := (mem m)(rHL m := v)\<rparr> else m\<lparr>rAF := pair v (lo (rAF m))\<rparr>)"

definition get16 :: "nat \<Rightarrow> z80 \<Rightarrow> u16" where
  "get16 p m = (if p = 0 then rBC m else if p = 1 then rDE m else if p = 2 then rHL m else rSP m)"

definition set16 :: "nat \<Rightarrow> u16 \<Rightarrow> z80 \<Rightarrow> z80" where
  "set16 p v m =
     (if p = 0 then m\<lparr>rBC := v\<rparr> else if p = 1 then m\<lparr>rDE := v\<rparr>
      else if p = 2 then m\<lparr>rHL := v\<rparr> else m\<lparr>rSP := v\<rparr>)"

text \<open>The stack instructions name \<open>AF\<close> where the others name \<open>SP\<close>.\<close>

definition get16s :: "nat \<Rightarrow> z80 \<Rightarrow> u16" where
  "get16s p m = (if p = 3 then rAF m else get16 p m)"

definition set16s :: "nat \<Rightarrow> u16 \<Rightarrow> z80 \<Rightarrow> z80" where
  "set16s p v m = (if p = 3 then m\<lparr>rAF := v\<rparr> else set16 p v m)"

definition flag_cond :: "nat \<Rightarrow> z80 \<Rightarrow> bool" where
  "flag_cond y m =
     (let f = lo (rAF m) in
      if y = 0 then \<not> fZ f else if y = 1 then fZ f
      else if y = 2 then \<not> fC f else if y = 3 then fC f
      else if y = 4 then \<not> fP f else if y = 5 then fP f
      else if y = 6 then \<not> fS f else fS f)"

definition word_at :: "z80 \<Rightarrow> u16 \<Rightarrow> u16" where
  "word_at m a = pair (mem m (a + 1)) (mem m a)"

definition push :: "u16 \<Rightarrow> z80 \<Rightarrow> z80" where
  "push v m = m\<lparr>mem := (mem m)(rSP m - 1 := hi v, rSP m - 2 := lo v), rSP := rSP m - 2\<rparr>"

definition popped :: "z80 \<Rightarrow> u16" where
  "popped m = word_at m (rSP m)"

definition drop_top :: "z80 \<Rightarrow> z80" where
  "drop_top m = m\<lparr>rSP := rSP m + 2\<rparr>"

section \<open>Instructions\<close>

text \<open>\<open>PC\<close> is behind the opcode. \<open>imm\<close> and \<open>nn\<close> are the operand bytes.\<close>

definition jump_rel :: "bool \<Rightarrow> z80 \<Rightarrow> z80" where
  "jump_rel c m = m\<lparr>rPC := rPC m + 1 + (if c then scast (mem m (rPC m)) else 0)\<rparr>"

definition jump :: "bool \<Rightarrow> z80 \<Rightarrow> z80" where
  "jump c m = m\<lparr>rPC := if c then word_at m (rPC m) else rPC m + 2\<rparr>"

definition call :: "bool \<Rightarrow> z80 \<Rightarrow> z80" where
  "call c m =
     (if c then (push (rPC m + 2) m)\<lparr>rPC := word_at m (rPC m)\<rparr> else m\<lparr>rPC := rPC m + 2\<rparr>)"

definition ret :: "bool \<Rightarrow> z80 \<Rightarrow> z80" where
  "ret c m = (if c then (drop_top m)\<lparr>rPC := popped m\<rparr> else m)"

definition exec0 :: "nat \<Rightarrow> nat \<Rightarrow> z80 \<Rightarrow> z80" where
  "exec0 y z m =
     (let p = y div 2; A = hi (rAF m); F = lo (rAF m); imm = mem m (rPC m); nn = word_at m (rPC m) in
      if z = 0 then
        (if y = 0 then m
         else if y = 1 then m\<lparr>rAF := rAF1 m, rAF1 := rAF m\<rparr>
         else if y = 2 then
           (let B = hi (rBC m) - 1 in jump_rel (B \<noteq> 0) (m\<lparr>rBC := pair B (lo (rBC m))\<rparr>))
         else if y = 3 then jump_rel True m
         else jump_rel (flag_cond (y - 4) m) m)
      else if z = 1 then
        (if even y then (set16 p nn m)\<lparr>rPC := rPC m + 2\<rparr>
         else m\<lparr>rHL := rHL m + get16 p m, rAF := pair A (add16_flags (rHL m) (get16 p m) F)\<rparr>)
      else if z = 2 then
        (if y = 0 then m\<lparr>mem := (mem m)(rBC m := A)\<rparr>
         else if y = 1 then m\<lparr>rAF := pair (mem m (rBC m)) F\<rparr>
         else if y = 2 then m\<lparr>mem := (mem m)(rDE m := A)\<rparr>
         else if y = 3 then m\<lparr>rAF := pair (mem m (rDE m)) F\<rparr>
         else if y = 4 then m\<lparr>mem := (mem m)(nn := lo (rHL m), nn + 1 := hi (rHL m)), rPC := rPC m + 2\<rparr>
         else if y = 5 then m\<lparr>rHL := word_at m nn, rPC := rPC m + 2\<rparr>
         else if y = 6 then m\<lparr>mem := (mem m)(nn := A), rPC := rPC m + 2\<rparr>
         else m\<lparr>rAF := pair (mem m nn) F, rPC := rPC m + 2\<rparr>)
      else if z = 3 then set16 p (if even y then get16 p m + 1 else get16 p m - 1) m
      else if z = 4 then
        (let b = get8 y m; m = set8 y (b + 1) m in m\<lparr>rAF := pair (hi (rAF m)) (inc_flags b F)\<rparr>)
      else if z = 5 then
        (let b = get8 y m; m = set8 y (b - 1) m in m\<lparr>rAF := pair (hi (rAF m)) (dec_flags b F)\<rparr>)
      else if z = 6 then (set8 y imm m)\<lparr>rPC := rPC m + 1\<rparr>
      else m\<lparr>rAF := acc_op y A F\<rparr>)"

definition exec1 :: "nat \<Rightarrow> nat \<Rightarrow> z80 \<Rightarrow> z80" where
  "exec1 y z m = (if y = 6 \<and> z = 6 then m\<lparr>rPC := rPC m - 1\<rparr> else set8 y (get8 z m) m)"

definition exec2 :: "nat \<Rightarrow> nat \<Rightarrow> z80 \<Rightarrow> z80" where
  "exec2 y z m = m\<lparr>rAF := alu y (hi (rAF m)) (get8 z m) (fC (lo (rAF m)))\<rparr>"

definition exec3 :: "nat \<Rightarrow> nat \<Rightarrow> z80 \<Rightarrow> z80" where
  "exec3 y z m =
     (let p = y div 2 in
      if z = 0 then ret (flag_cond y m) m
      else if z = 1 then
        (if even y then set16s p (popped m) (drop_top m)
         else if y = 1 then ret True m
         else if y = 3 then
           m\<lparr>rBC := rBC1 m, rBC1 := rBC m, rDE := rDE1 m, rDE1 := rDE m, rHL := rHL1 m, rHL1 := rHL m\<rparr>
         else if y = 5 then m\<lparr>rPC := rHL m\<rparr>
         else m\<lparr>rSP := rHL m\<rparr>)
      else if z = 2 then jump (flag_cond y m) m
      else if z = 3 then
        (if y = 0 then jump True m
         else if y = 4 then push (rHL m) ((drop_top m)\<lparr>rHL := popped m\<rparr>)
         else if y = 5 then m\<lparr>rDE := rHL m, rHL := rDE m\<rparr>
         else if y = 6 then m\<lparr>rIFF := 0\<rparr>
         else m\<lparr>rIFF := 3\<rparr>)
      else if z = 4 then call (flag_cond y m) m
      else if z = 5 then (if even y then push (get16s p m) m else call True m)
      else if z = 6 then
        m\<lparr>rAF := alu y (hi (rAF m)) (mem m (rPC m)) (fC (lo (rAF m))), rPC := rPC m + 1\<rparr>
      else (push (rPC m) m)\<lparr>rPC := 8 * of_nat y\<rparr>)"

definition exec :: "nat \<Rightarrow> z80 \<Rightarrow> z80" where
  "exec k m =
     (let x = k div 64; y = k div 8 mod 8; z = k mod 8 in
      if x = 0 then exec0 y z m
      else if x = 1 then exec1 y z m
      else if x = 2 then exec2 y z m
      else exec3 y z m)"

end
