(* ===== verification/Z80_Arith.thy ===== *)
theory Z80_Arith
  imports Z80_Spec Z80_State
begin

text \<open>
  Arithmetic behind the flags of the Z80 emulator: the halves of its 32-bit registers as bytes, the
  carries and borrows that \<open>a ^ b ^ sum\<close> holds, and signed overflow.
\<close>

section \<open>Halves of registers\<close>

abbreviation (input) lw :: "u32 \<Rightarrow> u16" where "lw x \<equiv> ucast x"

lemma bits_16: "(\<And>n. n < 16 \<Longrightarrow> bit (x::u16) n = bit y n) \<Longrightarrow> x = y"
  by (rule bit_word_eqI) simp

lemma bit_hi: "bit (hi w) n \<longleftrightarrow> n < 8 \<and> bit w (8 + n)"
  by (auto simp: hi_def bit_simps)

lemma bit_lo: "bit (lo w) n \<longleftrightarrow> n < 8 \<and> bit w n"
  by (auto simp: lo_def bit_simps)

lemma bit_pair: "bit (pair h l) n \<longleftrightarrow> n < 16 \<and> (if n < 8 then bit l n else bit h (n - 8))"
  by (auto simp: pair_def bit_simps dest: bit_imp_le_length)

lemma bit_lw: "bit (lw x) n \<longleftrightarrow> n < 16 \<and> bit x n"
  by (auto simp: bit_simps)

lemma hi_pair [simp]: "hi (pair h l) = h"
  by (rule bit_word_eqI) (auto simp: bit_hi bit_pair)

lemma lo_pair [simp]: "lo (pair h l) = l"
  by (rule bit_word_eqI) (auto simp: bit_lo bit_pair)

lemma pair_hi_lo [simp]: "pair (hi w) (lo w) = w"
  by (rule bit_word_eqI) (auto simp: bit_hi bit_lo bit_pair)

lemma and_255: "(x::u32) AND 255 = take_bit 8 x"
  by (simp add: take_bit_eq_mask mask_eq_exp_minus_1)

lemma LOW_REGISTER_lo: "LOW_REGISTER x = ucast (lo (lw x))"
  by (rule bit_word_eqI) (auto simp: LOW_REGISTER_def and_255 bit_simps bit_lo)

lemma HIGH_REGISTER_hi: "HIGH_REGISTER x = ucast (hi (lw x))"
  by (rule bit_word_eqI) (auto simp: HIGH_REGISTER_def and_255 bit_simps bit_hi bit_signed_drop_bit_iff)

lemma lw_pairI:
  fixes x :: u32
  assumes "bit x 0 = bit l 0" "bit x 1 = bit l 1" "bit x 2 = bit l 2" "bit x 3 = bit l 3"
    "bit x 4 = bit l 4" "bit x 5 = bit l 5" "bit x 6 = bit l 6" "bit x 7 = bit l 7"
    "bit x 8 = bit h 0" "bit x 9 = bit h 1" "bit x 10 = bit h 2" "bit x 11 = bit h 3"
    "bit x 12 = bit h 4" "bit x 13 = bit h 5" "bit x 14 = bit h 6" "bit x 15 = bit h 7"
  shows "lw x = pair h l"
proof -
  have "lo (lw x) = l" "hi (lw x) = h"
    by (rule bit_cases_8; use assms in \<open>simp add: bit_lo bit_hi bit_simps\<close>)+
  then show ?thesis by (metis pair_hi_lo)
qed

lemmas at_bit = bit_and_iff bit_or_iff bit_xor_iff bit_not_iff bit_push_bit_iff bit_drop_bit_eq
  bit_signed_drop_bit_iff bit_unsigned_iff bit_hi bit_lo bit_pair bit_take_bit_iff

lemma lw_SET_LOW: "lw (SET_LOW_REGISTER x v) = pair (hi (lw x)) (ucast v)"
  unfolding SET_LOW_REGISTER_def by (rule lw_pairI) (simp_all add: at_bit)

lemma lw_SET_HIGH: "lw (SET_HIGH_REGISTER x v) = pair (ucast v) (lo (lw x))"
  unfolding SET_HIGH_REGISTER_def by (rule lw_pairI) (simp_all add: at_bit)

lemma lw_high_high: "lw ((x AND 0xff) OR (y AND NOT 0xff)) = pair (hi (lw y)) (lo (lw x))"
  by (rule lw_pairI) (simp_all add: at_bit)

lemma lw_high_low: "lw ((x AND 0xff) OR push_bit 8 (y AND 0xff)) = pair (lo (lw y)) (lo (lw x))"
  by (rule lw_pairI) (simp_all add: at_bit)

lemma lw_low_high: "lw ((x AND NOT 0xff) OR (signed_drop_bit 8 y AND 0xff)) = pair (hi (lw x)) (hi (lw y))"
  by (rule lw_pairI) (simp_all add: at_bit)

lemma lw_low_low: "lw ((x AND NOT 0xff) OR (y AND 0xff)) = pair (hi (lw x)) (lo (lw y))"
  by (rule lw_pairI) (simp_all add: at_bit)

section \<open>Carries\<close>

text \<open>Bit \<open>n\<close> of \<open>a xor b xor (a + b + c)\<close> is the carry into position \<open>n\<close>.\<close>

lemma carry_bit:
  fixes a b :: int
  shows "bit (a XOR b XOR (a + b + of_bool c)) n \<longleftrightarrow> 2 ^ n \<le> take_bit n a + take_bit n b + of_bool c"
proof -
  let ?m = "take_bit n a + take_bit n b + of_bool c"
  have "a = 2 ^ n * (a div 2 ^ n) + take_bit n a" "b = 2 ^ n * (b div 2 ^ n) + take_bit n b"
    by (simp_all add: take_bit_eq_mod)
  then have "a + b + of_bool c = 2 ^ n * (a div 2 ^ n + b div 2 ^ n) + ?m"
    by (simp add: algebra_simps)
  then have "(a + b + of_bool c) div 2 ^ n = a div 2 ^ n + b div 2 ^ n + ?m div 2 ^ n"
    by (metis div_mult_self2 power_not_zero zero_neq_numeral add.commute)
  moreover have "?m div 2 ^ n = of_bool (2 ^ n \<le> ?m)"
  proof -
    have "take_bit n a < 2 ^ n" "take_bit n b < 2 ^ n" "0 \<le> take_bit n a" "0 \<le> take_bit n b" by simp_all
    then show ?thesis
      using int_div_pos_eq [of ?m "2 ^ n" 1 "?m - 2 ^ n"] int_div_pos_eq [of ?m "2 ^ n" 0 ?m]
      by (cases "2 ^ n \<le> ?m"; cases c) auto
  qed
  ultimately show ?thesis
    unfolding bit_xor_iff unfolding bit_iff_odd by auto
qed

text \<open>Bit \<open>n\<close> of \<open>a xor b xor (a - b - c)\<close> is the borrow from position \<open>n\<close>.\<close>

lemma borrow_bit:
  fixes a b :: int
  shows "bit (a XOR b XOR (a - b - of_bool c)) n \<longleftrightarrow> take_bit n a < take_bit n b + of_bool c"
proof -
  let ?m = "take_bit n a - take_bit n b - of_bool c"
  have "a = 2 ^ n * (a div 2 ^ n) + take_bit n a" "b = 2 ^ n * (b div 2 ^ n) + take_bit n b"
    by (simp_all add: take_bit_eq_mod)
  then have "a - b - of_bool c = 2 ^ n * (a div 2 ^ n - b div 2 ^ n) + ?m"
    by (simp add: algebra_simps)
  then have "(a - b - of_bool c) div 2 ^ n = a div 2 ^ n - b div 2 ^ n + ?m div 2 ^ n"
    by (metis div_mult_self2 power_not_zero zero_neq_numeral add.commute)
  moreover have "?m div 2 ^ n = - of_bool (?m < 0)"
  proof -
    have "take_bit n a < 2 ^ n" "take_bit n b < 2 ^ n" "0 \<le> take_bit n a" "0 \<le> take_bit n b" by simp_all
    moreover have "of_bool c \<le> (1::int)" "0 \<le> (of_bool c :: int)" by simp_all
    ultimately have "?m < 2 ^ n" "0 \<le> ?m + 2 ^ n" by linarith+
    then show ?thesis
      using int_div_pos_eq [of ?m "2 ^ n" "- 1" "?m + 2 ^ n"] div_pos_pos_trivial [of ?m "2 ^ n"]
      by (cases "?m < 0") (simp_all add: not_less)
  qed
  ultimately show ?thesis
    unfolding bit_xor_iff unfolding bit_iff_odd by auto
qed

section \<open>Sums and differences of bytes\<close>

lemma uint_byte_bounds:
  fixes a :: byte
  shows "0 \<le> uint a" "uint a < 256"
  using uint_bounded [of a] by simp_all

text \<open>The operands are bytes or 16-bit words, computed with in 32 bits.\<close>

lemma ucast_int: "(ucast (a::'a::len word) :: u32) = word_of_int (uint a)"
  by (rule ucast_eq)

lemma sum_int:
  fixes a b :: "'a::len word"
  shows "(ucast a + ucast b + of_bool c :: u32) = word_of_int (uint a + uint b + of_bool c)"
  unfolding ucast_int by (simp only: of_int_add of_int_of_bool)

lemma diff_int:
  fixes a b :: "'a::len word"
  shows "(ucast a - ucast b - of_bool c :: u32) = word_of_int (uint a - uint b - of_bool c)"
  unfolding ucast_int by (simp only: of_int_diff of_int_of_bool)

lemma word_sum_int: "(a::'a::len word) + b + of_bool c = word_of_int (uint a + uint b + of_bool c)"
  by (simp only: of_int_add of_int_of_bool word_of_int_uint)

lemma word_diff_int: "(a::'a::len word) - b - of_bool c = word_of_int (uint a - uint b - of_bool c)"
  by (simp only: of_int_diff of_int_of_bool word_of_int_uint)

lemma bit_sum:
  fixes a b :: "'a::len word"
  assumes "n < LENGTH('a)" "n < 32"
  shows "bit (ucast a + ucast b + of_bool c :: u32) n = bit (a + b + of_bool c) n"
  unfolding sum_int word_sum_int [of a b] bit_word_of_int_iff using assms by simp

lemma bit_diff:
  fixes a b :: "'a::len word"
  assumes "n < LENGTH('a)" "n < 32"
  shows "bit (ucast a - ucast b - of_bool c :: u32) n = bit (a - b - of_bool c) n"
  unfolding diff_int word_diff_int [of a b] bit_word_of_int_iff using assms by simp

lemma uint_sum:
  fixes a b :: byte
  shows "uint (ucast a + ucast b + of_bool c :: u32) = uint a + uint b + of_bool c"
proof -
  have "0 \<le> uint a + uint b + of_bool c" "uint a + uint b + of_bool c < 2 ^ 32"
    using uint_byte_bounds [of a] uint_byte_bounds [of b] by (cases c; simp)+
  then show ?thesis
    unfolding sum_int uint_word_of_int by (simp add: mod_pos_pos_trivial)
qed

lemma low8_zero: "((x::u32) AND 255 = 0) \<longleftrightarrow> (ucast x :: byte) = 0"
proof -
  have "x AND 255 = ucast (ucast x :: byte)" by (rule bit_word_eqI) (auto simp: and_255 bit_simps)
  moreover have "(ucast (ucast x :: byte) :: u32) = 0 \<longleftrightarrow> (ucast x :: byte) = 0"
    by (auto simp: bit_eq_iff bit_unsigned_iff dest: bit_imp_le_length)
  ultimately show ?thesis by simp
qed

lemma cbits_add:
  fixes a b :: "'a::len word"
  shows "bit (ucast a XOR ucast b XOR (ucast a + ucast b + of_bool c) :: u32) n \<longleftrightarrow>
    n < 32 \<and> 2 ^ n \<le> take_bit n (uint a) + take_bit n (uint b) + of_bool c"
  unfolding sum_int unfolding ucast_int of_int_xor_eq [symmetric] bit_word_of_int_iff carry_bit by simp

lemma cbits_sub:
  fixes a b :: "'a::len word"
  shows "bit (ucast a XOR ucast b XOR (ucast a - ucast b - of_bool c) :: u32) n \<longleftrightarrow>
    n < 32 \<and> take_bit n (uint a) < take_bit n (uint b) + of_bool c"
  unfolding diff_int unfolding ucast_int of_int_xor_eq [symmetric] bit_word_of_int_iff borrow_bit by simp

lemma mod_wrap:
  fixes x m :: int
  assumes "0 \<le> x" "x < 2 * m"
  shows "x mod m = (if m \<le> x then x - m else x)"
  using assms mod_pos_pos_trivial [of "x - m" m] mod_pos_pos_trivial [of x m] minus_mod_self2 [of x m]
  by (cases "m \<le> x") simp_all

lemma sint_byte: "sint (a::byte) = uint a - (if 128 \<le> uint a then 256 else 0)"
proof -
  have "sint a = take_bit (Suc 7) (uint a + 2 ^ 7) - 2 ^ 7"
    unfolding sint_uint signed_take_bit_eq_take_bit_shift by simp
  also have "\<dots> = (uint a + 128) mod 256 - 128"
    unfolding take_bit_eq_mod by simp
  finally show ?thesis using uint_byte_bounds [of a] mod_wrap [of "uint a + 128" 256] by simp
qed

lemma mod_128: "uint (a::byte) mod 128 = (if 128 \<le> uint a then uint a - 128 else uint a)"
  using uint_byte_bounds [of a] by (simp add: mod_wrap)

lemma overflow_int:
  fixes x y :: int
  defines "sx \<equiv> x - (if 128 \<le> x then 256 else 0)" and "sy \<equiv> y - (if 128 \<le> y then 256 else 0)"
    and "lx \<equiv> (if 128 \<le> x then x - 128 else x)" and "ly \<equiv> (if 128 \<le> y then y - 128 else y)"
  assumes "0 \<le> x" "x < 256" "0 \<le> y" "y < 256"
  shows "\<not> (- 128 \<le> sx + sy + of_bool c \<and> sx + sy + of_bool c < 128) \<longleftrightarrow>
      (256 \<le> x + y + of_bool c) \<noteq> (128 \<le> lx + ly + of_bool c)"
    and "\<not> (- 128 \<le> sx - sy - of_bool c \<and> sx - sy - of_bool c < 128) \<longleftrightarrow>
      (x < y + of_bool c) \<noteq> (lx < ly + of_bool c)"
  using assms(5-) unfolding assms(1-4)
  by (cases c; cases "128 \<le> x"; cases "128 \<le> y"; auto)+

lemma add_overflow:
  fixes a b :: byte
  shows "\<not> (- 128 \<le> sint a + sint b + of_bool c \<and> sint a + sint b + of_bool c < 128) \<longleftrightarrow>
   (256 \<le> uint a + uint b + of_bool c) \<noteq> (128 \<le> uint a mod 128 + uint b mod 128 + of_bool c)"
  unfolding sint_byte mod_128 by (rule overflow_int(1)) (rule uint_byte_bounds)+

lemma sub_overflow:
  fixes a b :: byte
  shows "\<not> (- 128 \<le> sint a - sint b - of_bool c \<and> sint a - sint b - of_bool c < 128) \<longleftrightarrow>
   (uint a < uint b + of_bool c) \<noteq> (uint a mod 128 < uint b mod 128 + of_bool c)"
  unfolding sint_byte mod_128 by (rule overflow_int(2)) (rule uint_byte_bounds)+

end
