(* ===== verification/Z80_Alu.thy ===== *)
theory Z80_Alu
  imports Z80_Arith Z80_Tables
begin

text \<open>
  The table expressions of the emulator's instructions compute the flags of the data sheet.
\<close>

lemma bit_flags:
  "bit (flags S Z Y H X P N C) 0 = C" "bit (flags S Z Y H X P N C) (Suc 0) = N"
  "bit (flags S Z Y H X P N C) 2 = P" "bit (flags S Z Y H X P N C) 3 = X"
  "bit (flags S Z Y H X P N C) 4 = H" "bit (flags S Z Y H X P N C) 5 = Y"
  "bit (flags S Z Y H X P N C) 6 = Z" "bit (flags S Z Y H X P N C) 7 = S"
  by (simp_all add: flags_def bit_or_iff bit_push_bit_iff)

lemma low8_zero_int: "(uint (x::u32) AND 255 = 0) \<longleftrightarrow> (ucast x :: byte) = 0"
proof -
  have "uint (x AND 255) = uint x AND 255" by (simp add: unsigned_and_eq)
  then show ?thesis using low8_zero [of x] by (metis unsigned_0 unsigned_word_eqI)
qed

lemma ucast_sum: "(ucast (ucast (a::byte) + ucast (b::byte) + of_bool c :: u32) :: byte) = a + b + of_bool c"
  by (rule bit_word_eqI) (auto simp: bit_unsigned_iff bit_sum)

lemma ucast_diff: "(ucast (ucast (a::byte) - ucast (b::byte) - of_bool c :: u32) :: byte) = a - b - of_bool c"
  by (rule bit_word_eqI) (auto simp: bit_unsigned_iff bit_diff)

lemma ucast_and_255 [simp]: "(ucast ((x::u32) AND 255) :: byte) = ucast x"
  by (rule bit_word_eqI) (simp add: bit_unsigned_iff bit_and_iff and_255 bit_take_bit_iff)

lemma ucast_ucast_byte [simp]: "(ucast (ucast (r::byte) :: u32) :: byte) = r"
  by (rule bit_word_eqI) (simp add: bit_unsigned_iff)

lemma ucast_byte_and_255 [simp]: "(ucast (r::byte) :: u32) AND 255 = ucast r"
  by (rule bit_word_eqI) (auto simp: and_255 bit_unsigned_iff bit_take_bit_iff dest: bit_imp_le_length)

lemma low8_ucast: "(x::u32) AND 255 = ucast (ucast x :: byte)"
  by (rule bit_word_eqI) (auto simp: and_255 bit_unsigned_iff bit_take_bit_iff)

lemma u32_le_511: "(\<And>n. 9 \<le> n \<Longrightarrow> \<not> bit (x::u32) n) \<Longrightarrow> uint x \<le> 511"
proof -
  assume "\<And>n. 9 \<le> n \<Longrightarrow> \<not> bit x n"
  then have "take_bit 9 x = x" by (intro bit_word_eqI) (metis bit_take_bit_iff not_le)
  then have "uint x = take_bit 9 (uint x)" by (metis unsigned_take_bit_eq)
  then show ?thesis using take_bit_int_less_exp [of 9 "uint x"] by simp
qed

lemma sum_le: 
  fixes a b :: byte
  shows "uint (ucast a + ucast b + of_bool c :: u32) \<le> 511"
  unfolding uint_sum using uint_byte_bounds [of a] uint_byte_bounds [of b] by (cases c) simp_all

lemma cbits_le:
  fixes a b :: byte
  shows "uint (ucast a XOR ucast b XOR (ucast a + ucast b + of_bool c) :: u32) \<le> 511"
proof (rule u32_le_511)
  fix n :: nat
  assume "9 \<le> n"
  then have "(2::int) ^ 9 \<le> 2 ^ n" by (rule power_increasing) simp
  moreover have "take_bit n (uint a) \<le> uint a" "take_bit n (uint b) \<le> uint b"
    by (simp_all add: take_bit_int_less_eq_self_iff)
  moreover have "of_bool c \<le> (1::int)" by simp
  ultimately show "\<not> bit (ucast a XOR ucast b XOR (ucast a + ucast b + of_bool c) :: u32) n"
    unfolding cbits_add using uint_byte_bounds [of a] uint_byte_bounds [of b] by auto
qed

lemma and_mask_le: "uint ((x::u32) AND 255) \<le> 255" "uint (x AND 511) \<le> 511"
  by (simp_all add: unsigned_and_eq)

lemma take_byte: "take_bit 8 (uint (a::byte)) = uint a" "take_bit 7 (uint a) = uint a mod 128" "take_bit 4 (uint a) = uint a mod 16"
  using uint_byte_bounds [of a] by (simp_all add: take_bit_int_eq_self) (simp_all add: take_bit_eq_mod)

section \<open>What the table expressions hold\<close>

lemma add_tables:
  assumes "uint s \<le> 511" "uint k \<le> 511"
  shows "lw (tbl addTable s OR tbl cbitsTable k OR SET_PV k) =
    pair (ucast s) (flags (bit s 7) ((ucast s :: byte) = 0) (bit s 5) (bit k 4) (bit s 3) (bit k 8 \<noteq> bit k 7) False (bit k 8))"
  by (rule lw_pairI)
    (simp_all add: assms bit_flags at_bit add_t.lookup_bit cbits_t.lookup_bit f_add_def f_cbits_def SET_PV_def bit_uint_iff low8_zero_int)

lemma sub_tables:
  "lw (tbl subTable (s AND 255) OR tbl cbitsTable (k AND 511) OR SET_PV k) =
    pair (ucast s) (flags (bit s 7) ((ucast s :: byte) = 0) (bit s 5) (bit k 4) (bit s 3) (bit k 8 \<noteq> bit k 7) True (bit k 8))"
  by (rule lw_pairI)
    (simp_all add: and_mask_le bit_flags at_bit sub_t.lookup_bit cbits_t.lookup_bit f_sub_def f_cbits_def SET_PV_def bit_uint_iff low8_zero_int)

lemma add_core:
  fixes a b :: byte
  shows "lw (tbl addTable (ucast a + ucast b + of_bool c) OR
             tbl cbitsTable (ucast a XOR ucast b XOR (ucast a + ucast b + of_bool c)) OR
             SET_PV (ucast a XOR ucast b XOR (ucast a + ucast b + of_bool c))) = add8 a b c"
  unfolding add_tables [OF sum_le cbits_le] cbits_add ucast_sum add8_def Let_def add_overflow
  by (simp add: bit_sum take_byte del: of_bool_eq)

lemma sub_core:
  fixes a b :: byte
  shows "lw (tbl subTable ((ucast a - ucast b - of_bool c) AND 255) OR
             tbl cbitsTable ((ucast a XOR ucast b XOR (ucast a - ucast b - of_bool c)) AND 511) OR
             SET_PV (ucast a XOR ucast b XOR (ucast a - ucast b - of_bool c))) = sub8 a b c"
  unfolding sub_tables cbits_sub ucast_diff sub8_def sub_flags_def Let_def sub_overflow
  by (simp add: bit_diff take_byte)

lemmas add_core_plain = add_core [where c = False, simplified]
lemmas sub_core_plain = sub_core [where c = False, simplified]

lemma dup_core:
  fixes a :: byte
  shows "lw (tbl cbitsDup8Table (ucast a + ucast a + of_bool c) OR SET_PV (ucast a + ucast a + of_bool c)) = add8 a a c"
proof -
  have "lw (tbl cbitsDup8Table k OR SET_PV k) =
      pair (ucast k) (flags (bit k 7) ((ucast k :: byte) = 0) (bit k 5) (bit k 4) (bit k 3) (bit k 8 \<noteq> bit k 7) False (bit k 8))"
    if "uint k \<le> 511" for k
    using that by (intro lw_pairI)
      (simp_all add: bit_flags at_bit cbitsDup8_t.lookup_bit f_cbitsDup8_def SET_PV_def bit_uint_iff low8_zero_int)
  from this [OF sum_le [of a a c]] show ?thesis
    using add_core [of a a c] cbits_le [of a a c] by (simp add: add_tables sum_le)
qed

section \<open>Logic\<close>

lemma uint_ucast_byte: "uint (ucast (r::byte) :: u32) = uint r"
  using uint_byte_bounds [of r] unfolding unsigned_ucast_eq by (simp add: take_bit_int_eq_self)

lemma uint_ucast_le: "uint (ucast (r::byte) :: u32) \<le> 255"
  using uint_byte_bounds [of r] unfolding uint_ucast_byte by simp

lemma ones_byte: "ones (uint (ucast (r::byte) :: u32)) = length (filter (bit r) [0, 1, 2, 3, 4, 5, 6, 7])"
  unfolding ones_def by (rule arg_cong [where f = length], rule filter_cong) (auto simp: bit_uint_iff bit_unsigned_iff)

lemma parity_byte: "parity (uint (ucast (r::byte) :: u32)) = (if even_parity r then 4 else 0)"
  unfolding parity_def even_parity_def ones_byte by simp

lemma uint_ucast_0: "uint (ucast (r::byte) :: u32) = 0 \<longleftrightarrow> r = 0"
  unfolding uint_ucast_byte by (rule uint_0_iff)

lemma and_core: "lw (tbl andTable (ucast r)) = pair r (logic_flags r True)"
  unfolding logic_flags_def
  by (rule lw_pairI)
    (simp_all add: uint_ucast_le bit_flags at_bit and_t.lookup_bit f_and_def bit_uint_iff parity_byte uint_ucast_0)

lemma xoror_core: "lw (tbl xororTable (ucast r)) = pair r (logic_flags r False)"
  unfolding logic_flags_def
  by (rule lw_pairI)
    (simp_all add: uint_ucast_le bit_flags at_bit xoror_t.lookup_bit f_xoror_def bit_uint_iff parity_byte uint_ucast_0)

lemma rrdrld_core:
  "lw ((x AND 0x12) OR tbl rrdrldTable (ucast r) OR of_bool c) =
   pair r (flags (bit r 7) (r = 0) (bit r 5) (bit x 4) (bit r 3) (even_parity r) (bit x 1) c)"
  by (rule lw_pairI)
    (simp_all add: uint_ucast_le bit_flags at_bit rrdrld_t.lookup_bit f_rrdrld_def bit_uint_iff parity_byte low8_zero_int)

section \<open>Compare, increment, decrement\<close>

lemma cp_tables:
  "lw ((x AND NOT 0xff) OR tbl cpTable (s AND 255) OR (ucast b AND 0x28) OR SET_PV k OR tbl cbits2Table (k AND 511)) =
   pair (hi (lw x)) (flags (bit s 7) ((ucast s :: byte) = 0) (bit b 5) (bit k 4) (bit b 3) (bit k 8 \<noteq> bit k 7) True (bit k 8))"
  for b :: byte
  by (rule lw_pairI)
    (simp_all add: and_mask_le bit_flags at_bit cp_t.lookup_bit cbits2_t.lookup_bit f_cp_def f_cbits2_def SET_PV_def
      bit_uint_iff low8_zero_int)

lemma cp_core:
  fixes a b :: byte
  shows "lw ((x AND NOT 0xff) OR tbl cpTable ((ucast a - ucast b) AND 255) OR (ucast b AND 0x28) OR
             SET_PV (ucast a XOR ucast b XOR (ucast a - ucast b)) OR
             tbl cbits2Table ((ucast a XOR ucast b XOR (ucast a - ucast b)) AND 511)) =
         pair (hi (lw x)) (sub_flags a b False b)"
  using cp_tables [of x _ b] cbits_sub [of a b False] ucast_diff [of a b False] bit_diff [of 7 a b False]
    sub_overflow [of a b False]
  by (simp add: sub_flags_def Let_def take_byte)

lemma inc_tables:
  assumes "uint t \<le> 256"
  shows "lw ((x AND NOT 0xfe) OR tbl incTable t OR SET_PV2 t 0x80) =
   pair (hi (lw x)) (flags (bit t 7) ((ucast t :: byte) = 0) (bit t 5) (uint t AND 15 = 0) (bit t 3) (t = 0x80) False (bit x 0))"
  by (rule lw_pairI)
    (simp_all add: assms bit_flags at_bit inc_t.lookup_bit f_inc_def SET_PV2_def bit_uint_iff low8_zero_int)

lemma dec_tables:
  "lw ((x AND NOT 0xfe) OR tbl decTable (t AND 0xff) OR SET_PV2 t 0x7f) =
   pair (hi (lw x)) (flags (bit t 7) ((ucast t :: byte) = 0) (bit t 5) (uint (t AND 255) AND 15 = 15) (bit t 3) (t = 0x7f) True (bit x 0))"
  by (rule lw_pairI)
    (simp_all add: and_mask_le bit_flags at_bit dec_t.lookup_bit f_dec_def SET_PV2_def bit_uint_iff low8_zero_int)

lemma and_15_mod: "(k::int) AND 15 = k mod 16"
  using take_bit_eq_mask [of 4 k] by (simp add: take_bit_eq_mod mask_eq_exp_minus_1)

lemma uint_plus_1: "uint (ucast (b::byte) + 1 :: u32) = uint b + 1"
  using uint_sum [of b 0 True] by simp

lemma uint_byte_plus_1: "uint ((b::byte) + 1) = (uint b + 1) mod 256"
  by (simp add: uint_word_ariths)

lemma uint_byte_minus_1: "uint ((b::byte) - 1) = (uint b - 1) mod 256"
  by (simp add: uint_word_ariths)

lemma u32_eq_iff: "(x::u32) = y \<longleftrightarrow> uint x = uint y"
  by (rule word_uint_eq_iff)

lemma sint_edges: "sint (b::byte) = 127 \<longleftrightarrow> uint b = 127" "sint b = - 128 \<longleftrightarrow> uint b = 128"
  unfolding sint_byte using uint_byte_bounds [of b] by presburger+

lemma inc_core:
  "lw ((x AND NOT 0xfe) OR tbl incTable (ucast b + 1) OR SET_PV2 (ucast b + 1) 0x80) =
   pair (hi (lw x)) (inc_flags b (lo (lw x)))"
proof -
  have le: "uint (ucast b + 1 :: u32) \<le> 256"
    using uint_byte_bounds [of b] unfolding uint_plus_1 by simp
  have "uint b mod 16 = 15 \<longleftrightarrow> (uint b + 1) mod 16 = 0" by presburger
  then show ?thesis
    using bit_sum [of 7 b 0 True] bit_sum [of 5 b 0 True] bit_sum [of 3 b 0 True] ucast_sum [of b 0 True]
    unfolding inc_tables [OF le] inc_flags_def Let_def sint_edges u32_eq_iff [of _ "0x80"] uint_plus_1 and_15_mod
    by (auto simp: at_bit intro!: arg_cong2 [where f = pair])
qed

lemma inc_core_high:
  "lw ((x AND NOT 0xfe) OR tbl incTable (ucast (b + 1)) OR SET_PV2 (ucast (b + 1)) 0x80) =
   pair (hi (lw x)) (inc_flags b (lo (lw x)))"
  for b :: byte
proof -
  have le: "uint (ucast (b + 1) :: u32) \<le> 256"
    using uint_ucast_le [of "b + 1"] by simp
  have "uint b mod 16 = 15 \<longleftrightarrow> (uint b + 1) mod 16 = 0" by presburger
  moreover have "(uint b + 1) mod 256 = 128 \<longleftrightarrow> uint b = 127"
    using uint_byte_bounds [of b] mod_wrap [of "uint b + 1" 256] by (simp split: if_splits)
  moreover have "(uint b + 1) mod 256 mod 16 = (uint b + 1) mod 16" by (rule mod_mod_cancel) simp
  ultimately have "uint b mod 16 = 15 \<longleftrightarrow> (uint b + 1) mod 256 mod 16 = 0" "(uint b + 1) mod 256 = 128 \<longleftrightarrow> uint b = 127"
    by simp_all
  then show ?thesis
    unfolding inc_tables [OF le] inc_flags_def Let_def sint_edges u32_eq_iff [of _ "0x80"] uint_ucast_byte
      uint_byte_plus_1 and_15_mod
    by (auto simp: at_bit intro!: arg_cong2 [where f = pair])
qed

lemma minus_1_127: "(uint (b::byte) - 1) mod 256 = 127 \<longleftrightarrow> uint b = 128"
proof (cases "uint b = 0")
  case False
  then have "0 \<le> uint b - 1" "uint b - 1 < 256" using uint_byte_bounds [of b] by linarith+
  then show ?thesis by (simp add: mod_pos_pos_trivial)
qed simp

lemma dec_core_high:
  "lw ((x AND NOT 0xfe) OR tbl decTable (ucast (b - 1)) OR SET_PV2 (ucast (b - 1)) 0x7f) =
   pair (hi (lw x)) (dec_flags b (lo (lw x)))"
  for b :: byte
proof -
  have "uint b mod 16 = 0 \<longleftrightarrow> (uint b - 1) mod 16 = 15" by presburger
  moreover note minus_1_127 [of b]
  moreover have "(uint b - 1) mod 256 mod 16 = (uint b - 1) mod 16" by (rule mod_mod_cancel) simp
  ultimately have "uint b mod 16 = 0 \<longleftrightarrow> (uint b - 1) mod 256 mod 16 = 15" "(uint b - 1) mod 256 = 127 \<longleftrightarrow> uint b = 128"
    by simp_all
  then show ?thesis
    using dec_tables [of x "ucast (b - 1)"]
    unfolding ucast_byte_and_255 dec_flags_def Let_def sint_edges u32_eq_iff [of _ "0x7f"] uint_ucast_byte
      uint_byte_minus_1 and_15_mod
    by (auto simp: at_bit intro!: arg_cong2 [where f = pair])
qed

lemma dec_core:
  "lw ((x AND NOT 0xfe) OR tbl decTable ((ucast b - 1) AND 0xff) OR SET_PV2 (ucast b - 1) 0x7f) =
   pair (hi (lw x)) (dec_flags b (lo (lw x)))"
  for b :: byte
proof -
  have low: "(ucast b - 1 :: u32) AND 255 = ucast (b - 1)"
    using ucast_diff [of b 0 True] unfolding low8_ucast by simp
  have "(ucast b - 1 :: u32) = 0x7f \<longleftrightarrow> (ucast b :: u32) = 0x80"
    by (auto simp: diff_eq_eq)
  also have "\<dots> \<longleftrightarrow> uint b = 128"
    unfolding u32_eq_iff uint_ucast_byte by simp
  also have "\<dots> \<longleftrightarrow> ucast (b - 1) = (0x7f :: u32)"
    unfolding u32_eq_iff uint_ucast_byte uint_byte_minus_1 by (simp add: minus_1_127)
  finally have "SET_PV2 (ucast b - 1) 0x7f = SET_PV2 (ucast (b - 1)) 0x7f"
    by (simp add: SET_PV2_def)
  then show ?thesis using dec_core_high [of x b] low by simp
qed

section \<open>Sixteen bits\<close>

lemma and_65535: "(x::u32) AND 65535 = ucast (lw x)"
proof -
  have "x AND 65535 = take_bit 16 x" by (simp add: take_bit_eq_mask mask_eq_exp_minus_1)
  then show ?thesis by (intro bit_word_eqI) (auto simp: bit_unsigned_iff bit_take_bit_iff)
qed

lemma uint_u16_bounds:
  fixes a :: u16
  shows "0 \<le> uint a" "uint a < 65536"
  using uint_bounded [of a] by simp_all

lemma uint_sum16:
  fixes a b :: u16
  shows "uint (ucast a + ucast b + of_bool c :: u32) = uint a + uint b + of_bool c"
proof -
  have "0 \<le> uint a + uint b + of_bool c" "uint a + uint b + of_bool c < 2 ^ 32"
    using uint_u16_bounds [of a] uint_u16_bounds [of b] by (cases c; simp)+
  then show ?thesis
    unfolding sum_int uint_word_of_int by (simp add: mod_pos_pos_trivial)
qed

lemma cbits16_le:
  fixes a b :: u16
  shows "uint (drop_bit 8 (ucast a XOR ucast b XOR (ucast a + ucast b + of_bool c)) :: u32) \<le> 511"
proof (rule u32_le_511)
  fix n :: nat
  assume "9 \<le> n"
  then have "(2::int) ^ 17 \<le> 2 ^ (8 + n)" by (intro power_increasing) simp_all
  moreover have "take_bit (8 + n) (uint a) \<le> uint a" "take_bit (8 + n) (uint b) \<le> uint b"
    by (simp_all add: take_bit_int_less_eq_self_iff)
  moreover have "of_bool c \<le> (1::int)" by simp
  ultimately have "\<not> (2::int) ^ (8 + n) \<le> take_bit (8 + n) (uint a) + take_bit (8 + n) (uint b) + of_bool c"
    using uint_u16_bounds [of a] uint_u16_bounds [of b] by auto
  then show "\<not> bit (drop_bit 8 (ucast a XOR ucast b XOR (ucast a + ucast b + of_bool c)) :: u32) n"
    unfolding bit_drop_bit_eq o_def cbits_add by blast
qed

lemma add16_tables:
  assumes "uint (drop_bit 8 k) \<le> 511"
  shows "lw ((x AND NOT 0x3b) OR (drop_bit 8 s AND 0x28) OR tbl cbitsTable (drop_bit 8 k)) =
    pair (hi (lw x)) (flags (bit x 7) (bit x 6) (bit s 13) (bit k 12) (bit s 11) (bit x 2) False (bit k 16))"
  by (rule lw_pairI)
    (simp_all add: assms bit_flags at_bit cbits_t.lookup_bit f_cbits_def bit_uint_iff)

lemma take_u16: "take_bit 16 (uint (a::u16)) = uint a" "take_bit 12 (uint a) = uint a mod 4096"
  using uint_u16_bounds [of a] by (simp_all add: take_bit_int_eq_self) (simp_all add: take_bit_eq_mod)

lemma add16_core_carry:
  fixes a b :: u16
  assumes "\<not> c"
  shows "lw ((x AND NOT 0x3b) OR (drop_bit 8 (ucast a + ucast b + of_bool c) AND 0x28) OR
             tbl cbitsTable (drop_bit 8 (ucast a XOR ucast b XOR (ucast a + ucast b + of_bool c)))) =
    pair (hi (lw x)) (add16_flags a b (lo (lw x)))"
  unfolding add16_tables [OF cbits16_le] cbits_add add16_flags_def Let_def take_u16
  using assms bit_sum [of 13 a b False] bit_sum [of 11 a b False] by (simp add: at_bit)

lemmas add16_core = add16_core_carry [where c = False, unfolded of_bool_eq add_0_right not_False_eq_True, OF TrueI]

lemma dup16_core:
  fixes a :: u16
  shows "lw ((x AND NOT 0x3b) OR tbl cbitsDup16Table (drop_bit 8 (ucast a + ucast a))) =
    pair (hi (lw x)) (add16_flags a a (lo (lw x)))"
proof -
  have "lw ((x AND NOT 0x3b) OR tbl cbitsDup16Table (drop_bit 8 s)) =
      lw ((x AND NOT 0x3b) OR (drop_bit 8 s AND 0x28) OR tbl cbitsTable (drop_bit 8 s))"
    if "uint (drop_bit 8 s) \<le> 511" for s
    unfolding add16_tables [OF that]
    by (rule lw_pairI)
      (simp_all add: that bit_flags at_bit cbitsDup16_t.lookup_bit f_cbitsDup16_def bit_uint_iff)
  with cbits16_le [of a a False] add16_core [of x a a] show ?thesis by simp
qed

section \<open>Accumulator operations\<close>

lemma acc_ops:
  "acc_op 0 a f = (let r = push_bit 1 a OR drop_bit 7 a in pair r (rot_flags r f (bit a 7)))"
  "acc_op 1 a f = (let r = drop_bit 1 a OR push_bit 7 a in pair r (rot_flags r f (bit a 0)))"
  "acc_op 2 a f = (let r = push_bit 1 a OR of_bool (bit f 0) in pair r (rot_flags r f (bit a 7)))"
  "acc_op 3 a f = (let r = drop_bit 1 a OR push_bit 7 (of_bool (bit f 0)) in pair r (rot_flags r f (bit a 0)))"
  "acc_op 4 a f = daa a f"
  "acc_op 5 a f =
     (let r = NOT a in pair r (flags (bit f 7) (bit f 6) (bit r 5) True (bit r 3) (bit f 2) True (bit f 0)))"
  "acc_op 6 a f = pair a (flags (bit f 7) (bit f 6) (bit a 5) False (bit a 3) (bit f 2) False True)"
  "acc_op 7 a f =
     pair a (flags (bit f 7) (bit f 6) (bit a 5) (bit f 0) (bit a 3) (bit f 2) False (\<not> bit f 0))"
  by (simp_all add: acc_op_def)

lemma rlca_core:
  "lw ((signed_drop_bit 7 x AND 0x0128) OR (push_bit 1 x AND NOT 0x1ff) OR (x AND 0xc4) OR
       (signed_drop_bit 15 x AND 1)) = acc_op 0 (hi (lw x)) (lo (lw x))"
  unfolding acc_ops Let_def rot_flags_def
  by (rule lw_pairI) (simp_all add: at_bit bit_flags del: push_bit_Suc)

lemma rrca_core:
  "lw ((x AND 0xc4) OR tbl rrcaTable (ucast (hi (lw x)))) = acc_op 1 (hi (lw x)) (lo (lw x))"
  unfolding acc_ops Let_def rot_flags_def
  by (rule lw_pairI) (simp_all add: at_bit bit_flags uint_ucast_le rrca_t.lookup_bit f_rrca_def bit_uint_iff)

lemma rla_core:
  "lw ((push_bit 8 x AND 0x0100) OR (signed_drop_bit 7 x AND 0x28) OR (push_bit 1 x AND NOT 0x01ff) OR
       (x AND 0xc4) OR (signed_drop_bit 15 x AND 1)) = acc_op 2 (hi (lw x)) (lo (lw x))"
  unfolding acc_ops Let_def rot_flags_def
  by (rule lw_pairI) (simp_all add: at_bit bit_flags del: push_bit_Suc)

lemma rra_core:
  "lw (push_bit 15 (x AND 1) OR (x AND 0xc4) OR tbl rraTable (ucast (hi (lw x)))) = acc_op 3 (hi (lw x)) (lo (lw x))"
  unfolding acc_ops Let_def rot_flags_def
  by (rule lw_pairI) (simp_all add: at_bit bit_flags uint_ucast_le rra_t.lookup_bit f_rra_def bit_uint_iff)

lemma cpl_core:
  "lw ((NOT x AND NOT 0xff) OR (x AND 0xc5) OR (signed_drop_bit 8 (NOT x) AND 0x28) OR 0x12) =
   acc_op 5 (hi (lw x)) (lo (lw x))"
  unfolding acc_ops Let_def
  by (rule lw_pairI) (simp_all add: at_bit bit_flags del: push_bit_Suc)

lemma scf_core:
  "lw ((x AND NOT 0x3b) OR (signed_drop_bit 8 x AND 0x28) OR 1) = acc_op 6 (hi (lw x)) (lo (lw x))"
  unfolding acc_ops Let_def
  by (rule lw_pairI) (simp_all add: at_bit bit_flags del: push_bit_Suc)

lemma ccf_core:
  "lw ((x AND NOT 0x3b) OR (signed_drop_bit 8 x AND 0x28) OR push_bit 4 (x AND 1) OR (NOT x AND 1)) =
   acc_op 7 (hi (lw x)) (lo (lw x))"
  unfolding acc_ops Let_def
  by (rule lw_pairI) (simp_all add: at_bit bit_flags del: push_bit_Suc)

section \<open>Register updates\<close>

lemma lw_of_int: "lw (word_of_int k) = word_of_int k"
  by (rule ucast_down_wi) (simp add: is_down)

lemma lw_add: "lw (x + y) = lw x + lw y"
proof -
  have "lw (x + y) = lw (word_of_int (uint x + uint y))" by simp
  also have "\<dots> = word_of_int (uint x) + word_of_int (uint y)" unfolding lw_of_int by simp
  finally show ?thesis unfolding ucast_eq .
qed

lemma lw_diff: "lw (x - y) = lw x - lw y"
proof -
  have "lw (x - y) = lw (word_of_int (uint x - uint y))" by simp
  also have "\<dots> = word_of_int (uint x) - word_of_int (uint y)" unfolding lw_of_int by simp
  finally show ?thesis unfolding ucast_eq .
qed

lemma lw_mult: "lw (x * y) = lw x * lw y"
proof -
  have "lw (x * y) = lw (word_of_int (uint x * uint y))" by simp
  also have "\<dots> = word_of_int (uint x) * word_of_int (uint y)" unfolding lw_of_int by simp
  finally show ?thesis unfolding ucast_eq .
qed

lemma pair_sum: "pair h l = 256 * ucast h + ucast l"
proof -
  have "push_bit 8 (ucast h :: u16) AND ucast l = 0"
    by (rule bit_word_eqI) (auto simp: bit_simps dest: bit_imp_le_length)
  then show ?thesis unfolding pair_def by (simp add: disjunctive_add_eq_or [symmetric] push_bit_eq_mult mult.commute)
qed

lemma pair_int: "pair h l = word_of_int (256 * uint h + uint l)"
  unfolding pair_sum ucast_eq by (simp only: of_int_add of_int_mult of_int_numeral)

lemma wrap_int: "(word_of_int (k mod 65536 + l) :: u16) = word_of_int (k + l)"
proof -
  have "(word_of_int (k mod 65536) :: u16) = word_of_int k"
    using word_of_int_eq_iff [of "k mod 65536" k, where 'a = 16] by (simp add: take_bit_eq_mod)
  then show ?thesis by (simp only: of_int_add)
qed

lemma hi_add_int: "pair (word_of_int k) l = word_of_int (256 * k + uint l)"
proof -
  have "256 * (k mod 256) = (256 * k) mod 65536" by (simp add: mod_mult_mult1 [of 256 k 256, simplified])
  moreover have "uint (word_of_int k :: byte) = k mod 256" by (simp add: uint_word_of_int)
  ultimately show ?thesis unfolding pair_int by (simp only: wrap_int)
qed

lemma hi_step: "pair (hi w + 1) (lo w) = w + 0x100" "pair (hi w - 1) (lo w) = w - 0x100"
proof -
  have w: "w = word_of_int (256 * uint (hi w) + uint (lo w))"
    using pair_int [of "hi w" "lo w"] by simp
  have "hi w + 1 = word_of_int (uint (hi w) + 1)" "hi w - 1 = word_of_int (uint (hi w) - 1)" by simp_all
  then show "pair (hi w + 1) (lo w) = w + 0x100" "pair (hi w - 1) (lo w) = w - 0x100"
    using w hi_add_int [of "uint (hi w) + 1" "lo w"] hi_add_int [of "uint (hi w) - 1" "lo w"]
    by (simp_all add: algebra_simps)
qed

end
