(* ===== verification/Z80_Refine.thy ===== *)
theory Z80_Refine
  imports Z80_Run Z80_Alu
begin

text \<open>
  The emulator of \<open>cpu.h\<close> refines the data sheet machine of \<open>Z80_Spec\<close>: forgetting the upper halves of
  the registers takes the effect of each opcode to the effect the data sheet gives it.
\<close>

section \<open>Abstraction\<close>

definition z80_of :: "'w cpu \<Rightarrow> z80" where
  "z80_of s =
     \<lparr>rAF = ucast (AF s), rBC = ucast (BC s), rDE = ucast (DE s), rHL = ucast (HL s), rPC = ucast (PC s),
      rSP = ucast (SP s), rAF1 = ucast (AF1 s), rBC1 = ucast (BC1 s), rDE1 = ucast (DE1 s),
      rHL1 = ucast (HL1 s), rIFF = IFF s, mem = RAM s\<rparr>"

lemma lw_mask [simp]: "lw (a AND 65535) = lw a"
  by (rule bit_word_eqI) (simp add: and_65535 bit_unsigned_iff)

lemma GET_BYTE_mem: "GET_BYTE s a = ucast (RAM s (lw a))"
  by (simp add: GET_BYTE_def)

lemma PUT_BYTE_mem: "PUT_BYTE a v s = s\<lparr>RAM := (RAM s)(lw a := ucast v)\<rparr>"
proof -
  have "(a AND 65535) < 65536" using word_and_le1 [of a 65535] by (rule le_less_trans) simp
  then show ?thesis by (simp add: PUT_BYTE_def RamWrite_def)
qed

lemmas model_1 =
  op_40_def op_41_def op_42_def op_43_def op_44_def op_45_def op_46_def op_47_def
  op_48_def op_49_def op_4a_def op_4b_def op_4c_def op_4d_def op_4e_def op_4f_def
  op_50_def op_51_def op_52_def op_53_def op_54_def op_55_def op_56_def op_57_def
  op_58_def op_59_def op_5a_def op_5b_def op_5c_def op_5d_def op_5e_def op_5f_def
  op_60_def op_61_def op_62_def op_63_def op_64_def op_65_def op_66_def op_67_def
  op_68_def op_69_def op_6a_def op_6b_def op_6c_def op_6d_def op_6e_def op_6f_def
  op_70_def op_71_def op_72_def op_73_def op_74_def op_75_def op_76_def op_77_def
  op_78_def op_79_def op_7a_def op_7b_def op_7c_def op_7d_def op_7e_def op_7f_def

lemmas exec_1 = exec_def exec1_def get8_def set8_def

lemma lo_shifted: "lo (lw (signed_drop_bit 8 x)) = hi (lw x)"
  by (rule bit_word_eqI) (simp add: at_bit)

lemmas lw_loads = lw_high_high [simplified] lw_high_low [simplified] lw_low_low [simplified] lo_shifted

lemma tst_flags:
  "TSTFLAG s 1 \<longleftrightarrow> bit (lo (lw (AF s))) 0" "TSTFLAG s 4 \<longleftrightarrow> bit (lo (lw (AF s))) 2"
  "TSTFLAG s 2 \<longleftrightarrow> bit (lo (lw (AF s))) 1" "TSTFLAG s 16 \<longleftrightarrow> bit (lo (lw (AF s))) 4"
  "TSTFLAG s 64 \<longleftrightarrow> bit (lo (lw (AF s))) 6" "TSTFLAG s 128 \<longleftrightarrow> bit (lo (lw (AF s))) 7"
proof -
  have "x AND push_bit k 1 \<noteq> 0 \<longleftrightarrow> bit x k" for k and x :: u32
    by (simp add: bit_iff_and_push_bit_not_eq_0)
  from this [where k = 0] this [where k = 1] this [where k = 2] this [where k = 4] this [where k = 6]
    this [where k = 7]
  show "TSTFLAG s 1 \<longleftrightarrow> bit (lo (lw (AF s))) 0" "TSTFLAG s 4 \<longleftrightarrow> bit (lo (lw (AF s))) 2"
    "TSTFLAG s 2 \<longleftrightarrow> bit (lo (lw (AF s))) 1" "TSTFLAG s 16 \<longleftrightarrow> bit (lo (lw (AF s))) 4"
    "TSTFLAG s 64 \<longleftrightarrow> bit (lo (lw (AF s))) 6" "TSTFLAG s 128 \<longleftrightarrow> bit (lo (lw (AF s))) 7"
    by (simp_all add: TSTFLAG_def at_bit push_bit_eq_mult)
qed

lemma lo_byte [simp]: "lo (lw (ucast m)) = m"
  by (rule bit_word_eqI) (simp add: at_bit)

lemma hi_logic:
  "hi (lw (x AND y)) = hi (lw x) AND hi (lw y)" "hi (lw (x OR y)) = hi (lw x) OR hi (lw y)"
  "hi (lw (x XOR y)) = hi (lw x) XOR hi (lw y)"
  by (rule bit_word_eqI; auto simp: at_bit)+

lemma logic_index:
  "signed_drop_bit 8 (x AND y) AND 0xff = (ucast (hi (lw x) AND hi (lw y)) :: u32)"
  "signed_drop_bit 8 (x OR y) AND 0xff = (ucast (hi (lw x) OR hi (lw y)) :: u32)"
  "signed_drop_bit 8 (x XOR y) AND 0xff = (ucast (hi (lw x) XOR hi (lw y)) :: u32)"
  "(signed_drop_bit 8 x AND z) AND 0xff = (ucast (hi (lw x) AND lo (lw z)) :: u32)"
  "(signed_drop_bit 8 x OR z) AND 0xff = (ucast (hi (lw x) OR lo (lw z)) :: u32)"
  "(signed_drop_bit 8 x XOR z) AND 0xff = (ucast (hi (lw x) XOR lo (lw z)) :: u32)"
  "signed_drop_bit 8 x AND 0xff = (ucast (hi (lw x)) :: u32)"
  by (rule bit_word_eqI; auto simp: and_255 at_bit)+

lemmas model_2 =
  op_80_def op_81_def op_82_def op_83_def op_84_def op_85_def op_86_def op_87_def
  op_88_def op_89_def op_8a_def op_8b_def op_8c_def op_8d_def op_8e_def op_8f_def
  op_90_def op_91_def op_92_def op_93_def op_94_def op_95_def op_96_def op_97_def
  op_98_def op_99_def op_9a_def op_9b_def op_9c_def op_9d_def op_9e_def op_9f_def
  op_a0_def op_a1_def op_a2_def op_a3_def op_a4_def op_a5_def op_a6_def op_a7_def
  op_a8_def op_a9_def op_aa_def op_ab_def op_ac_def op_ad_def op_ae_def op_af_def
  op_b0_def op_b1_def op_b2_def op_b3_def op_b4_def op_b5_def op_b6_def op_b7_def
  op_b8_def op_b9_def op_ba_def op_bb_def op_bc_def op_bd_def op_be_def op_bf_def

lemma alu_at:
  "alu 0 a b c = add8 a b False" "alu (Suc 0) a b c = add8 a b c" "alu 2 a b c = sub8 a b False" "alu 3 a b c = sub8 a b c"
  "alu 4 a b c = pair (a AND b) (logic_flags (a AND b) True)"
  "alu 5 a b c = pair (a XOR b) (logic_flags (a XOR b) False)"
  "alu 6 a b c = pair (a OR b) (logic_flags (a OR b) False)"
  "alu 7 a b c = pair a (sub_flags a b False b)"
  by (simp_all add: alu_def)

lemma sub8_self: "sub8 a a False = 66"
  by (simp add: sub8_def sub_flags_def flags_def pair_def)

lemma xor_self: "pair 0 (logic_flags 0 False) = 68"
  by (simp add: logic_flags_def even_parity_def flags_def pair_def)

lemma cp_self:
  "lw (SET_LOW_REGISTER x (HIGH_REGISTER x AND 0x28 OR 0x42)) =
   pair (hi (lw x)) (sub_flags (hi (lw x)) (hi (lw x)) False (hi (lw x)))"
  unfolding SET_LOW_REGISTER_def HIGH_REGISTER_hi sub_flags_def Let_def
  by (rule lw_pairI) (simp_all add: at_bit bit_flags)

lemma cp_acc: "hi (lw ((x AND NOT 0x28) OR (ucast (t::byte) AND 0x28))) = hi (lw x)"
  by (rule bit_cases_8) (simp_all add: at_bit)

lemma SET_PV_0: "tbl subTable 0 OR tbl cbitsTable 0 OR SET_PV 0 = 66"
  by (simp add: SET_PV_def tbl_def subTable_def cbitsTable_def)

lemmas self_flags = SET_PV_0 sub8_self xor_self cp_self [unfolded HIGH_REGISTER_hi lw_SET_LOW]
  sub_core [of a a True for a, simplified] sub_core [of a a False for a, simplified]

lemmas exec_2 = self_flags exec_def exec2_def get8_def alu_at

lemmas refine_simps = z80_of_def Let_def GET_BYTE_mem PUT_BYTE_mem LOW_REGISTER_lo HIGH_REGISTER_hi lw_SET_LOW
  lw_SET_HIGH

lemma refine_1:
  "z80_of (op_40 s) = exec 0x40 (z80_of s)"
  "z80_of (op_41 s) = exec 0x41 (z80_of s)"
  "z80_of (op_42 s) = exec 0x42 (z80_of s)"
  "z80_of (op_43 s) = exec 0x43 (z80_of s)"
  "z80_of (op_44 s) = exec 0x44 (z80_of s)"
  "z80_of (op_45 s) = exec 0x45 (z80_of s)"
  "z80_of (op_46 s) = exec 0x46 (z80_of s)"
  "z80_of (op_47 s) = exec 0x47 (z80_of s)"
  "z80_of (op_48 s) = exec 0x48 (z80_of s)"
  "z80_of (op_49 s) = exec 0x49 (z80_of s)"
  "z80_of (op_4a s) = exec 0x4a (z80_of s)"
  "z80_of (op_4b s) = exec 0x4b (z80_of s)"
  "z80_of (op_4c s) = exec 0x4c (z80_of s)"
  "z80_of (op_4d s) = exec 0x4d (z80_of s)"
  "z80_of (op_4e s) = exec 0x4e (z80_of s)"
  "z80_of (op_4f s) = exec 0x4f (z80_of s)"
  "z80_of (op_50 s) = exec 0x50 (z80_of s)"
  "z80_of (op_51 s) = exec 0x51 (z80_of s)"
  "z80_of (op_52 s) = exec 0x52 (z80_of s)"
  "z80_of (op_53 s) = exec 0x53 (z80_of s)"
  "z80_of (op_54 s) = exec 0x54 (z80_of s)"
  "z80_of (op_55 s) = exec 0x55 (z80_of s)"
  "z80_of (op_56 s) = exec 0x56 (z80_of s)"
  "z80_of (op_57 s) = exec 0x57 (z80_of s)"
  "z80_of (op_58 s) = exec 0x58 (z80_of s)"
  "z80_of (op_59 s) = exec 0x59 (z80_of s)"
  "z80_of (op_5a s) = exec 0x5a (z80_of s)"
  "z80_of (op_5b s) = exec 0x5b (z80_of s)"
  "z80_of (op_5c s) = exec 0x5c (z80_of s)"
  "z80_of (op_5d s) = exec 0x5d (z80_of s)"
  "z80_of (op_5e s) = exec 0x5e (z80_of s)"
  "z80_of (op_5f s) = exec 0x5f (z80_of s)"
  "z80_of (op_60 s) = exec 0x60 (z80_of s)"
  "z80_of (op_61 s) = exec 0x61 (z80_of s)"
  "z80_of (op_62 s) = exec 0x62 (z80_of s)"
  "z80_of (op_63 s) = exec 0x63 (z80_of s)"
  "z80_of (op_64 s) = exec 0x64 (z80_of s)"
  "z80_of (op_65 s) = exec 0x65 (z80_of s)"
  "z80_of (op_66 s) = exec 0x66 (z80_of s)"
  "z80_of (op_67 s) = exec 0x67 (z80_of s)"
  "z80_of (op_68 s) = exec 0x68 (z80_of s)"
  "z80_of (op_69 s) = exec 0x69 (z80_of s)"
  "z80_of (op_6a s) = exec 0x6a (z80_of s)"
  "z80_of (op_6b s) = exec 0x6b (z80_of s)"
  "z80_of (op_6c s) = exec 0x6c (z80_of s)"
  "z80_of (op_6d s) = exec 0x6d (z80_of s)"
  "z80_of (op_6e s) = exec 0x6e (z80_of s)"
  "z80_of (op_6f s) = exec 0x6f (z80_of s)"
  "z80_of (op_70 s) = exec 0x70 (z80_of s)"
  "z80_of (op_71 s) = exec 0x71 (z80_of s)"
  "z80_of (op_72 s) = exec 0x72 (z80_of s)"
  "z80_of (op_73 s) = exec 0x73 (z80_of s)"
  "z80_of (op_74 s) = exec 0x74 (z80_of s)"
  "z80_of (op_75 s) = exec 0x75 (z80_of s)"
  "z80_of (op_76 s) = exec 0x76 (z80_of s)"
  "z80_of (op_77 s) = exec 0x77 (z80_of s)"
  "z80_of (op_78 s) = exec 0x78 (z80_of s)"
  "z80_of (op_79 s) = exec 0x79 (z80_of s)"
  "z80_of (op_7a s) = exec 0x7a (z80_of s)"
  "z80_of (op_7b s) = exec 0x7b (z80_of s)"
  "z80_of (op_7c s) = exec 0x7c (z80_of s)"
  "z80_of (op_7d s) = exec 0x7d (z80_of s)"
  "z80_of (op_7e s) = exec 0x7e (z80_of s)"
  "z80_of (op_7f s) = exec 0x7f (z80_of s)"
  by (simp_all add: refine_simps model_1 exec_1 lw_loads lw_diff)

lemma refine_2:
  "z80_of (op_80 s) = exec 0x80 (z80_of s)"
  "z80_of (op_81 s) = exec 0x81 (z80_of s)"
  "z80_of (op_82 s) = exec 0x82 (z80_of s)"
  "z80_of (op_83 s) = exec 0x83 (z80_of s)"
  "z80_of (op_84 s) = exec 0x84 (z80_of s)"
  "z80_of (op_85 s) = exec 0x85 (z80_of s)"
  "z80_of (op_86 s) = exec 0x86 (z80_of s)"
  "z80_of (op_87 s) = exec 0x87 (z80_of s)"
  "z80_of (op_88 s) = exec 0x88 (z80_of s)"
  "z80_of (op_89 s) = exec 0x89 (z80_of s)"
  "z80_of (op_8a s) = exec 0x8a (z80_of s)"
  "z80_of (op_8b s) = exec 0x8b (z80_of s)"
  "z80_of (op_8c s) = exec 0x8c (z80_of s)"
  "z80_of (op_8d s) = exec 0x8d (z80_of s)"
  "z80_of (op_8e s) = exec 0x8e (z80_of s)"
  "z80_of (op_8f s) = exec 0x8f (z80_of s)"
  "z80_of (op_90 s) = exec 0x90 (z80_of s)"
  "z80_of (op_91 s) = exec 0x91 (z80_of s)"
  "z80_of (op_92 s) = exec 0x92 (z80_of s)"
  "z80_of (op_93 s) = exec 0x93 (z80_of s)"
  "z80_of (op_94 s) = exec 0x94 (z80_of s)"
  "z80_of (op_95 s) = exec 0x95 (z80_of s)"
  "z80_of (op_96 s) = exec 0x96 (z80_of s)"
  "z80_of (op_97 s) = exec 0x97 (z80_of s)"
  "z80_of (op_98 s) = exec 0x98 (z80_of s)"
  "z80_of (op_99 s) = exec 0x99 (z80_of s)"
  "z80_of (op_9a s) = exec 0x9a (z80_of s)"
  "z80_of (op_9b s) = exec 0x9b (z80_of s)"
  "z80_of (op_9c s) = exec 0x9c (z80_of s)"
  "z80_of (op_9d s) = exec 0x9d (z80_of s)"
  "z80_of (op_9e s) = exec 0x9e (z80_of s)"
  "z80_of (op_9f s) = exec 0x9f (z80_of s)"
  "z80_of (op_a0 s) = exec 0xa0 (z80_of s)"
  "z80_of (op_a1 s) = exec 0xa1 (z80_of s)"
  "z80_of (op_a2 s) = exec 0xa2 (z80_of s)"
  "z80_of (op_a3 s) = exec 0xa3 (z80_of s)"
  "z80_of (op_a4 s) = exec 0xa4 (z80_of s)"
  "z80_of (op_a5 s) = exec 0xa5 (z80_of s)"
  "z80_of (op_a6 s) = exec 0xa6 (z80_of s)"
  "z80_of (op_a7 s) = exec 0xa7 (z80_of s)"
  "z80_of (op_a8 s) = exec 0xa8 (z80_of s)"
  "z80_of (op_a9 s) = exec 0xa9 (z80_of s)"
  "z80_of (op_aa s) = exec 0xaa (z80_of s)"
  "z80_of (op_ab s) = exec 0xab (z80_of s)"
  "z80_of (op_ac s) = exec 0xac (z80_of s)"
  "z80_of (op_ad s) = exec 0xad (z80_of s)"
  "z80_of (op_ae s) = exec 0xae (z80_of s)"
  "z80_of (op_af s) = exec 0xaf (z80_of s)"
  "z80_of (op_b0 s) = exec 0xb0 (z80_of s)"
  "z80_of (op_b1 s) = exec 0xb1 (z80_of s)"
  "z80_of (op_b2 s) = exec 0xb2 (z80_of s)"
  "z80_of (op_b3 s) = exec 0xb3 (z80_of s)"
  "z80_of (op_b4 s) = exec 0xb4 (z80_of s)"
  "z80_of (op_b5 s) = exec 0xb5 (z80_of s)"
  "z80_of (op_b6 s) = exec 0xb6 (z80_of s)"
  "z80_of (op_b7 s) = exec 0xb7 (z80_of s)"
  by (simp_all add: refine_simps model_2 exec_2 tst_flags hi_logic add_core add_core_plain sub_core sub_core_plain and_core xoror_core logic_index dup_core [where c = True, simplified] dup_core [where c = False, simplified])

lemma refine_2_cp:
  "z80_of (op_b8 s) = exec 0xb8 (z80_of s)"
  "z80_of (op_b9 s) = exec 0xb9 (z80_of s)"
  "z80_of (op_ba s) = exec 0xba (z80_of s)"
  "z80_of (op_bb s) = exec 0xbb (z80_of s)"
  "z80_of (op_bc s) = exec 0xbc (z80_of s)"
  "z80_of (op_bd s) = exec 0xbd (z80_of s)"
  "z80_of (op_be s) = exec 0xbe (z80_of s)"
  "z80_of (op_bf s) = exec 0xbf (z80_of s)"
  by (simp_all add: refine_simps model_2 exec_2 cp_core [simplified] cp_acc [simplified])


section \<open>Block 0\<close>

lemma lw_numeral [simp]: "lw (numeral k) = numeral k"
  by (rule ucast_down_no) (simp add: is_down)

lemma lw_word [simp]: "lw (ucast (w::u16)) = w"
  by (rule bit_word_eqI) (simp add: bit_unsigned_iff)

lemma GET_WORD_mem: "GET_WORD s a = ucast (pair (RAM s (lw a + 1)) (RAM s (lw a)))"
proof -
  have "lw (a + 1) = lw a + 1" by (simp add: lw_add)
  then show ?thesis
    unfolding GET_WORD_def GET_BYTE_mem
    by (intro bit_word_eqI) (auto simp: at_bit bit_pair dest: bit_imp_le_length)
qed

lemma hi_of_step: "hi (w + 0x100) = hi w + 1" "lo (w + 0x100) = lo w" "hi (w - 0x100) = hi w - 1" "lo (w - 0x100) = lo w"
  by (simp_all flip: hi_step)

lemma byte_step: "(ucast (ucast (b::byte) + 1 :: u32) :: byte) = b + 1" "(ucast (ucast b - 1 :: u32) :: byte) = b - 1"
  using ucast_sum [of b 0 True] ucast_diff [of b 0 True] by simp_all

lemma jump_offset: "lw (int8 (ucast (d::byte))) = scast d"
  by (rule bit_word_eqI) (auto simp: int8_def bit_signed_iff bit_unsigned_iff min_def)

lemma high_zero: "x AND 0xff00 = 0 \<longleftrightarrow> hi (lw x) = 0" for x :: u32
proof -
  have "x AND 0xff00 = push_bit 8 (ucast (hi (lw x)))"
  proof (rule bit_word_eqI)
    fix n :: nat
    assume "n < LENGTH(32)"
    have "(0xff00 :: u32) = push_bit 8 (mask 8)" by (simp add: push_bit_eq_mult mask_eq_exp_minus_1)
    then show "bit (x AND 0xff00) n = bit (push_bit 8 (ucast (hi (lw x))) :: u32) n"
      by (simp only: at_bit bit_mask_iff) auto
  qed
  moreover have "hi (lw (x AND 0xff00)) = hi (lw x)"
    by (rule bit_cases_8) (simp_all add: at_bit)
  ultimately show ?thesis by (auto simp: hi_def)
qed

lemmas acc_cores = rlca_core [simplified] rrca_core [simplified] rla_core [simplified] rra_core [simplified]
  cpl_core [simplified] scf_core [simplified] ccf_core [simplified]

lemmas model_0 =
  op_00_def op_01_def op_02_def op_03_def op_04_def op_05_def op_06_def op_07_def
  op_08_def op_09_def op_0a_def op_0b_def op_0c_def op_0d_def op_0e_def op_0f_def
  op_10_def op_11_def op_12_def op_13_def op_14_def op_15_def op_16_def op_17_def
  op_18_def op_19_def op_1a_def op_1b_def op_1c_def op_1d_def op_1e_def op_1f_def
  op_20_def op_21_def op_23_def op_24_def op_25_def op_26_def
  op_28_def op_29_def op_2a_def op_2b_def op_2c_def op_2d_def op_2e_def op_2f_def
  op_30_def op_31_def op_32_def op_33_def op_34_def op_35_def op_36_def op_37_def
  op_38_def op_39_def op_3a_def op_3b_def op_3c_def op_3d_def op_3e_def op_3f_def

lemmas exec_0 = exec_def exec0_def get8_def set8_def get16_def set16_def jump_rel_def flag_cond_def word_at_def

lemmas inc_dec = inc_core [simplified] inc_core_high [simplified] dec_core [simplified] dec_core_high [simplified]

lemma refine_0:
  "z80_of (op_00 s) = exec 0x00 (z80_of s)"
  "z80_of (op_01 s) = exec 0x01 (z80_of s)"
  "z80_of (op_02 s) = exec 0x02 (z80_of s)"
  "z80_of (op_03 s) = exec 0x03 (z80_of s)"
  "z80_of (op_04 s) = exec 0x04 (z80_of s)"
  "z80_of (op_05 s) = exec 0x05 (z80_of s)"
  "z80_of (op_06 s) = exec 0x06 (z80_of s)"
  "z80_of (op_07 s) = exec 0x07 (z80_of s)"
  "z80_of (op_08 s) = exec 0x08 (z80_of s)"
  "z80_of (op_0a s) = exec 0x0a (z80_of s)"
  "z80_of (op_0b s) = exec 0x0b (z80_of s)"
  "z80_of (op_0c s) = exec 0x0c (z80_of s)"
  "z80_of (op_0d s) = exec 0x0d (z80_of s)"
  "z80_of (op_0e s) = exec 0x0e (z80_of s)"
  "z80_of (op_0f s) = exec 0x0f (z80_of s)"
  "z80_of (op_10 s) = exec 0x10 (z80_of s)"
  "z80_of (op_11 s) = exec 0x11 (z80_of s)"
  "z80_of (op_12 s) = exec 0x12 (z80_of s)"
  "z80_of (op_13 s) = exec 0x13 (z80_of s)"
  "z80_of (op_14 s) = exec 0x14 (z80_of s)"
  "z80_of (op_15 s) = exec 0x15 (z80_of s)"
  "z80_of (op_16 s) = exec 0x16 (z80_of s)"
  "z80_of (op_17 s) = exec 0x17 (z80_of s)"
  "z80_of (op_18 s) = exec 0x18 (z80_of s)"
  "z80_of (op_1a s) = exec 0x1a (z80_of s)"
  "z80_of (op_1b s) = exec 0x1b (z80_of s)"
  "z80_of (op_1c s) = exec 0x1c (z80_of s)"
  "z80_of (op_1d s) = exec 0x1d (z80_of s)"
  "z80_of (op_1e s) = exec 0x1e (z80_of s)"
  "z80_of (op_1f s) = exec 0x1f (z80_of s)"
  "z80_of (op_20 s) = exec 0x20 (z80_of s)"
  "z80_of (op_21 s) = exec 0x21 (z80_of s)"
  "z80_of (op_23 s) = exec 0x23 (z80_of s)"
  "z80_of (op_24 s) = exec 0x24 (z80_of s)"
  "z80_of (op_25 s) = exec 0x25 (z80_of s)"
  "z80_of (op_26 s) = exec 0x26 (z80_of s)"
  "z80_of (op_28 s) = exec 0x28 (z80_of s)"
  "z80_of (op_2a s) = exec 0x2a (z80_of s)"
  "z80_of (op_2b s) = exec 0x2b (z80_of s)"
  "z80_of (op_2c s) = exec 0x2c (z80_of s)"
  "z80_of (op_2d s) = exec 0x2d (z80_of s)"
  "z80_of (op_2e s) = exec 0x2e (z80_of s)"
  "z80_of (op_2f s) = exec 0x2f (z80_of s)"
  "z80_of (op_30 s) = exec 0x30 (z80_of s)"
  "z80_of (op_31 s) = exec 0x31 (z80_of s)"
  "z80_of (op_32 s) = exec 0x32 (z80_of s)"
  "z80_of (op_33 s) = exec 0x33 (z80_of s)"
  "z80_of (op_34 s) = exec 0x34 (z80_of s)"
  "z80_of (op_35 s) = exec 0x35 (z80_of s)"
  "z80_of (op_36 s) = exec 0x36 (z80_of s)"
  "z80_of (op_37 s) = exec 0x37 (z80_of s)"
  "z80_of (op_38 s) = exec 0x38 (z80_of s)"
  "z80_of (op_3a s) = exec 0x3a (z80_of s)"
  "z80_of (op_3b s) = exec 0x3b (z80_of s)"
  "z80_of (op_3c s) = exec 0x3c (z80_of s)"
  "z80_of (op_3d s) = exec 0x3d (z80_of s)"
  "z80_of (op_3e s) = exec 0x3e (z80_of s)"
  "z80_of (op_3f s) = exec 0x3f (z80_of s)"
  by (simp_all add: refine_simps model_0 exec_0 GET_WORD_mem lw_add lw_diff hi_of_step hi_step byte_step jump_offset inc_dec tst_flags acc_cores high_zero)

lemma refine_0_add:
  "z80_of (op_09 s) = exec 0x09 (z80_of s)"
  "z80_of (op_19 s) = exec 0x19 (z80_of s)"
  "z80_of (op_29 s) = exec 0x29 (z80_of s)"
  "z80_of (op_39 s) = exec 0x39 (z80_of s)"
  by (simp_all add: refine_simps model_0 exec_0 and_65535 lw_add lw_mult add16_core [simplified] dup16_core [simplified])


section \<open>Block 3\<close>

lemma byte_hi: "(ucast (drop_bit 8 x) :: byte) = hi (lw x)" for x :: u32
  by (rule bit_word_eqI) (simp add: at_bit)

lemma byte_lo: "(ucast x :: byte) = lo (lw x)" for x :: u32
  by (rule bit_word_eqI) (simp add: at_bit)

lemma lw_less: "lw (x - 1) = lw x - 1" "lw (x - 2) = lw x - 2" "lw (x + 1) = lw x + 1" "lw (x + 2) = lw x + 2"
  unfolding lw_add lw_diff by simp_all

lemma PUSH_mem:
  "PUSH x s = s\<lparr>SP := SP s - 2, RAM := (RAM s)(lw (SP s) - 1 := hi (lw x), lw (SP s) - 2 := lo (lw x))\<rparr>"
  by (simp add: PUSH_def Let_def PUT_BYTE_mem byte_hi lw_less flip: byte_lo)

lemma POP_mem: "POP s = (ucast (pair (RAM s (lw (SP s) + 1)) (RAM s (lw (SP s)))), s\<lparr>SP := SP s + 2\<rparr>)"
proof -
  have "ucast l + push_bit 8 (ucast h) = (ucast (pair h l) :: u32)" for h l :: byte
  proof -
    have "ucast l AND push_bit 8 (ucast h) = (0 :: u32)"
      by (rule bit_word_eqI) (auto simp: at_bit dest: bit_imp_le_length)
    then have "ucast l + push_bit 8 (ucast h) = (ucast l OR push_bit 8 (ucast h) :: u32)"
      by (rule disjunctive_add_eq_or)
    also have "\<dots> = ucast (pair h l)"
      by (rule bit_word_eqI) (auto simp: at_bit dest: bit_imp_le_length)
    finally show ?thesis .
  qed
  then show ?thesis
    unfolding POP_def Let_def GET_BYTE_mem by (simp add: lw_add)
qed

lemmas model_3 =
  op_c0_def op_c1_def op_c2_def op_c3_def op_c4_def op_c5_def op_c6_def op_c7_def
  op_c8_def op_c9_def op_ca_def op_cc_def op_cd_def op_ce_def op_cf_def
  op_d0_def op_d1_def op_d2_def op_d4_def op_d5_def op_d6_def op_d7_def
  op_d8_def op_d9_def op_da_def op_dc_def op_de_def op_df_def
  op_e0_def op_e1_def op_e2_def op_e3_def op_e4_def op_e5_def op_e6_def op_e7_def
  op_e8_def op_e9_def op_ea_def op_eb_def op_ec_def op_ee_def op_ef_def
  op_f0_def op_f1_def op_f2_def op_f3_def op_f4_def op_f5_def op_f6_def op_f7_def
  op_f8_def op_f9_def op_fa_def op_fb_def op_fc_def op_fe_def op_ff_def
  JPC_def CALLC_def

lemmas exec_3 = exec_def exec3_def flag_cond_def word_at_def ret_def popped_def drop_top_def get16s_def set16s_def
  get16_def set16_def push_def jump_def call_def alu_at

lemma refine_3:
  "z80_of (op_c0 s) = exec 0xc0 (z80_of s)"
  "z80_of (op_c1 s) = exec 0xc1 (z80_of s)"
  "z80_of (op_c2 s) = exec 0xc2 (z80_of s)"
  "z80_of (op_c3 s) = exec 0xc3 (z80_of s)"
  "z80_of (op_c4 s) = exec 0xc4 (z80_of s)"
  "z80_of (op_c5 s) = exec 0xc5 (z80_of s)"
  "z80_of (op_c6 s) = exec 0xc6 (z80_of s)"
  "z80_of (op_c7 s) = exec 0xc7 (z80_of s)"
  "z80_of (op_c8 s) = exec 0xc8 (z80_of s)"
  "z80_of (op_c9 s) = exec 0xc9 (z80_of s)"
  "z80_of (op_ca s) = exec 0xca (z80_of s)"
  "z80_of (op_cc s) = exec 0xcc (z80_of s)"
  "z80_of (op_cd s) = exec 0xcd (z80_of s)"
  "z80_of (op_ce s) = exec 0xce (z80_of s)"
  "z80_of (op_cf s) = exec 0xcf (z80_of s)"
  "z80_of (op_d0 s) = exec 0xd0 (z80_of s)"
  "z80_of (op_d1 s) = exec 0xd1 (z80_of s)"
  "z80_of (op_d2 s) = exec 0xd2 (z80_of s)"
  "z80_of (op_d4 s) = exec 0xd4 (z80_of s)"
  "z80_of (op_d5 s) = exec 0xd5 (z80_of s)"
  "z80_of (op_d6 s) = exec 0xd6 (z80_of s)"
  "z80_of (op_d7 s) = exec 0xd7 (z80_of s)"
  "z80_of (op_d8 s) = exec 0xd8 (z80_of s)"
  "z80_of (op_d9 s) = exec 0xd9 (z80_of s)"
  "z80_of (op_da s) = exec 0xda (z80_of s)"
  "z80_of (op_dc s) = exec 0xdc (z80_of s)"
  "z80_of (op_de s) = exec 0xde (z80_of s)"
  "z80_of (op_df s) = exec 0xdf (z80_of s)"
  "z80_of (op_e0 s) = exec 0xe0 (z80_of s)"
  "z80_of (op_e1 s) = exec 0xe1 (z80_of s)"
  "z80_of (op_e2 s) = exec 0xe2 (z80_of s)"
  "z80_of (op_e3 s) = exec 0xe3 (z80_of s)"
  "z80_of (op_e4 s) = exec 0xe4 (z80_of s)"
  "z80_of (op_e5 s) = exec 0xe5 (z80_of s)"
  "z80_of (op_e6 s) = exec 0xe6 (z80_of s)"
  "z80_of (op_e7 s) = exec 0xe7 (z80_of s)"
  "z80_of (op_e8 s) = exec 0xe8 (z80_of s)"
  "z80_of (op_e9 s) = exec 0xe9 (z80_of s)"
  "z80_of (op_ea s) = exec 0xea (z80_of s)"
  "z80_of (op_eb s) = exec 0xeb (z80_of s)"
  "z80_of (op_ec s) = exec 0xec (z80_of s)"
  "z80_of (op_ee s) = exec 0xee (z80_of s)"
  "z80_of (op_ef s) = exec 0xef (z80_of s)"
  "z80_of (op_f0 s) = exec 0xf0 (z80_of s)"
  "z80_of (op_f1 s) = exec 0xf1 (z80_of s)"
  "z80_of (op_f2 s) = exec 0xf2 (z80_of s)"
  "z80_of (op_f3 s) = exec 0xf3 (z80_of s)"
  "z80_of (op_f4 s) = exec 0xf4 (z80_of s)"
  "z80_of (op_f5 s) = exec 0xf5 (z80_of s)"
  "z80_of (op_f6 s) = exec 0xf6 (z80_of s)"
  "z80_of (op_f7 s) = exec 0xf7 (z80_of s)"
  "z80_of (op_f8 s) = exec 0xf8 (z80_of s)"
  "z80_of (op_f9 s) = exec 0xf9 (z80_of s)"
  "z80_of (op_fa s) = exec 0xfa (z80_of s)"
  "z80_of (op_fb s) = exec 0xfb (z80_of s)"
  "z80_of (op_fc s) = exec 0xfc (z80_of s)"
  "z80_of (op_fe s) = exec 0xfe (z80_of s)"
  "z80_of (op_ff s) = exec 0xff (z80_of s)"
  by (simp_all add: refine_simps model_3 exec_3 tst_flags PUSH_mem POP_mem GET_WORD_mem lw_add lw_diff add_core add_core_plain sub_core sub_core_plain and_core xoror_core logic_index dup_core [where c = True, simplified] dup_core [where c = False, simplified] cp_core [simplified] cp_acc [simplified])


end
