(* ===== verification/Z80_Daa.thy ===== *)
theory Z80_Daa
  imports Z80_Refine
begin

text \<open>
  Decimal adjust (\<open>DAA\<close>): the case analysis of the emulator is the correction of the data sheet.
\<close>

lemma and_496: "0 \<le> k \<Longrightarrow> k < 512 \<Longrightarrow> k AND 496 = 16 * (k div 16)" for k :: int
proof -
  assume "0 \<le> k" "k < 512"
  then have "take_bit 9 k = k" by (simp add: take_bit_int_eq_self)
  then have k: "n < 9" if "bit k n" for n using that by (metis bit_take_bit_iff)
  have "(496 :: int) = push_bit 4 (mask 5)" by (simp add: push_bit_eq_mult mask_eq_exp_minus_1)
  then have m: "bit (496 :: int) n \<longleftrightarrow> 4 \<le> n \<and> n < 9" for n
    by (simp only: bit_push_bit_iff bit_mask_iff) auto
  have "k AND 496 = push_bit 4 (drop_bit 4 k)"
    by (rule bit_eqI) (simp only: bit_and_iff bit_push_bit_iff bit_drop_bit_eq m, use k in auto)
  then show ?thesis by (simp add: push_bit_eq_mult drop_bit_eq_div)
qed

text \<open>The last line of the case: result \<open>t\<close>, flags \<open>H\<close> and \<open>N\<close> from \<open>y\<close>.\<close>

lemma daa_end:
  "lw ((y AND 0x12) OR tbl rrdrldTable (t AND 0xff) OR (drop_bit 8 t AND 1) OR of_bool c) =
   pair (ucast t) (flags (bit t 7) ((ucast t :: byte) = 0) (bit t 5) (bit y 4) (bit t 3) (even_parity (ucast t)) (bit y 1)
     (bit t 8 \<or> c))"
proof -
  have "(drop_bit 8 t AND 1) OR of_bool c = (of_bool (bit t 8 \<or> c) :: u32)"
  proof (rule bit_word_eqI)
    fix n :: nat
    show "bit ((drop_bit 8 t AND 1) OR of_bool c) n = bit (of_bool (bit t 8 \<or> c) :: u32) n"
      by (cases n) (simp_all add: at_bit)
  qed
  then show ?thesis
    using rrdrld_core [of y "ucast t" "bit t 8 \<or> c"] unfolding low8_ucast by (simp add: at_bit)
qed

lemma high_digit_test:
  fixes x :: u32
  assumes "uint x < 512"
  shows "0x90 < x AND 0x1f0 \<longleftrightarrow> 160 \<le> uint x"
proof -
  have "uint (x AND 0x1f0) = 16 * (uint x div 16)"
    using and_496 [of "uint x"] assms by (simp add: unsigned_and_eq)
  then have "0x90 < x AND 0x1f0 \<longleftrightarrow> 0x90 < 16 * (uint x div 16)"
    by (simp add: word_less_def)
  then show ?thesis by presburger
qed

lemma bit_8_small: "0 \<le> k \<Longrightarrow> k < 512 \<Longrightarrow> bit k 8 \<longleftrightarrow> 256 \<le> k" for k :: int
proof -
  assume "0 \<le> k" "k < 512"
  then have "k div 256 = (if 256 \<le> k then 1 else 0)"
    using int_div_pos_eq [of k 256 1 "k - 256"] by (cases "256 \<le> k") simp_all
  then show ?thesis by (simp add: bit_iff_odd)
qed

lemma bit_8_negative: "- 256 \<le> k \<Longrightarrow> k < 0 \<Longrightarrow> bit k 8" for k :: int
proof -
  assume "- 256 \<le> k" "k < 0"
  then have "k div 256 = - 1" using int_div_pos_eq [of k 256 "- 1" "k + 256"] by simp
  then show ?thesis by (simp add: bit_iff_odd)
qed

text \<open>The intermediate values, as integers: \<open>n\<close> is the accumulator.\<close>

definition daa_sub :: "bool \<Rightarrow> bool \<Rightarrow> int \<Rightarrow> int" where
  "daa_sub l h n = (let k = (if l then (n - 6) mod 256 else n) in if h then k - 0x160 else k)"

definition daa_add :: "bool \<Rightarrow> bool \<Rightarrow> int \<Rightarrow> int" where
  "daa_add l c n = (let k = (if l then n + 6 else n) in if c \<or> 160 \<le> k then k + 0x60 else k)"

lemma daa_sub_carry:
  assumes "0 \<le> n" "n < 256"
  shows "bit (daa_sub l (c \<or> 0x99 < n) n) 8 \<or> c \<longleftrightarrow> c \<or> 0x99 < n"
proof -
  let ?k = "if l then (n - 6) mod 256 else n"
  have k: "0 \<le> ?k" "?k < 256" using assms by simp_all
  have "0x94 \<le> ?k" if "0x99 < n" using that assms by simp
  then show ?thesis
    using k bit_8_small [of ?k] bit_8_negative [of "?k - 0x160"] unfolding daa_sub_def Let_def by auto
qed

lemma daa_high_digit:
  fixes n :: int
  shows "160 \<le> (if h \<or> 9 < n mod 16 then n + 6 else n) \<longleftrightarrow> 0x99 < n"
proof (cases "h \<or> 9 < n mod 16")
  case False
  then have "n mod 16 < 10" by simp
  then have "160 \<le> n \<longleftrightarrow> 0x99 < n" by presburger
  then show ?thesis using False by simp
qed auto

lemma daa_add_carry:
  assumes "0 \<le> n" "n < 256"
  shows "bit (daa_add (h \<or> 9 < n mod 16) c n) 8 \<or> c \<longleftrightarrow> c \<or> 0x99 < n"
proof -
  let ?k = "if h \<or> 9 < n mod 16 then n + 6 else n"
  have "160 \<le> ?k \<longleftrightarrow> 0x99 < n" by (rule daa_high_digit)
  moreover have "0 \<le> ?k" "?k < 262" using assms by simp_all
  ultimately show ?thesis
    using bit_8_small [of ?k] bit_8_small [of "?k + 0x60"] assms unfolding daa_add_def Let_def by auto
qed

lemma low_digit_word:
  fixes a :: byte
  shows "9 < LOW_DIGIT (ucast a) \<longleftrightarrow> 9 < uint a mod 16" "5 < LOW_DIGIT (ucast a) \<longleftrightarrow> 5 < uint a mod 16"
  using and_15_mod [of "uint a"]
  by (simp_all add: word_less_def LOW_DIGIT_def unsigned_and_eq uint_ucast_byte)

lemma daa_sub_word:
  fixes a :: byte
  shows "(if h then (if l then (ucast a - 6) AND 0xff else ucast a) - 0x160 else (if l then (ucast a - 6) AND 0xff else ucast a)) =
    (word_of_int (daa_sub l h (uint a)) :: u32)"
proof -
  have "(word_of_int k :: u32) AND 0xff = word_of_int (k mod 256)" for k
  proof -
    have "k mod 256 = take_bit 8 k" by (simp add: take_bit_eq_mod)
    then show ?thesis unfolding and_255 by (intro bit_word_eqI) (auto simp: bit_take_bit_iff bit_word_of_int_iff)
  qed
  from this [of "uint a - 6"] have "(ucast a - 6 :: u32) AND 0xff = word_of_int ((uint a - 6) mod 256)"
    by (simp only: ucast_int of_int_diff of_int_numeral)
  then show ?thesis unfolding ucast_int by (simp add: daa_sub_def)
qed

lemma daa_add_word:
  fixes a :: byte
  shows "(if c \<or> 0x90 < (if l then ucast a + 6 else ucast a :: u32) AND 0x1f0 then (if l then ucast a + 6 else ucast a) + 0x60
    else (if l then ucast a + 6 else ucast a)) = (word_of_int (daa_add l c (uint a)) :: u32)"
proof -
  let ?k = "if l then uint a + 6 else uint a"
  have w: "(if l then ucast a + 6 else ucast a :: u32) = word_of_int ?k" unfolding ucast_int by simp
  have k: "0 \<le> ?k" "?k < 512" using uint_byte_bounds [of a] by auto
  then have "uint (word_of_int ?k :: u32) = ?k" unfolding uint_word_of_int by (simp add: mod_pos_pos_trivial)
  then have "0x90 < (word_of_int ?k :: u32) AND 0x1f0 \<longleftrightarrow> 160 \<le> ?k"
    using high_digit_test [of "word_of_int ?k"] k by simp
  then show ?thesis unfolding w daa_add_def Let_def
    by (cases "c \<or> 160 \<le> ?k") (simp_all only: if_True if_False simp_thms of_int_add of_int_numeral)
qed

lemma daa_bytes:
  fixes a :: byte
  shows "word_of_int (daa_sub l h (uint a)) = a - ((if l then 6 else 0) + (if h then 0x60 else 0))"
    and "word_of_int (daa_add l c (uint a)) = a + ((if l then 6 else 0) + (if c \<or> 160 \<le> (if l then uint a + 6 else uint a) then 0x60 else 0))"
proof -
  have "(word_of_int (k mod 256) :: byte) = word_of_int k" for k
    by (rule word_uint_eqI) (simp add: uint_word_of_int)
  then show "word_of_int (daa_sub l h (uint a)) = a - ((if l then 6 else 0) + (if h then 0x60 else 0))"
    by (simp add: daa_sub_def)
  show "word_of_int (daa_add l c (uint a)) = a + ((if l then 6 else 0) + (if c \<or> 160 \<le> (if l then uint a + 6 else uint a) then 0x60 else 0))"
    by (simp add: daa_add_def)
qed

lemma daa_add_byte:
  fixes a :: byte
  shows "word_of_int (daa_add (h \<or> 9 < uint a mod 16) c (uint a)) =
    a + ((if h \<or> 9 < uint a mod 16 then 6 else 0) + (if c \<or> 0x99 < uint a then 0x60 else 0))"
proof -
  have "160 \<le> (if h \<or> 9 < uint a mod 16 then uint a + 6 else uint a) \<longleftrightarrow> 0x99 < uint a"
    by (rule daa_high_digit)
  then show ?thesis unfolding daa_bytes by simp
qed

lemma acc_above: "0x99 < (ucast a :: u32) \<longleftrightarrow> 0x99 < uint a" for a :: byte
  by (simp add: word_less_def uint_ucast_byte)

lemma of_bool_nonzero: "(of_bool c :: u32) \<noteq> 0 \<longleftrightarrow> c"
  by simp

lemma op_27_sub:
  fixes s :: "'w cpu"
  defines "a \<equiv> hi (lw (AF s))" and "f \<equiv> lo (lw (AF s))"
  defines "l \<equiv> fH f \<or> 9 < uint a mod 16"
  defines "y \<equiv> if l \<and> 5 < uint a mod 16 then AF s AND NOT 0x10 else AF s"
  defines "t \<equiv> word_of_int (daa_sub l (fC f \<or> 0x99 < uint a) (uint a)) :: u32"
  assumes "fN f"
  shows "op_27 s = s\<lparr>AF := (y AND 0x12) OR tbl rrdrldTable (t AND 0xff) OR (drop_bit 8 t AND 1) OR of_bool (fC f)\<rparr>"
proof -
  have flags: "TSTFLAG s FLAG_C = fC f" "TSTFLAG s FLAG_N = True" "TSTFLAG s FLAG_H = fH f"
    using assms(6) by (simp_all add: tst_flags f_def)
  show ?thesis
    unfolding op_27_def Let_def HIGH_REGISTER_hi a_def [symmetric] low_digit_word flags acc_above of_bool_nonzero
      t_def daa_sub_word [symmetric] l_def [symmetric] if_True y_def SETFLAG_def
    by (cases l; cases "5 < uint a mod 16") simp_all
qed

lemma op_27_add:
  fixes s :: "'w cpu"
  defines "a \<equiv> hi (lw (AF s))" and "f \<equiv> lo (lw (AF s))"
  defines "l \<equiv> fH f \<or> 9 < uint a mod 16"
  defines "y \<equiv> if l then (if 9 < uint a mod 16 then AF s OR 0x10 else AF s AND NOT 0x10) else AF s"
  defines "t \<equiv> word_of_int (daa_add l (fC f) (uint a)) :: u32"
  assumes "\<not> fN f"
  shows "op_27 s = s\<lparr>AF := (y AND 0x12) OR tbl rrdrldTable (t AND 0xff) OR (drop_bit 8 t AND 1) OR of_bool (fC f)\<rparr>"
proof -
  have flags: "TSTFLAG s FLAG_C = fC f" "TSTFLAG s FLAG_N = False" "TSTFLAG s FLAG_H = fH f"
    using assms(6) by (simp_all add: tst_flags f_def)
  show ?thesis
    unfolding op_27_def Let_def HIGH_REGISTER_hi a_def [symmetric] low_digit_word flags of_bool_nonzero
      t_def daa_add_word [symmetric] l_def [symmetric] if_False y_def SETFLAG_def
    by (cases l; cases "9 < uint a mod 16") simp_all
qed

lemma word_of_int_byte: "(ucast (word_of_int k :: u32) :: byte) = word_of_int k"
  by (rule ucast_down_wi) (simp add: is_down)

lemma bit_ucast_byte: "n < 8 \<Longrightarrow> bit (t :: u32) n = bit (ucast t :: byte) n"
  by (simp add: bit_unsigned_iff)

lemma bit_word_8: "bit (word_of_int k :: u32) 8 = bit k 8"
  by (simp add: bit_word_of_int_iff)

lemma daa_flags:
  assumes "word_of_int k = r" "bit k 8 \<or> c \<longleftrightarrow> c'"
  shows "lw ((y AND 0x12) OR tbl rrdrldTable (word_of_int k AND 0xff) OR (drop_bit 8 (word_of_int k) AND 1) OR of_bool c) =
    pair r (flags (bit r 7) (r = 0) (bit r 5) (bit y 4) (bit r 3) (even_parity r) (bit y 1) c')"
  unfolding daa_end word_of_int_byte bit_word_8 assms
  by (simp add: bit_ucast_byte word_of_int_byte assms)

lemma AF_updated: "AF (s\<lparr>AF := v\<rparr>) = v"
  by simp

lemma refine_daa: "z80_of (op_27 s) = exec 0x27 (z80_of s)"
proof -
  define a where "a = hi (lw (AF s))"
  define f where "f = lo (lw (AF s))"
  note defs = a_def [symmetric] f_def [symmetric]
  note n = uint_byte_bounds [of a]
  have bits: "bit (AF s) 4 = fH f" "bit (AF s) 1 = fN f" by (simp_all add: at_bit f_def)
  have af: "lw (AF (op_27 s)) = daa a f"
  proof (cases "fN f")
    case True
    then show ?thesis
      unfolding op_27_sub [of s, unfolded defs, OF True] AF_updated daa_flags [OF daa_bytes(1) daa_sub_carry [OF n]] daa_def Let_def
      using bits by (auto simp: at_bit)
  next
    case False
    then show ?thesis
      unfolding op_27_add [of s, unfolded defs, OF False] AF_updated daa_flags [OF daa_add_byte daa_add_carry [OF n]] daa_def Let_def
      using bits by (auto simp: at_bit)
  qed
  have rest: "op_27 s = s\<lparr>AF := AF (op_27 s)\<rparr>"
    using op_27_sub [of s] op_27_add [of s] by (cases "fN f") (simp_all only: defs AF_updated not_True_eq_False not_False_eq_True)
  show ?thesis
    by (subst rest) (simp add: z80_of_def af exec_def exec0_def acc_op_def Let_def defs)
qed

end
