(* ===== verification/Z80_Machine.thy ===== *)
theory Z80_Machine
  imports Z80_Daa
begin

text \<open>
  The unprefixed instructions together: the emulator's dispatch table against the decoder of the data
  sheet machine, one turn of the main loop against one step, and the main loop against a run to \<open>HALT\<close>.
\<close>

section \<open>One instruction\<close>

lemma RamWrite_mem: "uint a < 65536 \<Longrightarrow> RamWrite a v s = s\<lparr>RAM := (RAM s)(lw a := ucast v)\<rparr>"
  by (simp add: RamWrite_def word_less_def)

lemma PUT_WORD_mem:
  assumes "w \<noteq> 0xffff"
  shows "PUT_WORD (ucast (w :: u16)) v s = s\<lparr>RAM := (RAM s)(w := lo (lw v), w + 1 := hi (lw v))\<rparr>"
proof -
  have w: "uint (ucast w :: u32) = uint w" using uint_sum16 [of w 0 False] by simp
  have "uint w \<noteq> 0xffff" using assms by (simp add: word_uint_eq_iff)
  then have "uint w < 0xffff" using uint_u16_bounds [of w] by simp
  moreover from this have "uint (ucast w + 1 :: u32) = uint w + 1"
    using uint_sum16 [of w 0 True] by simp
  ultimately show ?thesis
    unfolding PUT_WORD_def by (simp add: RamWrite_mem w lw_add byte_hi flip: byte_lo)
qed

lemma refine_22:
  "word_at (z80_of s) (rPC (z80_of s)) \<noteq> 0xffff \<Longrightarrow> z80_of (op_22 s) = exec 0x22 (z80_of s)"
  unfolding word_at_def
  by (simp add: refine_simps op_22_def exec_def exec0_def word_at_def GET_WORD_mem PUT_WORD_mem lw_add)

text \<open>The opcodes that are an instruction by themselves: no prefix, no input or output.\<close>

definition unprefixed :: "nat \<Rightarrow> bool" where
  "unprefixed k \<longleftrightarrow> k < 256 \<and> k \<notin> {0xcb, 0xd3, 0xdb, 0xdd, 0xed, 0xfd}"

definition in_range :: "nat \<Rightarrow> z80 \<Rightarrow> bool" where
  "in_range k m \<longleftrightarrow> k \<noteq> 0x22 \<or> word_at m (rPC m) \<noteq> 0xffff"

definition simulated :: "nat \<Rightarrow> ('w cpu \<Rightarrow> 'w cpu) \<Rightarrow> bool" where
  "simulated k f \<longleftrightarrow> (unprefixed k \<longrightarrow> (\<forall>s. in_range k (z80_of s) \<longrightarrow> z80_of (f s) = exec k (z80_of s)))"

lemma quarters:
  assumes "P 0 (l ! 0)" "P 1 (l ! 1)" "list_all2 P [2..<64] (take 62 (drop 2 l))"
    and "list_all2 P [64..<128] (take 64 (drop 64 l))"
    and "list_all2 P [128..<192] (take 64 (drop 128 l))" "list_all2 P [192..<256] (drop 192 l)"
    and "length l = 256"
  shows "list_all2 P [0..<256] l"
proof -
  have "list_all2 P ([0, 1] @ [2..<64] @ [64..<128] @ [128..<192] @ [192..<256])
      ([l ! 0, l ! 1] @ take 62 (drop 2 l) @ take 64 (drop 64 l) @ take 64 (drop 128 l) @ drop 192 l)"
    using assms(1,2) by (intro list_all2_appendI assms(3-6)) simp
  moreover have "[0, 1] @ [2..<64] @ [64..<128] @ [128..<192] @ [192..<256] = [0..<256]"
    using upt_add_eq_append [of 2 64 192] upt_add_eq_append [of 64 128 128] upt_add_eq_append [of 128 192 64]
      upt_add_eq_append [of 0 2 254] by (simp add: upt_rec)
  moreover have "take 62 (drop 2 l) @ take 64 (drop 64 l) @ take 64 (drop 128 l) @ drop 192 l = drop 2 l"
    using append_take_drop_id [of 62 "drop 2 l"] append_take_drop_id [of 64 "drop 64 l"] append_take_drop_id [of 64 "drop 128 l"]
    by (simp del: append_take_drop_id)
  moreover have "[l ! 0, l ! 1] @ drop 2 l = l"
    using assms(7) by (cases l; cases "tl l") simp_all
  ultimately show ?thesis by metis
qed

lemma ops_simulated: "list_all2 simulated [0..<256] (ops h)"
proof (rule quarters)
  show "list_all2 simulated [2..<64] (take 62 (drop 2 (ops h)))"
    by (simp add: ops_def simulated_def upt_rec_numeral refine_0 [simplified] refine_0_add [simplified] refine_daa
      refine_22 in_range_def)
  show "list_all2 simulated [64..<128] (take 64 (drop 64 (ops h)))"
    by (simp add: ops_def simulated_def upt_rec_numeral refine_1)
  show "list_all2 simulated [128..<192] (take 64 (drop 128 (ops h)))"
    by (simp add: ops_def simulated_def upt_rec_numeral refine_2 refine_2_cp)
  show "list_all2 simulated [192..<256] (drop 192 (ops h))"
    by (simp add: ops_def simulated_def upt_rec_numeral refine_3 unprefixed_def)
qed (simp_all add: ops_def simulated_def refine_0 [simplified])

lemma op_simulated:
  assumes "unprefixed k" "in_range k (z80_of s)"
  shows "z80_of ((ops h ! k) s) = exec k (z80_of s)"
  using list_all2_nthD [OF ops_simulated, of k h] assms by (simp add: simulated_def unprefixed_def)

section \<open>One turn of the main loop\<close>

definition opcode :: "z80 \<Rightarrow> nat" where
  "opcode m = unat (mem m (rPC m))"

definition fetched :: "z80 \<Rightarrow> z80" where
  "fetched m = m\<lparr>rPC := rPC m + 1\<rparr>"

text \<open>A machine step: fetch, decode, execute.\<close>

definition z80_step :: "z80 \<Rightarrow> z80" where
  "z80_step m = exec (opcode m) (fetched m)"

definition plain :: "z80 \<Rightarrow> bool" where
  "plain m \<longleftrightarrow> unprefixed (opcode m) \<and> in_range (opcode m) (fetched m)"

lemma unat_byte: "unat (ucast (b :: byte) :: u32) = unat b"
  unfolding unat_eq_nat_uint uint_ucast_byte ..

lemma instr_simulated:
  assumes "plain (z80_of s)"
  shows "z80_of (snd (instr h s)) = z80_step (z80_of s)" "unat (fst (instr h s)) = opcode (z80_of s)"
proof -
  let ?s = "INCR 1 (s\<lparr>PCX := PC s\<rparr>)"
  have o: "unat (GET_BYTE ?s (PC ?s)) = opcode (z80_of s)"
    by (simp add: GET_BYTE_mem INCR_def opcode_def z80_of_def unat_byte)
  have f: "z80_of (?s\<lparr>PC := PC ?s + 1\<rparr>) = fetched (z80_of s)"
    by (simp add: INCR_def fetched_def z80_of_def lw_add)
  show "z80_of (snd (instr h s)) = z80_step (z80_of s)"
    using assms op_simulated [of "opcode (z80_of s)" "?s\<lparr>PC := PC ?s + 1\<rparr>" h]
    unfolding instr_def Let_def z80_step_def plain_def snd_conv o f by simp
  show "unat (fst (instr h s)) = opcode (z80_of s)"
    unfolding instr_def Let_def fst_conv o ..
qed

section \<open>The main loop\<close>

definition keeps_status :: "nat \<Rightarrow> ('w cpu \<Rightarrow> 'w cpu) \<Rightarrow> bool" where
  "keeps_status k f \<longleftrightarrow> (unprefixed k \<longrightarrow> (\<forall>s. Status (f s) = Status s))"

lemma Status_RamWrite [simp]: "Status (RamWrite a v s) = Status s"
  by (simp add: RamWrite_def)

lemma Status_keep [simp]:
  "Status (SETFLAG f c s) = Status s" "Status (PUT_BYTE a v s) = Status s" "Status (PUT_WORD a v s) = Status s"
  "Status (PUSH v s) = Status s" "Status (JPC c s) = Status s" "Status (CALLC c s) = Status s"
  by (simp_all add: SETFLAG_def PUT_BYTE_def PUT_WORD_def PUSH_def JPC_def CALLC_def Let_def)

lemma Status_daa: "Status (op_27 s) = Status s"
  by (simp add: op_27_def Let_def)

lemma ops_keep_status: "list_all2 keeps_status [0..<256] (ops h)"
proof (rule quarters)
  show "list_all2 keeps_status [2..<64] (take 62 (drop 2 (ops h)))"
    by (simp add: ops_def keeps_status_def upt_rec_numeral model_0 op_22_def Let_def Status_daa)
  show "list_all2 keeps_status [64..<128] (take 64 (drop 64 (ops h)))"
    by (simp add: ops_def keeps_status_def upt_rec_numeral model_1 Let_def)
  show "list_all2 keeps_status [128..<192] (take 64 (drop 128 (ops h)))"
    by (simp add: ops_def keeps_status_def upt_rec_numeral model_2 Let_def)
  show "list_all2 keeps_status [192..<256] (drop 192 (ops h))"
    by (simp add: ops_def keeps_status_def upt_rec_numeral model_3 unprefixed_def Let_def POP_mem)
qed (simp_all add: ops_def keeps_status_def model_0 Let_def)

lemma op_keeps_status: "unprefixed k \<Longrightarrow> Status ((ops h ! k) s) = Status s"
  using list_all2_nthD [OF ops_keep_status, of k h] by (simp add: keeps_status_def unprefixed_def)

lemma instr_keeps_status:
  assumes "plain (z80_of s)"
  shows "Status (snd (instr h s)) = Status s"
proof -
  let ?s = "INCR 1 (s\<lparr>PCX := PC s\<rparr>)"
  have "unat (GET_BYTE ?s (PC ?s)) = opcode (z80_of s)"
    by (simp add: GET_BYTE_mem INCR_def opcode_def z80_of_def unat_byte)
  then show ?thesis
    using assms op_keeps_status [of "opcode (z80_of s)" h "?s\<lparr>PC := PC ?s + 1\<rparr>"]
    by (simp add: instr_def Let_def plain_def INCR_def)
qed

text \<open>The data sheet machine run to \<open>HALT\<close> with plain instructions, in at most \<open>n\<close> of them.\<close>

fun z80_run :: "nat \<Rightarrow> z80 \<Rightarrow> z80 option" where
  "z80_run 0 m = None"
| "z80_run (Suc n) m =
     (if \<not> plain m then None
      else if opcode m = 0x76 then Some (z80_step m)
      else z80_run n (z80_step m))"

lemma run_simulated:
  "Status s = 0 \<Longrightarrow> z80_run n (z80_of s) = Some m \<Longrightarrow> \<exists>s'. Z80run h s = Some s' \<and> z80_of s' = m \<and> Status s' = 0"
proof (induction n arbitrary: s)
  case (Suc n)
  then have p: "plain (z80_of s)" by (simp split: if_splits)
  note i = instr_simulated [OF p, of h] instr_keeps_status [OF p, of h]
  have v: "fst (instr h s) = 0x76 \<longleftrightarrow> opcode (z80_of s) = 0x76"
    using i(2) by (simp add: word_unat_eq_iff)
  obtain v' s' where s': "instr h s = (v', s')" by fastforce
  show ?case
  proof (cases "opcode (z80_of s) = 0x76")
    case True
    then show ?thesis using Suc.prems p i v s' by (subst Z80run.simps) simp
  next
    case False
    then have "z80_run n (z80_of s') = Some m" using Suc.prems p i s' by simp
    then show ?thesis using Suc.IH [of s'] Suc.prems(1) i v False s' by (subst Z80run.simps) simp
  qed
qed simp

section \<open>Writes outside the memory\<close>

lemma put_word_overrun: "overrun (PUT_WORD a v s) \<longleftrightarrow> overrun s \<or> 0xffff \<le> a"
proof -
  have "uint (a + 1) = (if uint a = 2 ^ 32 - 1 then 0 else uint a + 1)"
    using uint_bounded [of a] by (auto simp: uint_word_ariths)
  then show ?thesis
    by (auto simp: PUT_WORD_def RamWrite_def word_less_def word_le_def)
qed

lemma overrun_22: "overrun (op_22 s) \<longleftrightarrow> overrun s \<or> GET_WORD s (PC s) = 0xffff"
proof -
  have "uint (GET_WORD s (PC s)) < 65536"
    using uint_u16_bounds unfolding GET_WORD_mem by (metis uint_sum16 [of _ 0 False, simplified])
  then show ?thesis by (auto simp: op_22_def Let_def put_word_overrun word_le_def word_uint_eq_iff)
qed

lemma overrun_keep [simp]:
  "overrun (SETFLAG f c s) = overrun s" "overrun (PUT_BYTE a v s) = overrun s"
  "overrun (PUSH v s) = overrun s" "overrun (JPC c s) = overrun s" "overrun (CALLC c s) = overrun s"
  by (simp_all add: SETFLAG_def PUT_BYTE_mem PUSH_def JPC_def CALLC_def Let_def)

definition overruns :: "nat \<Rightarrow> ('w cpu \<Rightarrow> 'w cpu) \<Rightarrow> bool" where
  "overruns k f \<longleftrightarrow>
     (unprefixed k \<longrightarrow> (\<forall>s. overrun (f s) \<longleftrightarrow> overrun s \<or> (k = 0x22 \<and> GET_WORD s (PC s) = 0xffff)))"

lemma overrun_daa: "overrun (op_27 s) = overrun s"
  by (simp add: op_27_def Let_def)

lemma ops_overrun: "list_all2 overruns [0..<256] (ops h)"
proof (rule quarters)
  show "list_all2 overruns [2..<64] (take 62 (drop 2 (ops h)))"
    by (simp add: ops_def overruns_def upt_rec_numeral model_0 overrun_22 Let_def overrun_daa)
  show "list_all2 overruns [64..<128] (take 64 (drop 64 (ops h)))"
    by (simp add: ops_def overruns_def upt_rec_numeral model_1 Let_def)
  show "list_all2 overruns [128..<192] (take 64 (drop 128 (ops h)))"
    by (simp add: ops_def overruns_def upt_rec_numeral model_2 Let_def)
  show "list_all2 overruns [192..<256] (drop 192 (ops h))"
    by (simp add: ops_def overruns_def upt_rec_numeral model_3 unprefixed_def Let_def POP_mem)
qed (simp_all add: ops_def overruns_def model_0 Let_def)

section \<open>Properties\<close>

text \<open>A processor with all registers zero.\<close>

definition blank :: "(u16 \<Rightarrow> byte) \<Rightarrow> unit cpu" where
  "blank ram =
     \<lparr>PCX = 0, AF = 0, BC = 0, DE = 0, HL = 0, IX = 0, IY = 0, PC = 0, SP = 0, AF1 = 0, BC1 = 0, DE1 = 0, HL1 = 0,
      IFF = 0, IR = 0, Status = 0, Debug = 0, Break = 0, Step = 0, RAM = ram, overrun = False, world = ()\<rparr>"

text \<open>
  Property (C3). Every unprefixed instruction of the emulator (opcodes other than the prefixes and the
  two I/O instructions), on every register and memory content, does what the data sheet machine does:
  registers, flags and memory agree after it. \<open>LD (nn),HL\<close> with \<open>nn = 0xFFFF\<close> is excepted.
\<close>
theorem z80_refines:
  assumes "unprefixed k" "in_range k (z80_of s)"
  shows "z80_of ((ops h ! k) s) = exec k (z80_of s)"
  using assms by (rule op_simulated)

lemma daa_99_plus_1:
  "unprefixed 0x27 \<and> in_range 0x27 (z80_of ((blank (\<lambda>_. 0))\<lparr>AF := 0x9a00\<rparr>)) \<and>
   rAF (exec 0x27 (z80_of ((blank (\<lambda>_. 0))\<lparr>AF := 0x9a00\<rparr>))) = 0x0055"
  by code_simp

theorem z80_refines_witness: "\<forall>h. rAF (z80_of ((ops h ! 0x27) ((blank (\<lambda>_. 0))\<lparr>AF := 0x9a00\<rparr>))) = 0x0055"
  using z80_refines [of "0x27" "(blank (\<lambda>_. 0))\<lparr>AF := 0x9a00\<rparr>"] daa_99_plus_1 by metis

text \<open>
  Property (C23). If the data sheet machine reaches \<open>HALT\<close> by plain instructions, the emulator's main
  loop returns, in the state the data sheet gives and with \<open>Status\<close> still zero.
\<close>
theorem Z80run_halts:
  assumes "Status s = 0" "z80_run n (z80_of s) = Some m"
  shows "\<exists>s'. Z80run h s = Some s' \<and> z80_of s' = m \<and> Status s' = 0"
  using assms by (rule run_simulated)

definition sum_program :: "u16 \<Rightarrow> byte" where
  "sum_program = (\<lambda>_. 0)(0 := 0x06, 1 := 3, 2 := 0x80, 3 := 0x10, 4 := 0xfd, 5 := 0x76)"

lemma sum_program_runs: "map_option (\<lambda>m. hi (rAF m)) (z80_run 8 (z80_of (blank sum_program))) = Some 6"
  by code_simp

theorem Z80run_halts_witness: "\<forall>h. \<exists>s'. Z80run h (blank sum_program) = Some s' \<and> hi (rAF (z80_of s')) = 6"
proof
  fix h
  obtain m where m: "z80_run 8 (z80_of (blank sum_program)) = Some m" "hi (rAF m) = 6"
    using sum_program_runs by (cases "z80_run 8 (z80_of (blank sum_program))") simp_all
  have "Status (blank sum_program) = 0" by (simp add: blank_def)
  from Z80run_halts [OF this m(1), of h] m(2)
  show "\<exists>s'. Z80run h (blank sum_program) = Some s' \<and> hi (rAF (z80_of s')) = 6" by blast
qed

text \<open>
  Property (C24). An unprefixed instruction writes outside the 64 KiB block exactly when it is
  \<open>LD (nn),HL\<close> with \<open>nn = 0xFFFF\<close>; every other one stays inside, whatever the registers hold.
\<close>
theorem z80_memory_safe:
  assumes "unprefixed k"
  shows "overrun ((ops h ! k) s) \<longleftrightarrow> overrun s \<or> (k = 0x22 \<and> GET_WORD s (PC s) = 0xffff)"
  using list_all2_nthD [OF ops_overrun, of k h] assms by (simp add: overruns_def unprefixed_def)

theorem z80_memory_safe_witness:
  "\<forall>h. overrun ((ops h ! 0x22) (blank (\<lambda>_. 0xff))) \<and> \<not> overrun ((ops h ! 0x36) (blank (\<lambda>_. 0xff)))"
proof -
  have "unprefixed 0x22" "unprefixed 0x36" "GET_WORD (blank (\<lambda>_. 0xff)) (PC (blank (\<lambda>_. 0xff))) = 0xffff"
    "\<not> overrun (blank (\<lambda>_. 0xff))"
    by code_simp+
  then show ?thesis using z80_memory_safe by auto
qed

end
