(* ===== verification/Z80_Move.thy ===== *)
theory Z80_Move
  imports Z80_Machine
begin

text \<open>
  The block transfers \<open>LDIR\<close> and \<open>LDDR\<close> of \<open>cpu.h\<close>: what their loop leaves in memory and registers, and
  the register transfers through \<open>I\<close>.
\<close>

section \<open>Reference\<close>

text \<open>Move \<open>n\<close> bytes one at a time; \<open>st\<close> is the step of both pointers.\<close>

fun moved :: "nat \<Rightarrow> u16 \<Rightarrow> u16 \<Rightarrow> u16 \<Rightarrow> (u16 \<Rightarrow> byte) \<Rightarrow> (u16 \<Rightarrow> byte)" where
  "moved 0 st src dst m = m"
| "moved (Suc n) st src dst m = moved n st (src + st) (dst + st) (m(dst := m src))"

lemma moved_outside: "(\<And>i. i < n \<Longrightarrow> a \<noteq> dst + st * of_nat i) \<Longrightarrow> moved n st src dst m a = m a"
proof (induction n arbitrary: src dst m)
  case (Suc n)
  have "a \<noteq> (dst + st) + st * of_nat i" if "i < n" for i
    using Suc.prems [of "Suc i"] that by (simp add: algebra_simps)
  then show ?case using Suc.IH Suc.prems [of 0] by simp
qed simp

text \<open>A move is a copy when no source byte is overwritten before it is read.\<close>

lemma moved_copies:
  assumes "\<And>i j. j < i \<Longrightarrow> i < n \<Longrightarrow> dst + st * of_nat j \<noteq> src + st * of_nat i"
    and "\<And>i j. i < n \<Longrightarrow> j < n \<Longrightarrow> dst + st * of_nat i = dst + st * of_nat j \<Longrightarrow> i = j"
    and "i < n"
  shows "moved n st src dst m (dst + st * of_nat i) = m (src + st * of_nat i)"
  using assms
proof (induction n arbitrary: src dst m i)
  case (Suc n)
  show ?case
  proof (cases i)
    case 0
    have "dst \<noteq> (dst + st) + st * of_nat j" if "j < n" for j
      using Suc.prems(2) [of 0 "Suc j"] that by (auto simp: algebra_simps)
    then show ?thesis using 0 moved_outside [of n dst "dst + st"] by simp
  next
    case (Suc k)
    have "moved n st (src + st) (dst + st) (m(dst := m src)) ((dst + st) + st * of_nat k) =
        (m(dst := m src)) ((src + st) + st * of_nat k)"
    proof (rule Suc.IH)
      fix i j assume "j < i" "i < n"
      then show "(dst + st) + st * of_nat j \<noteq> (src + st) + st * of_nat i"
        using Suc.prems(1) [of "Suc j" "Suc i"] by (simp add: algebra_simps)
    next
      fix i j assume "i < n" "j < n" "(dst + st) + st * of_nat i = (dst + st) + st * of_nat j"
      then show "i = j" using Suc.prems(2) [of "Suc i" "Suc j"] by (simp add: algebra_simps)
    qed (use Suc.prems(3) Suc in simp)
    moreover have "src + st * of_nat i \<noteq> dst" using Suc.prems(1) [of 0 i] Suc.prems(3) Suc by simp
    ultimately show ?thesis using Suc by (simp add: algebra_simps)
  qed
qed simp

section \<open>The loop\<close>

lemma lw_INCR [simp]:
  "RAM (INCR n s) = RAM s" "HL (INCR n s) = HL s" "DE (INCR n s) = DE s" "AF (INCR n s) = AF s" "SP (INCR n s) = SP s"
  "PC (INCR n s) = PC s"
  by (simp_all add: INCR_def)

definition moved_one :: "u32 \<Rightarrow> 'w cpu \<Rightarrow> 'w cpu" where
  "moved_one st s = (INCR 2 s)\<lparr>HL := HL s + st, RAM := (RAM s)(lw (DE s) := RAM s (lw (HL s))),
     DE := DE s + st, BC := BC s - 1\<rparr>"

lemma ldir_loop_unfold:
  "ldir_loop st s =
     (if BC s \<noteq> 1 then ldir_loop st (moved_one st s) else (ucast (RAM s (lw (HL s))), moved_one st s))"
  by (subst ldir_loop.simps) (simp add: Let_def GET_BYTE_mem PUT_BYTE_mem moved_one_def)

lemma moved_one_simps [simp]:
  "RAM (moved_one st s) = (RAM s)(lw (DE s) := RAM s (lw (HL s)))" "BC (moved_one st s) = BC s - 1"
  "lw (HL (moved_one st s)) = lw (HL s) + lw st" "lw (DE (moved_one st s)) = lw (DE s) + lw st"
  "AF (moved_one st s) = AF s" "SP (moved_one st s) = SP s" "PC (moved_one st s) = PC s"
  by (simp_all add: moved_one_def lw_add)

lemma ldir_loop_moves:
  assumes "BC s \<noteq> 0" "ldir_loop st s = (acu, s')"
  shows "RAM s' = moved (unat (BC s)) (lw st) (lw (HL s)) (lw (DE s)) (RAM s) \<and> BC s' = 0
    \<and> lw (HL s') = lw (HL s) + lw st * lw (BC s) \<and> lw (DE s') = lw (DE s) + lw st * lw (BC s)
    \<and> AF s' = AF s \<and> SP s' = SP s \<and> PC s' = PC s"
  using assms
proof (induction "unat (BC s)" arbitrary: s)
  case (Suc n)
  note u = ldir_loop_unfold [of st s]
  have n: "unat (BC s - 1) = n" using Suc.hyps(2) Suc.prems(1) by (simp add: unat_minus_one)
  show ?case
  proof (cases "BC s = 1")
    case True
    then have "s' = moved_one st s" using Suc.prems(2) u by simp
    then show ?thesis using True by simp
  next
    case False
    then have "ldir_loop st (moved_one st s) = (acu, s')" "BC (moved_one st s) \<noteq> 0"
      using Suc.prems(2) u by simp_all
    with Suc.hyps(1) [of "moved_one st s"] n
    show ?thesis by (simp add: Suc.hyps(2) [symmetric] lw_diff algebra_simps)
  qed
qed (simp add: unat_eq_zero)

section \<open>The instructions\<close>

definition transferred :: "'w cpu \<Rightarrow> nat" where
  "transferred s = (if lw (BC s) = 0 then 65536 else unat (lw (BC s)))"

lemma block_count_simps [simp]:
  "RAM (block_count s) = RAM s" "HL (block_count s) = HL s" "DE (block_count s) = DE s" "AF (block_count s) = AF s"
  "SP (block_count s) = SP s" "PC (block_count s) = PC s"
  by (simp_all add: block_count_def Let_def)

lemma u16_wide: "(ucast w :: u32) = 0 \<longleftrightarrow> w = 0" "unat (ucast w :: u32) = unat w" for w :: u16
proof -
  have u: "uint (ucast w :: u32) = uint w" using uint_sum16 [of w 0 False] by simp
  show "(ucast w :: u32) = 0 \<longleftrightarrow> w = 0" unfolding word_uint_eq_iff u by simp
  show "unat (ucast w :: u32) = unat w" unfolding unat_eq_nat_uint u ..
qed

lemma lw_wide [simp]: "lw (ucast (w :: u16)) = w"
  by (rule bit_word_eqI) (simp add: bit_unsigned_iff)

lemma block_count_BC: "unat (BC (block_count s)) = transferred s" "lw (BC (block_count s)) = lw (BC s)" "BC (block_count s) \<noteq> 0"
  by (simp_all add: block_count_def Let_def transferred_def and_65535 u16_wide)

lemma block_transfer:
  assumes "ldir_loop st (block_count s) = (acu, s')"
  shows "RAM s' = moved (transferred s) (lw st) (lw (HL s)) (lw (DE s)) (RAM s)" "BC s' = 0"
    "lw (HL s') = lw (HL s) + lw st * lw (BC s)" "lw (DE s') = lw (DE s) + lw st * lw (BC s)"
    "AF s' = AF s" "SP s' = SP s" "PC s' = PC s"
  using ldir_loop_moves [OF block_count_BC(3) assms] by (simp_all add: block_count_BC)

lemma transferred_le: "transferred s \<le> 65536"
proof -
  have "unat w < 2 ^ LENGTH(16)" for w :: u16 by (rule unsigned_less)
  from this [of "lw (BC s)"] show ?thesis by (simp add: transferred_def)
qed

lemma u16_of_nat_inj: "i < 65536 \<Longrightarrow> j < 65536 \<Longrightarrow> (of_nat i :: u16) = of_nat j \<longleftrightarrow> i = j"
  by (simp add: word_of_nat_eq_iff take_bit_nat_eq_self)

lemma block_state:
  "RAM (ed_b0 s) = moved (transferred s) 1 (lw (HL s)) (lw (DE s)) (RAM s)" "BC (ed_b0 s) = 0"
  "lw (HL (ed_b0 s)) = lw (HL s) + lw (BC s)" "lw (DE (ed_b0 s)) = lw (DE s) + lw (BC s)"
  "RAM (ed_b8 s) = moved (transferred s) (- 1) (lw (HL s)) (lw (DE s)) (RAM s)" "BC (ed_b8 s) = 0"
  "lw (HL (ed_b8 s)) = lw (HL s) - lw (BC s)" "lw (DE (ed_b8 s)) = lw (DE s) - lw (BC s)"
proof -
  have "lw (- 1) = - 1" by (rule bit_word_eqI) (simp add: bit_unsigned_iff)
  then show "RAM (ed_b0 s) = moved (transferred s) 1 (lw (HL s)) (lw (DE s)) (RAM s)" "BC (ed_b0 s) = 0"
    "lw (HL (ed_b0 s)) = lw (HL s) + lw (BC s)" "lw (DE (ed_b0 s)) = lw (DE s) + lw (BC s)"
    "RAM (ed_b8 s) = moved (transferred s) (- 1) (lw (HL s)) (lw (DE s)) (RAM s)" "BC (ed_b8 s) = 0"
    "lw (HL (ed_b8 s)) = lw (HL s) - lw (BC s)" "lw (DE (ed_b8 s)) = lw (DE s) - lw (BC s)"
    using block_transfer [of 1 s] block_transfer [of "- 1" s]
    by (simp_all add: ed_b0_def ed_b8_def Let_def split: prod.splits)
qed

lemma moved_fills: "n < 65536 \<Longrightarrow> i \<le> n \<Longrightarrow> moved n 1 src (src + 1) m (src + of_nat i) = m src"
proof (induction n arbitrary: src m i)
  case (Suc n)
  show ?case
  proof (cases i)
    case 0
    have "src \<noteq> src + 1 + 1 * of_nat j" if "j < Suc n" for j
      using u16_of_nat_inj [of 0 "Suc j"] that Suc.prems(1) by (simp add: algebra_simps)
    then show ?thesis using 0 moved_outside [of "Suc n" src "src + 1" 1 src m] by (simp del: moved.simps)
  next
    case (Suc k)
    then show ?thesis using Suc.IH [of k "src + 1" "m(src + 1 := m src)"] Suc.prems by (simp add: algebra_simps fun_upd_def)
  qed
qed simp

text \<open>
  Property (C35). \<open>LDIR\<close> ends with \<open>BC = 0\<close> and the pointers behind the blocks; it copies \<open>BC\<close> bytes (65536
  when \<open>BC\<close> is zero) from \<open>HL\<close> to \<open>DE\<close>, addresses wrapping, and changes no other byte, unless the target
  starts inside the source.
\<close>
theorem ldir_copies:
  assumes "\<And>i j. j < i \<Longrightarrow> i < transferred s \<Longrightarrow> lw (DE s) + of_nat j \<noteq> lw (HL s) + of_nat i"
  shows "(\<forall>i < transferred s. RAM (ed_b0 s) (lw (DE s) + of_nat i) = RAM s (lw (HL s) + of_nat i)) \<and>
    (\<forall>a. (\<forall>i < transferred s. a \<noteq> lw (DE s) + of_nat i) \<longrightarrow> RAM (ed_b0 s) a = RAM s a) \<and>
    BC (ed_b0 s) = 0 \<and> lw (HL (ed_b0 s)) = lw (HL s) + lw (BC s) \<and> lw (DE (ed_b0 s)) = lw (DE s) + lw (BC s)"
proof -
  have "moved (transferred s) 1 (lw (HL s)) (lw (DE s)) (RAM s) (lw (DE s) + 1 * of_nat i) = RAM s (lw (HL s) + 1 * of_nat i)"
    if "i < transferred s" for i
    using assms that transferred_le [of s] by (intro moved_copies) (simp_all add: u16_of_nat_inj)
  then show ?thesis
    using moved_outside [of "transferred s" _ "lw (DE s)" 1 "lw (HL s)" "RAM s"] by (simp add: block_state)
qed

definition copy_state :: "unit cpu" where
  "copy_state = (blank ((\<lambda>_. 0)(0x100 := 7, 0x101 := 8)))\<lparr>HL := 0x100, DE := 0x200, BC := 2\<rparr>"

lemma copy_state_simps:
  "lw (HL copy_state) = 0x100" "lw (DE copy_state) = 0x200" "lw (BC copy_state) = 2" "transferred copy_state = 2"
  "RAM copy_state 0x101 = 8"
  by (simp_all add: copy_state_def blank_def transferred_def)

theorem ldir_copies_witness: "RAM (ed_b0 copy_state) 0x201 = 8 \<and> BC (ed_b0 copy_state) = 0"
proof -
  have "lw (DE copy_state) + of_nat j \<noteq> lw (HL copy_state) + of_nat i" if "j < i" "i < transferred copy_state" for i j
  proof -
    from that have "i = 1" "j = 0" by (simp_all add: copy_state_simps)
    then show ?thesis by (simp add: copy_state_simps)
  qed
  from ldir_copies [of copy_state, OF this]
  have "\<forall>i < 2. RAM (ed_b0 copy_state) (0x200 + of_nat i) = RAM copy_state (0x100 + of_nat i)" "BC (ed_b0 copy_state) = 0"
    by (simp_all add: copy_state_simps)
  from this(1) [rule_format, of 1] this(2) show ?thesis by (simp add: copy_state_simps)
qed

text \<open>
  \<open>LDIR\<close> with \<open>DE = HL + 1\<close> fills the block with its first byte.
\<close>
theorem ldir_fills:
  assumes "lw (DE s) = lw (HL s) + 1" "transferred s < 65536" "i \<le> transferred s"
  shows "RAM (ed_b0 s) (lw (HL s) + of_nat i) = RAM s (lw (HL s))"
  using moved_fills [OF assms(2,3)] assms(1) by (simp add: block_state)

theorem ldir_fills_witness: "RAM (ed_b0 (copy_state\<lparr>DE := 0x101\<rparr>)) 0x102 = 7"
proof -
  have "transferred (copy_state\<lparr>DE := 0x101\<rparr>) = 2" by (simp add: transferred_def copy_state_def blank_def)
  then show ?thesis
    using ldir_fills [of "copy_state\<lparr>DE := 0x101\<rparr>" 2] by (simp add: copy_state_def blank_def)
qed

section \<open>Register \<open>I\<close>\<close>

lemma hi_through_i: "hi (lw (AF (ed_57 (ed_47 s)))) = hi (lw (AF s))"
  by (rule bit_cases_8) (simp_all add: ed_47_def ed_57_def at_bit)

lemma z_through_i: "bit (AF (ed_57 (ed_47 s))) 6 \<longleftrightarrow> AF s AND NOT 0xff = 0"
proof -
  have "(IR (ed_47 s)) AND NOT 0xff = AF s AND NOT 0xff"
  proof -
    have mask: "((x AND m) OR (y AND NOT m)) AND NOT m = y AND NOT m" for x y m :: u32
      by (rule bit_word_eqI) (auto simp: bit_and_iff bit_or_iff bit_not_iff)
    from mask [where x = "IR s" and m = "0xff" and y = "AF s"] show ?thesis by (simp add: ed_47_def)
  qed
  then show ?thesis unfolding ed_57_def by (simp add: at_bit) 
qed

text \<open>
  \<open>INC A; LD I,A; LD A,I\<close> with \<open>A = 0xFF\<close>: the accumulator ends as zero, but the zero flag
  that \<open>LD A,I\<close> should set stays clear, because \<open>LD I,A\<close> copies the carry that \<open>INC A\<close> left above bit 15
  of \<open>AF\<close> and \<open>LD A,I\<close> tests it.
\<close>
theorem ld_a_i_zero_flag:
  assumes "AF s < 0x10000" "hi (lw (AF s)) = 0xff"
  shows "hi (rAF (z80_of (ed_57 (ed_47 (op_3c s))))) = 0 \<and> \<not> fZ (lo (rAF (z80_of (ed_57 (ed_47 (op_3c s))))))"
proof -
  have small: "uint (AF s) < 65536" using assms(1) by (simp add: word_less_def)
  then have "take_bit 16 (AF s) = AF s"
    by (intro word_uint_eqI) (simp add: unsigned_take_bit_eq take_bit_int_eq_self)
  then have top: "n < 16" if "bit (AF s) n" for n using that by (metis bit_take_bit_iff)
  have "drop_bit 8 (AF s) = ucast (hi (lw (AF s)))"
    by (rule bit_word_eqI) (use top in \<open>fastforce simp: at_bit\<close>)
  then have "uint (drop_bit 8 (AF s)) = 255" using assms(2) by simp
  then have "uint (AF s) div 256 = 255" unfolding unsigned_drop_bit_eq using small by (simp add: drop_bit_eq_div take_bit_int_eq_self)
  then have "0xff00 \<le> uint (AF s)" by presburger
  moreover have "uint (AF s + 0x100) = uint (AF s) + 0x100"
    using small by (simp add: uint_word_ariths mod_pos_pos_trivial)
  ultimately have "uint (AF s + 0x100) div 65536 = 1"
    using small int_div_pos_eq [of "uint (AF s) + 0x100" 65536 1 "uint (AF s) + 0x100 - 65536"] by simp
  then have "bit (uint (AF s + 0x100)) 16" by (simp add: bit_iff_odd)
  then have "bit (AF (op_3c s)) 16" by (simp add: op_3c_def Let_def at_bit bit_uint_iff)
  then have "bit (AF (op_3c s) AND NOT 0xff) 16" by (simp add: at_bit)
  then have "AF (op_3c s) AND NOT 0xff \<noteq> 0" by (rule contrapos_pn) (simp only: bit_0_eq bot_apply bot_bool_def not_False_eq_True)
  moreover have "hi (rAF (z80_of (op_3c s))) = 0"
  proof -
    have "z80_of (op_3c s) = exec 0x3c (z80_of s)" by (rule refine_0)
    moreover have "hi (rAF (z80_of s)) = 0xff" using assms(2) by (simp add: z80_of_def)
    ultimately show ?thesis by (simp add: exec_0 Let_def)
  qed
  ultimately show ?thesis
    using hi_through_i [of "op_3c s"] z_through_i [of "op_3c s"] by (simp add: z80_of_def bit_lo bit_unsigned_iff)
qed

theorem ld_a_i_zero_flag_witness: "\<not> fZ (lo (rAF (z80_of (ed_57 (ed_47 (op_3c ((blank (\<lambda>_. 0))\<lparr>AF := 0xff00\<rparr>)))))))"
  using ld_a_i_zero_flag [of "(blank (\<lambda>_. 0))\<lparr>AF := 0xff00\<rparr>"] by (simp add: blank_def hi_def)

end
