(* ===== verification/Cpm_Records.thy ===== *)
theory Cpm_Records
  imports Cpm_Inv Z80_Move
begin

text \<open>
  Records of files: the position a file control block stands for, what sequential and random access do to
  it, and that a record that was written is read back.
\<close>

section \<open>Memory\<close>

lemma RAM_upd [simp]: "RAM (cpm_upd f s) = RAM s"
  by (simp add: cpm_upd_def)

lemma world_cpm_upd [simp]: "world (cpm_upd f s) = f (world s)"
  by (simp add: cpm_upd_def)

lemma world_wr [simp]: "world (wr a v s) = world s"
  by (simp add: wr_def)

lemma rd_wr: "a < 65536 \<Longrightarrow> rd (wr a v s) b = (if a = b then v else rd s b)"
  by (auto simp: rd_def wr_def u16_of_nat_inj)

lemma rd_cong: "RAM s = RAM s' \<Longrightarrow> beyond (world s) = beyond (world s') \<Longrightarrow> rd s = rd s'"
  by (auto simp: rd_def)

lemma world_put_bytes [simp]: "world (put_bytes a bs s) = world s"
  by (induction bs arbitrary: a s) simp_all

lemma rd_put_bytes:
  "a + length bs \<le> 65536 \<Longrightarrow> rd (put_bytes a bs s) b = (if a \<le> b \<and> b < a + length bs then bs ! (b - a) else rd s b)"
proof (induction bs arbitrary: a s)
  case (Cons x bs)
  then show ?case by (auto simp: rd_wr nth_Cons')
qed auto

lemma get_put_bytes:
  assumes "a + length bs \<le> 65536"
  shows "get_bytes (put_bytes a bs s) a (length bs) = bs"
  by (rule nth_equalityI) (simp_all add: get_bytes_def rd_put_bytes [OF assms])

lemma get_bytes_cong: "(\<And>i. a \<le> i \<Longrightarrow> i < a + n \<Longrightarrow> rd s i = rd s' i) \<Longrightarrow> get_bytes s a n = get_bytes s' a n"
  by (simp add: get_bytes_def)

section \<open>Positions\<close>

definition cr :: "u16 \<Rightarrow> machine \<Rightarrow> byte" where
  "cr a s = rd s (F_cr a)"

definition ex :: "u16 \<Rightarrow> machine \<Rightarrow> byte" where
  "ex a s = rd s (F_ex a)"

definition s2 :: "u16 \<Rightarrow> machine \<Rightarrow> byte" where
  "s2 a s = rd s (F_s2 a)"

text \<open>A control block inside the memory, its position fields in range.\<close>

definition fcb_ok :: "u16 \<Rightarrow> machine \<Rightarrow> bool" where
  "fcb_ok a s \<longleftrightarrow> unat a \<le> 65500 \<and> cr a s \<le> 128 \<and> ex a s \<le> 31"

definition last_record :: "u16 \<Rightarrow> machine \<Rightarrow> bool" where
  "last_record a s \<longleftrightarrow> cr a s = 128 \<and> ex a s = 31 \<and> s2 a s AND 15 = 15"

lemma seq_pos_fields: "seq_pos a s = unat (s2 a s AND 15) * 524288 + unat (ex a s) * 16384 + unat (cr a s) * 128"
  by (simp add: seq_pos_def cr_def ex_def s2_def)

lemma unat_and_15: "unat ((x::byte) AND 15) = unat x mod 16"
  by (simp add: and_15 unsigned_take_bit_eq take_bit_nat_def)

lemma unat_byte_Suc: "unat ((x::byte) + 1) = (unat x + 1) mod 256"
  by (simp add: unat_word_ariths)

lemma next_record_fields:
  fixes a :: u16 and s :: machine
  assumes "unat a \<le> 65500"
  defines "c \<equiv> cr a s + 1"
  defines "e \<equiv> (if 128 < c then ex a s + 1 else ex a s)"
  shows "cr a (next_record a s) = (if 128 < c then 1 else c)"
    "ex a (next_record a s) = (if 31 < e then 0 else e)"
    "s2 a (next_record a s) = (if 31 < e then s2 a s + 1 else s2 a s)"
  using assms(1) by (simp_all add: next_record_def Let_def cr_def ex_def s2_def rd_wr c_def e_def)

lemma next_record_pos:
  assumes "fcb_ok a s" "\<not> last_record a s"
  shows "seq_pos a (next_record a s) = seq_pos a s + 128" "fcb_ok a (next_record a s)"
proof -
  have a: "unat a \<le> 65500" using assms(1) by (simp add: fcb_ok_def)
  note n = next_record_fields [OF a, of s]
  have c: "unat (cr a s) \<le> 128" "unat (ex a s) \<le> 31"
    using assms(1) by (simp_all add: fcb_ok_def word_le_nat_alt)
  have u: "unat (cr a s + 1) = unat (cr a s) + 1" "unat (ex a s + 1) = unat (ex a s) + 1"
    using c by (simp_all add: unat_byte_Suc)
  have l: "\<not> (unat (cr a s) = 128 \<and> unat (ex a s) = 31 \<and> unat (s2 a s) mod 16 = 15)"
    using assms(2) by (simp add: last_record_def word_unat_eq_iff unat_and_15)
  have s2: "unat (s2 a s + 1) mod 16 = unat (s2 a s) mod 16 + 1" if "unat (s2 a s) mod 16 \<noteq> 15"
  proof -
    have "(n + 1) mod 256 mod 16 = (n + 1) mod 16" for n :: nat by (rule mod_mod_cancel) simp
    then show ?thesis using that unfolding unat_byte_Suc by (simp add: mod_Suc)
  qed
  show "seq_pos a (next_record a s) = seq_pos a s + 128"
  proof (cases "unat (cr a s) = 128")
    case True
    then show ?thesis
      unfolding seq_pos_fields n unat_and_15 using c u l s2 by (cases "unat (ex a s) = 31") (simp_all add: word_less_nat_alt)
  next
    case False
    then show ?thesis unfolding seq_pos_fields n unat_and_15 using c u by (simp add: word_less_nat_alt)
  qed
  show "fcb_ok a (next_record a s)"
    unfolding fcb_ok_def n using a c u by (auto simp: word_less_nat_alt word_le_nat_alt)
qed

lemma random_record_wr:
  "unat a \<le> 65500 \<Longrightarrow>
   random_record a (wr (F_r2 a) z (wr (F_r1 a) y (wr (F_r0 a) x s))) = unat z * 65536 + unat y * 256 + unat x"
  by (simp add: random_record_def rd_wr)

lemma random_record_put:
  assumes "unat a \<le> 65500" "0 \<le> c" "c < 16777216"
  shows "random_record a (put_random a c s) = nat c"
proof -
  have "unat (word_of_int k :: byte) = nat (k mod 256)" for k
    unfolding unat_eq_nat_uint uint_word_of_int by simp
  moreover have "nat (c div 65536 mod 256) * 65536 + nat (c div 256 mod 256) * 256 + nat (c mod 256) = nat c"
  proof -
    have "c div 65536 = c div 256 div 256" using zdiv_zmult2_eq [of 256 c 256] by simp
    moreover have pos: "0 \<le> c div 65536" using assms(2) by (simp add: pos_imp_zdiv_nonneg_iff)
    moreover have "c div 65536 < 256"
      using assms(3) mult_div_mod_eq [of 65536 c] pos_mod_sign [of 65536 c] by linarith
    ultimately have b: "c div 65536 = c div 256 div 256" "c div 65536 mod 256 = c div 65536"
      by (simp_all add: mod_pos_pos_trivial)
    then have "c div 65536 mod 256 * 65536 + c div 256 mod 256 * 256 + c mod 256 = c"
      using mult_div_mod_eq [of 256 c] mult_div_mod_eq [of 256 "c div 256"] by linarith
    then have "int (nat (c div 65536 mod 256) * 65536 + nat (c div 256 mod 256) * 256 + nat (c mod 256)) = int (nat c)"
      using assms(2) b(2) pos by (simp add: b(2))
    then show ?thesis by (simp only: of_nat_eq_iff)
  qed
  ultimately show ?thesis
    unfolding put_random_def Let_def random_record_wr [OF assms(1)] by (simp only: mod_mod_trivial)
qed

lemma unat_and_masks: "unat ((x::byte) AND 0x7f) = unat x mod 128" "unat (x AND 0x1f) = unat x mod 32"
proof -
  have "x AND 0x7f = take_bit 7 x" "x AND 0x1f = take_bit 5 x" by (simp_all add: take_bit_eq_mask mask_eq_exp_minus_1)
  then show "unat (x AND 0x7f) = unat x mod 128" "unat (x AND 0x1f) = unat x mod 32"
    by (simp_all add: unsigned_take_bit_eq take_bit_nat_def)
qed

text \<open>
  \<open>_SetRandom\<close> turns the sequential position of a control block into the record number at
  that position, except that after the last record of an extent (\<open>cr = 128\<close>) the number is 128 records
  too low.
\<close>
theorem set_random_position:
  assumes "fcb_ok a s"
  shows "seq_pos a s = 128 * random_record a (snd (SetRandom a s)) + (if cr a s = 128 then 128 * 128 else 0)"
proof -
  have c: "unat a \<le> 65500" "unat (cr a s) \<le> 128" "unat (ex a s) \<le> 31"
    using assms by (simp_all add: fcb_ok_def word_le_nat_alt)
  let ?n = "unat (cr a s) mod 128 + unat (ex a s) mod 32 * 128 + unat (s2 a s) mod 16 * 4096"
  have "random_record a (snd (SetRandom a s)) = ?n"
    using random_record_put [OF c(1), of "int ?n" s]
    by (simp add: SetRandom_def Let_def cr_def ex_def s2_def unat_and_masks unat_and_15)
  moreover have "cr a s = 128 \<longleftrightarrow> unat (cr a s) = 128" by (simp add: word_unat_eq_iff)
  ultimately show ?thesis
    using c unfolding seq_pos_fields unat_and_15 by (cases "unat (cr a s) = 128") simp_all
qed

section \<open>Blocks of a file\<close>

text \<open>What the record functions rely on: a block is read back, and other blocks stay.\<close>

locale block_store =
  fixes get :: "'f \<Rightarrow> nat \<Rightarrow> byte list option"
    and put :: "'f \<Rightarrow> nat \<Rightarrow> byte list \<Rightarrow> 'f"
  assumes get_put: "length d = 128 \<Longrightarrow> get (put f p d) p = Some d"
    and get_other: "length d = 128 \<Longrightarrow> q + 128 \<le> p \<or> p + 128 \<le> q \<Longrightarrow> get f q = Some x \<Longrightarrow> get (put f p d) q = Some x"
begin

text \<open>Blocks put one behind the other.\<close>

fun put_all :: "'f \<Rightarrow> nat \<Rightarrow> byte list list \<Rightarrow> 'f" where
  "put_all f p [] = f"
| "put_all f p (d # ds) = put_all (put f p d) (p + 128) ds"

lemma get_put_all_before:
  "\<forall>d \<in> set ds. length d = 128 \<Longrightarrow> q + 128 \<le> p \<Longrightarrow> get f q = Some x \<Longrightarrow> get (put_all f p ds) q = Some x"
  by (induction ds arbitrary: f p) (simp_all add: get_other)

lemma get_put_all: "\<forall>d \<in> set ds. length d = 128 \<Longrightarrow> k < length ds \<Longrightarrow> get (put_all f p ds) (p + 128 * k) = Some (ds ! k)"
proof (induction ds arbitrary: f p k)
  case (Cons d ds)
  show ?case
  proof (cases k)
    case 0
    then show ?thesis using Cons.prems by (simp add: get_put_all_before get_put)
  next
    case (Suc j)
    then show ?thesis using Cons.IH [of j "put f p d" "p + 128"] Cons.prems by (simp add: algebra_simps)
  qed
qed simp

end

lemma length_write_block: "length (write_block c p d) = max (length c) (p + length d)"
  by (simp add: write_block_def)

lemma nth_write_block:
  "i < length (write_block c p d) \<Longrightarrow>
   write_block c p d ! i = (if p \<le> i \<and> i < p + length d then d ! (i - p) else if i < length c then c ! i else 0)"
proof -
  assume i: "i < length (write_block c p d)"
  define t where "t = take p (c @ replicate (p - length c) 0)"
  have t: "length t = p" by (simp add: t_def)
  have "write_block c p d = t @ d @ drop (p + length d) c" by (simp add: write_block_def t_def)
  moreover have "t ! i = (if i < length c then c ! i else 0)" if "i < p" using that by (simp add: t_def nth_append)
  ultimately show ?thesis using i t unfolding length_write_block by (auto simp: nth_append)
qed

interpretation blocks: block_store read_block write_block
proof
  fix d f :: "byte list" and p q x
  assume d: "length d = 128"
  show "read_block (write_block f p d) p = Some d"
    using d by (simp add: read_block_def length_write_block) (simp add: write_block_def)
  assume o: "q + 128 \<le> p \<or> p + 128 \<le> q" and x: "read_block f q = Some x"
  have q: "q + 128 \<le> length f" and x': "x = take 128 (drop q f)" using x by (auto simp: read_block_def split: if_splits)
  have "take 128 (drop q (write_block f p d)) = x"
    unfolding x' using q o d
    by (intro nth_equalityI) (auto simp: length_write_block nth_write_block)
  then show "read_block (write_block f p d) q = Some x"
    using q by (simp add: read_block_def length_write_block)
qed

section \<open>Selection of the drive\<close>

lemma SelectDisk_ok:
  assumes "fst (SelectDisk d s) = 0"
  obtains v where "SelectDisk d s = (0, cpm_upd (\<lambda>w. w\<lparr>loginVector := v\<rparr>) s)"
proof -
  let ?disk = "0x41 + (if d = 0 \<or> d = 0x3f then cDrive (world s) else d - 1)"
  have "sys_select [?disk] s" using assms by (auto simp: SelectDisk_def Let_def split: if_splits)
  then have "SelectDisk d s = (0, cpm_upd (\<lambda>w. w\<lparr>loginVector := loginVector (world s) OR push_bit (unat (?disk - 0x41)) 1\<rparr>) s)"
    by (simp add: SelectDisk_def Let_def cpm_upd_def)
  then show thesis by (rule that)
qed

lemma get_bytes_upd [simp]: "(\<And>w. beyond (f w) = beyond w) \<Longrightarrow> get_bytes (cpm_upd f s) a n = get_bytes s a n"
  by (simp add: get_bytes_def rd_def)

lemma rd_upd [simp]: "(\<And>w. beyond (f w) = beyond w) \<Longrightarrow> rd (cpm_upd f s) a = rd s a"
  by (simp add: rd_def)

lemma FCBtoHostname_upd [simp]:
  "(\<And>w. beyond (f w) = beyond w \<and> cDrive (f w) = cDrive w \<and> userCode (f w) = userCode w) \<Longrightarrow>
   FCBtoHostname a (cpm_upd f s) = FCBtoHostname a s"
  by (simp add: FCBtoHostname_def Let_def)

text \<open>The path a control block stands for.\<close>

definition fcb_path :: "u16 \<Rightarrow> machine \<Rightarrow> path" where
  "fcb_path a s = full_path (snd (FCBtoHostname a s))"

lemma content_put_file [simp]: "content p (put_file p c f) = c" "is_file p (put_file p c f)" "dirs (put_file p c f) = dirs f"
  by (simp_all add: content_def is_file_def put_file_def update_conv')

lemma extend_none: "extend_count (- 1) n = 0"
  by (simp add: extend_count_def)

lemma world_next_record [simp]: "world (next_record a s) = world s"
  by (simp add: next_record_def Let_def)

lemma rd_next_record:
  assumes "unat a \<le> 65500" "b < unat a + 12 \<or> unat a + 33 \<le> b"
  shows "rd (next_record a s) b = rd s b"
  using assms by (auto simp: next_record_def Let_def rd_wr)

lemma fs_fs_upd [simp]: "fs (world (fs_upd f s)) = f"
  by (simp add: fs_upd_def)

lemma fs_upd_frame [simp]:
  "RAM (fs_upd f s) = RAM s" "rd (fs_upd f s) b = rd s b" "get_bytes (fs_upd f s) b n = get_bytes s b n"
  "dmaAddr (world (fs_upd f s)) = dmaAddr (world s)" "host_stat (world (fs_upd f s)) = host_stat (world s)"
  by (simp_all add: fs_upd_def)

text \<open>A sequential write that is let through puts the block at \<open>dmaAddr\<close> into the file.\<close>

lemma sys_write_stores:
  assumes "is_file (full_path n) (fs (world s))" "host_stat (world s) (full_path n) = - 1"
  shows "fst (sys_write n pos s) = 0"
    "content (full_path n) (fs (world (snd (sys_write n pos s)))) =
       write_block (content (full_path n) (fs (world s))) pos (get_bytes s (unat (dmaAddr (world s))) 128)"
    "is_file (full_path n) (fs (world (snd (sys_write n pos s))))"
    "dirs (fs (world (snd (sys_write n pos s)))) = dirs (fs (world s))"
  using assms by (simp_all add: sys_write_def sys_extendfile_def Let_def extend_none)

lemma WriteSeq_stores:
  assumes "fst (SelectDisk (rd s (unat a)) s) = 0" "\<not> read_only s"
    and "is_file (fcb_path a s) (fs (world s))" "host_stat (world s) (fcb_path a s) = - 1"
  shows "content (fcb_path a s) (fs (world (snd (WriteSeq a s)))) =
      write_block (content (fcb_path a s) (fs (world s))) (seq_pos a s) (get_bytes s (unat (dmaAddr (world s))) 128)"
    "is_file (fcb_path a s) (fs (world (snd (WriteSeq a s))))" "fst (WriteSeq a s) \<in> {0, 0xfe}"
    "dirs (fs (world (snd (WriteSeq a s)))) = dirs (fs (world s))"
proof -
  obtain v where sel: "SelectDisk (rd s (unat a)) s = (0, cpm_upd (\<lambda>w. w\<lparr>loginVector := v\<rparr>) s)"
    using assms(1) by (rule SelectDisk_ok)
  define s1 where "s1 = set_filename a (cpm_upd (\<lambda>w. w\<lparr>loginVector := v\<rparr>) s)"
  have n: "filename (world s1) = snd (FCBtoHostname a s)" and ro: "\<not> read_only (cpm_upd (\<lambda>w. w\<lparr>loginVector := v\<rparr>) s)"
    and w: "fs (world s1) = fs (world s)" "host_stat (world s1) = host_stat (world s)"
      "get_bytes s1 = get_bytes s" "dmaAddr (world s1) = dmaAddr (world s)"
    using assms(2) by (auto simp: s1_def set_filename_def read_only_def get_bytes_def rd_def fun_eq_iff)
  have "sys_writeseq (filename (world s1)) (seq_pos a s) s1 = (fst (sys_write (filename (world s1)) (seq_pos a s) s1),
      snd (sys_write (filename (world s1)) (seq_pos a s) s1))" by (simp add: sys_writeseq_def)
  note W = this sys_write_stores [of "filename (world s1)" s1 "seq_pos a s", unfolded n w, folded fcb_path_def, OF assms(3,4), folded n]
  show "content (fcb_path a s) (fs (world (snd (WriteSeq a s)))) =
      write_block (content (fcb_path a s) (fs (world s))) (seq_pos a s) (get_bytes s (unat (dmaAddr (world s))) 128)"
    "is_file (fcb_path a s) (fs (world (snd (WriteSeq a s))))" "fst (WriteSeq a s) \<in> {0, 0xfe}"
    "dirs (fs (world (snd (WriteSeq a s)))) = dirs (fs (world s))"
    unfolding WriteSeq_def sel Let_def prod.case s1_def [symmetric] W(1) using ro W(2-5) by simp_all
qed

text \<open>The transfer area lies inside the memory and apart from the control block.\<close>

definition dma_ok :: "u16 \<Rightarrow> machine \<Rightarrow> bool" where
  "dma_ok a s \<longleftrightarrow>
     (let d = unat (dmaAddr (world s)) in
      unat a \<le> 65500 \<and> d + 128 \<le> 65536 \<and> (d + 128 \<le> unat a \<or> unat a + 36 \<le> d))"

lemma ReadSeq_delivers:
  assumes "fst (SelectDisk (rd s (unat a)) s) = 0" "dma_ok a s"
    and "is_file (fcb_path a s) (fs (world s))" "read_block (content (fcb_path a s) (fs (world s))) (seq_pos a s) = Some d"
    and "length d = 128"
  shows "get_bytes (snd (ReadSeq a s)) (unat (dmaAddr (world s))) 128 = d" "fst (ReadSeq a s) \<in> {0, 0xfe}"
    "fcb_ok a s \<Longrightarrow> \<not> last_record a s \<Longrightarrow> seq_pos a (snd (ReadSeq a s)) = seq_pos a s + 128"
proof -
  obtain v where sel: "SelectDisk (rd s (unat a)) s = (0, cpm_upd (\<lambda>w. w\<lparr>loginVector := v\<rparr>) s)"
    using assms(1) by (rule SelectDisk_ok)
  let ?b = "unat (dmaAddr (world s))"
  define s1 where "s1 = set_filename a (cpm_upd (\<lambda>w. w\<lparr>loginVector := v\<rparr>) s)"
  have n: "filename (world s1) = snd (FCBtoHostname a s)"
    and w: "fs (world s1) = fs (world s)" "dmaAddr (world s1) = dmaAddr (world s)"
    by (simp_all add: s1_def set_filename_def)
  have r: "sys_readseq (filename (world s1)) (seq_pos a s) s1 = (0, put_bytes ?b d s1)"
    using assms(3,4) by (simp add: sys_readseq_def Let_def n w fcb_path_def)
  have d: "unat a \<le> 65500" "?b + length d \<le> 65536" "?b + 128 \<le> unat a \<or> unat a + 36 \<le> ?b"
    using assms(2,5) by (simp_all add: dma_ok_def Let_def)
  have "get_bytes (next_record a (put_bytes ?b d s1)) ?b 128 = get_bytes (put_bytes ?b d s1) ?b 128"
    using d by (intro get_bytes_cong rd_next_record) auto
  also have "\<dots> = d" using get_put_bytes [OF d(2), of s1] assms(5) by simp
  finally show "get_bytes (snd (ReadSeq a s)) ?b 128 = d" "fst (ReadSeq a s) \<in> {0, 0xfe}"
    unfolding ReadSeq_def sel Let_def prod.case s1_def [symmetric] r by simp_all
  assume ok: "fcb_ok a s" "\<not> last_record a s"
  have "rd (put_bytes ?b d s1) i = rd s i" if "unat a \<le> i" "i < unat a + 36" for i
    using d that assms(5) by (auto simp: rd_put_bytes s1_def set_filename_def)
  then have f: "cr a (put_bytes ?b d s1) = cr a s" "ex a (put_bytes ?b d s1) = ex a s" "s2 a (put_bytes ?b d s1) = s2 a s"
    by (simp_all add: cr_def ex_def s2_def)
  have "seq_pos a (next_record a (put_bytes ?b d s1)) = seq_pos a (put_bytes ?b d s1) + 128"
    using ok by (intro next_record_pos) (simp_all add: fcb_ok_def last_record_def f)
  then show "seq_pos a (snd (ReadSeq a s)) = seq_pos a s + 128"
    unfolding ReadSeq_def sel Let_def prod.case s1_def [symmetric] r by (simp add: seq_pos_fields f)
qed

lemma ReadSeq_short:
  assumes "fst (SelectDisk (rd s (unat a)) s) = 0"
    and "is_file (fcb_path a s) (fs (world s))" "read_block (content (fcb_path a s) (fs (world s))) (seq_pos a s) = None"
  shows "fst (ReadSeq a s) = 1" "RAM (snd (ReadSeq a s)) = RAM s"
proof -
  obtain v where sel: "SelectDisk (rd s (unat a)) s = (0, cpm_upd (\<lambda>w. w\<lparr>loginVector := v\<rparr>) s)"
    using assms(1) by (rule SelectDisk_ok)
  show "fst (ReadSeq a s) = 1" "RAM (snd (ReadSeq a s)) = RAM s"
    using assms(2,3) unfolding ReadSeq_def sel Let_def prod.case set_filename_def
    by (simp_all add: sys_readseq_def fcb_path_def)
qed

text \<open>
  Property (C8). What a program writes with a sequential write it reads back with a sequential read: any
  later state with the same files and a control block for the same file at the same position delivers
  exactly the 128 bytes that were written. The size that \<open>stat\<close> reports for the unprefixed path must be
  missing.
\<close>
theorem write_read_record:
  assumes "fst (SelectDisk (rd s (unat a)) s) = 0" "\<not> read_only s"
    and "is_file (fcb_path a s) (fs (world s))" "host_stat (world s) (fcb_path a s) = - 1"
    and "fst (SelectDisk (rd t (unat b)) t) = 0" "dma_ok b t"
    and "fs (world t) = fs (world (snd (WriteSeq a s)))" "fcb_path b t = fcb_path a s" "seq_pos b t = seq_pos a s"
  shows "get_bytes (snd (ReadSeq b t)) (unat (dmaAddr (world t))) 128 = get_bytes s (unat (dmaAddr (world s))) 128
    \<and> fst (ReadSeq b t) \<in> {0, 0xfe}"
proof -
  let ?d = "get_bytes s (unat (dmaAddr (world s))) 128"
  have l: "length ?d = 128" by (simp add: get_bytes_def)
  note W = WriteSeq_stores [OF assms(1-4)]
  have "read_block (content (fcb_path b t) (fs (world t))) (seq_pos b t) = Some ?d"
    unfolding assms(7-9) W(1) by (rule blocks.get_put [OF l])
  then show ?thesis
    using ReadSeq_delivers [OF assms(5,6) _ _ l] W(2) unfolding assms(7,8) by blast
qed

section \<open>An example\<close>

text \<open>A card with one empty file in user area 0 of drive A, and a control block for it at \<open>0x5C\<close>.\<close>

definition example_fs :: fsys where
  "example_fs =
     \<lparr>files = [(str ''/CPM/A/0/X'', [])], dirs = [str ''/CPM'', str ''/CPM/A'', str ''/CPM/A/0'']\<rparr>"

definition world0 :: "fsys \<Rightarrow> byte list \<Rightarrow> cpm" where
  "world0 f ks =
     \<lparr>filename = [], newname = [], fcbname = [], pattern = [], dmaAddr = 0x80, oDrive = 0, cDrive = 0, userCode = 0,
      roVector = 0, loginVector = 0, allUsers = False, allExtents = False, currFindUser = 0, blockShift = 0, blockMask = 0,
      extentMask = 0, firstBlockAfterDir = 0, numAllocBlocks = 0, extentsPerDirEntry = 0, physicalExtentBytes = 0,
      findNextDirName = [], fileRecords = 0, fileExtents = 0, fileExtentsUsed = 0, firstFreeAllocBlock = 0,
      mask8bit = 0x7f, lastLine = replicate 256 0, fs = f, dirEntries = [], host_stat = (\<lambda>_. - 1), keys = ks,
      screen = [], printer = [], beyond = (\<lambda>_. 0), stuck = False, crashed = False\<rparr>"

definition machine0 :: "(u16 \<Rightarrow> byte) \<Rightarrow> cpm \<Rightarrow> machine" where
  "machine0 ram w =
     \<lparr>PCX = 0, AF = 0, BC = 0, DE = 0, HL = 0, IX = 0, IY = 0, PC = 0, SP = 0, AF1 = 0, BC1 = 0, DE1 = 0, HL1 = 0,
      IFF = 0, IR = 0, Status = 0, Debug = 0, Break = 0, Step = 0, RAM = ram, overrun = False, world = w\<rparr>"

definition example_ram :: "u16 \<Rightarrow> byte" where
  "example_ram = (\<lambda>_. 0)(0x5d := 0x58, 0x80 := 0x48, 0x81 := 0x49)"

definition example :: machine where
  "example = machine0 example_ram (world0 example_fs [])"

definition example_after :: machine where
  "example_after = cpm_upd (\<lambda>w. w\<lparr>fs := fs (world (snd (WriteSeq 0x5c example))), dmaAddr := 0x100\<rparr>) example"

lemma example_simps [simp]:
  "rd example n = (if n < 65536 then example_ram (of_nat n) else 0)" "cDrive (world example) = 0"
  "userCode (world example) = 0" "fs (world example) = example_fs" "roVector (world example) = 0"
  "host_stat (world example) = (\<lambda>_. - 1)" "dmaAddr (world example) = 0x80"
  by (simp_all add: example_def machine0_def world0_def rd_def)

lemma example_name: "FCBtoHostname 0x5c example = (True, str ''A/0/X'')"
  by (simp add: FCBtoHostname_def Let_def get_bytes_def upt_rec fcb_part_def fcb_char_def toupper_def tohex_def str_def
    example_ram_def of_char_def)

lemma example_ready:
  "fst (SelectDisk (rd example (unat (0x5c::u16))) example) = 0" "\<not> read_only example"
  "is_file (fcb_path 0x5c example) (fs (world example))" "host_stat (world example) (fcb_path 0x5c example) = - 1"
  by (simp_all add: SelectDisk_def Let_def example_ram_def sys_select_def sd_exists_def full_path_def str_def
      example_fs_def is_file_def read_only_def fcb_path_def example_name)

lemma example_after_ready:
  "fst (SelectDisk (rd example_after (unat (0x5c::u16))) example_after) = 0" "dma_ok 0x5c example_after"
  using WriteSeq_stores(4) [OF example_ready]
  by (simp_all add: example_after_def SelectDisk_def Let_def example_ram_def sys_select_def sd_exists_def full_path_def str_def
      example_fs_def dma_ok_def)

lemma example_after_same:
  "fcb_path 0x5c example_after = fcb_path 0x5c example" "seq_pos 0x5c example_after = seq_pos 0x5c example"
  by (simp_all add: example_after_def fcb_path_def seq_pos_def)

theorem write_read_record_witness: "get_bytes (snd (ReadSeq 0x5c example_after)) 0x100 128 = get_bytes example 0x80 128"
proof -
  have t: "fs (world example_after) = fs (world (snd (WriteSeq 0x5c example)))" "unat (dmaAddr (world example_after)) = 0x100"
    by (simp_all add: example_after_def)
  show ?thesis
    using write_read_record [OF example_ready example_after_ready t(1) example_after_same] unfolding t(2) by simp
qed

theorem set_random_position_witness:
  "seq_pos 0x5c (wr 0x7c 128 example) = 128 * random_record 0x5c (snd (SetRandom 0x5c (wr 0x7c 128 example))) + 16384"
proof -
  have "fcb_ok 0x5c (wr 0x7c 128 example)" "cr 0x5c (wr 0x7c 128 example) = 128"
    by (simp_all add: fcb_ok_def cr_def ex_def rd_wr example_ram_def)
  then show ?thesis using set_random_position [of "0x5c" "wr 0x7c 128 example"] by simp
qed

end
