(* ===== verification/Cpm_Names.thy ===== *)
theory Cpm_Names
  imports Cpm_Records
begin

text \<open>
  File names: a name taken from a control block fits its buffer and starts with the folder of the
  drive and user, and names survive the way into a control block and back.
\<close>

section \<open>From the control block\<close>

lemma toupper_slash: "toupper c = slash \<longleftrightarrow> c = slash"
proof -
  have "\<forall>c::byte. (toupper c = slash) = (c = slash)"
    unfolding all_byte_enum by code_simp
  then show ?thesis ..
qed

lemma fcb_char_slash: "fcb_char b \<noteq> slash"
  by (simp add: fcb_char_def Let_def)

lemma fcb_part_slash: "slash \<notin> set (fcb_part bs)"
proof
  assume "slash \<in> set (fcb_part bs)"
  then obtain b where "toupper (fcb_char b) = slash" by (auto simp: fcb_part_def)
  then show False using fcb_char_slash [of b] unfolding toupper_slash by simp
qed

section \<open>To the control block\<close>

text \<open>Printable, upper case, and no character with a meaning in names or patterns.\<close>

definition name_char :: "byte \<Rightarrow> bool" where
  "name_char c \<longleftrightarrow> 32 < c \<and> c < 127 \<and> toupper c = c \<and> c \<noteq> 0x2e \<and> c \<noteq> slash \<and> c \<noteq> 0x3f"

definition plain_name :: "byte list \<Rightarrow> byte list \<Rightarrow> bool" where
  "plain_name b e \<longleftrightarrow> b \<noteq> [] \<and> length b \<le> 8 \<and> length e \<le> 3 \<and> list_all name_char (b @ e)"

definition host_name :: "byte list \<Rightarrow> byte list \<Rightarrow> byte list" where
  "host_name b e = b @ (if e = [] then [] else 0x2e # e)"

lemma name_char_fcb: "name_char c \<Longrightarrow> fcb_char c = c"
proof -
  have "\<forall>c::byte. name_char c \<longrightarrow> fcb_char c = c"
    unfolding all_byte_enum by code_simp
  then show "name_char c \<Longrightarrow> fcb_char c = c" by simp
qed

lemma fcb_part_plain: "list_all name_char bs \<Longrightarrow> fcb_part (bs @ replicate n 0x20) = bs"
proof (induction bs)
  case Nil
  have "fcb_char 0x20 = 0x20" by (simp add: fcb_char_def Let_def)
  then show ?case by (induction n) (simp_all add: fcb_part_def)
next
  case (Cons c bs)
  then show ?case using name_char_fcb [of c] by (simp add: fcb_part_def name_char_def)
qed

lemma toupper_range: "32 < c \<Longrightarrow> c < 128 \<Longrightarrow> 32 < toupper c \<and> toupper c < 128 \<and> toupper (toupper c) = toupper c"
proof -
  have "\<forall>c::byte. 32 < c \<and> c < 128 \<longrightarrow> 32 < toupper c \<and> toupper c < 128 \<and> toupper (toupper c) = toupper c"
    unfolding all_byte_enum by code_simp
  then show "32 < c \<Longrightarrow> c < 128 \<Longrightarrow> 32 < toupper c \<and> toupper c < 128 \<and> toupper (toupper c) = toupper c" by blast
qed

lemma fcb_char_range: "fcb_char b < 128"
proof -
  have "\<forall>b::byte. fcb_char b < 128" unfolding all_byte_enum by code_simp
  then show ?thesis ..
qed

text \<open>The characters a host name can have.\<close>

definition file_char :: "byte \<Rightarrow> bool" where
  "file_char c \<longleftrightarrow> 32 < c \<and> c < 128 \<and> toupper c = c"

lemma fcb_part_chars: "list_all file_char (fcb_part bs)"
  by (auto simp: list_all_iff fcb_part_def file_char_def toupper_range fcb_char_range)

lemma fixed_chars: "file_char 0x2e" "file_char question"
  by (simp_all add: file_char_def toupper_def)


text \<open>User 11 names \<open>GO.COM\<close> of drive C.\<close>

definition go_fcb :: machine where
  "go_fcb = machine0 ((\<lambda>_. 0x20)(0x5c := 3, 0x5d := 0x47, 0x5e := 0x4f, 0x65 := 0x43, 0x66 := 0x4f, 0x67 := 0x4d))
     ((world0 example_fs [])\<lparr>userCode := 11\<rparr>)"


text \<open>
  The buffers of a search: the pattern of a control block without dots has 11 characters, and fits. With dots
  it does not have to: \<open>A.BCDEFG\<close> of type \<open>XYZ\<close> gives 18.
\<close>

lemma toupper_dot: "toupper c = 0x2e \<longleftrightarrow> c = 0x2e"
proof -
  have "\<forall>c::byte. (toupper c = 0x2e) = (c = 0x2e)" unfolding all_byte_enum by code_simp
  then show ?thesis ..
qed

lemma host_parts_folder: "0x2e \<notin> set b \<Longrightarrow> length b \<le> 8 \<Longrightarrow> length e \<le> 3 \<Longrightarrow>
    length (HostnameToFCBname ([d, slash, u, slash] @ b @ (if e = [] then [] else 0x2e # e))) = 11"
proof -
  assume b: "0x2e \<notin> set b" "length b \<le> 8" and e: "length e \<le> 3"
  have "takeWhile (\<lambda>c. c \<noteq> 0x2e) (b @ x) = b @ takeWhile (\<lambda>c. c \<noteq> 0x2e) x" for x
    by (rule takeWhile_append2) (use b(1) in auto)
  from this [of "[]"] this [of "0x2e # e"]
  have t: "takeWhile (\<lambda>c. c \<noteq> 0x2e) b = b" "takeWhile (\<lambda>c. c \<noteq> 0x2e) (b @ 0x2e # e) = b" by simp_all
  show "length (HostnameToFCBname ([d, slash, u, slash] @ b @ (if e = [] then [] else 0x2e # e))) = 11"
    using b(2) e by (simp add: HostnameToFCBname_def host_parts_def at_def Let_def t)
qed

lemma dotless_pattern:
  assumes "0x2e \<notin> set (map fcb_char (get_bytes s (unat a + 1) 8))"
  shows "length (HostnameToFCBname (snd (FCBtoHostname a s))) = 11"
proof -
  have n: "0x2e \<notin> set (fcb_part (get_bytes s (unat a + 1) 8))"
    using assms by (auto simp: fcb_part_def toupper_dot)
  have l: "length (fcb_part (get_bytes s (unat a + 1) 8)) \<le> 8" "length (fcb_part (get_bytes s (unat a + 9) 3)) \<le> 3"
    using length_fcb_part [of "get_bytes s (unat a + 1) 8"] length_fcb_part [of "get_bytes s (unat a + 9) 3"]
    by (simp_all add: get_bytes_def)
  have q: "0x2e \<notin> set (replicate 8 question)" by simp
  show ?thesis
    using host_parts_folder [OF n l] host_parts_folder [OF q, of "replicate 3 question"]
    by (simp add: FCBtoHostname_def Let_def)
qed

lemma dotted_pattern: "length (HostnameToFCBname (str ''A/0/A.BCDEFG.XYZ'')) = 18"
  by (simp add: HostnameToFCBname_def host_parts_def at_def Let_def str_def of_char_def)

lemma map_toupper_plain: "list_all name_char bs \<Longrightarrow> map toupper bs = bs"
  by (induction bs) (simp_all add: name_char_def)

lemma host_parts_plain:
  assumes "plain_name b e"
  shows "host_parts (host_name b e) = (b, e)"
proof -
  have c: "\<forall>c \<in> set b. c \<noteq> 0x2e" "slash \<notin> set b" "slash \<notin> set e" "map toupper b = b" "map toupper e = e"
    using assms by (auto simp: plain_name_def list_all_iff name_char_def map_toupper_plain [unfolded list_all_iff name_char_def])
  have "slash \<notin> set (host_name b e)" using c by (auto simp: host_name_def)
  then have "at (host_name b e) 1 \<noteq> slash" by (auto simp: at_def) (metis One_nat_def nth_mem)
  moreover have "takeWhile (\<lambda>c. c \<noteq> 0x2e) (host_name b e) = b"
    using c(1) by (auto simp: host_name_def takeWhile_append_stop)
  ultimately show ?thesis using c(4,5) by (simp add: host_parts_def host_name_def Let_def)
qed

lemma get_bytes_outside: "a + length bs \<le> 65536 \<Longrightarrow> b + n \<le> a \<or> a + length bs \<le> b \<Longrightarrow>
    get_bytes (put_bytes a bs s) b n = get_bytes s b n"
  by (rule get_bytes_cong) (auto simp: rd_put_bytes)

text \<open>
  A plain 8.3 name put into a control block is the name that is read out of it again, in
  the folder of the drive and user.
\<close>
theorem name_roundtrip:
  assumes "plain_name b e" "unat a \<le> 65500" "rd s (unat a) \<noteq> question"
  shows "snd (FCBtoHostname a (HostnameToFCB a (host_name b e) s)) = take 4 (snd (FCBtoHostname a s)) @ host_name b e"
proof -
  let ?fn = "b @ replicate (8 - length b) 0x20" and ?tp = "e @ replicate (3 - length e) 0x20"
  let ?s = "put_bytes (unat a + 9) ?tp (put_bytes (unat a + 1) ?fn s)"
  have l: "length ?fn = 8" "length ?tp = 3" using assms(1) by (simp_all add: plain_name_def)
  have s: "HostnameToFCB a (host_name b e) s = ?s"
    by (simp add: HostnameToFCB_def host_parts_plain [OF assms(1)])
  have tp: "get_bytes ?s (unat a + 9) 3 = ?tp"
    using get_put_bytes [of "unat a + 9" ?tp] l(2) assms(2) by simp
  have "get_bytes ?s (unat a + 1) 8 = get_bytes (put_bytes (unat a + 1) ?fn s) (unat a + 1) 8"
    using l assms(2) by (intro get_bytes_outside) simp_all
  also have "\<dots> = ?fn" using get_put_bytes [of "unat a + 1" ?fn s] l(1) assms(2) by simp
  finally have fn: "get_bytes ?s (unat a + 1) 8 = ?fn" .
  have dr: "rd ?s (unat a) = rd s (unat a)" using l assms(2) by (simp add: rd_put_bytes)
  have parts: "fcb_part ?fn = b" "fcb_part ?tp = e"
    using assms(1) by (simp_all add: fcb_part_plain plain_name_def)
  show ?thesis
    unfolding s FCBtoHostname_def Let_def fn tp dr parts using assms(3) by (simp add: host_name_def)
qed

theorem name_roundtrip_witness:
  "snd (FCBtoHostname 0x5c (HostnameToFCB 0x5c (str ''GO.COM'') example)) = str ''A/0/GO.COM''"
proof -
  have "plain_name (str ''GO'') (str ''COM'')" "host_name (str ''GO'') (str ''COM'') = str ''GO.COM''"
    by (simp_all add: plain_name_def host_name_def str_def of_char_def name_char_def toupper_def)
  moreover have "take 4 (snd (FCBtoHostname 0x5c example)) = str ''A/0/''"
    by (simp add: example_name str_def)
  ultimately show ?thesis
    using name_roundtrip [of "str ''GO''" "str ''COM''" "0x5c" example] by (simp add: example_ram_def str_def)
qed

section \<open>Reading\<close>

text \<open>
  Property (C30). A sequential read of an open file either delivers the complete record at the position,
  to the transfer address, and moves the position by one record; or, when less than a complete record is
  left, returns 1 and changes nothing in memory: a last record that is not complete is never
  delivered.
\<close>
theorem read_seq_cases:
  assumes "fst (SelectDisk (rd s (unat a)) s) = 0" "dma_ok a s" "fcb_ok a s" "\<not> last_record a s"
    and "is_file (fcb_path a s) (fs (world s))"
  defines "c \<equiv> content (fcb_path a s) (fs (world s))"
  shows "if seq_pos a s + 128 \<le> length c
    then get_bytes (snd (ReadSeq a s)) (unat (dmaAddr (world s))) 128 = take 128 (drop (seq_pos a s) c) \<and>
      seq_pos a (snd (ReadSeq a s)) = seq_pos a s + 128 \<and> fst (ReadSeq a s) \<in> {0, 0xfe}
    else fst (ReadSeq a s) = 1 \<and> RAM (snd (ReadSeq a s)) = RAM s"
proof (cases "seq_pos a s + 128 \<le> length c")
  case True
  then have "read_block (content (fcb_path a s) (fs (world s))) (seq_pos a s) = Some (take 128 (drop (seq_pos a s) c))"
    by (simp add: read_block_def c_def)
  note d = ReadSeq_delivers [OF assms(1,2,5) this]
  show ?thesis using True d(1,2) d(3) [OF _ assms(3,4)] by simp
next
  case False
  then have "read_block (content (fcb_path a s) (fs (world s))) (seq_pos a s) = None"
    by (simp add: read_block_def c_def)
  from ReadSeq_short [OF assms(1,5) this] show ?thesis using False by simp
qed

theorem read_seq_cases_witness: "fst (ReadSeq 0x5c example) = 1 \<and> RAM (snd (ReadSeq 0x5c example)) = RAM example"
proof -
  have "dma_ok 0x5c example" "fcb_ok 0x5c example" "\<not> last_record 0x5c example"
    by (simp_all add: dma_ok_def fcb_ok_def last_record_def cr_def ex_def s2_def example_ram_def)
  note r = read_seq_cases [OF example_ready(1) this example_ready(3)]
  have "content (fcb_path 0x5c example) (fs (world example)) = []"
    by (simp add: fcb_path_def example_name content_def example_fs_def full_path_def str_def)
  then show ?thesis using r by simp
qed

end
