(* ===== verification/Cpm_Console.thy ===== *)
theory Cpm_Console
  imports Cpm_Names
begin

text \<open>
  The line editor of BDOS function 10: what it leaves for a line typed without corrections, and the
  buffer size at which it does not return.
\<close>

definition printable :: "byte \<Rightarrow> bool" where
  "printable k \<longleftrightarrow> 0x20 \<le> k \<and> k \<le> 0x7e"

lemma printable_mask: "printable k \<Longrightarrow> k AND 0x7f = k"
proof -
  have "\<forall>k::byte. printable k \<longrightarrow> k AND 0x7f = k" unfolding all_byte_enum by code_simp
  then show "printable k \<Longrightarrow> k AND 0x7f = k" by simp
qed

text \<open>One key at the end of the line.\<close>

definition type_key :: "u16 \<Rightarrow> byte \<Rightarrow> byte \<Rightarrow> byte list \<Rightarrow> machine \<Rightarrow> machine" where
  "type_key idx col k ks s =
     (let s = cpm_upd (\<lambda>w. w\<lparr>keys := ks\<rparr>) s in putcon k (s\<lparr>RAM := (RAM s)(idx + ucast col := k)\<rparr>))"

lemma printable_keys:
  "printable k \<Longrightarrow> k \<notin> {1, 2, 3, 5, 6, 7, 8, 0x7f, 0x0a, 0x0b, 0x0d, 18, 21, 23, 24}"
proof -
  have "\<forall>k::byte. printable k \<longrightarrow> k \<notin> {1, 2, 3, 5, 6, 7, 8, 0x7f, 0x0a, 0x0b, 0x0d, 18, 21, 23, 24}"
    unfolding all_byte_enum by code_simp
  then show "printable k \<Longrightarrow> k \<notin> {1, 2, 3, 5, 6, 7, 8, 0x7f, 0x0a, 0x0b, 0x0d, 18, 21, 23, 24}" by blast
qed

lemma RAM_putcon [simp]: "RAM (putcon c s) = RAM s"
  by (simp add: putcon_def putch_def serial_write_def cpm_upd_def)

lemma unat_Suc_byte: "col \<noteq> 0xff \<Longrightarrow> unat (col + 1) = unat col + 1" for col :: byte
proof -
  assume "col \<noteq> 0xff"
  then have "unat col \<noteq> 255" by (simp add: word_unat_eq_iff)
  moreover have "unat col < 2 ^ LENGTH(8)" by (rule unsigned_less)
  ultimately show ?thesis unfolding unat_byte_Suc by simp
qed

lemma less_Suc_byte: "col \<noteq> 0xff \<Longrightarrow> col < col + 1" for col :: byte
  by (simp add: word_less_nat_alt unat_Suc_byte)

lemma readstr_loop_type:
  assumes "printable k" "col \<noteq> 0xff"
  shows "readstr_loop (k # ks) idx mx col col s =
    (if col + 1 = mx then (col + 1, type_key idx col k ks s)
     else readstr_loop ks idx mx (col + 1) (col + 1) (type_key idx col k ks s))"
proof -
  have c: "col < col + 1" using assms(2) by (rule less_Suc_byte)
  show ?thesis
    using assms(1) printable_keys [OF assms(1)] c
    by (simp add: printable_mask edit_key_def Let_def type_key_def printable_def)
qed

text \<open>A whole line.\<close>

fun type_line :: "u16 \<Rightarrow> byte \<Rightarrow> byte list \<Rightarrow> byte list \<Rightarrow> machine \<Rightarrow> machine" where
  "type_line idx col [] rest s = s"
| "type_line idx col (k # ks) rest s = type_line idx (col + 1) ks rest (type_key idx col k (ks @ rest) s)"

lemma of_nat_not_255: "n < 255 \<Longrightarrow> (of_nat n :: byte) \<noteq> 0xff"
  by (simp add: word_unat_eq_iff take_bit_nat_eq_self unat_of_nat)

lemma unat_of_nat_Suc: "n < 255 \<Longrightarrow> unat (of_nat n + 1 :: byte) = Suc n"
  by (simp add: unat_Suc_byte of_nat_not_255 unat_of_nat take_bit_nat_eq_self)

lemma readstr_loop_line:
  assumes "list_all printable ks" "n + length ks < unat mx"
  shows "readstr_loop (ks @ rest) idx mx (of_nat n) (of_nat n) s =
    readstr_loop rest idx mx (of_nat (n + length ks)) (of_nat (n + length ks)) (type_line idx (of_nat n) ks rest s)"
  using assms
proof (induction ks arbitrary: n s)
  case (Cons k ks)
  have "unat mx < 2 ^ LENGTH(8)" by (rule unsigned_less)
  then have n: "Suc n < 255" using Cons.prems(2) by simp
  have "of_nat n + 1 \<noteq> mx"
    using Cons.prems(2) n by (auto simp: word_unat_eq_iff unat_of_nat_Suc)
  then show ?case
    using Cons readstr_loop_type [of k "of_nat n" "ks @ rest" idx mx s] of_nat_not_255 [of n] n Cons.IH [of "Suc n"]
    by (simp add: add.commute)
qed simp

lemma readstr_loop_full:
  assumes "list_all printable ks" "n + length ks = unat mx" "ks \<noteq> []"
  shows "readstr_loop (ks @ rest) idx mx (of_nat n) (of_nat n) s = (mx, type_line idx (of_nat n) ks rest s)"
  using assms
proof (induction ks arbitrary: n s)
  case (Cons k ks)
  have "unat mx < 2 ^ LENGTH(8)" by (rule unsigned_less)
  then have n: "n < 255" using Cons.prems(2) by simp
  have e: "of_nat n + 1 = mx \<longleftrightarrow> ks = []"
    using Cons.prems(2) n by (cases ks) (auto simp: word_unat_eq_iff unat_of_nat_Suc)
  then show ?case
    using Cons readstr_loop_type [of k "of_nat n" "ks @ rest" idx mx s] of_nat_not_255 [of n] n Cons.IH [of "Suc n"]
    by (cases "ks = []") (simp_all add: add.commute)
qed simp

section \<open>The buffer after a line\<close>

lemma type_key_frame [simp]:
  "RAM (type_key idx col k ks s) = (RAM s)(idx + ucast col := k)" "keys (world (type_key idx col k ks s)) = ks"
  "mask8bit (world (type_key idx col k ks s)) = mask8bit (world s)"
  "screen (world (type_key idx col k ks s)) = screen (world s) @ [(k AND mask8bit (world s)) AND 0x7f]"
  "stuck (world (type_key idx col k ks s)) = stuck (world s)" "lastLine (world (type_key idx col k ks s)) = lastLine (world s)"
  by (simp_all add: type_key_def Let_def putcon_def putch_def serial_write_def cpm_upd_def)

lemma type_line_frame:
  "keys (world (type_line idx col ks rest s)) = (if ks = [] then keys (world s) else rest)"
  "mask8bit (world (type_line idx col ks rest s)) = mask8bit (world s)"
  "screen (world (type_line idx col ks rest s)) = screen (world s) @ map (\<lambda>k. (k AND mask8bit (world s)) AND 0x7f) ks"
  "stuck (world (type_line idx col ks rest s)) = stuck (world s)"
  "lastLine (world (type_line idx col ks rest s)) = lastLine (world s)"
  by (induction ks arbitrary: col s) simp_all

lemma type_line_RAM:
  assumes "n + length ks \<le> 255"
  shows "RAM (type_line idx (of_nat n) ks rest s) a =
    (let i = unat (a - idx) in if n \<le> i \<and> i < n + length ks then ks ! (i - n) else RAM s a)"
  using assms
proof (induction ks arbitrary: n s)
  case (Cons k ks)
  have t: "type_line idx (of_nat n) (k # ks) rest s =
      type_line idx (of_nat (Suc n)) ks rest (type_key idx (of_nat n) k (ks @ rest) s)" by (simp add: add.commute)
  have e: "a = idx + ucast (of_nat n :: byte) \<longleftrightarrow> unat (a - idx) = n"
  proof -
    have "n < 256" using Cons.prems by simp
    then have "ucast (of_nat n :: byte) = (of_nat n :: u16)" "unat (of_nat n :: u16) = n"
      by (simp_all add: unsigned_of_nat take_bit_nat_eq_self)
    moreover have "a = idx + x \<longleftrightarrow> a - idx = x" for x by (auto simp: algebra_simps)
    ultimately show ?thesis by (metis word_unat_eq_iff)
  qed
  have "Suc n + length ks \<le> 255" using Cons.prems by simp
  note ih = Cons.IH [OF this]
  show ?case unfolding t ih type_key_frame fun_upd_apply e by (auto simp: Let_def nth_Cons')
qed (auto simp: Let_def)

text \<open>
  A line of printable characters that is shorter than the buffer and ended by a carriage return is
  in the buffer afterwards, with its length in front of it; the other bytes of the memory are as they were, the keys behind
  the line are still to be read, and the line was echoed.
\<close>
theorem readstr_line:
  fixes s :: machine
  defines "d \<equiv> ucast (DE s) :: u16"
  assumes "list_all printable ks" "length ks < unat (RAM s d)" "keys (world s) = ks @ 0x0d # rest"
  shows "RAM (readstr s) (d + 1) = of_nat (length ks) \<and> (\<forall>i < length ks. RAM (readstr s) (d + 2 + of_nat i) = ks ! i) \<and>
    (\<forall>a. length ks < unat (a - (d + 1)) \<longrightarrow> RAM (readstr s) a = RAM s a) \<and> keys (world (readstr s)) = rest \<and>
    screen (world (readstr s)) = screen (world s) @ map (\<lambda>k. (k AND mask8bit (world s)) AND 0x7f) (ks @ [0x0d])"
proof -
  let ?n = "length ks" and ?idx = "d + 1 + 1"
  let ?s1 = "type_line ?idx 0 ks (0x0d # rest) s"
  let ?s2 = "cpm_upd (\<lambda>w. w\<lparr>keys := rest\<rparr>) ?s1"
  have "unat (RAM s d) < 2 ^ LENGTH(8)" by (rule unsigned_less)
  then have n: "?n < 255" using assms(3) by simp
  have l: "readstr_loop (keys (world s)) ?idx (RAM s d) 0 0 s = (of_nat ?n, ?s2)"
    using readstr_loop_line [OF assms(2), of 0 "RAM s d" "0x0d # rest" ?idx s] assms(3) unfolding assms(4) by simp
  have m: "RAM s d \<noteq> 0" using assms(3) by auto
  have ram: "RAM (readstr s) = (RAM ?s1)(d + 1 := of_nat ?n)"
    and k: "keys (world (readstr s)) = rest"
    and e: "screen (world (readstr s)) = screen (world ?s1) @ [(0x0d AND mask8bit (world ?s1)) AND 0x7f]"
    unfolding readstr_def Let_def d_def [symmetric] l using m of_nat_not_255 [OF n]
    by (simp_all add: putcon_def putch_def serial_write_def del: upt_Suc)
  have "RAM (readstr s) (d + 2 + of_nat i) = ks ! i" if "i < ?n" for i
  proof -
    have "d + 2 + of_nat i = d + 1 + of_nat (Suc i)" by (simp add: algebra_simps)
    moreover have "(of_nat (Suc i) :: u16) \<noteq> 0" using u16_of_nat_inj [of "Suc i" 0] that n by simp
    ultimately have "d + 2 + of_nat i \<noteq> d + 1" by (metis add_cancel_right_right)
    moreover have "unat (of_nat i :: u16) = i" using that n by (simp add: unsigned_of_nat take_bit_nat_eq_self)
    ultimately have i: "unat (d + 2 + of_nat i - ?idx) = i" "d + 2 + of_nat i \<noteq> d + 1"
      by simp_all
    then show ?thesis
      using type_line_RAM [of 0 ks ?idx "0x0d # rest" s "d + 2 + of_nat i"] that n unfolding ram by (simp add: Let_def)
  qed
  moreover have "RAM (readstr s) a = RAM s a" if "?n < unat (a - (d + 1))" for a
  proof -
    have "a - (d + 1) \<noteq> 0" using that by auto
    then have "unat (a - (d + 1) - 1) = unat (a - (d + 1)) - 1" by (rule unat_minus_one)
    moreover have "a \<noteq> d + 1" using that by auto
    moreover have "a - (d + 1) - 1 = a - ?idx" by (simp add: algebra_simps)
    ultimately have "a \<noteq> d + 1" "\<not> unat (a - ?idx) < ?n" using that by simp_all
    then show ?thesis
      using type_line_RAM [of 0 ks ?idx "0x0d # rest" s a] n unfolding ram by (simp add: Let_def)
  qed
  ultimately show ?thesis using ram k e by (simp add: type_line_frame)
qed

theorem readstr_line_witness:
  "RAM (readstr ((machine0 ((\<lambda>_. 0)(0x80 := 10)) (world0 example_fs [0x44, 0x0d]))\<lparr>DE := 0x80\<rparr>)) 0x82 = 0x44"
  using readstr_line [of "[0x44]" "(machine0 ((\<lambda>_. 0)(0x80 := 10)) (world0 example_fs [0x44, 0x0d]))\<lparr>DE := 0x80\<rparr>" "[]"]
  by (simp add: printable_def machine0_def world0_def)

text \<open>
  When the buffer has room for 255 characters and all of them are typed, the call does not
  return: the copy to the line memory counts to 255 in a byte.
\<close>
theorem readstr_full_hangs:
  fixes s :: machine
  assumes "list_all printable ks" "length ks = 255" "RAM s (ucast (DE s)) = 0xff" "keys (world s) = ks @ rest"
  shows "stuck (world (readstr s))"
proof -
  let ?d = "ucast (DE s) :: u16"
  have "readstr_loop (keys (world s)) (?d + 1 + 1) (RAM s ?d) 0 0 s = (0xff, type_line (?d + 1 + 1) 0 ks rest s)"
    using readstr_loop_full [OF assms(1), of 0 "0xff" rest "?d + 1 + 1" s] assms(2) unfolding assms(3,4) by (cases ks) auto
  then show ?thesis
    unfolding readstr_def Let_def using assms(3) by (simp add: putcon_def putch_def serial_write_def)
qed

theorem readstr_full_hangs_witness:
  "stuck (world (readstr ((machine0 (\<lambda>_. 0xff) (world0 example_fs (replicate 255 0x41)))\<lparr>DE := 0x80\<rparr>)))"
  using readstr_full_hangs [of "replicate 255 0x41" "(machine0 (\<lambda>_. 0xff) (world0 example_fs (replicate 255 0x41)))\<lparr>DE := 0x80\<rparr>" "[]"]
  by (simp add: list_all_iff printable_def machine0_def world0_def)

end
