(* ===== verification/Cpm_Entry.thy ===== *)
theory Cpm_Entry
  imports Cpm_Console
begin

text \<open>
  Processor and operating system together: the memory image of \<open>_PatchCPM\<close>, through which a
  \<open>CALL 5\<close> of a program running on the emulated processor reaches \<open>_Bdos\<close> and comes back.
\<close>

section \<open>The image\<close>

definition bdos_ready :: "(u16 \<Rightarrow> byte) \<Rightarrow> bool" where
  "bdos_ready ram \<longleftrightarrow>
     ram 5 = 0xc3 \<and> ram 6 = 0x06 \<and> ram 7 = 0xec \<and>
     ram 0xec06 = 0xc3 \<and> ram 0xec07 = 0x00 \<and> ram 0xec08 = 0xed \<and>
     ram 0xed00 = 0xdb \<and> ram 0xed01 = 0xff \<and> ram 0xed02 = 0xc9"

text \<open>Memory after a write, without the bound of the block.\<close>

lemma RAM_wr [simp]: "a < 65536 \<Longrightarrow> RAM (wr a v s) = (RAM s)(of_nat a := v)"
  by (simp add: wr_def)

lemma RAM_wr16: "a < 65535 \<Longrightarrow> RAM (wr16 a v s) = (RAM s)(of_nat a := ucast v, of_nat a + 1 := ucast (drop_bit 8 v))"
  by (simp add: wr16_def add.commute)

text \<open>Bytes below a bound are kept by writes above it.\<close>

definition kept_below :: "nat \<Rightarrow> machine \<Rightarrow> machine \<Rightarrow> bool" where
  "kept_below n s t \<longleftrightarrow> (\<forall>a. unat a < n \<longrightarrow> RAM t a = RAM s a)"

lemma kept_below_refl: "kept_below n s s"
  by (simp add: kept_below_def)

lemma kept_below_wr: "kept_below n s t \<Longrightarrow> n \<le> a \<Longrightarrow> kept_below n s (wr a v t)"
  by (auto simp: kept_below_def wr_def unsigned_of_nat take_bit_nat_eq_self)

lemma kept_below_wr16: "kept_below n s t \<Longrightarrow> n \<le> a \<Longrightarrow> kept_below n s (wr16 a v t)"
  by (simp add: wr16_def kept_below_wr)

lemma kept_below_put: "kept_below n s t \<Longrightarrow> n \<le> a \<Longrightarrow> kept_below n s (put_bytes a bs t)"
  by (induction bs arbitrary: a t) (simp_all add: kept_below_wr)

lemma kept_below_upd: "kept_below n s t \<Longrightarrow> kept_below n s (cpm_upd f t)"
  by (simp add: kept_below_def)

lemma kept_below_fold:
  "(\<And>i t. kept_below n s t \<Longrightarrow> kept_below n s (f i t)) \<Longrightarrow> kept_below n s t \<Longrightarrow> kept_below n s (fold f is t)"
  by (induction "is" arbitrary: t) simp_all

lemma kept_below_patch: "kept_below 60675 s t \<Longrightarrow> kept_below 60675 s (patch_jump i t)"
    "kept_below 60675 s t \<Longrightarrow> kept_below 60675 s (patch_bios i t)"
  by (simp_all add: patch_jump_def patch_bios_def kept_below_wr kept_below_wr16)

lemma kept_below_let: "kept_below n s a \<Longrightarrow> (\<And>t. kept_below n s t \<Longrightarrow> kept_below n s (f t)) \<Longrightarrow> kept_below n s (Let a f)"
  by simp

lemma kept_below_letx: "(\<And>x. kept_below n s (f x)) \<Longrightarrow> kept_below n s (Let a f)"
  by simp

lemma PatchCPM_kept: "kept_below 60675 (patch_bdos s) (PatchCPM s)"
  unfolding PatchCPM_def
  by (intro kept_below_let kept_below_letx kept_below_put kept_below_upd kept_below_fold kept_below_patch kept_below_refl;
      simp add: kept_below_put)

lemma PatchCPM_ready: "bdos_ready (RAM (PatchCPM s))"
proof -
  have "bdos_ready (RAM (patch_bdos s))"
    unfolding patch_bdos_def Let_def by (simp add: bdos_ready_def RAM_wr16)
  then show ?thesis using PatchCPM_kept [of s] by (simp add: bdos_ready_def kept_below_def)
qed

section \<open>Instructions of the path\<close>

lemma opcode_at: "unat (GET_BYTE (INCR 1 (s\<lparr>PCX := PC s\<rparr>)) (PC (INCR 1 (s\<lparr>PCX := PC s\<rparr>)))) = unat (RAM s (lw (PC s)))"
  by (simp add: GET_BYTE_mem unat_byte)

lemma fetch_state: "(INCR 1 (s\<lparr>PCX := PC s\<rparr>))\<lparr>PC := PC (INCR 1 (s\<lparr>PCX := PC s\<rparr>)) + 1\<rparr> = (INCR 1 s)\<lparr>PCX := PC s, PC := PC s + 1\<rparr>"
  by (simp add: INCR_def)

lemma instr_at:
  assumes "RAM s (lw (PC s)) = v"
  shows "snd (instr h s) = (ops h ! unat v) ((INCR 1 s)\<lparr>PCX := PC s, PC := PC s + 1\<rparr>)"
  unfolding instr_def Let_def snd_conv opcode_at fetch_state assms ..

lemma ops_at: "ops h ! 195 = op_c3" "ops h ! 219 = op_db h" "ops h ! 201 = op_c9"
  by (simp_all add: ops_def)

lemma instr_jp:
  assumes "RAM s (lw (PC s)) = 0xc3"
  shows "snd (instr h s) = (INCR 1 s)\<lparr>PCX := PC s, PC := ucast (pair (RAM s (lw (PC s) + 2)) (RAM s (lw (PC s) + 1)))\<rparr>"
  unfolding instr_at [OF assms] by (simp add: ops_at op_c3_def JPC_def GET_WORD_mem lw_add add.assoc)

lemma instr_in:
  assumes "RAM s (lw (PC s)) = 0xdb" "RAM s (lw (PC s) + 1) = 0xff"
  defines "t \<equiv> (INCR 1 s)\<lparr>PCX := PC s, PC := PC s + 2\<rparr>"
  shows "snd (instr h s) = (bdos h t)\<lparr>AF := SET_HIGH_REGISTER (if left_first h then AF t else AF (bdos h t)) (HIGH_REGISTER (AF (bdos h t)))\<rparr>"
  unfolding instr_at [OF assms(1)] t_def
  using assms(2) by (simp add: ops_at op_db_def cpu_in_def GET_BYTE_mem lw_add Let_def add.commute [of "PC s"] add.commute [of "lw (PC s)"])

lemma instr_ret:
  assumes "RAM s (lw (PC s)) = 0xc9"
  shows "snd (instr h s) = (INCR 1 s)\<lparr>PCX := PC s, SP := SP s + 2, PC := ucast (pair (RAM s (lw (SP s) + 1)) (RAM s (lw (SP s))))\<rparr>"
  unfolding instr_at [OF assms] by (simp add: ops_at op_c9_def POP_mem Let_def)

section \<open>The loop\<close>

lemma instr_opcode: "fst (instr h s) = ucast (RAM s (lw (PC s)))"
  by (simp add: instr_def Let_def GET_BYTE_mem)

lemma run_step:
  assumes "Status s = 0" "RAM s (lw (PC s)) \<noteq> 0x76"
  shows "Z80run h s = Z80run h (snd (instr h s))"
proof -
  have "fst (instr h s) \<noteq> 0x76"
    unfolding instr_opcode using assms(2) unat_byte [of "RAM s (lw (PC s))"] by (auto simp: word_unat_eq_iff)
  then show ?thesis using assms(1) by (subst Z80run.simps) (auto split: prod.split)
qed

lemma run_done: "Status s \<noteq> 0 \<Longrightarrow> Z80run h s = Some s"
  by (subst Z80run.simps) simp

section \<open>\<open>CALL 5\<close>\<close>

text \<open>The machine when \<open>_Bdos\<close> is called.\<close>

definition at_bdos :: "machine \<Rightarrow> machine" where
  "at_bdos s = (INCR 1 (INCR 1 (INCR 1 s)))\<lparr>PCX := 0xed00, PC := 0xed02\<rparr>"

lemma addresses: "pair 0xec 0x06 = 0xec06" "pair 0xed 0x00 = 0xed00"
  by (simp_all add: pair_def)

lemma HIGH_SET_HIGH: "HIGH_REGISTER (SET_HIGH_REGISTER x (HIGH_REGISTER y)) = HIGH_REGISTER y"
  by (simp add: HIGH_REGISTER_hi lw_SET_HIGH)

lemma HIGH_SET_LOW: "HIGH_REGISTER (SET_HIGH_REGISTER x (LOW_REGISTER y)) = LOW_REGISTER y"
  by (simp add: HIGH_REGISTER_hi LOW_REGISTER_lo lw_SET_HIGH)

lemma Bdos_A: "HIGH_REGISTER (AF (Bdos s)) = LOW_REGISTER (HL (Bdos s))"
  by (simp add: Bdos_def Let_def HIGH_SET_LOW)

lemma Bdos_regs: "SP (Bdos s) = SP s" "PC (Bdos s) = PC s"
  using Bdos_kept [of s] by (simp_all add: kept_def)

lemma run_to_bdos:
  assumes "Status s = 0" "lw (PC s) = 5" "bdos_ready (RAM s)"
  defines "b \<equiv> Bdos (at_bdos s)"
  shows "Z80run (cpm_host l) s = Z80run (cpm_host l) (b\<lparr>AF := SET_HIGH_REGISTER (if l then AF s else AF b) (HIGH_REGISTER (AF b))\<rparr>)"
proof -
  have m: "RAM s 5 = 0xc3" "RAM s 6 = 0x06" "RAM s 7 = 0xec" "RAM s 0xec06 = 0xc3" "RAM s 0xec07 = 0x00" "RAM s 0xec08 = 0xed"
    "RAM s 0xed00 = 0xdb" "RAM s 0xed01 = 0xff"
    using assms(3) by (simp_all add: bdos_ready_def)
  let ?h = "cpm_host l"
  define s1 where "s1 = (INCR 1 s)\<lparr>PCX := PC s, PC := 0xec06\<rparr>"
  define s2 where "s2 = (INCR 1 s1)\<lparr>PCX := 0xec06, PC := 0xed00\<rparr>"
  have st: "Status s1 = 0" "Status s2 = 0" "RAM s1 = RAM s" "RAM s2 = RAM s"
    using assms(1) by (simp_all add: s1_def s2_def INCR_def)
  have 1: "snd (instr ?h s) = s1"
    using instr_jp [of s ?h] m assms(2) by (simp add: s1_def addresses)
  have 2: "snd (instr ?h s1) = s2"
    using instr_jp [of s1 ?h] m by (simp add: s1_def s2_def addresses)
  have t: "(INCR 1 s2)\<lparr>PCX := PC s2, PC := PC s2 + 2\<rparr> = at_bdos s"
    by (simp add: at_bdos_def s2_def s1_def INCR_def)
  have 3: "snd (instr ?h s2) = b\<lparr>AF := SET_HIGH_REGISTER (if l then AF s else AF b) (HIGH_REGISTER (AF b))\<rparr>"
    using instr_in [of s2 ?h] m unfolding t by (simp add: s1_def s2_def cpm_host_def b_def at_bdos_def)
  have "Z80run ?h s = Z80run ?h s1" using run_step [of s ?h] assms(1,2) m 1 by simp
  also have "\<dots> = Z80run ?h s2" using run_step [of s1 ?h] st m 2 by (simp add: s1_def)
  also have "\<dots> = Z80run ?h (snd (instr ?h s2))" using run_step [of s2 ?h] st m by (simp add: s2_def)
  finally show ?thesis unfolding 3 .
qed

text \<open>
  Property (C4). After \<open>_PatchCPM\<close>, as long as the BDOS entry is in memory, a program that calls address 5
  has \<open>_Bdos\<close> executed exactly once, on its own registers, memory and files. If \<open>_Bdos\<close> leaves \<open>Status\<close> zero,
  the run of the processor goes on from the return address with the stack pointer behind it; if it sets \<open>Status\<close>
  (function 0, \<open>^C\<close>, a disk error), the loop of the processor ends there, before the \<open>RET\<close>, with that
  status. In both cases memory and \<open>world\<close> are as \<open>_Bdos\<close> left them, and the result of the call is in \<open>HL\<close>
  and \<open>A\<close>. The order in which the compiler reads \<open>AF\<close> does not matter.
\<close>
theorem call_5_runs_bdos:
  fixes s :: machine and l :: bool
  assumes "Status s = 0" "lw (PC s) = 5" "bdos_ready (RAM s)"
  defines "b \<equiv> Bdos (at_bdos s)"
  assumes "Status b = 0 \<longrightarrow> RAM b 0xed02 = 0xc9"
  shows "\<exists>r. RAM r = RAM b \<and> world r = world b \<and> HL r = HL b \<and> BC r = BC b \<and> DE r = DE b \<and>
    HIGH_REGISTER (AF r) = LOW_REGISTER (HL b) \<and> Status r = Status b \<and>
    (if Status b = 0
     then Z80run (cpm_host l) s = Z80run (cpm_host l) r \<and> SP r = SP s + 2 \<and>
       PC r = ucast (pair (RAM b (lw (SP s) + 1)) (RAM b (lw (SP s))))
     else Z80run (cpm_host l) s = Some r \<and> SP r = SP s \<and> PC r = 0xed02)"
proof -
  let ?h = "cpm_host l"
  define c where "c = b\<lparr>AF := SET_HIGH_REGISTER (if l then AF s else AF b) (HIGH_REGISTER (AF b))\<rparr>"
  have run: "Z80run ?h s = Z80run ?h c" unfolding c_def b_def by (rule run_to_bdos) (fact assms)+
  have sp: "SP b = SP s" "PC b = 0xed02" unfolding b_def Bdos_regs by (simp_all add: at_bdos_def)
  have a: "HIGH_REGISTER (AF b) = LOW_REGISTER (HL b)" unfolding b_def by (rule Bdos_A)
  show ?thesis
  proof (cases "Status b = 0")
    case True
    have "snd (instr ?h c) = (INCR 1 c)\<lparr>PCX := PC c, SP := SP c + 2, PC := ucast (pair (RAM c (lw (SP c) + 1)) (RAM c (lw (SP c))))\<rparr>"
      by (rule instr_ret) (simp add: c_def sp True assms(5))
    moreover have "Z80run ?h c = Z80run ?h (snd (instr ?h c))"
      by (rule run_step) (simp_all add: c_def True sp assms(5))
    ultimately show ?thesis using run True a
      by (intro exI [of _ "snd (instr ?h c)"]) (simp add: c_def sp INCR_def HIGH_SET_LOW)
  next
    case False
    then have "Z80run ?h s = Some c" unfolding run by (intro run_done) (simp add: c_def)
    then show ?thesis using False a by (intro exI [of _ c]) (simp add: c_def sp HIGH_SET_LOW)
  qed
qed

text \<open>A call of function 12, which comes back, and one of function 0, which ends the run.\<close>

definition bdos_program :: "u32 \<Rightarrow> machine" where
  "bdos_program f = (PatchCPM (machine0 (\<lambda>_. 0) (world0 example_fs [])))\<lparr>PC := 5, BC := f, SP := 0x1000, Status := 0\<rparr>"

lemma function_numbers: "LOW_REGISTER 12 = 12" "LOW_REGISTER 0 = 0"
  by (simp_all add: LOW_REGISTER_def)

lemma bdos_program_bdos:
  "RAM (Bdos (at_bdos (bdos_program 12))) = RAM (bdos_program 12)" "HL (Bdos (at_bdos (bdos_program 12))) = 0x22"
  "Status (Bdos (at_bdos (bdos_program 12))) = Status (bdos_program 12)"
  "RAM (Bdos (at_bdos (bdos_program 0))) = RAM (bdos_program 0)" "Status (Bdos (at_bdos (bdos_program 0))) = 2"
  by (simp_all add: Bdos_def Let_def bdos_call_def at_bdos_def bdos_program_def function_numbers INCR_def)

lemma bdos_program_ready:
  "Status (bdos_program f) = 0" "lw (PC (bdos_program f)) = 5" "bdos_ready (RAM (bdos_program f))"
  using PatchCPM_ready by (simp_all add: bdos_program_def)

lemma bdos_program_ret: "RAM (bdos_program f) 0xed02 = 0xc9"
  using bdos_program_ready(3) by (simp_all add: bdos_program_bdos bdos_ready_def)

theorem call_5_runs_bdos_witness:
  "(\<exists>r. Z80run (cpm_host True) (bdos_program 12) = Z80run (cpm_host True) r \<and> HL r = 0x22 \<and> SP r = 0x1002) \<and>
   (\<exists>r. Z80run (cpm_host True) (bdos_program 0) = Some r \<and> Status r = 2 \<and> PC r = 0xed02)"
proof
  have "SP (bdos_program 12) = 0x1000" by (simp add: bdos_program_def)
  then show "\<exists>r. Z80run (cpm_host True) (bdos_program 12) = Z80run (cpm_host True) r \<and> HL r = 0x22 \<and> SP r = 0x1002"
    using call_5_runs_bdos [OF bdos_program_ready, of 12 True] by (auto simp: bdos_program_bdos bdos_program_ready bdos_program_ret)
  show "\<exists>r. Z80run (cpm_host True) (bdos_program 0) = Some r \<and> Status r = 2 \<and> PC r = 0xed02"
    using call_5_runs_bdos [OF bdos_program_ready, of 0 True] by (auto simp: bdos_program_bdos)
qed

section \<open>Type of the machine\<close>

text \<open>
  Property (C32). Every BDOS call, whatever its number and whatever the memory holds, leaves the machine well
  formed: \<open>filename\<close>, \<open>newname\<close> and \<open>lastLine\<close> keep within their sizes; so do \<open>findNextDirName\<close>, \<open>fcbname\<close>
  and \<open>pattern\<close>, or the flag \<open>overrun\<close> is set, which records a host name or a pattern that did not fit (the
  code copies them without a check); and all registers but \<open>AF\<close>, \<open>BC\<close>, \<open>DE\<close>, \<open>HL\<close> and \<open>Status\<close> keep their
  values. The pattern of a control block fits whenever its name has no dot.
\<close>
theorem bdos_well_formed:
  assumes "buffers_fit s"
  shows "buffers_fit (Bdos s) \<and> kept (Bdos s) = kept s \<and>
    (0x2e \<notin> set (map fcb_char (get_bytes s (unat a + 1) 8)) \<longrightarrow> length (HostnameToFCBname (snd (FCBtoHostname a s))) \<le> 12)"
  using Bdos_fit [OF assms] Bdos_kept dotless_pattern [of s a] by simp

theorem bdos_well_formed_witness:
  "buffers_fit (Bdos (machine0 (\<lambda>_. 0) (world0 example_fs []))) \<and>
   length (HostnameToFCBname (snd (FCBtoHostname 0x5c go_fcb))) \<le> 12"
proof -
  have "buffers_fit (machine0 (\<lambda>_. 0) (world0 example_fs []))" "buffers_fit go_fcb"
    by (simp_all add: buffers_fit_def machine0_def world0_def go_fcb_def)
  moreover have "0x2e \<notin> set (map fcb_char (get_bytes go_fcb 0x5d 8))"
    by (simp add: go_fcb_def machine0_def world0_def rd_def get_bytes_def upt_rec fcb_char_def Let_def)
  ultimately show ?thesis
    using bdos_well_formed [of "machine0 (\<lambda>_. 0) (world0 example_fs [])"] bdos_well_formed [where s = go_fcb and a = "0x5c"] by simp
qed

end
