(* ===== verification/Cpm_Ccp.thy ===== *)
theory Cpm_Ccp
  imports Cpm_Entry "HOL-Library.Monad_Syntax"
begin

text \<open>
  The command processor of \<open>src/lib/runcpm/ccp.h\<close>: reading and parsing a command line, the built-in
  commands, the search for a program, loading it and running it on the emulated processor. The globals of
  the file and the machine are one record. A loop that need not end is a \<open>partial_function\<close>: \<open>None\<close> is
  the run that does not return. \<open>_ccp\<close> is left when it waits for a key and none will come.
\<close>

section \<open>State\<close>

record ccp =
  pgSize :: byte
  curDrive :: byte
  parDrive :: byte
  curUser :: byte
  sFlag :: bool
  sRecs :: byte
  prompt :: "byte list"
  pbuf :: u16
  perr :: u16
  blen :: byte
  sys :: machine

definition on_sys :: "(machine \<Rightarrow> machine) \<Rightarrow> ccp \<Rightarrow> ccp" where
  "on_sys f c = c\<lparr>sys := f (sys c)\<rparr>"

abbreviation (input) CmdFCB :: u16 where "CmdFCB \<equiv> 60808"
abbreviation (input) ParFCB :: u16 where "ParFCB \<equiv> 0x5c"
abbreviation (input) SecFCB :: u16 where "SecFCB \<equiv> 0x6c"
abbreviation (input) Trampoline :: u16 where "Trampoline \<equiv> 60844"
abbreviation (input) inBuf :: nat where "inBuf \<equiv> 60160"
abbreviation (input) cmdLen :: byte where "cmdLen \<equiv> 125"
abbreviation (input) defDMA :: u16 where "defDMA \<equiv> 0x80"
abbreviation (input) defLoad :: u16 where "defLoad \<equiv> 0x100"

abbreviation (input) crlf :: "byte list" where "crlf \<equiv> [0x0d, 0x0a]"

definition Commands :: "byte list list" where
  "Commands = map str [''DIR'', ''ERA'', ''TYPE'', ''SAVE'', ''REN'', ''USER'', ''CLS'', ''DEL'', ''EXIT'', ''PAGE'', ''VOL'']"

text \<open>The part of an array up to its terminator.\<close>

definition c_str :: "byte list \<Rightarrow> byte list" where
  "c_str = takeWhile (\<lambda>x. x \<noteq> 0)"

section \<open>Helpers\<close>

definition ccp_bdos :: "u32 \<Rightarrow> u16 \<Rightarrow> machine \<Rightarrow> u16 \<times> machine" where
  "ccp_bdos f de s =
     (let s = Bdos (s\<lparr>BC := SET_LOW_REGISTER (BC s) f, DE := ucast de\<rparr>) in (ucast (HL s), s))"

definition ccp_do :: "u32 \<Rightarrow> u16 \<Rightarrow> machine \<Rightarrow> machine" where
  "ccp_do f de s = snd (ccp_bdos f de s)"

text \<open>\<open>_ccp_bdos(C_WRITE, ch)\<close>\<close>

definition ccp_write :: "byte \<Rightarrow> machine \<Rightarrow> machine" where
  "ccp_write ch s = ccp_do 2 (ucast ch) s"

definition ccp_strcmp :: "byte list \<Rightarrow> byte list \<Rightarrow> bool" where
  "ccp_strcmp a b \<longleftrightarrow> c_str a = c_str b"

fun command_index :: "nat \<Rightarrow> byte list \<Rightarrow> byte list list \<Rightarrow> nat option" where
  "command_index i cmd [] = None"
| "command_index i cmd (x # xs) = (if ccp_strcmp cmd x then Some i else command_index (Suc i) cmd xs)"

definition ccp_cnum :: "ccp \<Rightarrow> nat \<times> ccp" where
  "ccp_cnum c =
     (let s = sys c in
      if rd s (unat CmdFCB) = 0 then
        (let command = takeWhile (\<lambda>x. x \<noteq> 0x20) (get_bytes s (unat CmdFCB + 1) 8)
         in case command_index 0 command Commands of
              None \<Rightarrow> (255, c)
            | Some i \<Rightarrow> (i, c\<lparr>perr := defDMA + 2\<rparr>))
      else (255, c))"

definition ccp_delim :: "byte \<Rightarrow> bool" where
  "ccp_delim ch \<longleftrightarrow>
     ch = 0 \<or> ch = 0x20 \<or> ch = 0x3d \<or> ch = 0x2e \<or> ch = 0x3a \<or> ch = 0x3b \<or> ch = 0x3c \<or> ch = 0x3e"

definition ccp_printfcb :: "u16 \<Rightarrow> bool \<Rightarrow> machine \<Rightarrow> machine" where
  "ccp_printfcb fcb compact s =
     (let ch = rd s (unat fcb);
          s = (if ch \<noteq> 0 \<and> compact then ccp_write 0x3a (ccp_do 2 (ucast ch + 0x40) s) else s)
      in fold (\<lambda>i s.
           (let ch = rd s (unat fcb + i) in
            if ch = 0x20 \<and> compact then s
            else ccp_write ch (if i = 9 then ccp_write (if compact then 0x2e else 0x20) s else s)))
           [1..<12] s)"

definition ccp_initFCB :: "u16 \<Rightarrow> nat \<Rightarrow> machine \<Rightarrow> machine" where
  "ccp_initFCB a n s = put_bytes (unat a + 1) (replicate 11 0x20) (put_bytes (unat a) (replicate n 0) s)"

section \<open>Names and numbers\<close>

text \<open>
  The loop over the characters of a name or a type: at most \<open>plen\<close> of them. The result is what is left of
  \<open>plen\<close>, the filler, the count with the mark for a name that is not unique, and the address behind.
\<close>

fun name_chars :: "nat \<Rightarrow> byte \<Rightarrow> byte \<Rightarrow> u16 \<Rightarrow> ccp \<Rightarrow> nat \<times> byte \<times> byte \<times> u16 \<times> ccp" where
  "name_chars 0 pad n fcb c = (0, pad, n, fcb, c)"
| "name_chars (Suc plen) pad n fcb c =
     (let ch = toupper (rd (sys c) (unat (pbuf c))) in
      if blen c = 0 \<or> ccp_delim ch then (Suc plen, pad, n, fcb, c)
      else
        (let c = c\<lparr>pbuf := pbuf c + 1, blen := blen c - 1\<rparr>;
             pad = (if ch = 0x2a then question else pad);
             (ch, n) = (if pad = question then (pad, n OR 0x80) else (ch, n))
         in name_chars plen pad (n + 1) (fcb + 1) (on_sys (wr (unat fcb) ch) c)))"

fun pad_name :: "nat \<Rightarrow> byte \<Rightarrow> u16 \<Rightarrow> machine \<Rightarrow> machine" where
  "pad_name 0 pad fcb s = s"
| "pad_name (Suc n) pad fcb s = pad_name n pad (fcb + 1) (wr (unat fcb) pad s)"

definition ccp_nameToFCB :: "u16 \<Rightarrow> ccp \<Rightarrow> byte \<times> ccp" where
  "ccp_nameToFCB fcb c =
     (let c = (if rd (sys c) (unat (pbuf c) + 1) = 0x3a then
                 on_sys (wr (unat fcb) (toupper (rd (sys c) (unat (pbuf c))) - 0x40))
                   (c\<lparr>pbuf := pbuf c + 2, blen := blen c - 2\<rparr>)
               else c)
      in if blen c = 0 then (0, c)
         else
           (let (plen, pad, n, fcb, c) = name_chars 8 0x20 0 (fcb + 1) c;
                ch = toupper (rd (sys c) (unat (pbuf c)));
                c = on_sys (pad_name plen pad fcb) c;
                fcb = fcb + of_nat plen;
                c = (if ch = 0x2e then c\<lparr>pbuf := pbuf c + 1, blen := blen c - 1\<rparr> else c);
                (plen, pad, n, fcb, c) = name_chars 3 0x20 n fcb c
            in (n, on_sys (pad_name plen pad fcb) c)))"

text \<open>The position is a byte: if all bytes of page zero are digits, the loop does not end.\<close>

fun num_loop :: "nat \<Rightarrow> byte \<Rightarrow> u16 \<Rightarrow> machine \<Rightarrow> u16 \<times> machine" where
  "num_loop 0 pos n s = (n, cpm_upd (\<lambda>w. w\<lparr>stuck := True\<rparr>) s)"
| "num_loop (Suc i) pos n s =
     (let ch = rd s (unat pos) in
      if ch < 0x30 \<or> 0x39 < ch then (n, s) else num_loop i (pos + 1) (n * 10 + ucast (ch - 0x30)) s)"

definition ccp_fcbtonum :: "machine \<Rightarrow> u16 \<times> machine" where
  "ccp_fcbtonum s = num_loop 256 0x5d 0 s"

fun skip_spaces :: "nat \<Rightarrow> ccp \<Rightarrow> ccp" where
  "skip_spaces 0 c = c"
| "skip_spaces (Suc n) c =
     (if rd (sys c) (unat (pbuf c)) = 0x20 then skip_spaces n (c\<lparr>pbuf := pbuf c + 1, blen := blen c - 1\<rparr>) else c)"

text \<open>\<open>while (_RamRead(pbuf) == ' ' && blen)\<close>\<close>

definition ccp_skip :: "ccp \<Rightarrow> ccp" where
  "ccp_skip c = skip_spaces (unat (blen c)) c"

section \<open>Built-in commands\<close>

partial_function (option) dir_loop :: "byte list \<Rightarrow> nat \<Rightarrow> machine \<Rightarrow> machine option" where
  "dir_loop head ccount s =
     (let (r, s) = SearchNext ParFCB True s in
      if r \<noteq> 0 then Some s
      else
        (let s = (if ccount = 0 then puts head (puts crlf s) else puts (str ''  |  '') s);
             s = ccp_printfcb tmpFCB False s;
             ccount = ccount + 1
         in dir_loop head (if 3 < ccount then 0 else ccount) s))"

definition ccp_dir :: "ccp \<Rightarrow> machine option" where
  "ccp_dir c =
     (let s = sys c;
          s = (if rd s (unat ParFCB + 1) = 0x20 then put_bytes (unat ParFCB + 1) (replicate 11 question) s else s);
          d = rd s (unat ParFCB);
          head = c_str ([if d \<noteq> 0 then d + 0x40 else at (prompt c) 2] @ str '': '');
          s = puts crlf s;
          (r, s) = SearchFirst ParFCB True s
      in if r = 0 then dir_loop head 1 (ccp_printfcb tmpFCB False (puts head s))
         else Some (puts (str ''No file'') s))"

definition ccp_era :: "machine \<Rightarrow> machine" where
  "ccp_era s = (let (r, s) = ccp_bdos 19 ParFCB s in if r \<noteq> 0 then puts (crlf @ str ''No file'') s else s)"

text \<open>One record of \<open>TYPE\<close>: lines on the page and the last key.\<close>

fun type_bytes :: "nat \<Rightarrow> u16 \<Rightarrow> byte \<Rightarrow> u16 \<Rightarrow> byte \<Rightarrow> machine \<Rightarrow> byte \<times> u16 \<times> machine" where
  "type_bytes 0 a l p pg s = (l, p, s)"
| "type_bytes (Suc i) a l p pg s =
     (let c = rd s (unat a) in
      if c = 0x1a then (l, p, s)
      else
        (let s = ccp_write c s in
         if c = 0x0a then
           (let l = l + 1 in
            if pg \<noteq> 0 \<and> l = pg then
              (let (p, s) = ccp_bdos 1 0 s in if p = 3 then (0, p, s) else type_bytes i (a + 1) 0 p pg s)
            else type_bytes i (a + 1) l p pg s)
         else type_bytes i (a + 1) l p pg s))"

partial_function (option) type_loop :: "byte \<Rightarrow> u16 \<Rightarrow> byte \<Rightarrow> machine \<Rightarrow> machine option" where
  "type_loop l p pg s =
     (let (r, s) = ccp_bdos 20 ParFCB s in
      if r \<noteq> 0 then Some s
      else
        (let (l, p, s) = type_bytes 128 (dmaAddr (world s)) l p pg s in
         if p = 3 then Some s else type_loop l p pg s))"

definition ccp_type :: "ccp \<Rightarrow> (bool \<times> machine) option" where
  "ccp_type c =
     (let (r, s) = ccp_bdos 15 ParFCB (sys c) in
      if r \<noteq> 0 then Some (True, s)
      else map_option (\<lambda>s. (False, s)) (type_loop 0 0 (pgSize c) (puts crlf s)))"

fun save_records :: "nat \<Rightarrow> u16 \<Rightarrow> machine \<Rightarrow> machine" where
  "save_records 0 dma s = s"
| "save_records (Suc n) dma s =
     save_records n (dma + 128) (ccp_write 0x2e (ccp_do 21 SecFCB (ccp_do 26 dma s)))"

definition ccp_save :: "ccp \<Rightarrow> bool \<times> ccp" where
  "ccp_save c =
     (let (pages, s) = ccp_fcbtonum (sys c); c = c\<lparr>sys := s\<rparr> in
      if 256 \<le> pages then (True, c)
      else
        (let (_, c) = ccp_nameToFCB SecFCB (ccp_skip c);
             (r, s) = ccp_bdos 22 SecFCB (sys c);
             s = (if r \<noteq> 0 then puts (str ''Err: create'') s
                  else
                    (let (r, s) = ccp_bdos 15 SecFCB s in
                     if r \<noteq> 0 then puts (str ''Err: open'') s
                     else ccp_do 16 SecFCB (save_records (2 * unat pages) defLoad (puts crlf s))))
         in (False, c\<lparr>sys := s\<rparr>)))"

definition ccp_ren :: "ccp \<Rightarrow> ccp" where
  "ccp_ren c =
     (let (_, c) = ccp_nameToFCB SecFCB (c\<lparr>pbuf := pbuf c + 1\<rparr>);
          s = fold (\<lambda>i s. (let ch = rd s (unat ParFCB + i)
                           in wr (unat SecFCB + i) ch (wr (unat ParFCB + i) (rd s (unat SecFCB + i)) s))) [0..<12] (sys c);
          (r, s) = ccp_bdos 23 ParFCB s
      in c\<lparr>sys := if r \<noteq> 0 then puts (crlf @ str ''No file'') s else s\<rparr>)"

definition ccp_user :: "ccp \<Rightarrow> bool \<times> ccp" where
  "ccp_user c =
     (let (n, s) = ccp_fcbtonum (sys c); c = c\<lparr>curUser := ucast n, sys := s\<rparr> in
      if curUser c < 16 then (False, on_sys (ccp_do 32 (ucast (curUser c))) c) else (True, c))"

definition ccp_page :: "ccp \<Rightarrow> bool \<times> ccp" where
  "ccp_page c =
     (let (r, s) = ccp_fcbtonum (sys c); c = c\<lparr>sys := s\<rparr> in
      if r < 256 then (False, c\<lparr>pgSize := ucast r\<rparr>) else (True, c))"

definition ccp_vol :: "ccp \<Rightarrow> machine" where
  "ccp_vol c =
     (let s = sys c; d = rd s (unat ParFCB);
          letter = (if d \<noteq> 0 then 0x40 + d else 0x41 + curDrive c);
          s = puts (str '':'' @ crlf) (putcon letter (puts (crlf @ str ''Volumes on '') s))
      in fold (\<lambda>i s.
           (let n = of_nat i :: byte;
                digit = (if i < 10 then n + 48 else n + 55);
                folder = [letter, slash, digit, slash]
            in if sys_exists (c_str folder) s then
                 (let s = putcon (if i < 10 then 0x20 else 0x31) s;
                      s = putcon (if i < 10 then digit else 38 + n) s;
                      s = puts (str '': '') s;
                      (r, s) = sys_readseq (c_str (folder @ str ''INFO.TXT'')) 0 s;
                      s = (if r = 0 then
                             fold putcon (takeWhile (\<lambda>x. 32 \<le> x \<and> x \<le> 126) (get_bytes s (unat (dmaAddr (world s))) 128)) s
                           else s)
                  in puts crlf s)
               else s)) [0..<16] s)"

section \<open>Programs\<close>

definition F_type :: "byte list \<Rightarrow> machine \<Rightarrow> machine" where
  "F_type t s = put_bytes (unat CmdFCB + 9) t s"

text \<open>
  The search that \<open>_ccp_ext\<close> has three times: the drive of the control block, then drive A of user 0, then
  the current drive of user 0. The second component is \<open>user\<close>, the user to go back to.
\<close>

definition find_program :: "byte \<Rightarrow> byte \<Rightarrow> byte \<Rightarrow> machine \<Rightarrow> bool \<times> byte \<times> machine" where
  "find_program drive cur user s =
     (let (r, s) = ccp_bdos 15 CmdFCB s in
      if r = 0 then (True, user, s)
      else if drive \<noteq> 0 then (False, user, s)
      else
        (let s = wr (unat CmdFCB) 1 s;
             (user, s) = (if cur \<noteq> 0 then (cur, ccp_do 32 0 s) else (user, s));
             (r, s) = ccp_bdos 15 CmdFCB s
         in if r = 0 then (True, user, s)
            else if cur \<noteq> 0 then
              (let (r, s) = ccp_bdos 15 CmdFCB (wr (unat CmdFCB) 0 s) in (r = 0, user, s))
            else (False, user, s)))"

definition restore_search :: "byte \<Rightarrow> byte \<Rightarrow> machine \<Rightarrow> machine" where
  "restore_search drive cur s = ccp_do 32 (ucast cur) (wr (unat CmdFCB) drive s)"

text \<open>The block of \<open>_ccp_ext\<close> that turns a batch file into a call of \<open>SUBMIT.COM\<close>.\<close>

definition submit_fcbs :: "machine \<Rightarrow> machine" where
  "submit_fcbs s =
     (let s = fold (\<lambda>i s. (let s = wr (unat SecFCB + i) (rd s (unat ParFCB + i)) s
                           in wr (unat ParFCB + i) (rd s (unat CmdFCB + i)) s)) [0..<16] s
      in put_bytes (unat CmdFCB + 1) (str ''SUBMIT  COM'') (ccp_initFCB CmdFCB 36 s))"

partial_function (option) load_loop :: "u16 \<Rightarrow> machine \<Rightarrow> machine option" where
  "load_loop loadAddr s =
     (let (r, s) = ccp_bdos 20 CmdFCB s in
      if r \<noteq> 0 then Some s
      else
        (let loadAddr = loadAddr + 128 in
         if loadAddr = 60416 then Some (puts (crlf @ str ''No Memory'') s)
         else load_loop loadAddr (ccp_do 26 loadAddr s)))"

definition put_trampoline :: "machine \<Rightarrow> machine" where
  "put_trampoline s =
     (let s = wr (unat Trampoline) 0xcd s;
          s = wr16 (unat Trampoline + 1) defLoad s;
          s = wr (unat Trampoline + 3) 0xc3 s
      in wr16 (unat Trampoline + 4) 0xfe33 s)"

definition start_program :: "machine \<Rightarrow> machine" where
  "start_program s =
     (let s = Z80reset (put_trampoline s);
          s = s\<lparr>BC := SET_LOW_REGISTER (BC s) (ucast (rd s DSKByte))\<rparr>
      in s\<lparr>PC := ucast Trampoline, SP := 60416\<rparr>)"

definition run_program :: "bool \<Rightarrow> byte \<Rightarrow> byte \<Rightarrow> byte \<Rightarrow> machine \<Rightarrow> machine option" where
  "run_program l drive cur user s =
     do {
       s \<leftarrow> load_loop defLoad (ccp_do 26 defLoad (puts crlf s));
       let s = ccp_do 26 defDMA s;
       let s = (if user \<noteq> 0 then ccp_do 32 (ucast cur) s else s);
       let s = wr (unat CmdFCB) drive s;
       let s = cpm_upd (\<lambda>w. w\<lparr>cDrive := oDrive w\<rparr>) s;
       Z80run (cpm_host l) (start_program s)
     }"

definition ccp_ext :: "bool \<Rightarrow> ccp \<Rightarrow> (bool \<times> machine) option" where
  "ccp_ext l c =
     (let s = sys c; cur = curUser c;
          wasBlank = (rd s (unat CmdFCB + 9) = 0x20);
          wasSUB = (get_bytes s (unat CmdFCB + 9) 3 = str ''SUB'');
          (found, drive, user, s) =
            (if wasSUB then (False, 0, 0, s)
             else
               (let s = (if wasBlank then F_type (str ''COM'') s else s);
                    drive = rd s (unat CmdFCB);
                    (found, user, s) = find_program drive cur 0 s
                in (found, drive, user, if found then s else restore_search drive cur s)));
          (found, drive, user, s) =
            (if (wasBlank \<or> wasSUB) \<and> \<not> found \<and> \<not> sFlag c then
               (let s = F_type (str ''SUB'') s;
                    drive = rd s (unat CmdFCB);
                    (found, user, s) = find_program drive cur user s
                in if found then
                     (let (found, user, s) = find_program drive cur user (submit_fcbs s) in (found, drive, user, s))
                   else (False, drive, user, restore_search drive cur s))
             else (found, drive, user, s))
      in if found then
           map_option (\<lambda>s. (False, wr (unat CmdFCB) drive s)) (run_program l drive cur user s)
         else
           (let s = (if user \<noteq> 0 then ccp_do 32 (ucast cur) s else s)
            in Some (True, wr (unat CmdFCB) drive s)))"

section \<open>Command lines\<close>

partial_function (option) error_loop :: "ccp \<Rightarrow> ccp option" where
  "error_loop c =
     (let ch = rd (sys c) (unat (perr c)); c = c\<lparr>perr := perr c + 1\<rparr> in
      if ch = 0 \<or> ch = 0x20 then Some c else error_loop (on_sys (ccp_write (toupper ch)) c))"

definition ccp_cmdError :: "ccp \<Rightarrow> ccp option" where
  "ccp_cmdError c = map_option (on_sys (puts (str ''?'' @ crlf))) (error_loop (on_sys (puts crlf) c))"

text \<open>
  A record of the batch file, or a line from the console. The counter of the copy is a byte: a record of
  255 characters is copied for ever.
\<close>

definition ccp_readInput :: "ccp \<Rightarrow> ccp" where
  "ccp_readInput c =
     (if sFlag c then
        (let c = (if sRecs c = 0 then
                    (let s = ccp_do 15 BatchFCB (sys c) in c\<lparr>sys := s, sRecs := rd s (unat BatchFCB + 15)\<rparr>)
                  else c);
             c = c\<lparr>sRecs := sRecs c - 1\<rparr>;
             s = wr (unat BatchFCB + 32) (sRecs c) (sys c);
             s = ccp_do 20 BatchFCB (ccp_do 26 defDMA s);
             chars = rd s (unat defDMA)
         in if chars = 0xff then on_sys (\<lambda>_. cpm_upd (\<lambda>w. w\<lparr>stuck := True\<rparr>) s) c
            else
              (let n = unat chars + 1;
                   s = fold (\<lambda>i s. wr (inBuf + i + 1) (rd s (unat defDMA + i)) s) [0..<n] s;
                   s = wr (inBuf + n + 1) 0 s;
                   s = puts (c_str (get_bytes s (inBuf + 2) n)) s
               in if sRecs c = 0 then c\<lparr>sys := ccp_do 19 BatchFCB s, sFlag := False\<rparr> else c\<lparr>sys := s\<rparr>))
      else on_sys (ccp_do 10 (of_nat inBuf)) c)"

text \<open>
  The shortcut for drive and user, as in \<open>B3:\<close>. The first component of the result is \<open>errorFlag\<close>, the second
  \<open>continueFlag\<close>.
\<close>

definition change_drive :: "byte \<Rightarrow> ccp \<Rightarrow> ccp" where
  "change_drive d c =
     (let s = cpm_upd (\<lambda>w. w\<lparr>cDrive := d, oDrive := d\<rparr>) (sys c);
          s = wr DSKByte (rd s DSKByte AND 0xf0 OR d) s;
          s = ccp_do 14 (ucast d) s
      in c\<lparr>sys := s, curDrive := if Status s \<noteq> 0 then 0 else curDrive c\<rparr>)"

definition change_user :: "byte \<Rightarrow> ccp \<Rightarrow> ccp" where
  "change_user u c = (if u = curUser c then c else on_sys (ccp_do 32 (ucast u)) (c\<lparr>curUser := u\<rparr>))"

fun du_loop :: "nat \<Rightarrow> nat \<Rightarrow> byte \<Rightarrow> byte \<Rightarrow> byte \<Rightarrow> ccp \<Rightarrow> bool \<times> bool \<times> ccp" where
  "du_loop 0 i tDrive tUser u c = (False, False, c)"
| "du_loop (Suc n) i tDrive tUser u c =
     (let ch = toupper (rd (sys c) (unat (pbuf c) + i)) in
      if 0x41 \<le> ch \<and> ch \<le> 0x50 then
        (if tDrive \<noteq> 0 then (False, False, c) else du_loop n (i + 1) (ch - 0x40) tUser u c)
      else if 0x30 \<le> ch \<and> ch \<le> 0x39 then
        (let u = u * 10 + (ch - 0x30) in du_loop n (i + 1) tDrive u u c)
      else if ch = 0x3a \<and> n = 0 then
        (if 16 \<le> tUser then (True, False, c)
         else (False, True, change_user tUser (if tDrive \<noteq> 0 then change_drive (tDrive - 1) c else c)))
      else (False, False, c))"

definition ccp_du :: "ccp \<Rightarrow> bool \<times> bool \<times> ccp" where
  "ccp_du c = du_loop (unat (blen c)) 0 0 (curUser c) 0 c"

text \<open>The command tail at the default buffer: its length, the characters in upper case, zeros.\<close>

definition put_tail :: "ccp \<Rightarrow> machine" where
  "put_tail c =
     (let n = unat (blen c); s = wr (unat defDMA) (blen c) (sys c);
          s = fold (\<lambda>i s. wr (unat defDMA + i + 1) (toupper (rd s (unat (pbuf c) + i))) s) [0..<n] s
      in put_bytes (unat defDMA + n + 1) (replicate (127 - n) 0) s)"

definition command_fcbs :: "ccp \<Rightarrow> ccp" where
  "command_fcbs c =
     (let c = c\<lparr>sys := ccp_initFCB SecFCB 18 (ccp_initFCB ParFCB 18 (put_tail c))\<rparr>;
          (_, c) = ccp_nameToFCB ParFCB (ccp_skip c)
      in snd (ccp_nameToFCB SecFCB (ccp_skip c)))"

text \<open>The \<open>switch\<close> over the commands; the first component is the error mark \<open>i\<close>.\<close>

definition ccp_command :: "bool \<Rightarrow> ccp \<Rightarrow> (bool \<times> ccp) option" where
  "ccp_command l c =
     (let (k, c) = ccp_cnum c; ok = (\<lambda>s. (False, c\<lparr>sys := s\<rparr>)) in
      if k = 0 then map_option ok (ccp_dir c)
      else if k = 1 \<or> k = 7 then Some (ok (ccp_era (sys c)))
      else if k = 2 then map_option (\<lambda>(e, s). (e, c\<lparr>sys := s\<rparr>)) (ccp_type c)
      else if k = 3 then Some (ccp_save c)
      else if k = 4 then Some (False, ccp_ren c)
      else if k = 5 then Some (ccp_user c)
      else if k = 6 then Some (False, c)
      else if k = 8 then
        Some (ok ((puts (str ''CPU Halted.'' @ crlf) (puts (str ''Terminating RunCPM.'' @ crlf) (sys c)))\<lparr>Status := 1\<rparr>))
      else if k = 9 then Some (ccp_page c)
      else if k = 10 then Some (ok (ccp_vol c))
      else if k = 255 then map_option (\<lambda>(e, s). (e, c\<lparr>sys := s\<rparr>)) (ccp_ext l c)
      else Some (True, c))"

definition decimal :: "byte \<Rightarrow> byte list" where
  "decimal n = (if n < 10 then [48 + n] else if n < 100 then [48 + n div 10, 48 + n mod 10]
     else [48 + n div 100, 48 + n div 10 mod 10, 48 + n mod 10])"

definition ccp_prompt :: "ccp \<Rightarrow> ccp" where
  "ccp_prompt c =
     (let (d, s) = ccp_bdos 25 0 (sys c);
          (u, s) = ccp_bdos 32 0xff s;
          d = ucast d :: byte; u = ucast u :: byte;
          s = wr DSKByte (push_bit 4 u + d) s;
          p = crlf @ [0x41 + d] @ decimal u @ [if sFlag c then 0x24 else 0x3e]
      in c\<lparr>curDrive := d, curUser := u, parDrive := d, prompt := p, sys := puts (c_str p) s\<rparr>)"

text \<open>A line with a command, from the first character that is no space.\<close>

definition ccp_line :: "bool \<Rightarrow> ccp \<Rightarrow> (bool \<times> ccp) option" where
  "ccp_line l c =
     (let go_on = map_option (\<lambda>c. (False, c));
          (errorFlag, continueFlag, c) = ccp_du c
      in if errorFlag then go_on (ccp_cmdError c)
         else if continueFlag then Some (False, c)
         else
           (let (n, c) = ccp_nameToFCB CmdFCB (c\<lparr>sys := ccp_initFCB CmdFCB 36 (sys c), perr := pbuf c\<rparr>)
            in if 8 < n then go_on (ccp_cmdError c)
               else
                 do {
                   (e, c) \<leftarrow> ccp_command l (command_fcbs c);
                   let c = on_sys (cpm_upd (\<lambda>w. w\<lparr>cDrive := curDrive c, oDrive := curDrive c\<rparr>)) c;
                   c \<leftarrow> (if e then ccp_cmdError c else Some c);
                   Some (Status (sys c) = 1 \<or> Status (sys c) = 2, c)
                 }))"

text \<open>One turn of the loop of \<open>_ccp\<close>; the first component says whether the loop is left.\<close>

definition ccp_turn :: "bool \<Rightarrow> ccp \<Rightarrow> (bool \<times> ccp) option" where
  "ccp_turn l c =
     (let c = ccp_prompt c;
          c = ccp_readInput (on_sys (wr inBuf cmdLen) c);
          c = c\<lparr>blen := rd (sys c) (inBuf + 1)\<rparr>;
          c = on_sys (ccp_do 26 defDMA) c
      in if blen c = 0 then Some (Status (sys c) = 1 \<or> Status (sys c) = 2, c)
         else
           (let c = on_sys (wr (inBuf + 2 + unat (blen c)) 0) c;
                c = ccp_skip (c\<lparr>pbuf := of_nat (inBuf + 2)\<rparr>)
            in if blen c = 0 \<or> rd (sys c) (unat (pbuf c)) = 0x3b then Some (False, c) else ccp_line l c))"

partial_function (option) ccp_loop :: "bool \<Rightarrow> ccp \<Rightarrow> ccp option" where
  "ccp_loop l c =
     (if stuck (world (sys c)) then Some c
      else do { (done, c) \<leftarrow> ccp_turn l c; if done then Some c else ccp_loop l c })"

definition ccp_init :: "ccp \<Rightarrow> ccp" where
  "ccp_init c =
     (let (r, s) = ccp_bdos 13 0 (sys c);
          s = ccp_do 14 (ucast (curDrive c)) s;
          s = fold (\<lambda>i s. wr (unat BatchFCB + i) (rd s (unat tmpFCB + i)) s) [0..<36] s
      in c\<lparr>sFlag := r \<noteq> 0, sys := s\<rparr>)"

definition run_ccp :: "bool \<Rightarrow> ccp \<Rightarrow> ccp option" where
  "run_ccp l c = map_option (on_sys (puts crlf)) (ccp_loop l (ccp_init c))"

section \<open>Entry from the device\<close>

text \<open>
  \<open>sio_handle_cpm\<close> of \<open>src/lib/device/sio/siocpm.cpp\<close>; the first component of the result is \<open>cpmActive\<close>.
\<close>

definition sio_handle_cpm :: "bool \<Rightarrow> ccp \<Rightarrow> (bool \<times> ccp) option" where
  "sio_handle_cpm l c =
     do {
       let s = puts (crlf @ str ''RunCPM Version 5.8 (CP/M 2.2 60K)'' @ crlf) (sys c);
       c \<leftarrow> run_ccp l (c\<lparr>sys := (PatchCPM s)\<lparr>Status := 0\<rparr>\<rparr>);
       Some (Status (sys c) \<noteq> 1, c)
     }"

end
