(* ===== verification/Cpm_Sequence.thy ===== *)
theory Cpm_Sequence
  imports Cpm_Ccp
begin

text \<open>
  An open file as an abstract sequence of records: a control block stands for a path, its contents and
  the number of the next record. Sequential reads and writes are the operations on that sequence; the
  command processor's \<open>SAVE\<close> and its program loader are loops over them.
\<close>

section \<open>The abstraction\<close>

definition drive_path :: "u16 \<Rightarrow> machine \<Rightarrow> path" where
  "drive_path a s =
     full_path [0x41 + (let d = rd s (unat a) in if d = 0 \<or> d = question then cDrive (world s) else d - 1)]"

definition at_record :: "u16 \<Rightarrow> path \<Rightarrow> byte list \<Rightarrow> nat \<Rightarrow> machine \<Rightarrow> bool" where
  "at_record a p c k s \<longleftrightarrow>
     fcb_ok a s \<and> s2 a s \<in> {0, 0x80} \<and> fcb_path a s = p \<and> drive_path a s \<in> set (dirs (fs (world s))) \<and>
     is_file p (fs (world s)) \<and> content p (fs (world s)) = c \<and> seq_pos a s = 128 * k"

text \<open>What the file operations leave as it is.\<close>

definition setting :: "cpm \<Rightarrow> byte \<times> byte \<times> u16 \<times> (path \<Rightarrow> int) \<times> (nat \<Rightarrow> byte) \<times> path list" where
  "setting w = (cDrive w, userCode w, roVector w, host_stat w, beyond w, dirs (fs w))"

lemma setting_eq:
  "setting w = setting v \<longleftrightarrow> cDrive w = cDrive v \<and> userCode w = userCode v \<and> roVector w = roVector v \<and>
     host_stat w = host_stat v \<and> beyond w = beyond v \<and> dirs (fs w) = dirs (fs v)"
  by (simp add: setting_def)

lemma SelectDisk_dir:
  assumes "drive_path a s \<in> set (dirs (fs (world s)))"
  obtains v where "SelectDisk (rd s (unat a)) s = (0, cpm_upd (\<lambda>w. w\<lparr>loginVector := v\<rparr>) s)"
proof -
  have "fst (SelectDisk (rd s (unat a)) s) = 0"
    using assms by (auto simp: drive_path_def SelectDisk_def Let_def sys_select_def sd_exists_def)
  then show ?thesis using that by (rule SelectDisk_ok)
qed

text \<open>Two machines with the same name in the control block.\<close>

lemma fcb_cong:
  assumes "\<And>i. unat a \<le> i \<Longrightarrow> i < unat a + 12 \<Longrightarrow> rd t i = rd s i"
    and "cDrive (world t) = cDrive (world s)" "userCode (world t) = userCode (world s)"
  shows "FCBtoHostname a t = FCBtoHostname a s" "fcb_path a t = fcb_path a s" "drive_path a t = drive_path a s"
proof -
  have "get_bytes t (unat a + 1) 8 = get_bytes s (unat a + 1) 8" "get_bytes t (unat a + 9) 3 = get_bytes s (unat a + 9) 3"
    "rd t (unat a) = rd s (unat a)"
    using assms(1) by (auto intro!: get_bytes_cong)
  then show "FCBtoHostname a t = FCBtoHostname a s" "drive_path a t = drive_path a s"
    using assms(2,3) by (simp_all add: FCBtoHostname_def drive_path_def Let_def)
  then show "fcb_path a t = fcb_path a s" by (simp add: fcb_path_def)
qed

lemma at_record_cong:
  assumes "at_record a p c k s" "\<And>i. unat a \<le> i \<Longrightarrow> i < unat a + 36 \<Longrightarrow> rd t i = rd s i"
    and "setting (world t) = setting (world s)" "is_file p (fs (world t))" "content p (fs (world t)) = c"
  shows "at_record a p c k t"
proof -
  have "cr a t = cr a s" "ex a t = ex a s" "s2 a t = s2 a s" using assms(2) by (simp_all add: cr_def ex_def s2_def)
  then show ?thesis
    using assms fcb_cong [of a t s] by (simp add: at_record_def setting_eq fcb_ok_def seq_pos_fields)
qed

text \<open>The step to the next record, for files of less than 4096 records.\<close>

lemma at_record_next:
  assumes "at_record a p c k s" "k < 4096"
  shows "at_record a p c (Suc k) (next_record a s)" "s2 a (next_record a s) = s2 a s"
proof -
  note u = assms(1) [unfolded at_record_def]
  have a: "unat a \<le> 65500" using u by (simp add: fcb_ok_def)
  have c: "unat (cr a s) \<le> 128" "unat (ex a s) \<le> 31" using u by (simp_all add: fcb_ok_def word_le_nat_alt)
  have s2: "unat (s2 a s AND 15) = 0" using u by auto
  then have k: "unat (ex a s) * 16384 + unat (cr a s) * 128 = 128 * k" using u by (simp add: seq_pos_fields)
  have "\<not> last_record a s"
  proof
    assume "last_record a s"
    then have "unat (cr a s) = 128" "unat (ex a s) = 31" by (simp_all add: last_record_def)
    then show False using k assms(2) by simp
  qed
  note n = next_record_pos [OF _ this]
  have "unat (ex a s + 1) \<le> 31" if "128 < cr a s + 1"
  proof -
    have "unat (cr a s + 1) = unat (cr a s) + 1" using unat_byte_Suc [of "cr a s"] c by simp
    then have "unat (cr a s) = 128" using that c by (simp add: word_less_nat_alt)
    then have "unat (ex a s) < 31" using k assms(2) by simp
    then show ?thesis using unat_byte_Suc [of "ex a s"] by simp
  qed
  then have "\<not> 31 < (if 128 < cr a s + 1 then ex a s + 1 else ex a s)"
    using c by (auto simp: word_less_nat_alt not_less)
  then show s2': "s2 a (next_record a s) = s2 a s" using next_record_fields(3) [OF a, of s] by simp
  have r: "rd (next_record a s) i = rd s i" if "i < unat a + 12" for i using a that by (intro rd_next_record) simp_all
  show "at_record a p c (Suc k) (next_record a s)"
    using u n fcb_cong [of a "next_record a s" s] r s2' by (simp add: at_record_def)
qed

section \<open>Sequential writes and reads\<close>

lemma write_block_end: "write_block c (length c) d = c @ d"
  by (simp add: write_block_def)

text \<open>A write that is let through, and what it leaves alone.\<close>

lemma WriteSeq_form:
  assumes "drive_path a s \<in> set (dirs (fs (world s)))" "\<not> read_only s" "is_file (fcb_path a s) (fs (world s))"
    and "host_stat (world s) (fcb_path a s) = - 1"
  obtains t where "snd (WriteSeq a s) = next_record a (wr (F_s2 a) (s2 a s AND 0x7f) t)"
    "rd t = rd s" "setting (world t) = setting (world s)" "dmaAddr (world t) = dmaAddr (world s)"
    "mask8bit (world t) = mask8bit (world s)"
    "is_file (fcb_path a s) (fs (world t))"
    "content (fcb_path a s) (fs (world t)) =
       write_block (content (fcb_path a s) (fs (world s))) (seq_pos a s) (get_bytes s (unat (dmaAddr (world s))) 128)"
proof -
  obtain v where sel: "SelectDisk (rd s (unat a)) s = (0, cpm_upd (\<lambda>w. w\<lparr>loginVector := v\<rparr>) s)"
    using assms(1) by (rule SelectDisk_dir)
  define s1 where "s1 = set_filename a (cpm_upd (\<lambda>w. w\<lparr>loginVector := v\<rparr>) s)"
  have n: "filename (world s1) = snd (FCBtoHostname a s)" and ro: "\<not> read_only (cpm_upd (\<lambda>w. w\<lparr>loginVector := v\<rparr>) s)"
    and w: "fs (world s1) = fs (world s)" "dmaAddr (world s1) = dmaAddr (world s)" "setting (world s1) = setting (world s)"
      "mask8bit (world s1) = mask8bit (world s)"
      "get_bytes s1 = get_bytes s" "rd s1 = rd s" "host_stat (world s1) = host_stat (world s)"
    using assms(2) by (auto simp: s1_def set_filename_def read_only_def get_bytes_def rd_def fun_eq_iff setting_def)
  define t where "t = snd (sys_writeseq (filename (world s1)) (seq_pos a s) s1)"
  have W: "sys_writeseq (filename (world s1)) (seq_pos a s) s1 = (0, t)"
    using sys_write_stores(1) [of "filename (world s1)" s1 "seq_pos a s"] assms(3,4) n w
    by (simp add: t_def sys_writeseq_def fcb_path_def prod_eq_iff)
  have "rd t i = rd s1 i" for i
    using w(1) assms(3) n by (simp add: t_def sys_writeseq_def sys_write_def sys_extendfile_def Let_def fcb_path_def)
  then have f1: "rd t = rd s" using w(6) by (auto simp: fun_eq_iff)
  have f: "setting (world t) = setting (world s)" "dmaAddr (world t) = dmaAddr (world s)"
    "mask8bit (world t) = mask8bit (world s)"
    using w(1-4) assms(3) n
    by (auto simp: t_def sys_writeseq_def sys_write_def sys_extendfile_def Let_def fcb_path_def setting_def fs_upd_def)
  note st = sys_write_stores [of "filename (world s1)" s1 "seq_pos a s", unfolded n w, folded fcb_path_def, OF assms(3,4),
      folded n sys_writeseq_def, folded t_def]
  have "snd (WriteSeq a s) = next_record a (wr (F_s2 a) (s2 a s AND 0x7f) t)"
    unfolding WriteSeq_def sel Let_def prod.case s1_def [symmetric] W using ro f1 by (simp add: s2_def)
  then show thesis by (rule that [OF _ f1 f st(3,2)])
qed

text \<open>A write at the end of the sequence appends the block in the transfer area.\<close>

lemma at_record_write:
  assumes "at_record a p c k s" "\<not> read_only s" "host_stat (world s) p = - 1" "length c = 128 * k" "k < 4096"
  defines "t \<equiv> snd (WriteSeq a s)"
  shows "at_record a p (c @ get_bytes s (unat (dmaAddr (world s))) 128) (Suc k) t"
    "setting (world t) = setting (world s)" "dmaAddr (world t) = dmaAddr (world s)"
    "mask8bit (world t) = mask8bit (world s)"
    "i < unat a + 12 \<or> unat a + 33 \<le> i \<Longrightarrow> rd t i = rd s i"
proof -
  note u = assms(1) [unfolded at_record_def]
  have a: "unat a \<le> 65500" using u by (simp add: fcb_ok_def)
  obtain w where w: "t = next_record a (wr (F_s2 a) (s2 a s AND 0x7f) w)" "rd w = rd s"
      "setting (world w) = setting (world s)" "dmaAddr (world w) = dmaAddr (world s)" "mask8bit (world w) = mask8bit (world s)"
      "is_file p (fs (world w))"
      "content p (fs (world w)) = write_block c (seq_pos a s) (get_bytes s (unat (dmaAddr (world s))) 128)"
    using WriteSeq_form [of a s] assms(2,3) u unfolding t_def by metis
  let ?d = "c @ get_bytes s (unat (dmaAddr (world s))) 128" and ?w = "wr (F_s2 a) (s2 a s AND 0x7f) w"
  have c: "content p (fs (world w)) = ?d" using w(7) u assms(4) write_block_end [of c] by simp
  have rw: "rd ?w i = (if i = F_s2 a then s2 a s AND 0x7f else rd s i)" for i using a w(2) by (simp add: rd_wr)
  have f: "cr a ?w = cr a s" "ex a ?w = ex a s" "s2 a ?w = 0"
    using u rw by (auto simp: cr_def ex_def s2_def)
  have "at_record a p ?d k ?w"
    using u f fcb_cong [of a ?w s] rw w(3) w(6) c by (auto simp: at_record_def fcb_ok_def seq_pos_fields setting_eq)
  from at_record_next(1) [OF this assms(5)] show "at_record a p ?d (Suc k) t" by (simp add: w(1))
  show "setting (world t) = setting (world s)" "dmaAddr (world t) = dmaAddr (world s)" "mask8bit (world t) = mask8bit (world s)"
    by (simp_all add: w)
  show "rd t i = rd s i" if "i < unat a + 12 \<or> unat a + 33 \<le> i"
    unfolding w(1) using rd_next_record [OF a that] rw that by auto
qed

lemma s2_small: "x \<in> {0, 0x80} \<Longrightarrow> \<not> 15 < x AND 0x7f" for x :: byte
  by auto

text \<open>A read delivers the next record and moves on.\<close>

lemma at_record_read:
  assumes "at_record a p c k s" "dma_ok a s" "k < 4096" "128 * k + 128 \<le> length c"
  defines "t \<equiv> snd (ReadSeq a s)" and "d \<equiv> unat (dmaAddr (world s))"
  shows "fst (ReadSeq a s) = 0" "at_record a p c (Suc k) t" "setting (world t) = setting (world s)"
    "dmaAddr (world t) = dmaAddr (world s)"
    "i < unat a + 12 \<or> unat a + 33 \<le> i \<Longrightarrow> rd t i = (if d \<le> i \<and> i < d + 128 then c ! (128 * k + (i - d)) else rd s i)"
proof -
  note u = assms(1) [unfolded at_record_def]
  have a: "unat a \<le> 65500" and dm: "d + 128 \<le> 65536" "d + 128 \<le> unat a \<or> unat a + 36 \<le> d"
    using assms(2) by (simp_all add: dma_ok_def Let_def d_def)
  obtain v where sel: "SelectDisk (rd s (unat a)) s = (0, cpm_upd (\<lambda>w. w\<lparr>loginVector := v\<rparr>) s)"
    using u SelectDisk_dir by blast
  define s1 where "s1 = set_filename a (cpm_upd (\<lambda>w. w\<lparr>loginVector := v\<rparr>) s)"
  have n: "filename (world s1) = snd (FCBtoHostname a s)"
    and w: "fs (world s1) = fs (world s)" "dmaAddr (world s1) = dmaAddr (world s)" "setting (world s1) = setting (world s)"
      "rd s1 i = rd s i" for i
    by (simp_all add: s1_def set_filename_def setting_def)
  define b where "b = take 128 (drop (128 * k) c)"
  have b: "length b = 128" "b ! j = c ! (128 * k + j)" if "j < 128" for j
    using assms(4) that by (simp_all add: b_def)
  have lb: "length b = 128" using assms(4) by (simp add: b_def)
  have r: "sys_readseq (filename (world s1)) (seq_pos a s) s1 = (0, put_bytes d b s1)"
    using u assms(4) by (simp add: sys_readseq_def Let_def n w fcb_path_def d_def read_block_def b_def)
  let ?w = "put_bytes d b s1"
  have rw: "rd ?w i = (if d \<le> i \<and> i < d + 128 then c ! (128 * k + (i - d)) else rd s i)" for i
    using rd_put_bytes [of d b s1 i] dm lb b(2) [of "i - d"] w(4) [of i] by auto
  have "at_record a p c k ?w"
    using rw dm w u by (intro at_record_cong [OF assms(1)]) (auto simp: setting_eq)
  note nx = at_record_next [OF this assms(3)]
  have e: "ReadSeq a s = (0, next_record a ?w)"
    using s2_small [of "s2 a (next_record a ?w)"] nx(1)
    unfolding ReadSeq_def sel Let_def prod.case s1_def [symmetric] r by (simp add: at_record_def s2_def)
  show "fst (ReadSeq a s) = 0" "at_record a p c (Suc k) t" "setting (world t) = setting (world s)"
    "dmaAddr (world t) = dmaAddr (world s)"
    using nx(1) w by (simp_all add: t_def e)
  show "rd t i = (if d \<le> i \<and> i < d + 128 then c ! (128 * k + (i - d)) else rd s i)"
    if "i < unat a + 12 \<or> unat a + 33 \<le> i"
    unfolding t_def e using rd_next_record [OF a that] rw by simp
qed

text \<open>At the end of the file nothing is delivered.\<close>

lemma at_record_end:
  assumes "at_record a p c k s" "length c < 128 * k + 128"
  defines "t \<equiv> snd (ReadSeq a s)"
  shows "fst (ReadSeq a s) = 1" "rd t = rd s" "setting (world t) = setting (world s)"
proof -
  note u = assms(1) [unfolded at_record_def]
  obtain v where sel: "SelectDisk (rd s (unat a)) s = (0, cpm_upd (\<lambda>w. w\<lparr>loginVector := v\<rparr>) s)"
    using u SelectDisk_dir by blast
  define s1 where "s1 = set_filename a (cpm_upd (\<lambda>w. w\<lparr>loginVector := v\<rparr>) s)"
  have n: "filename (world s1) = snd (FCBtoHostname a s)"
    and w: "fs (world s1) = fs (world s)" "setting (world s1) = setting (world s)" "rd s1 i = rd s i" for i
    by (simp_all add: s1_def set_filename_def setting_def)
  have "sys_readseq (filename (world s1)) (seq_pos a s) s1 = (1, s1)"
    using u assms(2) by (simp add: sys_readseq_def Let_def n w fcb_path_def read_block_def)
  then have "ReadSeq a s = (1, s1)"
    unfolding ReadSeq_def sel Let_def prod.case s1_def [symmetric] by simp
  then show "fst (ReadSeq a s) = 1" "rd t = rd s" "setting (world t) = setting (world s)"
    using w by (simp_all add: t_def fun_eq_iff)
qed

text \<open>Machines that agree on everything a sequence of records depends on.\<close>

lemma at_record_view:
  assumes "RAM t = RAM s" "setting (world t) = setting (world s)" "fs (world t) = fs (world s)"
  shows "at_record a p c k t = at_record a p c k s" "read_only t = read_only s" "rd t = rd s" "get_bytes t = get_bytes s"
proof -
  show r: "rd t = rd s" "get_bytes t = get_bytes s" using assms by (auto simp: rd_def get_bytes_def setting_eq fun_eq_iff)
  show "read_only t = read_only s" using assms by (simp add: read_only_def setting_eq)
  show "at_record a p c k t = at_record a p c k s"
    using assms r fcb_cong [of a t s]
    by (simp add: at_record_def setting_eq fcb_ok_def cr_def ex_def s2_def seq_pos_def)
qed

section \<open>Calls of the command processor\<close>

text \<open>The registers with which \<open>_ccp_bdos\<close> arrives in the \<open>switch\<close> of \<open>_Bdos\<close>.\<close>

definition entry_regs :: "u32 \<Rightarrow> u16 \<Rightarrow> machine \<Rightarrow> machine" where
  "entry_regs f de s =
     s\<lparr>BC := SET_LOW_REGISTER (SET_LOW_REGISTER (BC s) f) (LOW_REGISTER (ucast de)), DE := ucast de, HL := 0\<rparr>"

lemma entry_regs_simps [simp]:
  "RAM (entry_regs f de s) = RAM s" "world (entry_regs f de s) = world s" "rd (entry_regs f de s) = rd s"
  "DE (entry_regs f de s) = ucast de" "get_bytes (entry_regs f de s) = get_bytes s"
  by (auto simp: entry_regs_def rd_def get_bytes_def fun_eq_iff)

lemma at_record_regs [simp]: "at_record a p c k (entry_regs f de s) = at_record a p c k s" "read_only (entry_regs f de s) = read_only s"
  by (rule at_record_view; simp)+

lemma LOW_SET_LOW: "LOW_REGISTER (SET_LOW_REGISTER x v) = v AND 0xff"
  unfolding LOW_REGISTER_lo lw_SET_LOW by (rule bit_word_eqI) (auto simp: and_255 bit_simps)

lemma ccp_bdos_view:
  fixes s :: machine and de :: u16
  assumes "f AND 0xff = f"
  defines "t \<equiv> bdos_call f (entry_regs f de s)"
  shows "RAM (snd (ccp_bdos f de s)) = RAM t" "world (snd (ccp_bdos f de s)) = world t" "fst (ccp_bdos f de s) = ucast (HL t)"
    "Status (snd (ccp_bdos f de s)) = Status t"
proof -
  let ?s = "s\<lparr>BC := SET_LOW_REGISTER (BC s) f, DE := ucast de\<rparr>"
  have ch: "LOW_REGISTER (BC ?s) = f" using assms(1) by (simp add: LOW_SET_LOW)
  have "?s\<lparr>HL := 0, BC := SET_LOW_REGISTER (BC ?s) (LOW_REGISTER (DE ?s))\<rparr> = entry_regs f de s"
    by (simp add: entry_regs_def)
  then show "RAM (snd (ccp_bdos f de s)) = RAM t" "world (snd (ccp_bdos f de s)) = world t" "fst (ccp_bdos f de s) = ucast (HL t)"
    "Status (snd (ccp_bdos f de s)) = Status t"
    using ch unfolding ccp_bdos_def Bdos_def t_def Let_def by simp_all
qed

lemma bdos_nums: "(2 :: u32) AND 0xff = 2" "(15 :: u32) AND 0xff = 15" "(16 :: u32) AND 0xff = 16" "(20 :: u32) AND 0xff = 20"
  "(21 :: u32) AND 0xff = 21" "(22 :: u32) AND 0xff = 22" "(26 :: u32) AND 0xff = 26"
  by simp_all

lemma in_HL_simps [simp]: "RAM (in_HL r) = RAM (snd r)" "world (in_HL r) = world (snd r)" "HL (in_HL r) = ucast (fst r)"
  by (simp_all add: in_HL_def)

lemma ucast_u16: "(ucast (ucast (x :: u16) :: u32) :: u16) = x" "(ucast (ucast (b :: byte) :: u32) :: u16) = ucast b"
  by (auto intro!: bit_word_eqI simp: bit_simps)

lemma bdos_disk:
  "bdos_call 15 (entry_regs 15 a s) = in_HL (OpenFile a (entry_regs 15 a s))"
  "bdos_call 16 (entry_regs 16 a s) = in_HL (CloseFile a (entry_regs 16 a s))"
  "bdos_call 20 (entry_regs 20 a s) = in_HL (ReadSeq a (entry_regs 20 a s))"
  "bdos_call 21 (entry_regs 21 a s) = in_HL (WriteSeq a (entry_regs 21 a s))"
  "bdos_call 22 (entry_regs 22 a s) = in_HL (MakeFile a (entry_regs 22 a s))"
  "bdos_call 26 (entry_regs 26 a s) = cpm_upd (\<lambda>w. w\<lparr>dmaAddr := a\<rparr>) (entry_regs 26 a s)"
  "bdos_call 2 (entry_regs 2 a s) = putcon (ucast (LOW_REGISTER (ucast a))) (entry_regs 2 a s)"
  by (simp_all add: bdos_call_def Let_def ucast_u16)

lemma rd_view: "RAM s = RAM t \<Longrightarrow> world s = world t \<Longrightarrow> rd s = rd t" "RAM s = RAM t \<Longrightarrow> world s = world t \<Longrightarrow> get_bytes s = get_bytes t"
  by (auto simp: rd_def get_bytes_def fun_eq_iff)

text \<open>Setting the transfer address, and printing a character.\<close>

lemma ccp_dma:
  "RAM (ccp_do 26 a s) = RAM s" "world (ccp_do 26 a s) = (world s)\<lparr>dmaAddr := a\<rparr>"
  by (simp_all add: ccp_do_def ccp_bdos_view bdos_nums bdos_disk)

lemma world_putcon: "world (putcon x s) = (world s)\<lparr>screen := screen (world s) @ [(x AND mask8bit (world s)) AND 0x7f]\<rparr>"
    "RAM (putcon x s) = RAM s"
  by (simp_all add: putcon_def putch_def serial_write_def)

lemma ccp_print:
  "RAM (ccp_write x s) = RAM s" "\<exists>t. world (ccp_write x s) = (world s)\<lparr>screen := t\<rparr>"
  by (auto simp: ccp_write_def ccp_do_def ccp_bdos_view bdos_nums bdos_disk world_putcon)

section \<open>\<open>SAVE\<close>\<close>

text \<open>One turn of the loop: the transfer address, the write and the dot on the screen.\<close>

lemma save_record:
  fixes dma :: u16
  assumes "at_record a p c k s" "\<not> read_only s" "host_stat (world s) p = - 1" "length c = 128 * k" "k < 4096"
  defines "t \<equiv> ccp_write 0x2e (ccp_do 21 a (ccp_do 26 dma s))"
  shows "at_record a p (c @ get_bytes s (unat dma) 128) (Suc k) t" "setting (world t) = setting (world s)"
    "i < unat a + 12 \<or> unat a + 33 \<le> i \<Longrightarrow> rd t i = rd s i"
proof -
  let ?s1 = "entry_regs 21 a (ccp_do 26 dma s)" and ?w = "ccp_do 21 a (ccp_do 26 dma s)"
  have s1: "RAM ?s1 = RAM s" "setting (world ?s1) = setting (world s)" "fs (world ?s1) = fs (world s)" "dmaAddr (world ?s1) = dma"
    by (simp_all add: ccp_dma setting_def)
  note v1 = at_record_view [OF s1(1-3)]
  have h: "host_stat (world ?s1) p = - 1" using s1(2) assms(3) by (simp add: setting_eq)
  note wr = at_record_write [of a p c k ?s1, unfolded v1, OF assms(1,2) h assms(4,5), unfolded s1(2,4)]
  have w: "RAM ?w = RAM (snd (WriteSeq a ?s1))" "world ?w = world (snd (WriteSeq a ?s1))"
    by (simp_all add: ccp_do_def ccp_bdos_view bdos_nums bdos_disk)
  obtain sc where t: "RAM t = RAM ?w" "world t = (world ?w)\<lparr>screen := sc\<rparr>"
    using ccp_print [of "0x2e" ?w] unfolding t_def by blast
  have vt: "RAM t = RAM (snd (WriteSeq a ?s1))" "setting (world t) = setting (world (snd (WriteSeq a ?s1)))"
    "fs (world t) = fs (world (snd (WriteSeq a ?s1)))" using t w by (simp_all add: setting_def)
  note v = at_record_view [OF vt]
  show "at_record a p (c @ get_bytes s (unat dma) 128) (Suc k) t" "setting (world t) = setting (world s)"
    unfolding v vt(2) by (rule wr)+
  show "i < unat a + 12 \<or> unat a + 33 \<le> i \<Longrightarrow> rd t i = rd s i"
    unfolding v by (rule wr)
qed

lemma get_bytes_append: "get_bytes s a (m + n) = get_bytes s a m @ get_bytes s (a + m) n"
  by (simp add: get_bytes_def add.assoc flip: map_append) (metis add.assoc upt_add_eq_append le_add1)

lemma save_records_appends:
  assumes "at_record 0x6c p c k s" "\<not> read_only s" "host_stat (world s) p = - 1" "length c = 128 * k" "k + n \<le> 4096"
    and "n = 0 \<or> 144 \<le> unat dma \<and> unat dma + 128 * n \<le> 65536"
  shows "at_record 0x6c p (c @ get_bytes s (unat dma) (128 * n)) (k + n) (save_records n dma s) \<and>
    setting (world (save_records n dma s)) = setting (world s)"
  using assms
proof (induction n arbitrary: c k dma s)
  case 0
  then show ?case by (simp add: get_bytes_def)
next
  case (Suc n)
  let ?t = "ccp_write 0x2e (ccp_do 21 0x6c (ccp_do 26 dma s))"
  have k: "k < 4096" using Suc.prems(5) by simp
  note r = save_record [OF Suc.prems(1-4) k, where dma = dma]
  have d: "n = 0 \<or> unat (dma + 128) = unat dma + 128"
    using unat_add_lem [of dma 128] Suc.prems(6) by (cases n) auto
  have g: "get_bytes ?t (unat dma + 128) (128 * n) = get_bytes s (unat dma + 128) (128 * n)"
    using Suc.prems(6) by (intro get_bytes_cong r(3)) auto
  have "\<not> read_only ?t" "host_stat (world ?t) p = - 1"
    using Suc.prems(2,3) r(2) by (simp_all add: setting_eq read_only_def)
  from Suc.IH [OF r(1) this, of "dma + 128"] have "at_record 0x6c p ((c @ get_bytes s (unat dma) 128) @ get_bytes ?t (unat dma + 128) (128 * n)) (Suc k + n)
      (save_records n (dma + 128) ?t) \<and> setting (world (save_records n (dma + 128) ?t)) = setting (world ?t)"
    using Suc.prems d by (auto simp: get_bytes_def)
  moreover have "get_bytes s (unat dma) (128 * Suc n) = get_bytes s (unat dma) 128 @ get_bytes s (unat dma + 128) (128 * n)"
    using get_bytes_append [of s "unat dma" 128 "128 * n"] by simp
  ultimately show ?case unfolding g using r(2) by simp
qed

section \<open>Making, opening and closing\<close>

lemma MakeFile_new:
  assumes "drive_path a s \<in> set (dirs (fs (world s)))" "\<not> read_only s" "unat a \<le> 65500"
    and "is_file (fcb_path a s) (fs (world s)) \<or> can_create (fcb_path a s) (fs (world s))"
  defines "t \<equiv> snd (MakeFile a s)"
  shows "fst (MakeFile a s) = 0" "at_record a (fcb_path a s) [] 0 t" "setting (world t) = setting (world s)"
    "i < unat a + 12 \<or> unat a + 33 \<le> i \<Longrightarrow> rd t i = rd s i"
proof -
  obtain v where sel: "SelectDisk (rd s (unat a)) s = (0, cpm_upd (\<lambda>w. w\<lparr>loginVector := v\<rparr>) s)"
    using assms(1) by (rule SelectDisk_dir)
  define s1 where "s1 = set_filename a (cpm_upd (\<lambda>w. w\<lparr>loginVector := v\<rparr>) s)"
  have n: "filename (world s1) = snd (FCBtoHostname a s)" and ro: "\<not> read_only (cpm_upd (\<lambda>w. w\<lparr>loginVector := v\<rparr>) s)"
    and w: "fs (world s1) = fs (world s)" "setting (world s1) = setting (world s)" "rd s1 i = rd s i" for i
    using assms(2) by (auto simp: s1_def set_filename_def setting_def read_only_def)
  define sm where "sm = fs_upd (put_file (fcb_path a s) [] (fs (world s))) s1"
  have m: "sys_makefile (filename (world s1)) s1 = (True, sm)"
    using assms(4) by (auto simp: sys_makefile_def Let_def n w(1) fcb_path_def sm_def)
  have w2: "setting (world sm) = setting (world s)" "rd sm i = rd s i" "is_file (fcb_path a s) (fs (world sm))"
    "content (fcb_path a s) (fs (world sm)) = []" for i
    using w by (simp_all add: sm_def setting_eq) (simp_all add: fs_upd_def)
  let ?t = "wr (F_cr a) 0 (put_bytes (F_al a) (replicate 16 0) (wr (F_rc a) 0 (wr (F_s2 a) 0 (wr (F_s1 a) 0 (wr (F_ex a) 0 sm)))))"
  have e: "MakeFile a s = (0, ?t)"
    unfolding MakeFile_def sel Let_def prod.case s1_def [symmetric] m using ro by simp
  have r: "rd ?t i = rd s i" if "i < unat a + 12 \<or> unat a + 33 \<le> i" for i
    using that assms(3) w2(2) by (auto simp: rd_wr rd_put_bytes)
  have z: "cr a ?t = 0" "ex a ?t = 0" "s2 a ?t = 0"
    using assms(3) by (simp_all add: cr_def ex_def s2_def rd_wr rd_put_bytes)
  show "fst (MakeFile a s) = 0" "setting (world t) = setting (world s)" "i < unat a + 12 \<or> unat a + 33 \<le> i \<Longrightarrow> rd t i = rd s i"
    using r w2(1) by (simp_all add: t_def e)
  show "at_record a (fcb_path a s) [] 0 t"
    unfolding t_def e snd_conv
    using z assms(1,3) w2 fcb_cong [of a ?t s] r by (simp add: at_record_def fcb_ok_def seq_pos_fields setting_eq)
qed

lemma OpenFile_at:
  assumes "at_record a p c k s"
  defines "t \<equiv> snd (OpenFile a s)"
  shows "fst (OpenFile a s) = 0" "at_record a p c k t" "setting (world t) = setting (world s)"
    "i < unat a + 12 \<or> unat a + 33 \<le> i \<Longrightarrow> rd t i = rd s i"
proof -
  note u = assms(1) [unfolded at_record_def]
  have a: "unat a \<le> 65500" using u by (simp add: fcb_ok_def)
  obtain v where sel: "SelectDisk (rd s (unat a)) s = (0, cpm_upd (\<lambda>w. w\<lparr>loginVector := v\<rparr>) s)"
    using u SelectDisk_dir by blast
  define s1 where "s1 = set_filename a (cpm_upd (\<lambda>w. w\<lparr>loginVector := v\<rparr>) s)"
  have n: "filename (world s1) = snd (FCBtoHostname a s)"
    and w: "fs (world s1) = fs (world s)" "setting (world s1) = setting (world s)" "rd s1 i = rd s i" for i
    by (simp_all add: s1_def set_filename_def setting_def)
  have o: "sys_openfile (filename (world s1)) s1" using u by (simp add: sys_openfile_def n w fcb_path_def)
  obtain l v' where f: "FileSize a s1 = (l, set_filename a (cpm_upd (\<lambda>w. w\<lparr>loginVector := v'\<rparr>) s1))"
  proof -
    have dr: "drive_path a s1 \<in> set (dirs (fs (world s1)))"
      using u w fcb_cong [of a s1 s] by (simp add: setting_eq)
    obtain v' where sel': "SelectDisk (rd s1 (unat a)) s1 = (0, cpm_upd (\<lambda>w. w\<lparr>loginVector := v'\<rparr>) s1)"
      using dr by (rule SelectDisk_dir)
    have "FCBtoHostname a s1 = FCBtoHostname a s" using w fcb_cong(1) [of a s1 s] by (simp add: setting_eq)
    then have "is_file (full_path (filename (world (set_filename a (cpm_upd (\<lambda>w. w\<lparr>loginVector := v'\<rparr>) s1))))) (fs (world s1))"
      using u w by (simp add: set_filename_def fcb_path_def)
    then show ?thesis
      using that unfolding FileSize_def sel' Let_def prod.case by (simp add: sys_filesize_def Let_def set_filename_def)
  qed
  define s3 where "s3 = set_filename a (cpm_upd (\<lambda>w. w\<lparr>loginVector := v'\<rparr>) s1)"
  have w3: "fs (world s3) = fs (world s)" "setting (world s3) = setting (world s)" "rd s3 i = rd s i" for i
    using w by (simp_all add: s3_def set_filename_def setting_def)
  define t' where "t' = put_bytes (F_al a) (replicate 16 0) (wr (F_rc a) (if 128 < l sdiv 128 then 128 else of_int (l sdiv 128)) (wr (F_s2 a) 0x80 (wr (F_s1 a) 0 s3)))"
  have e: "OpenFile a s = (0, t')"
    unfolding OpenFile_def sel Let_def prod.case s1_def [symmetric] f s3_def [symmetric] t'_def using o by simp
  have r: "rd t' i = rd s i" if "i < unat a + 13 \<or> unat a + 32 \<le> i" for i
    using that a w3(3) by (auto simp: t'_def rd_wr rd_put_bytes)
  have z: "cr a t' = cr a s" "ex a t' = ex a s" "s2 a t' = 0x80"
    using a w3(3) r by (simp_all add: cr_def ex_def s2_def) (simp add: t'_def rd_wr rd_put_bytes)
  have w4: "fs (world t') = fs (world s)" "setting (world t') = setting (world s)"
    using w3 by (simp_all add: t'_def)
  show "fst (OpenFile a s) = 0" "setting (world t) = setting (world s)" "i < unat a + 12 \<or> unat a + 33 \<le> i \<Longrightarrow> rd t i = rd s i"
    using r w4 by (auto simp: t_def e)
  show "at_record a p c k t"
    unfolding t_def e snd_conv
    using z u w4 fcb_cong [of a t' s] r by (auto simp: at_record_def fcb_ok_def seq_pos_fields setting_eq)
qed

lemma CloseFile_fs:
  assumes "at_record a p c k s" "\<not> read_only s" "a \<noteq> BatchFCB"
  shows "fs (world (snd (CloseFile a s))) = fs (world s)"
proof -
  obtain v where sel: "SelectDisk (rd s (unat a)) s = (0, cpm_upd (\<lambda>w. w\<lparr>loginVector := v\<rparr>) s)"
    using assms(1) SelectDisk_dir unfolding at_record_def by blast
  have "\<not> read_only (cpm_upd (\<lambda>w. w\<lparr>loginVector := v\<rparr>) s)" using assms(2) by (simp add: read_only_def)
  then show ?thesis
    unfolding CloseFile_def sel Let_def prod.case using assms(3) by (simp add: set_filename_def)
qed

end
