(* ===== verification/Cpm_Parse.thy ===== *)
theory Cpm_Parse
  imports Cpm_Ccp
begin

text \<open>
  The parser of the command processor: a file name as it is typed, in any case, ends up in the control
  block, and the disk functions take it for the host file of that name.
\<close>

section \<open>Memory\<close>

lemma put_bytes_append: "put_bytes a (xs @ ys) s = put_bytes (a + length xs) ys (put_bytes a xs s)"
  by (induction xs arbitrary: a s) (simp_all add: add.commute add.left_commute)

lemma unat_u16_add: "unat a + n < 65536 \<Longrightarrow> unat ((a :: u16) + of_nat n) = unat a + n"
  using unat_add_lem [of a "of_nat n"] by (simp add: unsigned_of_nat take_bit_nat_eq_self)

lemma pad_name_put: "unat fcb + n < 65536 \<Longrightarrow> pad_name n pad fcb s = put_bytes (unat fcb) (replicate n pad) s"
proof (induction n arbitrary: fcb s)
  case (Suc n)
  then have "unat (fcb + 1) = unat fcb + 1" using unat_u16_add [of fcb 1] by simp
  then show ?case using Suc by simp
qed simp

section \<open>Characters\<close>

text \<open>A character that can be part of a name typed at the prompt.\<close>

definition typed_char :: "byte \<Rightarrow> bool" where
  "typed_char x \<longleftrightarrow> name_char (toupper x) \<and> \<not> ccp_delim (toupper x) \<and> toupper x \<noteq> 0x2a"

text \<open>The text \<open>cs\<close> stands at \<open>pbuf\<close>, inside the memory and the line.\<close>

definition text_at :: "ccp \<Rightarrow> byte list \<Rightarrow> bool" where
  "text_at c cs \<longleftrightarrow> unat (pbuf c) + length cs < 65536 \<and> length cs \<le> unat (blen c) \<and>
     (\<forall>i < length cs. rd (sys c) (unat (pbuf c) + i) = cs ! i)"

text \<open>The line moved behind \<open>n\<close> characters.\<close>

definition advance :: "nat \<Rightarrow> ccp \<Rightarrow> ccp" where
  "advance n c = c\<lparr>pbuf := pbuf c + of_nat n, blen := blen c - of_nat n\<rparr>"

lemma advance_simps [simp]:
  "sys (advance n c) = sys c" "pbuf (advance n c) = pbuf c + of_nat n" "blen (advance n c) = blen c - of_nat n"
  "advance n (on_sys f c) = on_sys f (advance n c)" "advance 0 c = c" "advance n (advance m c) = advance (m + n) c"
  by (simp_all add: advance_def on_sys_def algebra_simps)

lemma on_sys_simps [simp]:
  "sys (on_sys f c) = f (sys c)" "pbuf (on_sys f c) = pbuf c" "blen (on_sys f c) = blen c"
  "on_sys f (on_sys g c) = on_sys (f \<circ> g) c"
  by (simp_all add: on_sys_def)

lemma unat_byte_less: "unat (x :: byte) < 256"
  using unsigned_less [of x] by simp

lemma unat_byte_sub: "n \<le> unat (x :: byte) \<Longrightarrow> unat (x - of_nat n) = unat x - n"
  using unat_sub [of "of_nat n" x] unat_byte_less [of x]
  by (simp add: word_le_nat_alt unsigned_of_nat take_bit_nat_eq_self)

lemma text_at_Cons: "text_at c (x # cs) \<longleftrightarrow>
    rd (sys c) (unat (pbuf c)) = x \<and> blen c \<noteq> 0 \<and> unat (pbuf c) + 1 < 65536 \<and> text_at (advance 1 c) cs"
proof -
  have "unat (pbuf c + 1) = unat (pbuf c) + 1" if "unat (pbuf c) + 1 < 65536"
    using unat_u16_add [of "pbuf c" 1] that by simp
  moreover have "unat (blen c - 1) = unat (blen c) - 1" "0 < unat (blen c)" if "blen c \<noteq> 0"
    using unat_byte_sub [of 1 "blen c"] that unat_gt_0 [of "blen c"] by (auto simp: word_neq_0_conv [symmetric])
  moreover have "(\<forall>i < Suc (length cs). P i) \<longleftrightarrow> P 0 \<and> (\<forall>i < length cs. P (Suc i))" for P
    using less_Suc_eq_0_disj by auto
  ultimately show ?thesis
    by (cases "blen c = 0"; cases "unat (pbuf c) + 1 < 65536") (auto simp: text_at_def)
qed

section \<open>Names\<close>

text \<open>Writing \<open>n\<close> bytes at \<open>a\<close> leaves the text and the character behind it alone.\<close>

definition apart :: "nat \<Rightarrow> nat \<Rightarrow> ccp \<Rightarrow> nat \<Rightarrow> bool" where
  "apart a n c m \<longleftrightarrow> a + n < 65536 \<and> (a + n \<le> unat (pbuf c) \<or> unat (pbuf c) + m < a)"

lemma text_at_apart:
  assumes "text_at c cs" "apart a (length bs) c (length cs)"
  shows "text_at (on_sys (put_bytes a bs) c) cs"
  using assms by (auto simp: text_at_def apart_def rd_put_bytes)

lemma rd_apart:
  assumes "apart a (length bs) c m" "n \<le> m"
  shows "rd (put_bytes a bs s) (unat (pbuf c) + n) = rd s (unat (pbuf c) + n)"
  using assms by (auto simp: apart_def rd_put_bytes)

lemma apart_advance:
  assumes "apart a n c m" "k \<le> m" "unat (pbuf c) + m < 65536" "a \<le> a'" "a' + n' \<le> a + n"
  shows "apart a' n' (advance k c) (m - k)"
  using assms unat_u16_add [of "pbuf c" k] by (auto simp: apart_def)

text \<open>The character loop on a text that ends at its limit, at the end of the line or at a delimiter.\<close>

lemma name_chars_typed:
  assumes "text_at c cs" "list_all typed_char cs" "length cs \<le> plen" "apart (unat fcb) (length cs) c (length cs)"
    and "length cs = plen \<or> ccp_delim (toupper (rd (sys c) (unat (pbuf c) + length cs)))"
  shows "name_chars plen 0x20 n fcb c =
    (plen - length cs, 0x20, n + of_nat (length cs), fcb + of_nat (length cs),
     on_sys (put_bytes (unat fcb) (map toupper cs)) (advance (length cs) c))"
  using assms
proof (induction cs arbitrary: plen n fcb c)
  case Nil
  then show ?case by (cases plen) (simp_all add: on_sys_def Let_def)
next
  case (Cons x cs)
  obtain p where p: "plen = Suc p" using Cons.prems(3) by (cases plen) auto
  have x: "rd (sys c) (unat (pbuf c)) = x" "blen c \<noteq> 0" "unat (pbuf c) + 1 < 65536" "text_at (advance 1 c) cs"
    using Cons.prems(1) by (auto simp: text_at_Cons)
  have ch: "\<not> ccp_delim (toupper x)" "toupper x \<noteq> 0x2a" using Cons.prems(2) by (auto simp: typed_char_def)
  have len: "unat (pbuf c) + Suc (length cs) < 65536" using Cons.prems(1) by (simp add: text_at_def)
  have next_p: "unat (pbuf c + 1) = unat (pbuf c) + 1" using unat_u16_add [of "pbuf c" 1] x(3) by simp
  have f: "unat (fcb + 1) = unat fcb + 1" using Cons.prems(4) unat_u16_add [of fcb 1] by (simp add: apart_def)
  let ?c = "on_sys (wr (unat fcb) (toupper x)) (advance 1 c)"
  have w: "?c = on_sys (put_bytes (unat fcb) [toupper x]) (advance 1 c)" by (simp add: on_sys_def)
  have ap: "apart (unat fcb) 1 (advance 1 c) (length cs)"
    using apart_advance [OF Cons.prems(4), of 1 "unat fcb" 1] len by simp
  have "apart (unat (fcb + 1)) (length cs) (advance 1 c) (length cs)"
    using apart_advance [OF Cons.prems(4), of 1 "unat fcb + 1" "length cs"] len f by simp
  then have a: "apart (unat (fcb + 1)) (length cs) ?c (length cs)" by (simp add: apart_def)
  have t: "text_at ?c cs" unfolding w using ap by (intro text_at_apart x(4)) simp
  have e: "length cs = p \<or> ccp_delim (toupper (rd (sys ?c) (unat (pbuf ?c) + length cs)))"
    using Cons.prems(5) rd_apart [of "unat fcb" "[toupper x]" "advance 1 c" "length cs" "length cs" "sys c"] ap
    by (simp add: p next_p)
  have "name_chars plen 0x20 n fcb c = name_chars p 0x20 (n + 1) (fcb + 1) ?c"
    using x(1,2) ch by (simp add: p Let_def advance_def)
  also have "\<dots> = (p - length cs, 0x20, n + 1 + of_nat (length cs), fcb + 1 + of_nat (length cs),
     on_sys (put_bytes (unat (fcb + 1)) (map toupper cs)) (advance (length cs) ?c))"
    using Cons.prems(2,3) by (intro Cons.IH t a e) (simp_all add: p)
  finally show ?case using f by (simp add: p algebra_simps comp_def)
qed

lemma text_at_append: "text_at c (xs @ ys) \<Longrightarrow> text_at c xs" "text_at c (xs @ ys) \<Longrightarrow> text_at (advance (length xs) c) ys"
proof -
  assume t: "text_at c (xs @ ys)"
  then show "text_at c xs" by (auto simp: text_at_def nth_append)
  have "unat (pbuf c + of_nat (length xs)) = unat (pbuf c) + length xs" "unat (blen c - of_nat (length xs)) = unat (blen c) - length xs"
    using t by (simp_all add: text_at_def unat_u16_add unat_byte_sub)
  moreover have "rd (sys c) (unat (pbuf c) + length xs + i) = ys ! i" if "i < length ys" for i
    using t that unfolding text_at_def by (auto simp: nth_append add.assoc dest!: spec [of _ "length xs + i"])
  ultimately show "text_at (advance (length xs) c) ys" using t by (auto simp: text_at_def)
qed

lemma toupper_delim: "ccp_delim x \<Longrightarrow> toupper x = x"
  by (auto simp: ccp_delim_def toupper_def)

definition padded :: "nat \<Rightarrow> byte list \<Rightarrow> byte list" where
  "padded n cs = map toupper cs @ replicate (n - length cs) 0x20"

lemma length_padded [simp]: "length cs \<le> n \<Longrightarrow> length (padded n cs) = n"
  by (simp add: padded_def)

lemma put_name: "length fn = 8 \<Longrightarrow> put_bytes (Suc a) (fn @ tp) = (\<lambda>s. put_bytes (a + 9) tp (put_bytes (Suc a) fn s))"
  by (rule ext) (simp add: put_bytes_append add.commute)

text \<open>One part of a name: the characters and the filling.\<close>

lemma name_part:
  assumes "text_at c cs" "list_all typed_char cs" "length cs \<le> plen" "apart (unat fcb) plen c (length cs)"
    and "length cs = plen \<or> ccp_delim (toupper (rd (sys c) (unat (pbuf c) + length cs)))"
  shows "name_chars plen 0x20 n fcb c =
      (plen - length cs, 0x20, n + of_nat (length cs), fcb + of_nat (length cs),
       on_sys (put_bytes (unat fcb) (map toupper cs)) (advance (length cs) c))"
    "on_sys (pad_name (plen - length cs) 0x20 (fcb + of_nat (length cs)))
       (on_sys (put_bytes (unat fcb) (map toupper cs)) (advance (length cs) c)) =
     on_sys (put_bytes (unat fcb) (padded plen cs)) (advance (length cs) c)"
    "fcb + of_nat (length cs) + of_nat (plen - length cs) = fcb + of_nat plen"
    "rd (put_bytes (unat fcb) (map toupper cs) (sys c)) (unat (pbuf c) + length cs) = rd (sys c) (unat (pbuf c) + length cs)"
proof -
  have ap: "apart (unat fcb) (length cs) c (length cs)" using assms(3,4) by (auto simp: apart_def)
  show "name_chars plen 0x20 n fcb c =
      (plen - length cs, 0x20, n + of_nat (length cs), fcb + of_nat (length cs),
       on_sys (put_bytes (unat fcb) (map toupper cs)) (advance (length cs) c))"
    by (rule name_chars_typed [OF assms(1,2,3) ap assms(5)])
  have f: "unat (fcb + of_nat (length cs)) = unat fcb + length cs"
    using assms(3,4) by (intro unat_u16_add) (simp add: apart_def)
  then have "pad_name (plen - length cs) 0x20 (fcb + of_nat (length cs)) s =
      put_bytes (unat fcb + length cs) (replicate (plen - length cs) 0x20) s" for s
    using assms(3,4) by (subst pad_name_put) (simp_all add: apart_def)
  then show "on_sys (pad_name (plen - length cs) 0x20 (fcb + of_nat (length cs)))
       (on_sys (put_bytes (unat fcb) (map toupper cs)) (advance (length cs) c)) =
     on_sys (put_bytes (unat fcb) (padded plen cs)) (advance (length cs) c)"
    by (simp add: padded_def put_bytes_append on_sys_def)
  show "fcb + of_nat (length cs) + of_nat (plen - length cs) = fcb + of_nat plen"
    using assms(3) by (simp add: of_nat_diff)
  show "rd (put_bytes (unat fcb) (map toupper cs) (sys c)) (unat (pbuf c) + length cs) = rd (sys c) (unat (pbuf c) + length cs)"
    using ap by (intro rd_apart [where m = "length cs"]) simp_all
qed

text \<open>
  What is typed: a name of one to eight characters and a type of up to three, followed by a delimiter that
  is neither a dot nor a colon. The control block is apart from the line.
\<close>

definition typed_name :: "u16 \<Rightarrow> byte list \<Rightarrow> byte list \<Rightarrow> ccp \<Rightarrow> bool" where
  "typed_name fcb b e c \<longleftrightarrow>
     (let t = host_name b e; stop = rd (sys c) (unat (pbuf c) + length t)
      in b \<noteq> [] \<and> length b \<le> 8 \<and> length e \<le> 3 \<and> list_all typed_char (b @ e) \<and> text_at c t \<and>
         ccp_delim stop \<and> stop \<noteq> 0x2e \<and> stop \<noteq> 0x3a \<and> apart (unat fcb) 12 c (length t))"

lemma typed_char_colon: "typed_char x \<Longrightarrow> x \<noteq> 0x3a"
  by (auto simp: typed_char_def ccp_delim_def toupper_def)

lemma typed_no_drive:
  assumes "typed_name fcb b e c"
  shows "rd (sys c) (unat (pbuf c) + 1) \<noteq> 0x3a"
proof (cases "1 < length (host_name b e)")
  case True
  then have "rd (sys c) (unat (pbuf c) + 1) = host_name b e ! 1"
    using assms by (auto simp: typed_name_def Let_def text_at_def)
  moreover have "0x3a \<notin> set (host_name b e)"
    using assms typed_char_colon by (auto simp: typed_name_def Let_def host_name_def list_all_iff)
  ultimately show ?thesis using True nth_mem by metis
next
  case False
  then have "length (host_name b e) = 1"
    using assms by (cases b) (auto simp: typed_name_def Let_def host_name_def)
  then show ?thesis using assms by (simp add: typed_name_def Let_def)
qed

lemma nameToFCB_typed:
  assumes t: "typed_name fcb b e c"
  shows "ccp_nameToFCB fcb c = (of_nat (length b + length e),
    on_sys (put_bytes (unat fcb + 1) (padded 8 b @ padded 3 e)) (advance (length (host_name b e)) c))"
proof -
  note u = t [unfolded typed_name_def Let_def]
  have len: "length b \<le> 8" "length e \<le> 3" and ty: "list_all typed_char b" "list_all typed_char e"
    and line: "text_at c (b @ (if e = [] then [] else 0x2e # e))" using u by (auto simp: host_name_def)
  have f1: "unat (fcb + 1) = unat fcb + 1" "unat (fcb + 9) = unat fcb + 9"
    using u unat_u16_add [of fcb 1] unat_u16_add [of fcb 9] by (auto simp: apart_def)
  let ?d = "rd (sys c) (unat (pbuf c) + length b)"
  have d: "?d = (if e = [] then rd (sys c) (unat (pbuf c) + length (host_name b e)) else 0x2e)"
    using text_at_append(2) [OF line] u by (auto simp: host_name_def text_at_Cons text_at_def unat_u16_add)
  have dd: "ccp_delim ?d" "toupper ?d = ?d" using d u toupper_delim by (auto simp: ccp_delim_def split: if_splits)
  have ap: "apart (unat (fcb + 1)) 8 c (length b)" using u by (auto simp: apart_def f1 host_name_def)
  note p1 = name_part [OF text_at_append(1) [OF line] ty(1) len(1) ap]
  have stop1: "length b = 8 \<or> ccp_delim (toupper ?d)" using dd by simp
  note p1 = p1 [OF stop1]
  define k where "k = (if e = [] then length b else Suc (length b))"
  have k: "k + length e = length (host_name b e)" by (simp add: host_name_def k_def)
  let ?c = "on_sys (put_bytes (unat (fcb + 1)) (padded 8 b)) (advance k c)"
  let ?x = "on_sys (put_bytes (unat (fcb + 1)) (padded 8 b)) (advance (length b) c)"
  have c: "(if ?d = 0x2e then ?x\<lparr>pbuf := pbuf ?x + 1, blen := blen ?x - 1\<rparr> else ?x) = ?c"
  proof (cases "e = []")
    case True
    then show ?thesis using d u by (simp add: k_def)
  next
    case False
    then have "?d = 0x2e" "k = Suc (length b)" using d by (simp_all add: k_def)
    then show ?thesis by (simp add: on_sys_def advance_def add.commute [of 1] diff_diff_add)
  qed
  have te: "text_at (advance k c) e"
    using text_at_append(2) [OF line] by (auto simp: k_def text_at_Cons)
  have pb: "unat (pbuf c + of_nat k) = unat (pbuf c) + k"
    using u k by (intro unat_u16_add) (auto simp: text_at_def)
  have ape: "apart (unat (fcb + 1)) 8 (advance k c) (length e)" "apart (unat (fcb + 9)) 3 (advance k c) (length e)"
    using u k by (auto simp: apart_def f1 pb)
  have te2: "text_at ?c e" using ape(1) len by (intro text_at_apart te) simp
  have "rd (sys ?c) (unat (pbuf ?c) + length e) = rd (sys c) (unat (pbuf c) + length (host_name b e))"
    using rd_apart [of "unat (fcb + 1)" "padded 8 b" "advance k c" "length e" "length e" "sys c"] ape(1) len pb k
    by (simp add: add.assoc)
  then have stop2: "length e = 3 \<or> ccp_delim (toupper (rd (sys ?c) (unat (pbuf ?c) + length e)))"
    using u toupper_delim by metis
  have "apart (unat (fcb + 9)) 3 ?c (length e)" using ape(2) by (simp add: apart_def)
  note p2 = name_part [OF te2 ty(2) len(2) this stop2]
  have "unat (pbuf c + of_nat (length b)) = unat (pbuf c) + length b"
    using u by (intro unat_u16_add) (auto simp: text_at_def host_name_def)
  then have ch: "toupper (rd (sys (on_sys (put_bytes (unat (fcb + 1)) (map toupper b)) (advance (length b) c)))
      (unat (pbuf (on_sys (put_bytes (unat (fcb + 1)) (map toupper b)) (advance (length b) c))))) = ?d"
    using p1(4) dd(2) by simp
  have f9: "fcb + 1 + of_nat 8 = fcb + 9" by simp
  have bl: "blen c \<noteq> 0" using line u by (cases b) (auto simp: text_at_Cons)
  have "ccp_nameToFCB fcb c = (0 + of_nat (length b) + of_nat (length e),
      on_sys (put_bytes (unat (fcb + 9)) (padded 3 e)) (advance (length e) ?c))"
    by (simp only: ccp_nameToFCB_def Let_def typed_no_drive [OF t] bl if_False p1(1) prod.case ch p1(2,3) c f9
        add_0 p2(1,2))
  also have "\<dots> = (of_nat (length b + length e),
      on_sys (put_bytes (unat fcb + 1) (padded 8 b @ padded 3 e)) (advance (length (host_name b e)) c))"
    using len by (simp add: put_name f1 k comp_def)
  finally show ?thesis .
qed

section \<open>From the keyboard to the file\<close>

text \<open>The line behind a drive letter, if there is one.\<close>

definition after_drive :: "u16 \<Rightarrow> byte option \<Rightarrow> ccp \<Rightarrow> ccp" where
  "after_drive fcb d c =
     (case d of None \<Rightarrow> c | Some x \<Rightarrow> on_sys (wr (unat fcb) (toupper x - 0x40)) (advance 2 c))"

definition drive_typed :: "u16 \<Rightarrow> byte option \<Rightarrow> ccp \<Rightarrow> bool" where
  "drive_typed fcb d c =
     (case d of None \<Rightarrow> rd (sys c) (unat fcb) = 0
      | Some x \<Rightarrow> rd (sys c) (unat (pbuf c)) = x \<and> rd (sys c) (unat (pbuf c) + 1) = 0x3a \<and>
          0x41 \<le> toupper x \<and> toupper x \<le> 0x50)"

lemma nameToFCB_drive:
  assumes "drive_typed fcb d c" "typed_name fcb b e (after_drive fcb d c)"
  shows "ccp_nameToFCB fcb c = ccp_nameToFCB fcb (after_drive fcb d c)"
proof (cases d)
  case (Some x)
  then have c: "rd (sys c) (unat (pbuf c)) = x" "rd (sys c) (unat (pbuf c) + 1) = 0x3a"
    "after_drive fcb d c = on_sys (wr (unat fcb) (toupper x - 0x40)) (c\<lparr>pbuf := pbuf c + 2, blen := blen c - 2\<rparr>)"
    using assms(1) by (simp_all add: drive_typed_def after_drive_def advance_def)
  show ?thesis
    using typed_no_drive [OF assms(2)] c unfolding ccp_nameToFCB_def Let_def by simp
qed (simp add: after_drive_def)

lemma FCBtoHostname_name:
  assumes "rd s (unat a) \<noteq> question"
  shows "snd (FCBtoHostname a s) =
    [if rd s (unat a) = 0 then cDrive (world s) + 0x41 else rd s (unat a) - 1 + 0x41, slash, toupper (tohex (userCode (world s))), slash] @
    host_name (fcb_part (get_bytes s (unat a + 1) 8)) (fcb_part (get_bytes s (unat a + 9) 3))"
  using assms by (simp add: FCBtoHostname_def Let_def host_name_def)

lemma fcb_part_padded: "list_all typed_char cs \<Longrightarrow> fcb_part (padded n cs) = map toupper cs"
  unfolding padded_def by (rule fcb_part_plain) (simp add: list_all_iff typed_char_def)

text \<open>
  Property (C10). A file name typed at the prompt, with or without a drive letter and in any case, names the host
  file of that name: the control block that the command processor fills from it stands for the
  upper-case name in the folder of the drive and the user. The line has been consumed up to the end of the name.
\<close>
theorem typed_name_path:
  assumes "drive_typed fcb d c" "typed_name fcb b e (after_drive fcb d c)"
  defines "r \<equiv> ccp_nameToFCB fcb c"
  shows "snd (FCBtoHostname fcb (sys (snd r))) =
      [case d of None \<Rightarrow> cDrive (world (sys c)) + 0x41 | Some x \<Rightarrow> toupper x, slash,
       toupper (tohex (userCode (world (sys c)))), slash] @ host_name (map toupper b) (map toupper e)
    \<and> fst r = of_nat (length b + length e)
    \<and> pbuf (snd r) = pbuf (after_drive fcb d c) + of_nat (length (host_name b e))"
proof -
  let ?c = "after_drive fcb d c" and ?bs = "padded 8 b @ padded 3 e"
  note t = assms(2) [unfolded typed_name_def Let_def]
  have r: "r = (of_nat (length b + length e), on_sys (put_bytes (unat fcb + 1) ?bs) (advance (length (host_name b e)) ?c))"
    unfolding r_def nameToFCB_drive [OF assms(1,2)] by (rule nameToFCB_typed [OF assms(2)])
  let ?s = "put_bytes (unat fcb + 1) ?bs (sys ?c)"
  have len: "length (padded 8 b) = 8" "length (padded 3 e) = 3" and f: "unat fcb + 12 < 65536"
    using t by (auto simp: apart_def)
  have "get_bytes ?s (unat fcb + 9) 3 = padded 3 e"
    using get_put_bytes [of "unat fcb + 9" "padded 3 e"] len f by (simp add: put_name)
  moreover have "get_bytes ?s (unat fcb + 1) 8 = padded 8 b"
    using get_put_bytes [of "unat fcb + 1" "padded 8 b"] len f by (simp add: put_name get_bytes_outside)
  moreover have "rd ?s (unat fcb) = (case d of None \<Rightarrow> 0 | Some x \<Rightarrow> toupper x - 0x40)"
    using assms(1) len f by (auto simp: rd_put_bytes after_drive_def drive_typed_def rd_wr split: option.splits)
  moreover have "y - 0x40 \<noteq> 0 \<and> y - 0x40 \<noteq> question" if "0x41 \<le> y" "y \<le> 0x50" for y :: byte
  proof -
    have "y \<noteq> 0x40" "y \<noteq> 0x7f" using that by auto
    then show ?thesis by (simp add: diff_eq_eq)
  qed
  ultimately show ?thesis
    using FCBtoHostname_name [of ?s fcb] t assms(1) unfolding r
    by (auto simp: fcb_part_padded drive_typed_def after_drive_def split: option.splits)
qed

text \<open>A command processor with a line in its buffer.\<close>

definition ccp0 :: "machine \<Rightarrow> ccp" where
  "ccp0 s = \<lparr>pgSize = 22, curDrive = 0, parDrive = 0, curUser = 0, sFlag = False, sRecs = 0,
     prompt = [0x0d, 0x0a, 0x20, 0x20, 0x3e], pbuf = 0, perr = 0, blen = 0, sys = s\<rparr>"

definition line_example :: ccp where
  "line_example = (ccp0 (put_bytes 60162 (str ''b:go.com'') (machine0 (\<lambda>_. 0) (world0 example_fs []))))
     \<lparr>pbuf := 60162, blen := 8\<rparr>"

lemma line_example_rd: "60162 \<le> n \<Longrightarrow> n < 65536 \<Longrightarrow>
    rd (sys line_example) n = (if n < 60170 then str ''b:go.com'' ! (n - 60162) else 0)"
proof -
  assume n: "60162 \<le> n" "n < 65536"
  have "length (str ''b:go.com'') = 8" by (simp add: str_def)
  then show ?thesis
    using n rd_put_bytes [of 60162 "str ''b:go.com''" "machine0 (\<lambda>_. 0) (world0 example_fs [])" n]
    unfolding line_example_def ccp0_def by (auto simp: machine0_def rd_def)
qed

lemma line_example_simps: "pbuf line_example = 60162" "blen line_example = 8" "world (sys line_example) = world0 example_fs []"
  by (simp_all add: line_example_def ccp0_def machine0_def)

lemma line_example_drive: "drive_typed 0x5c (Some 0x62) line_example"
  by (simp add: drive_typed_def line_example_rd line_example_simps str_def of_char_def toupper_def)

lemma line_example_typed: "typed_name 0x5c (str ''go'') (str ''com'') (after_drive 0x5c (Some 0x62) line_example)"
proof -
  have "host_name (str ''go'') (str ''com'') = str ''go.com''" by (simp add: host_name_def str_def of_char_def)
  moreover have "list_all typed_char (str ''go'' @ str ''com'')"
    by (simp add: str_def of_char_def typed_char_def name_char_def toupper_def ccp_delim_def)
  moreover have "str ''b:go.com'' ! Suc (Suc i) = str ''go.com'' ! i" for i by (simp add: str_def)
  moreover have "length (str ''go.com'') = 6" "length (str ''go'') = 2" "length (str ''com'') = 3" "str ''go'' \<noteq> []"
    by (simp_all add: str_def)
  ultimately show ?thesis
    by (auto simp: typed_name_def Let_def after_drive_def text_at_def apart_def line_example_simps rd_wr line_example_rd ccp_delim_def)
qed

theorem typed_name_path_witness:
  "snd (FCBtoHostname 0x5c (sys (snd (ccp_nameToFCB 0x5c line_example)))) = str ''B/0/GO.COM''"
  using typed_name_path [OF line_example_drive line_example_typed]
  by (simp add: line_example_simps world0_def str_def of_char_def toupper_def tohex_def host_name_def)

end
