(* ===== verification/Cpm_Return.thy ===== *)
theory Cpm_Return
  imports Cpm_Ccp
begin

text \<open>
  Starting a program and coming back: \<open>_ccp_ext\<close> starts the processor at a trampoline that calls the
  program and then jumps to the BIOS entry \<open>RETTOCCP\<close>, whose handler ends the run of the processor.
\<close>

section \<open>The images\<close>

definition trampoline_ready :: "(u16 \<Rightarrow> byte) \<Rightarrow> bool" where
  "trampoline_ready ram \<longleftrightarrow>
     ram 0xedac = 0xcd \<and> ram 0xedad = 0x00 \<and> ram 0xedae = 0x01 \<and>
     ram 0xedaf = 0xc3 \<and> ram 0xedb0 = 0x33 \<and> ram 0xedb1 = 0xfe"

definition rettoccp_ready :: "(u16 \<Rightarrow> byte) \<Rightarrow> bool" where
  "rettoccp_ready ram \<longleftrightarrow>
     ram 0xfe33 = 0xc3 \<and> ram 0xfe34 = 0x33 \<and> ram 0xfe35 = 0xff \<and> ram 0xff33 = 0xd3 \<and> ram 0xff34 = 0xff"

lemma put_trampoline_RAM:
  "RAM (put_trampoline s) = (RAM s)(0xedac := 0xcd, 0xedad := 0x00, 0xedae := 0x01, 0xedaf := 0xc3, 0xedb0 := 0x33, 0xedb1 := 0xfe)"
  by (rule ext) (auto simp: put_trampoline_def Let_def RAM_wr16)

lemma kept_belowD: "kept_below n s t \<Longrightarrow> unat a < n \<Longrightarrow> RAM t a = RAM s a"
  by (simp add: kept_below_def)

lemma PatchCPM_rettoccp: "rettoccp_ready (RAM (PatchCPM s))"
proof -
  let ?l = "[0, 3, 6, 9, 12, 15, 18, 21, 24, 27, 30, 33, 36, 39, 42, 45, 48]"
  define s1 where "s1 = fold patch_jump ?l (patch_bdos s)"
  define s2 where "s2 = patch_jump 51 s1"
  define s3 where "s3 = fold patch_bios ?l s2"
  define s4 where "s4 = patch_bios 51 s3"
  have 2: "RAM s2 0xfe33 = 0xc3" "RAM s2 0xfe34 = 0x33" "RAM s2 0xfe35 = 0xff"
    unfolding s2_def patch_jump_def by (simp_all add: RAM_wr16)
  have "kept_below 65280 s2 s3"
    unfolding s3_def by (rule kept_below_fold) (simp_all add: patch_bios_def kept_below_wr kept_below_refl)
  then have "kept_below 65280 s2 s4" unfolding s4_def patch_bios_def by (simp add: kept_below_wr)
  note 4 = kept_belowD [OF this]
  have b: "RAM s4 0xff33 = 0xd3" "RAM s4 0xff34 = 0xff"
    unfolding s4_def patch_bios_def by simp_all
  have "kept_below 65344 s4 (PatchCPM s)"
    unfolding PatchCPM_def
    using s1_def s2_def s3_def s4_def
    by (auto simp: Let_def intro!: kept_below_put kept_below_upd kept_below_refl)
  note k = kept_belowD [OF this]
  show ?thesis using 2 4 [of "0xfe33"] 4 [of "0xfe34"] 4 [of "0xfe35"] b k [of "0xfe33"] k [of "0xfe34"] k [of "0xfe35"]
      k [of "0xff33"] k [of "0xff34"] by (simp add: rettoccp_ready_def)
qed

section \<open>Running\<close>

lemma ops_more: "ops h ! 205 = op_cd" "ops h ! 211 = op_d3 h"
  by (simp_all add: ops_def)

lemma instr_call:
  assumes "RAM s (lw (PC s)) = 0xcd"
  shows "snd (instr h s) = (INCR 1 s)\<lparr>PCX := PC s, SP := SP s - 2,
    RAM := (RAM s)(lw (SP s) - 1 := hi (lw (PC s) + 3), lw (SP s) - 2 := lo (lw (PC s) + 3)),
    PC := ucast (pair (RAM s (lw (PC s) + 2)) (RAM s (lw (PC s) + 1)))\<rparr>"
  unfolding instr_at [OF assms] by (simp add: ops_more op_cd_def CALLC_def PUSH_mem GET_WORD_mem lw_add add.assoc Let_def)

lemma instr_out:
  assumes "RAM s (lw (PC s)) = 0xd3" "RAM s (lw (PC s) + 1) = 0xff"
  shows "snd (instr h s) = bios h ((INCR 1 s)\<lparr>PCX := PC s, PC := PC s + 2\<rparr>)"
  unfolding instr_at [OF assms(1)]
  using assms(2) by (simp add: ops_more op_d3_def cpu_out_def GET_BYTE_mem lw_add Let_def add.commute [of "PC s"] add.commute [of "lw (PC s)"])

section \<open>Call and return\<close>

text \<open>The jump behind the call, the BIOS jump table and the BIOS page.\<close>

lemma run_rettoccp:
  assumes "Status s = 0" "lw (PC s) = 0xedaf" "trampoline_ready (RAM s)" "rettoccp_ready (RAM s)"
  shows "\<exists>r. Z80run (cpm_host l) s = Some r \<and> Status r = 3 \<and> RAM r = RAM s \<and> world r = world s"
proof -
  let ?h = "cpm_host l"
  note m = assms(3,4) [unfolded trampoline_ready_def rettoccp_ready_def]
  define s1 where "s1 = (INCR 1 s)\<lparr>PCX := PC s, PC := 0xfe33\<rparr>"
  define s2 where "s2 = (INCR 1 s1)\<lparr>PCX := 0xfe33, PC := 0xff33\<rparr>"
  define s3 where "s3 = (INCR 1 s2)\<lparr>PCX := 0xff33, PC := 0xff35\<rparr>"
  have p: "pair 0xfe 0x33 = 0xfe33" "pair 0xff 0x33 = 0xff33" by (simp_all add: pair_def)
  have st: "Status s1 = 0" "Status s2 = 0" "RAM s1 = RAM s" "RAM s2 = RAM s"
    using assms(1) by (simp_all add: s1_def s2_def INCR_def)
  have 1: "snd (instr ?h s) = s1" using instr_jp [of s ?h] m assms(2) p by (simp add: s1_def)
  have 2: "snd (instr ?h s1) = s2" using instr_jp [of s1 ?h] m p by (simp add: s1_def s2_def)
  have 3: "snd (instr ?h s2) = Bios s3" using instr_out [of s2 ?h] m by (simp add: s1_def s2_def s3_def cpm_host_def)
  have b: "Bios s3 = s3\<lparr>Status := 3\<rparr>" by (simp add: Bios_def s3_def LOW_REGISTER_def)
  have "Z80run ?h s = Z80run ?h s1" using run_step [of s ?h] assms(1,2) m 1 by simp
  also have "\<dots> = Z80run ?h s2" using run_step [of s1 ?h] st m 2 by (simp add: s1_def)
  also have "\<dots> = Z80run ?h (Bios s3)" using run_step [of s2 ?h] st m 3 by (simp add: s2_def)
  also have "\<dots> = Some (Bios s3)" by (rule run_done) (simp add: b)
  finally show ?thesis by (simp add: b) (simp add: s3_def s2_def s1_def INCR_def)
qed

text \<open>The start of a program.\<close>

lemma program_entered:
  fixes s :: machine and l :: bool
  defines "p \<equiv> snd (instr (cpm_host l) (start_program s))"
  shows "lw (PC p) = 0x100" "lw (SP p) = 0xebfe" "world p = world s" "Status p = 0"
    "RAM p = (RAM s)(0xedac := 0xcd, 0xedad := 0x00, 0xedae := 0x01, 0xedaf := 0xc3, 0xedb0 := 0x33, 0xedb1 := 0xfe,
       0xebff := 0xed, 0xebfe := 0xaf)"
proof -
  let ?h = "cpm_host l"
  have ram: "RAM (start_program s) = (RAM s)(0xedac := 0xcd, 0xedad := 0x00, 0xedae := 0x01, 0xedaf := 0xc3, 0xedb0 := 0x33, 0xedb1 := 0xfe)"
    by (simp add: start_program_def Let_def Z80reset_def put_trampoline_RAM)
  have pc: "lw (PC (start_program s)) = 0xedac" "lw (SP (start_program s)) = 0xec00"
    "Status (start_program s) = 0" "world (start_program s) = world s"
    by (simp_all add: start_program_def Let_def Z80reset_def put_trampoline_def wr16_def)
  have pp: "pair 0x01 0x00 = 0x100" by (simp add: pair_def)
  have st: "hi (0xedaf :: u16) = 0xed" "lo (0xedaf :: u16) = 0xaf" by (simp_all add: hi_def lo_def)
  show "lw (PC p) = 0x100" "lw (SP p) = 0xebfe" "world p = world s" "Status p = 0"
    "RAM p = (RAM s)(0xedac := 0xcd, 0xedad := 0x00, 0xedae := 0x01, 0xedaf := 0xc3, 0xedb0 := 0x33, 0xedb1 := 0xfe,
       0xebff := 0xed, 0xebfe := 0xaf)"
    using instr_call [of "start_program s" ?h] ram pc pp st unfolding p_def by (simp_all add: lw_diff INCR_def)
qed

text \<open>
  Property (C6). A program is called and comes back. The first instruction after the start enters it at 0x100
  with the default stack; the memory of the program and the files are as they were. When the program executes a
  \<open>RET\<close> with that stack and has left the trampoline and the BIOS alone, the processor stops with status 3,
  which takes the command processor to its next prompt; memory and files are what the program made of them.
\<close>
theorem program_call_return:
  fixes s t :: machine and l :: bool
  defines "p \<equiv> snd (instr (cpm_host l) (start_program s))"
  assumes "Status t = 0" "RAM t (lw (PC t)) = 0xc9" "lw (SP t) = lw (SP p)"
    and "RAM t 0xebff = RAM p 0xebff" "RAM t 0xebfe = RAM p 0xebfe"
    and "trampoline_ready (RAM t)" "rettoccp_ready (RAM t)"
  shows "lw (PC p) = 0x100 \<and> lw (SP p) = 0xebfe \<and> world p = world s \<and> Status p = 0
    \<and> (\<forall>a. a < 0xebfe \<longrightarrow> RAM p a = RAM s a)
    \<and> (\<exists>r. Z80run (cpm_host l) t = Some r \<and> Status r = 3 \<and> RAM r = RAM t \<and> world r = world t)"
proof -
  let ?h = "cpm_host l"
  note ip = program_entered [where s = s and l = l, folded p_def]
  have frame: "RAM p a = RAM s a" if "a < 0xebfe" for a
    using that unfolding ip(5) by auto
  have e: "pair (RAM t (lw (SP t) + 1)) (RAM t (lw (SP t))) = 0xedaf"
    using assms(4,5,6) ip(2,5) by (simp add: pair_def)
  define u where "u = (INCR 1 t)\<lparr>PCX := PC t, SP := SP t + 2, PC := 0xedaf\<rparr>"
  have "snd (instr ?h t) = u" using instr_ret [OF assms(3), of ?h] e by (simp add: u_def)
  then have "Z80run ?h t = Z80run ?h u" using run_step [of t ?h] assms(2,3) by simp
  moreover have "\<exists>r. Z80run ?h u = Some r \<and> Status r = 3 \<and> RAM r = RAM u \<and> world r = world u"
    using assms(2,7,8) by (intro run_rettoccp) (simp_all add: u_def INCR_def)
  moreover have "RAM u = RAM t" "world u = world t" by (simp_all add: u_def INCR_def)
  ultimately show ?thesis using ip(1-4) frame by simp
qed

text \<open>A program that only returns.\<close>

definition ret_program :: machine where
  "ret_program = (let s = PatchCPM (machine0 (\<lambda>_. 0) (world0 example_fs [])) in s\<lparr>RAM := (RAM s)(0x100 := 0xc9)\<rparr>)"

definition ret_entered :: machine where
  "ret_entered = snd (instr (cpm_host True) (start_program ret_program))"

lemma ret_entered_ready:
  "Status ret_entered = 0" "RAM ret_entered (lw (PC ret_entered)) = 0xc9" "trampoline_ready (RAM ret_entered)"
  "rettoccp_ready (RAM ret_entered)"
  using PatchCPM_rettoccp [of "machine0 (\<lambda>_. 0) (world0 example_fs [])"]
  by (simp_all add: ret_entered_def program_entered ret_program_def Let_def trampoline_ready_def rettoccp_ready_def)

theorem program_call_return_witness: "\<exists>r. Z80run (cpm_host True) ret_entered = Some r \<and> Status r = 3"
  using program_call_return [where s = ret_program and t = ret_entered and l = True, folded ret_entered_def,
      OF ret_entered_ready(1,2) refl refl refl ret_entered_ready(3,4)] by blast

end
