(* ===== verification/Cpm_Programs.thy ===== *)
theory Cpm_Programs
  imports Cpm_Sequence Cpm_Parse Cpm_Return
begin

text \<open>
  \<open>SAVE\<close> and the program loader: the memory image a \<open>SAVE\<close> puts into a file is what the loader brings
  back, and the loader returns for every file.
\<close>

section \<open>\<open>SAVE\<close>\<close>

text \<open>A call with a result of the disk functions.\<close>

lemma ccp_disk:
  "fst (ccp_bdos 15 a s) = ucast (fst (OpenFile a (entry_regs 15 a s)))"
  "fst (ccp_bdos 20 a s) = ucast (fst (ReadSeq a (entry_regs 20 a s)))"
  "fst (ccp_bdos 22 a s) = ucast (fst (MakeFile a (entry_regs 22 a s)))"
  "RAM (snd (ccp_bdos 15 a s)) = RAM (snd (OpenFile a (entry_regs 15 a s)))"
  "world (snd (ccp_bdos 15 a s)) = world (snd (OpenFile a (entry_regs 15 a s)))"
  "RAM (snd (ccp_bdos 20 a s)) = RAM (snd (ReadSeq a (entry_regs 20 a s)))"
  "world (snd (ccp_bdos 20 a s)) = world (snd (ReadSeq a (entry_regs 20 a s)))"
  "RAM (snd (ccp_bdos 22 a s)) = RAM (snd (MakeFile a (entry_regs 22 a s)))"
  "world (snd (ccp_bdos 22 a s)) = world (snd (MakeFile a (entry_regs 22 a s)))"
  "world (ccp_do 16 a s) = world (snd (CloseFile a (entry_regs 16 a s)))"
  by (simp_all add: ccp_do_def ccp_bdos_view bdos_nums bdos_disk ucast_u16)

lemma puts_view: "RAM (puts cs s) = RAM s \<and> (\<exists>t. world (puts cs s) = (world s)\<lparr>screen := t\<rparr>)"
  unfolding puts_def
proof (induction cs arbitrary: s)
  case Nil
  show ?case by (auto intro: exI [of _ "screen (world s)"])
next
  case (Cons x cs)
  show ?case using Cons [of "putcon x s"] by (auto simp: world_putcon)
qed

lemma view_puts:
  "RAM (puts cs s) = RAM s" "setting (world (puts cs s)) = setting (world s)" "fs (world (puts cs s)) = fs (world s)"
  using puts_view [of cs s] by (auto simp: setting_def)

lemmas at_puts = at_record_view [OF view_puts]

lemma fcb_view:
  assumes "RAM t = RAM s" "world t = world s"
  shows "fcb_path a t = fcb_path a s" "drive_path a t = drive_path a s" "read_only t = read_only s"
  using fcb_cong [of a t s] rd_view(1) [OF assms] assms by (simp_all add: read_only_def)

text \<open>Making and opening a file from the command processor.\<close>

lemma ccp_make:
  assumes "drive_path a s \<in> set (dirs (fs (world s)))" "\<not> read_only s" "unat a \<le> 65500"
    and "is_file (fcb_path a s) (fs (world s)) \<or> can_create (fcb_path a s) (fs (world s))"
  defines "t \<equiv> snd (ccp_bdos 22 a s)"
  shows "fst (ccp_bdos 22 a s) = 0" "at_record a (fcb_path a s) [] 0 t" "setting (world t) = setting (world s)"
    "i < unat a + 12 \<or> unat a + 33 \<le> i \<Longrightarrow> rd t i = rd s i"
proof -
  let ?e = "entry_regs 22 a s"
  have v: "fcb_path a ?e = fcb_path a s" "drive_path a ?e = drive_path a s" using fcb_view [of ?e s] by simp_all
  note m = MakeFile_new [of a ?e, unfolded v entry_regs_simps at_record_regs, OF assms(1-4)]
  have w: "RAM t = RAM (snd (MakeFile a ?e))" "world t = world (snd (MakeFile a ?e))"
    by (simp_all add: t_def ccp_disk)
  note x = at_record_view [OF w(1) arg_cong [OF w(2)] arg_cong [OF w(2)]]
  show "fst (ccp_bdos 22 a s) = 0" by (simp add: ccp_disk m(1))
  show "at_record a (fcb_path a s) [] 0 t" "setting (world t) = setting (world s)" unfolding x w(2) by (rule m)+
  show "i < unat a + 12 \<or> unat a + 33 \<le> i \<Longrightarrow> rd t i = rd s i" unfolding x by (rule m)
qed

lemma ccp_open:
  assumes "at_record a p c k s"
  defines "t \<equiv> snd (ccp_bdos 15 a s)"
  shows "fst (ccp_bdos 15 a s) = 0" "at_record a p c k t" "setting (world t) = setting (world s)"
    "i < unat a + 12 \<or> unat a + 33 \<le> i \<Longrightarrow> rd t i = rd s i"
proof -
  let ?e = "entry_regs 15 a s"
  note m = OpenFile_at [of a p c k ?e, unfolded entry_regs_simps at_record_regs, OF assms(1)]
  have w: "RAM t = RAM (snd (OpenFile a ?e))" "world t = world (snd (OpenFile a ?e))"
    by (simp_all add: t_def ccp_disk)
  note x = at_record_view [OF w(1) arg_cong [OF w(2)] arg_cong [OF w(2)]]
  show "fst (ccp_bdos 15 a s) = 0" by (simp add: ccp_disk m(1))
  show "at_record a p c k t" "setting (world t) = setting (world s)" unfolding x w(2) by (rule m)+
  show "i < unat a + 12 \<or> unat a + 33 \<le> i \<Longrightarrow> rd t i = rd s i" unfolding x by (rule m)
qed

text \<open>The machine when \<open>SAVE\<close> reads its number and finds the file name already in the second control block.\<close>

definition save_ready :: "u16 \<Rightarrow> ccp \<Rightarrow> bool" where
  "save_ready pages c \<longleftrightarrow>
     (let s = sys c; p = fcb_path SecFCB s in
      ccp_fcbtonum s = (pages, s) \<and> pages < 256 \<and> blen c = 0 \<and> rd s (unat (pbuf c) + 1) \<noteq> 0x3a \<and>
      drive_path SecFCB s \<in> set (dirs (fs (world s))) \<and> \<not> read_only s \<and>
      (is_file p (fs (world s)) \<or> can_create p (fs (world s))) \<and> host_stat (world s) p = - 1)"

text \<open>The file after the records are written, from the control block of the command.\<close>

lemma save_image:
  assumes "drive_path 0x6c s \<in> set (dirs (fs (world s)))" "\<not> read_only s" "n \<le> 510"
    and "is_file (fcb_path 0x6c s) (fs (world s)) \<or> can_create (fcb_path 0x6c s) (fs (world s))"
    and "host_stat (world s) (fcb_path 0x6c s) = - 1"
  defines "t \<equiv> ccp_do 16 0x6c (save_records n 0x100 (puts [0x0d, 0x0a] (snd (ccp_bdos 15 0x6c (snd (ccp_bdos 22 0x6c s))))))"
  shows "is_file (fcb_path 0x6c s) (fs (world t))" "content (fcb_path 0x6c s) (fs (world t)) = get_bytes s 0x100 (128 * n)"
    "dirs (fs (world t)) = dirs (fs (world s))"
proof -
  let ?p = "fcb_path 0x6c s"
  note mk = ccp_make [OF assms(1,2) _ assms(4), simplified]
  note op = ccp_open [OF mk(2)]
  define u where "u = puts [0x0d, 0x0a] (snd (ccp_bdos 15 0x6c (snd (ccp_bdos 22 0x6c s))))"
  define v where "v = save_records n 0x100 u"
  have u: "at_record 0x6c ?p [] 0 u" "setting (world u) = setting (world s)"
    using mk(3) op(2,3) by (simp_all add: u_def at_puts view_puts)
  have r: "rd u i = rd s i" if "256 \<le> i" for i
    using that mk(4) [of i] op(4) [of i] by (simp add: u_def at_puts)
  have ro: "\<not> read_only u" "host_stat (world u) ?p = - 1"
    using assms(2,5) u(2) by (simp_all add: read_only_def setting_eq)
  have v: "at_record 0x6c ?p (get_bytes u 0x100 (128 * n)) n v" "setting (world v) = setting (world u)"
    using save_records_appends [OF u(1) ro, of n "0x100"] assms(3) by (simp_all add: v_def)
  have img: "get_bytes u 0x100 (128 * n) = get_bytes s 0x100 (128 * n)"
    by (intro get_bytes_cong r) simp
  have "\<not> read_only v" using ro(1) v(2) by (simp add: read_only_def setting_eq)
  then have "fs (world t) = fs (world v)"
    using CloseFile_fs [of "0x6c" ?p "get_bytes u 0x100 (128 * n)" n "entry_regs 16 0x6c v"] v(1)
    by (simp add: t_def ccp_disk v_def u_def)
  then show "is_file ?p (fs (world t))" "content ?p (fs (world t)) = get_bytes s 0x100 (128 * n)"
    "dirs (fs (world t)) = dirs (fs (world s))"
    using v img u(2) by (simp_all add: at_record_def setting_eq)
qed

lemma save_content:
  assumes "save_ready pages c"
  defines "p \<equiv> fcb_path SecFCB (sys c)" and "r \<equiv> ccp_save c"
  shows "fst r = False \<and> is_file p (fs (world (sys (snd r)))) \<and>
    content p (fs (world (sys (snd r)))) = get_bytes (sys c) 0x100 (256 * unat pages) \<and>
    dirs (fs (world (sys (snd r)))) = dirs (fs (world (sys c)))"
proof -
  let ?s = "sys c" and ?n = "2 * unat pages"
  note u = assms(1) [unfolded save_ready_def Let_def]
  have n: "?n \<le> 510" "\<not> 256 \<le> pages" using u by (simp_all add: word_less_nat_alt word_le_nat_alt)
  have d: "drive_path 0x6c ?s \<in> set (dirs (fs (world ?s)))" "\<not> read_only ?s" "host_stat (world ?s) (fcb_path 0x6c ?s) = - 1"
    "is_file (fcb_path 0x6c ?s) (fs (world ?s)) \<or> can_create (fcb_path 0x6c ?s) (fs (world ?s))" using u by simp_all
  note mk = ccp_make [OF d(1,2) _ d(4), simplified]
  note op = ccp_open [OF mk(2)]
  let ?t = "ccp_do 16 0x6c (save_records ?n 0x100 (puts [0x0d, 0x0a] (snd (ccp_bdos 15 0x6c (snd (ccp_bdos 22 0x6c ?s))))))"
  have c: "c\<lparr>sys := sys c\<rparr> = c" by simp
  have "ccp_skip c = c" "ccp_nameToFCB 0x6c c = (0, c)" "ccp_fcbtonum ?s = (pages, ?s)"
    using u by (simp_all add: ccp_skip_def ccp_nameToFCB_def Let_def)
  then have "r = (False, c\<lparr>sys := ?t\<rparr>)"
    using mk(1) op(1) n(2) unfolding r_def ccp_save_def by (simp add: Let_def c case_prod_beta)
  then show ?thesis using save_image [OF d(1,2) n(1) d(4,3)] unfolding p_def by simp
qed

text \<open>
  \<open>SAVE n\<close> succeeds and leaves the file with exactly the \<open>n\<close> pages of memory from 0x100 on, whether
  it was there before or not.
\<close>
theorem save_command:
  assumes "save_ready pages c"
  defines "p \<equiv> fcb_path SecFCB (sys c)" and "r \<equiv> ccp_save c"
  shows "fst r = False \<and> is_file p (fs (world (sys (snd r)))) \<and>
    content p (fs (world (sys (snd r)))) = get_bytes (sys c) 0x100 (256 * unat pages)"
  unfolding p_def r_def using save_content [OF assms(1)] by blast

section \<open>The loader\<close>

text \<open>A read of the command processor, with its two outcomes.\<close>

lemma ccp_read:
  assumes "at_record a p c k s" "dma_ok a s" "k < 4096"
  defines "t \<equiv> snd (ccp_bdos 20 a s)" and "d \<equiv> unat (dmaAddr (world s))"
  shows "fst (ccp_bdos 20 a s) = (if 128 * k + 128 \<le> length c then 0 else 1)" "setting (world t) = setting (world s)"
    "128 * k + 128 \<le> length c \<Longrightarrow> at_record a p c (Suc k) t"
    "128 * k + 128 \<le> length c \<Longrightarrow> i < unat a + 12 \<or> unat a + 33 \<le> i \<Longrightarrow>
       rd t i = (if d \<le> i \<and> i < d + 128 then c ! (128 * k + (i - d)) else rd s i)"
    "\<not> 128 * k + 128 \<le> length c \<Longrightarrow> rd t i = rd s i"
proof -
  let ?e = "entry_regs 20 a s" and ?q = "128 * k + 128 \<le> length c"
  have w: "RAM t = RAM (snd (ReadSeq a ?e))" "world t = world (snd (ReadSeq a ?e))"
    by (simp_all add: t_def ccp_disk)
  note x = at_record_view [OF w(1) arg_cong [OF w(2)] arg_cong [OF w(2)]]
  have e: "at_record a p c k ?e" "dma_ok a ?e" using assms(1,2) by (simp_all add: dma_ok_def)
  note r = at_record_read [OF e assms(3), unfolded entry_regs_simps, folded d_def]
  note z = at_record_end [OF e(1), unfolded entry_regs_simps]
  show "fst (ccp_bdos 20 a s) = (if ?q then 0 else 1)" "setting (world t) = setting (world s)"
    using r(1,3) z(1,3) by (cases ?q; simp add: ccp_disk w)+
  show "?q \<Longrightarrow> at_record a p c (Suc k) t" unfolding x by (rule r)
  show "?q \<Longrightarrow> i < unat a + 12 \<or> unat a + 33 \<le> i \<Longrightarrow>
      rd t i = (if d \<le> i \<and> i < d + 128 then c ! (128 * k + (i - d)) else rd s i)"
    unfolding x by (rule r)
  show "\<not> ?q \<Longrightarrow> rd t i = rd s i" unfolding x using z(2) by simp
qed

lemma ccp_dma_view: "setting (world (ccp_do 26 a s)) = setting (world s)" "fs (world (ccp_do 26 a s)) = fs (world s)"
  by (simp_all add: ccp_dma setting_def)

lemmas at_dma = at_record_view [OF ccp_dma(1) ccp_dma_view]

text \<open>How many records of a file fit between 0x100 and the BDOS.\<close>

definition loaded :: "byte list \<Rightarrow> nat" where
  "loaded c = min 470 (length c div 128)"

lemma loaded_next: "128 * k + 128 \<le> length c \<longleftrightarrow> Suc k \<le> length c div 128"
  by (auto simp: less_eq_div_iff_mult_less_eq algebra_simps)

lemma load_loop_reads:
  assumes "at_record 60808 p c k s" "dmaAddr (world s) = a" "unat a = 256 + 128 * k" "k < 470"
  shows "\<exists>t. load_loop a s = Some t \<and> setting (world t) = setting (world s) \<and>
    (\<forall>i. 256 + 128 * k \<le> i \<and> i < 256 + 128 * loaded c \<longrightarrow> rd t i = c ! (i - 256)) \<and>
    (\<forall>i. i < 256 + 128 * k \<or> 60416 \<le> i \<and> (i < 60820 \<or> 60841 \<le> i) \<longrightarrow> rd t i = rd s i)"
  using assms
proof (induction "470 - k" arbitrary: k a s)
  case (Suc m)
  let ?t = "snd (ccp_bdos 20 60808 s)"
  have dma: "dma_ok 60808 s" using Suc.prems(2-4) by (simp add: dma_ok_def Let_def)
  have k: "k < 4096" using Suc.prems(4) by simp
  note r = ccp_read [OF Suc.prems(1) dma k, unfolded Suc.prems(2,3)]
  have step: "load_loop a s = (if fst (ccp_bdos 20 60808 s) \<noteq> 0 then Some ?t
      else if a + 128 = 60416 then Some (puts ([0x0d, 0x0a] @ str ''No Memory'') ?t)
      else load_loop (a + 128) (ccp_do 26 (a + 128) ?t))"
    by (subst load_loop.simps) (simp add: Let_def case_prod_beta)
  show ?case
  proof (cases "128 * k + 128 \<le> length c")
    case False
    then have "loaded c \<le> k" unfolding loaded_next loaded_def by simp
    then show ?thesis using r(1,2,5) False step by auto
  next
    case True
    have a: "unat (a + 128) = 256 + 128 * Suc k"
      using Suc.prems(3,4) unat_u16_add [of a 128] by simp
    have l: "Suc k \<le> loaded c" using True Suc.prems(4) unfolding loaded_next loaded_def by simp
    have t: "rd ?t i = (if 256 + 128 * k \<le> i \<and> i < 256 + 128 * Suc k then c ! (i - 256) else rd s i)" if "i < 60820 \<or> 60841 \<le> i" for i
      using r(4) [OF True, of i] that by auto
    show ?thesis
    proof (cases "Suc k = 470")
      case True': True
      then have "a + 128 = 60416" using a by (simp add: word_unat_eq_iff)
      then have "load_loop a s = Some (puts ([0x0d, 0x0a] @ str ''No Memory'') ?t)" using step r(1) True by simp
      moreover have "loaded c = Suc k" using l True' by (simp add: loaded_def)
      ultimately show ?thesis using t r(2) Suc.prems(4) by (auto simp: view_puts at_puts)
    next
      case False
      let ?u = "ccp_do 26 (a + 128) ?t"
      have "a + 128 \<noteq> 60416" using a False Suc.prems(4) by (auto simp: word_unat_eq_iff)
      then have e: "load_loop a s = load_loop (a + 128) ?u" using step r(1) True by simp
      have "\<exists>t. load_loop (a + 128) ?u = Some t \<and> setting (world t) = setting (world ?u) \<and>
        (\<forall>i. 256 + 128 * Suc k \<le> i \<and> i < 256 + 128 * loaded c \<longrightarrow> rd t i = c ! (i - 256)) \<and>
        (\<forall>i. i < 256 + 128 * Suc k \<or> 60416 \<le> i \<and> (i < 60820 \<or> 60841 \<le> i) \<longrightarrow> rd t i = rd ?u i)"
        using Suc.hyps(2) Suc.prems(4) False a r(3) [OF True]
        by (intro Suc.hyps(1)) (simp_all add: at_dma ccp_dma)
      then obtain w where w: "load_loop (a + 128) ?u = Some w" "setting (world w) = setting (world s)"
        "\<And>i. 256 + 128 * Suc k \<le> i \<Longrightarrow> i < 256 + 128 * loaded c \<Longrightarrow> rd w i = c ! (i - 256)"
        "\<And>i. i < 256 + 128 * Suc k \<or> 60416 \<le> i \<and> (i < 60820 \<or> 60841 \<le> i) \<Longrightarrow> rd w i = rd ?t i"
        using r(2) by (auto simp: ccp_dma_view at_dma)
      have "rd w i = c ! (i - 256)" if "256 + 128 * k \<le> i" "i < 256 + 128 * loaded c" for i
        using w(3,4) [of i] t [of i] that Suc.prems(4) by (cases "i < 256 + 128 * Suc k") auto
      moreover have "rd w i = rd s i" if "i < 256 + 128 * k \<or> 60416 \<le> i \<and> (i < 60820 \<or> 60841 \<le> i)" for i
        using w(4) [of i] t [of i] that Suc.prems(4) by auto
      ultimately show ?thesis using w(1,2) e by auto
    qed
  qed
qed simp

lemma load_loaded:
  assumes "at_record CmdFCB p c 0 s"
  shows "\<exists>t. load_loop defLoad (ccp_do 26 defLoad (puts [0x0d, 0x0a] s)) = Some t \<and>
    get_bytes t 0x100 (128 * loaded c) = take (128 * loaded c) c \<and> (\<forall>i < 256. rd t i = rd s i)"
proof -
  let ?s = "ccp_do 26 0x100 (puts [0x0d, 0x0a] s)"
  have "at_record 60808 p c 0 ?s" "dmaAddr (world ?s) = 0x100" "rd ?s = rd s"
    using assms by (simp_all add: at_dma at_puts ccp_dma)
  then obtain t where t: "load_loop 0x100 ?s = Some t"
      "\<And>i. 256 \<le> i \<Longrightarrow> i < 256 + 128 * loaded c \<Longrightarrow> rd t i = c ! (i - 256)" "\<And>i. i < 256 \<Longrightarrow> rd t i = rd s i"
    using load_loop_reads [of p c 0 ?s "0x100"] by auto
  have "128 * loaded c \<le> length c" by (simp add: loaded_def)
  then have "get_bytes t 0x100 (128 * loaded c) = take (128 * loaded c) c"
    using t(2) by (intro nth_equalityI) (simp_all add: get_bytes_def)
  then show ?thesis using t(1,3) by blast
qed

text \<open>
  Property (C9). The loader returns for every file. The program, up to its last complete record and up to the
  memory below the BDOS, is then at 0x100, and page zero is as it was.
\<close>
theorem load_program:
  assumes "at_record CmdFCB p c 0 s"
  shows "\<exists>t. load_loop defLoad (ccp_do 26 defLoad (puts [0x0d, 0x0a] s)) = Some t \<and>
    get_bytes t 0x100 (128 * loaded c) = take (128 * loaded c) c \<and> (\<forall>i < 256. rd t i = rd s i)"
  by (rule load_loaded [OF assms])

section \<open>Save and load\<close>

text \<open>
  Property (C5). What \<open>SAVE\<close> wrote comes back: when a control block for the saved file is loaded later, from the
  same files, the memory from 0x100 on holds the image that was saved, as far as the program area reaches (235
  pages).
\<close>
theorem saved_program_reloads:
  assumes "save_ready pages c" "pages \<le> 235"
  defines "p \<equiv> fcb_path SecFCB (sys c)"
  assumes "at_record CmdFCB p (content p (fs (world (sys (snd (ccp_save c)))))) 0 s"
  shows "\<exists>t. load_loop defLoad (ccp_do 26 defLoad (puts [0x0d, 0x0a] s)) = Some t \<and>
    get_bytes t 0x100 (256 * unat pages) = get_bytes (sys c) 0x100 (256 * unat pages)"
proof -
  let ?n = "256 * unat pages"
  have "content p (fs (world (sys (snd (ccp_save c))))) = get_bytes (sys c) 0x100 ?n"
    using save_content [OF assms(1)] by (simp add: p_def)
  moreover have "128 * loaded (get_bytes (sys c) 0x100 ?n) = ?n"
    using assms(2) by (simp add: loaded_def get_bytes_def word_le_nat_alt)
  ultimately show ?thesis using load_loaded [OF assms(4)] by (auto simp: get_bytes_def)
qed

section \<open>Examples\<close>

text \<open>A page to be saved as \<open>X\<close>: the number is in the first control block, the name in the second.\<close>

definition save_example :: ccp where
  "save_example = ccp0 (machine0 ((\<lambda>_. 0)(0x5d := 0x31, 0x5e := 0x20, 0x6d := 0x58, 0x100 := 0xc9)) (world0 example_fs []))"

lemma save_example_rd: "rd (sys save_example) n = (if n < 65536 then
    ((\<lambda>_. 0)(0x5d := 0x31, 0x5e := 0x20, 0x6d := 0x58, 0x100 := 0xc9)) (of_nat n :: u16) else 0)"
  by (simp add: save_example_def ccp0_def machine0_def world0_def rd_def)

lemma save_example_simps: "world (sys save_example) = world0 example_fs []" "blen save_example = 0" "pbuf save_example = 0"
  by (simp_all add: save_example_def ccp0_def machine0_def)

lemma save_example_path: "fcb_path 0x6c (sys save_example) = str ''/CPM/A/0/X''"
  by (simp add: fcb_path_def FCBtoHostname_def Let_def get_bytes_def upt_rec fcb_part_def fcb_char_def toupper_def tohex_def str_def
    save_example_rd save_example_simps of_char_def full_path_def world0_def)

lemma save_example_number: "ccp_fcbtonum (sys save_example) = (1, sys save_example)"
proof -
  have "(256 :: nat) = Suc (Suc 254)" by simp
  then show ?thesis unfolding ccp_fcbtonum_def by (simp only: num_loop.simps) (simp add: save_example_rd Let_def)
qed

lemma save_example_ready: "save_ready 1 save_example"
  by (simp add: save_ready_def Let_def save_example_number save_example_path save_example_simps save_example_rd drive_path_def)
    (simp add: world0_def example_fs_def read_only_def is_file_def str_def full_path_def save_example_simps)

theorem save_command_witness:
  "content (str ''/CPM/A/0/X'') (fs (world (sys (snd (ccp_save save_example))))) = get_bytes (sys save_example) 0x100 256"
  using save_command [OF save_example_ready] by (simp add: save_example_path)

text \<open>A machine with the name \<open>X\<close> in the control block of the command, on given files.\<close>

definition load_example :: "fsys \<Rightarrow> machine" where
  "load_example f = machine0 ((\<lambda>_. 0)(60809 := 0x58)) (world0 f [])"

lemma load_example_rd: "rd (load_example f) n = (if n < 65536 then ((\<lambda>_. 0)(60809 := 0x58)) (of_nat n :: u16) else 0)"
  by (simp add: load_example_def machine0_def world0_def rd_def)

lemma load_example_world: "world (load_example f) = world0 f []"
  by (simp add: load_example_def machine0_def)

lemma load_example_at:
  assumes "str ''/CPM/A'' \<in> set (dirs f)" "is_file (str ''/CPM/A/0/X'') f"
  shows "at_record 60808 (str ''/CPM/A/0/X'') (content (str ''/CPM/A/0/X'') f) 0 (load_example f)"
proof -
  have "fcb_path 60808 (load_example f) = str ''/CPM/A/0/X''"
    by (simp add: fcb_path_def FCBtoHostname_def Let_def get_bytes_def upt_rec fcb_part_def fcb_char_def toupper_def tohex_def str_def
      load_example_rd load_example_world of_char_def full_path_def world0_def)
  moreover have "drive_path 60808 (load_example f) = str ''/CPM/A''"
    by (simp add: drive_path_def load_example_rd load_example_world world0_def full_path_def str_def of_char_def)
  ultimately show ?thesis
    using assms by (simp add: at_record_def fcb_ok_def cr_def ex_def s2_def seq_pos_def load_example_rd load_example_world world0_def)
qed

theorem load_program_witness:
  "\<exists>t. load_loop defLoad (ccp_do 26 defLoad (puts [0x0d, 0x0a] (load_example
      (put_file (str ''/CPM/A/0/X'') (replicate 200 7) example_fs)))) = Some t \<and> get_bytes t 0x100 128 = replicate 128 7"
proof -
  have "at_record 60808 (str ''/CPM/A/0/X'') (replicate 200 7) 0
      (load_example (put_file (str ''/CPM/A/0/X'') (replicate 200 7) example_fs))"
    using load_example_at [of "put_file (str ''/CPM/A/0/X'') (replicate 200 7) example_fs"] by (simp add: example_fs_def)
  from load_program [OF this] show ?thesis by (auto simp: loaded_def)
qed

theorem saved_program_reloads_witness:
  "\<exists>t. load_loop defLoad (ccp_do 26 defLoad (puts [0x0d, 0x0a] (load_example (fs (world (sys (snd (ccp_save save_example)))))))) = Some t \<and>
     get_bytes t 0x100 256 = get_bytes (sys save_example) 0x100 256"
proof -
  note s = save_content [OF save_example_ready, unfolded save_example_path save_example_simps]
  have "str ''/CPM/A'' \<in> set (dirs (fs (world0 example_fs [])))" by (simp add: world0_def example_fs_def)
  then have "at_record 60808 (fcb_path 0x6c (sys save_example))
      (content (fcb_path 0x6c (sys save_example)) (fs (world (sys (snd (ccp_save save_example)))))) 0
      (load_example (fs (world (sys (snd (ccp_save save_example))))))"
    using s load_example_at [of "fs (world (sys (snd (ccp_save save_example))))"] by (simp add: save_example_path)
  then show ?thesis using saved_program_reloads [OF save_example_ready] by (simp add: word_le_nat_alt)
qed

end
