(* ===== verification/Slip_Codec.thy ===== *)
theory Slip_Codec
  imports Fuji_Prelude
begin

text \<open>
  The SLIP framing of the Apple II bus over TCP, \<open>src/lib/slip/SLIP.cpp\<close>: \<open>encode\<close>, \<open>decode\<close>
  and \<open>split_into_packets\<close>.  The loops of the code run over indices and are kept as such; an
  index past the end of a vector, which the code does not check, is the error \<open>OutOfRange\<close>.
  The theory compares them with a description of the format on lists: \<open>frames\<close>, the bodies
  between paired END bytes, and \<open>unstuff\<close>, the meaning of the escapes.
\<close>

datatype sp_error = OutOfRange | NullPointer | NotEnoughData | UnknownCommand byte

section \<open>The code\<close>

definition SLIP_END :: byte where "SLIP_END = 0xC0"

definition SLIP_ESC :: byte where "SLIP_ESC = 0xDB"

definition SLIP_ESC_END :: byte where "SLIP_ESC_END = 0xDC"

definition SLIP_ESC_ESC :: byte where "SLIP_ESC_ESC = 0xDD"

lemmas slip_bytes = SLIP_END_def SLIP_ESC_def SLIP_ESC_END_def SLIP_ESC_ESC_def

text \<open>The loop body of \<open>encode\<close>, on the vector built so far.\<close>

definition slip_push :: "byte \<Rightarrow> byte list \<Rightarrow> byte list" where
  "slip_push b encoded_data =
     (if b = SLIP_END \<or> b = SLIP_ESC
      then encoded_data @ [SLIP_ESC] @ [if b = SLIP_END then SLIP_ESC_END else SLIP_ESC_ESC]
      else encoded_data @ [b])"

definition slip_encode :: "byte list \<Rightarrow> byte list" where
  "slip_encode data = fold slip_push data [SLIP_END] @ [SLIP_END]"

text \<open>
  The inner loop of \<open>decode\<close> from index \<open>i\<close>: it ends at an END byte or at the end of the data
  (\<open>Frame\<close>), at a bad escape (\<open>Invalid\<close>), or by reading \<open>data[bytes_read]\<close> (\<open>Overread\<close>).
\<close>

datatype scan = Overread | Invalid | Frame nat "byte list"

function decode_frame :: "byte list \<Rightarrow> nat \<Rightarrow> byte list \<Rightarrow> scan" where
  "decode_frame data i decoded =
     (if i < length data \<and> data ! i \<noteq> SLIP_END
      then if data ! i = SLIP_ESC
           then if i + 1 < length data
                then if data ! (i + 1) = SLIP_ESC_END
                     then decode_frame data (i + 1 + 1) (decoded @ [SLIP_END])
                     else if data ! (i + 1) = SLIP_ESC_ESC
                     then decode_frame data (i + 1 + 1) (decoded @ [SLIP_ESC])
                     else Invalid
                else Overread
           else decode_frame data (i + 1) (decoded @ [data ! i])
      else Frame i decoded)"
  by pat_completeness auto
termination
  by (relation "measure (\<lambda>(data, i, _). length data - i)") auto

declare decode_frame.simps [simp del]

lemma decode_frame_pos: "decode_frame data i decoded = Frame j out \<Longrightarrow> i \<le> j"
proof (induction data i decoded rule: decode_frame.induct)
  case (1 data i decoded)
  show ?case
    using "1.prems" "1.IH" by (simp add: decode_frame.simps [of data i decoded] split: if_splits)
qed

function decode_frames :: "byte list \<Rightarrow> nat \<Rightarrow> byte list \<Rightarrow> sp_error + byte list" where
  "decode_frames data i decoded =
     (if i < length data
      then if data ! i = SLIP_END
           then (case decode_frame data (i + 1) decoded of
                   Overread \<Rightarrow> Inl OutOfRange
                 | Invalid \<Rightarrow> Inr []
                 | Frame j out \<Rightarrow>
                     if j = length data \<or> data ! j \<noteq> SLIP_END then Inr []
                     else decode_frames data (j + 1) out)
           else Inr []
      else Inr decoded)"
  by pat_completeness auto
termination
  by (relation "measure (\<lambda>(data, i, _). length data - i)") (auto dest!: decode_frame_pos)

declare decode_frames.simps [simp del]

definition slip_decode :: "byte list \<Rightarrow> sp_error + byte list" where
  "slip_decode data = decode_frames data 0 []"

datatype split_state = NotParsing | Parsing

text \<open>
  The loop of \<open>split_into_packets\<close>; \<open>packet_start\<close> is the offset of the pointer of that name.
\<close>

function split_loop :: "byte list \<Rightarrow> nat \<Rightarrow> nat \<Rightarrow> split_state \<Rightarrow> nat \<Rightarrow> byte list list
    \<Rightarrow> sp_error + byte list list" where
  "split_loop data bytes_read i state packet_start decoded_packets =
     (if i < bytes_read
      then (case state of
              NotParsing \<Rightarrow>
                if data ! i = SLIP_END then split_loop data bytes_read (i + 1) Parsing i decoded_packets
                else split_loop data bytes_read (i + 1) NotParsing packet_start decoded_packets
            | Parsing \<Rightarrow>
                if data ! i = SLIP_END
                then (case slip_decode (slice data packet_start (i + 1)) of
                        Inl e \<Rightarrow> Inl e
                      | Inr p \<Rightarrow> split_loop data bytes_read (i + 1) NotParsing packet_start
                                   (decoded_packets @ [p]))
                else split_loop data bytes_read (i + 1) Parsing packet_start decoded_packets)
      else Inr decoded_packets)"
  by pat_completeness auto
termination
  by (relation "measure (\<lambda>(data, bytes_read, i, _). bytes_read - i)") auto

declare split_loop.simps [simp del]

definition split_into_packets :: "byte list \<Rightarrow> nat \<Rightarrow> sp_error + byte list list" where
  "split_into_packets data bytes_read = split_loop data bytes_read 0 NotParsing 0 []"

section \<open>The format\<close>

text \<open>What a byte becomes on the wire, and a packet without its END bytes.\<close>

definition stuff1 :: "byte \<Rightarrow> byte list" where
  "stuff1 b = (if b = SLIP_END then [SLIP_ESC, SLIP_ESC_END]
               else if b = SLIP_ESC then [SLIP_ESC, SLIP_ESC_ESC] else [b])"

definition stuff :: "byte list \<Rightarrow> byte list" where
  "stuff p = concat (map stuff1 p)"

text \<open>The packet a frame body stands for, if its escapes are valid.\<close>

fun unstuff :: "byte list \<Rightarrow> byte list option" where
  "unstuff [] = Some []"
| "unstuff [b] = (if b = SLIP_ESC then None else Some [b])"
| "unstuff (b # c # bs) =
     (if b = SLIP_ESC
      then if c = SLIP_ESC_END then map_option ((#) SLIP_END) (unstuff bs)
           else if c = SLIP_ESC_ESC then map_option ((#) SLIP_ESC) (unstuff bs)
           else None
      else map_option ((#) b) (unstuff (c # bs)))"

definition frame_payload :: "byte list \<Rightarrow> byte list" where
  "frame_payload body = (case unstuff body of Some p \<Rightarrow> p | None \<Rightarrow> [])"

text \<open>
  The bodies of the frames of a stream: bytes up to an END are noise, those up to the next END
  are a body, and so on; an unfinished body at the end of the stream is none.
\<close>

abbreviation before_end :: "byte list \<Rightarrow> byte list" where
  "before_end \<equiv> takeWhile (\<lambda>b. b \<noteq> SLIP_END)"

abbreviation from_end :: "byte list \<Rightarrow> byte list" where
  "from_end \<equiv> dropWhile (\<lambda>b. b \<noteq> SLIP_END)"

function frames :: "byte list \<Rightarrow> byte list list" where
  "frames data =
     (if SLIP_END \<in> set (tl (from_end data))
      then before_end (tl (from_end data)) # frames (tl (from_end (tl (from_end data))))
      else [])"
  by pat_completeness auto
termination
proof (relation "measure length", goal_cases)
  case (2 data)
  have "length (from_end (tl (from_end data))) \<le> length (tl (from_end data))"
    by (rule length_dropWhile_le)
  moreover have "length (tl (from_end data)) \<le> length data"
    using length_dropWhile_le [of "\<lambda>b. b \<noteq> SLIP_END" data] by simp
  moreover have "0 < length (tl (from_end data))"
    using 2 by (cases "tl (from_end data)") auto
  ultimately show ?case by simp
qed simp

declare frames.simps [simp del]

section \<open>Encoding\<close>

lemma slip_push_stuff: "slip_push b out = out @ stuff1 b"
  by (simp add: slip_push_def stuff1_def)

lemma fold_slip_push: "fold slip_push p out = out @ stuff p"
  by (induction p arbitrary: out) (simp_all add: slip_push_stuff stuff_def)

lemma slip_encode_stuff: "slip_encode p = SLIP_END # stuff p @ [SLIP_END]"
  by (simp add: slip_encode_def fold_slip_push)

lemma stuff_no_end: "SLIP_END \<notin> set (stuff p)"
  by (auto simp: stuff_def stuff1_def slip_bytes split: if_splits)

lemma unstuff_plain: "b \<noteq> SLIP_ESC \<Longrightarrow> unstuff (b # bs) = map_option ((#) b) (unstuff bs)"
  by (cases bs) auto

lemma unstuff_stuff1: "unstuff (stuff1 b @ bs) = map_option ((#) b) (unstuff bs)"
  by (simp add: stuff1_def unstuff_plain slip_bytes)

lemma unstuff_stuff: "unstuff (stuff p) = Some p"
  by (induction p) (simp_all add: stuff_def unstuff_stuff1)

lemma frame_payload_stuff [simp]: "frame_payload (stuff p) = p"
  by (simp add: frame_payload_def unstuff_stuff)

section \<open>Decoding\<close>

lemma drop_Cons_nth: "drop i xs = y # ys \<Longrightarrow> i < length xs \<and> xs ! i = y \<and> drop (Suc i) xs = ys"
  by (metis drop_Suc drop_all list.distinct(1) list.sel(3) not_le nth_via_drop tl_drop)

lemma decode_frame_body:
  assumes "drop i data = body @ SLIP_END # rest" and "SLIP_END \<notin> set body"
  shows "decode_frame data i out =
     (case unstuff body of None \<Rightarrow> Invalid | Some p \<Rightarrow> Frame (i + length body) (out @ p))"
  using assms
proof (induction body arbitrary: i out rule: unstuff.induct)
  case 1
  then show ?case by (auto dest!: drop_Cons_nth simp: decode_frame.simps [of data i])
next
  case (2 b)
  then have "i < length data" "data ! i = b" "i + 1 < length data" "data ! (i + 1) = SLIP_END"
    by (auto dest!: drop_Cons_nth)
  with 2 show ?case
    by (simp add: decode_frame.simps [of data i] decode_frame.simps [of data "Suc i"])
       (simp add: slip_bytes)
next
  case (3 b c bs)
  have at: "i < length data" "data ! i = b" "drop (i + 1) data = (c # bs) @ SLIP_END # rest"
    using "3.prems"(1) by (auto dest!: drop_Cons_nth)
  have at': "i + 1 < length data" "data ! (i + 1) = c" "drop (i + 1 + 1) data = bs @ SLIP_END # rest"
    using at(3) by (auto dest!: drop_Cons_nth)
  have no: "SLIP_END \<notin> set bs" "SLIP_END \<notin> set (c # bs)" "b \<noteq> SLIP_END"
    using "3.prems"(2) by auto
  have ne: "SLIP_ESC_ESC \<noteq> SLIP_ESC_END" by (simp add: slip_bytes)
  show ?case
  proof (cases "b = SLIP_ESC")
    case False
    then show ?thesis
      using "3.IH"(3) [OF False at(3) no(2)] at(1,2) no(3)
      by (cases "unstuff (c # bs)") (simp_all add: decode_frame.simps [of data i])
  next
    case True
    then show ?thesis
      using "3.IH"(1) [OF True _ at'(3) no(1)] "3.IH"(2) [OF True _ _ at'(3) no(1)] at(1,2) at'(1,2) no(3) ne
      by (simp add: decode_frame.simps [of data i] split: option.split)
  qed
qed

text \<open>One frame decodes to its payload, the empty vector when an escape is invalid.\<close>

lemma slip_decode_frame:
  assumes "SLIP_END \<notin> set body"
  shows "slip_decode (SLIP_END # body @ [SLIP_END]) = Inr (frame_payload body)"
proof -
  let ?data = "SLIP_END # body @ [SLIP_END]"
  have "decode_frame ?data 1 [] =
      (case unstuff body of None \<Rightarrow> Invalid | Some p \<Rightarrow> Frame (1 + length body) p)"
    using decode_frame_body [of 1 ?data body "[]" "[]"] assms by (simp split: option.split)
  then show ?thesis
    by (simp add: slip_decode_def decode_frames.simps [of ?data 0] frame_payload_def
        decode_frames.simps [of ?data "Suc (Suc (length body))"] nth_append split: option.split)
qed

section \<open>Splitting\<close>

lemma frames_noise: "SLIP_END \<notin> set noise \<Longrightarrow> frames (noise @ data) = frames data"
  by (simp add: frames.simps [of "noise @ data"] frames.simps [of data] dropWhile_append)

lemma from_end_append: "SLIP_END \<notin> set xs \<Longrightarrow> from_end (xs @ ys) = from_end ys"
  by (induction xs) auto

lemma before_end_append: "SLIP_END \<notin> set xs \<Longrightarrow> before_end (xs @ ys) = xs @ before_end ys"
  by (induction xs) auto

lemma frames_frame:
  "SLIP_END \<notin> set body \<Longrightarrow> frames (SLIP_END # body @ SLIP_END # data) = body # frames data"
  by (simp add: frames.simps [of "SLIP_END # _"] from_end_append before_end_append)

lemma frames_unfinished: "SLIP_END \<notin> set body \<Longrightarrow> frames (SLIP_END # body) = []"
  by (simp add: frames.simps [of "SLIP_END # _"])

text \<open>
  The loop at index \<open>i\<close>: what is still to come is decided by the unread bytes, preceded, while a
  packet is being parsed, by the bytes since its start.
\<close>

lemma split_loop_frames:
  assumes "i \<le> length data"
    and "pend = (if state = Parsing then slice data p i else [])"
    and "state = Parsing \<Longrightarrow> p < i \<and> (\<exists>body. pend = SLIP_END # body \<and> SLIP_END \<notin> set body)"
  shows "split_loop data (length data) i state p acc = Inr (acc @ map frame_payload (frames (pend @ drop i data)))"
  using assms
proof (induction "length data - i" arbitrary: i state p acc pend)
  case 0
  then show ?case
    by (cases state) (auto simp: split_loop.simps [of data _ i] frames.simps [of "[]"] frames_unfinished)
next
  case (Suc k)
  then have lt: "i < length data" and k: "k = length data - (i + 1)" and le: "i + 1 \<le> length data"
    by simp_all
  note IH = Suc.hyps(1) [OF k le refl]
  have d: "drop i data = data ! i # drop (i + 1) data"
    using lt by (simp add: Cons_nth_drop_Suc)
  have one: "slice data i (i + 1) = [data ! i]"
    using lt by (simp add: slice_def take_Suc_conv_app_nth Cons_nth_drop_Suc [symmetric])
  show ?case
  proof (cases state)
    case NotParsing
    then show ?thesis
      using IH [of Parsing i acc] IH [of NotParsing p acc] lt one Suc.prems(2) frames_noise [of "[data ! i]"]
      by (simp add: split_loop.simps [of data _ i] d)
  next
    case Parsing
    then obtain body where b: "slice data p i = SLIP_END # body" "SLIP_END \<notin> set body" and p: "p < i"
      using Suc.prems(2,3) by auto
    have nxt: "slice data p (i + 1) = SLIP_END # body @ [data ! i]"
      using p lt b by (simp add: slice_Suc)
    show ?thesis
      using IH [of Parsing p acc] IH [of NotParsing p "acc @ [frame_payload body]"] b p lt nxt Parsing Suc.prems(2)
      by (simp add: split_loop.simps [of data _ i] d slip_decode_frame frames_frame)
  qed
qed

lemma split_frames: "split_into_packets data (length data) = Inr (map frame_payload (frames data))"
  using split_loop_frames [of 0 data "[]" NotParsing 0 "[]"] by (simp add: split_into_packets_def)

section \<open>Properties\<close>

text \<open>
  (C14) \<open>split_into_packets\<close> on any received bytes: it returns, without a read outside a vector,
  the payloads of the frames of the stream, in order, an empty vector for each frame with a bad
  escape sequence.
\<close>

theorem split_reference: "split_into_packets data (length data) = Inr (map frame_payload (frames data))"
  by (rule split_frames)

lemma frames_encoded: "SLIP_END \<notin> set noise \<Longrightarrow> frames (noise @ slip_encode p @ data) = stuff p # frames data"
  by (simp add: frames_noise slip_encode_stuff frames_frame stuff_no_end)

lemma frames_stream:
  "\<forall>(noise, p)\<in>set ps. SLIP_END \<notin> set noise \<Longrightarrow>
   frames (concat (map (\<lambda>(noise, p). noise @ slip_encode p) ps)) = map (\<lambda>(noise, p). stuff p) ps"
  by (induction ps) (auto simp: frames.simps [of "[]"] frames_encoded)

text \<open>
  Packets of any content, one after the other on the wire and with noise free of END bytes
  between them, are split into exactly these packets.
\<close>

theorem slip_stream_roundtrip:
  assumes "\<forall>(noise, p)\<in>set ps. SLIP_END \<notin> set noise"
  shows "split_into_packets (concat (map (\<lambda>(noise, p). noise @ slip_encode p) ps))
           (length (concat (map (\<lambda>(noise, p). noise @ slip_encode p) ps))) = Inr (map snd ps)"
proof -
  have "map frame_payload (map (\<lambda>(noise, p). stuff p) ps) = map snd ps"
    by (induction ps) auto
  then show ?thesis
    by (simp only: split_frames frames_stream [OF assms])
qed

theorem slip_stream_roundtrip_witness:
  "split_into_packets [0xC0, 7, 0xDB, 0xDC, 0xC0, 5, 0xC0, 0xDB, 0xDD, 0xC0] 10 = Inr [[7, 0xC0], [0xDB]]"
  using slip_stream_roundtrip [of "[([], [7, 0xC0]), ([5], [0xDB])]"]
  by (simp add: slip_encode_stuff stuff_def stuff1_def slip_bytes del: One_nat_def flip: One_nat_def)

text \<open>\<open>decode\<close> takes back what \<open>encode\<close> made.\<close>

lemma slip_roundtrip: "slip_decode (slip_encode p) = Inr p"
  by (simp add: slip_encode_stuff slip_decode_frame stuff_no_end)

text \<open>
  On its own \<open>decode\<close> reads past its vector when the data ends in an escape byte;
  \<open>split_into_packets\<close> never calls it with such data.
\<close>

lemma slip_decode_overread: "slip_decode [SLIP_END, SLIP_ESC] = Inl OutOfRange"
  by (simp add: slip_decode_def decode_frames.simps [of _ 0] decode_frame.simps [of _ "Suc 0"])
     (simp add: slip_bytes)

end
