(* ===== verification/Slip_Packets.thy ===== *)
theory Slip_Packets
  imports Slip_Codec
begin

text \<open>
  The SmartPort requests and responses carried in SLIP frames, \<open>src/lib/slip\<close>: one record per
  class, extended the way the class inherits, one definition per method, and a datatype for the
  pointers to the base classes, on which the virtual calls dispatch.  A \<open>std::array\<close> is a list
  whose length the well-formedness predicates fix; an access outside a vector, an array or an
  output block is the error \<open>OutOfRange\<close>, the exceptions the code throws are the other errors.
\<close>

section \<open>Memory\<close>

definition sbind :: "'e + 'a \<Rightarrow> ('a \<Rightarrow> 'e + 'b) \<Rightarrow> 'e + 'b" where
  "sbind m f = (case m of Inl e \<Rightarrow> Inl e | Inr x \<Rightarrow> f x)"

lemma sbind_simps [simp]: "sbind (Inl e) f = Inl e" "sbind (Inr x) f = f x"
  by (simp_all add: sbind_def)

lemma sbind_Inr: "sbind m f = Inr y \<longleftrightarrow> (\<exists>x. m = Inr x \<and> f x = Inr y)"
  by (cases m) auto

text \<open>\<open>v[k]\<close>, \<open>std::copy_n(v + off, n, ...)\<close> and \<open>std::copy(xs, block + off)\<close>.\<close>

definition vec_at :: "byte list \<Rightarrow> nat \<Rightarrow> sp_error + byte" where
  "vec_at v k = (if k < length v then Inr (v ! k) else Inl OutOfRange)"

definition copy_n :: "byte list \<Rightarrow> nat \<Rightarrow> nat \<Rightarrow> sp_error + byte list" where
  "copy_n v off n = (if off + n \<le> length v then Inr (take n (drop off v)) else Inl OutOfRange)"

definition copy_to :: "byte list \<Rightarrow> nat \<Rightarrow> byte list \<Rightarrow> sp_error + byte list" where
  "copy_to xs off block =
     (if off + length xs \<le> length block then Inr (take off block @ xs @ drop (off + length xs) block)
      else Inl OutOfRange)"

lemma vec_at_ok [simp]: "k < length v \<Longrightarrow> vec_at v k = Inr (v ! k)"
  by (simp add: vec_at_def)

lemma vec_at_bad [simp]: "length v \<le> k \<Longrightarrow> vec_at v k = Inl OutOfRange"
  by (simp add: vec_at_def)

lemma copy_n_ok [simp]: "off + n \<le> length v \<Longrightarrow> copy_n v off n = Inr (take n (drop off v))"
  by (simp add: copy_n_def)

lemma copy_n_bad [simp]: "length v < off + n \<Longrightarrow> copy_n v off n = Inl OutOfRange"
  by (simp add: copy_n_def)

section \<open>Commands\<close>

definition SP_STATUS :: byte where "SP_STATUS = 0"
definition SP_READ_BLOCK :: byte where "SP_READ_BLOCK = 1"
definition SP_WRITE_BLOCK :: byte where "SP_WRITE_BLOCK = 2"
definition SP_FORMAT :: byte where "SP_FORMAT = 3"
definition SP_CONTROL :: byte where "SP_CONTROL = 4"
definition SP_INIT :: byte where "SP_INIT = 5"
definition SP_OPEN :: byte where "SP_OPEN = 6"
definition SP_CLOSE :: byte where "SP_CLOSE = 7"
definition SP_READ :: byte where "SP_READ = 8"
definition SP_WRITE :: byte where "SP_WRITE = 9"
definition SP_RESET :: byte where "SP_RESET = 10"

lemmas sp_codes = SP_STATUS_def SP_READ_BLOCK_def SP_WRITE_BLOCK_def SP_FORMAT_def SP_CONTROL_def
  SP_INIT_def SP_OPEN_def SP_CLOSE_def SP_READ_def SP_WRITE_def SP_RESET_def

section \<open>Responses\<close>

record Response =
  resp_sequence_number :: byte
  resp_status :: byte

definition get_status :: "'a Response_scheme \<Rightarrow> byte" where
  "get_status r = resp_status r"

record StatusResponse = Response +
  status_data :: "byte list"

record ReadResponse = Response +
  read_data :: "byte list"

record ReadBlockResponse = Response +
  read_block_data :: "byte list"

definition CloseResponse_new :: "byte \<Rightarrow> byte \<Rightarrow> Response" where
  "CloseResponse_new seq status = \<lparr>resp_sequence_number = seq, resp_status = status\<rparr>"

definition CloseResponse_serialize :: "Response \<Rightarrow> byte list" where
  "CloseResponse_serialize r = [resp_sequence_number r] @ [get_status r]"

definition ControlResponse_new :: "byte \<Rightarrow> byte \<Rightarrow> Response" where
  "ControlResponse_new seq status = \<lparr>resp_sequence_number = seq, resp_status = status\<rparr>"

definition ControlResponse_serialize :: "Response \<Rightarrow> byte list" where
  "ControlResponse_serialize r = [resp_sequence_number r] @ [get_status r]"

definition FormatResponse_new :: "byte \<Rightarrow> byte \<Rightarrow> Response" where
  "FormatResponse_new seq status = \<lparr>resp_sequence_number = seq, resp_status = status\<rparr>"

definition FormatResponse_serialize :: "Response \<Rightarrow> byte list" where
  "FormatResponse_serialize r = [resp_sequence_number r] @ [get_status r]"

definition InitResponse_new :: "byte \<Rightarrow> byte \<Rightarrow> Response" where
  "InitResponse_new seq status = \<lparr>resp_sequence_number = seq, resp_status = status\<rparr>"

definition InitResponse_serialize :: "Response \<Rightarrow> byte list" where
  "InitResponse_serialize r = [resp_sequence_number r] @ [get_status r]"

definition OpenResponse_new :: "byte \<Rightarrow> byte \<Rightarrow> Response" where
  "OpenResponse_new seq status = \<lparr>resp_sequence_number = seq, resp_status = status\<rparr>"

definition OpenResponse_serialize :: "Response \<Rightarrow> byte list" where
  "OpenResponse_serialize r = [resp_sequence_number r] @ [get_status r]"

definition ResetResponse_new :: "byte \<Rightarrow> byte \<Rightarrow> Response" where
  "ResetResponse_new seq status = \<lparr>resp_sequence_number = seq, resp_status = status\<rparr>"

definition ResetResponse_serialize :: "Response \<Rightarrow> byte list" where
  "ResetResponse_serialize r = [resp_sequence_number r] @ [get_status r]"

definition WriteBlockResponse_new :: "byte \<Rightarrow> byte \<Rightarrow> Response" where
  "WriteBlockResponse_new seq status = \<lparr>resp_sequence_number = seq, resp_status = status\<rparr>"

definition WriteBlockResponse_serialize :: "Response \<Rightarrow> byte list" where
  "WriteBlockResponse_serialize r = [resp_sequence_number r] @ [get_status r]"

definition WriteResponse_new :: "byte \<Rightarrow> byte \<Rightarrow> Response" where
  "WriteResponse_new seq status = \<lparr>resp_sequence_number = seq, resp_status = status\<rparr>"

definition WriteResponse_serialize :: "Response \<Rightarrow> byte list" where
  "WriteResponse_serialize r = [resp_sequence_number r] @ [get_status r]"

definition StatusResponse_new :: "byte \<Rightarrow> byte \<Rightarrow> StatusResponse" where
  "StatusResponse_new seq status =
     \<lparr>resp_sequence_number = seq, resp_status = status, status_data = []\<rparr>"

definition StatusResponse_add_data :: "byte \<Rightarrow> StatusResponse \<Rightarrow> StatusResponse" where
  "StatusResponse_add_data d r = r\<lparr>status_data := status_data r @ [d]\<rparr>"

definition StatusResponse_set_data :: "byte list \<Rightarrow> StatusResponse \<Rightarrow> StatusResponse" where
  "StatusResponse_set_data xs r = r\<lparr>status_data := xs\<rparr>"

definition StatusResponse_serialize :: "StatusResponse \<Rightarrow> byte list" where
  "StatusResponse_serialize r =
     fold (\<lambda>b data. data @ [b]) (status_data r) ([resp_sequence_number r] @ [get_status r])"

definition ReadResponse_new :: "byte \<Rightarrow> byte \<Rightarrow> ReadResponse" where
  "ReadResponse_new seq status = \<lparr>resp_sequence_number = seq, resp_status = status, read_data = []\<rparr>"

definition ReadResponse_set_data :: "byte list \<Rightarrow> ReadResponse \<Rightarrow> ReadResponse" where
  "ReadResponse_set_data xs r = r\<lparr>read_data := xs\<rparr>"

definition ReadResponse_serialize :: "ReadResponse \<Rightarrow> byte list" where
  "ReadResponse_serialize r = [resp_sequence_number r] @ [get_status r] @ read_data r"

definition ReadBlockResponse_new :: "byte \<Rightarrow> byte \<Rightarrow> ReadBlockResponse" where
  "ReadBlockResponse_new seq status =
     \<lparr>resp_sequence_number = seq, resp_status = status, read_block_data = replicate 512 0\<rparr>"

text \<open>\<open>std::copy\<close> into the array of 512 bytes: more bytes than that are written past it.\<close>

definition ReadBlockResponse_set_block_data :: "byte list \<Rightarrow> ReadBlockResponse \<Rightarrow> sp_error + ReadBlockResponse" where
  "ReadBlockResponse_set_block_data xs r =
     sbind (copy_to xs 0 (read_block_data r)) (\<lambda>block. Inr (r\<lparr>read_block_data := block\<rparr>))"

definition ReadBlockResponse_serialize :: "ReadBlockResponse \<Rightarrow> byte list" where
  "ReadBlockResponse_serialize r = [resp_sequence_number r] @ [get_status r] @ read_block_data r"

text \<open>A pointer to a \<open>Response\<close>.\<close>

datatype sp_response = CloseResp Response | ControlResp Response | FormatResp Response
  | InitResp Response | OpenResp Response | ReadBlockResp ReadBlockResponse
  | ReadResp ReadResponse | ResetResp Response | StatusResp StatusResponse
  | WriteBlockResp Response | WriteResp Response

fun response_serialize :: "sp_response \<Rightarrow> byte list" where
  "response_serialize (CloseResp r) = CloseResponse_serialize r"
| "response_serialize (ControlResp r) = ControlResponse_serialize r"
| "response_serialize (FormatResp r) = FormatResponse_serialize r"
| "response_serialize (InitResp r) = InitResponse_serialize r"
| "response_serialize (OpenResp r) = OpenResponse_serialize r"
| "response_serialize (ReadBlockResp r) = ReadBlockResponse_serialize r"
| "response_serialize (ReadResp r) = ReadResponse_serialize r"
| "response_serialize (ResetResp r) = ResetResponse_serialize r"
| "response_serialize (StatusResp r) = StatusResponse_serialize r"
| "response_serialize (WriteBlockResp r) = WriteBlockResponse_serialize r"
| "response_serialize (WriteResp r) = WriteResponse_serialize r"

section \<open>Requests\<close>

record Request =
  request_sequence_number :: byte
  command_number :: byte
  sp_unit :: byte

definition get_request_sequence_number :: "'a Request_scheme \<Rightarrow> byte" where
  "get_request_sequence_number r = request_sequence_number r"

definition get_command_number :: "'a Request_scheme \<Rightarrow> byte" where
  "get_command_number r = command_number r"

definition get_sp_unit :: "'a Request_scheme \<Rightarrow> byte" where
  "get_sp_unit r = sp_unit r"

text \<open>\<open>cmd_data\<close> is the block of the decoded command, \<open>iwm_decoded_cmd_t\<close>.\<close>

definition init_command :: "'a Request_scheme \<Rightarrow> byte list \<Rightarrow> sp_error + byte list" where
  "init_command r cmd_data =
     sbind (copy_to (replicate 9 0) 0 cmd_data) (\<lambda>cmd. copy_to [get_command_number r] 0 cmd)"

record StatusRequest = Request +
  status_code :: byte

record ControlRequest = Request +
  control_code :: byte
  control_data :: "byte list"

record ReadBlockRequest = Request +
  rb_block_number :: "byte list"

record WriteBlockRequest = Request +
  wb_block_number :: "byte list"
  wb_block_data :: "byte list"

record ReadRequest = Request +
  rd_byte_count :: "byte list"
  rd_address :: "byte list"

record WriteRequest = Request +
  wr_byte_count :: "byte list"
  wr_address :: "byte list"
  wr_data :: "byte list"

definition CloseRequest_new :: "byte \<Rightarrow> byte \<Rightarrow> Request" where
  "CloseRequest_new seq unit =
     \<lparr>request_sequence_number = seq, command_number = SP_CLOSE, sp_unit = unit\<rparr>"

definition CloseRequest_serialize :: "Request \<Rightarrow> byte list" where
  "CloseRequest_serialize r = [get_request_sequence_number r] @ [get_command_number r] @ [get_sp_unit r]"

definition CloseRequest_create_command :: "Request \<Rightarrow> byte list \<Rightarrow> sp_error + byte list" where
  "CloseRequest_create_command r cmd_data = init_command r cmd_data"

definition CloseRequest_deserialize :: "Request \<Rightarrow> byte list \<Rightarrow> sp_error + Response" where
  "CloseRequest_deserialize r data =
     (if length data < 2 then Inl NotEnoughData else Inr (CloseResponse_new (data ! 0) (data ! 1)))"

definition CloseRequest_create_response :: "Request \<Rightarrow> byte \<Rightarrow> byte \<Rightarrow> byte list \<Rightarrow> u16 \<Rightarrow> Response" where
  "CloseRequest_create_response r source status data num =
     CloseResponse_new (get_request_sequence_number r) status"

definition FormatRequest_new :: "byte \<Rightarrow> byte \<Rightarrow> Request" where
  "FormatRequest_new seq unit =
     \<lparr>request_sequence_number = seq, command_number = SP_FORMAT, sp_unit = unit\<rparr>"

definition FormatRequest_serialize :: "Request \<Rightarrow> byte list" where
  "FormatRequest_serialize r = [get_request_sequence_number r] @ [get_command_number r] @ [get_sp_unit r]"

definition FormatRequest_create_command :: "Request \<Rightarrow> byte list \<Rightarrow> sp_error + byte list" where
  "FormatRequest_create_command r cmd_data = init_command r cmd_data"

definition FormatRequest_deserialize :: "Request \<Rightarrow> byte list \<Rightarrow> sp_error + Response" where
  "FormatRequest_deserialize r data =
     (if length data < 2 then Inl NotEnoughData else Inr (FormatResponse_new (data ! 0) (data ! 1)))"

definition FormatRequest_create_response :: "Request \<Rightarrow> byte \<Rightarrow> byte \<Rightarrow> byte list \<Rightarrow> u16 \<Rightarrow> Response" where
  "FormatRequest_create_response r source status data num =
     FormatResponse_new (get_request_sequence_number r) status"

definition InitRequest_new :: "byte \<Rightarrow> byte \<Rightarrow> Request" where
  "InitRequest_new seq unit =
     \<lparr>request_sequence_number = seq, command_number = SP_INIT, sp_unit = unit\<rparr>"

definition InitRequest_serialize :: "Request \<Rightarrow> byte list" where
  "InitRequest_serialize r = [get_request_sequence_number r] @ [get_command_number r] @ [get_sp_unit r]"

definition InitRequest_create_command :: "Request \<Rightarrow> byte list \<Rightarrow> sp_error + byte list" where
  "InitRequest_create_command r cmd_data = init_command r cmd_data"

definition InitRequest_deserialize :: "Request \<Rightarrow> byte list \<Rightarrow> sp_error + Response" where
  "InitRequest_deserialize r data =
     (if length data < 2 then Inl NotEnoughData else Inr (InitResponse_new (data ! 0) (data ! 1)))"

definition InitRequest_create_response :: "Request \<Rightarrow> byte \<Rightarrow> byte \<Rightarrow> byte list \<Rightarrow> u16 \<Rightarrow> Response" where
  "InitRequest_create_response r source status data num =
     InitResponse_new (get_request_sequence_number r) status"

definition OpenRequest_new :: "byte \<Rightarrow> byte \<Rightarrow> Request" where
  "OpenRequest_new seq unit =
     \<lparr>request_sequence_number = seq, command_number = SP_OPEN, sp_unit = unit\<rparr>"

definition OpenRequest_serialize :: "Request \<Rightarrow> byte list" where
  "OpenRequest_serialize r = [get_request_sequence_number r] @ [get_command_number r] @ [get_sp_unit r]"

definition OpenRequest_create_command :: "Request \<Rightarrow> byte list \<Rightarrow> sp_error + byte list" where
  "OpenRequest_create_command r cmd_data = init_command r cmd_data"

definition OpenRequest_deserialize :: "Request \<Rightarrow> byte list \<Rightarrow> sp_error + Response" where
  "OpenRequest_deserialize r data =
     (if length data < 2 then Inl NotEnoughData else Inr (OpenResponse_new (data ! 0) (data ! 1)))"

definition OpenRequest_create_response :: "Request \<Rightarrow> byte \<Rightarrow> byte \<Rightarrow> byte list \<Rightarrow> u16 \<Rightarrow> Response" where
  "OpenRequest_create_response r source status data num =
     OpenResponse_new (get_request_sequence_number r) status"

definition ResetRequest_new :: "byte \<Rightarrow> byte \<Rightarrow> Request" where
  "ResetRequest_new seq unit =
     \<lparr>request_sequence_number = seq, command_number = SP_RESET, sp_unit = unit\<rparr>"

definition ResetRequest_serialize :: "Request \<Rightarrow> byte list" where
  "ResetRequest_serialize r = [get_request_sequence_number r] @ [get_command_number r] @ [get_sp_unit r]"

definition ResetRequest_create_command :: "Request \<Rightarrow> byte list \<Rightarrow> sp_error + byte list" where
  "ResetRequest_create_command r cmd_data = init_command r cmd_data"

definition ResetRequest_deserialize :: "Request \<Rightarrow> byte list \<Rightarrow> sp_error + Response" where
  "ResetRequest_deserialize r data =
     (if length data < 2 then Inl NotEnoughData else Inr (ResetResponse_new (data ! 0) (data ! 1)))"

definition ResetRequest_create_response :: "Request \<Rightarrow> byte \<Rightarrow> byte \<Rightarrow> byte list \<Rightarrow> u16 \<Rightarrow> Response" where
  "ResetRequest_create_response r source status data num =
     ResetResponse_new (get_request_sequence_number r) status"

definition StatusRequest_new :: "byte \<Rightarrow> byte \<Rightarrow> byte \<Rightarrow> StatusRequest" where
  "StatusRequest_new seq unit code =
     \<lparr>request_sequence_number = seq, command_number = SP_STATUS, sp_unit = unit, status_code = code\<rparr>"

definition StatusRequest_serialize :: "StatusRequest \<Rightarrow> byte list" where
  "StatusRequest_serialize r = [get_request_sequence_number r] @ [get_command_number r] @ [get_sp_unit r] @ [status_code r]"

definition StatusRequest_deserialize :: "StatusRequest \<Rightarrow> byte list \<Rightarrow> sp_error + StatusResponse" where
  "StatusRequest_deserialize r data =
     (if length data < 2 then Inl NotEnoughData
      else let response = StatusResponse_new (data ! 0) (data ! 1)
           in Inr (if get_status response = 0 \<and> length data > 2
                   then fold StatusResponse_add_data (drop 2 data) response else response))"

definition StatusRequest_create_command :: "StatusRequest \<Rightarrow> byte list \<Rightarrow> sp_error + byte list" where
  "StatusRequest_create_command r cmd_data =
     sbind (init_command r cmd_data) (\<lambda>cmd. copy_to [status_code r] 4 cmd)"

definition StatusRequest_create_response :: "StatusRequest \<Rightarrow> byte \<Rightarrow> byte \<Rightarrow> byte list \<Rightarrow> u16
    \<Rightarrow> sp_error + StatusResponse" where
  "StatusRequest_create_response r source status data num =
     (let response = StatusResponse_new (get_request_sequence_number r) status
      in if status = 0
         then sbind (copy_n data 0 (unat num)) (\<lambda>xs. Inr (StatusResponse_set_data xs response))
         else Inr response)"

definition ControlRequest_new :: "byte \<Rightarrow> byte \<Rightarrow> byte \<Rightarrow> byte list \<Rightarrow> ControlRequest" where
  "ControlRequest_new seq unit code data =
     \<lparr>request_sequence_number = seq, command_number = SP_CONTROL, sp_unit = unit,
      control_code = code, control_data = data\<rparr>"

definition ControlRequest_serialize :: "ControlRequest \<Rightarrow> byte list" where
  "ControlRequest_serialize r =
     [get_request_sequence_number r] @ [get_command_number r] @ [get_sp_unit r]
     @ [control_code r] @ control_data r"

definition ControlRequest_deserialize :: "ControlRequest \<Rightarrow> byte list \<Rightarrow> sp_error + Response" where
  "ControlRequest_deserialize r data =
     (if length data < 2 then Inl NotEnoughData else Inr (ControlResponse_new (data ! 0) (data ! 1)))"

definition ControlRequest_create_response :: "ControlRequest \<Rightarrow> byte \<Rightarrow> byte \<Rightarrow> byte list \<Rightarrow> u16 \<Rightarrow> Response" where
  "ControlRequest_create_response r source status data num =
     ControlResponse_new (get_request_sequence_number r) status"

definition ControlRequest_create_command :: "ControlRequest \<Rightarrow> byte list \<Rightarrow> sp_error + byte list" where
  "ControlRequest_create_command r cmd_data =
     sbind (init_command r cmd_data) (\<lambda>cmd. copy_to [control_code r] 4 cmd)"

definition ControlRequest_copy_payload :: "ControlRequest \<Rightarrow> byte list \<Rightarrow> sp_error + byte list" where
  "ControlRequest_copy_payload r data = copy_to (control_data r) 0 data"

definition ControlRequest_payload_size :: "ControlRequest \<Rightarrow> nat" where
  "ControlRequest_payload_size r = length (control_data r)"

definition ReadBlockRequest_new :: "byte \<Rightarrow> byte \<Rightarrow> ReadBlockRequest" where
  "ReadBlockRequest_new seq unit =
     \<lparr>request_sequence_number = seq, command_number = SP_READ_BLOCK, sp_unit = unit,
      rb_block_number = replicate 3 0\<rparr>"

definition ReadBlockRequest_serialize :: "ReadBlockRequest \<Rightarrow> byte list" where
  "ReadBlockRequest_serialize r =
     [get_request_sequence_number r] @ [get_command_number r] @ [get_sp_unit r] @ rb_block_number r"

definition ReadBlockRequest_deserialize :: "ReadBlockRequest \<Rightarrow> byte list \<Rightarrow> sp_error + ReadBlockResponse" where
  "ReadBlockRequest_deserialize r data =
     (if length data \<noteq> 514 then Inl NotEnoughData
      else let response = ReadBlockResponse_new (data ! 0) (data ! 1)
           in if get_status response = 0 then ReadBlockResponse_set_block_data (drop 2 data) response
              else Inr response)"

definition ReadBlockRequest_set_block_number_from_ptr :: "byte list \<Rightarrow> nat \<Rightarrow> ReadBlockRequest
    \<Rightarrow> sp_error + ReadBlockRequest" where
  "ReadBlockRequest_set_block_number_from_ptr ptr off r =
     sbind (copy_n ptr off 3) (\<lambda>xs. Inr (r\<lparr>rb_block_number := xs\<rparr>))"

definition ReadBlockRequest_create_command :: "ReadBlockRequest \<Rightarrow> byte list \<Rightarrow> sp_error + byte list" where
  "ReadBlockRequest_create_command r cmd_data =
     sbind (init_command r cmd_data) (\<lambda>cmd. copy_to (rb_block_number r) 4 cmd)"

definition ReadBlockRequest_create_response :: "ReadBlockRequest \<Rightarrow> byte \<Rightarrow> byte \<Rightarrow> byte list \<Rightarrow> u16
    \<Rightarrow> sp_error + ReadBlockResponse" where
  "ReadBlockRequest_create_response r source status data num =
     (let response = ReadBlockResponse_new (get_request_sequence_number r) status
      in if status = 0
         then sbind (copy_n data 0 (unat num)) (\<lambda>xs. ReadBlockResponse_set_block_data xs response)
         else Inr response)"

definition WriteBlockRequest_new :: "byte \<Rightarrow> byte \<Rightarrow> WriteBlockRequest" where
  "WriteBlockRequest_new seq unit =
     \<lparr>request_sequence_number = seq, command_number = SP_WRITE_BLOCK, sp_unit = unit,
      wb_block_number = replicate 3 0, wb_block_data = replicate 512 0\<rparr>"

definition WriteBlockRequest_serialize :: "WriteBlockRequest \<Rightarrow> byte list" where
  "WriteBlockRequest_serialize r =
     [get_request_sequence_number r] @ [get_command_number r] @ [get_sp_unit r]
     @ wb_block_number r @ wb_block_data r"

definition WriteBlockRequest_deserialize :: "WriteBlockRequest \<Rightarrow> byte list \<Rightarrow> sp_error + Response" where
  "WriteBlockRequest_deserialize r data =
     (if length data < 2 then Inl NotEnoughData else Inr (WriteBlockResponse_new (data ! 0) (data ! 1)))"

definition WriteBlockRequest_create_response :: "WriteBlockRequest \<Rightarrow> byte \<Rightarrow> byte \<Rightarrow> byte list \<Rightarrow> u16 \<Rightarrow> Response" where
  "WriteBlockRequest_create_response r source status data num =
     WriteBlockResponse_new (get_request_sequence_number r) status"

definition WriteBlockRequest_set_block_number_from_ptr :: "byte list \<Rightarrow> nat \<Rightarrow> WriteBlockRequest
    \<Rightarrow> sp_error + WriteBlockRequest" where
  "WriteBlockRequest_set_block_number_from_ptr ptr off r =
     sbind (copy_n ptr off 3) (\<lambda>xs. Inr (r\<lparr>wb_block_number := xs\<rparr>))"

definition WriteBlockRequest_set_block_data_from_ptr :: "byte list \<Rightarrow> nat \<Rightarrow> WriteBlockRequest
    \<Rightarrow> sp_error + WriteBlockRequest" where
  "WriteBlockRequest_set_block_data_from_ptr ptr off r =
     sbind (copy_n ptr off 512) (\<lambda>xs. Inr (r\<lparr>wb_block_data := xs\<rparr>))"

definition WriteBlockRequest_create_command :: "WriteBlockRequest \<Rightarrow> byte list \<Rightarrow> sp_error + byte list" where
  "WriteBlockRequest_create_command r cmd_data =
     sbind (init_command r cmd_data) (\<lambda>cmd. copy_to (wb_block_number r) 4 cmd)"

definition WriteBlockRequest_copy_payload :: "WriteBlockRequest \<Rightarrow> byte list \<Rightarrow> sp_error + byte list" where
  "WriteBlockRequest_copy_payload r data = copy_to (wb_block_data r) 0 data"

definition WriteBlockRequest_payload_size :: "WriteBlockRequest \<Rightarrow> nat" where
  "WriteBlockRequest_payload_size r = length (wb_block_data r)"

definition ReadRequest_new :: "byte \<Rightarrow> byte \<Rightarrow> ReadRequest" where
  "ReadRequest_new seq unit =
     \<lparr>request_sequence_number = seq, command_number = SP_READ, sp_unit = unit,
      rd_byte_count = replicate 2 0, rd_address = replicate 3 0\<rparr>"

definition ReadRequest_serialize :: "ReadRequest \<Rightarrow> byte list" where
  "ReadRequest_serialize r =
     [get_request_sequence_number r] @ [get_command_number r] @ [get_sp_unit r]
     @ rd_byte_count r @ rd_address r"

definition ReadRequest_deserialize :: "ReadRequest \<Rightarrow> byte list \<Rightarrow> sp_error + ReadResponse" where
  "ReadRequest_deserialize r data =
     (if length data < 3 then Inl NotEnoughData
      else let response = ReadResponse_new (data ! 0) (data ! 1)
           in Inr (if get_status response = 0 then ReadResponse_set_data (drop 2 data) response
                   else response))"

definition ReadRequest_set_byte_count_from_ptr :: "byte list \<Rightarrow> nat \<Rightarrow> ReadRequest \<Rightarrow> sp_error + ReadRequest" where
  "ReadRequest_set_byte_count_from_ptr ptr off r =
     sbind (copy_n ptr off 2) (\<lambda>xs. Inr (r\<lparr>rd_byte_count := xs\<rparr>))"

definition ReadRequest_set_address_from_ptr :: "byte list \<Rightarrow> nat \<Rightarrow> ReadRequest \<Rightarrow> sp_error + ReadRequest" where
  "ReadRequest_set_address_from_ptr ptr off r =
     sbind (copy_n ptr off 3) (\<lambda>xs. Inr (r\<lparr>rd_address := xs\<rparr>))"

definition ReadRequest_create_command :: "ReadRequest \<Rightarrow> byte list \<Rightarrow> sp_error + byte list" where
  "ReadRequest_create_command r cmd_data =
     sbind (init_command r cmd_data) (\<lambda>cmd.
     sbind (copy_to (rd_byte_count r) 4 cmd) (\<lambda>cmd. copy_to (rd_address r) 6 cmd))"

definition ReadRequest_create_response :: "ReadRequest \<Rightarrow> byte \<Rightarrow> byte \<Rightarrow> byte list \<Rightarrow> u16
    \<Rightarrow> sp_error + ReadResponse" where
  "ReadRequest_create_response r source status data num =
     (let response = ReadResponse_new (get_request_sequence_number r) status
      in if status = 0
         then sbind (copy_n data 0 (unat num)) (\<lambda>xs. Inr (ReadResponse_set_data xs response))
         else Inr response)"

definition WriteRequest_new :: "byte \<Rightarrow> byte \<Rightarrow> WriteRequest" where
  "WriteRequest_new seq unit =
     \<lparr>request_sequence_number = seq, command_number = SP_WRITE, sp_unit = unit,
      wr_byte_count = replicate 2 0, wr_address = replicate 3 0, wr_data = []\<rparr>"

definition WriteRequest_serialize :: "WriteRequest \<Rightarrow> byte list" where
  "WriteRequest_serialize r =
     [get_request_sequence_number r] @ [get_command_number r] @ [get_sp_unit r]
     @ wr_byte_count r @ wr_address r @ wr_data r"

definition WriteRequest_deserialize :: "WriteRequest \<Rightarrow> byte list \<Rightarrow> sp_error + Response" where
  "WriteRequest_deserialize r data =
     (if length data < 2 then Inl NotEnoughData else Inr (WriteResponse_new (data ! 0) (data ! 1)))"

definition WriteRequest_create_response :: "WriteRequest \<Rightarrow> byte \<Rightarrow> byte \<Rightarrow> byte list \<Rightarrow> u16 \<Rightarrow> Response" where
  "WriteRequest_create_response r source status data num =
     WriteResponse_new (get_request_sequence_number r) status"

definition WriteRequest_set_byte_count_from_ptr :: "byte list \<Rightarrow> nat \<Rightarrow> WriteRequest \<Rightarrow> sp_error + WriteRequest" where
  "WriteRequest_set_byte_count_from_ptr ptr off r =
     sbind (copy_n ptr off 2) (\<lambda>xs. Inr (r\<lparr>wr_byte_count := xs\<rparr>))"

definition WriteRequest_set_address_from_ptr :: "byte list \<Rightarrow> nat \<Rightarrow> WriteRequest \<Rightarrow> sp_error + WriteRequest" where
  "WriteRequest_set_address_from_ptr ptr off r =
     sbind (copy_n ptr off 3) (\<lambda>xs. Inr (r\<lparr>wr_address := xs\<rparr>))"

definition WriteRequest_set_data_from_ptr :: "byte list \<Rightarrow> nat \<Rightarrow> nat \<Rightarrow> WriteRequest \<Rightarrow> sp_error + WriteRequest" where
  "WriteRequest_set_data_from_ptr ptr off len r =
     sbind (copy_n ptr off len) (\<lambda>xs. Inr (r\<lparr>wr_data := xs\<rparr>))"

definition WriteRequest_create_command :: "WriteRequest \<Rightarrow> byte list \<Rightarrow> sp_error + byte list" where
  "WriteRequest_create_command r cmd_data =
     sbind (init_command r cmd_data) (\<lambda>cmd.
     sbind (copy_to (wr_byte_count r) 4 cmd) (\<lambda>cmd. copy_to (wr_address r) 6 cmd))"

definition WriteRequest_copy_payload :: "WriteRequest \<Rightarrow> byte list \<Rightarrow> sp_error + byte list" where
  "WriteRequest_copy_payload r data = copy_to (wr_data r) 0 data"

definition WriteRequest_payload_size :: "WriteRequest \<Rightarrow> nat" where
  "WriteRequest_payload_size r = length (wr_data r)"

text \<open>A pointer to a \<open>Request\<close> and the virtual calls through it.\<close>

datatype sp_request = CloseReq Request | ControlReq ControlRequest | FormatReq Request
  | InitReq Request | OpenReq Request | ReadBlockReq ReadBlockRequest | ReadReq ReadRequest
  | ResetReq Request | StatusReq StatusRequest | WriteBlockReq WriteBlockRequest
  | WriteReq WriteRequest

fun request_serialize :: "sp_request \<Rightarrow> byte list" where
  "request_serialize (CloseReq r) = CloseRequest_serialize r"
| "request_serialize (ControlReq r) = ControlRequest_serialize r"
| "request_serialize (FormatReq r) = FormatRequest_serialize r"
| "request_serialize (InitReq r) = InitRequest_serialize r"
| "request_serialize (OpenReq r) = OpenRequest_serialize r"
| "request_serialize (ReadBlockReq r) = ReadBlockRequest_serialize r"
| "request_serialize (ReadReq r) = ReadRequest_serialize r"
| "request_serialize (ResetReq r) = ResetRequest_serialize r"
| "request_serialize (StatusReq r) = StatusRequest_serialize r"
| "request_serialize (WriteBlockReq r) = WriteBlockRequest_serialize r"
| "request_serialize (WriteReq r) = WriteRequest_serialize r"

fun request_deserialize :: "sp_request \<Rightarrow> byte list \<Rightarrow> sp_error + sp_response" where
  "request_deserialize (CloseReq r) data = map_sum id CloseResp (CloseRequest_deserialize r data)"
| "request_deserialize (ControlReq r) data = map_sum id ControlResp (ControlRequest_deserialize r data)"
| "request_deserialize (FormatReq r) data = map_sum id FormatResp (FormatRequest_deserialize r data)"
| "request_deserialize (InitReq r) data = map_sum id InitResp (InitRequest_deserialize r data)"
| "request_deserialize (OpenReq r) data = map_sum id OpenResp (OpenRequest_deserialize r data)"
| "request_deserialize (ReadBlockReq r) data = map_sum id ReadBlockResp (ReadBlockRequest_deserialize r data)"
| "request_deserialize (ReadReq r) data = map_sum id ReadResp (ReadRequest_deserialize r data)"
| "request_deserialize (ResetReq r) data = map_sum id ResetResp (ResetRequest_deserialize r data)"
| "request_deserialize (StatusReq r) data = map_sum id StatusResp (StatusRequest_deserialize r data)"
| "request_deserialize (WriteBlockReq r) data = map_sum id WriteBlockResp (WriteBlockRequest_deserialize r data)"
| "request_deserialize (WriteReq r) data = map_sum id WriteResp (WriteRequest_deserialize r data)"

fun create_command :: "sp_request \<Rightarrow> byte list \<Rightarrow> sp_error + byte list" where
  "create_command (CloseReq r) cmd = CloseRequest_create_command r cmd"
| "create_command (ControlReq r) cmd = ControlRequest_create_command r cmd"
| "create_command (FormatReq r) cmd = FormatRequest_create_command r cmd"
| "create_command (InitReq r) cmd = InitRequest_create_command r cmd"
| "create_command (OpenReq r) cmd = OpenRequest_create_command r cmd"
| "create_command (ReadBlockReq r) cmd = ReadBlockRequest_create_command r cmd"
| "create_command (ReadReq r) cmd = ReadRequest_create_command r cmd"
| "create_command (ResetReq r) cmd = ResetRequest_create_command r cmd"
| "create_command (StatusReq r) cmd = StatusRequest_create_command r cmd"
| "create_command (WriteBlockReq r) cmd = WriteBlockRequest_create_command r cmd"
| "create_command (WriteReq r) cmd = WriteRequest_create_command r cmd"

fun create_response :: "sp_request \<Rightarrow> byte \<Rightarrow> byte \<Rightarrow> byte list \<Rightarrow> u16 \<Rightarrow> sp_error + sp_response" where
  "create_response (CloseReq r) source status data num = Inr (CloseResp (CloseRequest_create_response r source status data num))"
| "create_response (ControlReq r) source status data num = Inr (ControlResp (ControlRequest_create_response r source status data num))"
| "create_response (FormatReq r) source status data num = Inr (FormatResp (FormatRequest_create_response r source status data num))"
| "create_response (InitReq r) source status data num = Inr (InitResp (InitRequest_create_response r source status data num))"
| "create_response (OpenReq r) source status data num = Inr (OpenResp (OpenRequest_create_response r source status data num))"
| "create_response (ReadBlockReq r) source status data num = map_sum id ReadBlockResp (ReadBlockRequest_create_response r source status data num)"
| "create_response (ReadReq r) source status data num = map_sum id ReadResp (ReadRequest_create_response r source status data num)"
| "create_response (ResetReq r) source status data num = Inr (ResetResp (ResetRequest_create_response r source status data num))"
| "create_response (StatusReq r) source status data num = map_sum id StatusResp (StatusRequest_create_response r source status data num)"
| "create_response (WriteBlockReq r) source status data num = Inr (WriteBlockResp (WriteBlockRequest_create_response r source status data num))"
| "create_response (WriteReq r) source status data num = Inr (WriteResp (WriteRequest_create_response r source status data num))"

text \<open>The classes without a payload have an empty \<open>copy_payload\<close> and the size 0.\<close>

fun copy_payload :: "sp_request \<Rightarrow> byte list \<Rightarrow> sp_error + byte list" where
  "copy_payload (ControlReq r) data = ControlRequest_copy_payload r data"
| "copy_payload (WriteBlockReq r) data = WriteBlockRequest_copy_payload r data"
| "copy_payload (WriteReq r) data = WriteRequest_copy_payload r data"
| "copy_payload r data = Inr data"

fun payload_size :: "sp_request \<Rightarrow> nat" where
  "payload_size (ControlReq r) = ControlRequest_payload_size r"
| "payload_size (WriteBlockReq r) = WriteBlockRequest_payload_size r"
| "payload_size (WriteReq r) = WriteRequest_payload_size r"
| "payload_size r = 0"

definition from_packet :: "byte list \<Rightarrow> sp_error + sp_request" where
  "from_packet packet =
     sbind (vec_at packet 1) (\<lambda>command.
     let seq = vec_at packet 0; unit = vec_at packet 2 in
     if command = SP_STATUS
     then sbind seq (\<lambda>s. sbind unit (\<lambda>u. sbind (vec_at packet 3) (\<lambda>c.
          Inr (StatusReq (StatusRequest_new s u c)))))
     else if command = SP_CONTROL
     then (if length packet < 6 then Inl OutOfRange
           else sbind seq (\<lambda>s. sbind unit (\<lambda>u. sbind (vec_at packet 3) (\<lambda>c.
                Inr (ControlReq (ControlRequest_new s u c (drop 6 packet)))))))
     else if command = SP_READ_BLOCK
     then sbind seq (\<lambda>s. sbind unit (\<lambda>u.
          sbind (ReadBlockRequest_set_block_number_from_ptr packet 3 (ReadBlockRequest_new s u)) (\<lambda>r.
          Inr (ReadBlockReq r))))
     else if command = SP_WRITE_BLOCK
     then sbind seq (\<lambda>s. sbind unit (\<lambda>u.
          sbind (WriteBlockRequest_set_block_number_from_ptr packet 3 (WriteBlockRequest_new s u)) (\<lambda>r.
          sbind (WriteBlockRequest_set_block_data_from_ptr packet 6 r) (\<lambda>r.
          Inr (WriteBlockReq r)))))
     else if command = SP_FORMAT
     then sbind seq (\<lambda>s. sbind unit (\<lambda>u. Inr (FormatReq (FormatRequest_new s u))))
     else if command = SP_INIT
     then sbind seq (\<lambda>s. sbind unit (\<lambda>u. Inr (InitReq (InitRequest_new s u))))
     else if command = SP_OPEN
     then sbind seq (\<lambda>s. sbind unit (\<lambda>u. Inr (OpenReq (OpenRequest_new s u))))
     else if command = SP_CLOSE
     then sbind seq (\<lambda>s. sbind unit (\<lambda>u. Inr (CloseReq (CloseRequest_new s u))))
     else if command = SP_READ
     then sbind seq (\<lambda>s. sbind unit (\<lambda>u.
          sbind (ReadRequest_set_byte_count_from_ptr packet 3 (ReadRequest_new s u)) (\<lambda>r.
          sbind (ReadRequest_set_address_from_ptr packet 5 r) (\<lambda>r.
          Inr (ReadReq r)))))
     else if command = SP_WRITE
     then sbind seq (\<lambda>s. sbind unit (\<lambda>u.
          sbind (WriteRequest_set_byte_count_from_ptr packet 3 (WriteRequest_new s u)) (\<lambda>r.
          sbind (WriteRequest_set_address_from_ptr packet 5 r) (\<lambda>r.
          sbind (WriteRequest_set_data_from_ptr packet 8 (length packet - 8) r) (\<lambda>r.
          Inr (WriteReq r))))))
     else if command = SP_RESET
     then sbind seq (\<lambda>s. sbind unit (\<lambda>u. Inr (ResetReq (ResetRequest_new s u))))
     else Inl (UnknownCommand command))"

text \<open>How the devices read the decoded command, \<open>iwmDevice\<close> in \<open>iwm.h\<close>: \<open>params\<close> starts at 2.\<close>

definition get_status_code :: "byte list \<Rightarrow> byte" where
  "get_status_code cmd = cmd ! 4"

definition get_numbytes :: "byte list \<Rightarrow> u16" where
  "get_numbytes cmd = ucast (cmd ! 4) + push_bit 8 (ucast (cmd ! 5))"

definition get_address :: "byte list \<Rightarrow> u32" where
  "get_address cmd = ucast (cmd ! 6) + push_bit 8 (ucast (cmd ! 7)) + push_bit 16 (ucast (cmd ! 8))"

end
