(* ===== verification/Slip_Requests.thy ===== *)
theory Slip_Requests
  imports Slip_Packets
begin

text \<open>
  What the SmartPort requests and responses of \<open>Slip_Packets\<close> carry: which packets are accepted,
  that a request and a response survive the wire, and that the decoded command a device gets
  has the fields of the packet.
\<close>

lemmas request_news = CloseRequest_new_def ControlRequest_new_def FormatRequest_new_def
  InitRequest_new_def OpenRequest_new_def ReadBlockRequest_new_def
  ReadRequest_new_def ResetRequest_new_def StatusRequest_new_def
  WriteBlockRequest_new_def WriteRequest_new_def

lemmas request_serializes = CloseRequest_serialize_def ControlRequest_serialize_def FormatRequest_serialize_def
  InitRequest_serialize_def OpenRequest_serialize_def ReadBlockRequest_serialize_def
  ReadRequest_serialize_def ResetRequest_serialize_def StatusRequest_serialize_def
  WriteBlockRequest_serialize_def WriteRequest_serialize_def

lemmas request_deserializes = CloseRequest_deserialize_def ControlRequest_deserialize_def FormatRequest_deserialize_def
  InitRequest_deserialize_def OpenRequest_deserialize_def ReadBlockRequest_deserialize_def
  ReadRequest_deserialize_def ResetRequest_deserialize_def StatusRequest_deserialize_def
  WriteBlockRequest_deserialize_def WriteRequest_deserialize_def

lemmas request_commands = CloseRequest_create_command_def ControlRequest_create_command_def FormatRequest_create_command_def
  InitRequest_create_command_def OpenRequest_create_command_def ReadBlockRequest_create_command_def
  ReadRequest_create_command_def ResetRequest_create_command_def StatusRequest_create_command_def
  WriteBlockRequest_create_command_def WriteRequest_create_command_def

lemmas request_responses = CloseRequest_create_response_def ControlRequest_create_response_def FormatRequest_create_response_def
  InitRequest_create_response_def OpenRequest_create_response_def ReadBlockRequest_create_response_def
  ReadRequest_create_response_def ResetRequest_create_response_def StatusRequest_create_response_def
  WriteBlockRequest_create_response_def WriteRequest_create_response_def

lemmas response_news = CloseResponse_new_def ControlResponse_new_def FormatResponse_new_def
  InitResponse_new_def OpenResponse_new_def ReadBlockResponse_new_def
  ReadResponse_new_def ResetResponse_new_def StatusResponse_new_def
  WriteBlockResponse_new_def WriteResponse_new_def

lemmas response_serializes = CloseResponse_serialize_def ControlResponse_serialize_def FormatResponse_serialize_def
  InitResponse_serialize_def OpenResponse_serialize_def ReadBlockResponse_serialize_def
  ReadResponse_serialize_def ResetResponse_serialize_def StatusResponse_serialize_def
  WriteBlockResponse_serialize_def WriteResponse_serialize_def

lemmas request_setters = ReadBlockRequest_set_block_number_from_ptr_def
  WriteBlockRequest_set_block_number_from_ptr_def WriteBlockRequest_set_block_data_from_ptr_def
  ReadRequest_set_byte_count_from_ptr_def ReadRequest_set_address_from_ptr_def
  WriteRequest_set_byte_count_from_ptr_def WriteRequest_set_address_from_ptr_def
  WriteRequest_set_data_from_ptr_def

lemmas request_getters = get_request_sequence_number_def get_command_number_def get_sp_unit_def
  get_status_def

section \<open>Well-formed requests\<close>

text \<open>The constructors fix the command number and the arrays have the sizes of their types.\<close>

fun wf_request :: "sp_request \<Rightarrow> bool" where
  "wf_request (CloseReq r) \<longleftrightarrow> command_number r = SP_CLOSE"
| "wf_request (ControlReq r) \<longleftrightarrow> command_number r = SP_CONTROL"
| "wf_request (FormatReq r) \<longleftrightarrow> command_number r = SP_FORMAT"
| "wf_request (InitReq r) \<longleftrightarrow> command_number r = SP_INIT"
| "wf_request (OpenReq r) \<longleftrightarrow> command_number r = SP_OPEN"
| "wf_request (ReadBlockReq r) \<longleftrightarrow> command_number r = SP_READ_BLOCK \<and> length (rb_block_number r) = 3"
| "wf_request (ReadReq r) \<longleftrightarrow> command_number r = SP_READ \<and> length (rd_byte_count r) = 2
     \<and> length (rd_address r) = 3"
| "wf_request (ResetReq r) \<longleftrightarrow> command_number r = SP_RESET"
| "wf_request (StatusReq r) \<longleftrightarrow> command_number r = SP_STATUS"
| "wf_request (WriteBlockReq r) \<longleftrightarrow> command_number r = SP_WRITE_BLOCK
     \<and> length (wb_block_number r) = 3 \<and> length (wb_block_data r) = 512"
| "wf_request (WriteReq r) \<longleftrightarrow> command_number r = SP_WRITE \<and> length (wr_byte_count r) = 2
     \<and> length (wr_address r) = 3"

text \<open>The shortest packet of each command.\<close>

definition min_length :: "byte \<Rightarrow> nat" where
  "min_length c = (if c = SP_STATUS then 4 else if c = SP_CONTROL then 6
     else if c = SP_READ_BLOCK then 6 else if c = SP_WRITE_BLOCK then 518
     else if c = SP_READ \<or> c = SP_WRITE then 8 else 3)"

lemma command_cases:
  "c \<le> SP_RESET \<longleftrightarrow> c \<in> {SP_STATUS, SP_CONTROL, SP_READ_BLOCK, SP_WRITE_BLOCK, SP_FORMAT, SP_INIT,
     SP_OPEN, SP_CLOSE, SP_READ, SP_WRITE, SP_RESET}"
  unfolding sp_codes by unat_arith

lemma from_packet_classified:
  "case from_packet p of
     Inr r \<Rightarrow> p ! 1 \<le> SP_RESET \<and> max 2 (min_length (p ! 1)) \<le> length p \<and> wf_request r
   | Inl e \<Rightarrow> (e = UnknownCommand (p ! 1) \<and> 1 < length p \<and> SP_RESET < p ! 1
        \<or> e = OutOfRange \<and> (length p < 2 \<or> p ! 1 \<le> SP_RESET \<and> length p < min_length (p ! 1)))"
proof (cases "1 < length p")
  case False
  then show ?thesis by (simp add: from_packet_def)
next
  case True
  then have 0: "vec_at p 0 = Inr (p ! 0)" "vec_at p 1 = Inr (p ! 1)" by (auto simp: vec_at_def)
  show ?thesis
  proof (cases "p ! 1 \<le> SP_RESET")
    case False
    then have "from_packet p = Inl (UnknownCommand (p ! 1))"
      using 0 by (simp add: from_packet_def command_cases Let_def del: One_nat_def)
    with False True show ?thesis by simp
  next
    case le: True
    show ?thesis
      using le True 0 unfolding command_cases from_packet_def
      by (elim insertE emptyE) (auto simp: min_length_def Let_def request_setters request_news sp_codes
        vec_at_def copy_n_def)
  qed
qed

lemma from_packet_header:
  assumes "from_packet p = Inr r"
  shows "take 3 (request_serialize r) = take 3 p"
proof -
  have le: "p ! 1 \<le> SP_RESET" and len: "3 \<le> length p"
    using from_packet_classified [of p] assms by (auto simp: min_length_def split: if_splits)
  then have p: "take 3 p = [p ! 0, p ! 1, p ! 2]"
    by (auto simp: Suc_le_length_iff numeral_3_eq_3 numeral_2_eq_2)
  show ?thesis
    using le assms len unfolding p command_cases from_packet_def
    by (elim insertE emptyE) (auto simp: Let_def request_setters request_news request_serializes request_getters
        sp_codes vec_at_def copy_n_def split: if_splits)
qed

text \<open>
  (C29) Every byte sequence is classified: a request is made exactly from the packets of the eleven
  commands that are long enough, it is well formed and has the sequence number, command and unit of
  the packet; a larger command number throws, and a packet too short for its command is read past
  its end.
\<close>

theorem from_packet_cases:
  "case from_packet p of
     Inr r \<Rightarrow> p ! 1 \<le> SP_RESET \<and> max 2 (min_length (p ! 1)) \<le> length p \<and> wf_request r
       \<and> take 3 (request_serialize r) = take 3 p
   | Inl e \<Rightarrow> (e = UnknownCommand (p ! 1) \<and> 1 < length p \<and> SP_RESET < p ! 1
        \<or> e = OutOfRange \<and> (length p < 2 \<or> p ! 1 \<le> SP_RESET \<and> length p < min_length (p ! 1)))"
  using from_packet_classified [of p] from_packet_header [of p] by (simp split: sum.splits)

section \<open>Round trips\<close>

text \<open>
  (C26) A request survives the wire: what \<open>serialize\<close> makes of a well-formed request is parsed
  back into it, a control request excepted: \<open>from_packet\<close> skips two length bytes that
  \<open>serialize\<close> does not write, so the first two bytes of the control list are lost, and a
  control list shorter than that is read past its end.
\<close>

theorem request_roundtrip:
  assumes "wf_request r"
  shows "from_packet (request_serialize r) =
     (case r of
        ControlReq c \<Rightarrow> if length (control_data c) < 2 then Inl OutOfRange
                        else Inr (ControlReq (c\<lparr>control_data := drop 2 (control_data c)\<rparr>))
      | _ \<Rightarrow> Inr r)"
  using assms
  by (cases r) (auto simp: from_packet_def Let_def request_serializes request_setters request_news
      request_getters sp_codes)

section \<open>The decoded command\<close>

lemma from_packet_fields:
  assumes "from_packet p = Inr r"
  shows "wf_request r" and "case r of
     StatusReq s \<Rightarrow> p ! 1 = SP_STATUS \<and> status_code s = p ! 3
   | ControlReq s \<Rightarrow> p ! 1 = SP_CONTROL \<and> control_code s = p ! 3
   | ReadBlockReq s \<Rightarrow> p ! 1 = SP_READ_BLOCK \<and> rb_block_number s = slice p 3 6
   | WriteBlockReq s \<Rightarrow> p ! 1 = SP_WRITE_BLOCK \<and> wb_block_number s = slice p 3 6
   | ReadReq s \<Rightarrow> p ! 1 = SP_READ \<and> rd_byte_count s = [p ! 3, p ! 4] \<and> rd_address s = [p ! 5, p ! 6, p ! 7]
   | WriteReq s \<Rightarrow> p ! 1 = SP_WRITE \<and> wr_byte_count s = [p ! 3, p ! 4] \<and> wr_address s = [p ! 5, p ! 6, p ! 7]
   | FormatReq s \<Rightarrow> p ! 1 = SP_FORMAT | InitReq s \<Rightarrow> p ! 1 = SP_INIT | OpenReq s \<Rightarrow> p ! 1 = SP_OPEN
   | CloseReq s \<Rightarrow> p ! 1 = SP_CLOSE | ResetReq s \<Rightarrow> p ! 1 = SP_RESET"
proof -
  have take2: "Suc k < length p \<Longrightarrow> take 2 (drop k p) = [p ! k, p ! Suc k]" for k
    by (simp add: take_Suc_conv_app_nth numeral_2_eq_2)
  have take3: "Suc (Suc k) < length p \<Longrightarrow> take 3 (drop k p) = [p ! k, p ! Suc k, p ! Suc (Suc k)]" for k
    by (simp add: take_Suc_conv_app_nth numeral_3_eq_3)
  show "wf_request r" using from_packet_classified [of p] assms by simp
  show "case r of
     StatusReq s \<Rightarrow> p ! 1 = SP_STATUS \<and> status_code s = p ! 3
   | ControlReq s \<Rightarrow> p ! 1 = SP_CONTROL \<and> control_code s = p ! 3
   | ReadBlockReq s \<Rightarrow> p ! 1 = SP_READ_BLOCK \<and> rb_block_number s = slice p 3 6
   | WriteBlockReq s \<Rightarrow> p ! 1 = SP_WRITE_BLOCK \<and> wb_block_number s = slice p 3 6
   | ReadReq s \<Rightarrow> p ! 1 = SP_READ \<and> rd_byte_count s = [p ! 3, p ! 4] \<and> rd_address s = [p ! 5, p ! 6, p ! 7]
   | WriteReq s \<Rightarrow> p ! 1 = SP_WRITE \<and> wr_byte_count s = [p ! 3, p ! 4] \<and> wr_address s = [p ! 5, p ! 6, p ! 7]
   | FormatReq s \<Rightarrow> p ! 1 = SP_FORMAT | InitReq s \<Rightarrow> p ! 1 = SP_INIT | OpenReq s \<Rightarrow> p ! 1 = SP_OPEN
   | CloseReq s \<Rightarrow> p ! 1 = SP_CLOSE | ResetReq s \<Rightarrow> p ! 1 = SP_RESET"
    using assms
    by (auto simp: from_packet_def Let_def sbind_Inr request_setters request_news vec_at_def copy_n_def
        slice_def take2 take3 split: if_splits)
qed

lemma init_command_block: "length cmd = 9 \<Longrightarrow> init_command r cmd = Inr (get_command_number r # replicate 8 0)"
  by (simp add: init_command_def copy_to_def eval_nat_numeral)

lemma create_command_length:
  "create_command r cmd = Inr out \<Longrightarrow> length out = length cmd"
  by (cases r) (auto simp: request_commands init_command_def copy_to_def sbind_Inr split: if_splits)

lemma uint_bytes2: "uint (ucast (a :: byte) + push_bit 8 (ucast (b :: byte)) :: u16) = uint a + 256 * uint b"
proof -
  have "uint a < 256" "uint b < 256" using uint_bounded [of a] uint_bounded [of b] by simp_all
  then show ?thesis
    by (simp add: uint_word_ariths push_bit_eq_mult unsigned_ucast_eq take_bit_int_eq_self)
qed

lemma uint_bytes3:
  "uint (ucast (a :: byte) + push_bit 8 (ucast (b :: byte)) + push_bit 16 (ucast (c :: byte)) :: u32)
   = uint a + 256 * uint b + 65536 * uint c"
proof -
  have "uint a < 256" "uint b < 256" "uint c < 256"
    using uint_bounded [of a] uint_bounded [of b] uint_bounded [of c] by simp_all
  then show ?thesis
    by (simp add: uint_word_ariths push_bit_eq_mult unsigned_ucast_eq take_bit_int_eq_self)
qed

lemma command_made:
  assumes "from_packet p = Inr r" and "length cmd = 9"
  shows "\<exists>out. create_command r cmd = Inr out \<and> length out = 9 \<and> out ! 0 = p ! 1 \<and>
     (p ! 1 \<in> {SP_STATUS, SP_CONTROL} \<longrightarrow> get_status_code out = p ! 3) \<and>
     (p ! 1 \<in> {SP_READ_BLOCK, SP_WRITE_BLOCK} \<longrightarrow> slice out 4 7 = slice p 3 6) \<and>
     (p ! 1 \<in> {SP_READ, SP_WRITE} \<longrightarrow>
        uint (get_numbytes out) = uint (p ! 3) + 256 * uint (p ! 4) \<and>
        uint (get_address out) = uint (p ! 5) + 256 * uint (p ! 6) + 65536 * uint (p ! 7))"
proof -
  note f = from_packet_fields [OF assms(1)]
  show ?thesis
    using f
    by (cases r) (auto simp: request_commands init_command_block [OF assms(2)] request_getters copy_to_def
      sp_codes get_status_code_def get_numbytes_def get_address_def uint_bytes2 uint_bytes3 slice_def nth_append)
qed

text \<open>
  (C28) The decoded command: for a packet that is accepted \<open>create_command\<close> fills the nine bytes
  and writes none outside, the command byte first; a status or control code, the three bytes of a
  block number, the byte count and the address of a read or write are where the devices' accessors
  look for them.
\<close>

theorem command_fields:
  assumes "from_packet p = Inr r" and "length cmd = 9"
  shows "\<exists>out. create_command r cmd = Inr out \<and> length out = 9 \<and> out ! 0 = p ! 1 \<and>
     (p ! 1 \<in> {SP_STATUS, SP_CONTROL} \<longrightarrow> get_status_code out = p ! 3) \<and>
     (p ! 1 \<in> {SP_READ_BLOCK, SP_WRITE_BLOCK} \<longrightarrow> slice out 4 7 = slice p 3 6) \<and>
     (p ! 1 \<in> {SP_READ, SP_WRITE} \<longrightarrow>
        uint (get_numbytes out) = uint (p ! 3) + 256 * uint (p ! 4) \<and>
        uint (get_address out) = uint (p ! 5) + 256 * uint (p ! 6) + 65536 * uint (p ! 7))"
  using assms by (rule command_made)

theorem request_roundtrip_witness:
  "from_packet (request_serialize (ControlReq (ControlRequest_new 1 2 3 [4, 5, 6])))
   = Inr (ControlReq (ControlRequest_new 1 2 3 [6]))"
  using request_roundtrip [of "ControlReq (ControlRequest_new 1 2 3 [4, 5, 6])"]
  by (simp add: ControlRequest_new_def)

theorem command_fields_witness:
  "\<exists>out. create_command (StatusReq (StatusRequest_new 7 1 3)) (replicate 9 0) = Inr out
     \<and> get_status_code out = 3"
  using command_fields [of "[7, 0, 1, 3]" "StatusReq (StatusRequest_new 7 1 3)" "replicate 9 0"]
  by (auto simp: from_packet_def Let_def sp_codes)

section \<open>Responses\<close>

lemma fold_status_data: "fold StatusResponse_add_data xs r = r\<lparr>status_data := status_data r @ xs\<rparr>"
  by (induction xs arbitrary: r) (simp_all add: StatusResponse_add_data_def)

lemma fold_snoc: "fold (\<lambda>b data. data @ [b]) xs ys = ys @ xs"
  by (induction xs arbitrary: ys) simp_all

lemmas response_setters = StatusResponse_set_data_def ReadResponse_set_data_def
  ReadBlockResponse_set_block_data_def

definition carries_data :: "sp_request \<Rightarrow> bool" where
  "carries_data r = (case r of StatusReq _ \<Rightarrow> True | ReadReq _ \<Rightarrow> True | ReadBlockReq _ \<Rightarrow> True | _ \<Rightarrow> False)"

definition is_read_block :: "sp_request \<Rightarrow> bool" where
  "is_read_block r = (case r of ReadBlockReq _ \<Rightarrow> True | _ \<Rightarrow> False)"

fun request_seq :: "sp_request \<Rightarrow> byte" where
  "request_seq (CloseReq r) = request_sequence_number r"
| "request_seq (ControlReq r) = request_sequence_number r"
| "request_seq (FormatReq r) = request_sequence_number r"
| "request_seq (InitReq r) = request_sequence_number r"
| "request_seq (OpenReq r) = request_sequence_number r"
| "request_seq (ReadBlockReq r) = request_sequence_number r"
| "request_seq (ReadReq r) = request_sequence_number r"
| "request_seq (ResetReq r) = request_sequence_number r"
| "request_seq (StatusReq r) = request_sequence_number r"
| "request_seq (WriteBlockReq r) = request_sequence_number r"
| "request_seq (WriteReq r) = request_sequence_number r"

definition response_body :: "sp_request \<Rightarrow> byte \<Rightarrow> byte list \<Rightarrow> byte list" where
  "response_body r status xs =
     (let ys = (if status = 0 \<and> carries_data r then xs else [])
      in if is_read_block r then ys @ replicate (512 - length ys) 0 else ys)"

lemma response_wire:
  "map_sum id response_serialize (create_response r source status data num) =
     (if status = 0 \<and> carries_data r \<and> (length data < unat num \<or> is_read_block r \<and> 512 < unat num)
      then Inl OutOfRange
      else Inr (request_seq r # status # response_body r status (take (unat num) data)))"
  by (cases r) (auto simp: request_responses response_news response_serializes response_setters
      request_getters carries_data_def is_read_block_def response_body_def copy_n_def copy_to_def fold_snoc)

lemma create_response_wire:
  assumes "create_response r source status data num = Inr resp"
  shows "response_serialize resp = request_seq r # status # response_body r status (take (unat num) data)"
  using response_wire [of r source status data num] assms by (simp split: if_splits)

text \<open>
  The response: it is made unless the device hands over more bytes than it has, or more than
  the 512 of a block; it carries the sequence number of the request, the status and, when that is
  zero and the request asks for data, the data, filled up with zeros in a block.
\<close>

theorem response_bytes:
  "map_sum id response_serialize (create_response r source status data num) =
     (if status = 0 \<and> carries_data r \<and> (length data < unat num \<or> is_read_block r \<and> 512 < unat num)
      then Inl OutOfRange
      else Inr (request_seq r # status # response_body r status (take (unat num) data)))"
  by (rule response_wire)

text \<open>
  (C27) The response survives the wire: \<open>deserialize\<close> of the request that was answered gives back the
  response, except that the response to a read is rejected as too short when it reports an
  error or has no data.
\<close>

theorem response_roundtrip:
  assumes "create_response r source status data num = Inr resp"
  shows "request_deserialize r (response_serialize resp) =
     (if (\<exists>c. r = ReadReq c) \<and> (status \<noteq> 0 \<or> num = 0) then Inl NotEnoughData else Inr resp)"
proof (cases r)
  case (ReadReq c)
  then have "response_serialize resp = request_sequence_number c # status
      # (if status = 0 then take (unat num) data else [])"
    using create_response_wire [OF assms] by (simp add: response_body_def carries_data_def is_read_block_def)
  with ReadReq assms show ?thesis
    by (auto simp: request_responses response_news response_setters request_getters request_deserializes
        response_serializes Let_def sbind_Inr copy_n_def unat_eq_0 split: if_splits)
qed (use assms in \<open>auto simp: request_responses response_news response_setters request_getters
    request_deserializes response_serializes Let_def sbind_Inr copy_n_def copy_to_def fold_snoc
    fold_status_data split: if_splits\<close>)

theorem response_roundtrip_witness:
  "request_deserialize (ReadReq (ReadRequest_new 5 1)) [5, 0x27] = Inl NotEnoughData"
  using response_roundtrip [where r = "ReadReq (ReadRequest_new 5 1)" and source = 1 and status = "0x27"
      and data = "[]" and num = 0]
  by (simp add: ReadRequest_create_response_def ReadRequest_new_def request_getters ReadResponse_new_def
      ReadResponse_serialize_def)

end
