(* ===== verification/Slip_Bus.thy ===== *)
theory Slip_Bus
  imports Slip_Requests
begin

text \<open>
  The Apple II bus over TCP: \<open>Connection\<close> and \<open>TCPConnection\<close> (the reading thread, the map of
  received packets), \<open>iwm_slip\<close> (the request thread, the queue, the current request and response)
  and the SLIP build of \<open>iwmBus\<close> (\<open>service\<close>, \<open>handle_init\<close>, the daisy chain).  One record is the
  state of the three threads; a function that takes a lock is what its thread does while it holds
  the lock.  The virtual \<open>process\<close> of a device and the answers of the socket calls are
  arguments.
\<close>

section \<open>State\<close>

datatype sp_cmd_state = standby | rxdata | command

record iwm_device =
  devnum :: byte
  switched :: bool
  initialized :: bool
  device_active :: bool

record bus =
  is_connected :: bool
  complete_data :: "byte list"
  responses :: "(byte \<times> byte list) list"
  request_queue :: "byte list list"
  current_request :: "sp_request option"
  current_response :: "sp_response option"
  command_packet :: "byte list"
  sp_command_mode :: sp_cmd_state
  decoded :: "byte list"
  data_buffer :: "byte list"
  data_len :: nat
  daisyChain :: "iwm_device list"
  fuji_devnum :: byte
  wire :: "byte list"

definition COMMAND_LEN :: nat where "COMMAND_LEN = 8"

definition MAX_DATA_LEN :: nat where "MAX_DATA_LEN = 767"

text \<open>The state of the bus object before the connection is made.\<close>

definition bus_start :: bus where
  "bus_start = \<lparr>is_connected = False, complete_data = [], responses = [], request_queue = [],
     current_request = None, current_response = None, command_packet = replicate COMMAND_LEN 0,
     sp_command_mode = standby, decoded = replicate 9 0, data_buffer = replicate MAX_DATA_LEN 0,
     data_len = 0, daisyChain = [], fuji_devnum = 0, wire = []\<rparr>"

section \<open>The reading thread\<close>

text \<open>\<open>std::map<uint8_t, ...>\<close>: the entries in the order of their keys.\<close>

fun map_assign :: "byte \<Rightarrow> byte list \<Rightarrow> (byte \<times> byte list) list \<Rightarrow> (byte \<times> byte list) list" where
  "map_assign k v [] = [(k, v)]"
| "map_assign k v ((k', v') # m) =
     (if k < k' then (k, v) # (k', v') # m
      else if k = k' then (k, v) # m
      else (k', v') # map_assign k v m)"

text \<open>
  What \<open>recv\<close> on the socket, with its buffer of 1024 bytes and its timeout of a second, returns.
\<close>

datatype recv_result = Received "byte list" | Again | Failed | Closed

text \<open>The \<open>do ... while (valread == 1024)\<close> loop; with no result left the socket times out.\<close>

fun recv_loop :: "recv_result list \<Rightarrow> bus \<Rightarrow> bus \<times> recv_result list" where
  "recv_loop [] s = (s, [])"
| "recv_loop (r # rs) s =
     (case r of
        Received xs \<Rightarrow>
          (let s = s\<lparr>complete_data := complete_data s @ xs\<rparr>
           in if length xs = 1024 then recv_loop rs s else (s, rs))
      | Again \<Rightarrow> (s, rs)
      | Failed \<Rightarrow> (s\<lparr>is_connected := False\<rparr>, rs)
      | Closed \<Rightarrow> (s\<lparr>is_connected := False\<rparr>, rs))"

definition store_packet :: "byte list \<Rightarrow> bus \<Rightarrow> bus" where
  "store_packet packet s =
     (if packet \<noteq> [] then s\<lparr>responses := map_assign (packet ! 0) packet (responses s)\<rparr> else s)"

text \<open>
  One turn of the outer loop of \<open>create_read_channel\<close>: first, without a lock, receiving and
  splitting; then each packet is stored under a lock of its own; then the data is cleared.
  \<open>receive_turn\<close>, \<open>store_packet\<close> and \<open>clear_data\<close> are these parts, between which the other threads
  may run (\<open>Slip_Threads\<close>), and \<open>read_channel_step\<close> is the turn when they do not.
\<close>

definition receive_turn :: "recv_result list \<Rightarrow> bus \<Rightarrow> sp_error + bus \<times> byte list list \<times> recv_result list" where
  "receive_turn rs s =
     (let (s, rest) = recv_loop rs s in
      if complete_data s \<noteq> []
      then sbind (split_into_packets (complete_data s) (length (complete_data s))) (\<lambda>decoded_packets.
           Inr (s, decoded_packets, rest))
      else Inr (s, [], rest))"

definition clear_data :: "bus \<Rightarrow> bus" where
  "clear_data s = s\<lparr>complete_data := []\<rparr>"

definition read_channel_step :: "recv_result list \<Rightarrow> bus \<Rightarrow> sp_error + bus \<times> recv_result list" where
  "read_channel_step rs s =
     sbind (receive_turn rs s) (\<lambda>(s, decoded_packets, rest).
     Inr (clear_data (fold store_packet decoded_packets s), rest))"

section \<open>The request thread\<close>

text \<open>
  \<open>wait_for_request\<close> when it returns; \<open>None\<close> is another turn of its loop of five-second waits.
\<close>

definition wait_for_request :: "bus \<Rightarrow> (byte list \<times> bus) option" where
  "wait_for_request s =
     (if is_connected s
      then (case responses s of
              [] \<Rightarrow> None
            | (_, request_data) # m \<Rightarrow> Some (request_data, s\<lparr>responses := m\<rparr>))
      else Some ([], s))"

text \<open>The rest of a turn of \<open>wait_for_requests\<close>, under the lock of the queue.\<close>

definition push_request :: "byte list \<Rightarrow> bus \<Rightarrow> bus" where
  "push_request request_data s =
     (if request_data \<noteq> [] then s\<lparr>request_queue := request_queue s @ [request_data]\<rparr> else s)"

section \<open>The bus\<close>

definition PHASE_IDLE :: byte where "PHASE_IDLE = 0x0"

definition PHASE_ENABLE :: byte where "PHASE_ENABLE = 0xA"

definition PHASE_RESET :: byte where "PHASE_RESET = 0x5"

text \<open>
  \<open>iwm_phase_vector\<close>.  It copies eight bytes from the request data, which has fewer in most
  requests: \<open>beyond\<close> is what lies in memory after the vector.
\<close>

definition iwm_phase_vector :: "byte list \<Rightarrow> bus \<Rightarrow> sp_error + bus \<times> byte" where
  "iwm_phase_vector beyond s =
     (case request_queue s of
        [] \<Rightarrow> Inr (s\<lparr>sp_command_mode := standby\<rparr>, PHASE_IDLE)
      | request_data # queue \<Rightarrow>
          sbind (from_packet request_data) (\<lambda>request.
          sbind (copy_n (request_data @ beyond) 0 8) (\<lambda>header.
          Inr (s\<lparr>request_queue := queue, current_request := Some request, command_packet := header,
                 sp_command_mode := command\<rparr>, PHASE_ENABLE))))"

text \<open>
  \<open>send_data\<close>: \<open>send\<close> is the system call, the number of bytes it took or an error.  Only a
  runtime error can result, which \<open>iwm_send_packet_spi\<close> catches and answers with success.
\<close>

definition send_data :: "(byte list \<Rightarrow> nat option) \<Rightarrow> byte list \<Rightarrow> bus \<Rightarrow> bus \<times> bool" where
  "send_data send data s =
     (if data = [] then (s, False)
      else let slip_data = slip_encode data in
           case send slip_data of
             None \<Rightarrow> (s, False)
           | Some sent_size \<Rightarrow>
               (s\<lparr>wire := wire s @ take sent_size slip_data\<rparr>, sent_size = length slip_data))"

definition iwm_send_packet_spi :: "(byte list \<Rightarrow> nat option) \<Rightarrow> bus \<Rightarrow> sp_error + bus \<times> nat" where
  "iwm_send_packet_spi send s =
     (case current_response s of
        None \<Rightarrow> Inl NullPointer
      | Some r \<Rightarrow> Inr (fst (send_data send (response_serialize r) s), 0))"

definition encode_packet :: "byte \<Rightarrow> byte \<Rightarrow> byte list \<Rightarrow> u16 \<Rightarrow> bus \<Rightarrow> sp_error + bus" where
  "encode_packet source status data num s =
     (case current_request s of
        None \<Rightarrow> Inl NullPointer
      | Some r \<Rightarrow> sbind (create_response r source status data num) (\<lambda>resp.
                  Inr (s\<lparr>current_response := Some resp\<rparr>)))"

text \<open>The two overloads of \<open>decode_data_packet\<close>, for the payload and for the command.\<close>

definition decode_data_payload :: "byte list \<Rightarrow> bus \<Rightarrow> sp_error + byte list \<times> nat" where
  "decode_data_payload output_data s =
     (case current_request s of
        None \<Rightarrow> Inl NullPointer
      | Some r \<Rightarrow> sbind (copy_payload r output_data) (\<lambda>out. Inr (out, payload_size r)))"

definition decode_data_command :: "byte list \<Rightarrow> bus \<Rightarrow> sp_error + byte list" where
  "decode_data_command output_data s =
     (case current_request s of None \<Rightarrow> Inl NullPointer | Some r \<Rightarrow> create_command r output_data)"

text \<open>\<open>iwmBus::iwm_send_packet\<close> with its retries and \<open>iwm_decode_data_packet\<close> on the buffer.\<close>

fun send_retry :: "(byte list \<Rightarrow> nat option) \<Rightarrow> nat \<Rightarrow> bus \<Rightarrow> sp_error + bus \<times> nat" where
  "send_retry send 0 s = iwm_send_packet_spi send s"
| "send_retry send (Suc retry) s =
     sbind (iwm_send_packet_spi send s) (\<lambda>(s, r). if r \<noteq> 0 then send_retry send retry s else Inr (s, r))"

definition iwm_send_packet :: "(byte list \<Rightarrow> nat option) \<Rightarrow> byte \<Rightarrow> byte \<Rightarrow> byte list \<Rightarrow> u16 \<Rightarrow> bus
    \<Rightarrow> sp_error + bus \<times> nat" where
  "iwm_send_packet send source status data num s =
     sbind (encode_packet source status data num s) (\<lambda>s. send_retry send 4 s)"

definition iwm_decode_data_packet :: "bus \<Rightarrow> sp_error + bus" where
  "iwm_decode_data_packet s =
     sbind (decode_data_payload (data_buffer s) s) (\<lambda>(data, n).
     Inr (s\<lparr>data_buffer := data, data_len := n\<rparr>))"

definition send_init_reply_packet :: "(byte list \<Rightarrow> nat option) \<Rightarrow> byte \<Rightarrow> byte \<Rightarrow> bus \<Rightarrow> sp_error + bus" where
  "send_init_reply_packet send source status s =
     sbind (iwm_send_packet send source status [] 0 s) (\<lambda>(s, r). Inr s)"

text \<open>
  The loop of \<open>handle_init\<close> from the device at position \<open>i\<close>; the reply's status tells whether
  there is a device after it.
\<close>

function init_loop :: "(byte list \<Rightarrow> nat option) \<Rightarrow> nat \<Rightarrow> bus \<Rightarrow> sp_error + bus" where
  "init_loop send i s =
     (if i < length (daisyChain s)
      then let dest = command_packet s ! 2;
               s = (if i = 0 then s\<lparr>fuji_devnum := dest\<rparr> else s);
               d = (daisyChain s ! i)\<lparr>switched := False\<rparr>
           in if devnum d = 0
              then let s = s\<lparr>daisyChain := (daisyChain s)[i := d\<lparr>devnum := dest\<rparr>]\<rparr>;
                       status = (if i + 1 = length (daisyChain s) then 0xff else 0)
                   in send_init_reply_packet send dest status s
              else init_loop send (i + 1) (s\<lparr>daisyChain := (daisyChain s)[i := d]\<rparr>)
      else Inr s)"
  by pat_completeness auto
termination
  by (relation "measure (\<lambda>(send, i, s). length (daisyChain s) - i)") (auto split: if_splits)

declare init_loop.simps [simp del]

definition handle_init :: "(byte list \<Rightarrow> nat option) \<Rightarrow> bus \<Rightarrow> sp_error + bus" where
  "handle_init send s = init_loop send 0 s"

text \<open>The first device with the number; \<open>process\<close> gets its position and the decoded command.\<close>

fun find_device :: "byte \<Rightarrow> iwm_device list \<Rightarrow> nat option" where
  "find_device dest [] = None"
| "find_device dest (d # ds) =
     (if dest = devnum d then Some 0 else map_option Suc (find_device dest ds))"

definition run_command :: "(nat \<Rightarrow> byte list \<Rightarrow> bus \<Rightarrow> sp_error + bus) \<Rightarrow> bus \<Rightarrow> sp_error + bus" where
  "run_command process s =
     (case find_device (command_packet s ! 2) (daisyChain s) of
        None \<Rightarrow> Inr s
      | Some i \<Rightarrow>
          sbind (decode_data_command (replicate 9 0) s) (\<lambda>cmd. process i cmd (s\<lparr>decoded := cmd\<rparr>)))"

text \<open>\<open>iwmBus::service\<close> in the SLIP build, where the REQ line is always low in time; the state of the floppy
  motor that it also notes is read in the other builds only.  The queue is locked in \<open>iwm_phase_vector\<close>;
  what follows works on what belongs to the bus.\<close>

definition service_phases :: "(nat \<Rightarrow> byte list \<Rightarrow> bus \<Rightarrow> sp_error + bus) \<Rightarrow> (byte list \<Rightarrow> nat option)
    \<Rightarrow> byte \<Rightarrow> bus \<Rightarrow> sp_error + bus" where
  "service_phases process send phases s =
     (if phases = 0xA \<or> phases = 0xB
      then if sp_command_mode s \<noteq> command then Inr s
           else sbind (if command_packet s ! 1 AND 0x7f = 0x05 then handle_init send s
                       else run_command process s) (\<lambda>s.
                Inr (s\<lparr>sp_command_mode := standby, command_packet := replicate COMMAND_LEN 0\<rparr>))
      else if phases = 0x5
      then Inr (s\<lparr>daisyChain := map (\<lambda>d. d\<lparr>devnum := 0\<rparr>) (daisyChain s)\<rparr>)
      else Inr s)"

definition service :: "(nat \<Rightarrow> byte list \<Rightarrow> bus \<Rightarrow> sp_error + bus) \<Rightarrow> (byte list \<Rightarrow> nat option)
    \<Rightarrow> byte list \<Rightarrow> bus \<Rightarrow> sp_error + bus" where
  "service process send beyond s =
     sbind (iwm_phase_vector beyond s) (\<lambda>(s, phases). service_phases process send phases s)"

text \<open>\<open>addDevice\<close>: the device gets no number yet and goes to the front of the chain.  The pointers that
  it keeps to the devices of some types play no part on the bus.\<close>

definition addDevice :: "iwm_device \<Rightarrow> bus \<Rightarrow> bus" where
  "addDevice d s = s\<lparr>daisyChain := d\<lparr>devnum := 0, initialized := False\<rparr> # daisyChain s\<rparr>"

definition deviceById :: "byte \<Rightarrow> bus \<Rightarrow> nat option" where
  "deviceById device_id s = find_device device_id (daisyChain s)"

definition remDevice :: "nat \<Rightarrow> bus \<Rightarrow> bus" where
  "remDevice i s = s\<lparr>daisyChain := take i (daisyChain s) @ drop (i + 1) (daisyChain s)\<rparr>"

definition numDevices :: "bus \<Rightarrow> nat" where
  "numDevices s = fold (\<lambda>_ i. i + 1) (daisyChain s) 0"

definition changeDeviceId :: "nat \<Rightarrow> byte \<Rightarrow> bus \<Rightarrow> bus" where
  "changeDeviceId i device_id s =
     (if i < length (daisyChain s)
      then s\<lparr>daisyChain := (daisyChain s)[i := (daisyChain s ! i)\<lparr>devnum := device_id\<rparr>]\<rparr> else s)"

text \<open>\<open>enableDevice\<close> and \<open>disableDevice\<close> use the result of \<open>deviceById\<close> without a check.\<close>

definition set_active :: "bool \<Rightarrow> byte \<Rightarrow> bus \<Rightarrow> sp_error + bus" where
  "set_active a device_id s =
     (case deviceById device_id s of
        None \<Rightarrow> Inl NullPointer
      | Some i \<Rightarrow> Inr (s\<lparr>daisyChain := (daisyChain s)[i := (daisyChain s ! i)\<lparr>device_active := a\<rparr>]\<rparr>))"

definition enableDevice :: "byte \<Rightarrow> bus \<Rightarrow> sp_error + bus" where
  "enableDevice device_id s = set_active True device_id s"

definition disableDevice :: "byte \<Rightarrow> bus \<Rightarrow> sp_error + bus" where
  "disableDevice device_id s = set_active False device_id s"

section \<open>Standard replies of the devices\<close>

definition SP_ERR_NOERROR :: byte where "SP_ERR_NOERROR = 0x00"

definition SP_ERR_BADCMD :: byte where "SP_ERR_BADCMD = 0x01"

definition SP_ERR_BADCTL :: byte where "SP_ERR_BADCTL = 0x21"

definition SP_ERR_IOERROR :: byte where "SP_ERR_IOERROR = 0x27"

definition SP_ERR_OFFLINE :: byte where "SP_ERR_OFFLINE = 0x2f"

definition send_reply_packet :: "(byte list \<Rightarrow> nat option) \<Rightarrow> byte \<Rightarrow> byte \<Rightarrow> bus \<Rightarrow> sp_error + bus" where
  "send_reply_packet send dev status s = sbind (iwm_send_packet send dev status [] 0 s) (\<lambda>(s, r). Inr s)"

text \<open>The commands that come with a data packet, extended ones included.\<close>

definition with_data_packet :: "byte \<Rightarrow> bool" where
  "with_data_packet c \<longleftrightarrow>
     c \<in> {0x42, 0x44, 0x49, 0x4a, 0x4b, 0x02, 0x04, 0x09, 0x0a, 0x0b}"

definition iwm_return_badcmd :: "(byte list \<Rightarrow> nat option) \<Rightarrow> byte \<Rightarrow> byte list \<Rightarrow> bus \<Rightarrow> sp_error + bus" where
  "iwm_return_badcmd send dev cmd s =
     (if with_data_packet (cmd ! 0)
      then sbind (iwm_decode_data_packet (s\<lparr>data_len := 512\<rparr>)) (\<lambda>s.
           if cmd ! 0 = 0x04 then send_reply_packet send dev SP_ERR_BADCTL s
           else send_reply_packet send dev SP_ERR_BADCMD s)
      else send_reply_packet send dev SP_ERR_BADCMD s)"

definition iwm_return_device_offline :: "(byte list \<Rightarrow> nat option) \<Rightarrow> byte \<Rightarrow> byte list \<Rightarrow> bus \<Rightarrow> sp_error + bus" where
  "iwm_return_device_offline send dev cmd s =
     (if with_data_packet (cmd ! 0)
      then sbind (iwm_decode_data_packet (s\<lparr>data_len := 512\<rparr>)) (\<lambda>s.
           if cmd ! 0 = 0x04 then send_reply_packet send dev SP_ERR_OFFLINE s
           else send_reply_packet send dev SP_ERR_OFFLINE s)
      else send_reply_packet send dev SP_ERR_OFFLINE s)"

definition iwm_return_ioerror :: "(byte list \<Rightarrow> nat option) \<Rightarrow> byte \<Rightarrow> bus \<Rightarrow> sp_error + bus" where
  "iwm_return_ioerror send dev s = send_reply_packet send dev SP_ERR_IOERROR s"

definition iwm_return_noerror :: "(byte list \<Rightarrow> nat option) \<Rightarrow> byte \<Rightarrow> bus \<Rightarrow> sp_error + bus" where
  "iwm_return_noerror send dev s = send_reply_packet send dev SP_ERR_NOERROR s"

end
