(* ===== verification/Slip_Service.thy ===== *)
theory Slip_Service
  imports Slip_Bus
begin

text \<open>
  How the parts of the bus over TCP work together: what the reading thread makes of the bytes it
  receives, the initialisation of the daisy chain, and the answer to a request.
\<close>

section \<open>The map of received packets\<close>

lemma store_packet_frame [simp]:
  "store_packet p (s\<lparr>complete_data := xs\<rparr>) = (store_packet p s)\<lparr>complete_data := xs\<rparr>"
  "complete_data (store_packet p s) = complete_data s" "is_connected (store_packet p s) = is_connected s"
  "request_queue (store_packet p s) = request_queue s"
  by (simp_all add: store_packet_def)

lemma fold_store_frame [simp]:
  "fold store_packet ps (s\<lparr>complete_data := xs\<rparr>) = (fold store_packet ps s)\<lparr>complete_data := xs\<rparr>"
  "complete_data (fold store_packet ps s) = complete_data s"
  "is_connected (fold store_packet ps s) = is_connected s"
  "request_queue (fold store_packet ps s) = request_queue s"
  by (induction ps arbitrary: s) simp_all

section \<open>The reading thread\<close>

text \<open>Bytes cut into full buffers and a last part, as the receive loop gets them in one go.\<close>

definition one_batch :: "byte list list \<Rightarrow> byte list \<Rightarrow> bool" where
  "one_batch cs xs \<longleftrightarrow> concat cs = xs \<and> (\<forall>c\<in>set (butlast cs). length c = 1024)"

lemma recv_loop_batch:
  assumes "\<forall>c\<in>set (butlast cs). length c = 1024"
  shows "recv_loop (map Received cs) s = (s\<lparr>complete_data := complete_data s @ concat cs\<rparr>, [])"
  using assms
proof (induction cs arbitrary: s)
  case (Cons c cs)
  then show ?case by (cases cs) (auto simp: Let_def)
qed simp

lemma read_channel_batch:
  assumes "one_batch cs xs" and "complete_data s = []"
  shows "read_channel_step (map Received cs) s =
    Inr (fold store_packet (map frame_payload (frames xs)) s, [])"
proof -
  let ?d = "s\<lparr>complete_data := xs\<rparr>"
  have l: "recv_loop (map Received cs) s = (?d, [])"
    using assms by (simp add: one_batch_def recv_loop_batch)
  have f: "(fold store_packet ps ?d)\<lparr>complete_data := []\<rparr> = fold store_packet ps s" for ps
    using assms(2) fold_store_frame(2) [of ps s] by (simp del: fold_store_frame(2))
  have e: "frames [] = []" by (simp add: frames.simps)
  show ?thesis
    using f assms(2) by (cases "xs = []") (simp_all add: read_channel_step_def receive_turn_def clear_data_def l split_frames e)
qed

section \<open>Requests on the wire\<close>

lemma request_wire: "request_serialize r \<noteq> []" "hd (request_serialize r) = request_seq r"
  by (cases r; simp add: request_serializes request_getters)+

lemma frames_requests:
  "frames (concat (map (\<lambda>r. slip_encode (request_serialize r)) rs)) = map (\<lambda>r. stuff (request_serialize r)) rs"
  by (induction rs) (simp_all add: frames.simps [of "[]"] frames_encoded [of "[]", simplified])

text \<open>
  (C40) A request whose bytes arrive in two turns of the reading loop is lost: the first part is dropped because
  its frame is not complete, the second because its frame has no start.
\<close>

theorem fragment_lost:
  assumes "slip_encode p = a @ b" and "a \<noteq> []" and "b \<noteq> []" and "complete_data s = []"
  shows "read_channel_step [Received a] s = Inr (s, []) \<and> read_channel_step [Received b] s = Inr (s, [])"
proof -
  obtain a' where a: "a = SLIP_END # a'"
    using assms(1,2) by (cases a) (auto simp: slip_encode_stuff)
  obtain b' where b: "b = b' @ [SLIP_END]"
    using assms(1,3) by (cases b rule: rev_cases) (auto simp: slip_encode_stuff a)
  have "stuff p = a' @ b'" using assms(1) by (simp add: slip_encode_stuff a b)
  then have "SLIP_END \<notin> set a'" "SLIP_END \<notin> set b'" using stuff_no_end [of p] by simp_all
  then have "frames a = []" "frames b = []"
    by (simp_all add: a b frames_unfinished frames_noise frames_unfinished [of "[]", simplified])
  then show ?thesis
    using read_channel_batch [of "[a]" a s] read_channel_batch [of "[b]" b s] assms(4)
    by (simp add: one_batch_def)
qed

section \<open>Answering\<close>

text \<open>A socket that takes all bytes.\<close>

definition send_all :: "byte list \<Rightarrow> nat option" where
  "send_all xs = Some (length xs)"

definition send_answer :: "(byte list \<Rightarrow> nat option) \<Rightarrow> byte \<Rightarrow> byte list \<Rightarrow> u16 \<Rightarrow> bus \<Rightarrow> sp_error + bus" where
  "send_answer send status data num s = sbind (iwm_send_packet send 0 status data num s) (\<lambda>(s, r). Inr s)"

lemma send_retry_first:
  "current_response s = Some resp \<Longrightarrow>
   send_retry send n s = Inr (fst (send_data send (response_serialize resp) s), 0)"
  by (cases n) (simp_all add: iwm_send_packet_spi_def)

lemma iwm_send_packet_wire:
  assumes "current_request s = Some r"
    and "\<not> (status = 0 \<and> carries_data r \<and> (length data < unat num \<or> is_read_block r \<and> 512 < unat num))"
  shows "\<exists>resp. iwm_send_packet send_all source status data num s =
    Inr (s\<lparr>current_response := Some resp, wire := wire s @ slip_encode
           (request_seq r # status # response_body r status (take (unat num) data))\<rparr>, 0)"
proof -
  obtain resp where resp: "create_response r source status data num = Inr resp"
    using response_wire [of r source status data num] assms(2)
    by (cases "create_response r source status data num") (auto split: if_splits)
  then show ?thesis
    using assms(1) create_response_wire [OF resp]
    by (auto simp: iwm_send_packet_def encode_packet_def send_retry_first send_data_def send_all_def)
qed

section \<open>The daisy chain\<close>

abbreviation unswitch :: "iwm_device \<Rightarrow> iwm_device" where
  "unswitch d \<equiv> d\<lparr>switched := False\<rparr>"

lemma init_loop_at:
  assumes "daisyChain s = pre @ ds @ d # rest" and "\<forall>e\<in>set ds. devnum e \<noteq> 0" and "devnum d = 0"
  shows "init_loop send (length pre) s =
    (let dest = command_packet s ! 2;
         s = (if pre = [] then s\<lparr>fuji_devnum := dest\<rparr> else s)
     in send_init_reply_packet send dest (if rest = [] then 0xff else 0)
          (s\<lparr>daisyChain := pre @ map unswitch ds @ (unswitch d)\<lparr>devnum := dest\<rparr> # rest\<rparr>))"
  using assms
proof (induction ds arbitrary: pre s)
  case Nil
  then show ?case by (simp add: init_loop.simps [of send "length pre"] Let_def)
next
  case (Cons e ds)
  let ?s = "(if pre = [] then s\<lparr>fuji_devnum := command_packet s ! 2\<rparr> else s)
      \<lparr>daisyChain := (pre @ [unswitch e]) @ ds @ d # rest\<rparr>"
  have "init_loop send (length pre) s = init_loop send (length (pre @ [unswitch e])) ?s"
    using Cons.prems by (simp add: init_loop.simps [of send "length pre"] Let_def)
  then show ?case
    using Cons.IH [of ?s "pre @ [unswitch e]"] Cons.prems by (simp add: Let_def)
qed

fun service_n :: "(nat \<Rightarrow> byte list \<Rightarrow> bus \<Rightarrow> sp_error + bus) \<Rightarrow> (byte list \<Rightarrow> nat option)
    \<Rightarrow> byte list \<Rightarrow> nat \<Rightarrow> bus \<Rightarrow> sp_error + bus" where
  "service_n process send beyond 0 s = Inr s"
| "service_n process send beyond (Suc n) s =
     sbind (service process send beyond s) (service_n process send beyond n)"

text \<open>The replies to the initialisation: only the last device in the chain reports 0xff.\<close>

fun init_replies :: "(byte \<times> byte) list \<Rightarrow> byte list" where
  "init_replies [] = []"
| "init_replies ((seq, dest) # rs) =
     slip_encode [seq, if rs = [] then 0xff else 0] @ init_replies rs"

lemma service_init:
  assumes "request_queue s = request_serialize (InitReq (InitRequest_new seq dest)) # q"
    and "length beyond \<ge> 5" and "daisyChain s = ds @ d # rest" and "\<forall>e\<in>set ds. devnum e \<noteq> 0" and "devnum d = 0"
  shows "\<exists>s'. service process send_all beyond s = Inr s' \<and> request_queue s' = q \<and>
    daisyChain s' = map unswitch ds @ (unswitch d)\<lparr>devnum := dest\<rparr> # rest \<and>
    wire s' = wire s @ slip_encode [seq, if rest = [] then 0xff else 0]"
proof -
  let ?r = "InitReq (InitRequest_new seq dest)"
  have pkt: "request_serialize ?r = [seq, 5, dest]"
    by (simp add: InitRequest_serialize_def InitRequest_new_def request_getters sp_codes)
  have fp: "from_packet [seq, 5, dest] = Inr ?r"
    by (simp add: from_packet_def Let_def sp_codes)
  let ?h = "[seq, 5, dest] @ take 5 beyond"
  let ?s = "s\<lparr>request_queue := q, current_request := Some ?r, command_packet := ?h, sp_command_mode := command\<rparr>"
  have pv: "iwm_phase_vector beyond s = Inr (?s, PHASE_ENABLE)"
    using assms(1) [unfolded pkt] assms(2) fp by (simp add: iwm_phase_vector_def copy_n_def)
  define st :: byte where "st = (if rest = [] then 0xff else 0)"
  define t where "t = ?s\<lparr>fuji_devnum := dest,
      daisyChain := map unswitch ds @ (unswitch d)\<lparr>devnum := dest\<rparr> # rest\<rparr>"
  have hi: "handle_init send_all ?s = send_init_reply_packet send_all dest st t"
    using init_loop_at [of ?s "[]" ds d rest send_all] assms(3-5) by (simp add: handle_init_def Let_def st_def t_def)
  have r: "current_request t = Some ?r" "request_seq ?r = seq" "response_body ?r st [] = []" "\<not> carries_data ?r"
    by (simp_all add: t_def InitRequest_new_def response_body_def carries_data_def is_read_block_def)
  obtain resp where "iwm_send_packet send_all dest st [] 0 t =
      Inr (t\<lparr>current_response := Some resp, wire := wire t @ slip_encode [seq, st]\<rparr>, 0)"
    using iwm_send_packet_wire [OF r(1), of st "[]" 0 dest] r(2-4) by auto
  then have "handle_init send_all ?s =
      Inr (t\<lparr>current_response := Some resp, wire := wire t @ slip_encode [seq, st]\<rparr>)"
    by (simp only: hi send_init_reply_packet_def sbind_simps prod.case)
  then show ?thesis
    unfolding service_def service_phases_def pv by (simp add: PHASE_ENABLE_def t_def st_def)
qed

text \<open>
  (C16) Initialisation of the bus: as many INIT requests as there are devices without a number, each
  serviced once, give the devices the numbers of the requests in the order of the chain and are
  answered in order, with status 0 to all but the last device and 0xff to that one.
\<close>

theorem bus_initialised:
  assumes "request_queue s = map (\<lambda>(seq, dest). request_serialize (InitReq (InitRequest_new seq dest))) reqs @ q"
    and "length beyond \<ge> 5" and "daisyChain s = ds @ ds'" and "\<forall>e\<in>set ds. devnum e \<noteq> 0"
    and "\<forall>e\<in>set ds'. devnum e = 0" and "length reqs = length ds'" and "\<forall>(seq, dest)\<in>set reqs. dest \<noteq> 0"
  shows "\<exists>s'. service_n process send_all beyond (length reqs) s = Inr s' \<and> request_queue s' = q \<and>
    map devnum (daisyChain s') = map devnum ds @ map snd reqs \<and> wire s' = wire s @ init_replies reqs"
  using assms
proof (induction reqs arbitrary: s ds ds')
  case (Cons rq reqs)
  obtain seq dest where rq: "rq = (seq, dest)" by (cases rq)
  obtain d rest where ds': "ds' = d # rest" using Cons.prems(6) by (cases ds') auto
  obtain s1 where s1: "service process send_all beyond s = Inr s1"
      "request_queue s1 = map (\<lambda>(seq, dest). request_serialize (InitReq (InitRequest_new seq dest))) reqs @ q"
      "daisyChain s1 = (map unswitch ds @ [(unswitch d)\<lparr>devnum := dest\<rparr>]) @ rest"
      "wire s1 = wire s @ slip_encode [seq, if rest = [] then 0xff else 0]"
    using service_init [of s seq dest _ beyond ds d rest process] Cons.prems rq ds' by auto
  obtain s2 where "service_n process send_all beyond (length reqs) s1 = Inr s2" "request_queue s2 = q"
      "map devnum (daisyChain s2) = map devnum (map unswitch ds @ [(unswitch d)\<lparr>devnum := dest\<rparr>]) @ map snd reqs"
      "wire s2 = wire s1 @ init_replies reqs"
    using Cons.IH [OF s1(2) Cons.prems(2) s1(3)] Cons.prems rq ds' by auto
  moreover have "(rest = []) = (reqs = [])" using Cons.prems(6) ds' by auto
  ultimately show ?case using s1(1,4) by (simp add: rq comp_def)
qed simp

section \<open>A transaction\<close>

text \<open>The request a packet stands for on the bus, and the unit it is for.\<close>

lemma request_header:
  assumes "wf_request r"
  shows "length (request_serialize r) \<ge> 3"
    and "request_serialize r ! 1 = SP_INIT \<longleftrightarrow> (\<exists>c. r = InitReq c)"
    and "request_serialize r ! 1 \<le> SP_RESET"
  using assms by (cases r; simp add: request_serializes request_getters sp_codes)+

lemma masked_command: "c \<le> SP_RESET \<Longrightarrow> c AND 0x7f = 5 \<longleftrightarrow> c = SP_INIT"
  unfolding command_cases by (auto simp: sp_codes)

text \<open>
  (C11) A request at the head of the queue, addressed to a device of the chain, is taken out, handed
  to the first device with its number together with its decoded command, and the answer of the
  device goes out as one frame with the sequence number of the request, the status and the data;
  the bus is then ready for the next command.
\<close>

theorem request_answered:
  assumes "request_queue s = request_serialize r # q" and "from_packet (request_serialize r) = Inr r'"
    and "\<forall>c. r \<noteq> InitReq c" and "wf_request r" and "length beyond \<ge> 5"
    and "deviceById (request_serialize r ! 2) s = Some i"
    and "\<not> (status = 0 \<and> carries_data r' \<and> (length data < unat num \<or> is_read_block r' \<and> 512 < unat num))"
  shows "\<exists>s'. service (\<lambda>j c t. if j = i \<and> create_command r' (replicate 9 0) = Inr c
                                   then send_answer send_all status data num t else Inl NullPointer)
               send_all beyond s = Inr s' \<and>
    wire s' = wire s @ slip_encode (request_seq r' # status # response_body r' status (take (unat num) data)) \<and>
    request_queue s' = q \<and> daisyChain s' = daisyChain s \<and> sp_command_mode s' = standby"
proof -
  let ?p = "request_serialize r"
  define h where "h = take 8 (?p @ beyond)"
  let ?s = "s\<lparr>request_queue := q, current_request := Some r', command_packet := h, sp_command_mode := command\<rparr>"
  note hd = request_header [OF assms(4)]
  have pv: "iwm_phase_vector beyond s = Inr (?s, PHASE_ENABLE)"
    using assms(1,2,5) hd(1) by (simp add: iwm_phase_vector_def h_def)
  have h: "h ! 1 = ?p ! 1" "h ! 2 = ?p ! 2" using hd(1) by (simp_all add: nth_append h_def)
  then have ni: "\<not> (h ! 1 AND 0x7f = 5)" using masked_command [OF hd(3)] hd(2) assms(3) by simp
  obtain cmd where cmd: "create_command r' (replicate 9 0) = Inr cmd"
    using command_made [OF assms(2), of "replicate 9 0"] by auto
  obtain resp where "iwm_send_packet send_all 0 status data num (?s\<lparr>decoded := cmd\<rparr>) =
      Inr (?s\<lparr>decoded := cmd, current_response := Some resp, wire := wire s @ slip_encode
         (request_seq r' # status # response_body r' status (take (unat num) data))\<rparr>, 0)"
    using iwm_send_packet_wire [of "?s\<lparr>decoded := cmd\<rparr>" r' status data num 0] assms(7) by auto
  then show ?thesis
    unfolding service_def service_phases_def pv
    using ni h assms(6) cmd
    by (simp add: PHASE_ENABLE_def run_command_def deviceById_def decode_data_command_def send_answer_def)
qed

text \<open>The payload in a packet: a control list, a block, or the bytes of a write.\<close>

definition packet_payload :: "byte list \<Rightarrow> byte list" where
  "packet_payload p = (if p ! 1 = SP_CONTROL then drop 6 p else if p ! 1 = SP_WRITE_BLOCK then slice p 6 518
     else if p ! 1 = SP_WRITE then drop 8 p else [])"

lemma copy_payload_packet:
  assumes "from_packet p = Inr r"
  shows "copy_payload r block = copy_to (packet_payload p) 0 block" and "payload_size r = length (packet_payload p)"
proof -
  have *: "(copy_payload r block = copy_to (packet_payload p) 0 block) \<and> payload_size r = length (packet_payload p)"
    using assms
    by (auto simp: from_packet_def Let_def sbind_Inr request_setters request_news vec_at_def copy_n_def copy_to_def
        packet_payload_def slice_def sp_codes ControlRequest_copy_payload_def ControlRequest_payload_size_def
        WriteBlockRequest_copy_payload_def WriteBlockRequest_payload_size_def
        WriteRequest_copy_payload_def WriteRequest_payload_size_def split: if_splits)
  show "copy_payload r block = copy_to (packet_payload p) 0 block" "payload_size r = length (packet_payload p)"
    using * by simp_all
qed

text \<open>
  The payload of the current packet is copied to the start of the data buffer, whose other
  bytes stay; nothing limits it to the 767 bytes of the buffer, and a longer one is written past
  the end.
\<close>

theorem payload_copied:
  assumes "from_packet p = Inr r" and "current_request s = Some r" and "length (data_buffer s) = MAX_DATA_LEN"
  shows "iwm_decode_data_packet s =
    (if length (packet_payload p) \<le> MAX_DATA_LEN
     then Inr (s\<lparr>data_buffer := packet_payload p @ drop (length (packet_payload p)) (data_buffer s),
                 data_len := length (packet_payload p)\<rparr>)
     else Inl OutOfRange)"
  using assms(2,3)
  by (simp add: iwm_decode_data_packet_def decode_data_payload_def copy_payload_packet [OF assms(1)] copy_to_def)

text \<open>A refused command is answered once, after its data packet has been taken.\<close>

lemma decode_payload_ok:
  assumes "from_packet p = Inr r" and "current_request s = Some r"
    and "length (packet_payload p) \<le> length (data_buffer s)"
  shows "\<exists>data n. iwm_decode_data_packet s = Inr (s\<lparr>data_buffer := data, data_len := n\<rparr>)"
  using assms(2,3)
  by (auto simp: iwm_decode_data_packet_def decode_data_payload_def copy_payload_packet [OF assms(1)] copy_to_def)

lemma send_reply_wire:
  assumes "current_request s = Some r"
  shows "\<exists>s'. send_reply_packet send_all dev status s = Inr s' \<and>
    wire s' = wire s @ slip_encode (request_seq r # status # response_body r status [])"
  using iwm_send_packet_wire [OF assms, of status "[]" 0 dev] by (auto simp: send_reply_packet_def)

lemma badcmd_answered:
  assumes "from_packet p = Inr r" and "current_request s = Some r"
    and "length (packet_payload p) \<le> length (data_buffer s)"
  shows "\<exists>s' status. iwm_return_badcmd send_all dev cmd s = Inr s' \<and>
    status = (if cmd ! 0 = SP_CONTROL then SP_ERR_BADCTL else SP_ERR_BADCMD) \<and>
    wire s' = wire s @ slip_encode (request_seq r # status # response_body r status [])"
proof -
  obtain data n where d: "iwm_decode_data_packet (s\<lparr>data_len := 512\<rparr>) =
      Inr (s\<lparr>data_len := 512, data_buffer := data, data_len := n\<rparr>)"
    using decode_payload_ok [OF assms(1), of "s\<lparr>data_len := 512\<rparr>"] assms(2,3) by auto
  let ?t = "s\<lparr>data_len := 512, data_buffer := data, data_len := n\<rparr>"
  have "with_data_packet (cmd ! 0)" if "cmd ! 0 = SP_CONTROL" using that by (simp add: with_data_packet_def sp_codes)
  then show ?thesis
    using send_reply_wire [of ?t r dev SP_ERR_BADCTL] send_reply_wire [of ?t r dev SP_ERR_BADCMD]
      send_reply_wire [of s r dev SP_ERR_BADCMD] assms(2) d
    by (cases "with_data_packet (cmd ! 0)"; cases "cmd ! 0 = SP_CONTROL") (auto simp: iwm_return_badcmd_def sp_codes)
qed

section \<open>Examples\<close>

theorem fragment_lost_witness:
  "read_channel_step [Received [0xC0, 9]] bus_start = Inr (bus_start, []) \<and>
   read_channel_step [Received [6, 1, 0xC0]] bus_start = Inr (bus_start, [])"
  using fragment_lost [of "[9, 6, 1]" "[0xC0, 9]" "[6, 1, 0xC0]" bus_start]
  by (simp add: bus_start_def slip_encode_stuff stuff_def stuff1_def slip_bytes)

text \<open>A chain of two devices without a number.\<close>

definition new_device :: iwm_device where
  "new_device = \<lparr>devnum = 0, switched = True, initialized = False, device_active = True\<rparr>"

definition init_example :: bus where
  "init_example = bus_start\<lparr>daisyChain := [new_device, new_device], request_queue := [[1, 5, 7], [2, 5, 8]]\<rparr>"

theorem bus_initialised_witness:
  "\<exists>s'. service_n (\<lambda>_ _. Inr) send_all (replicate 5 0) (Suc (Suc 0)) init_example = Inr s' \<and>
    map devnum (daisyChain s') = [7, 8] \<and>
    wire s' = [0xC0, 1, 0, 0xC0, 0xC0, 2, 0xff, 0xC0]"
  using bus_initialised [of init_example "[(1, 7), (2, 8)]" "[]" "replicate 5 0" "[]" "[new_device, new_device]"
      "\<lambda>_ _. Inr"]
  by (auto simp: init_example_def bus_start_def new_device_def InitRequest_serialize_def InitRequest_new_def
      request_getters sp_codes slip_encode_stuff stuff_def stuff1_def slip_bytes)

definition answer_example :: bus where
  "answer_example = bus_start\<lparr>daisyChain := [new_device\<lparr>devnum := 7\<rparr>], request_queue := [[4, 0, 7, 3]]\<rparr>"

theorem request_answered_witness:
  "\<exists>s'. service (\<lambda>j c t. if j = 0 \<and> create_command (StatusReq (StatusRequest_new 4 7 3)) (replicate 9 0) = Inr c
                          then send_answer send_all 0 [0xF8] 1 t else Inl NullPointer)
          send_all (replicate 5 0) answer_example = Inr s' \<and>
    wire s' = [0xC0, 4, 0, 0xF8, 0xC0] \<and> request_queue s' = []"
proof -
  let ?r = "StatusReq (StatusRequest_new 4 7 3)"
  have ser: "request_serialize ?r = [4, 0, 7, 3]"
    by (simp add: StatusRequest_serialize_def StatusRequest_new_def request_getters sp_codes)
  show ?thesis
    using request_answered [of answer_example ?r "[]" ?r "replicate 5 0" 0 0 "[0xF8]" 1, unfolded ser]
    by (auto simp: answer_example_def bus_start_def new_device_def from_packet_def Let_def sp_codes
        deviceById_def StatusRequest_new_def is_read_block_def response_body_def carries_data_def slip_encode_stuff
        stuff_def stuff1_def slip_bytes)
qed

theorem payload_copied_witness:
  "iwm_decode_data_packet (bus_start\<lparr>current_request := Some (ControlReq (ControlRequest_new 1 2 3 [5]))\<rparr>) =
   Inr (bus_start\<lparr>current_request := Some (ControlReq (ControlRequest_new 1 2 3 [5])),
      data_buffer := 5 # replicate 766 0, data_len := 1\<rparr>)"
  using payload_copied [of "[1, 4, 2, 3, 0, 0, 5]" "ControlReq (ControlRequest_new 1 2 3 [5])"
      "bus_start\<lparr>current_request := Some (ControlReq (ControlRequest_new 1 2 3 [5]))\<rparr>"]
  by (simp add: from_packet_def Let_def sp_codes bus_start_def packet_payload_def MAX_DATA_LEN_def)

end
