(* ===== verification/Slip_Threads.thy ===== *)
theory Slip_Threads
  imports Slip_Service "HOL-Library.Multiset"
begin

text \<open>
  The three threads of the bus over TCP, interleaved at their locks: the reading thread receives and
  splits without a lock and then stores packet by packet, the request thread takes a packet out of
  the map under one lock and appends it to the queue under another, and the bus takes a request out
  of the queue and then works on its own data.  The theory proves an invariant of all runs and the
  delivery of requests in every order in which the threads can run.
\<close>

section \<open>The threads\<close>

text \<open>
  Where a thread is between two of its steps.  The reading thread is at the head of its loop or has
  packets still to store; the request thread may hold a packet; the bus may have read the phases.
  \<open>received\<close> and \<open>handled\<close> are history: the packets split off so far, empty ones left out, and the
  packets the bus took from the queue.
\<close>

datatype reader_at = Receiving | Storing "byte list list"

record threads =
  shared :: bus
  reader :: reader_at
  requester :: "byte list option"
  phases_read :: "byte option"
  received :: "byte list list"
  handled :: "byte list list"

definition threads_start :: threads where
  "threads_start = \<lparr>shared = bus_start, reader = Receiving, requester = None, phases_read = None,
     received = [], handled = []\<rparr>"

text \<open>What belongs to the devices: their \<open>process\<close> changes nothing else on the bus.\<close>

definition bus_view :: "bus \<Rightarrow> bus" where
  "bus_view s = s\<lparr>current_response := None, data_buffer := [], data_len := 0, daisyChain := [],
     fuji_devnum := 0, wire := []\<rparr>"

definition keeps_bus :: "bus \<Rightarrow> bus \<Rightarrow> bool" where
  "keeps_bus s s' \<longleftrightarrow> bus_view s' = bus_view s \<and> length (data_buffer s') = length (data_buffer s)"

definition device_ok :: "(nat \<Rightarrow> byte list \<Rightarrow> bus \<Rightarrow> sp_error + bus) \<Rightarrow> bool" where
  "device_ok process \<longleftrightarrow> (\<forall>i cmd s s'. process i cmd s = Inr s' \<longrightarrow> keeps_bus s s')"

text \<open>
  The steps that move requests along: of the reading thread after it has received, of the request
  thread, and of the bus, whose chain of devices may also be changed.
\<close>

inductive deliver_step :: "threads \<Rightarrow> threads \<Rightarrow> bool" where
  storing: "reader t = Storing (p # ps) \<Longrightarrow>
     deliver_step t (t\<lparr>shared := store_packet p (shared t), reader := Storing ps\<rparr>)"
| clearing: "reader t = Storing [] \<Longrightarrow>
     deliver_step t (t\<lparr>shared := clear_data (shared t), reader := Receiving\<rparr>)"
| taking: "requester t = None \<Longrightarrow> wait_for_request (shared t) = Some (d, s) \<Longrightarrow>
     deliver_step t (t\<lparr>shared := s, requester := Some d\<rparr>)"
| pushing: "requester t = Some d \<Longrightarrow>
     deliver_step t (t\<lparr>shared := push_request d (shared t), requester := None\<rparr>)"
| polling: "phases_read t = None \<Longrightarrow> iwm_phase_vector beyond (shared t) = Inr (s, phases) \<Longrightarrow>
     deliver_step t (t\<lparr>shared := s, phases_read := Some phases,
       handled := handled t @ take 1 (request_queue (shared t))\<rparr>)"
| serving: "phases_read t = Some phases \<Longrightarrow> device_ok process \<Longrightarrow>
     service_phases process send phases (shared t) = Inr s \<Longrightarrow>
     deliver_step t (t\<lparr>shared := s, phases_read := None\<rparr>)"
| adding: "deliver_step t (t\<lparr>shared := addDevice d (shared t)\<rparr>)"
| removing: "deliver_step t (t\<lparr>shared := remDevice i (shared t)\<rparr>)"
| renumbering: "deliver_step t (t\<lparr>shared := changeDeviceId i n (shared t)\<rparr>)"
| activating: "set_active a n (shared t) = Inr s \<Longrightarrow> deliver_step t (t\<lparr>shared := s\<rparr>)"

text \<open>All steps: also the connection comes and goes, and the reading thread receives.\<close>

inductive thread_step :: "threads \<Rightarrow> threads \<Rightarrow> bool" where
  delivering: "deliver_step t t' \<Longrightarrow> thread_step t t'"
| connecting: "thread_step t (t\<lparr>shared := (shared t)\<lparr>is_connected := c\<rparr>\<rparr>)"
| receiving: "reader t = Receiving \<Longrightarrow> is_connected (shared t) \<Longrightarrow>
     receive_turn rs (shared t) = Inr (s, ps, rest) \<Longrightarrow>
     thread_step t (t\<lparr>shared := s, reader := Storing ps, received := received t @ filter (\<lambda>p. p \<noteq> []) ps\<rparr>)"

inductive_cases deliver_stepE: "deliver_step t t'"
inductive_cases thread_stepE: "thread_step t t'"

section \<open>The map of received packets\<close>

definition keys_ascend :: "(byte \<times> byte list) list \<Rightarrow> bool" where
  "keys_ascend m = sorted_wrt (<) (map fst m)"

definition packets_ok :: "(byte \<times> byte list) list \<Rightarrow> bool" where
  "packets_ok m \<longleftrightarrow> keys_ascend m \<and> (\<forall>(k, p)\<in>set m. p \<noteq> [] \<and> hd p = k)"

lemma map_assign_keys: "set (map fst (map_assign k v m)) = insert k (set (map fst m))"
  by (induction k v m rule: map_assign.induct) auto

lemma map_assign_ascend: "keys_ascend m \<Longrightarrow> keys_ascend (map_assign k v m)"
proof (induction k v m rule: map_assign.induct)
  case (2 k v k' v' m)
  then show ?case
    using map_assign_keys [of k v m] by (auto simp: keys_ascend_def dest: order.strict_trans)
qed (simp add: keys_ascend_def)

lemma map_assign_entries: "set (map_assign k v m) \<subseteq> insert (k, v) (set m)"
  by (induction k v m rule: map_assign.induct) auto

lemma map_assign_ok: "packets_ok m \<Longrightarrow> p \<noteq> [] \<Longrightarrow> packets_ok (map_assign (p ! 0) p m)"
  using map_assign_entries [of "p ! 0" p m] by (auto simp: packets_ok_def map_assign_ascend hd_conv_nth)

lemma map_assign_length: "length (map_assign k v m) \<le> Suc (length m)"
  by (induction k v m rule: map_assign.induct) auto

text \<open>A new key adds a packet, an old one replaces its packet.\<close>

lemma map_assign_new: "k \<notin> set (map fst m) \<Longrightarrow> mset (map_assign k v m) = add_mset (k, v) (mset m)"
  by (induction k v m rule: map_assign.induct) auto

lemma map_assign_mset: "mset (map snd (map_assign k v m)) \<subseteq># add_mset v (mset (map snd m))"
proof (induction k v m rule: map_assign.induct)
  case (2 k v k' v' m)
  have "add_mset v' (mset (map snd (map_assign k v m))) \<subseteq># add_mset v' (add_mset v (mset (map snd m)))"
    if "\<not> k < k'" "k \<noteq> k'" using 2 that by simp
  then show ?case by (auto simp: add_mset_commute)
qed simp

section \<open>What the bus does to the state of the other threads\<close>

text \<open>Sending and initialising leave all but the response, the wire and the chain alone.\<close>

definition bus_core :: "bus \<Rightarrow> bus" where
  "bus_core s = s\<lparr>current_response := None, wire := [], daisyChain := [], fuji_devnum := 0\<rparr>"

lemma core_keeps:
  assumes "bus_core s' = bus_core s"
  shows "keeps_bus s s'"
proof -
  have "bus_view t = (bus_core t)\<lparr>data_buffer := [], data_len := 0\<rparr>" for t
    by (simp add: bus_view_def bus_core_def)
  moreover have "data_buffer (bus_core t) = data_buffer t" for t by (simp add: bus_core_def)
  ultimately show ?thesis using assms by (metis keeps_bus_def)
qed

lemma keeps_bus_refl [simp]: "keeps_bus s s"
  by (simp add: keeps_bus_def)

lemma keeps_bus_trans: "keeps_bus s s' \<Longrightarrow> keeps_bus s' s'' \<Longrightarrow> keeps_bus s s''"
  by (simp add: keeps_bus_def)

lemma keeps_bus_fields:
  assumes "keeps_bus s s'"
  shows "is_connected s' = is_connected s" "complete_data s' = complete_data s" "responses s' = responses s"
    "request_queue s' = request_queue s" "current_request s' = current_request s"
    "command_packet s' = command_packet s" "sp_command_mode s' = sp_command_mode s" "decoded s' = decoded s"
    "length (data_buffer s') = length (data_buffer s)"
proof -
  have "f s' = f s" if "\<And>t. f (bus_view t) = f t" for f :: "bus \<Rightarrow> 'x"
    using assms that by (metis keeps_bus_def)
  from this [of is_connected] this [of complete_data] this [of responses] this [of request_queue]
    this [of current_request] this [of command_packet] this [of sp_command_mode] this [of decoded]
  show "is_connected s' = is_connected s" "complete_data s' = complete_data s" "responses s' = responses s"
    "request_queue s' = request_queue s" "current_request s' = current_request s"
    "command_packet s' = command_packet s" "sp_command_mode s' = sp_command_mode s" "decoded s' = decoded s"
    by (simp_all add: bus_view_def)
  show "length (data_buffer s') = length (data_buffer s)" using assms by (simp add: keeps_bus_def)
qed

lemma send_data_core: "bus_core (fst (send_data send data s)) = bus_core s"
  by (simp add: send_data_def bus_core_def Let_def split: option.split)

lemma iwm_send_packet_core:
  assumes "iwm_send_packet send source status data num s = Inr (s', r)"
  shows "bus_core s' = bus_core s"
proof -
  obtain q resp where "current_request s = Some q" "create_response q source status data num = Inr resp"
    using assms by (auto simp: iwm_send_packet_def encode_packet_def sbind_Inr split: option.splits)
  then have "s' = fst (send_data send (response_serialize resp) (s\<lparr>current_response := Some resp\<rparr>))"
    using assms by (simp add: iwm_send_packet_def encode_packet_def send_retry_first)
  then have "bus_core s' = bus_core (s\<lparr>current_response := Some resp\<rparr>)" by (simp only: send_data_core)
  then show ?thesis by (simp add: bus_core_def)
qed

lemma init_loop_core: "init_loop send i s = Inr s' \<Longrightarrow> bus_core s' = bus_core s"
proof (induction "length (daisyChain s) - i" arbitrary: i s)
  case 0
  then show ?case by (simp add: init_loop.simps [of send i])
next
  case (Suc n)
  let ?f = "if i = 0 then s\<lparr>fuji_devnum := command_packet s ! 2\<rparr> else s"
  let ?d = "unswitch (daisyChain s ! i)"
  let ?t = "\<lambda>d. ?f\<lparr>daisyChain := (daisyChain s)[i := d]\<rparr>"
  have core: "bus_core (?t d) = bus_core s" for d by (simp add: bus_core_def)
  show ?case
  proof (cases "devnum (daisyChain s ! i) = 0")
    case True
    then obtain status where
      "send_init_reply_packet send (command_packet s ! 2) status (?t (?d\<lparr>devnum := command_packet s ! 2\<rparr>)) = Inr s'"
      using Suc.prems Suc.hyps(2) by (auto simp: init_loop.simps [of send i] Let_def split: if_splits)
    then show ?thesis
      using core iwm_send_packet_core by (fastforce simp: send_init_reply_packet_def sbind_Inr)
  next
    case False
    then have "init_loop send (i + 1) (?t ?d) = Inr s'"
      using Suc.prems Suc.hyps(2) by (auto simp: init_loop.simps [of send i] Let_def split: if_splits)
    then have "bus_core s' = bus_core (?t ?d)"
      using Suc.hyps by (intro Suc.hyps(1)) auto
    then show ?thesis by (simp only: core)
  qed
qed

lemma send_keeps: "iwm_send_packet send source status data num s = Inr (s', r) \<Longrightarrow> keeps_bus s s'"
  by (rule core_keeps) (rule iwm_send_packet_core)

lemma init_keeps: "handle_init send s = Inr s' \<Longrightarrow> keeps_bus s s'"
  by (rule core_keeps) (simp add: handle_init_def init_loop_core)

text \<open>The operations a device calls respect what belongs to the bus.\<close>

lemma take_payload_keeps:
  assumes "iwm_decode_data_packet s = Inr s'"
  shows "keeps_bus s s'"
proof -
  obtain r out where r: "copy_payload r (data_buffer s) = Inr out" "s' = s\<lparr>data_buffer := out, data_len := payload_size r\<rparr>"
    using assms by (auto simp: iwm_decode_data_packet_def decode_data_payload_def sbind_Inr split: option.splits)
  have "length out = length (data_buffer s)"
    using r(1) by (cases r) (auto simp: copy_to_def ControlRequest_copy_payload_def
      WriteBlockRequest_copy_payload_def WriteRequest_copy_payload_def split: if_splits)
  then show ?thesis using r(2) by (simp add: keeps_bus_def bus_view_def)
qed

lemma reply_keeps: "send_reply_packet send dev status s = Inr s' \<Longrightarrow> keeps_bus s s'"
  by (auto simp: send_reply_packet_def sbind_Inr intro: send_keeps)

lemma data_len_keeps: "keeps_bus s (s\<lparr>data_len := n\<rparr>)"
  by (simp add: keeps_bus_def bus_view_def)

lemma badcmd_ok: "device_ok (\<lambda>i. iwm_return_badcmd send (dev i))"
  unfolding device_ok_def iwm_return_badcmd_def
  by (auto simp: sbind_Inr split: if_splits
      intro: reply_keeps keeps_bus_trans [OF keeps_bus_trans [OF data_len_keeps take_payload_keeps] reply_keeps])

lemma answer_ok: "device_ok (\<lambda>i cmd. send_answer send (status cmd) (data cmd) (num cmd))"
  by (auto simp: device_ok_def send_answer_def sbind_Inr intro: send_keeps)

text \<open>
  The bus after it has read the phases: the state of the other threads stays, and a command that
  was there is finished.
\<close>

definition thread_state :: "bus \<Rightarrow> bool \<times> byte list \<times> (byte \<times> byte list) list \<times> byte list list" where
  "thread_state s = (is_connected s, complete_data s, responses s, request_queue s)"

definition blocks_ok :: "bus \<Rightarrow> bool" where
  "blocks_ok s \<longleftrightarrow> length (command_packet s) = COMMAND_LEN \<and> length (decoded s) = 9 \<and>
     length (data_buffer s) = MAX_DATA_LEN"

lemma run_command_fields:
  assumes "run_command process s = Inr s'" and "device_ok process"
  shows "thread_state s' = thread_state s" "command_packet s' = command_packet s"
    "length (data_buffer s') = length (data_buffer s)" "length (decoded s) = 9 \<Longrightarrow> length (decoded s') = 9"
proof -
  have "s' = s \<or> (\<exists>cmd. length cmd = 9 \<and> keeps_bus (s\<lparr>decoded := cmd\<rparr>) s')"
    using assms
    by (fastforce simp: run_command_def sbind_Inr device_ok_def decode_data_command_def
        dest: create_command_length split: option.splits)
  then show "thread_state s' = thread_state s" "command_packet s' = command_packet s"
    "length (data_buffer s') = length (data_buffer s)" "length (decoded s) = 9 \<Longrightarrow> length (decoded s') = 9"
    by (auto simp: thread_state_def dest: keeps_bus_fields)
qed

lemma service_phases_cases:
  assumes "service_phases process send phases s = Inr s'"
  obtains (finished) t where "phases = 0xA \<or> phases = 0xB" "sp_command_mode s = command"
      "handle_init send s = Inr t \<or> run_command process s = Inr t"
      "s' = t\<lparr>sp_command_mode := standby, command_packet := replicate COMMAND_LEN 0\<rparr>"
    | (nothing) c where "sp_command_mode s \<noteq> command \<or> \<not> (phases = 0xA \<or> phases = 0xB)" "s' = s\<lparr>daisyChain := c\<rparr>"
proof (cases "(phases = 0xA \<or> phases = 0xB) \<and> sp_command_mode s = command")
  case True
  let ?x = "if command_packet s ! 1 AND 0x7f = 0x05 then handle_init send s else run_command process s"
  obtain t where t: "?x = Inr t" "s' = t\<lparr>sp_command_mode := standby, command_packet := replicate COMMAND_LEN 0\<rparr>"
    using assms True unfolding service_phases_def by (cases ?x) simp_all
  then have "handle_init send s = Inr t \<or> run_command process s = Inr t" by (simp split: if_splits)
  then show thesis using that(1) True t(2) by blast
next
  case False
  then have "s' = s \<or> s' = s\<lparr>daisyChain := map (\<lambda>d. d\<lparr>devnum := 0\<rparr>) (daisyChain s)\<rparr>"
    using assms by (simp add: service_phases_def split: if_splits)
  moreover have "s = s\<lparr>daisyChain := daisyChain s\<rparr>" by simp
  ultimately have "\<exists>c. s' = s\<lparr>daisyChain := c\<rparr>" by metis
  then show thesis using that(2) False by blast
qed

lemma service_phases_threads:
  assumes "service_phases process send phases s = Inr s'" and "device_ok process"
  shows "thread_state s' = thread_state s"
  using assms(1)
proof (cases rule: service_phases_cases)
  case (finished t)
  then have "thread_state t = thread_state s"
    using keeps_bus_fields [OF init_keeps, of send s t] run_command_fields [of process s t] assms(2)
    by (auto simp: thread_state_def)
  then show ?thesis using finished by (simp add: thread_state_def)
qed (simp add: thread_state_def)

lemma service_phases_blocks:
  assumes "service_phases process send phases s = Inr s'" and "device_ok process" and "blocks_ok s"
  shows "blocks_ok s'"
  using assms(1)
proof (cases rule: service_phases_cases)
  case (finished t)
  then show ?thesis
    using keeps_bus_fields [OF init_keeps, of send s t] run_command_fields [of process s t] assms(2,3)
    by (auto simp: blocks_ok_def COMMAND_LEN_def)
qed (use assms(3) in \<open>simp add: blocks_ok_def\<close>)

lemma service_phases_mode:
  assumes "service_phases process send phases s = Inr s'"
    and "sp_command_mode s = standby \<or> sp_command_mode s = command \<and> phases = PHASE_ENABLE"
  shows "sp_command_mode s' = standby"
  using assms(1)
  by (cases rule: service_phases_cases) (use assms(2) in \<open>auto simp: PHASE_ENABLE_def\<close>)

section \<open>Every packet once\<close>

text \<open>
  Where the packets are: still to be stored, in the map, with the request thread, in the queue, or
  with the bus.
\<close>

definition pending :: "threads \<Rightarrow> byte list list" where
  "pending t = (case reader t of Receiving \<Rightarrow> [] | Storing ps \<Rightarrow> filter (\<lambda>p. p \<noteq> []) ps)"

definition packets_held :: "threads \<Rightarrow> byte list list" where
  "packets_held t = (case requester t of None \<Rightarrow> [] | Some d \<Rightarrow> if d = [] then [] else [d])"

definition delivered :: "threads \<Rightarrow> byte list list" where
  "delivered t = handled t @ request_queue (shared t)"

definition accounted :: "threads \<Rightarrow> byte list multiset" where
  "accounted t = mset (delivered t) + mset (packets_held t) + mset (map snd (responses (shared t))) + mset (pending t)"

lemmas account_simps = accounted_def delivered_def packets_held_def pending_def thread_state_def

lemma phase_vector_cases:
  assumes "iwm_phase_vector beyond s = Inr (s', phases)"
  obtains (no_request) "request_queue s = []" "s' = s\<lparr>sp_command_mode := standby\<rparr>" "phases = PHASE_IDLE"
  | (request) p q r h where "request_queue s = p # q" "from_packet p = Inr r" "copy_n (p @ beyond) 0 8 = Inr h"
      "s' = s\<lparr>request_queue := q, current_request := Some r, command_packet := h, sp_command_mode := command\<rparr>"
      "phases = PHASE_ENABLE"
  using assms by (auto simp: iwm_phase_vector_def sbind_Inr split: list.splits)

lemma chain_thread_state [simp]:
  "thread_state (addDevice d s) = thread_state s" "thread_state (remDevice i s) = thread_state s"
  "thread_state (changeDeviceId i n s) = thread_state s"
  by (simp_all add: thread_state_def addDevice_def remDevice_def changeDeviceId_def)

lemma set_active_cases: "set_active a n s = Inr s' \<Longrightarrow> \<exists>c. s' = s\<lparr>daisyChain := c\<rparr>"
  by (auto simp: set_active_def split: option.splits)

lemma same_account:
  assumes "thread_state s' = thread_state (shared t)"
  shows "accounted (t\<lparr>shared := s', phases_read := x\<rparr>) = accounted t" "accounted (t\<lparr>shared := s'\<rparr>) = accounted t"
    "delivered (t\<lparr>shared := s', phases_read := x\<rparr>) = delivered t" "delivered (t\<lparr>shared := s'\<rparr>) = delivered t"
  using assms by (simp_all add: account_simps)

text \<open>No step makes a packet twice; what is lost is what the map replaces.\<close>

lemma storing_account:
  assumes "reader t = Storing (p # ps)"
  shows "accounted (t\<lparr>shared := store_packet p (shared t), reader := Storing ps\<rparr>) \<subseteq># accounted t"
  using assms map_assign_mset [of "p ! 0" p "responses (shared t)"]
  by (auto simp: account_simps store_packet_def ac_simps intro: subset_mset.add_left_mono)

lemma deliver_account:
  assumes "deliver_step t t'"
  shows "accounted t' \<subseteq># accounted t" and "\<exists>new. delivered t' = delivered t @ new"
proof -
  have "accounted t' \<subseteq># accounted t \<and> (\<exists>new. delivered t' = delivered t @ new)"
    using assms
  proof cases
    case (storing p ps)
    then show ?thesis
      using storing_account [OF storing(2)] by (simp add: delivered_def store_packet_def)
  next
    case clearing
    then show ?thesis by (simp add: account_simps clear_data_def)
  next
    case (taking d s)
    then show ?thesis by (auto simp: account_simps wait_for_request_def split: if_splits list.splits)
  next
    case (pushing d)
    then show ?thesis by (simp add: account_simps push_request_def)
  next
    case (polling beyond s phases)
    from polling(3) show ?thesis
      by (cases rule: phase_vector_cases) (use polling in \<open>auto simp: account_simps\<close>)
  next
    case (serving phases process send s)
    then show ?thesis using service_phases_threads [OF serving(4,3)] by (simp add: same_account)
  next
    case (activating a n s)
    then show ?thesis using set_active_cases [OF activating(2)] by (auto simp: account_simps)
  qed (simp_all add: same_account)
  then show "accounted t' \<subseteq># accounted t" "\<exists>new. delivered t' = delivered t @ new" by blast+
qed

section \<open>The invariant\<close>

text \<open>
  The map holds its packets under their first byte, in ascending order; no empty packet reaches the
  queue; the command blocks and the data buffer keep their sizes; the data of the reading thread is
  empty at the head of its loop; no packet is there twice or has come from nowhere; and the bus is in
  command mode exactly between reading the phases and having served a request, which is then the one
  it has taken last, decoded, and with its header in the command packet.
\<close>

definition serving_ok :: "threads \<Rightarrow> bool" where
  "serving_ok t \<longleftrightarrow> (case phases_read t of
     None \<Rightarrow> sp_command_mode (shared t) = standby
   | Some phases \<Rightarrow>
       phases = PHASE_IDLE \<and> sp_command_mode (shared t) = standby \<or>
       phases = PHASE_ENABLE \<and> sp_command_mode (shared t) = command \<and> handled t \<noteq> [] \<and>
       (\<exists>r. current_request (shared t) = Some r \<and> wf_request r \<and> from_packet (last (handled t)) = Inr r \<and>
          take 3 (command_packet (shared t)) = take 3 (last (handled t))))"

definition thread_inv :: "threads \<Rightarrow> bool" where
  "thread_inv t \<longleftrightarrow> packets_ok (responses (shared t)) \<and> [] \<notin> set (request_queue (shared t)) \<and>
     blocks_ok (shared t) \<and> (reader t = Receiving \<longrightarrow> complete_data (shared t) = []) \<and>
     accounted t \<subseteq># mset (received t) \<and> serving_ok t"

lemma serving_ok_polling:
  assumes "iwm_phase_vector beyond (shared t) = Inr (s, phases)"
  shows "serving_ok (t\<lparr>shared := s, phases_read := Some phases, handled := handled t @ take 1 (request_queue (shared t))\<rparr>)"
  using assms
proof (cases rule: phase_vector_cases)
  case (request p q r h)
  have "3 \<le> length p"
    using from_packet_classified [of p] request(2) by (auto simp: min_length_def split: if_splits)
  then have "take 3 h = take 3 p"
    using request(3) by (auto simp: copy_n_def min_def split: if_splits)
  then show ?thesis using request from_packet_fields(1) [OF request(2)] by (simp add: serving_ok_def)
qed (simp add: serving_ok_def)

text \<open>What the invariant reads of the bus itself; the other threads do not change it.\<close>

definition bus_part :: "bus \<Rightarrow> sp_cmd_state \<times> sp_request option \<times> byte list \<times> byte list \<times> byte list" where
  "bus_part s = (sp_command_mode s, current_request s, command_packet s, decoded s, data_buffer s)"

lemma bus_part_ok:
  assumes "bus_part s = bus_part (shared t)"
  shows "blocks_ok s = blocks_ok (shared t)"
    "shared t' = s \<Longrightarrow> phases_read t' = phases_read t \<Longrightarrow> handled t' = handled t \<Longrightarrow> serving_ok t' = serving_ok t"
  using assms by (simp_all add: blocks_ok_def serving_ok_def bus_part_def split: option.split)

lemma bus_part_threads [simp]:
  "bus_part (store_packet p s) = bus_part s" "bus_part (clear_data s) = bus_part s"
  "bus_part (push_request d s) = bus_part s" "bus_part (addDevice e s) = bus_part s"
  "bus_part (remDevice i s) = bus_part s" "bus_part (changeDeviceId i n s) = bus_part s"
  "bus_part (s\<lparr>is_connected := c\<rparr>) = bus_part s" "bus_part (s\<lparr>daisyChain := ds\<rparr>) = bus_part s"
  by (simp_all add: bus_part_def store_packet_def clear_data_def push_request_def addDevice_def remDevice_def
      changeDeviceId_def)

lemma wait_for_request_part:
  "wait_for_request s = Some (d, s') \<Longrightarrow> bus_part s' = bus_part s \<and> complete_data s' = complete_data s \<and>
     request_queue s' = request_queue s \<and> (packets_ok (responses s) \<longrightarrow> packets_ok (responses s'))"
  by (auto simp: wait_for_request_def bus_part_def packets_ok_def keys_ascend_def split: if_splits list.splits)

text \<open>The parts of the invariant that only the threads and only the bus can break.\<close>

definition threads_ok :: "threads \<Rightarrow> bool" where
  "threads_ok t \<longleftrightarrow> packets_ok (responses (shared t)) \<and> [] \<notin> set (request_queue (shared t)) \<and>
     (reader t = Receiving \<longrightarrow> complete_data (shared t) = [])"

definition bus_ok :: "threads \<Rightarrow> bool" where
  "bus_ok t \<longleftrightarrow> blocks_ok (shared t) \<and> serving_ok t"

lemma thread_inv_parts:
  "thread_inv t \<longleftrightarrow> threads_ok t \<and> bus_ok t \<and> accounted t \<subseteq># mset (received t)"
  by (auto simp: thread_inv_def threads_ok_def bus_ok_def)

lemma thread_state_ok:
  "thread_state s = thread_state (shared t) \<Longrightarrow> shared t' = s \<Longrightarrow> reader t' = reader t \<Longrightarrow> threads_ok t' = threads_ok t"
  by (auto simp: threads_ok_def thread_state_def)

lemma deliver_threads_ok:
  assumes "deliver_step t t'" and "threads_ok t"
  shows "threads_ok t'"
  using assms(1)
proof cases
  case (storing p ps)
  then show ?thesis using assms(2) by (simp add: threads_ok_def store_packet_def map_assign_ok)
next
  case (taking d s)
  then show ?thesis using assms(2) wait_for_request_part [OF taking(3)] by (simp add: threads_ok_def)
next
  case (polling beyond s phases)
  from polling(3) show ?thesis
    by (cases rule: phase_vector_cases) (use polling assms(2) in \<open>auto simp: threads_ok_def\<close>)
next
  case (serving phases process send s)
  then show ?thesis
    using assms(2) thread_state_ok [OF service_phases_threads [OF serving(4,3)]] by simp
next
  case (activating a n s)
  then show ?thesis using assms(2) set_active_cases [OF activating(2)] by (auto simp: threads_ok_def)
qed (use assms(2) in \<open>simp_all add: threads_ok_def clear_data_def push_request_def addDevice_def remDevice_def
    changeDeviceId_def\<close>)

lemma deliver_bus_ok:
  assumes "deliver_step t t'" and "bus_ok t"
  shows "bus_ok t'"
  using assms(1)
proof cases
  case (taking d s)
  then show ?thesis
    using assms(2) wait_for_request_part [OF taking(3)] bus_part_ok [of s t] by (simp add: bus_ok_def)
next
  case (polling beyond s phases)
  have "blocks_ok s"
    using polling(3) assms(2)
    by (cases rule: phase_vector_cases) (auto simp: bus_ok_def blocks_ok_def copy_n_def COMMAND_LEN_def split: if_splits)
  then show ?thesis using polling serving_ok_polling [OF polling(3)] by (simp add: bus_ok_def)
next
  case (serving phases process send s)
  have "blocks_ok s" "serving_ok t"
    using assms(2) service_phases_blocks [OF serving(4,3)] by (simp_all add: bus_ok_def)
  then show ?thesis
    using serving service_phases_mode [OF serving(4)] by (auto simp: bus_ok_def serving_ok_def)
next
  case (activating a n s)
  then show ?thesis using assms(2) set_active_cases [OF activating(2)] bus_part_ok [of s t] by (auto simp: bus_ok_def)
qed (use assms(2) in \<open>simp_all add: bus_ok_def bus_part_ok [OF bus_part_threads(1)] bus_part_ok [OF bus_part_threads(2)]
    bus_part_ok [OF bus_part_threads(3)] bus_part_ok [OF bus_part_threads(4)] bus_part_ok [OF bus_part_threads(5)]
    bus_part_ok [OF bus_part_threads(6)]\<close>)

text \<open>Receiving touches only the connection and the data of the reading thread.\<close>

lemma recv_loop_part:
  "recv_loop rs s = (s', rest) \<Longrightarrow>
   bus_part s' = bus_part s \<and> responses s' = responses s \<and> request_queue s' = request_queue s"
proof (induction rs arbitrary: s)
  case (Cons r rs)
  show ?case
  proof (cases r)
    case (Received xs)
    then show ?thesis
      using Cons.IH [of "s\<lparr>complete_data := complete_data s @ xs\<rparr>"] Cons.prems
      by (auto simp: Let_def bus_part_def split: if_splits)
  qed (use Cons.prems in \<open>auto simp: bus_part_def\<close>)
qed simp

lemma receive_turn_part:
  "receive_turn rs s = Inr (s', ps, rest) \<Longrightarrow>
   bus_part s' = bus_part s \<and> responses s' = responses s \<and> request_queue s' = request_queue s"
  by (auto simp: receive_turn_def sbind_Inr dest: recv_loop_part split: prod.splits if_splits)

lemma thread_step_inv:
  assumes "thread_step t t'" and "thread_inv t"
  shows "thread_inv t'"
  using assms(1)
proof cases
  case delivering
  have "received t' = received t" using delivering by cases simp_all
  then show ?thesis
    using assms(2) deliver_threads_ok [OF delivering] deliver_bus_ok [OF delivering] deliver_account(1) [OF delivering]
    by (auto simp: thread_inv_parts intro: subset_mset.order_trans)
next
  case (connecting c)
  then show ?thesis
    using assms(2) bus_part_ok [OF bus_part_threads(7)]
    by (simp add: thread_inv_def account_simps)
next
  case (receiving rs s ps rest)
  have "accounted t' = accounted t + mset (filter (\<lambda>p. p \<noteq> []) ps)"
    using receiving receive_turn_part [OF receiving(4)] by (simp add: account_simps)
  then show ?thesis
    using assms(2) receiving receive_turn_part [OF receiving(4)] bus_part_ok [of s t]
    by (simp add: thread_inv_def)
qed

text \<open>
  (C15) Whatever the order in which the reading thread, the request thread, the bus and changes of
  its chain take their turns at the locks, and whatever the devices do with what is theirs: the
  invariant holds.  The map is in order, no empty packet reaches the queue, the buffers keep their
  sizes, no packet is delivered twice or made up, and the bus is in command mode exactly while it
  serves the request it has taken last, decoded, and with its header in the command packet.
\<close>

theorem bus_invariant:
  assumes "thread_step\<^sup>*\<^sup>* threads_start t"
  shows "thread_inv t"
  using assms
proof (induction rule: rtranclp_induct)
  case base
  show ?case
    by (simp add: thread_inv_def threads_start_def bus_start_def packets_ok_def keys_ascend_def blocks_ok_def
        serving_ok_def account_simps)
next
  case (step t t')
  then show ?case by (blast intro: thread_step_inv)
qed

section \<open>Delivery\<close>

definition at_rest :: "threads \<Rightarrow> bool" where
  "at_rest t \<longleftrightarrow> reader t = Receiving \<and> responses (shared t) = [] \<and> requester t = None"

text \<open>Packets with different first bytes are not replaced in the map.\<close>

definition keys_differ :: "threads \<Rightarrow> bool" where
  "keys_differ t \<longleftrightarrow> distinct (map fst (responses (shared t)) @ map hd (pending t)) \<and> is_connected (shared t) \<and>
     [] \<notin> snd ` set (responses (shared t))"

lemma map_assign_distinct:
  "distinct (map fst m) \<Longrightarrow> k \<notin> set (map fst m) \<Longrightarrow> distinct (map fst (map_assign k v m))"
  using map_assign_keys by (induction k v m rule: map_assign.induct) auto

lemma deliver_distinct:
  assumes "deliver_step t t'" and "keys_differ t"
  shows "keys_differ t'" and "accounted t' = accounted t"
proof -
  have same: "keys_differ t' \<and> accounted t' = accounted t"
    if "thread_state (shared t') = thread_state (shared t)" "reader t' = reader t" "requester t' = requester t" "handled t' = handled t"
    using that assms(2) by (simp add: keys_differ_def account_simps)
  have "keys_differ t' \<and> accounted t' = accounted t"
    using assms(1)
  proof cases
    case (storing p ps)
    show ?thesis
    proof (cases "p = []")
      case True
      then show ?thesis using storing assms(2) by (simp add: keys_differ_def account_simps store_packet_def)
    next
      case False
      let ?m = "responses (shared t)"
      have d: "hd p \<notin> set (map fst ?m)" "distinct (map fst ?m)"
        "distinct (map hd (filter (\<lambda>p. p \<noteq> []) ps))" "hd p \<notin> set (map hd (filter (\<lambda>p. p \<noteq> []) ps))"
        "set (map fst ?m) \<inter> set (map hd (filter (\<lambda>p. p \<noteq> []) ps)) = {}" "is_connected (shared t)"
        using assms(2) storing(2) False by (auto simp: keys_differ_def pending_def)
      have s: "store_packet p (shared t) = (shared t)\<lparr>responses := map_assign (hd p) p ?m\<rparr>"
        using False by (simp add: store_packet_def hd_conv_nth)
      have "image_mset snd (mset (map_assign (hd p) p ?m)) = add_mset p (image_mset snd (mset ?m))"
        using map_assign_new [OF d(1)] by simp
      then have "accounted t' = accounted t" using storing False by (simp add: account_simps s)
      moreover have "keys_differ t'"
        using storing d map_assign_distinct [OF d(2,1), of p] map_assign_keys [of "hd p" p ?m]
          map_assign_entries [of "hd p" p ?m] assms(2) False
        by (auto simp: keys_differ_def pending_def s)
      ultimately show ?thesis by simp
    qed
  next
    case clearing
    then show ?thesis using assms(2) by (simp add: keys_differ_def account_simps clear_data_def)
  next
    case (taking d s)
    then obtain k m where m: "responses (shared t) = (k, d) # m" "s = (shared t)\<lparr>responses := m\<rparr>"
      using assms(2) by (auto simp: keys_differ_def wait_for_request_def split: if_splits list.splits)
    have "pending t' = pending t" using taking by (simp add: pending_def)
    then show ?thesis
      using taking m assms(2) by (auto simp: keys_differ_def accounted_def delivered_def packets_held_def)
  next
    case (pushing d)
    then show ?thesis using assms(2) by (simp add: keys_differ_def account_simps push_request_def)
  next
    case (polling beyond s phases)
    from polling(3) show ?thesis
      by (cases rule: phase_vector_cases) (use polling assms(2) in \<open>auto simp: keys_differ_def account_simps\<close>)
  next
    case (serving phases process send s)
    then show ?thesis using service_phases_threads [OF serving(4,3)] by (intro same) simp_all
  next
    case (activating a n s)
    then show ?thesis using set_active_cases [OF activating(2)] by (intro same) (auto simp: thread_state_def)
  qed (rule same; simp)+
  then show "keys_differ t'" "accounted t' = accounted t" by simp_all
qed

lemma deliver_steps_distinct:
  assumes "deliver_step\<^sup>*\<^sup>* t t'" and "keys_differ t"
  shows "keys_differ t' \<and> accounted t' = accounted t \<and> (\<exists>new. delivered t' = delivered t @ new)"
  using assms
proof (induction rule: rtranclp_induct)
  case (step u v)
  then show ?case
    using deliver_distinct [OF step(2)] deliver_account(2) [OF step(2)] by auto
qed simp

text \<open>As long as something is to be delivered one of the two threads can go on.\<close>

definition work_left :: "threads \<Rightarrow> nat" where
  "work_left t = (case reader t of Receiving \<Rightarrow> 0 | Storing ps \<Rightarrow> 4 * length ps + 1) +
     2 * length (responses (shared t)) + (if requester t = None then 0 else 1)"

lemma deliver_progress:
  assumes "is_connected (shared t)" and "\<not> at_rest t"
  shows "\<exists>t'. deliver_step t t' \<and> work_left t' < work_left t \<and> is_connected (shared t')"
proof (cases "reader t")
  case (Storing ps)
  show ?thesis
  proof (cases ps)
    case Nil
    then show ?thesis
      using deliver_step.clearing [of t] Storing assms(1)
      by (intro exI [of _ "t\<lparr>shared := clear_data (shared t), reader := Receiving\<rparr>"])
        (simp add: work_left_def clear_data_def)
  next
    case (Cons p qs)
    then show ?thesis
      using deliver_step.storing [of t p qs] Storing assms(1) map_assign_length [of "p ! 0" p "responses (shared t)"]
      by (intro exI [of _ "t\<lparr>shared := store_packet p (shared t), reader := Storing qs\<rparr>"])
        (auto simp: work_left_def store_packet_def)
  qed
next
  case Receiving
  show ?thesis
  proof (cases "requester t")
    case None
    then obtain k d m where m: "responses (shared t) = (k, d) # m"
      using assms(2) Receiving by (cases "responses (shared t)") (auto simp: at_rest_def)
    then show ?thesis
      using deliver_step.taking [of t d "(shared t)\<lparr>responses := m\<rparr>"] None assms(1)
      by (intro exI [of _ "t\<lparr>shared := (shared t)\<lparr>responses := m\<rparr>, requester := Some d\<rparr>"])
        (simp add: work_left_def wait_for_request_def)
  next
    case (Some d)
    then show ?thesis
      using deliver_step.pushing [of t d] assms(1)
      by (intro exI [of _ "t\<lparr>shared := push_request d (shared t), requester := None\<rparr>"])
        (simp add: work_left_def push_request_def)
  qed
qed

lemma deliver_completes: "is_connected (shared t) \<Longrightarrow> \<exists>t'. deliver_step\<^sup>*\<^sup>* t t' \<and> at_rest t'"
proof (induction "work_left t" arbitrary: t rule: less_induct)
  case less
  show ?case
  proof (cases "at_rest t")
    case False
    then obtain u where u: "deliver_step t u" "work_left u < work_left t" "is_connected (shared u)"
      using deliver_progress less.prems by blast
    then obtain v where "deliver_step\<^sup>*\<^sup>* u v" "at_rest v" using less.hyps by blast
    then show ?thesis using u(1) by (meson converse_rtranclp_into_rtranclp)
  qed blast
qed

text \<open>
  (C25) Requests with different sequence numbers, encoded one after the other and received in one
  go, whatever buffers the socket fills, when nothing else is under way: however the threads then
  take their turns, the delivery can always be completed, and when it is, every request has
  been put into the queue exactly once, behind what was there.  The order is not promised: the map
  gives the smallest number first of those stored so far.
\<close>

theorem requests_delivered:
  assumes "at_rest t" and "is_connected (shared t)" and "complete_data (shared t) = []"
    and "distinct (map request_seq rs)"
    and "one_batch cs (concat (map (\<lambda>r. slip_encode (request_serialize r)) rs))"
  shows "\<exists>u. receive_turn (map Received cs) (shared t) = Inr (u, map request_serialize rs, []) \<and>
    (\<forall>v. deliver_step\<^sup>*\<^sup>* (t\<lparr>shared := u, reader := Storing (map request_serialize rs)\<rparr>) v \<longrightarrow>
       (\<exists>w. deliver_step\<^sup>*\<^sup>* v w \<and> at_rest w) \<and>
       (at_rest v \<longrightarrow> (\<exists>new. handled v @ request_queue (shared v) = handled t @ request_queue (shared t) @ new \<and>
          mset new = mset (map request_serialize rs))))"
proof -
  let ?xs = "concat (map (\<lambda>r. slip_encode (request_serialize r)) rs)"
  let ?ps = "map request_serialize rs"
  let ?u = "(shared t)\<lparr>complete_data := ?xs\<rparr>"
  let ?t = "t\<lparr>shared := ?u, reader := Storing ?ps\<rparr>"
  have "recv_loop (map Received cs) (shared t) = (?u, [])"
    using assms(3,5) by (simp add: one_batch_def recv_loop_batch)
  moreover have "?xs = [] \<longleftrightarrow> rs = []" by (cases rs) (simp_all add: slip_encode_stuff)
  ultimately have turn: "receive_turn (map Received cs) (shared t) = Inr (?u, ?ps, [])"
    using split_frames [of ?xs] by (simp add: receive_turn_def frames_requests comp_def)
  have ne: "filter (\<lambda>p. p \<noteq> []) ?ps = ?ps" using request_wire(1) by (auto simp: filter_id_conv)
  have start: "keys_differ ?t" "accounted ?t = mset (delivered t) + mset ?ps" "delivered ?t = delivered t"
    using assms(1,2,4) ne request_wire(2) by (simp_all add: keys_differ_def at_rest_def account_simps comp_def)
  have "(\<exists>w. deliver_step\<^sup>*\<^sup>* v w \<and> at_rest w) \<and>
      (at_rest v \<longrightarrow> (\<exists>new. delivered v = delivered t @ new \<and> mset new = mset ?ps))"
    if "deliver_step\<^sup>*\<^sup>* ?t v" for v
  proof -
    have v: "keys_differ v" "accounted v = accounted ?t" "\<exists>new. delivered v = delivered t @ new"
      using deliver_steps_distinct [OF that start(1)] start(3) by auto
    have "\<exists>new. delivered v = delivered t @ new \<and> mset new = mset ?ps" if "at_rest v"
      using v start(2) that by (auto simp: accounted_def at_rest_def packets_held_def pending_def)
    then show ?thesis using deliver_completes v(1) by (auto simp: keys_differ_def)
  qed
  then show ?thesis using turn by (auto simp: delivered_def)
qed

section \<open>Examples\<close>

text \<open>Two requests, the one with the larger sequence number first on the wire.\<close>

definition two_requests :: "sp_request list" where
  "two_requests = [OpenReq (OpenRequest_new 9 1), CloseReq (CloseRequest_new 2 1)]"

definition connected_start :: threads where
  "connected_start = threads_start\<lparr>shared := bus_start\<lparr>is_connected := True\<rparr>\<rparr>"

lemma two_requests_wire:
  "map request_serialize two_requests = [[9, 6, 1], [2, 7, 1]]" "distinct (map request_seq two_requests)"
  "concat (map (\<lambda>r. slip_encode (request_serialize r)) two_requests) = [0xC0, 9, 6, 1, 0xC0, 0xC0, 2, 7, 1, 0xC0]"
  by (simp_all add: two_requests_def OpenRequest_new_def CloseRequest_new_def request_serializes
      request_getters sp_codes slip_encode_stuff stuff_def stuff1_def slip_bytes)

theorem requests_delivered_witness:
  "\<exists>u w. receive_turn [Received [0xC0, 9, 6, 1, 0xC0, 0xC0, 2, 7, 1, 0xC0]] (shared connected_start) =
       Inr (u, [[9, 6, 1], [2, 7, 1]], []) \<and>
     deliver_step\<^sup>*\<^sup>* (connected_start\<lparr>shared := u, reader := Storing [[9, 6, 1], [2, 7, 1]]\<rparr>) w \<and>
     mset (handled w @ request_queue (shared w)) = {#[2, 7, 1], [9, 6, 1]#}"
proof -
  have c: "at_rest connected_start" "is_connected (shared connected_start)" "complete_data (shared connected_start) = []"
    "handled connected_start = []" "request_queue (shared connected_start) = []"
    by (simp_all add: at_rest_def connected_start_def threads_start_def bus_start_def)
  have b: "one_batch [[0xC0, 9, 6, 1, 0xC0, 0xC0, 2, 7, 1, 0xC0]]
      (concat (map (\<lambda>r. slip_encode (request_serialize r)) two_requests))"
    unfolding two_requests_wire by (simp add: one_batch_def)
  from requests_delivered [OF c(1-3) two_requests_wire(2) b, unfolded c two_requests_wire]
  obtain u where u: "receive_turn [Received [0xC0, 9, 6, 1, 0xC0, 0xC0, 2, 7, 1, 0xC0]] (shared connected_start) =
      Inr (u, [[9, 6, 1], [2, 7, 1]], [])"
    and all: "\<And>v. deliver_step\<^sup>*\<^sup>* (connected_start\<lparr>shared := u, reader := Storing [[9, 6, 1], [2, 7, 1]]\<rparr>) v \<Longrightarrow>
      (\<exists>w. deliver_step\<^sup>*\<^sup>* v w \<and> at_rest w) \<and>
      (at_rest v \<longrightarrow> (\<exists>new. handled v @ request_queue (shared v) = [] @ [] @ new \<and> mset new = mset [[9, 6, 1], [2, 7, 1]]))"
    by auto
  obtain w where w: "deliver_step\<^sup>*\<^sup>* (connected_start\<lparr>shared := u, reader := Storing [[9, 6, 1], [2, 7, 1]]\<rparr>) w" "at_rest w"
    using all [OF rtranclp.rtrancl_refl] by blast
  then have "mset (handled w @ request_queue (shared w)) = {#[2, 7, 1], [9, 6, 1]#}"
    using all [OF w(1)] by (auto simp: add_mset_commute)
  then show ?thesis using u w(1) by blast
qed

theorem bus_invariant_witness: "thread_inv connected_start"
  using bus_invariant [of connected_start] thread_step.connecting [of threads_start True]
  by (simp add: connected_start_def threads_start_def r_into_rtranclp)

text \<open>The larger number may be queued before the smaller one is stored.\<close>

lemma larger_number_first:
  "\<exists>w. deliver_step\<^sup>*\<^sup>* (connected_start\<lparr>reader := Storing [[9, 6, 1], [2, 7, 1]]\<rparr>) w \<and>
     request_queue (shared w) = [[9, 6, 1]] \<and> reader w = Storing [[2, 7, 1]]"
proof -
  let ?t = "connected_start\<lparr>reader := Storing [[9, 6, 1], [2, 7, 1]]\<rparr>"
  let ?s = "(shared ?t)\<lparr>responses := []\<rparr>"
  let ?t1 = "?t\<lparr>shared := store_packet [9, 6, 1] (shared ?t), reader := Storing [[2, 7, 1]]\<rparr>"
  let ?t2 = "?t1\<lparr>shared := ?s, requester := Some [9, 6, 1]\<rparr>"
  let ?t3 = "?t2\<lparr>shared := push_request [9, 6, 1] (shared ?t2), requester := None\<rparr>"
  have 1: "deliver_step ?t ?t1" by (intro deliver_step.storing) simp
  have 2: "deliver_step ?t1 ?t2"
    by (intro deliver_step.taking)
      (simp_all add: connected_start_def threads_start_def bus_start_def store_packet_def wait_for_request_def)
  have 3: "deliver_step ?t2 ?t3" by (intro deliver_step.pushing) simp
  have "deliver_step\<^sup>*\<^sup>* ?t ?t3"
    by (rule converse_rtranclp_into_rtranclp [of deliver_step, OF 1],
        rule converse_rtranclp_into_rtranclp [of deliver_step, OF 2],
        rule r_into_rtranclp [of deliver_step, OF 3])
  moreover have "request_queue (shared ?t3) = [[9, 6, 1]]" "reader ?t3 = Storing [[2, 7, 1]]"
    by (simp_all add: push_request_def connected_start_def threads_start_def bus_start_def)
  ultimately show ?thesis by blast
qed

end
