(* ===== verification/Smartport.thy ===== *)
theory Smartport
  imports Fuji_Prelude
begin

text \<open>
  The packet format of the SmartPort bus on the wire, \<open>iwm_sp_ll\<close> in \<open>src/lib/bus/iwm/iwm_ll.cpp\<close>:
  \<open>encode_packet\<close> with its groups of seven bytes and one byte of top bits, \<open>encode_spi_packet\<close>, the
  byte level of \<open>iwm_read_packet_spi\<close> with its running checksum, and \<open>decode_data_packet\<close>.  An
  access outside \<open>packet_buffer\<close> or the block of the caller gives \<open>None\<close>.  The sampling of the line
  and the handshake are not modelled.
\<close>

section \<open>Encoding\<close>

definition BLOCK_PACKET_LEN :: nat where "BLOCK_PACKET_LEN = 604"

definition poke :: "nat \<Rightarrow> byte list \<Rightarrow> byte list \<Rightarrow> byte list option" where
  "poke i xs buf = (if i + length xs \<le> length buf then Some (take i buf @ xs @ drop (i + length xs) buf) else None)"

definition grpmsb :: "byte list \<Rightarrow> byte" where
  "grpmsb group_buffer =
     fold (\<lambda>k m. m OR (drop_bit (k + 1) (group_buffer ! k) AND drop_bit (k + 1) 0x80)) [0..<7] 0"

text \<open>The place of the groups in the packet.\<close>

definition grp_start :: "nat \<Rightarrow> nat" where
  "grp_start numodds = 13 + numodds + (if numodds \<noteq> 0 then 1 else 0) + 1"

text \<open>The loop over the groups, from the last to the first.\<close>

fun encode_groups :: "byte list \<Rightarrow> nat \<Rightarrow> nat \<Rightarrow> byte list \<Rightarrow> byte list option" where
  "encode_groups data numodds 0 buf = Some buf"
| "encode_groups data numodds (Suc grpcount) buf =
     (let group_buffer = take 7 (drop (numodds + grpcount * 7) data);
          grpstart = grp_start numodds
      in Option.bind (poke (grpstart + grpcount * 8) [grpmsb group_buffer OR 0x80] buf) (\<lambda>buf.
         Option.bind (poke (grpstart + 1 + grpcount * 8) (map (\<lambda>b. b OR 0x80) group_buffer) buf) (\<lambda>buf.
         encode_groups data numodds grpcount buf)))"

function odd_loop :: "byte list \<Rightarrow> nat \<Rightarrow> nat \<Rightarrow> byte list \<Rightarrow> byte list option" where
  "odd_loop data numodds oddcnt buf =
     (if oddcnt < numodds
      then Option.bind (poke 14 [buf ! 14 OR drop_bit (1 + oddcnt) (data ! oddcnt AND 0x80)] buf) (\<lambda>buf.
           Option.bind (poke (15 + oddcnt) [data ! oddcnt OR 0x80] buf) (\<lambda>buf.
           odd_loop data numodds (oddcnt + 1) buf))
      else Some buf)"
  by pat_completeness auto
termination
  by (relation "measure (\<lambda>(_, numodds, oddcnt, _). numodds - oddcnt)") auto

declare odd_loop.simps [simp del]

definition encode_data :: "byte list \<Rightarrow> nat \<Rightarrow> nat \<Rightarrow> byte list \<Rightarrow> byte list option" where
  "encode_data data numodds numgrps buf =
     Option.bind (encode_groups data numodds numgrps buf) (\<lambda>buf.
     if numodds \<noteq> 0 then Option.bind (poke 14 [0x80] buf) (odd_loop data numodds 0) else Some buf)"

definition packet_header :: "byte \<Rightarrow> byte \<Rightarrow> byte \<Rightarrow> nat \<Rightarrow> nat \<Rightarrow> byte list" where
  "packet_header source packet_type status numodds numgrps =
     [0xff, 0x3f, 0xcf, 0xf3, 0xfc, 0xff, 0xc3, 0x80, source, packet_type, 0x80, status OR 0x80,
      of_nat numodds OR 0x80, of_nat numgrps OR 0x80]"

text \<open>\<open>encode_packet\<close>; \<open>None\<close> for \<open>data\<close> is the null pointer.\<close>

definition encode_packet_ll :: "byte \<Rightarrow> byte \<Rightarrow> byte \<Rightarrow> byte list option \<Rightarrow> u16 \<Rightarrow> byte list \<Rightarrow> byte list option" where
  "encode_packet_ll source packet_type status data num buf =
     (let some = (data \<noteq> None \<and> num \<noteq> 0);
          checksum = (if some then fold (\<lambda>b c. c XOR b) (take (unat num) (the data)) 0 else 0);
          numgrps = (if some then unat num div 7 else 0);
          numodds = (if some then unat num mod 7 else 0)
      in Option.bind (if some then encode_data (the data) numodds numgrps buf else Some buf) (\<lambda>buf.
         Option.bind (poke 0 (packet_header source packet_type status numodds numgrps) buf) (\<lambda>buf.
         let checksum = fold (\<lambda>b c. c XOR b) (slice buf 7 14) checksum;
             lastidx = 14 + numodds + (if numodds \<noteq> 0 then 1 else 0) + numgrps * 8
         in poke lastidx [checksum OR 0xaa, drop_bit 1 checksum OR 0xaa, 0xc8, 0x00] buf)))"

text \<open>\<open>encode_spi_packet\<close>: two bits of the packet in each byte for the line, up to the zero byte.\<close>

definition spi_pair :: "byte \<Rightarrow> nat \<Rightarrow> byte" where
  "spi_pair b k = (if bit b (7 - 2 * k) then 0x40 else 0) OR (if bit b (6 - 2 * k) then 0x04 else 0)"

definition encode_spi_packet :: "byte list \<Rightarrow> byte list \<times> nat" where
  "encode_spi_packet buf =
     (let spi = concat (map (\<lambda>b. map (spi_pair b) [0..<4]) (takeWhile (\<lambda>b. b \<noteq> 0) buf))
      in (spi, length spi - 1))"

section \<open>Decoding\<close>

definition merge7 :: "byte \<Rightarrow> nat \<Rightarrow> byte \<Rightarrow> byte" where
  "merge7 msb k b = (push_bit (k + 1) msb AND 0x80) OR (b AND 0x7f)"

definition decode_data_packet_ll :: "byte list \<Rightarrow> byte list \<Rightarrow> (byte list \<times> nat) option" where
  "decode_data_packet_ll input_data output_data =
     (let numodd = unat (input_data ! 11 AND 0x7f);
          numgrps = unat (input_data ! 12 AND 0x7f);
          numdata = numodd + numgrps * 7;
          grpstart = 12 + numodd + (if numodd \<noteq> 0 then 1 else 0) + 1;
          odds = map (\<lambda>i. merge7 (input_data ! 13) i (input_data ! (14 + i))) [0..<numodd];
          group = (\<lambda>grpcount. map (\<lambda>k. merge7 (input_data ! (grpstart + grpcount * 8)) k
                                   (input_data ! (grpstart + grpcount * 8 + (k + 1)))) [0..<7])
      in if grpstart + numgrps * 8 \<le> length input_data
         then map_option (\<lambda>out. (out, numdata)) (poke 0 (odds @ concat (map group [0..<numgrps])) output_data)
         else None)"

section \<open>The format\<close>

text \<open>A group on the wire: the top bits, then the bytes, each with its top bit set.\<close>

definition TOP :: byte where "TOP = 0x80"

definition LOW :: byte where "LOW = 0x7f"

definition msbs :: "byte list \<Rightarrow> byte" where
  "msbs ds = fold (\<lambda>k m. m OR drop_bit (k + 1) (ds ! k AND TOP)) [0..<length ds] TOP"

definition pack7 :: "byte list \<Rightarrow> byte list" where
  "pack7 ds = (if ds = [] then [] else msbs ds # map (\<lambda>b. b OR TOP) ds)"

fun groups7 :: "byte list \<Rightarrow> nat \<Rightarrow> byte list" where
  "groups7 ds 0 = []"
| "groups7 ds (Suc n) = pack7 (take 7 ds) @ groups7 (drop 7 ds) n"

lemma poke_before: "i + length xs = length p \<Longrightarrow> poke i xs (p @ rest) = Some (take i p @ xs @ rest)"
  by (auto simp: poke_def)

lemma byte_bits: "bit (b :: byte) j \<Longrightarrow> j \<in> {0, 1, 2, 3, 4, 5, 6, 7}"
  using bit_imp_le_length [of b j] by auto

lemma bit_TOP: "bit TOP j \<longleftrightarrow> j = 7"
proof
  show "bit TOP j \<Longrightarrow> j = 7" using byte_bits [of TOP j] by (auto simp: TOP_def)
qed (simp add: TOP_def)

lemma bit_LOW: "bit LOW j \<longleftrightarrow> j < 7"
proof
  show "bit LOW j \<Longrightarrow> j < 7" using byte_bits [of LOW j] by (auto simp: LOW_def)
  assume "j < 7"
  then have "j \<in> {0, 1, 2, 3, 4, 5, 6}" by auto
  then show "bit LOW j" by (auto simp: LOW_def)
qed

lemma bit_shifted_top: "bit (drop_bit (n + 1) (d AND TOP)) j \<longleftrightarrow> j + n + 1 = 7 \<and> bit d 7"
  by (auto simp: bit_drop_bit_eq bit_and_iff bit_TOP add.commute)

lemma msbs_bit_step:
  "bit (fold (\<lambda>k m. m OR drop_bit (k + 1) (ds ! k AND TOP)) [0..<n] TOP) j
   \<longleftrightarrow> j = 7 \<or> (\<exists>k<n. j + k + 1 = 7 \<and> bit (ds ! k) 7)"
proof (induction n)
  case (Suc n)
  have "bit (fold (\<lambda>k m. m OR drop_bit (k + 1) (ds ! k AND TOP)) [0..<Suc n] TOP) j \<longleftrightarrow>
      bit (fold (\<lambda>k m. m OR drop_bit (k + 1) (ds ! k AND TOP)) [0..<n] TOP) j \<or> j + n + 1 = 7 \<and> bit (ds ! n) 7"
    by (simp add: bit_or_iff bit_shifted_top [simplified])
  then show ?case unfolding Suc.IH by (auto simp: less_Suc_eq)
qed (simp add: bit_TOP)

lemma bit_msbs: "bit (msbs ds) j \<longleftrightarrow> j = 7 \<or> (\<exists>k<length ds. j + k + 1 = 7 \<and> bit (ds ! k) 7)"
  unfolding msbs_def by (rule msbs_bit_step)

text \<open>Undoing the packing, byte by byte.\<close>

lemma merge7_msbs:
  assumes "k < length ds" and "length ds \<le> 7"
  shows "merge7 (msbs ds) k (ds ! k OR TOP) = ds ! k"
proof (rule bit_word_eqI)
  fix j assume j: "j < LENGTH(8)"
  have "bit (msbs ds) (6 - k) \<longleftrightarrow> (\<exists>i<length ds. (6 - k) + i + 1 = 7 \<and> bit (ds ! i) 7)"
    using assms by (auto simp: bit_msbs)
  also have "\<dots> \<longleftrightarrow> (\<exists>i<length ds. i = k \<and> bit (ds ! i) 7)" using assms by (intro ex_cong) linarith
  finally have "bit (msbs ds) (6 - k) \<longleftrightarrow> bit (ds ! k) 7" using assms(1) by auto
  then show "bit (merge7 (msbs ds) k (ds ! k OR TOP)) j \<longleftrightarrow> bit (ds ! k) j"
    using assms j unfolding merge7_def TOP_def [symmetric] LOW_def [symmetric] bit_or_iff bit_and_iff bit_push_bit_iff
    by (cases "j = 7") (auto simp: bit_TOP bit_LOW)
qed

text \<open>The two ways in which the code collects the top bits are the same.\<close>

lemma grpmsb_msbs:
  assumes "length ds = 7"
  shows "grpmsb ds OR TOP = msbs ds"
proof -
  have "fold (\<lambda>k m. m OR (drop_bit (k + 1) (ds ! k) AND drop_bit (k + 1) TOP)) ks a OR TOP
      = fold (\<lambda>k m. m OR drop_bit (k + 1) (ds ! k AND TOP)) ks (a OR TOP)" for ks a
    by (induction ks arbitrary: a) (simp_all add: drop_bit_and ac_simps)
  from this [of "[0..<7]" 0] show ?thesis
    using assms unfolding grpmsb_def msbs_def TOP_def [symmetric] by simp
qed

section \<open>The encoded packet\<close>

lemma length_pack7: "ds \<noteq> [] \<Longrightarrow> length (pack7 ds) = length ds + 1"
  by (simp add: pack7_def)

lemma length_pack7_full: "7 \<le> length ds \<Longrightarrow> length (pack7 (take 7 ds)) = 8"
  by (cases ds) (auto simp: pack7_def)

lemma groups7_Suc: "7 * Suc n \<le> length ds \<Longrightarrow> groups7 ds (Suc n) = groups7 ds n @ pack7 (take 7 (drop (7 * n) ds))"
proof (induction n arbitrary: ds)
  case (Suc n)
  then have "groups7 (drop 7 ds) (Suc n) = groups7 (drop 7 ds) n @ pack7 (take 7 (drop (7 * n) (drop 7 ds)))"
    by (intro Suc.IH) simp
  then show ?case by (simp add: add.commute)
qed simp

lemma length_groups7: "7 * n \<le> length ds \<Longrightarrow> length (groups7 ds n) = 8 * n"
proof (induction n)
  case (Suc n)
  then have "take 7 (drop (7 * n) ds) \<noteq> []" by auto
  then show ?case using Suc by (subst groups7_Suc) (auto simp: length_pack7)
qed simp

text \<open>The groups, written from the back, leave everything before and after them alone.\<close>

lemma encode_groups_result:
  assumes "numodds + 7 * n \<le> length data" and "length p = grp_start numodds + 8 * n"
  shows "encode_groups data numodds n (p @ rest) =
    Some (take (grp_start numodds) p @ groups7 (drop numodds data) n @ rest)"
  using assms
proof (induction n arbitrary: p rest)
  case (Suc n)
  let ?g = "take 7 (drop (numodds + n * 7) data)"
  let ?i = "grp_start numodds + n * 8"
  have g: "length ?g = 7" "?g \<noteq> []" using Suc.prems(1) by auto
  have p: "?i + 8 = length p" using Suc.prems(2) by simp
  have 1: "poke ?i [grpmsb ?g OR 0x80] (p @ rest) =
      Some ((take ?i p @ [msbs ?g]) @ drop (?i + 1) p @ rest)"
    using p grpmsb_msbs [OF g(1)] by (simp add: poke_def TOP_def)
  have 2: "poke (grp_start numodds + 1 + n * 8) (map (\<lambda>b. b OR 0x80) ?g) ((take ?i p @ [msbs ?g]) @ drop (?i + 1) p @ rest) =
      Some (take ?i p @ pack7 ?g @ rest)"
    using p g by (simp add: poke_def pack7_def TOP_def)
  have "encode_groups data numodds n (take ?i p @ pack7 ?g @ rest) =
      Some (take (grp_start numodds) (take ?i p) @ groups7 (drop numodds data) n @ pack7 ?g @ rest)"
    using Suc.prems p by (intro Suc.IH) auto
  moreover have "groups7 (drop numodds data) (Suc n) = groups7 (drop numodds data) n @ pack7 ?g"
    using Suc.prems(1) groups7_Suc [of n "drop numodds data"] by (simp add: ac_simps)
  ultimately show ?case
    unfolding encode_groups.simps Let_def 1 bind.simps 2 by (simp add: min_def)
qed simp

text \<open>The top bits of the first bytes of a list.\<close>

primrec msb_upto :: "byte list \<Rightarrow> nat \<Rightarrow> byte" where
  "msb_upto ds 0 = TOP"
| "msb_upto ds (Suc k) = msb_upto ds k OR drop_bit (1 + k) (ds ! k AND 0x80)"

lemma msb_upto_fold: "msb_upto ds n = fold (\<lambda>k m. m OR drop_bit (k + 1) (ds ! k AND TOP)) [0..<n] TOP"
  by (induction n) (simp_all add: TOP_def del: drop_bit_and)

lemma msbs_take: "n \<le> length ds \<Longrightarrow> msbs (take n ds) = msb_upto ds n"
  unfolding msbs_def msb_upto_fold by (simp del: drop_bit_and) (rule fold_cong; simp del: drop_bit_and)

lemma odd_loop_result:
  assumes "length p = 14" and "k \<le> n" and "n \<le> length data" and "length q = n - k"
  shows "odd_loop data n k (p @ msb_upto data k # map (\<lambda>b. b OR TOP) (take k data) @ q @ rest) =
    Some (p @ msb_upto data n # map (\<lambda>b. b OR TOP) (take n data) @ rest)"
  using assms
proof (induction "n - k" arbitrary: k q)
  case 0
  then show ?case by (simp add: odd_loop.simps)
next
  case (Suc d)
  then obtain x q' where q: "q = x # q'" by (cases q) auto
  let ?t = "map (\<lambda>b. b OR TOP) (take k data)"
  let ?m = "msb_upto data k OR drop_bit (1 + k) (data ! k AND 0x80)"
  have m: "?m = msb_upto data (Suc k)" by simp
  have len: "length ?t = k" using Suc by simp
  have 1: "poke 14 [?m] (p @ msb_upto data k # ?t @ q @ rest) = Some (p @ ?m # ?t @ q @ rest)"
    using Suc.prems(1) by (simp add: poke_def)
  have 2: "poke (15 + k) [data ! k OR 0x80] (p @ ?m # ?t @ q @ rest) =
      Some (p @ ?m # ?t @ (data ! k OR 0x80) # q' @ rest)"
    using Suc.prems(1) len by (simp add: poke_def q)
  have t: "?t @ (data ! k OR 0x80) # q' @ rest = map (\<lambda>b. b OR TOP) (take (Suc k) data) @ q' @ rest"
    using Suc by (simp add: take_Suc_conv_app_nth TOP_def)
  have n14: "(p @ msb_upto data k # ?t @ q @ rest) ! 14 = msb_upto data k" and lt: "k < n"
    using Suc by (simp_all add: nth_append)
  have "odd_loop data n k (p @ msb_upto data k # ?t @ q @ rest) =
      odd_loop data n (k + 1) (p @ msb_upto data (Suc k) # map (\<lambda>b. b OR TOP) (take (Suc k) data) @ q' @ rest)"
    unfolding odd_loop.simps [of data n k] by (simp only: lt if_True n14 m 1 [unfolded m] 2 [unfolded m] bind.simps t)
  moreover have "odd_loop data n (Suc k)
      (p @ msb_upto data (Suc k) # map (\<lambda>b. b OR TOP) (take (Suc k) data) @ q' @ rest) =
      Some (p @ msb_upto data n # map (\<lambda>b. b OR TOP) (take n data) @ rest)"
    using Suc.hyps(2) Suc.prems q by (intro Suc.hyps(1)) auto
  ultimately show ?case by (simp only: Suc_eq_plus1)
qed

text \<open>The data part of a packet: the odd bytes with their top bits, then the groups.\<close>

definition data_part :: "byte list \<Rightarrow> nat \<Rightarrow> nat \<Rightarrow> byte list" where
  "data_part data numodds numgrps = pack7 (take numodds data) @ groups7 (drop numodds data) numgrps"

lemma length_data_part:
  "numodds + 7 * numgrps \<le> length data \<Longrightarrow>
   length (data_part data numodds numgrps) = grp_start numodds + 8 * numgrps - 14"
  by (cases "numodds = 0") (auto simp: data_part_def length_groups7 pack7_def grp_start_def)

lemma encode_data_result:
  assumes "numodds + 7 * numgrps \<le> length data" and "length p = 14"
    and "length q = length (data_part data numodds numgrps)"
  shows "encode_data data numodds numgrps (p @ q @ rest) = Some (p @ data_part data numodds numgrps @ rest)"
proof -
  let ?g = "groups7 (drop numodds data) numgrps"
  let ?s = "grp_start numodds"
  have q: "length (p @ q) = ?s + 8 * numgrps"
    using assms length_data_part [OF assms(1)] by (simp add: grp_start_def)
  have g: "encode_groups data numodds numgrps ((p @ q) @ rest) = Some (p @ take (?s - 14) q @ ?g @ rest)"
    using encode_groups_result [OF assms(1) q, of rest] assms(2) by (simp add: grp_start_def)
  show ?thesis
  proof (cases "numodds = 0")
    case True
    then show ?thesis using g by (simp add: encode_data_def data_part_def pack7_def grp_start_def)
  next
    case False
    have "length (take (?s - 14) q) = numodds + 1" using False q assms(2) by (simp add: grp_start_def)
    then obtain x q' where x: "take (?s - 14) q = x # q'" "length q' = numodds" by (cases "take (?s - 14) q") auto
    have "poke 14 [0x80] (p @ (x # q') @ ?g @ rest) = Some (p @ msb_upto data 0 # q' @ ?g @ rest)"
      using assms(2) by (simp add: poke_def TOP_def)
    moreover have "data \<noteq> []" using False assms(1) by auto
    ultimately show ?thesis
      using g x False odd_loop_result [OF assms(2), of 0 numodds data q' "?g @ rest"] assms(1)
      by (simp add: encode_data_def data_part_def pack7_def msbs_take del: drop_bit_and)
  qed
qed

definition xor_all :: "byte list \<Rightarrow> byte \<Rightarrow> byte" where
  "xor_all xs c = fold (\<lambda>b c. c XOR b) xs c"

definition packet_bytes :: "byte \<Rightarrow> byte \<Rightarrow> byte \<Rightarrow> byte list \<Rightarrow> byte list" where
  "packet_bytes source packet_type status ds =
     (let h = packet_header source packet_type status (length ds mod 7) (length ds div 7);
          c = xor_all (drop 7 h) (xor_all ds 0)
      in h @ data_part ds (length ds mod 7) (length ds div 7) @ [c OR 0xaa, drop_bit 1 c OR 0xaa, 0xc8, 0x00])"

lemma length_packet_header [simp]: "length (packet_header source packet_type status numodds numgrps) = 14"
  by (simp add: packet_header_def)

lemma odds_and_groups: "length ds mod 7 + 7 * (length ds div 7) = length (ds :: 'a list)"
  by simp

lemma length_packet_bytes:
  "length (packet_bytes source packet_type status ds) = grp_start (length ds mod 7) + 8 * (length ds div 7) + 4"
  by (simp add: packet_bytes_def Let_def packet_header_def length_data_part grp_start_def)

text \<open>The packet fits into the buffer exactly up to the 512 bytes of a block.\<close>

lemma packet_fits: "length (packet_bytes source packet_type status ds) \<le> BLOCK_PACKET_LEN \<longleftrightarrow> length ds \<le> 512"
proof -
  define o' where "o' = length ds mod 7"
  define g where "g = length ds div 7"
  have "length ds = 7 * g + o'" "o' < 7" by (simp_all add: o'_def g_def)
  then show ?thesis
    unfolding length_packet_bytes BLOCK_PACKET_LEN_def grp_start_def o'_def [symmetric] g_def [symmetric]
    by (cases "o' = 0") auto
qed

text \<open>The bytes the encoder is given: none for a null pointer.\<close>

definition given_bytes :: "byte list option \<Rightarrow> u16 \<Rightarrow> byte list" where
  "given_bytes data num = (case data of None \<Rightarrow> [] | Some d \<Rightarrow> take (unat num) d)"

lemma groups7_take: "groups7 (take (7 * n) ds) n = groups7 ds n"
proof (induction n arbitrary: ds)
  case (Suc n)
  then show ?case by (simp add: drop_take)
qed simp

lemma data_part_take:
  assumes "n = o' + 7 * g"
  shows "data_part (take n d) o' g = data_part d o' g"
  using assms groups7_take [of g "drop o' d"] by (simp add: data_part_def drop_take)

lemma encode_packet_result:
  assumes "length buf = BLOCK_PACKET_LEN" and "length ds \<le> 512" and "ds = given_bytes data num"
    and "data \<noteq> None \<Longrightarrow> unat num \<le> length (the data)"
  shows "encode_packet_ll source packet_type status data num buf =
    Some (packet_bytes source packet_type status ds @
      drop (length (packet_bytes source packet_type status ds)) buf)"
proof -
  let ?o = "length ds mod 7" and ?g = "length ds div 7"
  let ?some = "data \<noteq> None \<and> num \<noteq> 0"
  let ?h = "packet_header source packet_type status ?o ?g"
  let ?part = "data_part ds ?o ?g"
  have len: "(if ?some then unat num else 0) = length ds" and ds: "?some \<Longrightarrow> ds = take (unat num) (the data)"
    and empty: "\<not> ?some \<Longrightarrow> ds = []"
    using assms(3,4) by (auto simp: given_bytes_def split: option.splits)
  define p q rest where "p = take 14 buf" and "q = take (length ?part) (drop 14 buf)"
    and "rest = drop (length ?part) (drop 14 buf)"
  have fit: "14 + length ?part + 4 \<le> length buf"
    using packet_fits [of source packet_type status ds] assms(1,2)
    by (simp add: packet_bytes_def Let_def packet_header_def)
  have buf: "buf = p @ q @ rest" "length p = 14" "length q = length ?part" "length rest \<ge> 4"
    using fit by (simp_all add: p_def q_def rest_def del: drop_drop)
  have enc: "(if ?some then encode_data (the data) ?o ?g buf else Some buf) = Some (p @ ?part @ rest)"
  proof (cases ?some)
    case True
    have "?part = data_part (the data) ?o ?g"
      using ds [OF True] data_part_take [of "unat num" ?o ?g "the data"] len True by simp
    moreover have "?o + 7 * ?g \<le> length (the data)" using assms(4) len True by simp
    ultimately show ?thesis
      using encode_data_result [of ?o ?g "the data" p q rest] buf True by simp
  next
    case False
    then have "?part = []" using empty by (simp add: data_part_def pack7_def)
    then have "buf = p @ ?part @ rest" using buf by simp
    then show ?thesis using False by (simp only: if_False)
  qed
  have hdr: "poke 0 ?h (p @ ?part @ rest) = Some (?h @ ?part @ rest)"
    using buf(2) by (simp add: poke_def packet_header_def)
  have sl: "slice (?h @ ?part @ rest) 7 14 = drop 7 ?h" by (simp add: slice_def packet_header_def)
  let ?c = "xor_all (drop 7 ?h) (xor_all ds 0)"
  let ?tail = "[?c OR 0xaa, drop_bit 1 ?c OR 0xaa, 0xc8, 0x00]"
  have last: "14 + ?o + (if ?o \<noteq> 0 then 1 else 0) + ?g * 8 = length (?h @ ?part)"
    by (simp add: packet_header_def length_data_part grp_start_def)
  have "poke (length (?h @ ?part)) ?tail ((?h @ ?part) @ rest) = Some ((?h @ ?part) @ ?tail @ drop 4 rest)"
    using buf(4) by (simp add: poke_def)
  moreover have "drop (length (packet_bytes source packet_type status ds)) buf = drop 4 rest"
    by (simp add: rest_def packet_bytes_def Let_def add.commute)
  moreover have "(if ?some then unat num div 7 else 0) = ?g" "(if ?some then unat num mod 7 else 0) = ?o"
    "(if ?some then fold (\<lambda>b c. c XOR b) (take (unat num) (the data)) 0 else 0) = xor_all ds 0"
    using len ds empty by (auto simp: xor_all_def)
  ultimately show ?thesis
    unfolding encode_packet_ll_def Let_def
    by (simp only: enc hdr sl last bind.simps append.assoc xor_all_def [symmetric] packet_bytes_def Let_def)
qed

lemma poke_out: "length buf < i + length xs \<Longrightarrow> poke i xs buf = None"
  by (simp add: poke_def)

lemma poke_length: "poke i xs buf = Some buf' \<Longrightarrow> length buf' = length buf"
  by (auto simp: poke_def split: if_splits)

lemma encode_groups_out:
  assumes "numodds + 7 * n \<le> length data" and "length buf < grp_start numodds + 8 * n" and "0 < n"
  shows "encode_groups data numodds n buf = None"
proof -
  obtain m where m: "n = Suc m" using assms(3) by (cases n) auto
  let ?g = "take 7 (drop (numodds + m * 7) data)"
  have "poke (grp_start numodds + 1 + m * 8) (map (\<lambda>b. b OR 0x80) ?g) b = None"
    if "poke i x buf = Some b" for i x b
    using poke_length [OF that] assms(1,2) m by (intro poke_out) simp
  then show ?thesis
    unfolding m encode_groups.simps Let_def
    by (cases "poke (grp_start numodds + m * 8) [grpmsb ?g OR 0x80] buf") auto
qed

lemma encode_data_length:
  assumes "numodds + 7 * numgrps \<le> length data" and "grp_start numodds + 8 * numgrps \<le> length buf"
  shows "\<exists>buf'. encode_data data numodds numgrps buf = Some buf' \<and> length buf' = length buf"
proof -
  let ?n = "length (data_part data numodds numgrps)"
  have n: "14 + ?n \<le> length buf" using assms length_data_part [OF assms(1)] by (simp add: grp_start_def)
  have "buf = take 14 buf @ take ?n (drop 14 buf) @ drop ?n (drop 14 buf)" by (simp del: drop_drop)
  moreover have "length (take 14 buf) = 14" "length (take ?n (drop 14 buf)) = ?n" using n by simp_all
  ultimately have "encode_data data numodds numgrps buf =
      Some (take 14 buf @ data_part data numodds numgrps @ drop ?n (drop 14 buf))"
    using encode_data_result [OF assms(1)] by metis
  then show ?thesis using n by simp
qed

lemma encode_packet_out:
  assumes "length buf = BLOCK_PACKET_LEN" and "unat num \<le> length data" and "unat num > 512"
  shows "encode_packet_ll source packet_type status (Some data) num buf = None"
proof -
  let ?o = "unat num mod 7" and ?g = "unat num div 7"
  have g: "0 < ?g" "?o + 7 * ?g \<le> length data" and some: "num \<noteq> 0" using assms(2,3) by auto
  have "length (take (unat num) data) = unat num" using assms(2) by simp
  then have long: "length buf < grp_start ?o + 8 * ?g + 4"
    using packet_fits [of 0 0 0 "take (unat num) data"] length_packet_bytes [of 0 0 0 "take (unat num) data"]
      assms(1,3) by (auto simp: not_le)
  show ?thesis
  proof (cases "length buf < grp_start ?o + 8 * ?g")
    case out: True
    then have "encode_data data ?o ?g buf = None"
      using encode_groups_out [OF g(2) out g(1)] by (simp add: encode_data_def)
    then show ?thesis using some by (simp add: encode_packet_ll_def Let_def)
  next
    case False
    then have "grp_start ?o + 8 * ?g \<le> length buf" by simp
    then obtain b1 where b1: "encode_data data ?o ?g buf = Some b1" "length b1 = length buf"
      using encode_data_length [OF g(2)] by blast
    define h where "h = packet_header source packet_type status ?o ?g"
    have "length h \<le> length b1" using b1(2) assms(1) by (simp add: h_def packet_header_def BLOCK_PACKET_LEN_def)
    then obtain b2 where b2: "poke 0 h b1 = Some b2" "length b2 = length buf"
      using b1(2) by (simp add: poke_def)
    have last: "poke (14 + ?o + (if ?o \<noteq> 0 then 1 else 0) + ?g * 8) [a, b, c, d] b2 = None" for a b c d
      using long b2(2) by (intro poke_out) (simp add: grp_start_def)
    have "(Some data \<noteq> None \<and> num \<noteq> 0) = True" using some by simp
    then show ?thesis
      unfolding encode_packet_ll_def Let_def by (simp only: if_True option.sel b1(1) bind.simps h_def [symmetric] b2(1) last)
  qed
qed

text \<open>
  (C39) The encoder stays inside the packet buffer exactly when it is given at most the 512 bytes of
  a block; the devices' data buffer, from which it is also fed, has 767.
\<close>

theorem encode_packet_bounds:
  assumes "length buf = BLOCK_PACKET_LEN" and "unat num \<le> length data"
  shows "encode_packet_ll source packet_type status (Some data) num buf = None \<longleftrightarrow> unat num > 512"
proof (cases "unat num > 512")
  case False
  then have "length (given_bytes (Some data) num) \<le> 512" by (simp add: given_bytes_def)
  then obtain b where "encode_packet_ll source packet_type status (Some data) num buf = Some b"
    by (rule that [OF encode_packet_result [OF assms(1) _ refl]]) (simp add: assms(2))
  then show ?thesis using False by simp
next
  case True
  then show ?thesis using encode_packet_out [OF assms] by simp
qed

section \<open>Decoding what was encoded\<close>

lemma groups7_nth_msb: "7 * n \<le> length ds \<Longrightarrow> c < n \<Longrightarrow> groups7 ds n ! (8 * c) = msbs (take 7 (drop (7 * c) ds))"
proof (induction n arbitrary: ds c)
  case (Suc n)
  have t: "take 7 ds \<noteq> []" "length (pack7 (take 7 ds)) = 8" using Suc.prems length_pack7_full [of ds] by auto
  show ?case
    using Suc.IH [of "drop 7 ds" "c - 1"] Suc.prems t by (cases c) (auto simp: nth_append pack7_def add.commute)
qed simp

lemma groups7_nth:
  "7 * n \<le> length ds \<Longrightarrow> c < n \<Longrightarrow> k < 7 \<Longrightarrow> groups7 ds n ! (8 * c + (k + 1)) = ds ! (7 * c + k) OR TOP"
proof (induction n arbitrary: ds c)
  case (Suc n)
  have t: "take 7 ds \<noteq> []" "length (pack7 (take 7 ds)) = 8" using Suc.prems length_pack7_full [of ds] by auto
  show ?case
    using Suc.IH [of "drop 7 ds" "c - 1"] Suc.prems t
    by (cases c) (auto simp: nth_append pack7_def add.commute add.left_commute)
qed simp

lemma count_byte: "n < 128 \<Longrightarrow> unat ((of_nat n OR 0x80 :: byte) AND 0x7f) = n"
proof -
  assume n: "n < 128"
  have "(of_nat n OR TOP) AND LOW = take_bit 7 (of_nat n :: byte)"
    by (rule bit_word_eqI) (auto simp: bit_or_iff bit_and_iff bit_TOP bit_LOW bit_take_bit_iff)
  moreover have "unat (take_bit 7 (of_nat n :: byte)) = n"
    using n by (simp add: unsigned_take_bit_eq unsigned_of_nat take_bit_nat_eq_self)
  ultimately show ?thesis by (simp only: TOP_def LOW_def)
qed

lemma concat_sevens:
  assumes "7 * n \<le> length ds"
  shows "concat (map (\<lambda>c. map (\<lambda>k. ds ! (7 * c + k)) [0..<7]) [0..<n]) = take (7 * n) ds"
  using assms
proof (induction n)
  case (Suc n)
  have "map (\<lambda>k. ds ! (7 * n + k)) [0..<7] = take 7 (drop (7 * n) ds)"
    using Suc.prems by (intro nth_equalityI) auto
  then show ?case using Suc by (simp add: take_add [symmetric] add.commute)
qed simp

lemma received_odds:
  assumes "inp = front @ pack7 ds @ rest" and "length ds \<le> 7" and "i < length ds"
  shows "merge7 (inp ! length front) i (inp ! (length front + 1 + i)) = ds ! i"
proof -
  have "inp ! length front = msbs ds" "inp ! (length front + 1 + i) = ds ! i OR TOP"
    using assms by (auto simp: nth_append pack7_def)
  then show ?thesis using merge7_msbs [OF assms(3,2)] by simp
qed

lemma received_group:
  assumes "inp = front @ groups7 ds g @ rest" and "7 * g \<le> length ds" and c: "c < g"
  shows "map (\<lambda>k. merge7 (inp ! (length front + c * 8)) k (inp ! (length front + c * 8 + (k + 1)))) [0..<7]
    = map (\<lambda>k. ds ! (7 * c + k)) [0..<7]"
proof (rule map_cong [OF refl])
  fix k assume "k \<in> set [0..<7 :: nat]"
  then have k: "k < 7" by simp
  let ?t = "take 7 (drop (7 * c) ds)"
  have t: "length ?t = 7" "?t ! k = ds ! (7 * c + k)" using assms(2) c k by auto
  have at: "inp ! (length front + j) = groups7 ds g ! j" if "j < 8 * g" for j
    using that length_groups7 [OF assms(2)] nth_append_length_plus [of front "groups7 ds g @ rest" j]
    by (simp add: assms(1) nth_append)
  have "inp ! (length front + c * 8) = msbs ?t"
    using at [of "8 * c"] groups7_nth_msb [OF assms(2) c] c by (simp add: mult.commute)
  moreover have "inp ! (length front + c * 8 + (k + 1)) = ?t ! k OR TOP"
    using at [of "8 * c + (k + 1)"] groups7_nth [OF assms(2) c k] c k t(2) by (simp add: mult.commute add.assoc)
  ultimately show "merge7 (inp ! (length front + c * 8)) k (inp ! (length front + c * 8 + (k + 1))) = ds ! (7 * c + k)"
    using merge7_msbs [of k ?t] t k by simp
qed

text \<open>A packet as it is received: without the first of the sync bytes.\<close>

lemma decode_packet_result:
  assumes h: "length h = 13" "h ! 11 = of_nat n OR 0x80" "h ! 12 = of_nat g OR 0x80"
    and n: "n < 7" "g < 128" "n + 7 * g = length ds" and out: "length ds \<le> length out"
  shows "decode_data_packet_ll (h @ data_part ds n g @ rest) out = Some (ds @ drop (length ds) out, length ds)"
proof -
  let ?in = "h @ data_part ds n g @ rest"
  let ?s = "12 + n + (if n \<noteq> 0 then 1 else 0) + 1"
  have cnt: "unat (?in ! 11 AND 0x7f) = n" "unat (?in ! 12 AND 0x7f) = g"
    using h n(1,2) count_byte [of n] count_byte [of g] by (simp_all add: nth_append)
  have len: "length (take n ds) = n" "7 * g \<le> length (drop n ds)" using n(3) by simp_all
  have odds: "map (\<lambda>i. merge7 (?in ! 13) i (?in ! (14 + i))) [0..<n] = take n ds"
    using received_odds [of ?in h "take n ds" "groups7 (drop n ds) g @ rest"] len n(1) h(1)
    by (intro nth_equalityI) (simp_all add: data_part_def)
  have s: "?in = (h @ pack7 (take n ds)) @ groups7 (drop n ds) g @ rest" "length (h @ pack7 (take n ds)) = ?s"
    using h(1) n(3) by (auto simp: data_part_def pack7_def)
  have "map (\<lambda>c. map (\<lambda>k. merge7 (?in ! (?s + c * 8)) k (?in ! (?s + c * 8 + (k + 1)))) [0..<7]) [0..<g]
      = map (\<lambda>c. map (\<lambda>k. drop n ds ! (7 * c + k)) [0..<7]) [0..<g]"
    by (intro map_cong refl received_group [OF s(1) len(2), unfolded s(2)]) simp
  then have all: "take n ds @ concat (map (\<lambda>c. map (\<lambda>k. merge7 (?in ! (?s + c * 8)) k
      (?in ! (?s + c * 8 + (k + 1)))) [0..<7]) [0..<g]) = ds"
    using concat_sevens [OF len(2)] len n(3) by (simp only:) simp
  have "length ?in = ?s + 8 * g + length rest"
    unfolding s(1) using s(2) length_groups7 [OF len(2)] by simp
  then have fit: "?s + g * 8 \<le> length ?in" by simp
  show ?thesis
    unfolding decode_data_packet_ll_def Let_def cnt odds all
    using fit out n(3) by (simp add: poke_def mult.commute)
qed

text \<open>
  What the encoder puts on the bus, seen by a receiver that has lost the first sync byte,
  decodes to the data, for every length up to a block and whatever was in the buffers before.
\<close>

theorem smartport_roundtrip:
  assumes "length buf = BLOCK_PACKET_LEN" and "unat num \<le> length data" and "unat num \<le> 512"
    and "unat num \<le> length out"
  shows "\<exists>packet. encode_packet_ll source packet_type status (Some data) num buf = Some packet \<and>
    decode_data_packet_ll (drop 1 packet) out = Some (take (unat num) data @ drop (unat num) out, unat num)"
proof -
  let ?ds = "given_bytes (Some data) num"
  have ds: "?ds = take (unat num) data" "length ?ds = unat num" using assms(2) by (simp_all add: given_bytes_def)
  define h where "h = packet_header source packet_type status (length ?ds mod 7) (length ?ds div 7)"
  obtain rest where enc: "encode_packet_ll source packet_type status (Some data) num buf =
      Some (h @ data_part ?ds (length ?ds mod 7) (length ?ds div 7) @ rest)"
    using encode_packet_result [OF assms(1) _ refl, of "Some data" num source packet_type status] assms(2,3) ds(2)
    unfolding packet_bytes_def Let_def h_def [symmetric] by (auto simp del: mod_less div_less)
  have h: "length (drop 1 h) = 13" "drop 1 h ! 11 = of_nat (length ?ds mod 7) OR 0x80"
      "drop 1 h ! 12 = of_nat (length ?ds div 7) OR 0x80"
    by (simp_all add: h_def packet_header_def)
  have "decode_data_packet_ll (drop 1 h @ data_part ?ds (length ?ds mod 7) (length ?ds div 7) @ rest) out =
      Some (?ds @ drop (length ?ds) out, length ?ds)"
    using assms(3,4) ds(2) by (intro decode_packet_result h) auto
  moreover have "drop 1 (h @ data_part ?ds (length ?ds mod 7) (length ?ds div 7) @ rest) =
      drop 1 h @ data_part ?ds (length ?ds mod 7) (length ?ds div 7) @ rest"
    by (simp add: h_def packet_header_def)
  ultimately show ?thesis using enc ds by simp
qed

theorem smartport_roundtrip_witness:
  "\<exists>packet. encode_packet_ll 0x81 0x82 0 (Some [1, 0x92, 3, 0xF4, 5, 6, 7, 0xFF]) 8 (replicate 604 0) = Some packet \<and>
    decode_data_packet_ll (drop 1 packet) [0, 0, 0, 0, 0, 0, 0, 0, 0, 0] =
      Some ([1, 0x92, 3, 0xF4, 5, 6, 7, 0xFF, 0, 0], 8)"
  using smartport_roundtrip [of "replicate 604 0" 8 "[1, 0x92, 3, 0xF4, 5, 6, 7, 0xFF]"
      "[0, 0, 0, 0, 0, 0, 0, 0, 0, 0]" "0x81" "0x82" 0]
  by (simp add: BLOCK_PACKET_LEN_def)

theorem encode_packet_bounds_witness:
  "encode_packet_ll 0x81 0x82 0 (Some (replicate 767 0)) 513 (replicate 604 0) = None"
  using encode_packet_bounds [of "replicate 604 0" 513 "replicate 767 0" "0x81" "0x82" 0]
  by (simp add: BLOCK_PACKET_LEN_def)

end
