(* ===== verification/Smartport_Receive.thy ===== *)
theory Smartport_Receive
  imports Smartport
begin

text \<open>
  The byte level of \<open>iwm_sp_ll::iwm_read_packet_spi\<close>: synchronisation on the start byte, the buffer,
  and the checksum that is computed while the bytes come in.  The bytes themselves, which the code
  recovers from samples of the line, are the input; the end of the list is the timeout that ends a
  packet.
\<close>

section \<open>The code\<close>

record sp_rx =
  rx_buffer :: "byte list"
  rx_idx :: nat
  rx_synced :: bool
  rx_checksum :: byte
  rx_numodd :: nat
  rx_numgrps :: nat
  rx_grpstart :: nat
  rx_group :: nat
  rx_evenbits :: byte
  rx_oddbits :: byte

definition rx_start :: "byte list \<Rightarrow> sp_rx" where
  "rx_start buffer = \<lparr>rx_buffer = buffer, rx_idx = 0, rx_synced = False, rx_checksum = 0, rx_numodd = 0,
     rx_numgrps = 0, rx_grpstart = 14, rx_group = 0, rx_evenbits = 0, rx_oddbits = 0\<rparr>"

text \<open>The checksum part of the loop, on the bytes before \<open>idx\<close>.\<close>

definition rx_check :: "sp_rx \<Rightarrow> sp_rx" where
  "rx_check s =
     (let idx = rx_idx s; buffer = rx_buffer s; numodd = rx_numodd s; numgrps = rx_numgrps s in
      if idx > 6 \<and> idx < 12
      then s\<lparr>rx_checksum := rx_checksum s XOR buffer ! (idx - 1)\<rparr>
      else if idx = 12
      then s\<lparr>rx_numodd := unat (buffer ! (idx - 1) AND 0x7f), rx_checksum := rx_checksum s XOR buffer ! (idx - 1)\<rparr>
      else if idx = 13
      then s\<lparr>rx_numgrps := unat (buffer ! (idx - 1) AND 0x7f), rx_checksum := rx_checksum s XOR buffer ! (idx - 1)\<rparr>
      else if numodd \<noteq> 0 \<and> idx = 14 + numodd
      then s\<lparr>rx_checksum := fold (\<lambda>i c. c XOR merge7 (buffer ! (idx - 1 - numodd)) i (buffer ! (idx - numodd + i)))
                              [0..<numodd] (rx_checksum s),
             rx_grpstart := 14 + numodd + 1\<rparr>
      else if numgrps \<noteq> 0 \<and> rx_group s < numgrps \<and> idx = rx_grpstart s + rx_group s * 8 + 7
      then s\<lparr>rx_checksum := fold (\<lambda>k c. c XOR merge7 (buffer ! (idx - 8)) k (buffer ! (idx - 7 + k)))
                              [0..<7] (rx_checksum s),
             rx_group := rx_group s + 1\<rparr>
      else if idx = 14 + numodd + (if numodd \<noteq> 0 then 1 else 0) + numgrps * 8 + 1
      then s\<lparr>rx_evenbits := buffer ! (idx - 2) AND 0x55, rx_oddbits := push_bit 1 (buffer ! (idx - 1) AND 0x55)\<rparr>
      else s)"

definition rx_store :: "byte \<Rightarrow> sp_rx \<Rightarrow> sp_rx option" where
  "rx_store rxbyte s =
     (let s = (if rxbyte = 0xc3 \<and> \<not> rx_synced s then s\<lparr>rx_synced := True, rx_idx := 5\<rparr> else s)
      in map_option (\<lambda>buf. s\<lparr>rx_buffer := buf, rx_idx := rx_idx s + 1\<rparr>) (poke (rx_idx s) [rxbyte] (rx_buffer s)))"

text \<open>The loop over the bytes, which ends when more than \<open>n\<close> have been stored.\<close>

fun rx_loop :: "nat \<Rightarrow> byte list \<Rightarrow> sp_rx \<Rightarrow> sp_rx option" where
  "rx_loop n [] s = Some s"
| "rx_loop n (b # bs) s =
     (case rx_store b (rx_check s) of
        None \<Rightarrow> None
      | Some s \<Rightarrow> if rx_idx s > n then Some s else rx_loop n bs s)"

text \<open>
  The result, with the workaround for the Liron controller: \<open>last_checksum\<close> is the checksum of the
  last packet that was refused.
\<close>

definition rx_result :: "byte \<Rightarrow> sp_rx \<Rightarrow> nat \<times> byte" where
  "rx_result last_checksum s =
     (let numdata = rx_numodd s + rx_numgrps s * 7 in
      if rx_checksum s = (rx_oddbits s OR rx_evenbits s) then (0, last_checksum)
      else if numdata > 0xff \<and> numdata < 0x200 \<and> rx_checksum s = last_checksum then (0, last_checksum)
      else (2, rx_checksum s))"

definition iwm_read_packet_spi :: "nat \<Rightarrow> byte list \<Rightarrow> byte list \<Rightarrow> byte \<Rightarrow> (nat \<times> byte \<times> byte list) option" where
  "iwm_read_packet_spi n bytes buffer last_checksum =
     map_option (\<lambda>s. let (r, l) = rx_result last_checksum s in (r, l, rx_buffer s)) (rx_loop n bytes (rx_start buffer))"

section \<open>Running without the bound\<close>

text \<open>Storing a byte and checking after it: the same loop, with the check moved by one place.\<close>

fun rx_run :: "byte list \<Rightarrow> sp_rx \<Rightarrow> sp_rx option" where
  "rx_run [] s = Some s"
| "rx_run (b # bs) s = (case rx_store b s of None \<Rightarrow> None | Some s \<Rightarrow> rx_run bs (rx_check s))"

lemma rx_run_append: "rx_run (xs @ ys) s = (case rx_run xs s of None \<Rightarrow> None | Some s \<Rightarrow> rx_run ys s)"
  by (induction xs arbitrary: s) (auto split: option.split)

lemma rx_check_idx [simp]: "rx_idx (rx_check s) = rx_idx s" "rx_synced (rx_check s) = rx_synced s"
  "rx_buffer (rx_check s) = rx_buffer s"
  by (simp_all add: rx_check_def Let_def)

lemma rx_store_idx:
  "rx_store b s = Some s' \<Longrightarrow> rx_synced s \<Longrightarrow> rx_synced s' \<and> rx_idx s' = rx_idx s + 1"
  by (auto simp: rx_store_def Let_def split: if_splits)

text \<open>A packet that fits is run to its last byte, after which nothing is checked.\<close>

lemma rx_loop_run:
  assumes "rx_synced s" and "rx_idx s + length bs \<le> n" and "rx_run bs (rx_check s) = Some t"
  shows "rx_loop n (bs @ [b]) s = rx_store b t"
  using assms
proof (induction bs arbitrary: s)
  case Nil
  then show ?case by (simp split: option.split)
next
  case (Cons c bs)
  then obtain s1 where s1: "rx_store c (rx_check s) = Some s1" "rx_run bs (rx_check s1) = Some t"
    by (auto split: option.splits)
  have i: "rx_synced s1" "rx_idx s1 = rx_idx s + 1" using rx_store_idx [OF s1(1)] Cons.prems(1) by simp_all
  then show ?case using Cons.IH [OF i(1) _ s1(2)] Cons.prems(2) s1(1) by simp
qed

section \<open>Stretches of a packet\<close>

text \<open>Where a received packet has its checksum, and the places at which nothing is checked.\<close>

definition rx_end :: "sp_rx \<Rightarrow> nat" where
  "rx_end s = 14 + rx_numodd s + (if rx_numodd s \<noteq> 0 then 1 else 0) + rx_numgrps s * 8 + 1"

definition quiet :: "sp_rx \<Rightarrow> nat \<Rightarrow> bool" where
  "quiet s j \<longleftrightarrow> 13 < j \<and> (rx_numodd s \<noteq> 0 \<longrightarrow> j \<noteq> 14 + rx_numodd s) \<and>
     (rx_group s < rx_numgrps s \<longrightarrow> j \<noteq> rx_grpstart s + rx_group s * 8 + 7) \<and> j \<noteq> rx_end s"

lemma check_quiet: "quiet s (rx_idx s) \<Longrightarrow> rx_check s = s"
proof -
  assume q: "quiet s (rx_idx s)"
  have "\<not> (rx_idx s > 6 \<and> rx_idx s < 12)" "rx_idx s \<noteq> 12" "rx_idx s \<noteq> 13"
    "\<not> (rx_numodd s \<noteq> 0 \<and> rx_idx s = 14 + rx_numodd s)"
    "\<not> (rx_numgrps s \<noteq> 0 \<and> rx_group s < rx_numgrps s \<and> rx_idx s = rx_grpstart s + rx_group s * 8 + 7)"
    "rx_idx s \<noteq> 14 + rx_numodd s + (if rx_numodd s \<noteq> 0 then 1 else 0) + rx_numgrps s * 8 + 1"
    using q by (auto simp: quiet_def rx_end_def)
  then show ?thesis unfolding rx_check_def Let_def by (simp only: if_False)
qed

lemma quiet_cong [simp]: "quiet (s\<lparr>rx_buffer := b\<rparr>) = quiet s" "quiet (s\<lparr>rx_idx := i\<rparr>) = quiet s"
  by (simp_all add: fun_eq_iff quiet_def rx_end_def)

definition rx_at :: "sp_rx \<Rightarrow> byte list \<Rightarrow> byte list \<Rightarrow> sp_rx" where
  "rx_at s P T = s\<lparr>rx_buffer := P @ T, rx_idx := length P\<rparr>"

lemma store_at: "rx_synced s \<Longrightarrow> rx_store b (rx_at s P (x # T)) = Some (rx_at s (P @ [b]) T)"
  by (simp add: rx_store_def rx_at_def poke_def)

lemma run_quiet:
  assumes "rx_synced s" and "length xs = length X" and "\<forall>j. length P < j \<and> j \<le> length P + length xs \<longrightarrow> quiet s j"
  shows "rx_run xs (rx_at s P (X @ T)) = Some (rx_at s (P @ xs) T)"
  using assms
proof (induction xs arbitrary: P X)
  case (Cons b xs)
  then obtain x X' where X: "X = x # X'" "length xs = length X'" by (cases X) auto
  have "quiet s (length (P @ [b]))" using Cons.prems(3) by simp
  then have "rx_check (rx_at s (P @ [b]) (X' @ T)) = rx_at s (P @ [b]) (X' @ T)"
    by (intro check_quiet) (simp add: rx_at_def)
  then show ?case
    using Cons.IH [of X' "P @ [b]"] Cons.prems X by (simp add: store_at)
qed simp

lemma fold_xor_list: "fold (\<lambda>k c. c XOR ds ! k) [0..<length ds] c = xor_all ds c"
proof -
  have "fold (\<lambda>k c. c XOR ds ! k) [0..<length ds] c = fold (\<lambda>b c. c XOR b) (map ((!) ds) [0..<length ds]) c"
    by (simp add: fold_map comp_def)
  then show ?thesis by (simp only: map_nth xor_all_def)
qed

lemma fold_cong_upt: "(\<And>k c. k < n \<Longrightarrow> f k c = g k c) \<Longrightarrow> fold f [0..<n] c = fold g [0..<n] c"
  by (rule fold_cong) auto

text \<open>The bytes of a group of at most seven, followed by its check.\<close>

lemma xor_pack7:
  assumes "length ds = n" and "n \<le> 7" and "ds \<noteq> []"
  shows "fold (\<lambda>k c. c XOR merge7 ((P @ pack7 ds @ T) ! length P) k ((P @ pack7 ds @ T) ! (length P + 1 + k))) [0..<n] c
    = xor_all ds c"
proof -
  have "fold (\<lambda>k c. c XOR merge7 ((P @ pack7 ds @ T) ! length P) k ((P @ pack7 ds @ T) ! (length P + 1 + k))) [0..<n] c
      = fold (\<lambda>k c. c XOR ds ! k) [0..<n] c"
    using assms received_odds [of "P @ pack7 ds @ T" P ds T] by (intro fold_cong_upt) auto
  then show ?thesis using fold_xor_list [of ds c] assms(1) by simp
qed

lemma run_last:
  assumes "rx_synced s" and "length X = length xs" and "\<forall>j. length P < j \<and> j \<le> length P + length xs \<longrightarrow> quiet s j"
  shows "rx_run (xs @ [b]) (rx_at s P (X @ x # T)) = Some (rx_check (rx_at s (P @ xs @ [b]) T))"
  using run_quiet [OF assms(1) assms(2) [symmetric] assms(3), of "x # T"] assms(1)
  by (simp add: rx_run_append store_at)

lemma snoc_of_length: "length xs = n + 1 \<Longrightarrow> \<exists>ys y. xs = ys @ [y] \<and> length ys = n"
  by (cases xs rule: rev_cases) auto

text \<open>The odd bytes, after the header.\<close>

lemma run_odds:
  assumes "rx_synced s" and "rx_numodd s = length ds" and "ds \<noteq> []" and "length ds < 7" and "length P = 13"
    and "rx_grpstart s = 14" and "rx_group s = 0" and "length X = length ds + 1"
  shows "rx_run (pack7 ds) (rx_at s P (X @ T)) =
    Some (rx_at (s\<lparr>rx_checksum := xor_all ds (rx_checksum s), rx_grpstart := 15 + length ds\<rparr>) (P @ pack7 ds) T)"
proof -
  obtain xs b where xs: "pack7 ds = xs @ [b]" "length xs = length ds"
    using snoc_of_length [OF length_pack7 [OF assms(3)]] by blast
  obtain X' x where X: "X = X' @ [x]" "length X' = length xs"
    using assms(8) xs(2) by (cases X rule: rev_cases) auto
  have "\<forall>j. length P < j \<and> j \<le> length P + length xs \<longrightarrow> quiet s j"
    using assms xs(2) by (auto simp: quiet_def rx_end_def)
  then have run: "rx_run (pack7 ds) (rx_at s P (X @ T)) = Some (rx_check (rx_at s (P @ pack7 ds) T))"
    using run_last [OF assms(1) X(2), of P b x T] xs(1) X(1) by simp
  let ?t = "rx_at s (P @ pack7 ds) T"
  have t: "rx_idx ?t = 14 + length ds" "rx_numodd ?t = length ds" "rx_buffer ?t = P @ pack7 ds @ T"
    "rx_checksum ?t = rx_checksum s"
    using assms(2,3,5) by (simp_all add: rx_at_def length_pack7)
  have sum: "fold (\<lambda>i c. c XOR merge7 ((P @ pack7 ds @ T) ! 13) i ((P @ pack7 ds @ T) ! (14 + i))) [0..<length ds]
      (rx_checksum s) = xor_all ds (rx_checksum s)"
    using xor_pack7 [OF refl _ assms(3), of P T "rx_checksum s"] assms(4,5) by simp
  have "rx_check ?t = ?t\<lparr>rx_checksum := xor_all ds (rx_checksum s), rx_grpstart := 15 + length ds\<rparr>"
    using assms(3) sum unfolding rx_check_def t Let_def by simp
  then show ?thesis using run by (simp add: rx_at_def)
qed

text \<open>One group of seven, and all groups.\<close>

lemma run_group:
  assumes "rx_synced s" and "length ds = 7" and "length X = 8" and "rx_group s < rx_numgrps s"
    and "length P + 1 = rx_grpstart s + rx_group s * 8"
    and "rx_grpstart s = 14 + rx_numodd s + (if rx_numodd s \<noteq> 0 then 1 else 0)"
  shows "rx_run (pack7 ds) (rx_at s P (X @ T)) =
    Some (rx_at (s\<lparr>rx_checksum := xor_all ds (rx_checksum s), rx_group := rx_group s + 1\<rparr>) (P @ pack7 ds) T)"
proof -
  have ne: "ds \<noteq> []" using assms(2) by auto
  obtain xs b where xs: "pack7 ds = xs @ [b]" "length xs = 7"
    using snoc_of_length [OF length_pack7 [OF ne]] assms(2) by auto
  obtain X' x where X: "X = X' @ [x]" "length X' = length xs"
    using assms(3) xs(2) by (cases X rule: rev_cases) auto
  have "\<forall>j. length P < j \<and> j \<le> length P + length xs \<longrightarrow> quiet s j"
    using assms(4-6) xs(2) by (auto simp: quiet_def rx_end_def)
  then have run: "rx_run (pack7 ds) (rx_at s P (X @ T)) = Some (rx_check (rx_at s (P @ pack7 ds) T))"
    using run_last [OF assms(1) X(2), of P b x T] xs(1) X(1) by simp
  let ?t = "rx_at s (P @ pack7 ds) T"
  have t: "rx_idx ?t = length P + 8" "rx_numodd ?t = rx_numodd s" "rx_buffer ?t = P @ pack7 ds @ T"
    "rx_checksum ?t = rx_checksum s" "rx_group ?t = rx_group s" "rx_numgrps ?t = rx_numgrps s"
    "rx_grpstart ?t = rx_grpstart s"
    using assms(2) ne by (simp_all add: rx_at_def length_pack7)
  have sum: "fold (\<lambda>k c. c XOR merge7 ((P @ pack7 ds @ T) ! length P) k ((P @ pack7 ds @ T) ! (length P + 1 + k))) [0..<7]
      (rx_checksum s) = xor_all ds (rx_checksum s)"
    using xor_pack7 [OF assms(2) _ ne, of P T "rx_checksum s"] by simp
  have idx: "length P + 8 - 8 = length P" "\<And>k. length P + 8 - 7 + k = length P + 1 + k" by simp_all
  have cond: "\<not> (6 < length P + 8 \<and> length P + 8 < 12)" "length P + 8 \<noteq> 12" "length P + 8 \<noteq> 13"
    "\<not> (rx_numodd s \<noteq> 0 \<and> length P + 8 = 14 + rx_numodd s)"
    "(rx_numgrps s \<noteq> 0 \<and> rx_group s < rx_numgrps s \<and> length P + 8 = rx_grpstart s + rx_group s * 8 + 7) = True"
    using assms(4-6) by auto
  have "rx_check ?t = ?t\<lparr>rx_checksum := xor_all ds (rx_checksum s), rx_group := rx_group s + 1\<rparr>"
    unfolding rx_check_def t Let_def by (simp only: cond if_False if_True idx sum)
  then show ?thesis using run by (simp add: rx_at_def)
qed

lemma run_groups:
  assumes "rx_synced s" and "length ds = 7 * n" and "length X = 8 * n" and "rx_group s + n = rx_numgrps s"
    and "length P + 1 = rx_grpstart s + rx_group s * 8"
    and "rx_grpstart s = 14 + rx_numodd s + (if rx_numodd s \<noteq> 0 then 1 else 0)"
  shows "rx_run (groups7 ds n) (rx_at s P (X @ T)) =
    Some (rx_at (s\<lparr>rx_checksum := xor_all ds (rx_checksum s), rx_group := rx_numgrps s\<rparr>) (P @ groups7 ds n) T)"
  using assms
proof (induction n arbitrary: s ds X P)
  case 0
  then show ?case by (simp add: xor_all_def rx_at_def)
next
  case (Suc n)
  let ?d = "take 7 ds" and ?X = "take 8 X" and ?Y = "drop 8 X"
  let ?s = "s\<lparr>rx_checksum := xor_all ?d (rx_checksum s), rx_group := rx_group s + 1\<rparr>"
  have d: "length ?d = 7" "length ?X = 8" "?d \<noteq> []" using Suc.prems by auto
  have "rx_run (pack7 ?d) (rx_at s P (?X @ ?Y @ T)) = Some (rx_at ?s (P @ pack7 ?d) (?Y @ T))"
    using Suc.prems d by (intro run_group) auto
  moreover have "rx_run (groups7 (drop 7 ds) n) (rx_at ?s (P @ pack7 ?d) (?Y @ T)) =
      Some (rx_at (?s\<lparr>rx_checksum := xor_all (drop 7 ds) (rx_checksum ?s), rx_group := rx_numgrps ?s\<rparr>)
              ((P @ pack7 ?d) @ groups7 (drop 7 ds) n) T)"
    using Suc.prems d by (intro Suc.IH) (auto simp: length_pack7)
  moreover have "xor_all (drop 7 ds) (xor_all ?d c) = xor_all ds c" for c
    by (simp add: xor_all_def flip: fold_append [unfolded comp_def, THEN fun_cong])
  moreover have "?X @ ?Y @ T = X @ T" by simp
  ultimately show ?case by (simp add: rx_run_append)
qed

text \<open>The two bytes of the checksum.\<close>

lemma run_checksum:
  assumes "rx_synced s" and "rx_group s = rx_numgrps s" and "length P + 2 = rx_end s"
  shows "rx_run [a, b] (rx_at s P (x # y # T)) =
    Some (rx_at (s\<lparr>rx_evenbits := a AND 0x55, rx_oddbits := push_bit 1 (b AND 0x55)\<rparr>) (P @ [a, b]) T)"
proof -
  have "\<forall>j. length P < j \<and> j \<le> length P + length [a] \<longrightarrow> quiet s j"
    using assms(2,3) by (auto simp: quiet_def rx_end_def)
  then have run: "rx_run [a, b] (rx_at s P (x # y # T)) = Some (rx_check (rx_at s (P @ [a, b]) T))"
    using run_last [OF assms(1), of "[x]" "[a]" P b y T] by simp
  let ?t = "rx_at s (P @ [a, b]) T"
  have t: "rx_idx ?t = rx_end s" "rx_numodd ?t = rx_numodd s" "rx_buffer ?t = P @ a # b # T"
    "rx_group ?t = rx_numgrps s" "rx_numgrps ?t = rx_numgrps s" "rx_evenbits ?t = rx_evenbits s"
    using assms(2,3) by (simp_all add: rx_at_def)
  have cond: "\<not> (6 < rx_end s \<and> rx_end s < 12)" "rx_end s \<noteq> 12" "rx_end s \<noteq> 13"
    "\<not> (rx_numodd s \<noteq> 0 \<and> rx_end s = 14 + rx_numodd s)"
    by (auto simp: rx_end_def)
  have byte: "(P @ a # b # T) ! (rx_end s - 2) = a" "(P @ a # b # T) ! (rx_end s - 1) = b"
    using assms(3) by (simp_all add: nth_append flip: assms(3))
  have "rx_check ?t = ?t\<lparr>rx_evenbits := a AND 0x55, rx_oddbits := push_bit 1 (b AND 0x55)\<rparr>"
    unfolding rx_check_def t Let_def
    by (simp only: cond less_irrefl simp_thms if_False if_True byte rx_end_def [symmetric])
  then show ?thesis using run by (simp add: rx_at_def)
qed

text \<open>The header from the start byte on.\<close>

lemma run_header:
  assumes "length P = 5" and "s = (rx_start buf)\<lparr>rx_synced := True\<rparr>"
  shows "rx_run [b0, b1, b2, b3, b4, n, g] (rx_at s (P @ [0xc3]) ([x1, x2, x3, x4, x5, x6, x7] @ T)) =
    Some (rx_at (s\<lparr>rx_checksum := xor_all [b0, b1, b2, b3, b4, n, g] 0, rx_numodd := unat (n AND 0x7f),
               rx_numgrps := unat (g AND 0x7f)\<rparr>) (P @ [0xc3, b0, b1, b2, b3, b4, n, g]) T)"
  using assms by (simp add: rx_store_def rx_at_def poke_def rx_check_def rx_start_def xor_all_def nth_append)

section \<open>A whole packet\<close>

text \<open>Bytes before the start byte only fill the buffer.\<close>

lemma sync_bytes:
  assumes "0xc3 \<notin> set xs" and "i + length xs \<le> 6" and "6 \<le> n" and "7 \<le> length buf"
  shows "\<exists>buf' j. length buf' = length buf \<and> j \<le> 6 \<and>
    rx_loop n (xs @ bs) ((rx_start b)\<lparr>rx_buffer := buf, rx_idx := i\<rparr>) =
    rx_loop n bs ((rx_start b)\<lparr>rx_buffer := buf', rx_idx := j\<rparr>)"
  using assms
proof (induction xs arbitrary: i buf)
  case Nil
  then show ?case by auto
next
  case (Cons x xs)
  let ?s = "(rx_start b)\<lparr>rx_buffer := buf, rx_idx := i\<rparr>"
  let ?buf = "take i buf @ [x] @ drop (i + 1) buf"
  have "rx_check ?s = ?s" using Cons.prems(2) by (simp add: rx_check_def rx_start_def)
  then have "rx_store x (rx_check ?s) = Some ((rx_start b)\<lparr>rx_buffer := ?buf, rx_idx := i + 1\<rparr>)"
    using Cons.prems by (simp add: rx_store_def poke_def rx_start_def)
  moreover have "\<exists>buf' j. length buf' = length ?buf \<and> j \<le> 6 \<and>
      rx_loop n (xs @ bs) ((rx_start b)\<lparr>rx_buffer := ?buf, rx_idx := i + 1\<rparr>) =
      rx_loop n bs ((rx_start b)\<lparr>rx_buffer := buf', rx_idx := j\<rparr>)"
    using Cons.prems by (intro Cons.IH) auto
  moreover have "length ?buf = length buf" using Cons.prems by simp
  ultimately show ?case using Cons.prems by simp
qed

lemma xor_all_start: "xor_all xs c = c XOR xor_all xs 0"
  unfolding xor_all_def by (induction xs arbitrary: c) (simp, metis (no_types) fold_simps(2) xor.assoc xor.left_neutral)

lemma checksum_bytes:
  "push_bit 1 ((drop_bit 1 c OR 0xaa) AND 0x55) OR ((c OR 0xaa) AND 0x55) = (c :: byte)"
proof (rule bit_word_eqI)
  fix j assume "j < LENGTH(8)"
  then have "j \<in> {0, 1, 2, 3, 4, 5, 6, 7}" by auto
  then show "bit (push_bit 1 ((drop_bit 1 c OR 0xaa) AND 0x55) OR ((c OR 0xaa) AND 0x55)) j \<longleftrightarrow> bit c j"
    unfolding bit_or_iff bit_and_iff bit_push_bit_iff bit_drop_bit_eq
    by (elim insertE emptyE) (simp_all add: numeral_3_eq_3)
qed

text \<open>The data part: odd bytes, if there are any, and groups.\<close>

lemma run_data_part:
  assumes "rx_synced s" and "rx_numodd s = n" and "rx_numgrps s = g" and "n < 7" and "n + 7 * g = length ds"
    and "length P = 13" and "rx_grpstart s = 14" and "rx_group s = 0" and "length X = length (data_part ds n g)"
  shows "\<exists>gs. rx_run (data_part ds n g) (rx_at s P (X @ T)) =
    Some (rx_at (s\<lparr>rx_checksum := xor_all ds (rx_checksum s), rx_grpstart := gs, rx_group := g\<rparr>) (P @ data_part ds n g) T)"
proof -
  let ?o = "take n ds" and ?r = "drop n ds"
  have len: "length ?o = n" "length ?r = 7 * g" using assms(5) by simp_all
  have x: "xor_all ?r (xor_all ?o c) = xor_all ds c" for c
    by (simp add: xor_all_def flip: fold_append [unfolded comp_def, THEN fun_cong])
  have gl: "length (groups7 ?r g) = 8 * g" using len by (simp add: length_groups7)
  show ?thesis
  proof (cases "n = 0")
    case True
    then have "rx_run (groups7 ?r g) (rx_at s P (X @ T)) =
        Some (rx_at (s\<lparr>rx_checksum := xor_all ?r (rx_checksum s), rx_group := rx_numgrps s\<rparr>) (P @ groups7 ?r g) T)"
      using assms len gl by (intro run_groups) (auto simp: data_part_def pack7_def)
    then show ?thesis using True assms(3,7) by (auto simp: data_part_def pack7_def rx_at_def intro!: exI [of _ 14])
  next
    case False
    then have ne: "?o \<noteq> []" using len by auto
    let ?X = "take (n + 1) X" and ?Y = "drop (n + 1) X"
    have X: "length ?X = n + 1" "length ?Y = 8 * g"
      using assms(9) ne gl len by (simp_all add: data_part_def length_pack7)
    let ?s = "s\<lparr>rx_checksum := xor_all ?o (rx_checksum s), rx_grpstart := 15 + length ?o\<rparr>"
    have "rx_run (pack7 ?o) (rx_at s P (?X @ ?Y @ T)) = Some (rx_at ?s (P @ pack7 ?o) (?Y @ T))"
      using assms len ne X(1) by (intro run_odds) auto
    moreover have "rx_run (groups7 ?r g) (rx_at ?s (P @ pack7 ?o) (?Y @ T)) =
        Some (rx_at (?s\<lparr>rx_checksum := xor_all ?r (rx_checksum ?s), rx_group := rx_numgrps ?s\<rparr>)
                ((P @ pack7 ?o) @ groups7 ?r g) T)"
      using assms len ne X(2) False by (intro run_groups) (auto simp: length_pack7)
    ultimately have "rx_run (pack7 ?o @ groups7 ?r g) (rx_at s P (?X @ ?Y @ T)) =
        Some (rx_at (s\<lparr>rx_checksum := xor_all ds (rx_checksum s), rx_grpstart := 15 + length ?o, rx_group := g\<rparr>)
          ((P @ pack7 ?o) @ groups7 ?r g) T)"
      using assms(3) by (simp add: rx_run_append x) (simp add: rx_at_def)
    moreover have "?X @ ?Y @ T = X @ T" by simp
    ultimately show ?thesis unfolding data_part_def by (metis append.assoc)
  qed
qed

lemma received_split:
  assumes "n + 11 + k \<le> length xs"
  shows "xs = take n xs @ xs ! n # take 7 (drop (n + 1) xs) @ take k (drop (n + 8) xs) @ drop (n + 8 + k) xs"
    and "length (take 7 (drop (n + 1) xs)) = 7" and "length (take k (drop (n + 8) xs)) = k"
    and "3 \<le> length (drop (n + 8 + k) xs)"
proof -
  have "drop n xs = xs ! n # drop (n + 1) xs" using assms by (simp add: Cons_nth_drop_Suc)
  moreover have "drop (n + 1) xs = take 7 (drop (n + 1) xs) @ drop (n + 8) xs"
    using append_take_drop_id [of 7 "drop (n + 1) xs"] by (simp add: add.commute)
  moreover have "drop (n + 8) xs = take k (drop (n + 8) xs) @ drop (n + 8 + k) xs"
    using append_take_drop_id [of k "drop (n + 8) xs"] by (simp add: add.commute)
  ultimately show "xs = take n xs @ xs ! n # take 7 (drop (n + 1) xs) @ take k (drop (n + 8) xs) @ drop (n + 8 + k) xs"
    by (metis append_take_drop_id)
qed (use assms in simp_all)

text \<open>Everything between the start byte and the last byte.\<close>

lemma run_body:
  fixes n g :: nat and h0 h1 h2 h3 h4 :: byte
  defines "H \<equiv> [h0, h1, h2, h3, h4, of_nat n OR 0x80, of_nat g OR 0x80 :: byte]"
  assumes "length P = 5" and "s = (rx_start buf)\<lparr>rx_synced := True\<rparr>" and "n < 7" and "g < 128"
    and "n + 7 * g = length ds" and "length X = length (data_part ds n g)" and "length M = 7"
  shows "\<exists>gs. rx_run (H @ data_part ds n g @ [a, b]) (rx_at s (P @ [0xc3]) (M @ X @ x # y # T)) =
    Some (rx_at (s\<lparr>rx_checksum := xor_all ds (xor_all H 0), rx_numodd := n, rx_numgrps := g, rx_grpstart := gs,
               rx_group := g, rx_evenbits := a AND 0x55, rx_oddbits := push_bit 1 (b AND 0x55)\<rparr>)
            (P @ [0xc3] @ H @ data_part ds n g @ [a, b]) T)"
proof -
  obtain m1 m2 m3 m4 m5 m6 m7 where M: "M = [m1, m2, m3, m4, m5, m6, m7]"
    using assms(8) by (auto simp: length_Suc_conv eval_nat_numeral)
  let ?P = "P @ 0xc3 # H" and ?part = "data_part ds n g"
  let ?s1 = "s\<lparr>rx_checksum := xor_all H 0, rx_numodd := n, rx_numgrps := g\<rparr>"
  have 1: "rx_run H (rx_at s (P @ [0xc3]) (M @ X @ x # y # T)) = Some (rx_at ?s1 ?P (X @ x # y # T))"
    unfolding H_def M
    using run_header [OF assms(2,3), of h0 h1 h2 h3 h4 "of_nat n OR 0x80" "of_nat g OR 0x80" m1 m2 m3 m4 m5 m6 m7]
      count_byte [of n] count_byte [of g] assms(4,5) by simp
  have lenP: "length ?P = 13" using assms(2) by (simp add: H_def)
  obtain gs where 2: "rx_run ?part (rx_at ?s1 ?P (X @ x # y # T)) =
      Some (rx_at (?s1\<lparr>rx_checksum := xor_all ds (xor_all H 0), rx_grpstart := gs, rx_group := g\<rparr>) (?P @ ?part) (x # y # T))"
    using run_data_part [of ?s1 n g ds ?P X "x # y # T"] assms(3,4,6,7) lenP by (auto simp: rx_start_def)
  let ?s2 = "?s1\<lparr>rx_checksum := xor_all ds (xor_all H 0), rx_grpstart := gs, rx_group := g\<rparr>"
  have e: "length (?P @ ?part) + 2 = rx_end ?s2"
    using lenP assms(6) by (simp add: rx_end_def length_data_part grp_start_def)
  have 3: "rx_run [a, b] (rx_at ?s2 (?P @ ?part) (x # y # T)) =
      Some (rx_at (?s2\<lparr>rx_evenbits := a AND 0x55, rx_oddbits := push_bit 1 (b AND 0x55)\<rparr>) ((?P @ ?part) @ [a, b]) T)"
    using assms(3) by (intro run_checksum e) (simp_all add: rx_start_def)
  have "rx_run (H @ ?part @ [a, b]) (rx_at s (P @ [0xc3]) (M @ X @ x # y # T)) =
      Some (rx_at (?s2\<lparr>rx_evenbits := a AND 0x55, rx_oddbits := push_bit 1 (b AND 0x55)\<rparr>) ((?P @ ?part) @ [a, b]) T)"
    by (simp only: rx_run_append 1 2 3 option.case)
  then show ?thesis by (intro exI [of _ gs]) (simp add: rx_at_def)
qed

lemma rx_loop_packet:
  fixes ds :: "byte list" and source packet_type status a b :: byte
  defines "n \<equiv> length ds mod 7" and "g \<equiv> length ds div 7"
  defines "H \<equiv> [0x80, source, packet_type, 0x80, status OR 0x80, of_nat n OR 0x80, of_nat g OR 0x80 :: byte]"
  assumes "length ds \<le> 512" and "length buf = BLOCK_PACKET_LEN" and "i \<le> 6"
  shows "\<exists>gs P R. length P = 5 \<and>
    rx_loop BLOCK_PACKET_LEN (0xc3 # (H @ data_part ds n g @ [a, b]) @ [0xc8])
      ((rx_start buffer)\<lparr>rx_buffer := buf, rx_idx := i\<rparr>) =
    Some (rx_at ((rx_start buffer)\<lparr>rx_synced := True, rx_checksum := xor_all ds (xor_all H 0), rx_numodd := n,
        rx_numgrps := g, rx_grpstart := gs, rx_group := g, rx_evenbits := a AND 0x55,
        rx_oddbits := push_bit 1 (b AND 0x55)\<rparr>)
      (P @ [0xc3] @ H @ data_part ds n g @ [a, b, 0xc8]) R)"
proof -
  let ?part = "data_part ds n g"
  let ?bs = "H @ ?part @ [a, b]"
  have ng: "n < 7" "g < 128" "n + 7 * g = length ds" using assms(4) by (auto simp: n_def g_def)
  have big: "18 + length ?part \<le> 604"
    using packet_fits [of source packet_type status ds] assms(4)
    by (simp add: packet_bytes_def Let_def BLOCK_PACKET_LEN_def n_def g_def)
  define P M X T where "P = take 5 buf" and "M = take 7 (drop 6 buf)" and "X = take (length ?part) (drop 13 buf)"
    and "T = drop (13 + length ?part) buf"
  have len: "length buf \<ge> 16 + length ?part" using assms(5) big by (simp add: BLOCK_PACKET_LEN_def)
  have buf: "buf = P @ buf ! 5 # M @ X @ T" "length P = 5" "length M = 7" "length X = length ?part" "length T \<ge> 3"
    using len received_split [of 5 "length ?part" buf] by (simp_all add: P_def M_def X_def T_def)
  obtain x y z T' where T: "T = x # y # z # T'"
    using buf(5) by (auto simp: length_Suc_conv Suc_le_length_iff eval_nat_numeral)
  let ?init = "(rx_start buffer)\<lparr>rx_buffer := buf, rx_idx := i\<rparr>" and ?s = "(rx_start buffer)\<lparr>rx_synced := True\<rparr>"
  let ?t = "rx_at ?s (P @ [0xc3]) (M @ X @ T)"
  have "rx_check ?init = ?init" using assms(6) by (simp add: rx_check_def rx_start_def)
  moreover have "poke 5 [0xc3] buf = Some ((P @ [0xc3]) @ M @ X @ T)"
    by (subst buf(1)) (simp add: poke_def buf(2))
  then have "rx_store 0xc3 ?init = Some ?t" by (simp add: rx_store_def rx_start_def rx_at_def buf(2))
  moreover have t: "rx_idx ?t = 6" "rx_synced ?t" "rx_check ?t = ?t"
    using buf(2) by (simp_all add: rx_at_def rx_check_def rx_start_def)
  ultimately have first: "rx_loop BLOCK_PACKET_LEN (0xc3 # ?bs @ [0xc8]) ?init = rx_loop BLOCK_PACKET_LEN (?bs @ [0xc8]) ?t"
    by (simp add: BLOCK_PACKET_LEN_def)
  obtain gs where run: "rx_run ?bs (rx_check ?t) =
      Some (rx_at (?s\<lparr>rx_checksum := xor_all ds (xor_all H 0), rx_numodd := n, rx_numgrps := g, rx_grpstart := gs,
        rx_group := g, rx_evenbits := a AND 0x55, rx_oddbits := push_bit 1 (b AND 0x55)\<rparr>)
        (P @ [0xc3] @ ?bs) (z # T'))"
    using run_body [OF buf(2) refl ng buf(4,3)] unfolding t(3) unfolding T H_def by blast
  have "rx_idx ?t + length ?bs \<le> BLOCK_PACKET_LEN" using big t(1) by (simp add: H_def BLOCK_PACKET_LEN_def)
  from rx_loop_run [OF t(2) this run, of "0xc8"] show ?thesis
    using buf(2) unfolding first by (auto simp: store_at)
qed

lemma packet_bytes_accepted:
  assumes "0xc3 \<notin> set syncs" and "length syncs \<le> 6" and "length buffer = BLOCK_PACKET_LEN"
    and "length ds \<le> 512" and "length ds \<le> length out"
  shows "\<exists>buf. iwm_read_packet_spi BLOCK_PACKET_LEN
      (syncs @ drop 6 (butlast (packet_bytes source packet_type status ds))) buffer last_checksum =
      Some (0, last_checksum, buf) \<and>
    decode_data_packet_ll buf out = Some (ds @ drop (length ds) out, length ds)"
proof -
  let ?n = "length ds mod 7" and ?g = "length ds div 7"
  let ?H = "[0x80, source, packet_type, 0x80, status OR 0x80, of_nat ?n OR 0x80, of_nat ?g OR 0x80]"
  let ?part = "data_part ds ?n ?g"
  define c where "c = xor_all ?H (xor_all ds 0)"
  let ?bs = "?H @ ?part @ [c OR 0xaa, drop_bit 1 c OR 0xaa]"
  have pk: "drop 6 (butlast (packet_bytes source packet_type status ds)) = 0xc3 # ?bs @ [0xc8]"
    by (simp add: packet_bytes_def Let_def packet_header_def c_def butlast_append)
  have c: "xor_all ds (xor_all ?H 0) = c"
    unfolding c_def by (subst (1 2) xor_all_start) (rule xor.commute)
  obtain buf' i where b: "length buf' = BLOCK_PACKET_LEN" "i \<le> 6"
    "rx_loop BLOCK_PACKET_LEN (syncs @ 0xc3 # ?bs @ [0xc8]) ((rx_start buffer)\<lparr>rx_buffer := buffer, rx_idx := 0\<rparr>) =
     rx_loop BLOCK_PACKET_LEN (0xc3 # ?bs @ [0xc8]) ((rx_start buffer)\<lparr>rx_buffer := buf', rx_idx := i\<rparr>)"
    using sync_bytes [OF assms(1), of 0 BLOCK_PACKET_LEN buffer "0xc3 # ?bs @ [0xc8]" buffer] assms(2,3)
    by (auto simp: BLOCK_PACKET_LEN_def)
  obtain gs P R where r: "length P = 5" "rx_loop BLOCK_PACKET_LEN (syncs @ 0xc3 # ?bs @ [0xc8])
        ((rx_start buffer)\<lparr>rx_buffer := buffer, rx_idx := 0\<rparr>) =
      Some (rx_at ((rx_start buffer)\<lparr>rx_synced := True, rx_checksum := c, rx_numodd := ?n, rx_numgrps := ?g,
          rx_grpstart := gs, rx_group := ?g, rx_evenbits := (c OR 0xaa) AND 0x55,
          rx_oddbits := push_bit 1 ((drop_bit 1 c OR 0xaa) AND 0x55)\<rparr>)
        (P @ [0xc3] @ ?H @ ?part @ [c OR 0xaa, drop_bit 1 c OR 0xaa, 0xc8]) R)"
    using rx_loop_packet [OF assms(4) b(1,2), of source packet_type status "c OR 0xaa" "drop_bit 1 c OR 0xaa" buffer,
        unfolded c] unfolding b(3) by blast
  let ?buf = "(P @ 0xc3 # ?H) @ ?part @ [c OR 0xaa, drop_bit 1 c OR 0xaa, 0xc8] @ R"
  have "iwm_read_packet_spi BLOCK_PACKET_LEN (syncs @ 0xc3 # ?bs @ [0xc8]) buffer last_checksum = Some (0, last_checksum, ?buf)"
  proof -
    have st: "(rx_start buffer)\<lparr>rx_buffer := buffer, rx_idx := 0\<rparr> = rx_start buffer" by (simp add: rx_start_def)
    have res: "rx_result last_checksum s = (0, last_checksum)" if "rx_checksum s = (rx_oddbits s OR rx_evenbits s)" for s
      using that by (simp add: rx_result_def)
    show ?thesis
      unfolding iwm_read_packet_spi_def r(2) [unfolded st] option.map
      by (subst res) (simp_all add: rx_at_def checksum_bytes [simplified])
  qed
  moreover have "decode_data_packet_ll ?buf out = Some (ds @ drop (length ds) out, length ds)"
    using r(1) assms(4,5) by (intro decode_packet_result) (auto simp: nth_append)
  ultimately show ?thesis unfolding pk by blast
qed

text \<open>What \<open>encode_spi_packet\<close> sends of a packet is all of it but the zero that marks its end.\<close>

lemma or_top_nonzero: "b OR TOP \<noteq> 0" "b OR 0x80 \<noteq> (0 :: byte)"
proof -
  have "bit (b OR TOP) 7" by (simp add: bit_or_iff bit_TOP)
  then show "b OR TOP \<noteq> 0" by auto
  then show "b OR 0x80 \<noteq> 0" by (simp add: TOP_def)
qed

lemma pack7_nonzero: "0 \<notin> set (pack7 ds)"
proof -
  have "bit (msbs ds) 7" by (simp add: bit_msbs)
  then have "msbs ds \<noteq> 0" by auto
  then show ?thesis using or_top_nonzero(1) by (auto simp: pack7_def)
qed

lemma data_part_nonzero: "0 \<notin> set (data_part ds n g)"
proof -
  have "0 \<notin> set (groups7 xs k)" for xs k
    by (induction k arbitrary: xs) (simp_all add: pack7_nonzero)
  then show ?thesis by (simp add: data_part_def pack7_nonzero)
qed

lemma or_aa_nonzero: "b OR 0xaa \<noteq> (0 :: byte)"
proof -
  have "bit (0xaa :: byte) 7" by simp
  then have "bit (b OR 0xaa) 7" by (simp only: bit_or_iff) simp
  then show ?thesis by auto
qed

lemma sent_bytes:
  assumes "source \<noteq> 0" and "packet_type \<noteq> 0"
  shows "takeWhile (\<lambda>b. b \<noteq> 0) (packet_bytes source packet_type status ds @ rest) =
    butlast (packet_bytes source packet_type status ds)"
proof -
  let ?p = "packet_bytes source packet_type status ds"
  have last: "?p = butlast ?p @ [0]" by (simp add: packet_bytes_def Let_def butlast_append)
  have "0 \<notin> set (butlast ?p)"
    using assms data_part_nonzero [of ds "length ds mod 7" "length ds div 7"]
    by (auto simp: packet_bytes_def Let_def butlast_append packet_header_def or_top_nonzero or_aa_nonzero)
  then have "takeWhile (\<lambda>b. b \<noteq> 0) (butlast ?p @ 0 # rest) = butlast ?p"
    by (intro takeWhile_append_stop) auto
  then show ?thesis by (subst last) simp
qed

text \<open>
  (C13) What \<open>encode_packet\<close> makes and \<open>encode_spi_packet\<close> sends, up to the zero byte, is accepted by
  the receiver after at most six other bytes, whatever the workaround remembers: the checksum
  computed on the way is the one in the packet; and the buffer then decodes to the data.
\<close>

theorem packet_accepted:
  assumes "encode_packet_ll source packet_type status (Some data) num buf = Some packet"
    and "length buf = BLOCK_PACKET_LEN" and "unat num \<le> length data" and "unat num \<le> length out"
    and "source \<noteq> 0" and "packet_type \<noteq> 0"
    and "0xc3 \<notin> set syncs" and "length syncs \<le> 6" and "length buffer = BLOCK_PACKET_LEN"
  shows "\<exists>received. iwm_read_packet_spi BLOCK_PACKET_LEN
      (syncs @ drop 6 (takeWhile (\<lambda>b. b \<noteq> 0) packet)) buffer last_checksum = Some (0, last_checksum, received) \<and>
    decode_data_packet_ll received out = Some (take (unat num) data @ drop (unat num) out, unat num)"
proof -
  let ?ds = "given_bytes (Some data) num"
  have small: "unat num \<le> 512"
    using encode_packet_out [OF assms(2,3), of source packet_type status] assms(1) by (cases "unat num > 512") auto
  have ds: "?ds = take (unat num) data" "length ?ds = unat num" using assms(3) by (simp_all add: given_bytes_def)
  have "packet = packet_bytes source packet_type status ?ds @ drop (length (packet_bytes source packet_type status ?ds)) buf"
    using encode_packet_result [OF assms(2) _ refl, of "Some data" num source packet_type status] assms(1,3) ds(2) small
    by simp
  then have "takeWhile (\<lambda>b. b \<noteq> 0) packet = butlast (packet_bytes source packet_type status ?ds)"
    using sent_bytes [OF assms(5,6)] by simp
  then show ?thesis
    using packet_bytes_accepted [OF assms(7-9), of ?ds out source packet_type status last_checksum] assms(4) ds small
    by simp
qed

theorem packet_accepted_witness:
  "\<exists>packet received. encode_packet_ll 0x81 0x82 0 (Some [1, 0x92, 3]) 3 (replicate 604 0) = Some packet \<and>
    iwm_read_packet_spi BLOCK_PACKET_LEN ([0xff, 0xfc] @ drop 6 (takeWhile (\<lambda>b. b \<noteq> 0) packet)) (replicate 604 0) 0
      = Some (0, 0, received) \<and>
    decode_data_packet_ll received [0, 0, 0, 0] = Some ([1, 0x92, 3, 0], 3)"
proof -
  have "\<exists>packet. encode_packet_ll 0x81 0x82 0 (Some [1, 0x92, 3]) 3 (replicate 604 0) = Some packet"
    using encode_packet_result [of "replicate 604 0" "[1, 0x92, 3]" "Some [1, 0x92, 3]" 3 "0x81" "0x82" 0]
    by (simp add: BLOCK_PACKET_LEN_def given_bytes_def)
  then show ?thesis
    using packet_accepted [of "0x81" "0x82" 0 "[1, 0x92, 3]" 3 "replicate 604 0" _ "[0, 0, 0, 0]" "[0xff, 0xfc]"
        "replicate 604 0" 0]
    by (fastforce simp: BLOCK_PACKET_LEN_def)
qed

end
