(* ===== verification/Cbuf.thy ===== *)
theory Cbuf
  imports Fuji_Prelude
begin

text \<open>
  The circular byte buffer of \<open>src/lib/utils/cbuf.cpp\<close>, which the UDP sockets and the network
  devices use.  The pointers \<open>_begin\<close> and \<open>_end\<close> are offsets into the block \<open>_buf\<close>, \<open>_bufend\<close> is the
  offset \<open>_size\<close>; a \<open>memcpy\<close> or a store that leaves the block gives \<open>None\<close>.  The theory shows that
  the buffer is a bounded queue, through an interface for such queues, and where \<open>resize\<close> breaks it.
\<close>

section \<open>The code\<close>

record cbuf =
  cb_size :: nat
  cb_buf :: "byte list"
  cb_begin :: nat
  cb_end :: nat

text \<open>The constructor; \<open>block\<close> is what the allocation returns.\<close>

definition cbuf_new :: "nat \<Rightarrow> byte list \<Rightarrow> cbuf" where
  "cbuf_new sz block = \<lparr>cb_size = (sz + 1) mod 2 ^ 64, cb_buf = block, cb_begin = 0, cb_end = 0\<rparr>"

definition wrap_if_bufend :: "cbuf \<Rightarrow> nat \<Rightarrow> nat" where
  "wrap_if_bufend c p = (if p = cb_size c then 0 else p)"

definition cbuf_empty :: "cbuf \<Rightarrow> bool" where
  "cbuf_empty c \<longleftrightarrow> cb_begin c = cb_end c"

definition cbuf_full :: "cbuf \<Rightarrow> bool" where
  "cbuf_full c \<longleftrightarrow> wrap_if_bufend c (cb_end c + 1) = cb_begin c"

definition cbuf_available :: "cbuf \<Rightarrow> nat" where
  "cbuf_available c =
     (if cb_end c \<ge> cb_begin c then cb_end c - cb_begin c else cb_size c - (cb_begin c - cb_end c))"

text \<open>\<open>size_t\<close> arithmetic: the subtraction of the one spare byte wraps around.\<close>

definition cbuf_room :: "cbuf \<Rightarrow> nat" where
  "cbuf_room c =
     (if cb_end c \<ge> cb_begin c then (cb_size c - (cb_end c - cb_begin c) + 2 ^ 64 - 1) mod 2 ^ 64
      else cb_begin c - cb_end c - 1)"

definition cbuf_load :: "cbuf \<Rightarrow> nat \<Rightarrow> nat \<Rightarrow> byte list option" where
  "cbuf_load c p n = (if p + n \<le> length (cb_buf c) then Some (slice (cb_buf c) p (p + n)) else None)"

definition cbuf_store :: "nat \<Rightarrow> byte list \<Rightarrow> cbuf \<Rightarrow> cbuf option" where
  "cbuf_store p xs c =
     (if p + length xs \<le> length (cb_buf c)
      then Some (c\<lparr>cb_buf := take p (cb_buf c) @ xs @ drop (p + length xs) (cb_buf c)\<rparr>) else None)"

text \<open>The character forms return the character as a (signed) \<open>int\<close> and \<open>-1\<close> when there is none.\<close>

definition cbuf_peek :: "cbuf \<Rightarrow> int option" where
  "cbuf_peek c =
     (if cbuf_empty c then Some (-1) else map_option (\<lambda>xs. sint (xs ! 0)) (cbuf_load c (cb_begin c) 1))"

definition cbuf_read :: "cbuf \<Rightarrow> (int \<times> cbuf) option" where
  "cbuf_read c =
     (if cbuf_empty c then Some (-1, c)
      else map_option (\<lambda>xs. (sint (xs ! 0), c\<lparr>cb_begin := wrap_if_bufend c (cb_begin c + 1)\<rparr>))
             (cbuf_load c (cb_begin c) 1))"

definition cbuf_write :: "byte \<Rightarrow> cbuf \<Rightarrow> (nat \<times> cbuf) option" where
  "cbuf_write b c =
     (if cbuf_full c then Some (0, c)
      else map_option (\<lambda>c'. (1, c'\<lparr>cb_end := wrap_if_bufend c' (cb_end c' + 1)\<rparr>)) (cbuf_store (cb_end c) [b] c))"

text \<open>The block forms.\<close>

definition cbuf_peek_block :: "nat \<Rightarrow> cbuf \<Rightarrow> byte list option" where
  "cbuf_peek_block sz c =
     (let bytes_available = cbuf_available c;
          size_to_read = (if sz < bytes_available then sz else bytes_available);
          top_size = cb_size c - cb_begin c
      in if cb_end c < cb_begin c \<and> size_to_read > top_size
         then (case cbuf_load c (cb_begin c) top_size of
                 None \<Rightarrow> None
               | Some hi \<Rightarrow> map_option ((@) hi) (cbuf_load c 0 (size_to_read - top_size)))
         else cbuf_load c (cb_begin c) size_to_read)"

definition cbuf_read_block :: "nat \<Rightarrow> cbuf \<Rightarrow> (byte list \<times> cbuf) option" where
  "cbuf_read_block sz c =
     (let bytes_available = cbuf_available c;
          size_to_read = (if sz < bytes_available then sz else bytes_available);
          top_size = cb_size c - cb_begin c
      in if cb_end c < cb_begin c \<and> size_to_read > top_size
         then (case cbuf_load c (cb_begin c) top_size of
                 None \<Rightarrow> None
               | Some hi \<Rightarrow>
                   map_option (\<lambda>xs. (hi @ xs, c\<lparr>cb_begin := wrap_if_bufend c (size_to_read - top_size)\<rparr>))
                     (cbuf_load c 0 (size_to_read - top_size)))
         else map_option (\<lambda>xs. (xs, c\<lparr>cb_begin := wrap_if_bufend c (cb_begin c + size_to_read)\<rparr>))
                (cbuf_load c (cb_begin c) size_to_read))"

definition cbuf_write_block :: "byte list \<Rightarrow> cbuf \<Rightarrow> (nat \<times> cbuf) option" where
  "cbuf_write_block src c =
     (let bytes_available = cbuf_room c;
          size_to_write = (if length src < bytes_available then length src else bytes_available);
          top_size = cb_size c - cb_end c
      in if cb_end c \<ge> cb_begin c \<and> size_to_write > top_size
         then (case cbuf_store (cb_end c) (take top_size src) c of
                 None \<Rightarrow> None
               | Some c \<Rightarrow>
                   map_option (\<lambda>c. (size_to_write, c\<lparr>cb_end := wrap_if_bufend c (size_to_write - top_size)\<rparr>))
                     (cbuf_store 0 (take (size_to_write - top_size) (drop top_size src)) c))
         else map_option (\<lambda>c. (size_to_write, c\<lparr>cb_end := wrap_if_bufend c (cb_end c + size_to_write)\<rparr>))
                (cbuf_store (cb_end c) (take size_to_write src) c))"

definition cbuf_flush :: "cbuf \<Rightarrow> cbuf" where
  "cbuf_flush c = c\<lparr>cb_begin := 0, cb_end := 0\<rparr>"

definition cbuf_remove :: "nat \<Rightarrow> cbuf \<Rightarrow> nat \<times> cbuf" where
  "cbuf_remove sz c =
     (let bytes_available = cbuf_available c
      in if sz \<ge> bytes_available then (0, cbuf_flush c)
         else let size_to_remove = (if sz < bytes_available then sz else bytes_available);
                  top_size = cb_size c - cb_begin c;
                  c' = (if cb_end c < cb_begin c \<and> size_to_remove > top_size
                        then c\<lparr>cb_begin := wrap_if_bufend c (size_to_remove - top_size)\<rparr>
                        else c\<lparr>cb_begin := wrap_if_bufend c (cb_begin c + size_to_remove)\<rparr>)
              in (cbuf_available c', c'))"

text \<open>\<open>resize\<close>, whose allocation succeeds: the rest of the new block is cleared.\<close>

definition cbuf_resize :: "nat \<Rightarrow> cbuf \<Rightarrow> (nat \<times> cbuf) option" where
  "cbuf_resize newSize c =
     (let bytes_available = cbuf_available c;
          newSize = (newSize + 1) mod 2 ^ 64
      in if newSize < bytes_available \<or> newSize = cb_size c then Some (cb_size c, c)
         else map_option (\<lambda>(xs, _).
                (newSize, \<lparr>cb_size = newSize, cb_buf = xs @ replicate (newSize - bytes_available) 0,
                           cb_begin = 0, cb_end = bytes_available\<rparr>))
                (cbuf_read_block bytes_available c))"

definition cbuf_resizeAdd :: "nat \<Rightarrow> cbuf \<Rightarrow> (nat \<times> cbuf) option" where
  "cbuf_resizeAdd addSize c = cbuf_resize ((cb_size c + addSize) mod 2 ^ 64) c"

lemmas cbuf_defs = wrap_if_bufend_def cbuf_empty_def cbuf_full_def cbuf_available_def cbuf_room_def cbuf_load_def cbuf_store_def

section \<open>Bounded queues\<close>

text \<open>
  The interface: \<open>put\<close> takes the part of the data that fits and says how much that is, \<open>get\<close> returns
  as much as was asked for and is there.
\<close>

locale bounded_queue =
  fixes inv :: "'s \<Rightarrow> bool"
    and contents :: "'s \<Rightarrow> 'a list"
    and capacity :: "'s \<Rightarrow> nat"
    and put :: "'a list \<Rightarrow> 's \<Rightarrow> (nat \<times> 's) option"
    and get :: "nat \<Rightarrow> 's \<Rightarrow> ('a list \<times> 's) option"
  assumes fits: "inv s \<Longrightarrow> length (contents s) \<le> capacity s"
    and put: "inv s \<Longrightarrow> \<exists>s'. put xs s = Some (min (length xs) (capacity s - length (contents s)), s') \<and>
        inv s' \<and> capacity s' = capacity s \<and>
        contents s' = contents s @ take (capacity s - length (contents s)) xs"
    and get: "inv s \<Longrightarrow> \<exists>s'. get n s = Some (take n (contents s), s') \<and>
        inv s' \<and> capacity s' = capacity s \<and> contents s' = drop n (contents s)"

text \<open>A sequence of calls and the bytes that went in and came out.\<close>

datatype 'a queue_call = Put "'a list" | Get nat

fun run_calls :: "('a list \<Rightarrow> 's \<Rightarrow> (nat \<times> 's) option) \<Rightarrow> (nat \<Rightarrow> 's \<Rightarrow> ('a list \<times> 's) option)
    \<Rightarrow> 'a queue_call list \<Rightarrow> 's \<Rightarrow> ('a list \<times> 'a list \<times> 's) option" where
  "run_calls put get [] s = Some ([], [], s)"
| "run_calls put get (Put xs # cs) s =
     (case put xs s of
        None \<Rightarrow> None
      | Some (n, s) \<Rightarrow> map_option (\<lambda>(i, out, s). (take n xs @ i, out, s)) (run_calls put get cs s))"
| "run_calls put get (Get n # cs) s =
     (case get n s of
        None \<Rightarrow> None
      | Some (ys, s) \<Rightarrow> map_option (\<lambda>(i, out, s). (i, ys @ out, s)) (run_calls put get cs s))"

context bounded_queue
begin

lemma run_fifo:
  "inv s \<Longrightarrow> \<exists>i out s'. run_calls put get cs s = Some (i, out, s') \<and> inv s' \<and> capacity s' = capacity s \<and>
     contents s @ i = out @ contents s'"
proof (induction cs arbitrary: s)
  case (Cons c cs)
  show ?case
  proof (cases c)
    case (Put xs)
    obtain t where t: "put xs s = Some (min (length xs) (capacity s - length (contents s)), t)" "inv t"
        "capacity t = capacity s" "contents t = contents s @ take (capacity s - length (contents s)) xs"
      using put [OF Cons.prems] by blast
    have "take (min (length xs) k) xs = take k xs" for k by (simp add: min_def)
    then show ?thesis using Cons.IH [OF t(2)] t Put by fastforce
  next
    case (Get n)
    obtain t where t: "get n s = Some (take n (contents s), t)" "inv t" "capacity t = capacity s"
        "contents t = drop n (contents s)"
      using get [OF Cons.prems] by blast
    have split: "contents s @ i = (take n (contents s) @ out) @ u" if "contents t @ i = out @ u" for i out u
      using that t(4) by (metis append.assoc append_take_drop_id)
    show ?thesis using Cons.IH [OF t(2)] t(1,3) Get split by fastforce
  qed
qed simp

text \<open>What was put while there was room comes out unchanged.\<close>

lemma put_get:
  assumes "inv s" and "length (contents s) + length xs \<le> capacity s"
  shows "\<exists>s' s''. put xs s = Some (length xs, s') \<and>
    get (length (contents s) + length xs) s' = Some (contents s @ xs, s'') \<and> contents s'' = [] \<and> inv s''"
proof -
  have "min (length xs) (capacity s - length (contents s)) = length xs" using assms(2) by simp
  then obtain t where t: "put xs s = Some (length xs, t)" "inv t" "contents t = contents s @ xs"
    using put [OF assms(1), of xs] assms(2) by auto
  then show ?thesis using get [OF t(2), of "length (contents s) + length xs"] by auto
qed

end

section \<open>The circular buffer as a queue\<close>

definition cbuf_inv :: "cbuf \<Rightarrow> bool" where
  "cbuf_inv c \<longleftrightarrow> length (cb_buf c) = cb_size c \<and> cb_begin c < cb_size c \<and> cb_end c < cb_size c \<and> cb_size c \<le> 2 ^ 64"

definition cbuf_contents :: "cbuf \<Rightarrow> byte list" where
  "cbuf_contents c =
     (if cb_begin c \<le> cb_end c then slice (cb_buf c) (cb_begin c) (cb_end c)
      else drop (cb_begin c) (cb_buf c) @ take (cb_end c) (cb_buf c))"

definition cbuf_capacity :: "cbuf \<Rightarrow> nat" where
  "cbuf_capacity c = cb_size c - 1"

lemma cbuf_available_length: "cbuf_inv c \<Longrightarrow> cbuf_available c = length (cbuf_contents c)"
  by (auto simp: cbuf_inv_def cbuf_available_def cbuf_contents_def slice_def)

lemma cbuf_room_left: "cbuf_inv c \<Longrightarrow> cbuf_room c = cbuf_capacity c - length (cbuf_contents c)"
proof (cases "cb_begin c \<le> cb_end c")
  case True
  assume i: "cbuf_inv c"
  let ?d = "cb_size c - (cb_end c - cb_begin c)"
  have "0 < ?d" "?d \<le> 2 ^ 64" using i True by (auto simp: cbuf_inv_def)
  then have "(?d + 2 ^ 64 - 1) mod 2 ^ 64 = ?d - 1"
proof -
    assume d: "0 < ?d" "?d \<le> 2 ^ 64"
    then have "?d + 2 ^ 64 - 1 = (?d - 1) + 2 ^ 64" "?d - 1 < 2 ^ 64" by auto
    then show ?thesis by (simp only: mod_add_self2 mod_less)
  qed
  then show ?thesis
    using i True by (simp add: cbuf_room_def cbuf_capacity_def cbuf_contents_def length_slice cbuf_inv_def)
next
  case False
  then show "cbuf_inv c \<Longrightarrow> ?thesis"
    by (auto simp: cbuf_room_def cbuf_capacity_def cbuf_contents_def cbuf_inv_def)
qed

lemma cbuf_fits: "cbuf_inv c \<Longrightarrow> length (cbuf_contents c) \<le> cbuf_capacity c"
  by (auto simp: cbuf_inv_def cbuf_contents_def cbuf_capacity_def slice_def)

lemma cbuf_get:
  assumes i: "cbuf_inv c"
  shows "\<exists>c'. cbuf_read_block n c = Some (take n (cbuf_contents c), c') \<and> cbuf_inv c' \<and>
    cbuf_capacity c' = cbuf_capacity c \<and> cbuf_contents c' = drop n (cbuf_contents c)"
proof -
  define k where "k = (if n < length (cbuf_contents c) then n else length (cbuf_contents c))"
  have k: "k \<le> length (cbuf_contents c)" "take n (cbuf_contents c) = take k (cbuf_contents c)"
      "drop n (cbuf_contents c) = drop k (cbuf_contents c)"
    by (auto simp: k_def)
  note b = i [unfolded cbuf_inv_def]
  have read: "cbuf_read_block n c =
     (if cb_end c < cb_begin c \<and> k > cb_size c - cb_begin c
      then (case cbuf_load c (cb_begin c) (cb_size c - cb_begin c) of None \<Rightarrow> None
            | Some hi \<Rightarrow> map_option (\<lambda>xs. (hi @ xs, c\<lparr>cb_begin := wrap_if_bufend c (k - (cb_size c - cb_begin c))\<rparr>))
                (cbuf_load c 0 (k - (cb_size c - cb_begin c))))
      else map_option (\<lambda>xs. (xs, c\<lparr>cb_begin := wrap_if_bufend c (cb_begin c + k)\<rparr>)) (cbuf_load c (cb_begin c) k))"
    by (simp only: cbuf_read_block_def Let_def cbuf_available_length [OF i] k_def [symmetric])
  show ?thesis
  proof (cases "cb_begin c \<le> cb_end c")
    case True
    then have le: "cb_begin c + k \<le> cb_end c" using k(1) b by (simp add: cbuf_contents_def length_slice)
    then show ?thesis
      using True b k(2,3) unfolding read
      by (simp add: cbuf_load_def wrap_if_bufend_def cbuf_inv_def cbuf_capacity_def cbuf_contents_def slice_def
          drop_take add.commute)
  next
    case False
    then have len: "k \<le> cb_size c - cb_begin c + cb_end c" using k(1) b by (simp add: cbuf_contents_def)
    let ?top = "cb_size c - cb_begin c"
    have C: "cbuf_contents c = drop (cb_begin c) (cb_buf c) @ take (cb_end c) (cb_buf c)"
      using False by (simp add: cbuf_contents_def)
    show ?thesis
    proof (cases "k > ?top")
      case True
      let ?c = "c\<lparr>cb_begin := k - ?top\<rparr>"
      have e: "k - ?top \<le> cb_end c" using len by simp
      then have w: "wrap_if_bufend c (k - ?top) = k - ?top" "k - ?top \<le> length (cb_buf c)"
        using b by (auto simp: wrap_if_bufend_def)
      have "cbuf_read_block n c = Some (take k (cbuf_contents c), ?c)"
        using True False b len w unfolding read C by (simp add: cbuf_load_def slice_def)
      moreover have "cbuf_contents ?c = drop k (cbuf_contents c)"
        using True False b e unfolding C by (simp add: cbuf_contents_def slice_def drop_take)
      ultimately show ?thesis using b e True k(2,3) by (simp add: cbuf_inv_def cbuf_capacity_def)
    next
      case le: False
      have l: "cb_begin c + k \<le> cb_size c" using le b by linarith
      let ?c = "c\<lparr>cb_begin := wrap_if_bufend c (cb_begin c + k)\<rparr>"
      have "cbuf_read_block n c = Some (take k (cbuf_contents c), ?c)"
        using le False b l unfolding read C by (simp add: cbuf_load_def slice_def)
      moreover have "cbuf_contents ?c = drop k (cbuf_contents c)"
        using le False b l unfolding C by (auto simp: cbuf_contents_def wrap_if_bufend_def slice_def add.commute)
      ultimately show ?thesis using b l k(2,3) by (simp add: cbuf_inv_def cbuf_capacity_def wrap_if_bufend_def)
    qed
  qed
qed

text \<open>The two ways of \<open>write\<close>: around the end of the block, or in one piece.\<close>

lemma cbuf_put_around:
  assumes b: "cbuf_inv c" and be: "cb_begin c \<le> cb_end c" and wrap: "cb_size c - cb_end c < k"
    and k: "k \<le> length xs" "k \<le> cbuf_capacity c - length (cbuf_contents c)"
  shows "\<exists>c1 c2. cbuf_store (cb_end c) (take (cb_size c - cb_end c) xs) c = Some c1 \<and>
    cbuf_store 0 (take (k - (cb_size c - cb_end c)) (drop (cb_size c - cb_end c) xs)) c1 = Some c2 \<and>
    (let c' = c2\<lparr>cb_end := wrap_if_bufend c2 (k - (cb_size c - cb_end c))\<rparr>
     in cbuf_inv c' \<and> cbuf_capacity c' = cbuf_capacity c \<and> cbuf_contents c' = cbuf_contents c @ take k xs)"
proof -
  let ?top = "cb_size c - cb_end c"
  note b = b [unfolded cbuf_inv_def]
  have C: "cbuf_contents c = slice (cb_buf c) (cb_begin c) (cb_end c)" using be by (simp add: cbuf_contents_def)
  define m where "m = k - ?top"
  have "?top + m \<le> length xs" using wrap k(1) by (simp add: m_def)
  then have m: "k = ?top + m" "length (take m (drop ?top xs)) = m" "length (take ?top xs) = ?top"
    using wrap by (auto simp: m_def)
  have "k \<le> cb_size c - 1 - (cb_end c - cb_begin c)"
    using k(2) b by (simp add: C cbuf_capacity_def length_slice)
  then have e: "m < cb_begin c" using be b m(1) wrap by linarith
  have le: "length (take (cb_end c) (cb_buf c)) = cb_end c" using b by simp
  let ?c1 = "c\<lparr>cb_buf := take (cb_end c) (cb_buf c) @ take ?top xs\<rparr>"
  let ?buf = "take m (drop ?top xs) @ drop m (take (cb_end c) (cb_buf c)) @ take ?top xs"
  let ?c2 = "c\<lparr>cb_buf := ?buf\<rparr>"
  have s1: "cbuf_store (cb_end c) (take ?top xs) c = Some ?c1"
    using b m(3) by (simp add: cbuf_store_def del: length_take)
  have s2: "cbuf_store 0 (take m (drop ?top xs)) ?c1 = Some ?c2"
    using b m(2,3) e be le by (simp add: cbuf_store_def del: length_take length_drop)
  have w: "?c2\<lparr>cb_end := wrap_if_bufend ?c2 m\<rparr> = ?c2\<lparr>cb_end := m\<rparr>"
    using e b by (simp add: wrap_if_bufend_def)
  have "drop (cb_begin c) ?buf = drop (cb_begin c) (take (cb_end c) (cb_buf c)) @ take ?top xs"
    using m(2) e be b by (simp add: drop_append del: drop_take length_take length_drop) simp
  then have "cbuf_contents (?c2\<lparr>cb_end := m\<rparr>) = cbuf_contents c @ take k xs"
    using m(2) e C by (simp add: cbuf_contents_def m(1) take_add slice_def drop_take)
  moreover have "length ?buf = cb_size c" using b e be m(2,3) by (simp del: drop_take)
  then have "cbuf_inv (?c2\<lparr>cb_end := m\<rparr>)" using b e by (simp add: cbuf_inv_def del: length_append)
  moreover have "cbuf_capacity (?c2\<lparr>cb_end := m\<rparr>) = cbuf_capacity c" by (simp add: cbuf_capacity_def)
  ultimately show ?thesis using s1 s2 unfolding m_def [symmetric] Let_def by (metis w)
qed

lemma cbuf_put_straight:
  assumes b: "cbuf_inv c" and one: "\<not> (cb_begin c \<le> cb_end c \<and> cb_size c - cb_end c < k)"
    and k: "k \<le> length xs" "k \<le> cbuf_capacity c - length (cbuf_contents c)"
  shows "\<exists>c1. cbuf_store (cb_end c) (take k xs) c = Some c1 \<and>
    (let c' = c1\<lparr>cb_end := wrap_if_bufend c1 (cb_end c1 + k)\<rparr>
     in cbuf_inv c' \<and> cbuf_capacity c' = cbuf_capacity c \<and> cbuf_contents c' = cbuf_contents c @ take k xs)"
proof -
  note b = b [unfolded cbuf_inv_def]
  have room: "k \<le> (if cb_begin c \<le> cb_end c then cb_size c - 1 - (cb_end c - cb_begin c) else cb_begin c - cb_end c - 1)"
    using k(2) b by (auto simp: cbuf_contents_def cbuf_capacity_def length_slice)
  have l: "cb_end c + k \<le> cb_size c" using one b room by (auto split: if_splits)
  let ?c1 = "c\<lparr>cb_buf := take (cb_end c) (cb_buf c) @ take k xs @ drop (cb_end c + k) (cb_buf c)\<rparr>"
  let ?c = "?c1\<lparr>cb_end := wrap_if_bufend ?c1 (cb_end ?c1 + k)\<rparr>"
  have "cbuf_store (cb_end c) (take k xs) c = Some ?c1"
    using b k(1) l by (simp add: cbuf_store_def)
  moreover have "cbuf_contents ?c = cbuf_contents c @ take k xs"
  proof (cases "cb_begin c \<le> cb_end c")
    case True
    then show ?thesis
      using b k(1) room l by (auto simp: cbuf_contents_def slice_def wrap_if_bufend_def drop_take)
  next
    case False
    then have "cb_end c + k < cb_begin c" using room by auto
    then show ?thesis
      using False b k(1) by (simp add: cbuf_contents_def wrap_if_bufend_def)
  qed
  moreover have "cbuf_inv ?c" using b k(1) l by (simp add: cbuf_inv_def wrap_if_bufend_def)
  moreover have "cbuf_capacity ?c = cbuf_capacity c" by (simp add: cbuf_capacity_def)
  ultimately show ?thesis unfolding Let_def by blast
qed

lemma cbuf_put:
  assumes i: "cbuf_inv c"
  shows "\<exists>c'. cbuf_write_block xs c = Some (min (length xs) (cbuf_capacity c - length (cbuf_contents c)), c') \<and>
    cbuf_inv c' \<and> cbuf_capacity c' = cbuf_capacity c \<and>
    cbuf_contents c' = cbuf_contents c @ take (cbuf_capacity c - length (cbuf_contents c)) xs"
proof -
  let ?room = "cbuf_capacity c - length (cbuf_contents c)"
  define k where "k = (if length xs < ?room then length xs else ?room)"
  have k: "k = min (length xs) ?room" "k \<le> length xs" "k \<le> ?room" "take ?room xs = take k xs"
    by (auto simp: k_def)
  note wr = cbuf_write_block_def [of xs c, unfolded Let_def cbuf_room_left [OF i] k_def [symmetric]]
  show ?thesis
  proof (cases "cb_begin c \<le> cb_end c \<and> cb_size c - cb_end c < k")
    case True
    then show ?thesis
      using cbuf_put_around [OF i _ _ k(2,3)] unfolding wr k(1) [symmetric] k(4) Let_def by auto
  next
    case False
    then show ?thesis
      using cbuf_put_straight [OF i _ k(2,3)] unfolding wr k(1) [symmetric] k(4) Let_def by auto
  qed
qed

interpretation cbq: bounded_queue cbuf_inv cbuf_contents cbuf_capacity cbuf_write_block cbuf_read_block
  by unfold_locales (rule cbuf_fits cbuf_put cbuf_get; assumption)+

text \<open>
  (C12) In any sequence of block writes and reads the buffer never touches memory outside its
  block, and the bytes that were in it followed by those accepted are exactly the bytes that came
  out followed by those still in it: none is lost, doubled or out of order.
\<close>

theorem cbuf_fifo:
  assumes "cbuf_inv c"
  shows "\<exists>i out c'. run_calls cbuf_write_block cbuf_read_block calls c = Some (i, out, c') \<and> cbuf_inv c' \<and>
    cbuf_capacity c' = cbuf_capacity c \<and> cbuf_contents c @ i = out @ cbuf_contents c'"
  by (rule cbq.run_fifo [OF assms])

theorem cbuf_fifo_witness:
  "\<exists>i out c'. run_calls cbuf_write_block cbuf_read_block [Put [1, 2, 3], Get 2, Put [4, 5, 6]]
     (cbuf_new 3 (replicate 4 0)) = Some (i, out, c') \<and> i = out @ cbuf_contents c'"
proof -
  have "cbuf_inv (cbuf_new 3 (replicate 4 0))" "cbuf_contents (cbuf_new 3 (replicate 4 0)) = []"
    by (simp_all add: cbuf_inv_def cbuf_new_def cbuf_contents_def)
  then show ?thesis
    using cbuf_fifo [of "cbuf_new 3 (replicate 4 0)" "[Put [1, 2, 3], Get 2, Put [4, 5, 6]]"] by fastforce
qed

section \<open>The other operations\<close>

lemma cbuf_empty_contents: "cbuf_inv c \<Longrightarrow> cbuf_empty c \<longleftrightarrow> cbuf_contents c = []"
  by (auto simp: cbuf_empty_def cbuf_contents_def cbuf_inv_def slice_def)

lemma cbuf_full_room: "cbuf_inv c \<Longrightarrow> cbuf_full c \<longleftrightarrow> cbuf_capacity c - length (cbuf_contents c) = 0"
  by (auto simp: cbuf_full_def wrap_if_bufend_def cbuf_capacity_def cbuf_contents_def cbuf_inv_def length_slice)

lemma cbuf_peek_block_read: "cbuf_peek_block n c = map_option fst (cbuf_read_block n c)"
  by (simp add: cbuf_peek_block_def cbuf_read_block_def Let_def option.map_comp comp_def option.map_ident
      split: option.split)

lemma cbuf_read_one:
  assumes "cbuf_inv c" and "cbuf_contents c \<noteq> []"
  shows "cbuf_read c = map_option (\<lambda>(xs, c'). (sint (xs ! 0), c')) (cbuf_read_block 1 c)"
    and "cbuf_peek c = map_option (\<lambda>xs. sint (xs ! 0)) (cbuf_peek_block 1 c)"
proof -
  have "(if 1 < cbuf_available c then 1 else cbuf_available c) = 1"
    using assms by (cases "cbuf_contents c") (auto simp: cbuf_available_length)
  moreover have "\<not> 1 > cb_size c - cb_begin c" using assms(1) by (auto simp: cbuf_inv_def)
  ultimately show "cbuf_read c = map_option (\<lambda>(xs, c'). (sint (xs ! 0), c')) (cbuf_read_block 1 c)"
    and "cbuf_peek c = map_option (\<lambda>xs. sint (xs ! 0)) (cbuf_peek_block 1 c)"
    using assms
    by (simp_all add: cbuf_read_def cbuf_peek_def cbuf_read_block_def cbuf_peek_block_def Let_def cbuf_empty_contents
        option.map_comp comp_def del: One_nat_def)
qed

lemma cbuf_write_one:
  assumes "cbuf_inv c"
  shows "cbuf_write b c = (if cbuf_full c then Some (0, c) else cbuf_write_block [b] c)"
proof (cases "cbuf_full c")
  case False
  then have "(if length [b] < cbuf_room c then length [b] else cbuf_room c) = 1"
    using assms by (simp add: cbuf_full_room cbuf_room_left) linarith
  moreover have "\<not> 1 > cb_size c - cb_end c" using assms by (auto simp: cbuf_inv_def)
  ultimately show ?thesis
    using False unfolding cbuf_write_def cbuf_write_block_def Let_def
    by (auto simp: cbuf_store_def)
qed (simp add: cbuf_write_def)

lemma cbuf_remove_read:
  "n < cbuf_available c \<Longrightarrow> cbuf_read_block n c = Some (xs, c') \<Longrightarrow> cbuf_remove n c = (cbuf_available c', c')"
  by (auto simp: cbuf_remove_def cbuf_read_block_def Let_def split: if_splits option.splits)

lemma cbuf_peek_queue:
  assumes "cbuf_inv c"
  shows "cbuf_peek_block n c = Some (take n (cbuf_contents c))"
    and "cbuf_peek c = Some (case cbuf_contents c of [] \<Rightarrow> -1 | b # _ \<Rightarrow> sint b)"
proof -
  show block: "cbuf_peek_block n c = Some (take n (cbuf_contents c))" for n
    using cbuf_get [OF assms, of n] by (auto simp: cbuf_peek_block_read)
  show "cbuf_peek c = Some (case cbuf_contents c of [] \<Rightarrow> -1 | b # _ \<Rightarrow> sint b)"
  proof (cases "cbuf_contents c")
    case Nil
    then show ?thesis using assms by (simp add: cbuf_peek_def cbuf_empty_contents)
  next
    case (Cons b bs)
    then show ?thesis using cbuf_read_one(2) [OF assms] block [of 1] by simp
  qed
qed

lemma cbuf_read_queue:
  assumes "cbuf_inv c"
  shows "\<exists>c'. cbuf_read c = Some (case cbuf_contents c of [] \<Rightarrow> -1 | b # _ \<Rightarrow> sint b, c') \<and>
    cbuf_inv c' \<and> cbuf_contents c' = tl (cbuf_contents c)"
proof (cases "cbuf_contents c")
  case Nil
  then show ?thesis using assms by (simp add: cbuf_read_def cbuf_empty_contents)
next
  case (Cons b bs)
  then show ?thesis using cbuf_read_one(1) [OF assms] cbuf_get [OF assms, of 1] by auto
qed

lemma cbuf_write_queue:
  assumes "cbuf_inv c"
  shows "\<exists>c' k. cbuf_write b c = Some (k, c') \<and> cbuf_inv c' \<and>
    (if length (cbuf_contents c) = cbuf_capacity c then k = 0 \<and> c' = c
     else k = 1 \<and> cbuf_contents c' = cbuf_contents c @ [b])"
proof (cases "length (cbuf_contents c) = cbuf_capacity c")
  case True
  then show ?thesis using assms by (simp add: cbuf_write_one cbuf_full_room)
next
  case False
  then have r: "0 < cbuf_capacity c - length (cbuf_contents c)" using cbuf_fits [OF assms] by simp
  then have "min (length [b]) (cbuf_capacity c - length (cbuf_contents c)) = 1"
    "take (cbuf_capacity c - length (cbuf_contents c)) [b] = [b]" by (auto simp: take_Cons')
  then show ?thesis
    using cbuf_put [OF assms, of "[b]"] r assms False by (auto simp: cbuf_write_one cbuf_full_room)
qed

lemma cbuf_flush_queue: "cbuf_inv c \<Longrightarrow> cbuf_inv (cbuf_flush c) \<and> cbuf_contents (cbuf_flush c) = []"
  by (auto simp: cbuf_flush_def cbuf_inv_def cbuf_contents_def)

lemma cbuf_remove_queue:
  assumes "cbuf_inv c"
  shows "\<exists>c'. cbuf_remove n c = (length (cbuf_contents c'), c') \<and> cbuf_inv c' \<and>
    cbuf_contents c' = drop n (cbuf_contents c)"
proof (cases "n < cbuf_available c")
  case True
  then show ?thesis
    using cbuf_get [OF assms, of n] cbuf_remove_read [OF True] by (auto simp: cbuf_available_length)
next
  case False
  then have "cbuf_remove n c = (0, cbuf_flush c)" by (simp add: cbuf_remove_def Let_def)
  then show ?thesis using cbuf_flush_queue [OF assms] False assms by (auto simp: cbuf_available_length)
qed

text \<open>
  The other operations see the same queue: \<open>available\<close> and \<open>room\<close> count, \<open>peek\<close> looks at the
  front, \<open>read\<close> and \<open>write\<close> of a character take it from the front and add it at the back unless
  the buffer is empty or full, \<open>remove\<close> drops from the front and returns how much is left, \<open>flush\<close>
  empties the buffer.
\<close>

theorem cbuf_operations:
  assumes "cbuf_inv c"
  shows "cbuf_available c = length (cbuf_contents c) \<and>
    cbuf_room c = cbuf_capacity c - length (cbuf_contents c) \<and>
    cbuf_peek_block n c = Some (take n (cbuf_contents c)) \<and>
    cbuf_peek c = Some (case cbuf_contents c of [] \<Rightarrow> -1 | b # _ \<Rightarrow> sint b) \<and>
    (\<exists>c'. cbuf_read c = Some (case cbuf_contents c of [] \<Rightarrow> -1 | b # _ \<Rightarrow> sint b, c') \<and>
       cbuf_inv c' \<and> cbuf_contents c' = tl (cbuf_contents c)) \<and>
    (\<exists>c' k. cbuf_write b c = Some (k, c') \<and> cbuf_inv c' \<and>
       (if length (cbuf_contents c) = cbuf_capacity c then k = 0 \<and> c' = c
        else k = 1 \<and> cbuf_contents c' = cbuf_contents c @ [b])) \<and>
    (\<exists>c'. cbuf_remove n c = (length (cbuf_contents c'), c') \<and> cbuf_inv c' \<and>
       cbuf_contents c' = drop n (cbuf_contents c)) \<and>
    cbuf_inv (cbuf_flush c) \<and> cbuf_contents (cbuf_flush c) = []"
  using cbuf_available_length [OF assms] cbuf_room_left [OF assms] cbuf_peek_queue [OF assms]
    cbuf_read_queue [OF assms] cbuf_write_queue [OF assms] cbuf_remove_queue [OF assms] cbuf_flush_queue [OF assms]
  by blast

theorem cbuf_operations_witness:
  "cbuf_peek (cbuf_new 3 (replicate 4 0)) = Some (-1) \<and> cbuf_room (cbuf_new 3 (replicate 4 0)) = 3"
proof -
  have "cbuf_inv (cbuf_new 3 (replicate 4 0))" "cbuf_contents (cbuf_new 3 (replicate 4 0)) = []"
    "cbuf_capacity (cbuf_new 3 (replicate 4 0)) = 3"
    by (simp_all add: cbuf_inv_def cbuf_new_def cbuf_contents_def cbuf_capacity_def)
  then show ?thesis using cbuf_operations [of "cbuf_new 3 (replicate 4 0)"] by simp
qed

section \<open>Resizing\<close>

text \<open>
  (C38) \<open>resize\<close> keeps the contents.  Its check lets through the one size that leaves no spare byte:
  the buffer is then still read correctly, but its room is the largest \<open>size_t\<close> and the next
  character is stored past the end of the block.
\<close>

theorem cbuf_resize_keeps:
  assumes "cbuf_inv c" and "n + 1 < 2 ^ 64"
  shows "\<exists>r c'. cbuf_resize n c = Some (r, c') \<and> cbuf_contents c' = cbuf_contents c \<and>
    (if n + 1 = length (cbuf_contents c)
     then \<not> cbuf_inv c' \<and> cbuf_room c' = 2 ^ 64 - 1 \<and> cbuf_write b c' = None
     else cbuf_inv c')"
proof -
  let ?C = "cbuf_contents c"
  have size: "length ?C < cb_size c"
    using cbuf_fits [OF assms(1)] assms(1) by (auto simp: cbuf_capacity_def cbuf_inv_def)
  have wrap: "(n + 1) mod 2 ^ 64 = n + 1" using assms(2) by (rule mod_less)
  obtain t where rd: "cbuf_read_block (length ?C) c = Some (?C, t)"
    using cbuf_get [OF assms(1), of "length ?C"] by auto
  show ?thesis
  proof (cases "n + 1 < length ?C \<or> n + 1 = cb_size c")
    case True
    then have "cbuf_resize n c = Some (cb_size c, c)"
      using assms(1) unfolding cbuf_resize_def Let_def wrap by (simp add: cbuf_available_length)
    then show ?thesis using assms(1) True size by auto
  next
    case False
    let ?c = "\<lparr>cb_size = n + 1, cb_buf = ?C @ replicate (n + 1 - length ?C) 0, cb_begin = 0, cb_end = length ?C\<rparr>"
    have "cbuf_resize n c = Some (n + 1, ?c)"
      using False assms(1) rd unfolding cbuf_resize_def Let_def wrap by (simp add: cbuf_available_length)
    moreover have "cbuf_contents ?c = ?C" by (simp add: cbuf_contents_def slice_def)
    moreover have "if n + 1 = length ?C
      then \<not> cbuf_inv ?c \<and> cbuf_room ?c = 2 ^ 64 - 1 \<and> cbuf_write b ?c = None else cbuf_inv ?c"
      using False assms(2)
      by (auto simp: cbuf_inv_def cbuf_room_def cbuf_write_def cbuf_full_def wrap_if_bufend_def cbuf_store_def)
    ultimately show ?thesis by blast
  qed
qed

theorem cbuf_resize_keeps_witness:
  "\<exists>r c'. cbuf_resize 0 \<lparr>cb_size = 4, cb_buf = [7, 0, 0, 0], cb_begin = 0, cb_end = 1\<rparr> = Some (r, c') \<and>
     cbuf_contents c' = [7] \<and> cbuf_write 8 c' = None"
proof -
  let ?c = "\<lparr>cb_size = 4, cb_buf = [7, 0, 0, 0], cb_begin = 0, cb_end = 1\<rparr>"
  have "cbuf_inv ?c" "cbuf_contents ?c = [7]" by (simp_all add: cbuf_inv_def cbuf_contents_def slice_def)
  then show ?thesis using cbuf_resize_keeps [of ?c 0 8] by auto
qed

end
