(* ===== verification/Spec2Isabelle.thy ===== *)
theory Spec2Isabelle
  imports Telnet_Send Telnet_Peers Pico_Loop Base64 Strl Cpm_Programs Slip_Threads Smartport_Receive Cbuf
begin

text \<open>
  \<^bold>\<open>Verification of FujiNet-PC\<close>

  FujiNet-PC puts network devices, disks and a CP/M computer behind the peripheral buses of old home computers.
  Most of the repository is glue to operating systems and vendored libraries; this development covers the parts
  with logic of their own:

  \<^item> the TELNET protocol library (\<open>src/lib/telnet/libtelnet.c\<close>, \<open>libtelnet.h\<close>), which the network and modem
    devices put between a terminal program and the remote host;
  \<^item> RunCPM (\<open>src/lib/runcpm\<close>): a Z80 emulator (\<open>cpu.h\<close>) and, on it, CP/M: BIOS and BDOS calls (\<open>cpm.h\<close>, \<open>disk.h\<close>,
    \<open>console.h\<close>), their file layer on the SD card (\<open>abstraction_fujinet.h\<close>, \<open>src/lib/FileSystem/fnFsSD.cpp\<close>) and the
    command processor (\<open>ccp.h\<close>), entered from \<open>src/lib/device/sio/siocpm.cpp\<close>;
  \<^item> the RP2040 firmware of the Macintosh interface (\<open>src/pico/mac/commands.c\<close>), which emulates floppy drives and
    hard disks on the bus side and talks to the ESP32 over a serial line;
  \<^item> the SmartPort bus of the Apple II: its packets on the wire (\<open>src/lib/bus/iwm/iwm_ll.cpp\<close>) and, for
    emulators, the bus over a TCP connection (\<open>src/lib/slip\<close>; \<open>Connection.cpp\<close>, \<open>TCPConnection.cpp\<close>, \<open>iwm_slip.cpp\<close>
    and \<open>iwm.cpp\<close> of \<open>src/lib/bus/iwm\<close>);
  \<^item> the circular buffer (\<open>src/lib/utils/cbuf.cpp\<close>), the Base64 codec (\<open>src/lib/base64/base64.c\<close>) and the bounded string functions
    (\<open>src/lib/compat/strlcpy.c\<close>, \<open>strlcat.c\<close>) that the rest of the program uses.

  \<^bold>\<open>Conventions\<close>

  A C structure or the globals of a file are a record, an enumeration is a datatype, and an operation is a function
  from the state before to the state after, with its result. Bytes and machine words are \<open>byte\<close>, \<open>u16\<close>, \<open>u32\<close>
  and \<open>size_t\<close> of \<open>Fuji_Prelude\<close>, so that wrap-around is the arithmetic of the model. What a callback is told, and what a
  device puts on a wire, is a list of events or bytes in the state. Whether an allocation succeeds is an argument.
  An access outside of a block is a value of its own (\<open>None\<close>, an \<open>Overflow\<close> outcome, an \<open>OutOfRange\<close>
  error, or the flag \<open>overrun\<close>), never a default; an exception is the left side of a sum. A loop over data is structural recursion; a loop with a bound is recursion with a measure; a loop that
  need not end is a \<open>partial_function\<close> in the option type (\<open>Z80run\<close>, \<open>ccp_loop\<close>, \<open>load_loop\<close>, ...), and
  where the code does return, that is a theorem (\<open>Z80run_halts\<close>, \<open>load_program\<close>, \<open>program_call_return\<close>).
  Waiting for input that never comes sets the flag \<open>stuck\<close>, and closing a null file \<open>crashed\<close>; the state behind
  such a flag has no meaning. Each file says at its head which build switches it assumes.

  \<^bold>\<open>TELNET\<close>

  \<open>Telnet_Types\<close> has the tracker \<open>telnet\<close>, its events and constants. \<open>Telnet_Opt\<close> has the option table
  (\<open>_get_rfc1143\<close>, \<open>_set_rfc1143\<close>) and the handlers of WILL, WONT, DO and DONT; the locale \<open>option_store\<close> is what the
  handlers need of the table, interpreted as \<open>table\<close>. \<open>Q_Method\<close> is the specification, the Q method of
  RFC 1143 on one side of one option: \<open>negotiate_q_method\<close> and \<open>request_q_method\<close> show that the code
  refines it. \<open>Telnet_Peers\<close> connects two trackers: \<open>negotiation_converges\<close> shows of \<open>telnet_negotiate\<close> and
  \<open>telnet_recv\<close> that, in any interleaving, the two come to rest in agreement about an option. \<open>Telnet_Sub\<close> has
  the growing buffer and the sub-negotiation parsers, which work in place: \<open>environ_parses\<close> compares with a parser on
  lists, \<open>mssp_overread\<close> is the one read outside of the block. \<open>Telnet_Recv\<close> is \<open>_process\<close>; \<open>recv_refines\<close>
  relates it to a receiver that takes one byte at a time, from which independence of the segmentation
  (\<open>recv_segmentation\<close>) and memory safety follow, all three on input without the MCCPv1 sequence, for which they
  fail (\<open>mccp1_wild_event\<close>). \<open>Telnet_Send\<close> has the sender, the reachable trackers and
  their invariant, and the round trips.

  \<^bold>\<open>Z80\<close>

  \<open>Z80_State\<close> has registers (32 bits wide, as in the code), memory and access macros, \<open>Z80_Tables\<close> the 23
  tables entry by entry; the locale \<open>precomputed\<close> states what it is for a table to follow a formula and is
  interpreted for each of them. \<open>Z80_Block0\<close> to \<open>Z80_Block3\<close>, \<open>Z80_CB\<close>, \<open>Z80_DD\<close>, \<open>Z80_FD\<close> and \<open>Z80_ED\<close>
  have one definition per opcode, \<open>Z80_Run\<close> the loop. \<open>Z80_Spec\<close> is the data sheet machine: 16-bit registers, opcodes
  decoded by their fields, flags by arithmetic. \<open>Z80_Arith\<close>, \<open>Z80_Alu\<close>, \<open>Z80_Refine\<close> and \<open>Z80_Daa\<close> show the refinement
  instruction by instruction, and \<open>Z80_Machine\<close> puts it together for all unprefixed opcodes, for the loop, and for the memory
  bounds. \<open>Z80_Move\<close> has the block transfers.

  \<^bold>\<open>CP/M\<close>

  The record \<open>cpm\<close> of \<open>Cpm_State\<close> (globals, console, files) is the \<open>world\<close> field of the Z80 state, so that a
  system call is a function on the complete machine. \<open>Cpm_Files\<close> has the card and the file layer, \<open>Cpm_Disk\<close> the
  disk functions, \<open>Cpm_Bdos\<close> the memory image and the BIOS and BDOS calls. \<open>Cpm_Inv\<close> states once, in the locale
  \<open>machine_inv\<close>, that a predicate kept by the primitive steps is kept by every call; its two interpretations
  are the registers that calls leave alone and the sizes of the static buffers, of which three are filled without a check:
  a name too long for them sets the flag \<open>overrun\<close>. \<open>Cpm_Records\<close> (with the locale
  \<open>block_store\<close>, interpreted on the file contents), \<open>Cpm_Names\<close> and \<open>Cpm_Console\<close> have the properties of records, file
  names and the line editor. \<open>Cpm_Entry\<close> composes processor and system: a \<open>CALL 5\<close> reaches \<open>_Bdos\<close> and
  returns, or ends the run of the processor when the call sets \<open>Status\<close>. \<open>Cpm_Ccp\<close> is the command processor. \<open>Cpm_Parse\<close> follows a typed name to the host file, \<open>Cpm_Return\<close> the
  way into a program and back, and \<open>Cpm_Sequence\<close> abstracts an open file to its contents and the number of the
  next record, over which \<open>Cpm_Programs\<close> shows what \<open>SAVE\<close> and the loader do.

  \<^bold>\<open>Macintosh firmware\<close>

  \<open>Pico_State\<close> has the globals, the queues of the state machines and the statements; \<open>Pico_Dcd\<close> the packet layer
  and the hard-disk commands; \<open>Pico_Packets\<close> and \<open>Pico_Commands\<close> the encoding on the wire with its handshakes
  and hold-offs, and what the commands do; \<open>Pico_Loop\<close> the main loop and the mode switch, with the invariant over
  all reachable states. What the hardware delivers (latch reads, words on the queues, answers of the ESP32) is input.

  \<^bold>\<open>SmartPort\<close>

  \<open>Slip_Codec\<close> is \<open>SLIP.cpp\<close>; \<open>split_reference\<close> compares it with a splitter on lists. \<open>Slip_Packets\<close> has the eleven
  request and the eleven response classes, each as a record with its methods, and the virtual methods as functions on
  the union of the classes; \<open>Slip_Requests\<close> shows which packets are accepted, what the devices find in the decoded
  command, and which messages survive the way over the wire. \<open>Slip_Bus\<close> has the state that the reading thread, the
  request thread and the bus share, and what each of them does between two locks; \<open>Slip_Service\<close> follows a request from
  the queue to a device and back to the wire (\<open>request_answered\<close>, \<open>bus_initialised\<close>), and shows what happens
  to one that arrives in pieces (\<open>fragment_lost\<close>). \<open>Slip_Threads\<close> interleaves the threads at their locks
  (\<open>thread_step\<close>): \<open>bus_invariant\<close> holds in every run, and \<open>requests_delivered\<close> says that every request of
  a batch reaches the queue once, in an order that depends on the threads. What
  a device does with a command, what the socket delivers and whether it sends are arguments.
  \<open>Smartport\<close> has the packet encoder and decoder of the hardware bus, \<open>Smartport_Receive\<close> the receiver with its running
  checksum, from the sampled bytes on; \<open>packet_accepted\<close> composes the three.

  \<^bold>\<open>Buffers and codecs\<close>

  \<open>Cbuf\<close> has the circular buffer on offsets into its block; the locale \<open>bounded_queue\<close> states what a queue with block
  operations promises and what follows for any sequence of calls, and is interpreted on the buffer.

  \<open>Base64\<close> has encoder and decoder for both alphabets; \<open>Strl\<close> the string functions on blocks with checked accesses.

  \<^bold>\<open>Bounds\<close>

  \<open>num_loop\<close> runs over the 256 positions of a byte counter, after which the loop of the code repeats;
  \<open>delete_loop\<close> over the number of files, after which a search that still succeeds succeeds for ever. The
  abstraction of open files covers files of up to 4096 records (512 KiB), which is more than the memory of
  the machine.

  \<^bold>\<open>Not modelled\<close>

  Vendored libraries (expat, mDNS, littlefs, mongoose, libssh, libsmb2, cJSON, libtnfs ports, the speech synthesizer SAM) and the
  web pages are not code of the project. The other device, bus, network protocol, printer and media classes are C++ around
  sockets, serial ports and the timing of buses; they enter only where RunCPM and the SmartPort bus call them. Of the
  SmartPort bus, making the connection, the sampling of the line, the REQ and ACK handshake and the Disk II
  interface are hardware or the operating system. In RunCPM the debugger, Lua,
  the logs and the other host abstractions are not compiled into the modelled build, and the FujiNet
  network calls of \<open>abstraction_fujinet.h\<close> are called from nowhere. Of the firmware, the PIO programs and the set-up of
  pins and clocks are hardware. The \<open>zlib\<close> code of the TELNET library is left out by its build switch. The prefixed Z80 instructions are
  modelled; the refinement theorem is about the unprefixed ones, \<open>LDIR\<close> and \<open>LDDR\<close>.
\<close>

end
